(* ===== verification/Prelude.thy ===== *)
theory Prelude
  imports Main "HOL-Library.AList" "HOL-Library.Sublist" "HOL-Library.Multiset"
begin

text \<open>
  Shared vocabulary of the development: the named theorem collections the component
  theories add their facts to, and generic lemmas on lists, options and association lists.

  A JavaScript \<open>Map\<close> is an association list in insertion order with distinct keys:
  \<^const>\<open>map_of\<close> is \<open>get\<close>, \<^const>\<open>AList.update\<close> is \<open>set\<close> (an existing key keeps its place, a
  new key goes to the end) and \<^const>\<open>AList.delete\<close> is \<open>delete\<close>. A JavaScript \<open>Set\<close> is a
  distinct list in insertion order.
\<close>

named_theorems heap_simps \<open>reading a heap after a write\<close>
named_theorems wf_intros \<open>preservation of well-formedness by an operation\<close>

subsection \<open>JavaScript sets as distinct lists\<close>

definition set_add :: "'a \<Rightarrow> 'a list \<Rightarrow> 'a list" where
  "set_add x xs = (if x \<in> set xs then xs else xs @ [x])"

definition set_del :: "'a \<Rightarrow> 'a list \<Rightarrow> 'a list" where
  "set_del x xs = filter (\<lambda>y. y \<noteq> x) xs"

lemma set_set_add [simp]: "set (set_add x xs) = insert x (set xs)"
  by (auto simp: set_add_def)

lemma set_set_del [simp]: "set (set_del x xs) = set xs - {x}"
  by (auto simp: set_del_def)

lemma distinct_set_add [simp]: "distinct xs \<Longrightarrow> distinct (set_add x xs)"
  by (auto simp: set_add_def)

lemma distinct_set_del [simp]: "distinct xs \<Longrightarrow> distinct (set_del x xs)"
  by (auto simp: set_del_def)

subsection \<open>JavaScript strings\<close>

text \<open>\<open>s.charAt(i)\<close>: a string of one character, or empty out of range.\<close>

definition char_at :: "string \<Rightarrow> nat \<Rightarrow> string" where
  "char_at s i = take 1 (drop i s)"

lemma char_at_in_range: "i < length s \<Longrightarrow> char_at s i = [s ! i]"
  by (simp add: char_at_def Cons_nth_drop_Suc [symmetric])

lemma char_at_0_Cons [simp]: "char_at (c # s) 0 = [c]"
  by (simp add: char_at_def)

lemma prefix_append_drop: "prefix p s \<Longrightarrow> p @ drop (length p) s = s"
  by (auto simp: prefix_def)

lemma drop_eq_Cons_nth: "i < length s \<Longrightarrow> drop i s = s ! i # drop (Suc i) s"
  by (simp add: Cons_nth_drop_Suc)

subsection \<open>Loops that may fail\<close>

text \<open>A \<open>for\<close> loop over a list whose body may not return.\<close>

fun fold_opt :: "('a \<Rightarrow> 's \<Rightarrow> 's option) \<Rightarrow> 'a list \<Rightarrow> 's \<Rightarrow> 's option" where
  "fold_opt f [] s = Some s"
| "fold_opt f (x # xs) s = (case f x s of None \<Rightarrow> None | Some s' \<Rightarrow> fold_opt f xs s')"

lemma fold_opt_cong [fundef_cong]:
  assumes "xs = ys" and "s = t" and "\<And>x s. x \<in> set ys \<Longrightarrow> f x s = g x s"
  shows "fold_opt f xs s = fold_opt g ys t"
  using assms by (induction ys arbitrary: xs s t) (auto split: option.splits)

lemma fold_opt_invariant:
  assumes "I s" and "\<And>x s. x \<in> set xs \<Longrightarrow> I s \<Longrightarrow> \<exists>s'. f x s = Some s' \<and> I s'"
  shows "\<exists>s'. fold_opt f xs s = Some s' \<and> I s'"
  using assms
proof (induction xs arbitrary: s)
  case Nil
  then show ?case by simp
next
  case (Cons x xs)
  obtain s1 where "f x s = Some s1" "I s1" using Cons.prems(2) [of x s] Cons.prems(1) by auto
  with Cons.IH [of s1] Cons.prems(2) show ?case by simp
qed

lemma fold_opt_append:
  "fold_opt f (xs @ ys) s = (case fold_opt f xs s of None \<Rightarrow> None | Some s' \<Rightarrow> fold_opt f ys s')"
  by (induction xs arbitrary: s) (auto split: option.splits)

text \<open>A \<open>for\<close> loop that collects results and stops at the first error.\<close>

fun map_err :: "('a \<Rightarrow> 'e + 'b) \<Rightarrow> 'a list \<Rightarrow> 'e + 'b list" where
  "map_err f [] = Inr []"
| "map_err f (x # xs) =
     (case f x of
        Inl e \<Rightarrow> Inl e
      | Inr y \<Rightarrow> (case map_err f xs of Inl e \<Rightarrow> Inl e | Inr ys \<Rightarrow> Inr (y # ys)))"

lemma map_err_Inr:
  "map_err f xs = Inr ys \<Longrightarrow> length ys = length xs \<and> (\<forall>i<length xs. f (xs ! i) = Inr (ys ! i))"
proof (induction xs arbitrary: ys)
  case Nil
  then show ?case by simp
next
  case (Cons x xs)
  then obtain y ys' where y: "f x = Inr y" "map_err f xs = Inr ys'" "ys = y # ys'"
    by (auto split: sum.splits)
  from Cons.IH [OF y(2)] y show ?case by (auto simp: less_Suc_eq_0_disj)
qed

subsection \<open>Association lists\<close>

lemma map_of_AList_update [simp]: "map_of (AList.update k v al) k' = ((map_of al)(k \<mapsto> v)) k'"
  by (simp add: update_conv)

lemma map_of_AList_delete [simp]: "map_of (AList.delete k al) k' = ((map_of al)(k := None)) k'"
  by (simp add: delete_conv)

lemma distinct_map_of_iff:
  "distinct (map fst al) \<Longrightarrow> (k, v) \<in> set al \<longleftrightarrow> map_of al k = Some v"
  by (metis map_of_SomeD map_of_is_SomeI)

subsection \<open>Association lists\<close>

lemma delete_fresh: "a \<notin> fst ` set ts \<Longrightarrow> AList.delete a ts = ts"
  by (auto simp: AList.delete_eq filter_id_conv image_iff)

lemma mem_update: "(b, k) \<in> set (AList.update a l ts) \<Longrightarrow> (b = a \<and> k = l) \<or> (b, k) \<in> set ts"
  by (induction ts) (auto split: if_splits)

lemma map_of_rev_distinct: "distinct (map fst xs) \<Longrightarrow> map_of (rev xs) = map_of xs"
  by (subst map_of_inject_set) (simp_all add: rev_map [symmetric])

lemma map_of_filter_distinct:
  "distinct (map fst xs) \<Longrightarrow> map_of xs k = Some v \<Longrightarrow> P (k, v) \<Longrightarrow> map_of (filter P xs) k = Some v"
  by (induction xs) (auto simp: image_iff map_of_eq_None_iff)

lemma snd_enumerate [simp]: "snd ` set (enumerate n xs) = set xs"
  by (metis set_map map_snd_enumerate)

end
