(* ===== verification/JsValue.thy ===== *)
theory JsValue
  imports Complex_Main "HOL-Library.Countable" Prelude
begin

text \<open>
  JavaScript values and the predicates, defaults and string functions of
  \<open>db/rule-util.js\<close> and \<open>common/common-util.js\<close> that every other component uses.

  An object is the list of its own properties in enumeration order; a finite number is its
  exact value (rounding of doubles is not modelled); a string is the list of its code units,
  which are below 256 here. What an object inherits from its prototype is not modelled.
\<close>

subsection \<open>Values\<close>

datatype jsval =
    JUndef
  | JNull
  | JBool bool
  | JNum rat
  | JNaN
  | JInf bool
  | JStr string
  | JArr "jsval list"
  | JObj "(string \<times> jsval) list"

fun isBool :: "jsval \<Rightarrow> bool" where
  "isBool (JBool _) = True"
| "isBool _ = False"

fun isNumber :: "jsval \<Rightarrow> bool" where
  "isNumber (JNum _) = True"
| "isNumber _ = False"

fun isInteger :: "jsval \<Rightarrow> bool" where
  "isInteger (JNum q) = (of_int \<lfloor>q\<rfloor> = q)"
| "isInteger _ = False"

fun isString :: "jsval \<Rightarrow> bool" where
  "isString (JStr _) = True"
| "isString _ = False"

fun isArray :: "jsval \<Rightarrow> bool" where
  "isArray (JArr _) = True"
| "isArray _ = False"

fun isDict :: "jsval \<Rightarrow> bool" where
  "isDict (JObj _) = True"
| "isDict _ = False"

fun isEmpty :: "jsval \<Rightarrow> bool" where
  "isEmpty JUndef = True"
| "isEmpty JNull = True"
| "isEmpty (JArr xs) = (xs = [])"
| "isEmpty (JObj ps) = (ps = [])"
| "isEmpty _ = False"

fun boolOrFalse :: "jsval \<Rightarrow> bool" where
  "boolOrFalse (JBool b) = b"
| "boolOrFalse _ = False"

fun numberOrZero :: "jsval \<Rightarrow> rat" where
  "numberOrZero (JNum q) = q"
| "numberOrZero _ = 0"

fun stringOrEmpty :: "jsval \<Rightarrow> string" where
  "stringOrEmpty (JStr s) = s"
| "stringOrEmpty _ = []"

definition toBool :: "jsval \<Rightarrow> bool" where
  "toBool v = (case v of JBool b \<Rightarrow> b | _ \<Rightarrow> v = JStr ''true'')"

text \<open>What JavaScript takes for true in a condition.\<close>

fun truthy :: "jsval \<Rightarrow> bool" where
  "truthy JUndef = False"
| "truthy JNull = False"
| "truthy (JBool b) = b"
| "truthy (JNum q) = (q \<noteq> 0)"
| "truthy JNaN = False"
| "truthy (JStr s) = (s \<noteq> [])"
| "truthy _ = True"

fun keys_of :: "jsval \<Rightarrow> string list" where
  "keys_of (JObj ps) = map fst ps"
| "keys_of _ = []"

fun values_of :: "jsval \<Rightarrow> jsval list" where
  "values_of (JObj ps) = map snd ps"
| "values_of _ = []"

fun length_of :: "jsval \<Rightarrow> nat" where
  "length_of (JStr s) = length s"
| "length_of (JArr xs) = length xs"
| "length_of (JObj ps) = length ps"
| "length_of _ = 0"

text \<open>Reading a property: \<open>undefined\<close> when it is missing.\<close>

fun prop_get :: "jsval \<Rightarrow> string \<Rightarrow> jsval" where
  "prop_get (JObj ps) k = (case map_of ps k of Some v \<Rightarrow> v | None \<Rightarrow> JUndef)"
| "prop_get _ k = JUndef"

fun has_prop :: "jsval \<Rightarrow> string \<Rightarrow> bool" where
  "has_prop (JObj ps) k = (k \<in> set (map fst ps))"
| "has_prop _ k = False"

subsection \<open>Strings\<close>

definition is_digit :: "char \<Rightarrow> bool" where
  "is_digit c = (48 \<le> (of_char c :: nat) \<and> (of_char c :: nat) \<le> 57)"

definition is_hex_digit :: "char \<Rightarrow> bool" where
  "is_hex_digit c =
     (is_digit c \<or> (65 \<le> (of_char c :: nat) \<and> (of_char c :: nat) \<le> 70)
      \<or> (97 \<le> (of_char c :: nat) \<and> (of_char c :: nat) \<le> 102))"

definition isHexString :: "string \<Rightarrow> bool" where
  "isHexString s = (prefix ''0x'' s \<and> list_all is_hex_digit (drop 2 s))"

definition isValidHash :: "string \<Rightarrow> bool" where
  "isValidHash s = (isHexString s \<and> length s = 66)"

definition isIntegerString :: "string \<Rightarrow> bool" where
  "isIntegerString s =
     (let d = (if prefix ''-'' s then drop 1 s else s) in d \<noteq> [] \<and> list_all is_digit d)"

text \<open>\<open>s.split(sep)\<close> for a separator of one character.\<close>

fun split_on :: "char \<Rightarrow> string \<Rightarrow> string list" where
  "split_on sep [] = [[]]"
| "split_on sep (c # s) =
     (if c = sep then [] # split_on sep s
      else (case split_on sep s of w # ws \<Rightarrow> (c # w) # ws | [] \<Rightarrow> [[c]]))"

fun join_with :: "string \<Rightarrow> string list \<Rightarrow> string" where
  "join_with sep [] = []"
| "join_with sep [w] = w"
| "join_with sep (w # ws) = w @ sep @ join_with sep ws"

lemma split_on_nonempty [simp]: "split_on sep s \<noteq> []"
  by (cases s) (auto split: list.splits)

lemma join_with_Cons_char: "join_with sep ((c # w) # ws) = c # join_with sep (w # ws)"
  by (cases ws) auto

lemma join_split_on: "join_with [sep] (split_on sep s) = s"
proof (induction s)
  case Nil
  then show ?case by simp
next
  case (Cons c s)
  then show ?case
    by (cases "split_on sep s") (auto simp: join_with_Cons_char neq_Nil_conv split: list.splits)
qed

lemma split_on_free: "w \<in> set (split_on sep s) \<Longrightarrow> sep \<notin> set w"
proof (induction s arbitrary: w)
  case Nil
  then show ?case by simp
next
  case (Cons c s)
  then show ?case by (cases "split_on sep s") (auto split: if_splits)
qed

lemma split_on_no_sep: "sep \<notin> set s \<Longrightarrow> split_on sep s = [s]"
  by (induction s) auto

lemma split_on_append_sep:
  "sep \<notin> set a \<Longrightarrow> split_on sep (a @ sep # b) = a # split_on sep b"
  by (induction a) auto


text \<open>A possibly \<open>null\<close> string inside a template literal or a string concatenation.\<close>

definition template :: "string option \<Rightarrow> string" where
  "template s = (case s of None \<Rightarrow> ''null'' | Some x \<Rightarrow> x)"

subsection \<open>Hexadecimal form of a label\<close>

text \<open>\<open>Buffer.from(str)\<close>: the UTF-8 bytes of a code unit below 256.\<close>

definition utf8 :: "char \<Rightarrow> nat list" where
  "utf8 c = (let n = of_char c in if n < 128 then [n] else [192 + n div 64, 128 + n mod 64])"

definition hex_digit :: "nat \<Rightarrow> char" where
  "hex_digit n = ''0123456789abcdef'' ! n"

definition hex_byte :: "nat \<Rightarrow> string" where
  "hex_byte n = [hex_digit (n div 16), hex_digit (n mod 16)]"

definition buffer_hex :: "string \<Rightarrow> string" where
  "buffer_hex s = concat (map hex_byte (concat (map utf8 s)))"

definition lower_char :: "char \<Rightarrow> char" where
  "lower_char c =
     (if 65 \<le> (of_char c :: nat) \<and> (of_char c :: nat) \<le> 90 then char_of ((of_char c :: nat) + 32) else c)"

definition toLowerCase :: "string \<Rightarrow> string" where
  "toLowerCase s = map lower_char s"

definition toHexString :: "string \<Rightarrow> bool \<Rightarrow> string" where
  "toHexString str withPrefix =
     (if isHexString str then
        if withPrefix then toLowerCase str else toLowerCase (drop 2 str)
      else
        let hexStr = buffer_hex str
        in if withPrefix then ''0x'' @ hexStr else hexStr)"

definition lower_hex :: "char set" where
  "lower_hex = {c. is_digit c \<or> (97 \<le> (of_char c :: nat) \<and> (of_char c :: nat) \<le> 102)}"

lemma hex_digit_lower: "n < 16 \<Longrightarrow> hex_digit n \<in> lower_hex"
proof -
  assume "n < 16"
  then have "hex_digit n \<in> set ''0123456789abcdef''" unfolding hex_digit_def by (intro nth_mem) simp
  also have "\<dots> \<subseteq> lower_hex" by (simp add: lower_hex_def is_digit_def)
  finally show ?thesis .
qed

lemma hex_digit_inj: "m < 16 \<Longrightarrow> n < 16 \<Longrightarrow> hex_digit m = hex_digit n \<Longrightarrow> m = n"
  unfolding hex_digit_def by (subst (asm) nth_eq_iff_index_eq) (simp_all)

lemma hex_byte_lower: "n < 256 \<Longrightarrow> set (hex_byte n) \<subseteq> lower_hex"
  by (simp add: hex_byte_def hex_digit_lower)

lemma hex_byte_inj: "m < 256 \<Longrightarrow> n < 256 \<Longrightarrow> hex_byte m = hex_byte n \<Longrightarrow> m = n"
proof -
  assume "m < 256" "n < 256" "hex_byte m = hex_byte n"
  then have "m div 16 = n div 16" "m mod 16 = n mod 16"
    by (auto simp: hex_byte_def intro: hex_digit_inj)
  then show "m = n" by (metis div_mult_mod_eq)
qed

lemma hex_bytes_inj:
  assumes "list_all (\<lambda>n. n < 256) ms" "list_all (\<lambda>n. n < 256) ns"
    and "concat (map hex_byte ms) = concat (map hex_byte ns)"
  shows "ms = ns"
  using assms
proof (induction ms arbitrary: ns)
  case Nil
  then show ?case by (cases ns) (auto simp: hex_byte_def)
next
  case (Cons m ms)
  then obtain n ns' where ns: "ns = n # ns'" by (cases ns) (auto simp: hex_byte_def)
  have len: "length (hex_byte k) = 2" for k by (simp add: hex_byte_def)
  from Cons.prems ns have "hex_byte m @ concat (map hex_byte ms) = hex_byte n @ concat (map hex_byte ns')"
    by simp
  then have "hex_byte m = hex_byte n" and "concat (map hex_byte ms) = concat (map hex_byte ns')"
    by (simp_all add: len)
  moreover from this(1) Cons.prems(1,2) ns have "m = n" using hex_byte_inj by simp
  ultimately show ?case using Cons.IH [of ns'] Cons.prems(1,2) ns by simp
qed

lemma utf8_bytes: "list_all (\<lambda>n. n < 256) (utf8 c)"
proof -
  have "n div 64 < 4 \<and> n mod 64 < 128" if "n < 256" for n :: nat
    using that mod_less_divisor [of 64 n] by linarith
  from this [of "of_char c"] show ?thesis by (auto simp: utf8_def Let_def)
qed

lemma utf8_inj:
  assumes "utf8 c @ r = utf8 d @ r'"
  shows "c = d \<and> r = r'"
proof -
  define m n where "m = (of_char c :: nat)" and "n = (of_char d :: nat)"
  have c: "c = char_of m" and d: "d = char_of n" by (simp_all add: m_def n_def)
  have lt: "m < 256" "n < 256" by (simp_all add: m_def n_def)
  have "m = n \<and> r = r'"
  proof (cases "m < 128")
    case True
    with assms lt show ?thesis
      by (auto simp: utf8_def Let_def m_def [symmetric] n_def [symmetric] split: if_splits)
  next
    case False
    with assms lt have "n \<ge> 128" and "m div 64 = n div 64" and "m mod 64 = n mod 64" and "r = r'"
      by (auto simp: utf8_def Let_def m_def [symmetric] n_def [symmetric] split: if_splits)
    then show ?thesis by (metis div_mult_mod_eq)
  qed
  then show ?thesis by (simp add: c d)
qed

lemma utf8_string_inj: "concat (map utf8 s) = concat (map utf8 t) \<Longrightarrow> s = t"
proof (induction s arbitrary: t)
  case Nil
  then show ?case by (cases t) (auto simp: utf8_def Let_def split: if_splits)
next
  case (Cons c s)
  then obtain d t' where "t = d # t'"
    by (cases t) (auto simp: utf8_def Let_def split: if_splits)
  with Cons show ?case by (auto dest: utf8_inj)
qed

lemma list_all_concat_utf8: "list_all (\<lambda>n. n < 256) (concat (map utf8 s))"
  using utf8_bytes by (induction s) (auto simp: list_all_iff)

lemma buffer_hex_inj: "buffer_hex s = buffer_hex t \<Longrightarrow> s = t"
  unfolding buffer_hex_def
  by (rule utf8_string_inj) (rule hex_bytes_inj [OF list_all_concat_utf8 list_all_concat_utf8])

lemma buffer_hex_lower: "set (buffer_hex s) \<subseteq> lower_hex"
proof -
  have "set (concat (map hex_byte bs)) \<subseteq> lower_hex" if "list_all (\<lambda>n. n < 256) bs" for bs
    using that hex_byte_lower by (induction bs) (simp_all del: set_concat)
  then show ?thesis using list_all_concat_utf8 by (simp only: buffer_hex_def)
qed

lemma lower_char_hex: "is_hex_digit c \<Longrightarrow> lower_char c \<in> lower_hex"
  by (auto simp: is_hex_digit_def is_digit_def lower_char_def lower_hex_def)

lemma toHexString_lower: "set (toHexString s False) \<subseteq> lower_hex"
  using buffer_hex_lower lower_char_hex
  by (auto simp: toHexString_def toLowerCase_def isHexString_def list_all_iff Let_def)

lemma toHexString_inj:
  "\<not> isHexString s \<Longrightarrow> \<not> isHexString t \<Longrightarrow> toHexString s False = toHexString t False \<Longrightarrow> s = t"
  by (simp add: toHexString_def Let_def buffer_hex_inj)

subsection \<open>Deep access, JSON and deep equality\<close>

text \<open>\<open>_.get(obj, path, default)\<close> of lodash, for a path of property names and indices.\<close>

datatype path_key = Key string | Idx nat

fun get_step :: "jsval \<Rightarrow> path_key \<Rightarrow> jsval" where
  "get_step (JArr xs) (Idx i) = (if i < length xs then xs ! i else JUndef)"
| "get_step v (Key k) = prop_get v k"
| "get_step v (Idx i) = JUndef"

definition js_get :: "jsval \<Rightarrow> path_key list \<Rightarrow> jsval \<Rightarrow> jsval" where
  "js_get v path dflt = (let w = foldl get_step v path in if w = JUndef then dflt else w)"

text \<open>\<open>JSON.parse(JSON.stringify(v))\<close> of a value that is not \<open>undefined\<close>.\<close>

fun json_norm :: "jsval \<Rightarrow> jsval" where
  "json_norm JUndef = JNull"
| "json_norm JNaN = JNull"
| "json_norm (JInf b) = JNull"
| "json_norm (JArr xs) = JArr (map json_norm xs)"
| "json_norm (JObj ps) = JObj (map (\<lambda>p. (fst p, json_norm (snd p))) (filter (\<lambda>p. snd p \<noteq> JUndef) ps))"
| "json_norm v = v"

text \<open>\<open>_.isEqual\<close>: the order of properties does not matter.\<close>

function js_equal :: "jsval \<Rightarrow> jsval \<Rightarrow> bool" where
  "js_equal v w =
     (case v of
        JArr xs \<Rightarrow> (case w of
            JArr ys \<Rightarrow> length xs = length ys \<and> list_all (\<lambda>p. js_equal (fst p) (snd p)) (zip xs ys)
          | _ \<Rightarrow> False)
      | JObj ps \<Rightarrow> (case w of
            JObj qs \<Rightarrow> length ps = length qs \<and>
              list_all (\<lambda>p. case map_of qs (fst p) of None \<Rightarrow> False | Some u \<Rightarrow> js_equal (snd p) u) ps
          | _ \<Rightarrow> False)
      | _ \<Rightarrow> v = w)"
  by pat_completeness auto

lemma size_zip_left: "p \<in> set (zip xs ys) \<Longrightarrow> size (fst p) \<le> size_list size xs"
  by (cases p) (auto dest!: set_zip_leftD intro: size_list_estimation')

lemma size_snd_le: "p \<in> set (ps :: (string \<times> jsval) list) \<Longrightarrow> size (snd p) < Suc (size_list (size_prod (\<lambda>_. 0) size) ps)"
  by (induction ps) (auto simp: less_Suc_eq_le)

termination js_equal
proof (relation "measure (size \<circ> fst)", goal_cases)
  case 1
  then show ?case by simp
next
  case (2 v w xs ys p)
  then show ?case using size_zip_left [of p xs ys] by simp
next
  case (3 v w ps qs p u)
  then show ?case using size_snd_le [of p ps] by simp
qed

declare js_equal.simps [simp del]

lemma js_equal_atoms [simp]:
  "js_equal JUndef w = (w = JUndef)" "js_equal JNull w = (w = JNull)" "js_equal (JBool b) w = (w = JBool b)"
  "js_equal (JNum q) w = (w = JNum q)" "js_equal (JStr s) w = (w = JStr s)"
  "js_equal JNaN w = (w = JNaN)" "js_equal (JInf b) w = (w = JInf b)"
  by (auto simp: js_equal.simps)

lemma js_equal_objD:
  assumes "js_equal (JObj ps) w"
  obtains qs where "w = JObj qs" "length ps = length qs"
    "\<And>k v. (k, v) \<in> set ps \<Longrightarrow> \<exists>u. map_of qs k = Some u \<and> js_equal v u"
  using assms
  by (cases w) (fastforce simp: js_equal.simps [of "JObj ps"] list_all_iff split: option.splits)+

lemma js_equal_arrD:
  assumes "js_equal (JArr xs) w"
  obtains ys where "w = JArr ys" "length xs = length ys"
    "\<And>i. i < length xs \<Longrightarrow> js_equal (xs ! i) (ys ! i)"
  using assms
  by (cases w) (auto simp: js_equal.simps [of "JArr xs"] list_all_iff set_zip, blast)

lemma js_equal_prop:
  assumes "js_equal (JObj ps) w" and "(k, v) \<in> set ps"
  shows "js_equal v (prop_get w k)"
proof -
  obtain qs where "w = JObj qs" "\<exists>u. map_of qs k = Some u \<and> js_equal v u"
    using js_equal_objD [OF assms(1)] assms(2) by metis
  then show ?thesis by auto
qed

lemma js_equal_keys:
  assumes "js_equal (JObj ps) w" and "distinct (map fst ps)"
  shows "set (keys_of w) = fst ` set ps"
proof -
  obtain qs where w: "w = JObj qs" and len: "length ps = length qs"
    and all: "\<And>k v. (k, v) \<in> set ps \<Longrightarrow> \<exists>u. map_of qs k = Some u \<and> js_equal v u"
    using js_equal_objD [OF assms(1)] by metis
  have "fst ` set ps \<subseteq> fst ` set qs"
    using all by (force dest: map_of_SomeD)
  moreover have "card (fst ` set qs) \<le> card (fst ` set ps)"
    using len card_length [of "map fst qs"] distinct_card [OF assms(2)] by simp
  ultimately have "fst ` set ps = fst ` set qs" by (intro card_seteq) auto
  then show ?thesis by (simp add: w)
qed

text \<open>Values whose objects have no repeated key, as in JavaScript.\<close>

fun js_wf :: "jsval \<Rightarrow> bool" where
  "js_wf (JArr xs) = list_all js_wf xs"
| "js_wf (JObj ps) = (distinct (map fst ps) \<and> list_all (\<lambda>p. js_wf (snd p)) ps)"
| "js_wf v = True"

lemma js_equal_refl: "js_wf v \<Longrightarrow> js_equal v v"
proof (induction v rule: js_wf.induct)
  case (1 xs)
  then show ?case by (auto simp: js_equal.simps [of "JArr xs"] list_all_iff set_zip)
next
  case (2 ps)
  then show ?case by (fastforce simp: js_equal.simps [of "JObj ps"] list_all_iff)
qed simp_all

lemma js_wf_json_norm: "js_wf v \<Longrightarrow> js_wf (json_norm v)"
proof (induction v rule: js_wf.induct)
  case (2 ps)
  have "distinct (map fst (filter P ps))" for P using 2 by (simp add: distinct_map_filter)
  with 2 show ?case by (auto simp: list_all_iff comp_def)
qed (simp_all add: list_all_iff)

instance char :: countable
  by (rule countable_classI [of "of_char :: char \<Rightarrow> nat"]) simp

instance jsval :: countable
  by countable_datatype

end
