(* ===== verification/NodeHeap.thy ===== *)
theory NodeHeap
  imports JsValue
begin

text \<open>
  The object store behind \<open>db/radix-node.js\<close>, \<open>db/radix-tree.js\<close> and \<open>db/state-node.js\<close>.
  Radix nodes and state nodes are shared between state versions and mutated in place, so they
  live in a heap: a \<open>rid\<close> is the address of a \<open>RadixNode\<close>, a \<open>sid\<close> that of a \<open>StateNode\<close>. A
  \<open>RadixTree\<close> belongs to one state node and is a field of it. \<open>next_rid\<close> and \<open>next_sid\<close> are the
  addresses the next \<open>new\<close> returns.

  Fields keep the names of the classes' fields, with the prefixes \<open>rn_\<close>, \<open>rt_\<close> and \<open>sn_\<close>.
  \<open>null\<close> is \<^const>\<open>None\<close>.
\<close>

type_synonym rid = nat
type_synonym sid = nat

record radix_node =
  rn_version :: "string option"
  rn_serial :: "nat option"
  rn_parentStateNode :: "sid option"
  rn_childStateNode :: "sid option"
  rn_labelRadix :: string
  rn_labelSuffix :: string
  rn_parentSet :: "rid list"
  rn_radixChildMap :: "(string \<times> rid) list"
  rn_proofHash :: "string option"
  rn_treeHeight :: nat
  rn_treeSize :: nat
  rn_treeBytes :: nat
  rn_treeMaxSiblings :: nat

record radix_tree =
  rt_version :: "string option"
  rt_nextSerial :: nat
  rt_root :: rid
  rt_numChildStateNodes :: int

record state_node =
  sn_version :: "string option"
  sn_label :: "string option"
  sn_isLeaf :: bool
  sn_value :: jsval
  sn_parentRadixNodeSet :: "rid list"
  sn_radixTree :: radix_tree
  sn_proofHash :: "string option"
  sn_treeHeight :: nat
  sn_treeSize :: nat
  sn_treeBytes :: nat
  sn_treeMaxSiblings :: nat

record heap =
  radix_nodes :: "rid \<Rightarrow> radix_node"
  state_nodes :: "sid \<Rightarrow> state_node"
  next_rid :: rid
  next_sid :: sid

abbreviation rn :: "heap \<Rightarrow> rid \<Rightarrow> radix_node" where
  "rn h n \<equiv> radix_nodes h n"

abbreviation sn :: "heap \<Rightarrow> sid \<Rightarrow> state_node" where
  "sn h n \<equiv> state_nodes h n"

text \<open>An assignment to fields of one object.\<close>

definition upd_rn :: "rid \<Rightarrow> (radix_node \<Rightarrow> radix_node) \<Rightarrow> heap \<Rightarrow> heap" where
  "upd_rn n f h = h\<lparr>radix_nodes := (radix_nodes h)(n := f (rn h n))\<rparr>"

definition upd_sn :: "sid \<Rightarrow> (state_node \<Rightarrow> state_node) \<Rightarrow> heap \<Rightarrow> heap" where
  "upd_sn n f h = h\<lparr>state_nodes := (state_nodes h)(n := f (sn h n))\<rparr>"

lemma upd_rn_simps [simp, heap_simps]:
  "rn (upd_rn n f h) m = (if m = n then f (rn h n) else rn h m)"
  "sn (upd_rn n f h) = sn h"
  "next_rid (upd_rn n f h) = next_rid h"
  "next_sid (upd_rn n f h) = next_sid h"
  by (simp_all add: upd_rn_def)

lemma upd_sn_simps [simp, heap_simps]:
  "rn (upd_sn n f h) = rn h"
  "sn (upd_sn n f h) m = (if m = n then f (sn h n) else sn h m)"
  "next_rid (upd_sn n f h) = next_rid h"
  "next_sid (upd_sn n f h) = next_sid h"
  by (simp_all add: upd_sn_def)

definition blank_radix_node :: "string option \<Rightarrow> nat option \<Rightarrow> sid option \<Rightarrow> radix_node" where
  "blank_radix_node version serial parentStateNode =
     \<lparr>rn_version = version, rn_serial = serial, rn_parentStateNode = parentStateNode,
      rn_childStateNode = None, rn_labelRadix = '''', rn_labelSuffix = '''', rn_parentSet = [],
      rn_radixChildMap = [], rn_proofHash = None, rn_treeHeight = 0, rn_treeSize = 0,
      rn_treeBytes = 0, rn_treeMaxSiblings = 0\<rparr>"

text \<open>\<open>new RadixNode(version, serial, parentStateNode)\<close>\<close>

definition newRadixNode ::
  "string option \<Rightarrow> nat option \<Rightarrow> sid option \<Rightarrow> heap \<Rightarrow> rid \<times> heap" where
  "newRadixNode version serial parentStateNode h =
     (next_rid h,
      h\<lparr>radix_nodes := (radix_nodes h)(next_rid h := blank_radix_node version serial parentStateNode),
        next_rid := Suc (next_rid h)\<rparr>)"

end
