(* ===== verification/RadixGraph.thy ===== *)
theory RadixGraph
  imports Prelude
begin

text \<open>
  The abstract view of the radix tree: a graph of nodes whose edges carry non-empty string
  labels. \<open>E n c = Some (suf, m)\<close> says that node \<open>n\<close> has a child \<open>m\<close> under the label
  \<open>c # suf\<close>; \<open>S n\<close> is the value held at \<open>n\<close>. Nodes are shared between versions, so the
  graph is a DAG with several roots. The lemmas here are about the graph only: which
  changes of the graph leave every lookup alone (splitting an edge, replacing a child by a
  copy, dropping an empty leaf, merging a node with its only child), and when a change of a
  value is visible from one root only. The theory RadixTree shows that the operations of the
  code make exactly these changes.
\<close>

type_synonym 'n edges = "'n \<Rightarrow> char \<Rightarrow> (string \<times> 'n) option"

fun walk :: "'n edges \<Rightarrow> 'n \<Rightarrow> string \<Rightarrow> 'n option" where
  "walk E n [] = Some n"
| "walk E n (c # r) =
     (case E n c of
        None \<Rightarrow> None
      | Some (suf, m) \<Rightarrow> if prefix suf r then walk E m (drop (length suf) r) else None)"

definition look :: "'n edges \<Rightarrow> ('n \<Rightarrow> 'v option) \<Rightarrow> 'n \<Rightarrow> string \<Rightarrow> 'v option" where
  "look E S n t = (case walk E n t of None \<Rightarrow> None | Some m \<Rightarrow> S m)"

text \<open>The edges that lead into a node, as pairs of a source and a first character.\<close>

definition inc :: "'n edges \<Rightarrow> 'n \<Rightarrow> ('n \<times> char) set" where
  "inc E n = {(p, c). \<exists>suf. E p c = Some (suf, n)}"

lemma in_inc_iff: "(p, c) \<in> inc E n \<longleftrightarrow> (\<exists>suf. E p c = Some (suf, n))"
  by (simp add: inc_def)

text \<open>
  A node is owned by a root when it is reached from the root along edges that are the only
  ones into their targets.
\<close>

inductive owned :: "'n edges \<Rightarrow> 'n \<Rightarrow> 'n \<Rightarrow> string \<Rightarrow> bool" for E root where
  owned_root: "inc E root = {} \<Longrightarrow> owned E root root []"
| owned_child: "owned E root p s \<Longrightarrow> E p c = Some (suf, n) \<Longrightarrow> inc E n = {(p, c)} \<Longrightarrow>
    owned E root n (s @ c # suf)"

lemma look_Nil [simp]: "look E S n [] = S n"
  by (simp add: look_def)

lemma look_Cons:
  "look E S n (c # r) =
     (case E n c of
        None \<Rightarrow> None
      | Some (suf, m) \<Rightarrow> if prefix suf r then look E S m (drop (length suf) r) else None)"
  by (auto simp: look_def split: option.splits prod.splits)

lemma walk_append: "walk E n s = Some m \<Longrightarrow> walk E n (s @ t) = walk E m t"
proof (induction E n s rule: walk.induct)
  case (1 E n)
  then show ?case by simp
next
  case (2 E n c r)
  from "2.prems" obtain suf k where e: "E n c = Some (suf, k)" and p: "prefix suf r"
    and w: "walk E k (drop (length suf) r) = Some m"
    by (auto split: option.splits prod.splits if_splits)
  from "2.IH" [OF e refl p w]
  have "walk E k (drop (length suf) r @ t) = walk E m t" .
  moreover have "drop (length suf) (r @ t) = drop (length suf) r @ t" "prefix suf (r @ t)"
    using p by (auto simp: prefix_def)
  ultimately show ?case using e by simp
qed

lemma walk_snoc:
  assumes "walk E n t = Some m" and "t \<noteq> []"
  obtains p t' c suf where "walk E n t' = Some p" "E p c = Some (suf, m)" "t = t' @ c # suf"
  using assms
proof (induction E n t arbitrary: thesis rule: walk.induct)
  case (1 E n)
  then show ?case by simp
next
  case (2 E n c r)
  from "2.prems"(2) obtain suf k where e: "E n c = Some (suf, k)" and p: "prefix suf r"
    and w: "walk E k (drop (length suf) r) = Some m"
    by (auto split: option.splits prod.splits if_splits)
  show ?case
  proof (cases "drop (length suf) r = []")
    case True
    with p have "r = suf" by (auto simp: prefix_def)
    moreover from w True have "k = m" by simp
    ultimately show ?thesis using "2.prems"(1) [of "[]" n c suf] e by simp
  next
    case False
    then obtain q t' c' suf' where q: "walk E k t' = Some q" "E q c' = Some (suf', m)"
      "drop (length suf) r = t' @ c' # suf'"
      using "2.IH" [OF e refl p _ w] by blast
    have "walk E n (c # suf @ t') = Some q" using e q(1) by simp
    moreover have "c # r = (c # suf @ t') @ c' # suf'"
      using p q(3) by (auto simp: prefix_def)
    ultimately show ?thesis using "2.prems"(1) q(2) by blast
  qed
qed

lemma owned_walk: "owned E root n s \<Longrightarrow> walk E root s = Some n"
proof (induction rule: owned.induct)
  case (owned_child p s c suf n)
  then show ?case using walk_append [OF owned_child.IH, of "c # suf"] by simp
qed simp

text \<open>Only the owning root reaches an owned node, and by one path only.\<close>

lemma owned_unique:
  assumes "owned E root n s" and "walk E m t = Some n" and "inc E m = {}"
  shows "m = root \<and> t = s"
  using assms
proof (induction arbitrary: t rule: owned.induct)
  case owned_root
  show ?case
  proof (cases "t = []")
    case True
    with owned_root show ?thesis by simp
  next
    case False
    with owned_root.prems(1) obtain p t' c suf where "E p c = Some (suf, root)"
      by (rule walk_snoc)
    then have "(p, c) \<in> inc E root" by (auto simp: in_inc_iff)
    with owned_root.hyps show ?thesis by simp
  qed
next
  case (owned_child p s c suf n)
  show ?case
  proof (cases "t = []")
    case True
    with owned_child.prems owned_child.hyps show ?thesis by simp
  next
    case False
    with owned_child.prems(1) obtain q t' c' suf'
      where q: "walk E m t' = Some q" "E q c' = Some (suf', n)" "t = t' @ c' # suf'"
      by (rule walk_snoc)
    from q(2) have "(q, c') \<in> inc E n" by (auto simp: in_inc_iff)
    with owned_child.hyps have "q = p" "c' = c" by auto
    with owned_child.IH [of t'] q owned_child.prems(2) owned_child.hyps(2) show ?thesis by simp
  qed
qed

text \<open>Changing the value of an owned node is seen from its root and at its path only.\<close>

lemma look_set_value:
  assumes "owned E root n s" and "inc E m = {}"
  shows "look E (S(n := v)) m t = (if m = root \<and> t = s then v else look E S m t)"
proof (cases "m = root \<and> t = s")
  case True
  with owned_walk [OF assms(1)] show ?thesis by (simp add: look_def)
next
  case False
  then have "walk E m t \<noteq> Some n" using owned_unique [OF assms(1) _ assms(2)] by blast
  then show ?thesis using False by (auto simp: look_def split: option.splits)
qed


subsection \<open>Changes of the graph that no lookup can see\<close>

text \<open>What a lookup finds behind one edge.\<close>

definition follow :: "'n edges \<Rightarrow> ('n \<Rightarrow> 'v option) \<Rightarrow> (string \<times> 'n) option \<Rightarrow> string \<Rightarrow> 'v option" where
  "follow E S e r =
     (case e of
        None \<Rightarrow> None
      | Some (suf, m) \<Rightarrow> if prefix suf r then look E S m (drop (length suf) r) else None)"

lemma follow_None [simp]: "follow E S None r = None"
  by (simp add: follow_def)

lemma follow_Some:
  "follow E S (Some (suf, m)) r = (if prefix suf r then look E S m (drop (length suf) r) else None)"
  by (simp add: follow_def)

lemma look_Cons_follow: "look E S n (c # r) = follow E S (E n c) r"
  by (simp add: look_Cons follow_def)

text \<open>An edge may be replaced by any edge behind which a lookup finds the same.\<close>

lemma look_replace:
  assumes "\<And>r. follow E S e r = follow E S (E p c) r"
  shows "look (E(p := (E p)(c := e))) S m t = look E S m t"
proof (induction t arbitrary: m rule: measure_induct_rule [where f = length])
  case (less t)
  let ?E = "E(p := (E p)(c := e))"
  show ?case
  proof (cases t)
    case Nil
    then show ?thesis by simp
  next
    case (Cons x r)
    have follow_eq: "follow ?E S e' r = follow E S e' r" for e'
      using less.IH Cons
      by (simp add: follow_def del: fun_upd_apply split: option.splits prod.splits)
    have "look ?E S m t = follow ?E S (?E m x) r" by (simp only: Cons look_Cons_follow)
    also have "\<dots> = follow E S (?E m x) r" by (rule follow_eq)
    also have "\<dots> = follow E S (E m x) r" by (cases "m = p \<and> x = c") (auto simp: assms)
    finally show ?thesis by (simp only: Cons look_Cons_follow)
  qed
qed

text \<open>A node without incoming edges can be filled in at will.\<close>

lemma look_isolated:
  assumes "inc E i = {}" and "m \<noteq> i"
  shows "look (E(i := F)) (S(i := v)) m t = look E S m t"
  using assms(2)
proof (induction t arbitrary: m rule: measure_induct_rule [where f = length])
  case (less t)
  show ?case
  proof (cases t)
    case Nil
    with less.prems show ?thesis by simp
  next
    case (Cons x r)
    have "k \<noteq> i" if "E m x = Some (suf, k)" for suf k
      using that assms(1) by (auto simp: inc_def)
    with less Cons show ?thesis by (auto simp: look_Cons split: option.splits prod.splits)
  qed
qed

lemma look_empty_node:
  assumes "\<And>x. E f x = None" and "S f = None"
  shows "look E S f t = None"
  using assms by (cases t) (simp_all add: look_Cons)

text \<open>A new leaf without a value.\<close>

lemma look_attach:
  assumes "E p c = None" and "\<And>x. E f x = None" and "S f = None"
  shows "look (E(p := (E p)(c \<mapsto> (suf, f)))) S m t = look E S m t"
  by (rule look_replace) (simp add: assms follow_Some look_empty_node)

text \<open>Dropping a leaf without a value.\<close>

lemma look_detach:
  assumes "E p c = Some (suf, f)" and "\<And>x. E f x = None" and "S f = None"
  shows "look (E(p := (E p)(c := None))) S m t = look E S m t"
  by (rule look_replace) (simp add: assms follow_Some look_empty_node)

text \<open>Replacing a child by a copy of it.\<close>

lemma look_copy:
  assumes "inc E n' = {}" and "n \<noteq> n'"
  shows "m \<noteq> n' \<Longrightarrow> look (E(n' := E n)) (S(n' := S n)) m t = look E S m t"
    and "look (E(n' := E n)) (S(n' := S n)) n' t = look E S n t"
proof -
  show old: "look (E(n' := E n)) (S(n' := S n)) m t = look E S m t" if "m \<noteq> n'" for m t
    by (rule look_isolated [OF assms(1) that])
  have "k \<noteq> n'" if "E n x = Some (suf, k)" for x suf k
    using that assms(1) by (auto simp: inc_def)
  then show "look (E(n' := E n)) (S(n' := S n)) n' t = look E S n t"
    using old by (cases t) (auto simp: look_Cons split: option.splits prod.splits)
qed

lemma look_clone_child:
  assumes "E p c = Some (suf, n)" and "inc E n' = {}" and "n \<noteq> n'" and "p \<noteq> n'" and "m \<noteq> n'"
  shows "look (E(n' := E n, p := (E p)(c \<mapsto> (suf, n')))) (S(n' := S n)) m t = look E S m t"
proof -
  let ?E = "E(n' := E n)" and ?S = "S(n' := S n)"
  have e: "?E p c = Some (suf, n)" using assms by simp
  have "look (?E(p := (?E p)(c \<mapsto> (suf, n')))) ?S m t = look ?E ?S m t"
    by (rule look_replace)
      (simp only: e follow_Some look_copy(1) [OF assms(2,3,3)] look_copy(2) [OF assms(2,3)])
  also have "\<dots> = look E S m t" by (rule look_copy(1) [OF assms(2,3,5)])
  finally show ?thesis using assms(4) by simp
qed

text \<open>Splitting an edge at a new node, and the reverse: merging a node with its only child.\<close>

lemma prefix_split: "prefix (u @ x # w) r \<longleftrightarrow> prefix u r \<and> (\<exists>r'. drop (length u) r = x # r' \<and> prefix w r')"
  by (auto simp: prefix_def)

lemma follow_split:
  assumes "E i = [x \<mapsto> (suf', n)]" and "S i = None"
  shows "follow E S (Some (cp, i)) r = follow E S (Some (cp @ x # suf', n)) r"
proof (cases "drop (length cp) r")
  case Nil
  then have "\<not> prefix (cp @ x # suf') r" by (simp add: prefix_split)
  with Nil assms show ?thesis by (simp add: follow_Some)
next
  case (Cons y r')
  then show ?thesis
    using assms drop_drop [of "Suc (length suf')" "length cp" r]
    by (auto simp: follow_Some prefix_split look_Cons add.commute)
qed

lemma look_split:
  assumes "E p c = Some (cp @ x # suf', n)" and "inc E i = {}" and "i \<noteq> p" and "i \<noteq> n"
    and "S i = None" and "m \<noteq> i"
  shows "look (E(i := [x \<mapsto> (suf', n)], p := (E p)(c \<mapsto> (cp, i)))) S m t = look E S m t"
proof -
  let ?E = "E(i := [x \<mapsto> (suf', n)])"
  have "look (?E(p := (?E p)(c \<mapsto> (cp, i)))) S m t = look ?E S m t"
    by (rule look_replace, subst follow_split) (use assms in simp_all)
  also have "\<dots> = look E S m t"
    using look_isolated [OF assms(2,6), of _ S "S i"] by simp
  finally show ?thesis using assms(3) by simp
qed

lemma look_merge:
  assumes "E p c = Some (suf, n)" and "E n = [x \<mapsto> (suf', k)]" and "S n = None"
    and "inc E n = {(p, c)}" and "n \<noteq> p" and "k \<noteq> n" and "m \<noteq> n"
  shows "look (E(n := (\<lambda>_. None), p := (E p)(c \<mapsto> (suf @ x # suf', k)))) S m t = look E S m t"
proof -
  let ?E = "E(p := (E p)(c \<mapsto> (suf @ x # suf', k)))"
  have "look ?E S m t = look E S m t"
  proof (rule look_replace)
    fix r
    show "follow E S (Some (suf @ x # suf', k)) r = follow E S (E p c) r"
      unfolding assms(1) using follow_split [of E n x suf' k S suf r] assms(2,3) by simp
  qed
  moreover have "inc ?E n = {}"
    using assms(4,6) by (auto simp: inc_def split: if_splits)
  then have "look (?E(n := (\<lambda>_. None))) S m t = look ?E S m t"
    using look_isolated [OF _ assms(7), of ?E "\<lambda>_. None" S "S n"] by simp
  ultimately show ?thesis using assms(5) by (simp add: fun_upd_twist)
qed

subsection \<open>Ownership under changes of the graph\<close>

lemma owned_cases:
  assumes "owned E root n s"
  obtains (root) "n = root" "s = []" "inc E root = {}"
    | (child) p s' c suf where "owned E root p s'" "E p c = Some (suf, n)" "inc E n = {(p, c)}"
        "s = s' @ c # suf"
  using assms by (rule owned.cases) blast+

lemma owned_pred:
  assumes "owned E root n s" and "(q, y) \<in> inc E n"
  shows "\<exists>t. owned E root q t"
  using assms(1)
proof (cases rule: owned_cases)
  case root
  with assms(2) show ?thesis by simp
next
  case (child p s' c suf)
  with assms(2) have "q = p" by simp
  with child(1) show ?thesis by blast
qed

lemma owned_inc: "owned E root n s \<Longrightarrow> inc E n = {} \<or> (\<exists>p c. inc E n = {(p, c)})"
  by (erule owned_cases) simp_all

text \<open>
  A change that keeps the edges into the owned nodes on the way to a node keeps the ownership
  of that node.
\<close>

lemma owned_change_upto:
  assumes "owned E root n s"
    and "\<And>m t p c suf. owned E root m t \<Longrightarrow> length t \<le> length s \<Longrightarrow> E p c = Some (suf, m) \<Longrightarrow>
      E' p c = Some (suf, m)"
    and "\<And>m t p c suf. owned E root m t \<Longrightarrow> length t \<le> length s \<Longrightarrow> E' p c = Some (suf, m) \<Longrightarrow>
      \<exists>suf'. E p c = Some (suf', m)"
  shows "owned E' root n s"
proof -
  have inc_eq: "inc E' m = inc E m" if "owned E root m t" "length t \<le> length s" for m t
    using assms(2,3) [OF that] unfolding inc_def by blast
  have "length t \<le> length s \<Longrightarrow> owned E' root m t" if "owned E root m t" for m t
    using that
  proof (induction rule: owned.induct)
    case owned_root
    then show ?case using inc_eq [OF owned.owned_root] by (simp add: owned.owned_root)
  next
    case (owned_child p u c suf k)
    have own: "owned E root k (u @ c # suf)"
      by (rule owned.owned_child [OF owned_child.hyps(1-3)])
    show ?case
      by (rule owned.owned_child [OF owned_child.IH assms(2) [OF own _ owned_child.hyps(2)]])
        (use owned_child.prems owned_child.hyps in \<open>simp_all add: inc_eq [OF own]\<close>)
  qed
  with assms(1) show ?thesis by simp
qed

lemma owned_change:
  assumes "owned E root n s"
    and "\<And>m t p c suf. owned E root m t \<Longrightarrow> E p c = Some (suf, m) \<Longrightarrow> E' p c = Some (suf, m)"
    and "\<And>m t p c suf. owned E root m t \<Longrightarrow> E' p c = Some (suf, m) \<Longrightarrow> \<exists>suf'. E p c = Some (suf', m)"
  shows "owned E' root n s"
  by (rule owned_change_upto [OF assms(1)]) (use assms(2,3) in blast)+

text \<open>Ownership is by one path only.\<close>

lemma owned_path_unique:
  assumes "owned E root n s" and "owned E root n t"
  shows "s = t"
proof -
  from assms(1) have "inc E root = {}" by (induction rule: owned.induct)
  with owned_unique [OF assms(1) owned_walk [OF assms(2)]] show ?thesis by simp
qed

text \<open>The child of an owned node is not above it, and if it is owned, it is owned below it.\<close>

lemma owned_below:
  assumes "owned E root n s" and "E n c = Some (suf, m)" and "owned E root m t"
  shows "t = s @ c # suf"
proof -
  have mem: "(n, c) \<in> inc E m" using assms(2) by (auto simp: in_inc_iff)
  with assms(3) have "inc E m = {(n, c)}" using owned_inc by fastforce
  then have "owned E root m (s @ c # suf)" using assms(1,2) by (intro owned_child)
  with assms(3) show ?thesis by (rule owned_path_unique)
qed

end
