(* ===== verification/RadixNode.thy ===== *)
theory RadixNode
  imports NodeHeap RadixGraph
begin

text \<open>
  \<open>db/radix-node.js\<close>: the operations that link radix nodes to each other and to state nodes,
  with the parent sets of \<open>db/state-node.js\<close> that they maintain. Each operation takes the heap
  and returns the new one; calls that only log an error and return leave the heap unchanged.
\<close>

subsection \<open>Parent radix nodes of a state node\<close>

definition hasParentRadixNode :: "heap \<Rightarrow> sid \<Rightarrow> rid \<Rightarrow> bool" where
  "hasParentRadixNode h s parentRadixNode = (parentRadixNode \<in> set (sn_parentRadixNodeSet (sn h s)))"

definition addParentRadixNode :: "sid \<Rightarrow> rid \<Rightarrow> heap \<Rightarrow> heap" where
  "addParentRadixNode s parentRadixNode h =
     (if hasParentRadixNode h s parentRadixNode then h
      else upd_sn s (\<lambda>x. x\<lparr>sn_parentRadixNodeSet := set_add parentRadixNode (sn_parentRadixNodeSet x)\<rparr>) h)"

definition deleteParentRadixNode :: "sid \<Rightarrow> rid \<Rightarrow> heap \<Rightarrow> heap" where
  "deleteParentRadixNode s parentRadixNode h =
     (if \<not> hasParentRadixNode h s parentRadixNode then h
      else upd_sn s (\<lambda>x. x\<lparr>sn_parentRadixNodeSet := set_del parentRadixNode (sn_parentRadixNodeSet x)\<rparr>) h)"

subsection \<open>The child state node of a radix node\<close>

definition hasChildStateNode :: "heap \<Rightarrow> rid \<Rightarrow> bool" where
  "hasChildStateNode h n = (rn_childStateNode (rn h n) \<noteq> None)"

definition setChildStateNode :: "rid \<Rightarrow> sid option \<Rightarrow> heap \<Rightarrow> heap" where
  "setChildStateNode n childStateNode h =
     (case childStateNode of
        None \<Rightarrow> h
      | Some s \<Rightarrow>
          let h1 = (case rn_childStateNode (rn h n) of
                      None \<Rightarrow> h
                    | Some existingStateNode \<Rightarrow> deleteParentRadixNode existingStateNode n h);
              h2 = (if hasParentRadixNode h1 s n then h1 else addParentRadixNode s n h1)
          in upd_rn n (\<lambda>x. x\<lparr>rn_childStateNode := Some s\<rparr>) h2)"

definition resetChildStateNode :: "rid \<Rightarrow> heap \<Rightarrow> heap" where
  "resetChildStateNode n h =
     (let h1 = (case rn_childStateNode (rn h n) of
                  None \<Rightarrow> h
                | Some s \<Rightarrow> deleteParentRadixNode s n h)
      in upd_rn n (\<lambda>x. x\<lparr>rn_childStateNode := None\<rparr>) h1)"

subsection \<open>Labels, parents and children\<close>

definition getLabel :: "heap \<Rightarrow> rid \<Rightarrow> string" where
  "getLabel h n = rn_labelRadix (rn h n) @ rn_labelSuffix (rn h n)"

definition hasParent :: "heap \<Rightarrow> rid \<Rightarrow> rid \<Rightarrow> bool" where
  "hasParent h n parent = (parent \<in> set (rn_parentSet (rn h n)))"

definition addParent :: "rid \<Rightarrow> rid \<Rightarrow> heap \<Rightarrow> heap" where
  "addParent n parent h =
     (if hasParent h n parent then h
      else upd_rn n (\<lambda>x. x\<lparr>rn_parentSet := set_add parent (rn_parentSet x)\<rparr>) h)"

definition deleteParent :: "rid \<Rightarrow> rid \<Rightarrow> heap \<Rightarrow> heap" where
  "deleteParent n parent h =
     (if \<not> hasParent h n parent then h
      else upd_rn n (\<lambda>x. x\<lparr>rn_parentSet := set_del parent (rn_parentSet x)\<rparr>) h)"

definition numParents :: "heap \<Rightarrow> rid \<Rightarrow> nat" where
  "numParents h n = length (rn_parentSet (rn h n))"

definition getChild :: "heap \<Rightarrow> rid \<Rightarrow> string \<Rightarrow> rid option" where
  "getChild h n labelRadix = map_of (rn_radixChildMap (rn h n)) labelRadix"

definition hasChild :: "heap \<Rightarrow> rid \<Rightarrow> string \<Rightarrow> bool" where
  "hasChild h n labelRadix = (getChild h n labelRadix \<noteq> None)"

definition numChildren :: "heap \<Rightarrow> rid \<Rightarrow> nat" where
  "numChildren h n = length (rn_radixChildMap (rn h n))"

text \<open>
  The order of \<open>localeCompare\<close> on label radices, which are single lower-case hexadecimal
  digits: the order of their codes. Array sorting is stable.
\<close>

definition radix_order :: "string \<Rightarrow> nat" where
  "radix_order k = (case k of [] \<Rightarrow> 0 | c # _ \<Rightarrow> Suc (of_char c))"

definition getChildLabelRadices :: "heap \<Rightarrow> rid \<Rightarrow> string list" where
  "getChildLabelRadices h n = sort_key radix_order (map fst (rn_radixChildMap (rn h n)))"

definition getChildNodes :: "heap \<Rightarrow> rid \<Rightarrow> rid list" where
  "getChildNodes h n = map snd (sort_key (radix_order \<circ> fst) (rn_radixChildMap (rn h n)))"

definition setChild :: "rid \<Rightarrow> string \<Rightarrow> string \<Rightarrow> rid \<Rightarrow> heap \<Rightarrow> heap \<times> bool" where
  "setChild n labelRadix labelSuffix node h =
     (if length labelRadix \<noteq> 1 then (h, False)
      else if getChild h n labelRadix = Some node then (h, False)
      else
        let h1 = (case getChild h n labelRadix of
                    None \<Rightarrow> h
                  | Some child \<Rightarrow> deleteParent child n h);
            h2 = upd_rn n (\<lambda>x. x\<lparr>rn_radixChildMap := AList.update labelRadix node (rn_radixChildMap x)\<rparr>) h1;
            h3 = upd_rn node (\<lambda>x. x\<lparr>rn_labelRadix := labelRadix, rn_labelSuffix := labelSuffix\<rparr>) h2
        in (addParent node n h3, True))"

definition deleteChild :: "rid \<Rightarrow> string \<Rightarrow> heap \<Rightarrow> heap \<times> bool" where
  "deleteChild n labelRadix h =
     (if length labelRadix \<noteq> 1 then (h, False)
      else case getChild h n labelRadix of
             None \<Rightarrow> (h, False)
           | Some child \<Rightarrow>
               let h1 = upd_rn n (\<lambda>x. x\<lparr>rn_radixChildMap := AList.delete labelRadix (rn_radixChildMap x)\<rparr>) h
               in (deleteParent child n h1, True))"

subsection \<open>Cloning\<close>

definition createRadixNode ::
  "string option \<Rightarrow> nat option \<Rightarrow> sid option \<Rightarrow> sid option \<Rightarrow> string \<Rightarrow> string \<Rightarrow> string option
   \<Rightarrow> nat \<Rightarrow> nat \<Rightarrow> nat \<Rightarrow> nat \<Rightarrow> heap \<Rightarrow> rid \<times> heap" where
  "createRadixNode version serial parentStateNode childStateNode labelRadix labelSuffix proofHash
     treeHeight treeSize treeBytes treeMaxSiblings h =
     (let (node, h1) = newRadixNode version serial parentStateNode h;
          h2 = (if childStateNode \<noteq> None then setChildStateNode node childStateNode h1 else h1);
          h3 = upd_rn node (\<lambda>x. x\<lparr>rn_labelRadix := labelRadix, rn_labelSuffix := labelSuffix,
                 rn_proofHash := proofHash, rn_treeHeight := treeHeight, rn_treeSize := treeSize,
                 rn_treeBytes := treeBytes, rn_treeMaxSiblings := treeMaxSiblings\<rparr>) h2
      in (node, h3))"

fun adoptChildren :: "rid \<Rightarrow> rid list \<Rightarrow> heap \<Rightarrow> heap" where
  "adoptChildren cloned [] h = h"
| "adoptChildren cloned (child # cs) h =
     adoptChildren cloned cs
       (fst (setChild cloned (rn_labelRadix (rn h child)) (rn_labelSuffix (rn h child)) child h))"

definition cloneRadixNode :: "rid \<Rightarrow> string option \<Rightarrow> sid option \<Rightarrow> heap \<Rightarrow> rid \<times> heap" where
  "cloneRadixNode n version parentStateNode h =
     (let x = rn h n;
          (cloned, h1) = createRadixNode version (rn_serial x) parentStateNode (rn_childStateNode x)
             (rn_labelRadix x) (rn_labelSuffix x) (rn_proofHash x) (rn_treeHeight x) (rn_treeSize x)
             (rn_treeBytes x) (rn_treeMaxSiblings x) h
      in (cloned, adoptChildren cloned (getChildNodes h1 n) h1))"

end
