(* ===== verification/RadixLinks.thy ===== *)
theory RadixLinks
  imports RadixNode
begin

text \<open>
  The invariant of the links between radix nodes, its preservation by the linking operations,
  and what each operation does to the graph view of the heap (theory RadixGraph).
\<close>

abbreviation kids :: "heap \<Rightarrow> rid \<Rightarrow> (string \<times> rid) list" where
  "kids h n \<equiv> rn_radixChildMap (rn h n)"

abbreviation pars :: "heap \<Rightarrow> rid \<Rightarrow> rid list" where
  "pars h n \<equiv> rn_parentSet (rn h n)"

text \<open>The graph of the heap: edges are labelled by the labels of the child nodes.\<close>

definition edges_of :: "heap \<Rightarrow> rid edges" where
  "edges_of h n c =
     (case map_of (kids h n) [c] of None \<Rightarrow> None | Some m \<Rightarrow> Some (rn_labelSuffix (rn h m), m))"

definition value_of :: "heap \<Rightarrow> rid \<Rightarrow> sid option" where
  "value_of h n = rn_childStateNode (rn h n)"

text \<open>
  Keys of a child map are single characters and are the label radix of the child; a node's
  parent set is exactly the set of nodes it is a child of; addresses not handed out are blank.
\<close>

definition wf_links :: "heap \<Rightarrow> bool" where
  "wf_links h \<longleftrightarrow>
     (\<forall>n k c. (k, c) \<in> set (kids h n) \<longrightarrow> (\<exists>x. k = [x]) \<and> rn_labelRadix (rn h c) = k \<and> c < next_rid h)
     \<and> (\<forall>n. distinct (map fst (kids h n)))
     \<and> (\<forall>n p. p \<in> set (pars h n) \<longleftrightarrow> n \<in> snd ` set (kids h p))
     \<and> (\<forall>n. distinct (pars h n))
     \<and> (\<forall>n. next_rid h \<le> n \<longrightarrow> kids h n = [] \<and> pars h n = [] \<and> rn_childStateNode (rn h n) = None)"

lemma wf_linksD:
  assumes "wf_links h"
  shows wf_kid_key: "(k, c) \<in> set (kids h n) \<Longrightarrow> \<exists>x. k = [x]"
    and wf_kid_radix: "(k, c) \<in> set (kids h n) \<Longrightarrow> rn_labelRadix (rn h c) = k"
    and wf_kid_bound: "(k, c) \<in> set (kids h n) \<Longrightarrow> c < next_rid h"
    and wf_distinct_kids: "distinct (map fst (kids h n))"
    and wf_pars_iff: "p \<in> set (pars h n) \<longleftrightarrow> n \<in> snd ` set (kids h p)"
    and wf_distinct_pars: "distinct (pars h n)"
    and wf_blank_kids: "next_rid h \<le> n \<Longrightarrow> kids h n = []"
    and wf_blank_pars: "next_rid h \<le> n \<Longrightarrow> pars h n = []"
    and wf_blank_value: "next_rid h \<le> n \<Longrightarrow> value_of h n = None"
  using assms by (simp_all add: wf_links_def value_of_def)

lemma wf_links_key:
  "wf_links h \<Longrightarrow> (k, c) \<in> set (kids h n) \<longleftrightarrow> map_of (kids h n) k = Some c"
  by (rule distinct_map_of_iff) (rule wf_distinct_kids)

lemma edges_of_Some:
  assumes "wf_links h"
  shows "edges_of h n x = Some (suf, m) \<longleftrightarrow> ([x], m) \<in> set (kids h n) \<and> rn_labelSuffix (rn h m) = suf"
  using assms by (auto simp: edges_of_def wf_links_key split: option.splits)

lemma edges_of_None_iff: "edges_of h n x = None \<longleftrightarrow> getChild h n [x] = None"
  by (auto simp: edges_of_def getChild_def split: option.splits)

lemma edges_of_getChild:
  "getChild h n [x] = Some m \<Longrightarrow> edges_of h n x = Some (rn_labelSuffix (rn h m), m)"
  by (simp add: edges_of_def getChild_def)

lemma pars_iff:
  assumes "wf_links h"
  shows "p \<in> set (pars h n) \<longleftrightarrow> (rn_labelRadix (rn h n), n) \<in> set (kids h p)"
  using assms wf_kid_radix by (force simp: wf_pars_iff)

text \<open>The edges into a node are given by its parent set and its label radix.\<close>

lemma inc_edges_of:
  assumes "wf_links h"
  shows "inc (edges_of h) n = (\<lambda>p. (p, hd (rn_labelRadix (rn h n)))) ` set (pars h n)"
proof -
  have "(p, x) \<in> inc (edges_of h) n \<longleftrightarrow> p \<in> set (pars h n) \<and> x = hd (rn_labelRadix (rn h n))" for p x
    using assms wf_kid_key [OF assms] wf_kid_radix [OF assms]
    by (fastforce simp: in_inc_iff edges_of_Some pars_iff)
  then show ?thesis by auto
qed

lemma inc_empty_iff: "wf_links h \<Longrightarrow> inc (edges_of h) n = {} \<longleftrightarrow> pars h n = []"
  by (simp add: inc_edges_of)

lemma inc_single:
  "wf_links h \<Longrightarrow> (p, x) \<in> inc (edges_of h) n \<Longrightarrow> numParents h n \<le> 1 \<Longrightarrow> inc (edges_of h) n = {(p, x)}"
  by (cases "pars h n") (auto simp: inc_edges_of numParents_def)

lemma inc_numParents:
  assumes "wf_links h" and "inc (edges_of h) n = {(p, x)}"
  shows "pars h n = [p]"
  using assms wf_distinct_pars [OF assms(1), of n]
  by (cases "pars h n"; cases "tl (pars h n)") (auto simp: inc_edges_of)

subsection \<open>New nodes\<close>

lemma newRadixNode_simps:
  assumes "newRadixNode v s p h = (i, h')"
  shows "i = next_rid h" "next_rid h' = Suc (next_rid h)" "state_nodes h' = state_nodes h"
    "next_sid h' = next_sid h"
    "rn h' n = (if n = next_rid h then blank_radix_node v s p else rn h n)"
  using assms by (auto simp: newRadixNode_def)

lemma newRadixNode_wf:
  assumes "newRadixNode v s p h = (i, h')" and "wf_links h"
  shows "wf_links h'"
proof -
  note new = newRadixNode_simps [OF assms(1)]
  have old: "kids h' n = kids h n" "pars h' n = pars h n" for n
    using assms(2) by (auto simp: new blank_radix_node_def wf_blank_kids wf_blank_pars)
  have bound: "c < next_rid h \<Longrightarrow> rn h' c = rn h c" for c by (simp add: new)
  show ?thesis
    using assms(2) unfolding wf_links_def old
    by (auto simp: new blank_radix_node_def dest: less_SucI)
qed

lemma newRadixNode_view:
  assumes "newRadixNode v s p h = (i, h')" and "wf_links h"
  shows "edges_of h' = edges_of h" "value_of h' = value_of h"
    "edges_of h i x = None" "value_of h i = None" "pars h i = []" "inc (edges_of h) i = {}"
proof -
  note new = newRadixNode_simps [OF assms(1)]
  have kid: "m < next_rid h" if "map_of (kids h n) k = Some m" for n k m
    using that assms(2) by (auto dest: map_of_SomeD wf_kid_bound)
  show "edges_of h' = edges_of h"
    using assms(2) kid
    by (intro ext) (auto simp: edges_of_def new blank_radix_node_def wf_blank_kids split: option.splits)
  show "value_of h' = value_of h"
    using assms(2) wf_blank_value [OF assms(2)] by (intro ext) (auto simp: value_of_def new blank_radix_node_def)
  show "edges_of h i x = None" "value_of h i = None" "pars h i = []" "inc (edges_of h) i = {}"
    using assms(2)
    by (simp_all add: edges_of_def new wf_blank_kids wf_blank_value wf_blank_pars inc_empty_iff)
qed


subsection \<open>Setting a child\<close>

text \<open>
  A node may be hung below \<open>n\<close> when it is detached, or when it already carries this label.
\<close>

definition linkable :: "heap \<Rightarrow> rid \<Rightarrow> char \<Rightarrow> string \<Rightarrow> rid \<Rightarrow> bool" where
  "linkable h n x suf node \<longleftrightarrow>
     n < next_rid h \<and> node < next_rid h \<and> n \<notin> set (pars h node) \<and>
     (pars h node = [] \<or> rn_labelRadix (rn h node) = [x] \<and> rn_labelSuffix (rn h node) = suf)"

lemma addParent_simps [heap_simps]:
  "kids (addParent m p h) n = kids h n"
  "rn_labelRadix (rn (addParent m p h) n) = rn_labelRadix (rn h n)"
  "rn_labelSuffix (rn (addParent m p h) n) = rn_labelSuffix (rn h n)"
  "rn_childStateNode (rn (addParent m p h) n) = rn_childStateNode (rn h n)"
  "rn_parentStateNode (rn (addParent m p h) n) = rn_parentStateNode (rn h n)"
  "state_nodes (addParent m p h) = state_nodes h"
  "next_rid (addParent m p h) = next_rid h" "next_sid (addParent m p h) = next_sid h"
  "pars (addParent m p h) n = (if n = m then set_add p (pars h n) else pars h n)"
  by (auto simp: addParent_def hasParent_def set_add_def)

lemma deleteParent_simps [heap_simps]:
  "kids (deleteParent m p h) n = kids h n"
  "rn_labelRadix (rn (deleteParent m p h) n) = rn_labelRadix (rn h n)"
  "rn_labelSuffix (rn (deleteParent m p h) n) = rn_labelSuffix (rn h n)"
  "rn_childStateNode (rn (deleteParent m p h) n) = rn_childStateNode (rn h n)"
  "rn_parentStateNode (rn (deleteParent m p h) n) = rn_parentStateNode (rn h n)"
  "state_nodes (deleteParent m p h) = state_nodes h"
  "next_rid (deleteParent m p h) = next_rid h" "next_sid (deleteParent m p h) = next_sid h"
  "pars (deleteParent m p h) n = (if n = m then set_del p (pars h n) else pars h n)"
  by (auto simp: deleteParent_def hasParent_def set_del_def intro!: filter_True [symmetric])

lemma getChild_kids: "wf_links h \<Longrightarrow> getChild h n k = Some m \<longleftrightarrow> (k, m) \<in> set (kids h n)"
  by (simp add: getChild_def wf_links_key)

lemma setChild_simps:
  assumes "wf_links h" and "linkable h n x suf node" and "setChild n [x] suf node h = (h', b)"
  shows "b" "next_rid h' = next_rid h" "next_sid h' = next_sid h" "state_nodes h' = state_nodes h"
    "kids h' m = (if m = n then AList.update [x] node (kids h n) else kids h m)"
    "rn_labelRadix (rn h' m) = (if m = node then [x] else rn_labelRadix (rn h m))"
    "rn_labelSuffix (rn h' m) = (if m = node then suf else rn_labelSuffix (rn h m))"
    "value_of h' = value_of h"
    "rn_parentStateNode (rn h' m) = rn_parentStateNode (rn h m)"
    "pars h' m = (if m = node then pars h m @ [n]
                  else if getChild h n [x] = Some m then set_del n (pars h m) else pars h m)"
proof -
  have free: "n \<notin> set (pars h node)" using assms(2) by (simp add: linkable_def)
  then have new: "getChild h n [x] \<noteq> Some node"
    using assms(1) by (force simp: getChild_kids wf_pars_iff)
  note eq = assms(3) [symmetric, unfolded setChild_def, simplified new]
  show "b" "next_rid h' = next_rid h" "next_sid h' = next_sid h" "state_nodes h' = state_nodes h"
    "kids h' m = (if m = n then AList.update [x] node (kids h n) else kids h m)"
    "rn_labelRadix (rn h' m) = (if m = node then [x] else rn_labelRadix (rn h m))"
    "rn_labelSuffix (rn h' m) = (if m = node then suf else rn_labelSuffix (rn h m))"
    "rn_parentStateNode (rn h' m) = rn_parentStateNode (rn h m)"
    using eq by (auto simp: Let_def heap_simps split: option.splits)
  show "value_of h' = value_of h"
    using eq by (auto simp: Let_def heap_simps value_of_def fun_eq_iff split: option.splits)
  show "pars h' m = (if m = node then pars h m @ [n]
                  else if getChild h n [x] = Some m then set_del n (pars h m) else pars h m)"
    using eq new free by (auto simp: Let_def heap_simps set_add_def split: option.splits)
qed

lemma set_AList_update:
  "distinct (map fst al) \<Longrightarrow>
     (a, b) \<in> set (AList.update k v al) \<longleftrightarrow> (if a = k then b = v else (a, b) \<in> set al)"
  using distinct_map_of_iff [of al a b] distinct_map_of_iff [of "AList.update k v al" a b]
  by (auto simp: distinct_update)

lemma set_AList_delete:
  "(a, b) \<in> set (AList.delete k al) \<longleftrightarrow> a \<noteq> k \<and> (a, b) \<in> set al"
  by (auto simp: AList.delete_eq)

lemma setChild_wf:
  assumes "wf_links h" and "linkable h n x suf node" and "setChild n [x] suf node h = (h', b)"
  shows "wf_links h'"
proof -
  note s = setChild_simps [OF assms]
  note wf = wf_linksD [OF assms(1)]
  have lk: "n < next_rid h" "node < next_rid h" "n \<notin> set (pars h node)"
    "pars h node = [] \<or> rn_labelRadix (rn h node) = [x]"
    using assms(2) by (auto simp: linkable_def)
  have old: "rn_labelRadix (rn h node) = [x]" if "(k, node) \<in> set (kids h m)" for k m
    using lk(4)
  proof
    assume "pars h node = []"
    with wf_pars_iff [OF assms(1), of m node] that have False by force
    then show ?thesis ..
  qed
  have mem: "(k, c) \<in> set (kids h' m) \<longleftrightarrow>
      (if m = n \<and> k = [x] then c = node else (k, c) \<in> set (kids h m))" for k c m
    by (simp add: s set_AList_update wf)
  have 1: "(\<exists>y. k = [y]) \<and> rn_labelRadix (rn h' c) = k \<and> c < next_rid h'"
    if "(k, c) \<in> set (kids h' m)" for m k c
  proof (cases "m = n \<and> k = [x]")
    case True
    with that have "c = node" unfolding mem by simp
    with True lk show ?thesis by (simp add: s(2,6))
  next
    case False
    with that have kc: "(k, c) \<in> set (kids h m)" unfolding mem by simp
    with wf_kid_key [OF assms(1) kc] wf_kid_radix [OF assms(1) kc] wf_kid_bound [OF assms(1) kc]
    show ?thesis using old by (auto simp: s(2,6))
  qed
  have 2: "distinct (map fst (kids h' m))" for m
    by (simp add: s wf distinct_update)
  have kid: "q \<in> snd ` set (kids h' p) \<longleftrightarrow>
      (\<exists>k. if p = n \<and> k = [x] then q = node else (k, q) \<in> set (kids h p))" for p q
    by (force simp: mem [symmetric])
  have 3: "p \<in> set (pars h' m) \<longleftrightarrow> m \<in> snd ` set (kids h' p)" for m p
  proof (cases "p = n")
    case False
    then have "m \<in> snd ` set (kids h' p) \<longleftrightarrow> m \<in> snd ` set (kids h p)"
      unfolding kid by force
    moreover from False have "p \<in> set (pars h' m) \<longleftrightarrow> p \<in> set (pars h m)" by (simp add: s(10))
    ultimately show ?thesis by (simp add: wf_pars_iff [OF assms(1)])
  next
    case True
    have r: "(k, m) \<in> set (kids h n) \<longleftrightarrow> n \<in> set (pars h m) \<and> k = rn_labelRadix (rn h m)" for k
      using wf_kid_radix [OF assms(1)] pars_iff [OF assms(1)] by blast
    have "m \<in> snd ` set (kids h' n) \<longleftrightarrow>
        m = node \<or> (n \<in> set (pars h m) \<and> rn_labelRadix (rn h m) \<noteq> [x])"
      unfolding kid r by auto
    also have "\<dots> \<longleftrightarrow> n \<in> set (pars h' m)"
      using r [of "[x]"] by (auto simp: s(10) getChild_kids [OF assms(1)])
    finally show ?thesis using True by blast
  qed
  have 4: "distinct (pars h' m)" for m
    using lk(3) by (simp add: s wf)
  have 5: "kids h' m = [] \<and> pars h' m = [] \<and> rn_childStateNode (rn h' m) = None"
    if "next_rid h' \<le> m" for m
    using that lk fun_cong [OF s(8), of m] wf_blank_value [OF assms(1), of m]
    by (auto simp: s(2,5,10) wf set_del_def value_of_def)
  from 1 2 3 4 5 show ?thesis unfolding wf_links_def by blast
qed

lemma setChild_view:
  assumes "wf_links h" and "linkable h n x suf node" and "setChild n [x] suf node h = (h', b)"
  shows "edges_of h' = (edges_of h)(n := (edges_of h n)(x \<mapsto> (suf, node)))"
proof (intro ext)
  fix m c
  note s = setChild_simps [OF assms]
  have "rn_labelSuffix (rn h k) = suf" if "map_of (kids h m) [c] = Some k" "k = node" for k
    using that assms(1,2) wf_pars_iff [OF assms(1), of m node]
    by (force simp: linkable_def dest: map_of_SomeD)
  then show "edges_of h' m c = ((edges_of h)(n := (edges_of h n)(x \<mapsto> (suf, node)))) m c"
    by (auto simp: edges_of_def s split: option.splits)
qed

subsection \<open>Deleting a child\<close>

lemma deleteChild_simps:
  assumes "wf_links h" and "getChild h n [x] = Some m" and "deleteChild n [x] h = (h', b)"
  shows "b" "next_rid h' = next_rid h" "next_sid h' = next_sid h" "state_nodes h' = state_nodes h"
    "kids h' k = (if k = n then AList.delete [x] (kids h n) else kids h k)"
    "rn_labelRadix (rn h' k) = rn_labelRadix (rn h k)"
    "rn_labelSuffix (rn h' k) = rn_labelSuffix (rn h k)"
    "value_of h' = value_of h"
    "rn_parentStateNode (rn h' k) = rn_parentStateNode (rn h k)"
    "pars h' k = (if k = m then set_del n (pars h k) else pars h k)"
proof -
  note eq = assms(3) [symmetric, unfolded deleteChild_def, simplified assms(2)]
  show "b" "next_rid h' = next_rid h" "next_sid h' = next_sid h" "state_nodes h' = state_nodes h"
    "kids h' k = (if k = n then AList.delete [x] (kids h n) else kids h k)"
    "rn_labelRadix (rn h' k) = rn_labelRadix (rn h k)"
    "rn_labelSuffix (rn h' k) = rn_labelSuffix (rn h k)"
    "rn_parentStateNode (rn h' k) = rn_parentStateNode (rn h k)"
    "pars h' k = (if k = m then set_del n (pars h k) else pars h k)"
    using eq by (auto simp: Let_def heap_simps)
  show "value_of h' = value_of h"
    using eq by (auto simp: Let_def heap_simps value_of_def fun_eq_iff)
qed

lemma deleteChild_wf:
  assumes "wf_links h" and "getChild h n [x] = Some m" and "deleteChild n [x] h = (h', b)"
  shows "wf_links h'"
proof -
  note s = deleteChild_simps [OF assms]
  note wf = wf_linksD [OF assms(1)]
  have mem: "(k, c) \<in> set (kids h' q) \<longleftrightarrow> \<not> (q = n \<and> k = [x]) \<and> (k, c) \<in> set (kids h q)" for k c q
    by (auto simp: s set_AList_delete)
  have 3: "p \<in> set (pars h' q) \<longleftrightarrow> q \<in> snd ` set (kids h' p)" for p q
  proof -
    have "q \<in> snd ` set (kids h' p) \<longleftrightarrow> (\<exists>k. (k, q) \<in> set (kids h' p))" by force
    also have "\<dots> \<longleftrightarrow> (rn_labelRadix (rn h q), q) \<in> set (kids h' p)"
      unfolding mem using wf_kid_radix [OF assms(1)] by blast
    also have "\<dots> \<longleftrightarrow> p \<in> set (pars h q) \<and> \<not> (p = n \<and> rn_labelRadix (rn h q) = [x])"
      by (auto simp: mem pars_iff [OF assms(1)])
    also have "\<dots> \<longleftrightarrow> p \<in> set (pars h' q)"
    proof -
      have "rn_labelRadix (rn h q) = [x] \<longleftrightarrow> q = m" if "n \<in> set (pars h q)"
      proof
        assume "rn_labelRadix (rn h q) = [x]"
        with that have "([x], q) \<in> set (kids h n)" by (simp add: pars_iff [OF assms(1)])
        with assms(2) show "q = m" by (simp add: getChild_kids [OF assms(1), symmetric])
      next
        assume "q = m"
        with assms(2) show "rn_labelRadix (rn h q) = [x]"
          by (simp add: getChild_kids [OF assms(1)] wf_kid_radix [OF assms(1)])
      qed
      then show ?thesis by (auto simp: s(10))
    qed
    finally show ?thesis by blast
  qed
  have 1: "(\<exists>y. k = [y]) \<and> rn_labelRadix (rn h' c) = k \<and> c < next_rid h'"
    if "(k, c) \<in> set (kids h' q)" for q k c
  proof -
    from that have kc: "(k, c) \<in> set (kids h q)" unfolding mem by simp
    from wf_kid_key [OF assms(1) kc] wf_kid_radix [OF assms(1) kc] wf_kid_bound [OF assms(1) kc]
    show ?thesis by (simp add: s(2,6))
  qed
  have 2: "distinct (map fst (kids h' q))" for q
    by (simp add: s(5) wf distinct_delete)
  have 4: "distinct (pars h' q)" for q
    by (simp add: s(10) wf)
  have 5: "kids h' q = [] \<and> pars h' q = [] \<and> rn_childStateNode (rn h' q) = None"
    if "next_rid h' \<le> q" for q
    using that fun_cong [OF s(8), of q] wf_blank_value [OF assms(1), of q]
    by (auto simp: s(2,5,10) wf set_del_def value_of_def)
  from 1 2 3 4 5 show ?thesis unfolding wf_links_def by blast
qed

lemma deleteChild_view:
  assumes "wf_links h" and "getChild h n [x] = Some m" and "deleteChild n [x] h = (h', b)"
  shows "edges_of h' = (edges_of h)(n := (edges_of h n)(x := None))"
  using deleteChild_simps [OF assms] by (intro ext) (auto simp: edges_of_def split: option.splits)


subsection \<open>Values\<close>

lemma sn_parent_simps [heap_simps]:
  "radix_nodes (addParentRadixNode s n h) = radix_nodes h"
  "next_rid (addParentRadixNode s n h) = next_rid h"
  "next_sid (addParentRadixNode s n h) = next_sid h"
  "radix_nodes (deleteParentRadixNode s n h) = radix_nodes h"
  "next_rid (deleteParentRadixNode s n h) = next_rid h"
  "next_sid (deleteParentRadixNode s n h) = next_sid h"
  by (simp_all add: addParentRadixNode_def deleteParentRadixNode_def)

lemma setChildStateNode_simps [heap_simps]:
  "rn (setChildStateNode n (Some s) h) m = (if m = n then (rn h n)\<lparr>rn_childStateNode := Some s\<rparr> else rn h m)"
  "next_rid (setChildStateNode n v h) = next_rid h"
  "next_sid (setChildStateNode n v h) = next_sid h"
  by (auto simp: setChildStateNode_def Let_def heap_simps split: option.splits)

lemma resetChildStateNode_simps [heap_simps]:
  "rn (resetChildStateNode n h) m = (if m = n then (rn h n)\<lparr>rn_childStateNode := None\<rparr> else rn h m)"
  "next_rid (resetChildStateNode n h) = next_rid h"
  "next_sid (resetChildStateNode n h) = next_sid h"
  by (auto simp: resetChildStateNode_def Let_def heap_simps split: option.splits)

lemma wf_links_same_links:
  assumes "wf_links h" and "\<And>m. kids h' m = kids h m" and "\<And>m. pars h' m = pars h m"
    and "\<And>m. pars h m \<noteq> [] \<Longrightarrow> rn_labelRadix (rn h' m) = rn_labelRadix (rn h m)"
    and "next_rid h' = next_rid h"
    and "\<And>m. next_rid h \<le> m \<Longrightarrow> rn_childStateNode (rn h' m) = None"
  shows "wf_links h'"
proof -
  have "rn_labelRadix (rn h' c) = k" if "(k, c) \<in> set (kids h m)" for k c m
  proof -
    have "m \<in> set (pars h c)" using that by (force simp: wf_pars_iff [OF assms(1)])
    then have "pars h c \<noteq> []" by auto
    with assms(4) that show ?thesis by (simp add: wf_kid_radix [OF assms(1)])
  qed
  then show ?thesis
    using assms(6) wf_kid_key [OF assms(1)] wf_kid_bound [OF assms(1)]
    unfolding wf_links_def assms(2,3,5)
    by (simp add: wf_linksD [OF assms(1)])
qed

lemma edges_of_same_links:
  assumes "wf_links h" and "\<And>m. kids h' m = kids h m"
    and "\<And>m. pars h m \<noteq> [] \<Longrightarrow> rn_labelSuffix (rn h' m) = rn_labelSuffix (rn h m)"
  shows "edges_of h' = edges_of h"
proof (intro ext)
  fix n c
  have "rn_labelSuffix (rn h' m) = rn_labelSuffix (rn h m)" if "map_of (kids h n) [c] = Some m" for m
  proof -
    have "n \<in> set (pars h m)" using that by (force simp: wf_pars_iff [OF assms(1)] dest: map_of_SomeD)
    then show ?thesis by (intro assms(3)) auto
  qed
  then show "edges_of h' n c = edges_of h n c" by (auto simp: edges_of_def assms(2) split: option.splits)
qed

lemma setChildStateNode_view:
  assumes "wf_links h" and "n < next_rid h"
  shows "wf_links (setChildStateNode n (Some s) h)"
    "edges_of (setChildStateNode n (Some s) h) = edges_of h"
    "value_of (setChildStateNode n (Some s) h) = (value_of h)(n := Some s)"
proof -
  show "wf_links (setChildStateNode n (Some s) h)"
    by (rule wf_links_same_links [OF assms(1)])
      (use assms wf_blank_value [OF assms(1)] in \<open>simp_all add: heap_simps value_of_def\<close>)
  show "edges_of (setChildStateNode n (Some s) h) = edges_of h"
    by (rule edges_of_same_links [OF assms(1)]) (simp_all add: heap_simps)
  show "value_of (setChildStateNode n (Some s) h) = (value_of h)(n := Some s)"
    by (rule ext) (simp add: heap_simps value_of_def)
qed

lemma resetChildStateNode_view:
  assumes "wf_links h"
  shows "wf_links (resetChildStateNode n h)"
    "edges_of (resetChildStateNode n h) = edges_of h"
    "value_of (resetChildStateNode n h) = (value_of h)(n := None)"
proof -
  show "wf_links (resetChildStateNode n h)"
    by (rule wf_links_same_links [OF assms(1)])
      (use assms wf_blank_value [OF assms(1)] in \<open>simp_all add: heap_simps value_of_def\<close>)
  show "edges_of (resetChildStateNode n h) = edges_of h"
    by (rule edges_of_same_links [OF assms(1)]) (simp_all add: heap_simps)
  show "value_of (resetChildStateNode n h) = (value_of h)(n := None)"
    by (rule ext) (simp add: heap_simps value_of_def)
qed

subsection \<open>Cloning\<close>

lemma adoptChildren_view:
  assumes "wf_links h" and "c < next_rid h" and "distinct (map (\<lambda>m. rn_labelRadix (rn h m)) cs)"
    and "\<And>m. m \<in> set cs \<Longrightarrow> m < next_rid h \<and> c \<notin> set (pars h m) \<and> (\<exists>x. rn_labelRadix (rn h m) = [x])"
    and "h' = adoptChildren c cs h"
  shows "wf_links h' \<and> next_rid h' = next_rid h \<and> next_sid h' = next_sid h
    \<and> state_nodes h' = state_nodes h \<and> value_of h' = value_of h
    \<and> (\<forall>m. rn_labelRadix (rn h' m) = rn_labelRadix (rn h m) \<and> rn_labelSuffix (rn h' m) = rn_labelSuffix (rn h m)
        \<and> rn_parentStateNode (rn h' m) = rn_parentStateNode (rn h m))
    \<and> (\<forall>n. n \<noteq> c \<longrightarrow> edges_of h' n = edges_of h n)
    \<and> (\<forall>m\<in>set cs. edges_of h' c (hd (rn_labelRadix (rn h m))) = Some (rn_labelSuffix (rn h m), m))
    \<and> (\<forall>x. (\<forall>m\<in>set cs. rn_labelRadix (rn h m) \<noteq> [x]) \<longrightarrow> edges_of h' c x = edges_of h c x)"
  using assms
proof (induction cs arbitrary: h)
  case Nil
  then show ?case by simp
next
  case (Cons m cs)
  obtain x where x: "rn_labelRadix (rn h m) = [x]" using Cons.prems(4) by auto
  let ?suf = "rn_labelSuffix (rn h m)"
  obtain h1 b where sc: "setChild c [x] ?suf m h = (h1, b)" by fastforce
  have lk: "linkable h c x ?suf m"
    using Cons.prems(2) Cons.prems(4) [of m] x by (simp add: linkable_def)
  note s = setChild_simps [OF Cons.prems(1) lk sc]
  have lab: "rn_labelRadix (rn h1 k) = rn_labelRadix (rn h k)"
    "rn_labelSuffix (rn h1 k) = rn_labelSuffix (rn h k)"
    "rn_parentStateNode (rn h1 k) = rn_parentStateNode (rn h k)" for k
    using x by (simp_all add: s(6,7,9))
  have fresh: "c \<notin> set (pars h1 k)" if "k \<in> set cs" for k
    using Cons.prems(3) Cons.prems(4) [of k] that by (auto simp: s(10))
  have h': "h' = adoptChildren c cs h1" using Cons.prems(5) by (simp add: x sc)
  have "m \<notin> set cs" using Cons.prems(3) by auto
  have IH: "wf_links h' \<and> next_rid h' = next_rid h1 \<and> next_sid h' = next_sid h1
    \<and> state_nodes h' = state_nodes h1 \<and> value_of h' = value_of h1
    \<and> (\<forall>m. rn_labelRadix (rn h' m) = rn_labelRadix (rn h1 m) \<and> rn_labelSuffix (rn h' m) = rn_labelSuffix (rn h1 m)
        \<and> rn_parentStateNode (rn h' m) = rn_parentStateNode (rn h1 m))
    \<and> (\<forall>n. n \<noteq> c \<longrightarrow> edges_of h' n = edges_of h1 n)
    \<and> (\<forall>m\<in>set cs. edges_of h' c (hd (rn_labelRadix (rn h1 m))) = Some (rn_labelSuffix (rn h1 m), m))
    \<and> (\<forall>x. (\<forall>m\<in>set cs. rn_labelRadix (rn h1 m) \<noteq> [x]) \<longrightarrow> edges_of h' c x = edges_of h1 c x)"
  proof (rule Cons.IH [OF setChild_wf [OF Cons.prems(1) lk sc] _ _ _ h'])
    show "c < next_rid h1" using Cons.prems(2) by (simp add: s(2))
    show "distinct (map (\<lambda>m. rn_labelRadix (rn h1 m)) cs)" using Cons.prems(3) by (simp add: lab)
    show "k < next_rid h1 \<and> c \<notin> set (pars h1 k) \<and> (\<exists>x. rn_labelRadix (rn h1 k) = [x])"
      if "k \<in> set cs" for k
      using Cons.prems(4) [of k] fresh [OF that] that by (simp add: s(2) lab)
  qed
  have e1: "edges_of h1 = (edges_of h)(c := (edges_of h c)(x \<mapsto> (?suf, m)))"
    by (rule setChild_view [OF Cons.prems(1) lk sc])
  have "\<forall>k\<in>set cs. rn_labelRadix (rn h k) \<noteq> [x]" using Cons.prems(3) x by (auto simp: image_iff)
  with IH have "edges_of h' c x = Some (?suf, m)" by (simp add: lab e1)
  with IH x show ?case by (auto simp: lab s(2,3,4,8) e1)
qed


lemma set_getChildNodes: "set (getChildNodes h n) = snd ` set (kids h n)"
  by (simp add: getChildNodes_def)

lemma distinct_radix_getChildNodes:
  assumes "wf_links h"
  shows "distinct (map (\<lambda>m. rn_labelRadix (rn h m)) (getChildNodes h n))"
proof -
  let ?l = "sort_key (radix_order \<circ> fst) (kids h n)"
  have "map (\<lambda>m. rn_labelRadix (rn h m)) (map snd ?l) = map fst ?l"
    by (auto simp: wf_kid_radix [OF assms])
  moreover have "mset (map fst ?l) = mset (map fst (kids h n))" by simp
  then have "distinct (map fst ?l)"
    using wf_distinct_kids [OF assms] by (metis mset_eq_imp_distinct_iff)
  ultimately show ?thesis by (simp only: getChildNodes_def)
qed

lemma createRadixNode_view:
  assumes "wf_links h"
    and "createRadixNode v s p cs r suf ph a1 a2 a3 a4 h = (c, h')"
  shows "c = next_rid h" "next_rid h' = Suc (next_rid h)" "wf_links h'"
    "edges_of h' = edges_of h" "value_of h' = (value_of h)(c := cs)"
    "rn_labelRadix (rn h' m) = (if m = c then r else rn_labelRadix (rn h m))"
    "rn_labelSuffix (rn h' m) = (if m = c then suf else rn_labelSuffix (rn h m))"
    "kids h' m = kids h m" "pars h' m = pars h m"
proof -
  obtain h1 where new: "newRadixNode v s p h = (c, h1)"
    using assms(2) by (auto simp: createRadixNode_def Let_def split: prod.splits)
  note n = newRadixNode_simps [OF new] and nv = newRadixNode_view [OF new assms(1)]
  note wf1 = newRadixNode_wf [OF new assms(1)]
  define h2 where "h2 = (if cs \<noteq> None then setChildStateNode c cs h1 else h1)"
  have h': "h' = upd_rn c (\<lambda>x. x\<lparr>rn_labelRadix := r, rn_labelSuffix := suf,
                 rn_proofHash := ph, rn_treeHeight := a1, rn_treeSize := a2,
                 rn_treeBytes := a3, rn_treeMaxSiblings := a4\<rparr>) h2"
    using assms(2) by (simp add: createRadixNode_def Let_def new h2_def)
  have "c < next_rid h1" using n by simp
  have wf2: "wf_links h2" and e2: "edges_of h2 = edges_of h1"
    and v2: "value_of h2 = (value_of h1)(c := cs)"
    using setChildStateNode_view [OF wf1 \<open>c < next_rid h1\<close>] wf1 nv(2,4)
    by (auto simp: h2_def)
  have old2: "next_rid h2 = next_rid h1" "kids h2 m = kids h1 m" "pars h2 m = pars h1 m"
    "rn_labelRadix (rn h2 m) = rn_labelRadix (rn h1 m)" "rn_labelSuffix (rn h2 m) = rn_labelSuffix (rn h1 m)" for m
    by (auto simp: h2_def heap_simps)
  have blank: "kids h c = []" "pars h c = []"
    using assms(1) n(1) by (simp_all add: wf_linksD)
  have pc: "pars h2 c = []" using n by (simp add: old2 blank_radix_node_def)
  show "c = next_rid h" "next_rid h' = Suc (next_rid h)"
    using n by (simp_all add: h' old2)
  show "wf_links h'"
    by (rule wf_links_same_links [OF wf2])
      (use pc wf_blank_value [OF wf2] in \<open>auto simp: h' value_of_def\<close>)
  have "edges_of h' = edges_of h2"
    by (rule edges_of_same_links [OF wf2]) (use pc in \<open>auto simp: h'\<close>)
  then show "edges_of h' = edges_of h" by (simp add: e2 nv)
  show "value_of h' = (value_of h)(c := cs)"
    using v2 nv(2) by (auto simp: h' value_of_def fun_eq_iff)
  show "rn_labelRadix (rn h' m) = (if m = c then r else rn_labelRadix (rn h m))"
    "rn_labelSuffix (rn h' m) = (if m = c then suf else rn_labelSuffix (rn h m))"
    "kids h' m = kids h m" "pars h' m = pars h m"
    using blank by (auto simp: h' old2 n blank_radix_node_def)
qed

lemma cloneRadixNode_view:
  assumes "wf_links h" and "n < next_rid h" and "cloneRadixNode n v p h = (c, h')"
  shows "c = next_rid h" "next_rid h' = Suc (next_rid h)" "wf_links h'"
    "edges_of h' = (edges_of h)(c := edges_of h n)"
    "value_of h' = (value_of h)(c := value_of h n)"
    "rn_labelRadix (rn h' m) = (if m = c then rn_labelRadix (rn h n) else rn_labelRadix (rn h m))"
    "rn_labelSuffix (rn h' m) = (if m = c then rn_labelSuffix (rn h n) else rn_labelSuffix (rn h m))"
proof -
  obtain h1 where cr: "createRadixNode v (rn_serial (rn h n)) p (rn_childStateNode (rn h n))
      (rn_labelRadix (rn h n)) (rn_labelSuffix (rn h n)) (rn_proofHash (rn h n)) (rn_treeHeight (rn h n))
      (rn_treeSize (rn h n)) (rn_treeBytes (rn h n)) (rn_treeMaxSiblings (rn h n)) h = (c, h1)"
    and h': "h' = adoptChildren c (getChildNodes h1 n) h1"
    using assms(3) by (auto simp: cloneRadixNode_def Let_def split: prod.splits)
  note c = createRadixNode_view [OF assms(1) cr]
  have kid: "m \<in> set (getChildNodes h1 n) \<longleftrightarrow> (\<exists>k. (k, m) \<in> set (kids h n))" for m
    by (force simp: set_getChildNodes c(8))
  have ne: "m \<noteq> c" if "(k, m) \<in> set (kids h q)" for k m q
    using wf_kid_bound [OF assms(1) that] c(1) by simp
  have cond: "m < next_rid h1 \<and> c \<notin> set (pars h1 m) \<and> (\<exists>x. rn_labelRadix (rn h1 m) = [x])"
    if "m \<in> set (getChildNodes h1 n)" for m
  proof -
    from that have "\<exists>k. (k, m) \<in> set (kids h n)" unfolding kid .
    then obtain k where k: "(k, m) \<in> set (kids h n)" ..
    have "c \<notin> set (pars h m)"
      using wf_pars_iff [OF assms(1), of c m] wf_blank_kids [OF assms(1), of c] c(1) by simp
    with k ne [OF k] show ?thesis
      using wf_kid_key [OF assms(1) k] wf_kid_radix [OF assms(1) k] wf_kid_bound [OF assms(1) k]
      by (simp add: c(2,6,9))
  qed
  have "c < next_rid h1" using c(1,2) by simp
  note a = adoptChildren_view [OF c(3) this distinct_radix_getChildNodes [OF c(3)] cond h']
  from a c show "c = next_rid h" "next_rid h' = Suc (next_rid h)" "wf_links h'"
    "value_of h' = (value_of h)(c := value_of h n)"
    "rn_labelRadix (rn h' m) = (if m = c then rn_labelRadix (rn h n) else rn_labelRadix (rn h m))"
    "rn_labelSuffix (rn h' m) = (if m = c then rn_labelSuffix (rn h n) else rn_labelSuffix (rn h m))"
    by (simp_all add: value_of_def)
  show "edges_of h' = (edges_of h)(c := edges_of h n)"
  proof (intro ext)
    fix q x
    show "edges_of h' q x = ((edges_of h)(c := edges_of h n)) q x"
    proof (cases "q = c")
      case False
      with a c(4) show ?thesis by simp
    next
      case True
      show ?thesis
      proof (cases "map_of (kids h n) [x]")
        case None
        then have "\<forall>m\<in>set (getChildNodes h1 n). rn_labelRadix (rn h1 m) \<noteq> [x]"
          using ne wf_kid_radix [OF assms(1)]
          by (auto simp: kid c(6) map_of_eq_None_iff image_iff) fastforce+
        with a True None show ?thesis
          using wf_blank_kids [OF assms(1), of c] c(1) by (simp add: c(4) edges_of_def)
      next
        case (Some m)
        then have m: "([x], m) \<in> set (kids h n)" by (rule map_of_SomeD)
        then have mc: "m \<in> set (getChildNodes h1 n)" unfolding kid by (rule exI)
        from a have "edges_of h' c (hd (rn_labelRadix (rn h1 m))) = Some (rn_labelSuffix (rn h1 m), m)"
          using mc by blast
        with True Some ne [OF m] wf_kid_radix [OF assms(1) m] show ?thesis
          by (simp add: c(6,7) edges_of_def)
      qed
    qed
  qed
qed

end
