(* ===== verification/RadixInfo.thy ===== *)
theory RadixInfo
  imports RadixLinks
begin

text \<open>
  \<open>db/radix-node.js\<close>: the Merkle information of radix nodes (proof hash, tree height, size,
  bytes and maximal number of siblings), its construction from the children, its propagation
  up and down, and its verification. The hash function, the size function of strings (package
  \<open>object-sizeof\<close>) and the \<open>LIGHTWEIGHT\<close> flag of the node configuration are parameters, kept in
  a record. The recursive procedures follow the links of the heap, so they carry fuel: \<^const>\<open>None\<close>
  is "not finished with this fuel", and \<open>height_le\<close> and \<open>depth_le\<close> say how much is enough.
\<close>

record env =
  env_hashMessage :: "string \<Rightarrow> string"
  env_sizeof :: "string \<Rightarrow> nat"
  env_LIGHTWEIGHT :: bool

definition hashString :: "env \<Rightarrow> string \<Rightarrow> string" where
  "hashString env stringData = ''0x'' @ env_hashMessage env stringData"

definition HASH_DELIMITER :: string where
  "HASH_DELIMITER = ''#''"

record radix_info =
  ri_preimage :: string
  ri_treeHeight :: nat
  ri_treeSize :: nat
  ri_treeBytes :: nat
  ri_treeMaxSiblings :: nat

definition getParentNodes :: "heap \<Rightarrow> rid \<Rightarrow> rid list" where
  "getParentNodes h n = rn_parentSet (rn h n)"

definition stateInfo :: "env \<Rightarrow> heap \<Rightarrow> rid \<Rightarrow> radix_info" where
  "stateInfo env h n =
     (case rn_childStateNode (rn h n) of
        None \<Rightarrow> \<lparr>ri_preimage = '''', ri_treeHeight = 0, ri_treeSize = 0, ri_treeBytes = 0,
                 ri_treeMaxSiblings = 0\<rparr>
      | Some s \<Rightarrow>
          \<lparr>ri_preimage = (if env_LIGHTWEIGHT env then '''' else template (sn_proofHash (sn h s))),
           ri_treeHeight = sn_treeHeight (sn h s),
           ri_treeSize = sn_treeSize (sn h s),
           ri_treeBytes = env_sizeof env (case sn_label (sn h s) of None \<Rightarrow> '''' | Some l \<Rightarrow> l)
                          + sn_treeBytes (sn h s),
           ri_treeMaxSiblings = sn_treeMaxSiblings (sn h s)\<rparr>)"

definition addChildInfo :: "env \<Rightarrow> heap \<Rightarrow> radix_info \<Rightarrow> rid \<Rightarrow> radix_info" where
  "addChildInfo env h acc child =
     \<lparr>ri_preimage =
        (if env_LIGHTWEIGHT env then ''''
         else ri_preimage acc @ HASH_DELIMITER @ getLabel h child @ HASH_DELIMITER
              @ template (rn_proofHash (rn h child))),
      ri_treeHeight = max (ri_treeHeight acc) (rn_treeHeight (rn h child)),
      ri_treeSize = ri_treeSize acc + rn_treeSize (rn h child),
      ri_treeBytes = ri_treeBytes acc + rn_treeBytes (rn h child),
      ri_treeMaxSiblings = max (ri_treeMaxSiblings acc) (rn_treeMaxSiblings (rn h child))\<rparr>"

text \<open>\<open>buildRadixInfo\<close>: the proof hash and the tree information (whose preimage is dropped).\<close>

definition buildRadixInfo :: "env \<Rightarrow> heap \<Rightarrow> rid \<Rightarrow> string \<times> radix_info" where
  "buildRadixInfo env h n =
     (let treeInfo = (stateInfo env h n)\<lparr>ri_preimage := ri_preimage (stateInfo env h n) @ HASH_DELIMITER\<rparr>;
          treeInfo =
            (if numChildren h n = 0
             then treeInfo\<lparr>ri_preimage := ri_preimage treeInfo @ HASH_DELIMITER\<rparr>
             else foldl (addChildInfo env h) treeInfo (getChildNodes h n))
      in (if env_LIGHTWEIGHT env then '''' else hashString env (ri_preimage treeInfo), treeInfo))"

definition updateRadixInfo :: "env \<Rightarrow> rid \<Rightarrow> heap \<Rightarrow> heap" where
  "updateRadixInfo env n h =
     (let (proofHash, treeInfo) = buildRadixInfo env h n
      in upd_rn n (\<lambda>x. x\<lparr>rn_proofHash := Some proofHash,
                         rn_treeHeight := ri_treeHeight treeInfo,
                         rn_treeSize := ri_treeSize treeInfo,
                         rn_treeBytes := ri_treeBytes treeInfo,
                         rn_treeMaxSiblings := ri_treeMaxSiblings treeInfo\<rparr>) h)"

definition verifyRadixInfo :: "env \<Rightarrow> heap \<Rightarrow> rid \<Rightarrow> bool" where
  "verifyRadixInfo env h n =
     (let (proofHash, treeInfo) = buildRadixInfo env h n
      in rn_proofHash (rn h n) = Some proofHash \<and>
         rn_treeHeight (rn h n) = ri_treeHeight treeInfo \<and>
         rn_treeSize (rn h n) = ri_treeSize treeInfo \<and>
         rn_treeBytes (rn h n) = ri_treeBytes treeInfo \<and>
         rn_treeMaxSiblings (rn h n) = ri_treeMaxSiblings treeInfo)"

fun updateRadixInfoForRadixTree :: "env \<Rightarrow> nat \<Rightarrow> rid \<Rightarrow> heap \<Rightarrow> (heap \<times> nat) option" where
  "updateRadixInfoForRadixTree env 0 n h = None"
| "updateRadixInfoForRadixTree env (Suc fuel) n h =
     (case fold_opt (\<lambda>child (h, numAffectedNodes).
              case updateRadixInfoForRadixTree env fuel child h of
                None \<Rightarrow> None
              | Some (h', k) \<Rightarrow> Some (h', numAffectedNodes + k))
            (getChildNodes h n) (h, 0) of
        None \<Rightarrow> None
      | Some (h', numAffectedNodes) \<Rightarrow> Some (updateRadixInfo env n h', Suc numAffectedNodes))"

fun updateRadixInfoForAllRootPaths :: "env \<Rightarrow> nat \<Rightarrow> rid \<Rightarrow> heap \<Rightarrow> (heap \<times> nat) option" where
  "updateRadixInfoForAllRootPaths env 0 n h = None"
| "updateRadixInfoForAllRootPaths env (Suc fuel) n h =
     (let h1 = updateRadixInfo env n h
      in fold_opt (\<lambda>parent (h, numAffectedNodes).
              case updateRadixInfoForAllRootPaths env fuel parent h of
                None \<Rightarrow> None
              | Some (h', k) \<Rightarrow> Some (h', numAffectedNodes + k))
            (getParentNodes h1 n) (h1, 1))"

fun verifyRadixInfoForRadixTree :: "env \<Rightarrow> nat \<Rightarrow> heap \<Rightarrow> rid \<Rightarrow> bool option" where
  "verifyRadixInfoForRadixTree env 0 h n = None"
| "verifyRadixInfoForRadixTree env (Suc fuel) h n =
     (if \<not> verifyRadixInfo env h n then Some False
      else fold_opt (\<lambda>child ok. if \<not> ok then Some False else verifyRadixInfoForRadixTree env fuel h child)
             (getChildNodes h n) True)"

text \<open>Enough fuel: a bound on the length of the paths down to the leaves, or up to the roots.\<close>

fun height_le :: "heap \<Rightarrow> nat \<Rightarrow> rid \<Rightarrow> bool" where
  "height_le h 0 n = False"
| "height_le h (Suc k) n = list_all (height_le h k) (map snd (rn_radixChildMap (rn h n)))"

fun depth_le :: "heap \<Rightarrow> nat \<Rightarrow> rid \<Rightarrow> bool" where
  "depth_le h 0 n = False"
| "depth_le h (Suc k) n = list_all (depth_le h k) (rn_parentSet (rn h n))"

end
