(* ===== verification/RadixTree.thy ===== *)
theory RadixTree
  imports RadixInfo
begin

text \<open>
  \<open>db/radix-tree.js\<close>. A tree is the record of its fields (version, next serial number, root
  node, number of state nodes below); every operation takes the tree and the heap and returns
  both. The three traversals are loops over the index into the radix label, which grows in
  every round.
\<close>

definition treeNewRadixNode :: "sid option \<Rightarrow> radix_tree \<Rightarrow> heap \<Rightarrow> rid \<times> radix_tree \<times> heap" where
  "treeNewRadixNode parentStateNode t h =
     (let (n, h') = newRadixNode (rt_version t) (Some (rt_nextSerial t)) parentStateNode h
      in (n, t\<lparr>rt_nextSerial := Suc (rt_nextSerial t)\<rparr>, h'))"

text \<open>\<open>new RadixTree(version, parentStateNode)\<close>\<close>

definition newRadixTree :: "string option \<Rightarrow> sid option \<Rightarrow> heap \<Rightarrow> radix_tree \<times> heap" where
  "newRadixTree version parentStateNode h =
     (let t = \<lparr>rt_version = version, rt_nextSerial = 0, rt_root = 0, rt_numChildStateNodes = 0\<rparr>;
          (root, t, h) = treeNewRadixNode parentStateNode t h
      in (t\<lparr>rt_root := root\<rparr>, h))"

definition cloneRadixTree ::
  "radix_tree \<Rightarrow> string option \<Rightarrow> sid option \<Rightarrow> heap \<Rightarrow> radix_tree \<times> heap" where
  "cloneRadixTree t version parentStateNode h =
     (let (clonedTree, h) = newRadixTree version None h;
          (root, h) = cloneRadixNode (rt_root t) version parentStateNode h
      in (clonedTree\<lparr>rt_nextSerial := rt_nextSerial t, rt_root := root,
                     rt_numChildStateNodes := rt_numChildStateNodes t\<rparr>, h))"

definition toRadixLabel :: "string \<Rightarrow> string" where
  "toRadixLabel stateLabel = toHexString stateLabel False"

definition matchLabelSuffix :: "heap \<Rightarrow> rid \<Rightarrow> string \<Rightarrow> nat \<Rightarrow> bool" where
  "matchLabelSuffix h radixNode radixLabel index =
     (let labelSuffix = rn_labelSuffix (rn h radixNode)
      in labelSuffix = [] \<or>
         length labelSuffix \<le> length radixLabel - index \<and> prefix labelSuffix (drop index radixLabel))"

fun getCommonPrefix :: "string \<Rightarrow> string \<Rightarrow> string" where
  "getCommonPrefix (a # s) (b # t) = (if a \<noteq> b then [] else a # getCommonPrefix s t)"
| "getCommonPrefix s t = []"

definition setChildWithLabel :: "rid \<Rightarrow> string \<Rightarrow> rid \<Rightarrow> heap \<Rightarrow> heap" where
  "setChildWithLabel node childLabel child h =
     fst (setChild node (char_at childLabel 0) (drop 1 childLabel) child h)"

subsection \<open>The three traversals\<close>

function radixNodeForReading :: "heap \<Rightarrow> string \<Rightarrow> rid \<Rightarrow> nat \<Rightarrow> rid option" where
  "radixNodeForReading h radixLabel curNode labelIndex =
     (if labelIndex < length radixLabel then
        (case getChild h curNode (char_at radixLabel labelIndex) of
           None \<Rightarrow> None
         | Some child \<Rightarrow>
             if \<not> matchLabelSuffix h child radixLabel (labelIndex + 1) then None
             else radixNodeForReading h radixLabel child
                    (labelIndex + (1 + length (rn_labelSuffix (rn h child)))))
      else Some curNode)"
  by pat_completeness auto
termination
  by (relation "measure (\<lambda>(h, radixLabel, curNode, labelIndex). length radixLabel - labelIndex)") auto

declare radixNodeForReading.simps [simp del]

text \<open>Cases 1 and 2 of \<open>_getRadixNodeForSetting\<close>, which leave the loop.\<close>

definition insertLeaf ::
  "string \<Rightarrow> rid \<Rightarrow> nat \<Rightarrow> radix_tree \<Rightarrow> heap \<Rightarrow> rid \<times> radix_tree \<times> heap" where
  "insertLeaf radixLabel curNode labelIndex t h =
     (let (newChild, t, h) = treeNewRadixNode None t h;
          labelSuffix = drop (labelIndex + 1) radixLabel
      in (newChild, t, fst (setChild curNode (char_at radixLabel labelIndex) labelSuffix newChild h)))"

definition splitChild ::
  "string \<Rightarrow> rid \<Rightarrow> nat \<Rightarrow> rid \<Rightarrow> radix_tree \<Rightarrow> heap \<Rightarrow> rid \<times> radix_tree \<times> heap" where
  "splitChild radixLabel curNode labelIndex child t h =
     (let (child, h) = (if numParents h child > 1 then cloneRadixNode child (rt_version t) None h
                        else (child, h));
          childLabelRadix = char_at radixLabel labelIndex;
          labelSuffix = drop (labelIndex + 1) radixLabel;
          childLabelSuffix = rn_labelSuffix (rn h child);
          commonPrefix = getCommonPrefix labelSuffix childLabelSuffix;
          h = fst (deleteChild curNode childLabelRadix h);
          (internalNode, t, h) = treeNewRadixNode None t h;
          h = fst (setChild curNode childLabelRadix commonPrefix internalNode h)
      in if length commonPrefix = length labelSuffix then
           let childNewLabel = drop (length commonPrefix) childLabelSuffix
           in (internalNode, t, setChildWithLabel internalNode childNewLabel child h)
         else
           let childNewLabel = drop (length commonPrefix) childLabelSuffix;
               h = setChildWithLabel internalNode childNewLabel child h;
               (newChild, t, h) = treeNewRadixNode None t h;
               newChildLabel = drop (length commonPrefix) labelSuffix
           in (newChild, t, setChildWithLabel internalNode newChildLabel newChild h))"

text \<open>Case 3: step into the child, on a copy of it when it has several parents.\<close>

definition stepIntoChild :: "rid \<Rightarrow> string \<Rightarrow> rid \<Rightarrow> radix_tree \<Rightarrow> heap \<Rightarrow> rid \<times> heap" where
  "stepIntoChild curNode childLabelRadix child t h =
     (if numParents h child > 1 then
        let childLabelSuffix = rn_labelSuffix (rn h child);
            (clonedChild, h) = cloneRadixNode child (rt_version t) None h
        in (clonedChild, fst (setChild curNode childLabelRadix childLabelSuffix clonedChild h))
      else (child, h))"

function radixNodeForSetting ::
  "string \<Rightarrow> rid \<Rightarrow> nat \<Rightarrow> radix_tree \<Rightarrow> heap \<Rightarrow> rid \<times> radix_tree \<times> heap" where
  "radixNodeForSetting radixLabel curNode labelIndex t h =
     (if labelIndex < length radixLabel then
        (case getChild h curNode (char_at radixLabel labelIndex) of
           None \<Rightarrow> insertLeaf radixLabel curNode labelIndex t h
         | Some child \<Rightarrow>
             if \<not> matchLabelSuffix h child radixLabel (labelIndex + 1)
             then splitChild radixLabel curNode labelIndex child t h
             else
               let childLabelSuffix = rn_labelSuffix (rn h child);
                   (nextNode, h) = stepIntoChild curNode (char_at radixLabel labelIndex) child t h
               in radixNodeForSetting radixLabel nextNode
                    (labelIndex + (1 + length childLabelSuffix)) t h)
      else (curNode, t, h))"
  by pat_completeness auto
termination
  by (relation "measure (\<lambda>(radixLabel, curNode, labelIndex, t, h). length radixLabel - labelIndex)") auto

declare radixNodeForSetting.simps [simp del]

function radixNodeForDeleting ::
  "string \<Rightarrow> rid \<Rightarrow> nat \<Rightarrow> radix_tree \<Rightarrow> heap \<Rightarrow> rid option \<times> heap" where
  "radixNodeForDeleting radixLabel curNode labelIndex t h =
     (if labelIndex < length radixLabel then
        (case getChild h curNode (char_at radixLabel labelIndex) of
           None \<Rightarrow> (None, h)
         | Some child \<Rightarrow>
             if \<not> matchLabelSuffix h child radixLabel (labelIndex + 1) then (None, h)
             else
               let childLabelSuffix = rn_labelSuffix (rn h child);
                   (nextNode, h) = stepIntoChild curNode (char_at radixLabel labelIndex) child t h
               in radixNodeForDeleting radixLabel nextNode
                    (labelIndex + (1 + length childLabelSuffix)) t h)
      else (Some curNode, h))"
  by pat_completeness auto
termination
  by (relation "measure (\<lambda>(radixLabel, curNode, labelIndex, t, h). length radixLabel - labelIndex)") auto

declare radixNodeForDeleting.simps [simp del]

subsection \<open>Lookup, insertion and deletion\<close>

definition treeGet :: "radix_tree \<Rightarrow> heap \<Rightarrow> string \<Rightarrow> sid option" where
  "treeGet t h stateLabel =
     (case radixNodeForReading h (toRadixLabel stateLabel) (rt_root t) 0 of
        None \<Rightarrow> None
      | Some node \<Rightarrow> if \<not> hasChildStateNode h node then None else rn_childStateNode (rn h node))"

definition treeHas :: "radix_tree \<Rightarrow> heap \<Rightarrow> string \<Rightarrow> bool" where
  "treeHas t h stateLabel = (treeGet t h stateLabel \<noteq> None)"

definition treeSet :: "string \<Rightarrow> sid \<Rightarrow> radix_tree \<Rightarrow> heap \<Rightarrow> radix_tree \<times> heap" where
  "treeSet stateLabel stateNode t h =
     (let (node, t, h) = radixNodeForSetting (toRadixLabel stateLabel) (rt_root t) 0 t h;
          (t, h) = (if \<not> hasChildStateNode h node then
                      (t\<lparr>rt_nextSerial := Suc (rt_nextSerial t),
                         rt_numChildStateNodes := rt_numChildStateNodes t + 1\<rparr>,
                       upd_rn node (\<lambda>x. x\<lparr>rn_serial := Some (rt_nextSerial t)\<rparr>) h)
                    else (t, h))
      in (t, setChildStateNode node (Some stateNode) h))"

fun relinkParents :: "rid list \<Rightarrow> string \<Rightarrow> string \<Rightarrow> rid \<Rightarrow> heap \<Rightarrow> heap" where
  "relinkParents [] labelRadix labelSuffix child h = h"
| "relinkParents (parent # ps) labelRadix labelSuffix child h =
     relinkParents ps labelRadix labelSuffix child
       (fst (setChild parent labelRadix labelSuffix child (fst (deleteChild parent labelRadix h))))"

definition mergeToChild :: "rid \<Rightarrow> heap \<Rightarrow> rid list \<times> heap" where
  "mergeToChild node h =
     (if numParents h node = 0 then ([node], h)
      else if numChildren h node \<noteq> 1 then ([node], h)
      else if hasChildStateNode h node then ([node], h)
      else
        let theOnlyChild = getChildNodes h node ! 0 in
        if numParents h theOnlyChild > 1 then ([node], h)
        else
          let parentNodes = getParentNodes h node;
              labelRadix = rn_labelRadix (rn h node);
              labelSuffix = rn_labelSuffix (rn h node);
              childLabelRadix = rn_labelRadix (rn h theOnlyChild);
              childLabelSuffix = rn_labelSuffix (rn h theOnlyChild);
              newChildLabelSuffix = labelSuffix @ childLabelRadix @ childLabelSuffix;
              h = fst (deleteChild node childLabelRadix h)
          in (parentNodes, relinkParents parentNodes labelRadix newChildLabelSuffix theOnlyChild h))"

text \<open>The part of \<open>delete\<close> after the traversal, up to the nodes whose information is stale.\<close>

definition removeRadixNode :: "rid \<Rightarrow> heap \<Rightarrow> rid list option \<times> heap" where
  "removeRadixNode node h =
     (if numChildren h node = 1 then
        let theOnlyChild = getChildNodes h node ! 0 in
        if numParents h theOnlyChild = 1 then
          let (nodesToUpdate, h) = mergeToChild node h in (Some nodesToUpdate, h)
        else (Some [node], h)
      else if numChildren h node = 0 then
        if numParents h node \<noteq> 1 then (None, h)
        else
          let theOnlyParent = getParentNodes h node ! 0;
              h = fst (deleteChild theOnlyParent (rn_labelRadix (rn h node)) h)
          in if numChildren h theOnlyParent = 1 \<and> \<not> hasChildStateNode h theOnlyParent
                \<and> numParents h theOnlyParent = 1
             then let (nodesToUpdate, h) = mergeToChild theOnlyParent h in (Some nodesToUpdate, h)
             else (Some [node, theOnlyParent], h)
      else (Some [node], h))"

definition treeDelete ::
  "env \<Rightarrow> nat \<Rightarrow> string \<Rightarrow> bool \<Rightarrow> radix_tree \<Rightarrow> heap \<Rightarrow> (bool \<times> radix_tree \<times> heap) option" where
  "treeDelete env fuel stateLabel shouldUpdateRadixInfo t h =
     (case radixNodeForDeleting (toRadixLabel stateLabel) (rt_root t) 0 t h of
        (None, h) \<Rightarrow> Some (False, t, h)
      | (Some node, h) \<Rightarrow>
          if \<not> hasChildStateNode h node then Some (False, t, h)
          else if numParents h node = 0 then Some (False, t, h)
          else
            let h = resetChildStateNode node h;
                t = t\<lparr>rt_numChildStateNodes := rt_numChildStateNodes t - 1\<rparr>
            in case removeRadixNode node h of
                 (None, h) \<Rightarrow> Some (False, t, h)
               | (Some nodesToUpdate, h) \<Rightarrow>
                   if shouldUpdateRadixInfo then
                     (case fold_opt (\<lambda>toBeUpdated h.
                              map_option fst (updateRadixInfoForAllRootPaths env fuel toBeUpdated h))
                            nodesToUpdate h of
                        None \<Rightarrow> None
                      | Some h \<Rightarrow> Some (True, t, h))
                   else Some (True, t, h))"

end
