(* ===== verification/RadixSet.thy ===== *)
theory RadixSet
  imports RadixTree
begin

text \<open>
  What the traversals of the radix tree find and change: reading is a walk in the graph view of
  the heap, and the copy-on-write traversals change the heap without any root noticing, ending
  at a node that only the tree's own root reaches.
\<close>

abbreviation lookup :: "heap \<Rightarrow> rid \<Rightarrow> string \<Rightarrow> sid option" where
  "lookup h \<equiv> look (edges_of h) (value_of h)"

lemma matchLabelSuffix_iff:
  "i \<le> length rl \<Longrightarrow> matchLabelSuffix h m rl i \<longleftrightarrow> prefix (rn_labelSuffix (rn h m)) (drop i rl)"
  using prefix_length_le by (fastforce simp: matchLabelSuffix_def Let_def)

lemma radixNodeForReading_walk:
  "radixNodeForReading h rl n i = walk (edges_of h) n (drop i rl)"
proof (induction h rl n i rule: radixNodeForReading.induct)
  case (1 h rl n i)
  show ?case
  proof (cases "i < length rl")
    case False
    then show ?thesis by (simp add: radixNodeForReading.simps)
  next
    case True
    note d = drop_eq_Cons_nth [OF True] and c = char_at_in_range [OF True]
    show ?thesis
    proof (cases "getChild h n [rl ! i]")
      case None
      then have "edges_of h n (rl ! i) = None" by (simp add: edges_of_None_iff)
      with None True show ?thesis
        by (subst radixNodeForReading.simps) (simp add: c d)
    next
      case (Some m)
      note e = edges_of_getChild [OF Some]
      have mt: "matchLabelSuffix h m rl (i + 1) = prefix (rn_labelSuffix (rn h m)) (drop (Suc i) rl)"
        using True by (simp add: matchLabelSuffix_iff)
      show ?thesis
      proof (cases "prefix (rn_labelSuffix (rn h m)) (drop (Suc i) rl)")
        case False
        with Some True e mt show ?thesis
          by (subst radixNodeForReading.simps) (simp add: c d)
      next
        case match: True
        have "radixNodeForReading h rl n i =
          radixNodeForReading h rl m (i + (1 + length (rn_labelSuffix (rn h m))))"
          using Some True mt match by (subst radixNodeForReading.simps) (simp add: c)
        also have "\<dots> = walk (edges_of h) m (drop (i + (1 + length (rn_labelSuffix (rn h m)))) rl)"
          using "1.IH" [OF True, of m] Some mt match by (simp add: c)
        finally show ?thesis using e match by (simp add: d add.commute)
      qed
    qed
  qed
qed

lemma treeGet_lookup: "treeGet t h l = lookup h (rt_root t) (toRadixLabel l)"
  by (simp add: treeGet_def radixNodeForReading_walk look_def hasChildStateNode_def value_of_def
      split: option.splits)

subsection \<open>Changes no root can see\<close>

definition keeps :: "heap \<Rightarrow> heap \<Rightarrow> bool" where
  "keeps h h' \<longleftrightarrow> wf_links h' \<and> next_rid h \<le> next_rid h' \<and>
     (\<forall>m<next_rid h. pars h m = [] \<longrightarrow> pars h' m = [] \<and> lookup h' m = lookup h m)"

lemma keeps_refl [wf_intros]: "wf_links h \<Longrightarrow> keeps h h"
  by (simp add: keeps_def)

lemma keeps_trans [wf_intros]: "keeps h h1 \<Longrightarrow> keeps h1 h2 \<Longrightarrow> keeps h h2"
  unfolding keeps_def by (metis order_less_le_trans le_trans)

lemma keepsD:
  assumes "keeps h h'"
  shows "wf_links h'" "next_rid h \<le> next_rid h'"
    "m < next_rid h \<Longrightarrow> pars h m = [] \<Longrightarrow> pars h' m = []"
    "m < next_rid h \<Longrightarrow> pars h m = [] \<Longrightarrow> lookup h' m = lookup h m"
  using assms by (simp_all add: keeps_def)

lemma owned_bound:
  assumes "wf_links h" and "r0 < next_rid h" and "owned (edges_of h) r0 n s"
  shows "n < next_rid h"
  using assms(3)
  by (cases rule: owned_cases) (use assms wf_kid_bound edges_of_Some in auto)

lemma owned_numParents:
  assumes "wf_links h" and "owned (edges_of h) r0 n s"
  shows "numParents h n \<le> 1"
  using assms(2)
  by (cases rule: owned_cases)
    (use assms(1) inc_numParents in \<open>auto simp: numParents_def inc_empty_iff\<close>)

lemma root_pars:
  assumes "wf_links h" and "owned (edges_of h) r0 n s"
  shows "pars h r0 = []"
proof -
  from assms(2) have "inc (edges_of h) r0 = {}" by (induction rule: owned.induct)
  with assms(1) show ?thesis by (simp add: inc_empty_iff)
qed

text \<open>Stepping into a child, on a copy when the child is shared.\<close>

lemma stepIntoChild_keeps:
  assumes wf: "wf_links h" and root: "r0 < next_rid h" and own: "owned (edges_of h) r0 n s"
    and child: "getChild h n [x] = Some child"
    and step: "stepIntoChild n [x] child t h = (m, h')"
  shows "keeps h h'" "owned (edges_of h') r0 m (s @ x # rn_labelSuffix (rn h child))"
proof -
  let ?E = "edges_of h" and ?suf = "rn_labelSuffix (rn h child)"
  note e = edges_of_getChild [OF child]
  have "keeps h h' \<and> owned (edges_of h') r0 m (s @ x # ?suf)"
  proof (cases "numParents h child > 1")
    case False
    with step have m: "m = child" "h' = h" by (simp_all add: stepIntoChild_def)
    have "inc ?E child = {(n, x)}"
      using False e by (intro inc_single [OF wf]) (auto simp: in_inc_iff)
    with own e m wf show ?thesis by (auto intro: owned_child keeps_refl)
  next
    case True
    then obtain h1 b where cl: "cloneRadixNode child (rt_version t) None h = (m, h1)"
      and sc: "setChild n [x] ?suf m h1 = (h', b)"
      using step by (auto simp: stepIntoChild_def Let_def split: prod.splits) (metis prod.collapse)
    have cb: "child < next_rid h" using child wf by (simp add: getChild_kids wf_kid_bound)
    note nb = owned_bound [OF wf root own]
    note c = cloneRadixNode_view [OF wf cb cl]
    have mn: "m \<noteq> n" "m \<noteq> child" "m \<noteq> r0" using nb cb root c(1) by auto
    have pm: "pars h m = []" using wf_blank_pars [OF wf] c(1) by simp
    then have im: "inc ?E m = {}" by (simp add: inc_empty_iff [OF wf])
    have im1: "inc (edges_of h1) m = {}"
      using im wf_blank_kids [OF wf, of m] c(1) by (auto simp: inc_def c(4) edges_of_def)
    then have pm1: "pars h1 m = []" by (simp add: inc_empty_iff [OF c(3)])
    have mb: "m < next_rid h1" "n < next_rid h1" using nb c(1,2) by simp_all
    have lk: "linkable h1 n x ?suf m"
      using mb by (simp add: linkable_def pm1)
    note v = setChild_view [OF c(3) lk sc] and s = setChild_simps [OF c(3) lk sc]
    have wf': "wf_links h'" by (rule setChild_wf [OF c(3) lk sc])
    have E': "edges_of h' = ?E(m := ?E child, n := (?E n)(x \<mapsto> (?suf, m)))"
      using v mn by (simp add: c(4))
    have V': "value_of h' = (value_of h)(m := value_of h child)"
      by (simp add: s(8) c(5))
    have not_owned: "\<not> owned ?E r0 child u" for u
      using owned_numParents [OF wf] True by force
    have m_fresh: "\<not> owned ?E r0 m u" for u
      using owned_bound [OF wf root] c(1) by force
    have own': "owned (edges_of h') r0 n s"
    proof (rule owned_change [OF own])
      fix k u p y sf
      assume k: "owned ?E r0 k u"
      {
        assume "?E p y = Some (sf, k)"
        moreover from this have "p \<noteq> m" using wf_blank_kids [OF wf, of m] c(1) by (auto simp: edges_of_def)
        moreover have "\<not> (p = n \<and> y = x)" using calculation e not_owned k by auto
        ultimately show "edges_of h' p y = Some (sf, k)" by (auto simp: E')
      }
      assume e': "edges_of h' p y = Some (sf, k)"
      have "k \<noteq> m" using k m_fresh by auto
      moreover have "p \<noteq> m"
      proof
        assume "p = m"
        with e' mn have "?E child y = Some (sf, k)" by (simp add: E')
        then have "(child, y) \<in> inc ?E k" by (auto simp: in_inc_iff)
        with owned_pred [OF k] not_owned show False by blast
      qed
      ultimately show "\<exists>sf'. ?E p y = Some (sf', k)" using e' by (auto simp: E' split: if_splits)
    qed
    have "inc (edges_of h') m = {(n, x)}"
      by (simp add: inc_edges_of [OF wf'] s(6,10) pm1)
    moreover have "edges_of h' n x = Some (?suf, m)" by (simp add: E')
    ultimately have "owned (edges_of h') r0 m (s @ x # ?suf)"
      using own' by (intro owned_child)
    moreover have "keeps h h'"
      unfolding keeps_def
    proof (intro conjI allI impI ext)
      fix r assume r: "r < next_rid h" "pars h r = []"
      then have "r \<noteq> m" using c(1) by simp
      then show "lookup h' r u = lookup h r u" for u
        unfolding E' V' using mn im e by (intro look_clone_child) auto
      have "inc ?E r = {}" using r by (simp add: inc_empty_iff [OF wf])
      then have "inc (edges_of h') r = {}"
        using \<open>r \<noteq> m\<close> by (auto simp: inc_def E' split: if_splits)
      then show "pars h' r = []" by (simp add: inc_empty_iff [OF wf'])
    qed (use wf' s c in auto)
    ultimately show ?thesis by simp
  qed
  then show "keeps h h'" "owned (edges_of h') r0 m (s @ x # ?suf)" by simp_all
qed


text \<open>Linking a detached node below an owned one.\<close>

lemma link_owned:
  assumes wf: "wf_links h" and own: "owned (edges_of h) r0 n s" and none: "edges_of h n x = None"
    and lk: "n < next_rid h" "m < next_rid h" "pars h m = []" "m \<noteq> r0" and sc: "setChild n [x] suf m h = (h', b)"
  shows "wf_links h'" "edges_of h' = (edges_of h)(n := (edges_of h n)(x \<mapsto> (suf, m)))"
    "value_of h' = value_of h" "next_rid h' = next_rid h"
    "owned (edges_of h') r0 n s" "owned (edges_of h') r0 m (s @ x # suf)"
    "k \<noteq> m \<Longrightarrow> pars h k = [] \<Longrightarrow> pars h' k = []"
    "rn_labelSuffix (rn h' k) = (if k = m then suf else rn_labelSuffix (rn h k))"
proof -
  let ?E = "edges_of h"
  have lk': "linkable h n x suf m" using lk by (simp add: linkable_def)
  note v = setChild_view [OF wf lk' sc] and s = setChild_simps [OF wf lk' sc]
  show wf': "wf_links h'" by (rule setChild_wf [OF wf lk' sc])
  show "edges_of h' = ?E(n := (?E n)(x \<mapsto> (suf, m)))" by (rule v)
  show "value_of h' = value_of h" "next_rid h' = next_rid h"
    "rn_labelSuffix (rn h' k) = (if k = m then suf else rn_labelSuffix (rn h k))" by (rule s)+
  show "k \<noteq> m \<Longrightarrow> pars h k = [] \<Longrightarrow> pars h' k = []" by (simp add: s(10) set_del_def)
  have "inc ?E m = {}" using lk(3) by (simp add: inc_empty_iff [OF wf])
  then have not_owned: "\<not> owned ?E r0 m u" for u
    using lk(4) by (auto elim: owned_cases)
  show own': "owned (edges_of h') r0 n s"
    by (rule owned_change [OF own]) (use none not_owned in \<open>auto simp: v split: if_splits\<close>)
  have "pars h' m = [n]" by (simp add: s(10) lk(3))
  then have "inc (edges_of h') m = {(n, x)}" by (simp add: inc_edges_of [OF wf'] s(6))
  then show "owned (edges_of h') r0 m (s @ x # suf)"
    using own' by (intro owned_child) (simp_all add: v)
qed

lemma treeNewRadixNode_view:
  assumes "treeNewRadixNode p t h = (i, t', h')" and "wf_links h"
  shows "wf_links h'" "next_rid h' = Suc (next_rid h)" "i = next_rid h"
    "edges_of h' = edges_of h" "value_of h' = value_of h" "pars h' i = []"
    "edges_of h i x = None" "value_of h i = None"
    "pars h k = [] \<Longrightarrow> pars h' k = []"
    "k < next_rid h \<Longrightarrow> rn h' k = rn h k"
    "rt_root t' = rt_root t" "rt_numChildStateNodes t' = rt_numChildStateNodes t" "rt_version t' = rt_version t"
proof -
  obtain n1: "newRadixNode (rt_version t) (Some (rt_nextSerial t)) p h = (i, h')"
    and t': "t' = t\<lparr>rt_nextSerial := Suc (rt_nextSerial t)\<rparr>"
    using assms(1) by (auto simp: treeNewRadixNode_def split: prod.splits)
  note s = newRadixNode_simps [OF n1] and v = newRadixNode_view [OF n1 assms(2)]
  show "wf_links h'" by (rule newRadixNode_wf [OF n1 assms(2)])
  show "next_rid h' = Suc (next_rid h)" "i = next_rid h" by (rule s)+
  show "edges_of h' = edges_of h" "value_of h' = value_of h" "edges_of h i x = None"
    "value_of h i = None" by (rule v)+
  show "pars h' i = []" by (simp add: s blank_radix_node_def)
  show "pars h k = [] \<Longrightarrow> pars h' k = []" by (simp add: s blank_radix_node_def)
  show "k < next_rid h \<Longrightarrow> rn h' k = rn h k" by (simp add: s)
  show "rt_root t' = rt_root t" "rt_numChildStateNodes t' = rt_numChildStateNodes t"
    "rt_version t' = rt_version t" by (simp_all add: t')
qed

text \<open>A new leaf below an owned node (case 1, and the end of case 2.2).\<close>

lemma attachLeaf_keeps:
  assumes wf: "wf_links h" and root: "r0 < next_rid h" and own: "owned (edges_of h) r0 n s"
    and none: "edges_of h n x = None" and new: "treeNewRadixNode None t h = (m, t', h1)"
    and sc: "setChild n [x] suf m h1 = (h', b)"
  shows "keeps h h'" "owned (edges_of h') r0 m (s @ x # suf)" "value_of h' m = None"
proof -
  note v = treeNewRadixNode_view [OF new wf]
  note nb = owned_bound [OF wf root own]
  have own1: "owned (edges_of h1) r0 n s" and none1: "edges_of h1 n x = None"
    using own none by (simp_all add: v(4))
  have b: "n < next_rid h1" "m < next_rid h1" "m \<noteq> r0" using nb root v(2,3) by simp_all
  note l = link_owned [OF v(1) own1 none1 b(1,2) v(6) b(3) sc]
  show "owned (edges_of h') r0 m (s @ x # suf)" by (rule l)
  show "value_of h' m = None" using v(8) by (simp add: l(3) v(5))
  show "keeps h h'"
    unfolding keeps_def
  proof (intro conjI allI impI ext)
    fix r u assume r: "r < next_rid h" "pars h r = []"
    then show "pars h' r = []" using v(3) by (intro l v) simp_all
    show "lookup h' r u = lookup h r u"
      unfolding l(2,3) v(4,5) by (rule look_attach, rule none, rule v(7), rule v(8))
  qed (use l(1,4) v(2) in simp_all)
qed


subsection \<open>Splitting an edge (case 2)\<close>

lemma getCommonPrefix_split:
  "\<exists>v w. s = getCommonPrefix s t @ v \<and> t = getCommonPrefix s t @ w \<and>
     (v = [] \<or> w = [] \<or> hd v \<noteq> hd w)"
proof (induction s t rule: getCommonPrefix.induct)
  case (1 a s b t)
  show ?case
  proof (cases "a = b")
    case False
    then show ?thesis by simp
  next
    case True
    with 1 obtain v w where "s = getCommonPrefix s t @ v" "t = getCommonPrefix s t @ w"
      "v = [] \<or> w = [] \<or> hd v \<noteq> hd w" by auto
    with True show ?thesis by simp metis
  qed
qed auto

lemma getCommonPrefix_cases:
  assumes "\<not> prefix t s"
  obtains y w where "t = getCommonPrefix s t @ y # w" "s = getCommonPrefix s t"
  | y w z v where "t = getCommonPrefix s t @ y # w" "s = getCommonPrefix s t @ z # v" "y \<noteq> z"
proof -
  obtain v w where vw: "s = getCommonPrefix s t @ v" "t = getCommonPrefix s t @ w"
    "v = [] \<or> w = [] \<or> hd v \<noteq> hd w"
    using getCommonPrefix_split [of s t] by blast
  have "w \<noteq> []"
  proof
    assume "w = []"
    with vw(1,2) have "prefix t s" by (metis append_Nil2 prefixI)
    with assms show False by simp
  qed
  then obtain y w' where w: "w = y # w'" by (cases w) auto
  show thesis
  proof (cases v)
    case Nil
    with vw w that(1) show ?thesis by simp
  next
    case (Cons z v')
    with vw w have "y \<noteq> z" by auto
    with vw w Cons that(2) show ?thesis by metis
  qed
qed

text \<open>
  Taking the child off its parent, as a copy when it is shared. Were it put back, no root
  would see a difference.
\<close>

lemma takeOffChild:
  assumes wf: "wf_links h" and root: "r0 < next_rid h" and own: "owned (edges_of h) r0 n s"
    and child: "getChild h n [x] = Some child"
    and cl: "(if numParents h child > 1 then cloneRadixNode child v None h else (child, h)) = (c, h1)"
    and del: "deleteChild n [x] h1 = (h2, b)"
  defines "EA \<equiv> (edges_of h2)(n := (edges_of h2 n)(x \<mapsto> (rn_labelSuffix (rn h child), c)))"
  shows "wf_links h2" "next_rid h \<le> next_rid h2" "c < next_rid h2" "pars h2 c = []" "c \<noteq> n" "c \<noteq> r0"
    "owned (edges_of h2) r0 n s" "edges_of h2 n x = None"
    "rn_labelSuffix (rn h1 c) = rn_labelSuffix (rn h child)"
    "r < next_rid h \<Longrightarrow> pars h r = [] \<Longrightarrow> pars h2 r = [] \<and> r \<noteq> c"
    "r < next_rid h \<Longrightarrow> pars h r = [] \<Longrightarrow> look EA (value_of h2) r u = lookup h r u"
proof -
  let ?E = "edges_of h" and ?suf = "rn_labelSuffix (rn h child)"
  note e = edges_of_getChild [OF child]
  note nb = owned_bound [OF wf root own]
  have kid: "([x], child) \<in> set (kids h n)" using child by (simp add: getChild_kids [OF wf])
  have cb: "child < next_rid h" by (rule wf_kid_bound [OF wf kid])
  have cn: "child \<noteq> n"
  proof
    assume "child = n"
    with own have "owned ?E r0 child s" by simp
    from owned_below [OF own e this] show False by simp
  qed
  have pc: "n \<in> set (pars h child)" using kid by (force simp: wf_pars_iff [OF wf])
  have cr: "child \<noteq> r0" using pc root_pars [OF wf own] by auto
  have below: "length s < length u" if "owned ?E r0 child u" for u
    using owned_below [OF own e that] by simp
  have all: "wf_links h2 \<and> next_rid h \<le> next_rid h2 \<and> c < next_rid h2 \<and> pars h2 c = [] \<and> c \<noteq> n \<and> c \<noteq> r0
    \<and> owned (edges_of h2) r0 n s \<and> edges_of h2 n x = None \<and> rn_labelSuffix (rn h1 c) = ?suf
    \<and> (r < next_rid h \<longrightarrow> pars h r = [] \<longrightarrow> pars h2 r = [] \<and> r \<noteq> c)
    \<and> (r < next_rid h \<longrightarrow> pars h r = [] \<longrightarrow> look EA (value_of h2) r u = lookup h r u)"
  proof (cases "numParents h child > 1")
    case False
    with cl have c: "c = child" "h1 = h" by simp_all
    note s = deleteChild_simps [OF wf child del [unfolded c]]
      and v = deleteChild_view [OF wf child del [unfolded c]]
      and wf2 = deleteChild_wf [OF wf child del [unfolded c]]
    have "pars h child = [n]"
      using inc_single [OF wf, of n x child] False e by (intro inc_numParents [OF wf]) (auto simp: in_inc_iff)
    then have "pars h2 child = []" by (simp add: s(10) set_del_def)
    moreover have "owned (edges_of h2) r0 n s"
      by (rule owned_change_upto [OF own]) (use below e in \<open>fastforce simp: v split: if_splits\<close>)+
    moreover have "EA = ?E" by (simp add: EA_def v e c fun_upd_idem)
    moreover have "r \<noteq> child" if "pars h r = []" using pc that by auto
    ultimately show ?thesis using wf2 c cn cr cb by (simp add: s v s(10))
  next
    case True
    with cl have cl: "cloneRadixNode child v None h = (c, h1)" by simp
    note c = cloneRadixNode_view [OF wf cb cl]
    have mn: "c \<noteq> n" "c \<noteq> child" "c \<noteq> r0" using nb cb root c(1) by auto
    have Ec: "?E c = (\<lambda>_. None)"
      using wf_blank_kids [OF wf, of c] c(1) by (intro ext) (simp add: edges_of_def)
    have im: "inc ?E c = {}" using wf_blank_pars [OF wf, of c] c(1) by (simp add: inc_empty_iff [OF wf])
    have child1: "getChild h1 n [x] = Some child"
    proof -
      have "edges_of h1 n x = Some (?suf, child)" using mn e by (simp add: c(4))
      then show ?thesis by (simp add: getChild_kids [OF c(3)] edges_of_Some [OF c(3)])
    qed
    note s = deleteChild_simps [OF c(3) child1 del] and v = deleteChild_view [OF c(3) child1 del]
      and wf2 = deleteChild_wf [OF c(3) child1 del]
    have E2: "edges_of h2 = ?E(c := ?E child, n := (?E n)(x := None))"
      using mn by (simp add: v c(4))
    have im2: "inc (edges_of h2) c = {}" using im by (auto simp: inc_def E2 split: if_splits)
    have not_owned: "\<not> owned ?E r0 child u" for u
      using owned_numParents [OF wf] True by force
    have own2: "owned (edges_of h2) r0 n s"
    proof (rule owned_change [OF own])
      fix k u p y sf
      assume k: "owned ?E r0 k u"
      show "edges_of h2 p y = Some (sf, k)" if "?E p y = Some (sf, k)"
        using that Ec e not_owned k by (auto simp: E2)
      show "\<exists>sf'. ?E p y = Some (sf', k)" if e': "edges_of h2 p y = Some (sf, k)"
      proof -
        have "p \<noteq> c"
        proof
          assume "p = c"
          with e' mn have "(child, y) \<in> inc ?E k" by (auto simp: E2 in_inc_iff)
          with owned_pred [OF k] not_owned show False by blast
        qed
        with e' show ?thesis by (auto simp: E2 split: if_splits)
      qed
    qed
    have EA: "EA = ?E(c := ?E child, n := (?E n)(x \<mapsto> (?suf, c)))"
      by (simp add: EA_def E2)
    have V2: "value_of h2 = (value_of h)(c := value_of h child)" by (simp add: s(8) c(5))
    have look: "look EA (value_of h2) r u = lookup h r u" if "r < next_rid h"
      unfolding EA V2 using that mn im e c(1) by (intro look_clone_child) auto
    have "pars h2 r = []" if "r < next_rid h" "pars h r = []"
    proof -
      have "inc ?E r = {}" using that by (simp add: inc_empty_iff [OF wf])
      then have "inc (edges_of h2) r = {}" by (auto simp: inc_def E2 split: if_splits)
      then show ?thesis by (simp add: inc_empty_iff [OF wf2])
    qed
    moreover have "pars h2 c = []" using im2 by (simp add: inc_empty_iff [OF wf2])
    moreover have "rn_labelSuffix (rn h1 c) = ?suf" by (simp add: c(7))
    moreover have "c < next_rid h2" "next_rid h \<le> next_rid h2" "r < next_rid h \<Longrightarrow> r \<noteq> c"
      using c(1,2) s(2) by simp_all
    ultimately show ?thesis using own2 mn look wf2 by (simp add: v)
  qed
  then show "wf_links h2" "next_rid h \<le> next_rid h2" "c < next_rid h2" "pars h2 c = []" "c \<noteq> n" "c \<noteq> r0"
    "owned (edges_of h2) r0 n s" "edges_of h2 n x = None"
    "rn_labelSuffix (rn h1 c) = rn_labelSuffix (rn h child)"
    "r < next_rid h \<Longrightarrow> pars h r = [] \<Longrightarrow> pars h2 r = [] \<and> r \<noteq> c"
    "r < next_rid h \<Longrightarrow> pars h r = [] \<Longrightarrow> look EA (value_of h2) r u = lookup h r u"
    by simp_all
qed


lemma splitEdge_keeps:
  assumes wf: "wf_links h" and root: "r0 < next_rid h" and own: "owned (edges_of h) r0 n s"
    and child: "getChild h n [x] = Some child" and suf: "rn_labelSuffix (rn h child) = cp @ y # w"
    and cl: "(if numParents h child > 1 then cloneRadixNode child v None h else (child, h)) = (c, h1)"
    and del: "deleteChild n [x] h1 = (h2, b2)"
    and new: "treeNewRadixNode None t h2 = (i, t', h3)"
    and sc4: "setChild n [x] cp i h3 = (h4, b4)" and sc5: "setChild i [y] w c h4 = (h5, b5)"
  shows "keeps h h5" "owned (edges_of h5) r0 i (s @ x # cp)" "value_of h5 i = None"
    "z \<noteq> y \<Longrightarrow> edges_of h5 i z = None"
proof -
  note t = takeOffChild [OF wf root own child cl del]
  note v = treeNewRadixNode_view [OF new t(1)]
  have i: "i \<noteq> c" "i \<noteq> n" "i \<noteq> r0" "n < next_rid h3" "i < next_rid h3" "c < next_rid h3"
    using t(2,3) owned_bound [OF wf root own] root v(2,3) by auto
  have own3: "owned (edges_of h3) r0 n s" "edges_of h3 n x = None" using t(7,8) by (simp_all add: v(4))
  note l4 = link_owned [OF v(1) own3(1,2) i(4,5) v(6) i(3) sc4]
  have pc: "pars h4 c = []" by (rule l4(7) [OF i(1) [symmetric] v(9) [OF t(4)]])
  have none: "edges_of h4 i y = None" using i(2) v(7) by (simp add: l4(2) v(4))
  have b: "i < next_rid h4" "c < next_rid h4" using i by (simp_all add: l4(4))
  note l5 = link_owned [OF l4(1,6) none b pc t(6) sc5]
  have E5: "edges_of h5 = (edges_of h2)(i := [y \<mapsto> (w, c)], n := (edges_of h2 n)(x \<mapsto> (cp, i)))"
    using i(2) v(7) by (intro ext) (simp add: l5(2) l4(2) v(4))
  have V5: "value_of h5 = value_of h2" by (simp add: l5(3) l4(3) v(5))
  show "owned (edges_of h5) r0 i (s @ x # cp)" by (rule l5(5))
  show "value_of h5 i = None" using v(8) by (simp add: V5)
  show "z \<noteq> y \<Longrightarrow> edges_of h5 i z = None" using i(2) by (simp add: E5)
  let ?EA = "(edges_of h2)(n := (edges_of h2 n)(x \<mapsto> (cp @ y # w, c)))"
  have inc: "inc ?EA i = {}"
    using v(6,4) i(1) by (auto simp: inc_empty_iff [OF v(1), symmetric] inc_def split: if_splits)
  have EA5: "edges_of h5 = ?EA(i := [y \<mapsto> (w, c)], n := (?EA n)(x \<mapsto> (cp, i)))"
    using i(2) by (simp add: E5 fun_upd_twist)
  show "keeps h h5"
    unfolding keeps_def
  proof (intro conjI allI impI ext)
    fix r u assume r: "r < next_rid h" "pars h r = []"
    then have r2: "pars h2 r = []" "r \<noteq> c" using t(10) by simp_all
    have ri: "r \<noteq> i" using r(1) t(2) v(3) by simp
    show "pars h5 r = []" using l5(7) l4(7) v(9) r2 ri by blast
    have "lookup h5 r u = look ?EA (value_of h2) r u"
      unfolding EA5 V5 by (rule look_split) (use i inc v(8) ri in simp_all)
    with t(11) [OF r] show "lookup h5 r u = lookup h r u" by (simp add: suf)
  next
    show "wf_links h5" by (rule l5(1))
    show "next_rid h \<le> next_rid h5" using t(2) v(2) by (simp add: l5(4) l4(4))
  qed
qed

lemma splitChild_keeps:
  assumes wf: "wf_links h" and root: "r0 < next_rid h" and own: "owned (edges_of h) r0 n s"
    and i: "i < length rl" and child: "getChild h n [rl ! i] = Some child"
    and nomatch: "\<not> prefix (rn_labelSuffix (rn h child)) (drop (Suc i) rl)"
    and split: "splitChild rl n i child t h = (m, t', h')"
  shows "keeps h h' \<and> owned (edges_of h') r0 m (s @ drop i rl) \<and> rt_root t' = rt_root t
    \<and> rt_numChildStateNodes t' = rt_numChildStateNodes t"
proof -
  note d = drop_eq_Cons_nth [OF i] and cx = char_at_in_range [OF i]
  let ?ls = "drop (Suc i) rl" and ?suf = "rn_labelSuffix (rn h child)" and ?x = "rl ! i"
  let ?cp = "getCommonPrefix ?ls ?suf"
  obtain c h1 where cl: "(if numParents h child > 1 then cloneRadixNode child (rt_version t) None h
      else (child, h)) = (c, h1)" by fastforce
  obtain h2 b2 where del: "deleteChild n [?x] h1 = (h2, b2)" by fastforce
  obtain j t3 h3 where new: "treeNewRadixNode None t h2 = (j, t3, h3)" by (cases "treeNewRadixNode None t h2") auto
  obtain h4 b4 where sc4: "setChild n [?x] ?cp j h3 = (h4, b4)" by fastforce
  note t = takeOffChild [OF wf root own child cl del]
  have eq: "splitChild rl n i child t h =
     (if length ?cp = length ?ls
      then (j, t3, setChildWithLabel j (drop (length ?cp) ?suf) c h4)
      else let h5 = setChildWithLabel j (drop (length ?cp) ?suf) c h4;
               (newChild, t, h) = treeNewRadixNode None t3 h5
           in (newChild, t, setChildWithLabel j (drop (length ?cp) ?ls) newChild h))"
    unfolding splitChild_def Let_def cl using t(9) by (simp add: cx del new sc4)
  note tv = treeNewRadixNode_view [OF new t(1)]
  from nomatch show ?thesis
  proof (cases rule: getCommonPrefix_cases)
    case (1 y w)
    obtain h5 b5 where sc5: "setChild j [y] w c h4 = (h5, b5)" by fastforce
    have dr: "drop (length ?cp) ?suf = y # w" by (subst 1(1)) simp
    have "(m, t', h') = (j, t3, h5)"
      using split arg_cong [OF 1(2), of length] unfolding eq dr by (simp add: setChildWithLabel_def sc5)
    moreover note splitEdge_keeps [OF wf root own child 1(1) cl del new sc4 sc5]
    moreover have "drop i rl = ?x # ?cp" using 1(2) d by simp
    ultimately show ?thesis by (simp add: tv(11,12))
  next
    case (2 y w z v)
    obtain h5 b5 where sc5: "setChild j [y] w c h4 = (h5, b5)" by fastforce
    have dr: "drop (length ?cp) ?suf = y # w" by (subst 2(1)) simp
    have dl: "drop (length ?cp) ?ls = z # v" by (subst 2(2)) simp
    note k = splitEdge_keeps [OF wf root own child 2(1) cl del new sc4 sc5]
    obtain m' t6 h6 where new': "treeNewRadixNode None t3 h5 = (m', t6, h6)"
      by (cases "treeNewRadixNode None t3 h5") auto
    obtain h7 b7 where sc7: "setChild j [z] v m' h6 = (h7, b7)" by fastforce
    have "(m, t', h') = (m', t6, h7)"
      using split arg_cong [OF 2(2), of length] unfolding eq dr dl
      by (simp add: setChildWithLabel_def sc5 new' sc7)
    moreover have root5: "r0 < next_rid h5" using root keepsD(2) [OF k(1)] by simp
    note attachLeaf_keeps [OF keepsD(1) [OF k(1)] root5 k(2) k(4) new' sc7]
    moreover have "s @ drop i rl = (s @ ?x # ?cp) @ z # v" using 2(2) d by simp
    moreover note treeNewRadixNode_view(11,12) [OF new' keepsD(1) [OF k(1)]]
    ultimately show ?thesis using k(1) 2(3) by (auto simp: tv(11,12) intro: keeps_trans)
  qed
qed

lemma insertLeaf_keeps:
  assumes wf: "wf_links h" and root: "r0 < next_rid h" and own: "owned (edges_of h) r0 n s"
    and i: "i < length rl" and none: "getChild h n [rl ! i] = None"
    and ins: "insertLeaf rl n i t h = (m, t', h')"
  shows "keeps h h' \<and> owned (edges_of h') r0 m (s @ drop i rl) \<and> rt_root t' = rt_root t
    \<and> rt_numChildStateNodes t' = rt_numChildStateNodes t"
proof -
  obtain h1 where new: "treeNewRadixNode None t h = (m, t', h1)"
    and sc: "h' = fst (setChild n [rl ! i] (drop (Suc i) rl) m h1)"
    using ins by (auto simp: insertLeaf_def Let_def char_at_in_range [OF i] split: prod.splits)
  obtain b where sc: "setChild n [rl ! i] (drop (Suc i) rl) m h1 = (h', b)"
    using sc by (metis prod.collapse)
  have "edges_of h n (rl ! i) = None" using none by (simp add: edges_of_None_iff)
  note attachLeaf_keeps [OF wf root own this new sc] treeNewRadixNode_view(11,12) [OF new wf]
  then show ?thesis by (simp add: drop_eq_Cons_nth [OF i])
qed

lemma radixNodeForSetting_keeps:
  assumes "wf_links h" and "r0 < next_rid h" and "owned (edges_of h) r0 n s"
    and "radixNodeForSetting rl n i t h = (m, t', h')"
  shows "keeps h h' \<and> owned (edges_of h') r0 m (s @ drop i rl) \<and> rt_root t' = rt_root t
    \<and> rt_numChildStateNodes t' = rt_numChildStateNodes t"
  using assms
proof (induction rl n i t h arbitrary: s rule: radixNodeForSetting.induct)
  case (1 rl n i t h)
  show ?case
  proof (cases "i < length rl")
    case False
    with 1 show ?thesis by (auto simp: radixNodeForSetting.simps intro: keeps_refl)
  next
    case True
    note d = drop_eq_Cons_nth [OF True] and c = char_at_in_range [OF True]
    show ?thesis
    proof (cases "getChild h n [rl ! i]")
      case None
      with True "1.prems"(4) have "insertLeaf rl n i t h = (m, t', h')"
        by (subst (asm) radixNodeForSetting.simps) (simp add: c)
      with insertLeaf_keeps [OF "1.prems"(1-3) True None] show ?thesis by blast
    next
      case (Some child)
      let ?suf = "rn_labelSuffix (rn h child)"
      have mt: "matchLabelSuffix h child rl (i + 1) = prefix ?suf (drop (Suc i) rl)"
        using True by (simp add: matchLabelSuffix_iff)
      show ?thesis
      proof (cases "prefix ?suf (drop (Suc i) rl)")
        case False
        with Some True "1.prems"(4) mt have "splitChild rl n i child t h = (m, t', h')"
          by (subst (asm) radixNodeForSetting.simps) (simp add: c)
        with splitChild_keeps [OF "1.prems"(1-3) True Some False] show ?thesis by blast
      next
        case match: True
        obtain k h1 where st: "stepIntoChild n [rl ! i] child t h = (k, h1)" by fastforce
        with Some True "1.prems"(4) mt match
        have next': "radixNodeForSetting rl k (i + (1 + length ?suf)) t h1 = (m, t', h')"
          by (subst (asm) radixNodeForSetting.simps) (simp add: c)
        note sk = stepIntoChild_keeps [OF "1.prems"(1-3) Some st]
        have "r0 < next_rid h1" using "1.prems"(2) keepsD(2) [OF sk(1)] by simp
        with "1.IH" [OF True, of child ?suf "(k, h1)" k h1, where s = "s @ rl ! i # ?suf"] Some mt match st next' sk
        have "keeps h1 h' \<and> owned (edges_of h') r0 m ((s @ rl ! i # ?suf) @ drop (i + (1 + length ?suf)) rl)
          \<and> rt_root t' = rt_root t \<and> rt_numChildStateNodes t' = rt_numChildStateNodes t"
          by (simp add: c keepsD(1))
        moreover have "drop (i + (1 + length ?suf)) rl = drop (length ?suf) (drop (Suc i) rl)"
          by (simp add: add.commute)
        then have "?suf @ drop (i + (1 + length ?suf)) rl = drop (Suc i) rl"
          by (simp only: prefix_append_drop [OF match])
        ultimately show ?thesis using sk(1) by (simp add: d) (blast intro: keeps_trans)
      qed
    qed
  qed
qed

end
