(* ===== verification/RadixDelete.thy ===== *)
theory RadixDelete
  imports RadixSet
begin

text \<open>
  The traversal and the clean-up of \<open>delete\<close> in \<open>db/radix-tree.js\<close>: the copy-on-write traversal
  ends at an owned node or finds nothing, and dropping an empty leaf or merging an empty node
  with its only child changes no lookup from a root.
\<close>

lemma radixNodeForDeleting_keeps:
  assumes "wf_links h" and "r0 < next_rid h" and "owned (edges_of h) r0 n s"
    and "radixNodeForDeleting rl n i t h = (res, h')"
  shows "keeps h h' \<and> (case res of None \<Rightarrow> lookup h r0 (s @ drop i rl) = None
                        | Some m \<Rightarrow> owned (edges_of h') r0 m (s @ drop i rl))"
  using assms
proof (induction rl n i t h arbitrary: s rule: radixNodeForDeleting.induct)
  case (1 rl n i t h)
  have walk: "lookup h r0 (s @ u) = lookup h n u" for u
    by (simp add: look_def walk_append [OF owned_walk [OF "1.prems"(3)]])
  show ?case
  proof (cases "i < length rl")
    case False
    with 1 show ?thesis by (auto simp: radixNodeForDeleting.simps intro: keeps_refl)
  next
    case True
    note d = drop_eq_Cons_nth [OF True] and c = char_at_in_range [OF True]
    show ?thesis
    proof (cases "getChild h n [rl ! i]")
      case None
      with True "1.prems"(4) have "res = None" "h' = h"
        by (subst (asm) radixNodeForDeleting.simps, simp add: c)+
      moreover have "edges_of h n (rl ! i) = None" using None by (simp add: edges_of_None_iff)
      ultimately show ?thesis
        using keeps_refl [OF "1.prems"(1)] by (simp add: walk d look_Cons)
    next
      case (Some child)
      let ?suf = "rn_labelSuffix (rn h child)"
      note e = edges_of_getChild [OF Some]
      have mt: "matchLabelSuffix h child rl (i + 1) = prefix ?suf (drop (Suc i) rl)"
        using True by (simp add: matchLabelSuffix_iff)
      show ?thesis
      proof (cases "prefix ?suf (drop (Suc i) rl)")
        case False
        with Some True "1.prems"(4) mt have "res = None" "h' = h"
          by (subst (asm) radixNodeForDeleting.simps, simp add: c)+
        with False e show ?thesis
          using keeps_refl [OF "1.prems"(1)] by (simp add: walk d look_Cons)
      next
        case match: True
        obtain k h1 where st: "stepIntoChild n [rl ! i] child t h = (k, h1)" by fastforce
        with Some True "1.prems"(4) mt match
        have next': "radixNodeForDeleting rl k (i + (1 + length ?suf)) t h1 = (res, h')"
          by (subst (asm) radixNodeForDeleting.simps) (simp add: c)
        note sk = stepIntoChild_keeps [OF "1.prems"(1-3) Some st]
        have "r0 < next_rid h1" using "1.prems"(2) keepsD(2) [OF sk(1)] by simp
        with "1.IH" [OF True, of child ?suf "(k, h1)" k h1, where s = "s @ rl ! i # ?suf"]
          Some mt match st next' sk
        have IH: "keeps h1 h' \<and> (case res of
            None \<Rightarrow> lookup h1 r0 ((s @ rl ! i # ?suf) @ drop (i + (1 + length ?suf)) rl) = None
          | Some m \<Rightarrow> owned (edges_of h') r0 m ((s @ rl ! i # ?suf) @ drop (i + (1 + length ?suf)) rl))"
          by (simp add: c keepsD(1))
        have "drop (i + (1 + length ?suf)) rl = drop (length ?suf) (drop (Suc i) rl)"
          by (simp add: add.commute)
        then have "?suf @ drop (i + (1 + length ?suf)) rl = drop (Suc i) rl"
          by (simp only: prefix_append_drop [OF match])
        then have path: "(s @ rl ! i # ?suf) @ drop (i + (1 + length ?suf)) rl = s @ drop i rl"
          by (simp add: d)
        have "pars h r0 = []" by (rule root_pars [OF "1.prems"(1,3)])
        with IH keepsD(4) [OF sk(1) "1.prems"(2)] keeps_trans [OF sk(1), of h'] show ?thesis
          unfolding path by (simp split: option.splits)
      qed
    qed
  qed
qed

subsection \<open>Merging a node with its only child\<close>

lemma numChildren_1:
  assumes "wf_links h" and "numChildren h n = 1"
  obtains x k where "kids h n = [([x], k)]" "getChildNodes h n = [k]" "rn_labelRadix (rn h k) = [x]"
    "edges_of h n = [x \<mapsto> (rn_labelSuffix (rn h k), k)]" "k < next_rid h"
proof -
  from assms(2) obtain y k where k: "kids h n = [(y, k)]"
    by (auto simp: numChildren_def length_Suc_conv)
  with wf_kid_key [OF assms(1), of y k n] obtain x where y: "y = [x]" by auto
  have 1: "getChildNodes h n = [k]" by (simp add: getChildNodes_def k)
  have 2: "rn_labelRadix (rn h k) = [x]" using wf_kid_radix [OF assms(1), of y k n] k y by simp
  have 3: "edges_of h n = [x \<mapsto> (rn_labelSuffix (rn h k), k)]"
    by (intro ext) (simp add: edges_of_def k y)
  have "k < next_rid h" using wf_kid_bound [OF assms(1), of y k n] k by simp
  with k y 1 2 3 that show thesis by simp
qed

lemma numChildren_0: "numChildren h n = 0 \<Longrightarrow> edges_of h n x = None"
  by (simp add: numChildren_def edges_of_def)

lemma parent_edge:
  assumes "wf_links h" and "pars h n = [p]"
  obtains x where "rn_labelRadix (rn h n) = [x]" "getChild h p [x] = Some n"
    "edges_of h p x = Some (rn_labelSuffix (rn h n), n)" "inc (edges_of h) n = {(p, x)}"
    "p < next_rid h" "n < next_rid h"
proof -
  let ?r = "rn_labelRadix (rn h n)"
  have kid: "(?r, n) \<in> set (kids h p)" using assms by (simp flip: pars_iff)
  with wf_kid_key [OF assms(1) kid] obtain x where x: "?r = [x]" by auto
  have g: "getChild h p [x] = Some n" using kid x by (simp add: getChild_kids [OF assms(1)])
  moreover note edges_of_getChild [OF g]
  moreover have "inc (edges_of h) n = {(p, x)}" by (simp add: inc_edges_of [OF assms(1)] assms(2) x)
  moreover have "p < next_rid h"
    using wf_blank_kids [OF assms(1), of p] kid by (force simp: not_less [symmetric])
  moreover have "n < next_rid h" by (rule wf_kid_bound [OF assms(1) kid])
  ultimately show thesis using x that by blast
qed

lemma mergeToChild_keeps:
  assumes wf: "wf_links h" and par: "pars h node = [p]" and pn: "p \<noteq> node"
    and merge: "mergeToChild node h = (ns, h')"
  shows "keeps h h'"
proof (cases "numChildren h node = 1 \<and> \<not> hasChildStateNode h node \<and>
    numParents h (getChildNodes h node ! 0) \<le> 1")
  case False
  with merge par have "h' = h" by (auto simp: mergeToChild_def Let_def split: if_splits)
  then show ?thesis by (simp add: keeps_refl [OF wf])
next
  case True
  then obtain x k where k: "kids h node = [([x], k)]" "getChildNodes h node = [k]"
    "rn_labelRadix (rn h k) = [x]" "edges_of h node = [x \<mapsto> (rn_labelSuffix (rn h k), k)]"
    "k < next_rid h"
    using numChildren_1 [OF wf, of node] by blast
  obtain c where c: "rn_labelRadix (rn h node) = [c]" "getChild h p [c] = Some node"
    "edges_of h p c = Some (rn_labelSuffix (rn h node), node)"
    "inc (edges_of h) node = {(p, c)}" "p < next_rid h" "node < next_rid h"
    using parent_edge [OF wf par] .
  let ?new = "rn_labelSuffix (rn h node) @ x # rn_labelSuffix (rn h k)"
  have gx: "getChild h node [x] = Some k" by (simp add: getChild_def k)
  have "(node, x) \<in> inc (edges_of h) k" by (simp add: in_inc_iff k)
  with True have ik: "inc (edges_of h) k = {(node, x)}"
    by (intro inc_single [OF wf]) (simp_all add: k)
  then have pk: "pars h k = [node]" by (rule inc_numParents [OF wf])
  then have kn: "k \<noteq> node" using par pn by auto
  obtain h1 b1 where d1: "deleteChild node [x] h = (h1, b1)" by fastforce
  obtain h2 b2 where d2: "deleteChild p [c] h1 = (h2, b2)" by fastforce
  obtain b3 where d3: "setChild p [c] ?new k h2 = (h', b3)"
    using merge True par pn
    by (simp add: mergeToChild_def Let_def numParents_def getParentNodes_def k c d1 d2) (metis prod.collapse)
  note s1 = deleteChild_simps [OF wf gx d1] and v1 = deleteChild_view [OF wf gx d1]
    and wf1 = deleteChild_wf [OF wf gx d1]
  have g1: "getChild h1 p [c] = Some node" using pn c(2) by (simp add: getChild_def s1(5))
  note s2 = deleteChild_simps [OF wf1 g1 d2] and v2 = deleteChild_view [OF wf1 g1 d2]
    and wf2 = deleteChild_wf [OF wf1 g1 d2]
  have pk2: "pars h2 k = []" using kn by (simp add: s2(10) s1(10) pk set_del_def)
  then have lk: "linkable h2 p c ?new k"
    using c(5) k(5) by (simp add: linkable_def s2(2) s1(2))
  note s3 = setChild_simps [OF wf2 lk d3] and v3 = setChild_view [OF wf2 lk d3]
    and wf3 = setChild_wf [OF wf2 lk d3]
  have E': "edges_of h' = (edges_of h)(node := (\<lambda>_. None), p := (edges_of h p)(c \<mapsto> (?new, k)))"
    using pn by (intro ext) (simp add: v3 v2 v1 k)
  have V': "value_of h' = value_of h" by (simp add: s3(8) s2(8) s1(8))
  have V: "value_of h node = None" using True by (simp add: hasChildStateNode_def value_of_def)
  show ?thesis
    unfolding keeps_def
  proof (intro conjI allI impI ext)
    fix r u assume r: "r < next_rid h" "pars h r = []"
    then have "r \<noteq> node" "r \<noteq> k" using par pk by auto
    then show "lookup h' r u = lookup h r u"
      unfolding E' V' using pn kn by (intro look_merge, intro c(3), intro k(4), intro V, intro c(4)) auto
    show "pars h' r = []" using r \<open>r \<noteq> k\<close> by (auto simp: s3(10) s2(10) s1(10) set_del_def)
  qed (use wf3 in \<open>simp_all add: s3(2) s2(2) s1(2)\<close>)
qed

lemma owned_only_parent:
  assumes "wf_links h" and "owned (edges_of h) r0 node s" and "pars h node = [p]"
  obtains s' where "owned (edges_of h) r0 p s'" "p \<noteq> node"
proof -
  obtain x where x: "edges_of h p x = Some (rn_labelSuffix (rn h node), node)"
    using parent_edge [OF assms(1,3)] by blast
  then have "(p, x) \<in> inc (edges_of h) node" by (simp add: in_inc_iff)
  with owned_pred [OF assms(2)] obtain s' where s': "owned (edges_of h) r0 p s'" by blast
  moreover have "p \<noteq> node"
  proof
    assume "p = node"
    with s' have "owned (edges_of h) r0 node s'" by simp
    from owned_below [OF s' x this] show False by simp
  qed
  ultimately show thesis using that by blast
qed

lemma removeRadixNode_keeps:
  assumes wf: "wf_links h" and root: "r0 < next_rid h" and own: "owned (edges_of h) r0 node s"
    and none: "value_of h node = None" and par: "pars h node \<noteq> []"
    and rem: "removeRadixNode node h = (res, h')"
  shows "keeps h h' \<and> res \<noteq> None"
proof -
  have "numParents h node = 1"
    using owned_numParents [OF wf own] par by (simp add: numParents_def le_Suc_eq)
  then obtain p where p: "pars h node = [p]" by (auto simp: numParents_def length_Suc_conv)
  obtain s' where s': "owned (edges_of h) r0 p s'" "p \<noteq> node"
    by (rule owned_only_parent [OF wf own p])
  consider (one) "numChildren h node = 1" | (zero) "numChildren h node = 0"
    | (many) "numChildren h node \<noteq> 1" "numChildren h node \<noteq> 0" by blast
  then show ?thesis
  proof cases
    case one
    with rem mergeToChild_keeps [OF wf p s'(2)] keeps_refl [OF wf] show ?thesis
      by (auto simp: removeRadixNode_def Let_def split: if_splits prod.splits)
  next
    case many
    with rem keeps_refl [OF wf] show ?thesis by (auto simp: removeRadixNode_def)
  next
    case zero
    obtain c where c: "rn_labelRadix (rn h node) = [c]" "getChild h p [c] = Some node"
      "edges_of h p c = Some (rn_labelSuffix (rn h node), node)"
      using parent_edge [OF wf p] by blast
    obtain h1 b where del: "deleteChild p [c] h = (h1, b)" by fastforce
    note s1 = deleteChild_simps [OF wf c(2) del] and v1 = deleteChild_view [OF wf c(2) del]
      and wf1 = deleteChild_wf [OF wf c(2) del]
    have own1: "owned (edges_of h1) r0 p s'"
    proof (rule takeOffChild(7) [OF wf root s'(1) c(2) _ del])
      show "(if numParents h node > 1 then cloneRadixNode node v None h else (node, h)) = (node, h)" for v
        by (simp add: numParents_def p)
    qed
    have k1: "keeps h h1"
      unfolding keeps_def
    proof (intro conjI allI impI ext)
      fix r u assume r: "r < next_rid h" "pars h r = []"
      show "lookup h1 r u = lookup h r u"
        unfolding v1 s1(8) by (rule look_detach, rule c(3), rule numChildren_0 [OF zero], rule none)
      show "pars h1 r = []" using r by (auto simp: s1(10) set_del_def)
    qed (use wf1 s1(2) in simp_all)
    have "keeps h1 h''" if par: "numParents h1 p = 1" and m: "mergeToChild p h1 = (ns, h'')" for ns h''
    proof -
      from par obtain q where q: "pars h1 p = [q]" by (auto simp: numParents_def length_Suc_conv)
      obtain sq where "q \<noteq> p" by (rule owned_only_parent [OF wf1 own1 q]) blast
      with q m show ?thesis by (intro mergeToChild_keeps [OF wf1])
    qed
    with rem zero k1 show ?thesis
      by (auto simp: removeRadixNode_def Let_def numParents_def [of h] p getParentNodes_def c del
          split: if_splits prod.splits intro: keeps_trans)
  qed
qed

end
