(* ===== verification/RadixStore.thy ===== *)
theory RadixStore
  imports RadixDelete
begin

text \<open>
  The contract of \<open>db/radix-tree.js\<close>: a well-formed tree is a finite map from radix labels to
  state nodes; \<open>set\<close>, \<open>delete\<close> and \<open>clone\<close> act on it as on a map, count its entries, and never
  change what any other tree of the same heap reads.
\<close>

subsection \<open>Updates of the Merkle information keep the graph\<close>

definition same_graph :: "heap \<Rightarrow> heap \<Rightarrow> bool" where
  "same_graph h h' \<longleftrightarrow> state_nodes h' = state_nodes h \<and> next_rid h' = next_rid h \<and> next_sid h' = next_sid h \<and>
     (\<forall>n. kids h' n = kids h n \<and> pars h' n = pars h n
        \<and> rn_labelRadix (rn h' n) = rn_labelRadix (rn h n)
        \<and> rn_labelSuffix (rn h' n) = rn_labelSuffix (rn h n)
        \<and> rn_childStateNode (rn h' n) = rn_childStateNode (rn h n)
        \<and> rn_parentStateNode (rn h' n) = rn_parentStateNode (rn h n))"

lemma same_graph_refl [simp, wf_intros]: "same_graph h h"
  by (simp add: same_graph_def)

lemma same_graph_trans [wf_intros]: "same_graph h h1 \<Longrightarrow> same_graph h1 h2 \<Longrightarrow> same_graph h h2"
  by (simp add: same_graph_def)

lemma same_graph_views:
  assumes "same_graph h h'"
  shows "edges_of h' = edges_of h" "value_of h' = value_of h"
  using assms by (intro ext, simp add: same_graph_def edges_of_def value_of_def cong: option.case_cong)+

lemma same_graph_keeps:
  assumes "same_graph h h'" and "wf_links h"
  shows "keeps h h'"
proof -
  have "wf_links h'"
    by (rule wf_links_same_links [OF assms(2)])
      (use assms wf_blank_value [OF assms(2)] in \<open>simp_all add: same_graph_def value_of_def\<close>)
  with assms show ?thesis by (simp add: keeps_def same_graph_views [OF assms(1)]) (simp add: same_graph_def)
qed

lemma updateRadixInfo_same_graph [simp]: "same_graph h (updateRadixInfo env n h)"
  by (simp add: same_graph_def updateRadixInfo_def split: prod.split)

lemma fold_opt_same_graph:
  assumes "fold_opt f xs (h, k) = Some (h', k')"
    and "\<And>x h k h' k'. x \<in> set xs \<Longrightarrow> f x (h, k) = Some (h', k') \<Longrightarrow> same_graph h h'"
  shows "same_graph h h'"
  using assms
proof (induction xs arbitrary: h k)
  case Nil
  then show ?case by simp
next
  case (Cons x xs)
  from Cons.prems(1) obtain h1 k1 where 1: "f x (h, k) = Some (h1, k1)" "fold_opt f xs (h1, k1) = Some (h', k')"
    by (auto split: option.splits)
  have "same_graph h1 h'" by (rule Cons.IH [OF 1(2)]) (rule Cons.prems(2); simp)
  with Cons.prems(2) [OF _ 1(1)] show ?case by (auto intro: same_graph_trans)
qed

lemma updateRadixInfoForAllRootPaths_same_graph:
  "updateRadixInfoForAllRootPaths env fuel n h = Some (h', k) \<Longrightarrow> same_graph h h'"
proof (induction env fuel n h arbitrary: h' k rule: updateRadixInfoForAllRootPaths.induct)
  case (2 env fuel n h)
  let ?h1 = "updateRadixInfo env n h"
  have "same_graph ?h1 h'"
    using "2.prems" unfolding updateRadixInfoForAllRootPaths.simps Let_def
    by (rule fold_opt_same_graph) (auto split: option.splits prod.splits dest: "2.IH" [OF refl])
  then show ?case using same_graph_trans [OF updateRadixInfo_same_graph] by blast
qed simp

lemma updateRadixInfoForRadixTree_same_graph:
  "updateRadixInfoForRadixTree env fuel n h = Some (h', k) \<Longrightarrow> same_graph h h'"
proof (induction env fuel n h arbitrary: h' k rule: updateRadixInfoForRadixTree.induct)
  case (2 env fuel n h)
  from "2.prems" obtain h1 k1 where
    f: "fold_opt (\<lambda>child (h, numAffectedNodes).
            case updateRadixInfoForRadixTree env fuel child h of
              None \<Rightarrow> None | Some (h', k) \<Rightarrow> Some (h', numAffectedNodes + k))
          (getChildNodes h n) (h, 0) = Some (h1, k1)"
    and h': "h' = updateRadixInfo env n h1" by (auto split: option.splits)
  from f have "same_graph h h1"
    by (rule fold_opt_same_graph) (auto split: option.splits prod.splits dest: "2.IH")
  then show ?case unfolding h' by (rule same_graph_trans) simp
qed simp

subsection \<open>Well-formed trees\<close>

definition tree_ok :: "radix_tree \<Rightarrow> heap \<Rightarrow> bool" where
  "tree_ok t h \<longleftrightarrow> wf_links h \<and> rt_root t < next_rid h \<and> pars h (rt_root t) = [] \<and>
     finite (dom (lookup h (rt_root t))) \<and>
     rt_numChildStateNodes t = int (card (dom (lookup h (rt_root t))))"

lemma tree_okD:
  assumes "tree_ok t h"
  shows "wf_links h" "rt_root t < next_rid h" "pars h (rt_root t) = []"
    "finite (dom (lookup h (rt_root t)))"
    "rt_numChildStateNodes t = int (card (dom (lookup h (rt_root t))))"
  using assms by (simp_all add: tree_ok_def)

lemma tree_ok_owned: "tree_ok t h \<Longrightarrow> owned (edges_of h) (rt_root t) (rt_root t) []"
  by (rule owned_root) (simp add: inc_empty_iff tree_okD)

lemma tree_ok_keeps:
  assumes "tree_ok t h" and "keeps h h'"
  shows "tree_ok t h'" "lookup h' (rt_root t) = lookup h (rt_root t)"
  using assms keepsD [OF assms(2)] by (simp_all add: tree_ok_def)

lemma hasChildStateNode_value: "hasChildStateNode h n \<longleftrightarrow> value_of h n \<noteq> None"
  by (simp add: hasChildStateNode_def value_of_def)

lemma owned_lookup: "owned (edges_of h) r0 n s \<Longrightarrow> lookup h r0 s = value_of h n"
  by (simp add: look_def owned_walk)

text \<open>Writing the value of an owned node of one tree.\<close>

lemma set_value_lookup:
  assumes "wf_links h" and "owned (edges_of h) r0 n s" and "pars h m = []"
    and "edges_of h' = edges_of h" and "value_of h' = (value_of h)(n := v)"
  shows "lookup h' m = (if m = r0 then (lookup h r0)(s := v) else lookup h m)"
  using look_set_value [OF assms(2), of m "value_of h" v] assms(1,3)
  by (auto simp: assms(4,5) inc_empty_iff)

lemma treeSet_effect:
  assumes ok: "tree_ok t h" and set: "treeSet l s t h = (t', h')"
  shows "wf_links h'" "next_rid h \<le> next_rid h'" "rt_root t' = rt_root t"
    "rt_numChildStateNodes t' = rt_numChildStateNodes t
       + (if lookup h (rt_root t) (toRadixLabel l) = None then 1 else 0)"
    "m < next_rid h \<Longrightarrow> pars h m = [] \<Longrightarrow> pars h' m = [] \<and>
       lookup h' m = (if m = rt_root t then (lookup h m)(toRadixLabel l \<mapsto> s) else lookup h m)"
proof -
  let ?r = "rt_root t" and ?rl = "toRadixLabel l"
  note o = tree_okD [OF ok]
  obtain n t1 h1 where f: "radixNodeForSetting ?rl ?r 0 t h = (n, t1, h1)" by (cases "radixNodeForSetting ?rl ?r 0 t h") auto
  from radixNodeForSetting_keeps [OF o(1,2) tree_ok_owned [OF ok] f]
  have k: "keeps h h1" and own: "owned (edges_of h1) ?r n ?rl" and t1: "rt_root t1 = ?r"
    "rt_numChildStateNodes t1 = rt_numChildStateNodes t" by simp_all
  define h2 where "h2 = (if hasChildStateNode h1 n then h1
    else upd_rn n (\<lambda>x. x\<lparr>rn_serial := Some (rt_nextSerial t1)\<rparr>) h1)"
  have "same_graph h1 h2" by (simp add: h2_def same_graph_def)
  note k2 = same_graph_keeps [OF this keepsD(1) [OF k]] and v2 = same_graph_views [OF this]
  have h': "h' = setChildStateNode n (Some s) h2"
    using set by (auto simp: treeSet_def f h2_def split: if_splits)
  have t': "rt_root t' = ?r" "rt_numChildStateNodes t' = rt_numChildStateNodes t
      + (if hasChildStateNode h1 n then 0 else 1)"
    using set t1 by (auto simp: treeSet_def f split: if_splits)
  have nb: "n < next_rid h1"
    by (rule owned_bound [OF keepsD(1) [OF k] _ own]) (use o(2) keepsD(2) [OF k] in simp)
  have nb2: "n < next_rid h2" using nb keepsD(2) [OF k2] by simp
  note v = setChildStateNode_view [OF keepsD(1) [OF k2] nb2, of s]
  note kk = keeps_trans [OF k k2]
  have own2: "owned (edges_of h2) ?r n ?rl" using own v2 by simp
  show "rt_root t' = rt_root t" by (rule t')
  show "wf_links h'" "next_rid h \<le> next_rid h'"
    using v keepsD(2) [OF kk] by (simp_all add: h' setChildStateNode_simps)
  have "hasChildStateNode h1 n \<longleftrightarrow> lookup h ?r ?rl \<noteq> None"
    using owned_lookup [OF own] keepsD(4) [OF k o(2,3)] by (simp add: hasChildStateNode_value)
  with t' show "rt_numChildStateNodes t' = rt_numChildStateNodes t
       + (if lookup h (rt_root t) (toRadixLabel l) = None then 1 else 0)" by simp
  assume m: "m < next_rid h" "pars h m = []"
  have "pars h2 m = []" by (rule keepsD(3) [OF kk m])
  moreover have "lookup h' m = (if m = ?r then (lookup h2 ?r)(?rl := Some s) else lookup h2 m)"
    by (rule set_value_lookup [OF keepsD(1) [OF k2] own2 calculation]) (use v in \<open>simp_all add: h'\<close>)
  moreover have "pars h' m = pars h2 m" by (simp add: h' setChildStateNode_simps)
  ultimately show "pars h' m = [] \<and>
       lookup h' m = (if m = rt_root t then (lookup h m)(toRadixLabel l \<mapsto> s) else lookup h m)"
    using keepsD(4) [OF kk m] keepsD(4) [OF kk o(2,3)] by simp
qed


lemma treeDelete_total: "\<exists>b t' h'. treeDelete env fuel l False t h = Some (b, t', h')"
  by (auto simp: treeDelete_def Let_def split: prod.split option.split)

lemma fold_opt_update_keeps:
  assumes "fold_opt (\<lambda>n h. map_option fst (updateRadixInfoForAllRootPaths env fuel n h)) ns h = Some h'"
    and "wf_links h"
  shows "keeps h h'"
  using assms
proof (induction ns arbitrary: h)
  case Nil
  then show ?case by (simp add: keeps_refl)
next
  case (Cons n ns)
  then obtain h1 k where u: "updateRadixInfoForAllRootPaths env fuel n h = Some (h1, k)"
    and r: "fold_opt (\<lambda>n h. map_option fst (updateRadixInfoForAllRootPaths env fuel n h)) ns h1 = Some h'"
    by (auto split: option.splits)
  note k1 = same_graph_keeps [OF updateRadixInfoForAllRootPaths_same_graph [OF u] Cons.prems(2)]
  show ?case by (rule keeps_trans [OF k1 Cons.IH [OF r keepsD(1) [OF k1]]])
qed

text \<open>What \<open>delete\<close> returns and does: it succeeds for an entry below a non-empty label.\<close>

lemma treeDelete_effect:
  assumes ok: "tree_ok t h" and del: "treeDelete env fuel l upd t h = Some (b, t', h')"
  shows "b \<longleftrightarrow> lookup h (rt_root t) (toRadixLabel l) \<noteq> None \<and> toRadixLabel l \<noteq> []"
    "wf_links h'" "next_rid h \<le> next_rid h'" "rt_root t' = rt_root t"
    "rt_numChildStateNodes t' = rt_numChildStateNodes t - (if b then 1 else 0)"
    "m < next_rid h \<Longrightarrow> pars h m = [] \<Longrightarrow> pars h' m = [] \<and>
       lookup h' m = (if m = rt_root t \<and> b then (lookup h m)(toRadixLabel l := None) else lookup h m)"
proof -
  let ?r = "rt_root t" and ?rl = "toRadixLabel l"
  note o = tree_okD [OF ok]
  obtain res h1 where f: "radixNodeForDeleting ?rl ?r 0 t h = (res, h1)" by fastforce
  from radixNodeForDeleting_keeps [OF o(1,2) tree_ok_owned [OF ok] f]
  have k: "keeps h h1" and res: "case res of None \<Rightarrow> lookup h ?r ?rl = None
      | Some m \<Rightarrow> owned (edges_of h1) ?r m ?rl" by (simp_all split: option.splits)
  note wf1 = keepsD(1) [OF k]
  have r1: "?r < next_rid h1" using o(2) keepsD(2) [OF k] by simp
  have look_r: "lookup h1 ?r = lookup h ?r" by (rule keepsD(4) [OF k o(2,3)])
  have all: "(b \<longleftrightarrow> lookup h ?r ?rl \<noteq> None \<and> ?rl \<noteq> []) \<and> wf_links h' \<and> next_rid h \<le> next_rid h'
    \<and> rt_root t' = ?r \<and> rt_numChildStateNodes t' = rt_numChildStateNodes t - (if b then 1 else 0)
    \<and> (m < next_rid h \<longrightarrow> pars h m = [] \<longrightarrow> pars h' m = [] \<and>
       lookup h' m = (if m = ?r \<and> b then (lookup h m)(?rl := None) else lookup h m))"
  proof (cases "\<exists>n. res = Some n \<and> value_of h1 n \<noteq> None \<and> pars h1 n \<noteq> []")
    case False
    have "b = False \<and> t' = t \<and> h' = h1"
      using del False
      by (cases res) (auto simp: treeDelete_def f hasChildStateNode_value numParents_def split: if_splits)
    moreover have "\<not> (lookup h ?r ?rl \<noteq> None \<and> ?rl \<noteq> [])"
    proof (cases res)
      case None
      with res show ?thesis by simp
    next
      case (Some n)
      with res have own: "owned (edges_of h1) ?r n ?rl" by simp
      show ?thesis
      proof
        assume a: "lookup h ?r ?rl \<noteq> None \<and> ?rl \<noteq> []"
        then have "value_of h1 n \<noteq> None" using owned_lookup [OF own] by (simp add: look_r)
        with False Some have "inc (edges_of h1) n = {}" by (auto simp: inc_empty_iff [OF wf1])
        with own a show False by (auto elim: owned_cases)
      qed
    qed
    ultimately show ?thesis using keepsD [OF k] by simp
  next
    case True
    then obtain n where n: "res = Some n" "value_of h1 n \<noteq> None" "pars h1 n \<noteq> []" by blast
    with res have own: "owned (edges_of h1) ?r n ?rl" by simp
    define h2 where "h2 = resetChildStateNode n h1"
    note v2 = resetChildStateNode_view [OF wf1, of n, folded h2_def]
    have b2: "next_rid h2 = next_rid h1" "pars h2 q = pars h1 q" for q
      by (simp_all add: h2_def resetChildStateNode_simps)
    obtain res3 h3 where rem: "removeRadixNode n h2 = (res3, h3)" by fastforce
    have "keeps h2 h3 \<and> res3 \<noteq> None"
      by (rule removeRadixNode_keeps [OF v2(1) _ _ _ _ rem, of ?r ?rl]) (use own r1 n v2 b2 in simp_all)
    then obtain ns where k3: "keeps h2 h3" and ns: "res3 = Some ns" by blast
    have out: "b \<and> t' = t\<lparr>rt_numChildStateNodes := rt_numChildStateNodes t - 1\<rparr> \<and> keeps h3 h'"
      using del n keepsD(1) [OF k3]
      by (auto simp: treeDelete_def f hasChildStateNode_value numParents_def Let_def rem ns
            simp flip: h2_def split: if_splits option.splits intro: fold_opt_update_keeps keeps_refl)
    note k' = keeps_trans [OF k3 conjunct2 [OF conjunct2 [OF out]]]
    have "lookup h ?r ?rl \<noteq> None" using owned_lookup [OF own] n by (simp add: look_r)
    moreover have "?rl \<noteq> []"
      using own n by (auto elim: owned_cases simp: inc_empty_iff [OF wf1])
    moreover have "pars h' m = [] \<and> lookup h' m = (if m = ?r then (lookup h m)(?rl := None) else lookup h m)"
      if m: "m < next_rid h" "pars h m = []"
    proof -
      have m1: "pars h1 m = []" by (rule keepsD(3) [OF k m])
      have m2: "m < next_rid h2" "pars h2 m = []" using m(1) keepsD(2) [OF k] m1 by (simp_all add: b2)
      have "lookup h2 m = (if m = ?r then (lookup h1 ?r)(?rl := None) else lookup h1 m)"
        by (rule set_value_lookup [OF wf1 own m1 v2(2,3)])
      with keepsD(3,4) [OF k' m2] keepsD(4) [OF k m] look_r show ?thesis by simp
    qed
    ultimately show ?thesis using out keepsD(1,2) [OF k'] keepsD(2) [OF k] b2 by simp
  qed
  then show "b \<longleftrightarrow> lookup h ?r ?rl \<noteq> None \<and> ?rl \<noteq> []" "wf_links h'" "next_rid h \<le> next_rid h'"
    "rt_root t' = ?r" "rt_numChildStateNodes t' = rt_numChildStateNodes t - (if b then 1 else 0)"
    "m < next_rid h \<Longrightarrow> pars h m = [] \<Longrightarrow> pars h' m = [] \<and>
       lookup h' m = (if m = ?r \<and> b then (lookup h m)(?rl := None) else lookup h m)"
    by simp_all
qed

subsection \<open>Creation and cloning\<close>

lemma newRadixTree_effect:
  assumes wf: "wf_links h" and new: "newRadixTree v p h = (t', h')"
  shows "wf_links h'" "next_rid h' = Suc (next_rid h)" "rt_root t' = next_rid h"
    "rt_numChildStateNodes t' = 0" "lookup h' = lookup h" "pars h' (rt_root t') = []"
    "lookup h' (rt_root t') s = None" "pars h m = [] \<Longrightarrow> pars h' m = []"
proof -
  let ?t = "\<lparr>rt_version = v, rt_nextSerial = 0, rt_root = 0, rt_numChildStateNodes = 0\<rparr>"
  obtain i t1 h1 where n: "treeNewRadixNode p ?t h = (i, t1, h1)" by (cases "treeNewRadixNode p ?t h") auto
  have t': "t' = t1\<lparr>rt_root := i\<rparr>" "h' = h1" using new n by (simp_all add: newRadixTree_def)
  note t = treeNewRadixNode_view [OF n wf]
  show "wf_links h'" "next_rid h' = Suc (next_rid h)" "rt_root t' = next_rid h"
    "rt_numChildStateNodes t' = 0" "lookup h' = lookup h" "pars h' (rt_root t') = []"
    "pars h m = [] \<Longrightarrow> pars h' m = []"
    using t by (simp_all add: t')
  show "lookup h' (rt_root t') s = None"
    using t(7,8) by (simp add: t' t(4,5) look_empty_node)
qed

lemma cloneRadixTree_effect:
  assumes ok: "tree_ok t h" and clone: "cloneRadixTree t v p h = (t', h')"
  shows "wf_links h'" "next_rid h \<le> rt_root t'" "rt_root t' < next_rid h'"
    "rt_numChildStateNodes t' = rt_numChildStateNodes t"
    "pars h' (rt_root t') = []" "lookup h' (rt_root t') = lookup h (rt_root t)"
    "m < next_rid h \<Longrightarrow> pars h m = [] \<Longrightarrow> pars h' m = [] \<and> lookup h' m = lookup h m"
proof -
  note o = tree_okD [OF ok]
  obtain t1 h1 where n: "newRadixTree v None h = (t1, h1)" by fastforce
  obtain r where c: "cloneRadixNode (rt_root t) v p h1 = (r, h')"
    and t': "t' = t1\<lparr>rt_nextSerial := rt_nextSerial t, rt_root := r,
                     rt_numChildStateNodes := rt_numChildStateNodes t\<rparr>"
    using clone by (auto simp: cloneRadixTree_def n split: prod.splits)
  note e = newRadixTree_effect [OF o(1) n]
  have b: "rt_root t < next_rid h1" using o(2) by (simp add: e(2))
  note k = cloneRadixNode_view [OF e(1) b c]
  show "wf_links h'" "next_rid h \<le> rt_root t'" "rt_root t' < next_rid h'"
    "rt_numChildStateNodes t' = rt_numChildStateNodes t"
    using k(1,2,3) e(2) by (simp_all add: t')
  have ir: "inc (edges_of h1) r = {}"
    using wf_blank_pars [OF e(1), of r] k(1) by (simp add: inc_empty_iff [OF e(1)])
  have Er: "edges_of h1 r = (\<lambda>_. None)"
    using wf_blank_kids [OF e(1), of r] k(1) by (intro ext) (simp add: edges_of_def)
  have nr: "rt_root t \<noteq> r" using b k(1) by simp
  have inc_sub: "inc (edges_of h') m = {}" if "inc (edges_of h1) m = {}" for m
    using that by (auto simp: inc_def k(4) split: if_splits)
  show "pars h' (rt_root t') = []"
    using inc_sub [OF ir] by (simp add: t' inc_empty_iff [OF k(3)])
  show "lookup h' (rt_root t') = lookup h (rt_root t)"
    using look_copy(2) [OF ir nr, of "value_of h1"] e(5) by (intro ext) (simp add: t' k(4,5))
  assume m: "m < next_rid h" "pars h m = []"
  then have "pars h1 m = []" "m \<noteq> r" using e(8) k(1) e(2) by simp_all
  moreover from this have "inc (edges_of h') m = {}"
    by (intro inc_sub) (simp add: inc_empty_iff [OF e(1)])
  then have "pars h' m = []" by (simp add: inc_empty_iff [OF k(3)])
  ultimately show "pars h' m = [] \<and> lookup h' m = lookup h m"
    using look_copy(1) [OF ir nr, of m "value_of h1"] e(5) by (auto simp: k(4,5))
qed

end
