(* ===== verification/RadixContract.thy ===== *)
theory RadixContract
  imports RadixStore
begin

text \<open>
  The interface the state trees rely on: a family of versions living in one heap, each of which
  behaves like a map of its own. The locale states the contract of one operation; the lemmas
  proved from it cover any interleaving of operations on any number of versions. The radix
  trees of \<open>db/radix-tree.js\<close> are the instance.
\<close>

text \<open>A sequence of operations, each on the version it names.\<close>

fun exec :: "('op \<Rightarrow> 't \<Rightarrow> 'h \<Rightarrow> ('t \<times> 'h) option) \<Rightarrow> ('i \<times> 'op) list \<Rightarrow> ('i \<Rightarrow> 't) \<Rightarrow> 'h
    \<Rightarrow> (('i \<Rightarrow> 't) \<times> 'h) option" where
  "exec step [] T h = Some (T, h)"
| "exec step ((i, oper) # ops) T h =
     (case step oper (T i) h of
        None \<Rightarrow> None
      | Some (t, h') \<Rightarrow> exec step ops (T(i := t)) h')"

definition ops_on :: "'i \<Rightarrow> ('i \<times> 'op) list \<Rightarrow> 'op list" where
  "ops_on i ops = map snd (filter (\<lambda>x. fst x = i) ops)"

locale versioned_map =
  fixes ok :: "'t \<Rightarrow> 'h \<Rightarrow> bool"
    and ident :: "'t \<Rightarrow> nat"
    and content :: "'t \<Rightarrow> 'h \<Rightarrow> 'k \<Rightarrow> 'v option"
    and step :: "'op \<Rightarrow> 't \<Rightarrow> 'h \<Rightarrow> ('t \<times> 'h) option"
    and sem :: "'op \<Rightarrow> ('k \<Rightarrow> 'v option) \<Rightarrow> 'k \<Rightarrow> 'v option"
  assumes step_own: "ok t h \<Longrightarrow> step oper t h = Some (t', h') \<Longrightarrow>
      ok t' h' \<and> ident t' = ident t \<and> content t' h' = sem oper (content t h)"
    and step_frame: "ok t h \<Longrightarrow> ok u h \<Longrightarrow> ident u \<noteq> ident t \<Longrightarrow> step oper t h = Some (t', h') \<Longrightarrow>
      ok u h' \<and> content u h' = content u h"
begin

lemma exec_isolated:
  assumes "\<And>i. ok (T i) h" and "inj (\<lambda>i. ident (T i))" and "exec step ops T h = Some (T', h')"
  shows "ok (T' i) h' \<and> ident (T' i) = ident (T i)
    \<and> content (T' i) h' = fold sem (ops_on i ops) (content (T i) h)"
  using assms
proof (induction ops arbitrary: T h)
  case Nil
  then show ?case by (simp add: ops_on_def)
next
  case (Cons x ops)
  obtain j oper where x: "x = (j, oper)" by fastforce
  from Cons.prems(3) obtain t1 h1 where s: "step oper (T j) h = Some (t1, h1)"
    and e: "exec step ops (T(j := t1)) h1 = Some (T', h')"
    by (auto simp: x split: option.splits)
  note own = step_own [OF Cons.prems(1) s]
  have frame: "ok (T k) h1 \<and> content (T k) h1 = content (T k) h" if "k \<noteq> j" for k
    using step_frame [OF Cons.prems(1) Cons.prems(1) _ s, of k] that Cons.prems(2)
    by (auto simp: inj_def)
  have id: "ident ((T(j := t1)) k) = ident (T k)" for k using own by simp
  have "inj (\<lambda>i. ident ((T(j := t1)) i))"
    unfolding id by (rule Cons.prems(2))
  from Cons.IH [OF _ this e] own frame
  have "ok (T' i) h' \<and> ident (T' i) = ident ((T(j := t1)) i)
    \<and> content (T' i) h' = fold sem (ops_on i ops) (content ((T(j := t1)) i) h1)" by simp
  with own frame show ?case by (auto simp: x ops_on_def)
qed

lemma exec_untouched:
  assumes "\<And>i. ok (T i) h" and "inj (\<lambda>i. ident (T i))" and "exec step ops T h = Some (T', h')"
    and "i \<notin> fst ` set ops"
  shows "content (T' i) h' = content (T i) h"
proof -
  have "ops_on i ops = []" using assms(4) by (force simp: ops_on_def filter_empty_conv)
  with exec_isolated [OF assms(1-3), of i] show ?thesis by simp
qed

end

subsection \<open>The radix trees as an instance\<close>

datatype radix_op = RSet string sid | RDelete string bool

definition radixStep ::
  "env \<Rightarrow> nat \<Rightarrow> radix_op \<Rightarrow> radix_tree \<Rightarrow> heap \<Rightarrow> (radix_tree \<times> heap) option" where
  "radixStep env fuel oper t h =
     (case oper of
        RSet l s \<Rightarrow> Some (treeSet l s t h)
      | RDelete l upd \<Rightarrow> map_option snd (treeDelete env fuel l upd t h))"

definition radixSem :: "radix_op \<Rightarrow> (string \<Rightarrow> sid option) \<Rightarrow> string \<Rightarrow> sid option" where
  "radixSem oper m =
     (case oper of
        RSet l s \<Rightarrow> m(toRadixLabel l \<mapsto> s)
      | RDelete l upd \<Rightarrow> if toRadixLabel l = [] then m else m(toRadixLabel l := None))"

text \<open>An operation that affects one tree only keeps the others well-formed.\<close>

lemma tree_ok_other:
  assumes "tree_ok u h" and "wf_links h'" and "next_rid h \<le> next_rid h'"
    and "\<And>m. m < next_rid h \<Longrightarrow> pars h m = [] \<Longrightarrow> m = rt_root u \<Longrightarrow> pars h' m = [] \<and> lookup h' m = lookup h m"
  shows "tree_ok u h' \<and> lookup h' (rt_root u) = lookup h (rt_root u)"
  using assms(1-3) assms(4) [of "rt_root u"] by (simp add: tree_ok_def)

lemma treeSet_own:
  assumes ok: "tree_ok t h" and set: "treeSet l s t h = (t', h')"
  shows "tree_ok t' h' \<and> rt_root t' = rt_root t \<and>
    lookup h' (rt_root t) = (lookup h (rt_root t))(toRadixLabel l \<mapsto> s)"
proof -
  note o = tree_okD [OF ok] and e = treeSet_effect [OF ok set]
  have "int (card (insert (toRadixLabel l) (dom (lookup h (rt_root t))))) =
      rt_numChildStateNodes t + (if lookup h (rt_root t) (toRadixLabel l) = None then 1 else 0)"
    using o(4,5) by (auto simp: card_insert_if)
  with e(1-4) e(5) [OF o(2,3)] o(2,4) show ?thesis by (simp add: tree_ok_def)
qed

lemma treeDelete_own:
  assumes ok: "tree_ok t h" and del: "treeDelete env fuel l upd t h = Some (b, t', h')"
  shows "tree_ok t' h' \<and> rt_root t' = rt_root t \<and>
    lookup h' (rt_root t) = (if toRadixLabel l = [] then lookup h (rt_root t)
                             else (lookup h (rt_root t))(toRadixLabel l := None))"
proof -
  let ?m = "lookup h (rt_root t)" and ?rl = "toRadixLabel l"
  note o = tree_okD [OF ok] and e = treeDelete_effect [OF ok del]
  have m': "lookup h' (rt_root t') = (if b then ?m(?rl := None) else ?m)"
    using e(4) e(6) [OF o(2,3)] by simp
  have eq: "(if b then ?m(?rl := None) else ?m) = (if ?rl = [] then ?m else ?m(?rl := None))"
    using e(1) by (auto simp: fun_upd_idem)
  have "?rl \<in> dom ?m" if b using e(1) that by auto
  with card_Diff_singleton [of ?rl "dom ?m"] card_gt_0_iff [of "dom ?m"] o(4,5)
  have "rt_numChildStateNodes t' = int (card (dom (if b then ?m(?rl := None) else ?m)))"
    using e(5) by (auto simp: of_nat_diff Suc_le_eq)
  moreover have "finite (dom (if b then ?m(?rl := None) else ?m))" using o(4) by simp
  ultimately show ?thesis
    using e(2-4) e(6) [OF o(2,3)] o(2) m' eq by (simp add: tree_ok_def)
qed

lemma treeSet_frame:
  assumes ok: "tree_ok t h" and set: "treeSet l s t h = (t', h')"
    and u: "tree_ok u h" "rt_root u \<noteq> rt_root t"
  shows "tree_ok u h' \<and> lookup h' (rt_root u) = lookup h (rt_root u)"
  by (rule tree_ok_other [OF u(1) treeSet_effect(1,2) [OF ok set]])
    (use treeSet_effect(5) [OF ok set] u(2) in simp)

lemma treeDelete_frame:
  assumes ok: "tree_ok t h" and del: "treeDelete env fuel l upd t h = Some (b, t', h')"
    and u: "tree_ok u h" "rt_root u \<noteq> rt_root t"
  shows "tree_ok u h' \<and> lookup h' (rt_root u) = lookup h (rt_root u)"
  by (rule tree_ok_other [OF u(1) treeDelete_effect(2,3) [OF ok del]])
    (use treeDelete_effect(6) [OF ok del] u(2) in simp)

interpretation radix: versioned_map tree_ok rt_root "\<lambda>t h. lookup h (rt_root t)"
  "radixStep env fuel" radixSem for env fuel
proof unfold_locales
  fix t u :: radix_tree and h h' :: heap and oper t'
  assume ok: "tree_ok t h" and st: "radixStep env fuel oper t h = Some (t', h')"
  show "tree_ok t' h' \<and> rt_root t' = rt_root t \<and>
      lookup h' (rt_root t') = radixSem oper (lookup h (rt_root t))"
    using treeSet_own [OF ok] treeDelete_own [OF ok] st
    by (cases oper) (auto simp: radixStep_def radixSem_def)
  assume "tree_ok u h" "rt_root u \<noteq> rt_root t"
  then show "tree_ok u h' \<and> lookup h' (rt_root u) = lookup h (rt_root u)"
    using treeSet_frame [OF ok] treeDelete_frame [OF ok] st
    by (cases oper) (auto simp: radixStep_def)
qed

subsection \<open>Properties\<close>

text \<open>
  C1. \<open>RadixTree.set\<close> stores the state node under its label: afterwards \<open>get\<close> of a label with the
  same radix label returns the state node, and \<open>get\<close> of every other label returns what it
  returned before. The tree stays well-formed, its entry count included.
\<close>

theorem treeSet_get:
  assumes "tree_ok t h" and "treeSet l s t h = (t', h')"
  shows "tree_ok t' h' \<and>
    treeGet t' h' l' = (if toRadixLabel l' = toRadixLabel l then Some s else treeGet t h l')"
  using treeSet_own [OF assms] by (simp add: treeGet_lookup)



text \<open>
  \<open>RadixTree.clone\<close> gives a well-formed tree with its own root and the same entries, and
  leaves every tree of the heap as it was; so the clone can be written without the original
  noticing (by the isolation of versions).
\<close>

theorem cloneRadixTree_same:
  assumes "tree_ok t h" and "cloneRadixTree t v p h = (t', h')"
  shows "tree_ok t' h' \<and> treeGet t' h' l = treeGet t h l \<and>
    (tree_ok u h \<longrightarrow> tree_ok u h' \<and> treeGet u h' l = treeGet u h l \<and> rt_root u \<noteq> rt_root t')"
proof -
  note c = cloneRadixTree_effect [OF assms] and o = tree_okD [OF assms(1)]
  have "tree_ok t' h'" using c o by (simp add: tree_ok_def)
  moreover have "tree_ok u h' \<and> treeGet u h' l = treeGet u h l \<and> rt_root u \<noteq> rt_root t'"
    if u: "tree_ok u h"
  proof -
    have "tree_ok u h' \<and> lookup h' (rt_root u) = lookup h (rt_root u)"
      by (rule tree_ok_other [OF u c(1)]) (use c in simp_all)
    then show ?thesis using c(2) tree_okD(2) [OF u] by (simp add: treeGet_lookup)
  qed
  ultimately show ?thesis using c(6) by (simp add: treeGet_lookup)
qed

text \<open>
  Two labels with one radix label share one entry: after \<open>set\<close> under the label \<open>0x61\<close>, \<open>get\<close>
  of the different label \<open>a\<close> returns the state node set there.
\<close>

theorem radix_label_collision:
  assumes "tree_ok t h" and "treeSet ''0x61'' s t h = (t', h')"
  shows "treeGet t' h' ''a'' = Some s"
proof -
  have "toRadixLabel ''0x61'' = toRadixLabel ''a''"
    by (simp add: toRadixLabel_def toHexString_def isHexString_def is_hex_digit_def is_digit_def
        toLowerCase_def lower_char_def buffer_hex_def utf8_def hex_byte_def hex_digit_def)
  with treeSet_own [OF assms] show ?thesis by (simp add: treeGet_lookup)
qed

subsection \<open>Witnesses\<close>

text \<open>A heap with one state node and one or two trees.\<close>

definition heap0 :: heap where
  "heap0 = \<lparr>radix_nodes = \<lambda>_. blank_radix_node None None None,
            state_nodes = \<lambda>_. \<lparr>sn_version = None, sn_label = None, sn_isLeaf = True, sn_value = JNull,
              sn_parentRadixNodeSet = [],
              sn_radixTree = \<lparr>rt_version = None, rt_nextSerial = 0, rt_root = 0, rt_numChildStateNodes = 0\<rparr>,
              sn_proofHash = None, sn_treeHeight = 0, sn_treeSize = 0, sn_treeBytes = 0,
              sn_treeMaxSiblings = 0\<rparr>,
            next_rid = 0, next_sid = 1\<rparr>"

lemma wf_heap0: "wf_links heap0"
  by (simp add: wf_links_def heap0_def blank_radix_node_def)

lemma newRadixTree_ok:
  assumes "wf_links h" and "newRadixTree v p h = (t', h')"
  shows "tree_ok t' h'"
proof -
  note n = newRadixTree_effect [OF assms]
  have "lookup h' (rt_root t') = (\<lambda>_. None)" by (rule ext) (rule n(7))
  with n show ?thesis by (simp add: tree_ok_def)
qed

definition tree1 :: "radix_tree \<times> heap" where
  "tree1 = newRadixTree None None heap0"

definition tree2 :: "radix_tree \<times> heap" where
  "tree2 = newRadixTree None None (snd tree1)"

lemma tree1_ok: "tree_ok (fst tree1) (snd tree1)"
  using newRadixTree_ok [OF wf_heap0] by (simp add: tree1_def)

lemma tree1_root: "rt_root (fst tree1) = 0" "next_rid (snd tree1) = 1"
  using newRadixTree_effect(2,3) [OF wf_heap0, of None None "fst tree1" "snd tree1"]
  by (simp_all add: tree1_def) (simp_all add: heap0_def)

lemma tree2_ok: "tree_ok (fst tree2) (snd tree2)" "tree_ok (fst tree1) (snd tree2)"
  "rt_root (fst tree2) = 1"
proof -
  note wf = tree_okD(1) [OF tree1_ok]
  have n: "newRadixTree None None (snd tree1) = (fst tree2, snd tree2)" by (simp add: tree2_def)
  note e = newRadixTree_effect [OF wf n]
  show "tree_ok (fst tree2) (snd tree2)" by (rule newRadixTree_ok [OF wf n])
  show "rt_root (fst tree2) = 1" by (simp add: e(3) tree1_root)
  show "tree_ok (fst tree1) (snd tree2)"
    using tree_ok_other [OF tree1_ok e(1)] e(2,5,8) by simp
qed

theorem treeSet_get_witness:
  "treeGet (fst (treeSet ''a'' 0 (fst tree1) (snd tree1))) (snd (treeSet ''a'' 0 (fst tree1) (snd tree1))) ''a'' = Some 0"
  using treeSet_get [OF tree1_ok, of "''a''" 0 _ _ "''a''"] by simp



theorem cloneRadixTree_same_witness:
  "tree_ok (fst (cloneRadixTree (fst tree1) None None (snd tree1))) (snd (cloneRadixTree (fst tree1) None None (snd tree1)))"
  using cloneRadixTree_same [OF tree1_ok, of None None] by (metis prod.collapse)

theorem radix_label_collision_witness:
  "treeGet (fst (treeSet ''0x61'' 3 (fst tree1) (snd tree1)))
     (snd (treeSet ''0x61'' 3 (fst tree1) (snd tree1))) ''a'' = Some 3"
  by (rule radix_label_collision [OF tree1_ok prod.collapse [symmetric]])

end
