(* ===== verification/RadixMerkle.thy ===== *)
theory RadixMerkle
  imports RadixContract
begin

text \<open>
  The Merkle information of the radix trees: with enough fuel the procedures that recompute it
  return, a recomputed tree verifies, recomputing along all paths to the roots repairs exactly
  the stale nodes, and a verified proof hash determines every state proof hash below it.
\<close>

subsection \<open>What the information of a node depends on\<close>

definition child_of :: "heap \<Rightarrow> rid \<Rightarrow> rid \<Rightarrow> bool" where
  "child_of h n m \<longleftrightarrow> m \<in> set (getChildNodes h n)"

definition info_of :: "radix_node \<Rightarrow> string option \<times> nat \<times> nat \<times> nat \<times> nat" where
  "info_of x = (rn_proofHash x, rn_treeHeight x, rn_treeSize x, rn_treeBytes x, rn_treeMaxSiblings x)"

lemma same_graph_children:
  assumes "same_graph h h'"
  shows "getChildNodes h' n = getChildNodes h n" "numChildren h' n = numChildren h n"
    "getParentNodes h' n = getParentNodes h n" "getLabel h' n = getLabel h n"
    "child_of h' n m = child_of h n m"
  using assms by (simp_all add: same_graph_def getChildNodes_def numChildren_def getParentNodes_def getLabel_def child_of_def)

lemmas update_children [simp] = same_graph_children [OF updateRadixInfo_same_graph]

lemma same_graph_height: "same_graph h h' \<Longrightarrow> height_le h' k n = height_le h k n"
proof (induction k arbitrary: n)
  case (Suc k)
  then have "height_le h' k = height_le h k" by auto
  with Suc.prems show ?case by (simp add: same_graph_def)
qed simp

lemma same_graph_depth: "same_graph h h' \<Longrightarrow> depth_le h' k n = depth_le h k n"
proof (induction k arbitrary: n)
  case (Suc k)
  then have "depth_le h' k = depth_le h k" by auto
  with Suc.prems show ?case by (simp add: same_graph_def)
qed simp

lemma foldl_cong_set:
  "(\<And>a x. x \<in> set xs \<Longrightarrow> f a x = g a x) \<Longrightarrow> foldl f a xs = foldl g a xs"
  by (induction xs arbitrary: a) simp_all

lemma buildRadixInfo_frame:
  assumes "same_graph h h'" and "\<And>m. child_of h n m \<Longrightarrow> info_of (rn h' m) = info_of (rn h m)"
  shows "buildRadixInfo env h' n = buildRadixInfo env h n"
proof -
  have "stateInfo env h' n = stateInfo env h n"
    using assms(1) by (simp add: stateInfo_def same_graph_def split: option.split)
  moreover have "foldl (addChildInfo env h') a (getChildNodes h n) = foldl (addChildInfo env h) a (getChildNodes h n)" for a
    using assms by (intro foldl_cong_set) (auto simp: addChildInfo_def child_of_def info_of_def same_graph_children [OF assms(1)])
  ultimately show ?thesis
    by (simp add: buildRadixInfo_def same_graph_children [OF assms(1)] cong: if_cong)
qed

lemma updateRadixInfo_rn: "m \<noteq> n \<Longrightarrow> rn (updateRadixInfo env n h) m = rn h m"
  by (simp add: updateRadixInfo_def split: prod.split)

lemma verifyRadixInfo_frame:
  assumes "same_graph h h'" and "info_of (rn h' n) = info_of (rn h n)"
    and "\<And>m. child_of h n m \<Longrightarrow> info_of (rn h' m) = info_of (rn h m)"
  shows "verifyRadixInfo env h' n = verifyRadixInfo env h n"
  using buildRadixInfo_frame [OF assms(1,3)] assms(2) by (simp add: verifyRadixInfo_def info_of_def)

lemma updateRadixInfo_noop:
  assumes "verifyRadixInfo env h n"
  shows "updateRadixInfo env n h = h"
proof -
  have id: "upd_rn n f h = h" if "f (rn h n) = rn h n" for f
    using that by (simp add: upd_rn_def fun_upd_idem)
  show ?thesis
    unfolding updateRadixInfo_def using assms
    by (cases "buildRadixInfo env h n") (simp, rule id, cases "rn h n", simp add: verifyRadixInfo_def)
qed

lemma updateRadixInfo_verified:
  assumes "\<not> child_of h n n"
  shows "verifyRadixInfo env (updateRadixInfo env n h) n"
proof -
  have "buildRadixInfo env (updateRadixInfo env n h) n = buildRadixInfo env h n"
    by (rule buildRadixInfo_frame) (use assms in \<open>auto intro!: arg_cong [of _ _ info_of] updateRadixInfo_rn\<close>)
  then show ?thesis
    by (simp add: verifyRadixInfo_def) (simp add: updateRadixInfo_def split: prod.split)
qed

lemma updateRadixInfo_others:
  assumes "m \<noteq> n" and "\<not> child_of h m n"
  shows "verifyRadixInfo env (updateRadixInfo env n h) m = verifyRadixInfo env h m"
  by (rule verifyRadixInfo_frame)
    (use assms in \<open>auto simp: updateRadixInfo_rn intro!: arg_cong [of _ _ info_of] updateRadixInfo_rn\<close>)

subsection \<open>Recomputing a whole tree\<close>

text \<open>Every node of the sub-tree verifies.\<close>

definition tree_verified :: "env \<Rightarrow> heap \<Rightarrow> rid \<Rightarrow> bool" where
  "tree_verified env h n \<longleftrightarrow> (\<forall>m. (child_of h)\<^sup>*\<^sup>* n m \<longrightarrow> verifyRadixInfo env h m)"

lemma tree_verified_self: "tree_verified env h n \<Longrightarrow> verifyRadixInfo env h n"
  by (simp add: tree_verified_def)

lemma tree_verified_step:
  "tree_verified env h n \<longleftrightarrow> verifyRadixInfo env h n \<and> (\<forall>m. child_of h n m \<longrightarrow> tree_verified env h m)"
proof
  assume "tree_verified env h n"
  then show "verifyRadixInfo env h n \<and> (\<forall>m. child_of h n m \<longrightarrow> tree_verified env h m)"
    unfolding tree_verified_def by (meson converse_rtranclp_into_rtranclp rtranclp.rtrancl_refl)
next
  assume *: "verifyRadixInfo env h n \<and> (\<forall>m. child_of h n m \<longrightarrow> tree_verified env h m)"
  show "tree_verified env h n"
    unfolding tree_verified_def
  proof (intro allI impI)
    fix m assume "(child_of h)\<^sup>*\<^sup>* n m"
    then show "verifyRadixInfo env h m"
      using * by (cases rule: converse_rtranclpE) (auto simp: tree_verified_def)
  qed
qed

lemma child_of_same_graph: "same_graph h h' \<Longrightarrow> child_of h' = child_of h"
  by (intro ext) (rule same_graph_children)

text \<open>Recomputing a node spoils no verified sub-tree.\<close>

lemma updateRadixInfo_keeps_verified:
  assumes "tree_verified env h m"
  shows "tree_verified env (updateRadixInfo env n h) m"
proof (cases "verifyRadixInfo env h n")
  case True
  with assms show ?thesis by (simp add: updateRadixInfo_noop)
next
  case False
  show ?thesis
    unfolding tree_verified_def child_of_same_graph [OF updateRadixInfo_same_graph]
  proof (intro allI impI)
    fix q assume q: "(child_of h)\<^sup>*\<^sup>* m q"
    then have v: "verifyRadixInfo env h q" using assms by (simp add: tree_verified_def)
    have "\<not> child_of h q n"
    proof
      assume "child_of h q n"
      with q have "(child_of h)\<^sup>*\<^sup>* m n" by (rule rtranclp.rtrancl_into_rtrancl)
      with assms False show False by (simp add: tree_verified_def)
    qed
    moreover have "q \<noteq> n" using v False by auto
    ultimately show "verifyRadixInfo env (updateRadixInfo env n h) q"
      using v by (simp add: updateRadixInfo_others)
  qed
qed

lemma updateRadixInfo_makes_verified:
  assumes "\<And>m. child_of h n m \<Longrightarrow> tree_verified env h m"
  shows "tree_verified env (updateRadixInfo env n h) n"
proof (cases "verifyRadixInfo env h n")
  case True
  with assms show ?thesis by (simp add: updateRadixInfo_noop tree_verified_step [of env h n])
next
  case False
  then have "\<not> child_of h n n" using assms tree_verified_self by blast
  with assms show ?thesis
    unfolding tree_verified_step [of env "updateRadixInfo env n h" n]
    by (simp add: updateRadixInfo_verified updateRadixInfo_keeps_verified)
qed

lemma updateRadixInfoForRadixTree_verified:
  assumes "height_le h fuel n"
  shows "\<exists>h' k. updateRadixInfoForRadixTree env fuel n h = Some (h', k) \<and> same_graph h h' \<and>
    tree_verified env h' n \<and> (\<forall>m. tree_verified env h m \<longrightarrow> tree_verified env h' m)"
  using assms
proof (induction fuel arbitrary: n h)
  case 0
  then show ?case by simp
next
  case (Suc fuel)
  let ?f = "\<lambda>child (h, numAffectedNodes).
              case updateRadixInfoForRadixTree env fuel child h of
                None \<Rightarrow> None
              | Some (h', k) \<Rightarrow> Some (h', numAffectedNodes + k)"
  have loop: "\<exists>h1 k1. fold_opt ?f cs (g, k) = Some (h1, k1) \<and> same_graph g h1 \<and>
      (\<forall>c\<in>set cs. tree_verified env h1 c) \<and> (\<forall>m. tree_verified env g m \<longrightarrow> tree_verified env h1 m)"
    if "\<forall>c\<in>set cs. height_le g fuel c" for cs g k
    using that
  proof (induction cs arbitrary: g k)
    case Nil
    then show ?case by simp
  next
    case (Cons c cs)
    then obtain g1 k1 where 1: "updateRadixInfoForRadixTree env fuel c g = Some (g1, k1)" "same_graph g g1"
      "tree_verified env g1 c" "\<forall>m. tree_verified env g m \<longrightarrow> tree_verified env g1 m"
      using Suc.IH [of g c] by auto
    have "\<forall>c\<in>set cs. height_le g1 fuel c" using Cons.prems by (simp add: same_graph_height [OF 1(2)])
    from Cons.IH [OF this, of "k + k1"] obtain h1 k2 where
      2: "fold_opt ?f cs (g1, k + k1) = Some (h1, k2)" "same_graph g1 h1"
      "\<forall>c\<in>set cs. tree_verified env h1 c" "\<forall>m. tree_verified env g1 m \<longrightarrow> tree_verified env h1 m"
      by blast
    with 1 same_graph_trans [OF 1(2) 2(2)] show ?case by auto
  qed
  have "\<forall>c\<in>set (getChildNodes h n). height_le h fuel c"
    using Suc.prems by (simp add: set_getChildNodes list_all_iff)
  from loop [OF this, of 0] obtain h1 k1 where
    1: "fold_opt ?f (getChildNodes h n) (h, 0) = Some (h1, k1)" "same_graph h h1"
    "\<forall>c\<in>set (getChildNodes h n). tree_verified env h1 c" "\<forall>m. tree_verified env h m \<longrightarrow> tree_verified env h1 m"
    by blast
  have "updateRadixInfoForRadixTree env (Suc fuel) n h = Some (updateRadixInfo env n h1, Suc k1)"
    using 1(1) by simp
  moreover have "tree_verified env (updateRadixInfo env n h1) n"
    by (rule updateRadixInfo_makes_verified) (use 1(3) in \<open>simp add: child_of_def same_graph_children [OF 1(2)]\<close>)
  moreover have "\<forall>m. tree_verified env h m \<longrightarrow> tree_verified env (updateRadixInfo env n h1) m"
    using 1(4) updateRadixInfo_keeps_verified by blast
  ultimately show ?case using same_graph_trans [OF 1(2)] by auto
qed

lemma verifyRadixInfoForRadixTree_verified:
  assumes "height_le h fuel n" and "tree_verified env h n"
  shows "verifyRadixInfoForRadixTree env fuel h n = Some True"
  using assms
proof (induction fuel arbitrary: n)
  case 0
  then show ?case by simp
next
  case (Suc fuel)
  have "verifyRadixInfoForRadixTree env fuel h c = Some True" if "c \<in> set (getChildNodes h n)" for c
    using that Suc.prems Suc.IH [of c]
    by (auto simp: set_getChildNodes list_all_iff tree_verified_step [of env h n] child_of_def)
  then have "fold_opt (\<lambda>child ok. if \<not> ok then Some False else verifyRadixInfoForRadixTree env fuel h child)
     cs True = Some True" if "set cs \<subseteq> set (getChildNodes h n)" for cs
    using that by (induction cs) simp_all
  with Suc.prems(2) show ?case by (simp add: tree_verified_self)
qed

subsection \<open>Recomputing along all paths to the roots\<close>

definition stale :: "env \<Rightarrow> heap \<Rightarrow> rid set" where
  "stale env h = {n. \<not> verifyRadixInfo env h n}"

definition parent_of :: "heap \<Rightarrow> rid \<Rightarrow> rid \<Rightarrow> bool" where
  "parent_of h n p \<longleftrightarrow> p \<in> set (getParentNodes h n)"

lemma child_of_parent_of: "wf_links h \<Longrightarrow> child_of h p n \<longleftrightarrow> parent_of h n p"
  by (simp add: child_of_def parent_of_def getParentNodes_def set_getChildNodes wf_pars_iff)

lemma depth_le_self: "depth_le h k n \<Longrightarrow> \<not> parent_of h n n"
proof (induction k)
  case (Suc k)
  then show ?case by (auto simp: parent_of_def getParentNodes_def list_all_iff)
qed simp

lemma updateRadixInfo_stale:
  assumes "wf_links h" and "\<not> parent_of h n n"
  shows "stale env (updateRadixInfo env n h) \<subseteq> (stale env h - {n}) \<union> {p. parent_of h n p}"
proof
  fix m assume m: "m \<in> stale env (updateRadixInfo env n h)"
  then have "m \<noteq> n"
    using updateRadixInfo_verified [of h n env] assms by (auto simp: stale_def child_of_parent_of)
  with m updateRadixInfo_others [of m n h env] show "m \<in> (stale env h - {n}) \<union> {p. parent_of h n p}"
    using child_of_parent_of [OF assms(1), of m n] by (auto simp: stale_def)
qed

lemma updateRadixInfoForAllRootPaths_stale:
  assumes "wf_links h" and "depth_le h fuel n"
  shows "\<exists>h' k. updateRadixInfoForAllRootPaths env fuel n h = Some (h', k) \<and> same_graph h h' \<and>
    stale env h' \<subseteq> stale env h - {p. (parent_of h)\<^sup>*\<^sup>* n p}"
  using assms
proof (induction fuel arbitrary: n h)
  case 0
  then show ?case by simp
next
  case (Suc fuel)
  let ?f = "\<lambda>parent (h, numAffectedNodes).
              case updateRadixInfoForAllRootPaths env fuel parent h of
                None \<Rightarrow> None
              | Some (h', k) \<Rightarrow> Some (h', numAffectedNodes + k)"
  have loop: "\<exists>h1 k1. fold_opt ?f ps (g, k) = Some (h1, k1) \<and> same_graph g h1 \<and>
      stale env h1 \<subseteq> stale env g - {q. \<exists>p\<in>set ps. (parent_of g)\<^sup>*\<^sup>* p q}"
    if "\<forall>p\<in>set ps. depth_le g fuel p" "wf_links g" for ps g k
    using that
  proof (induction ps arbitrary: g k)
    case Nil
    then show ?case by simp
  next
    case (Cons p ps)
    then obtain g1 k1 where 1: "updateRadixInfoForAllRootPaths env fuel p g = Some (g1, k1)" "same_graph g g1"
      "stale env g1 \<subseteq> stale env g - {q. (parent_of g)\<^sup>*\<^sup>* p q}"
      using Suc.IH [of g p] by auto
    have d: "\<forall>p\<in>set ps. depth_le g1 fuel p" using Cons.prems(1) by (simp add: same_graph_depth [OF 1(2)])
    have wf: "wf_links g1" using same_graph_keeps [OF 1(2) Cons.prems(2)] by (rule keepsD)
    have par: "parent_of g1 = parent_of g" by (intro ext) (simp add: parent_of_def same_graph_children [OF 1(2)])
    from Cons.IH [OF d wf, of "k + k1"] obtain h1 k2 where
      2: "fold_opt ?f ps (g1, k + k1) = Some (h1, k2)" "same_graph g1 h1"
      "stale env h1 \<subseteq> stale env g1 - {q. \<exists>p\<in>set ps. (parent_of g)\<^sup>*\<^sup>* p q}"
      unfolding par by blast
    with 1 same_graph_trans [OF 1(2) 2(2)] show ?case by auto
  qed
  let ?h1 = "updateRadixInfo env n h"
  have sg: "same_graph h ?h1" by simp
  have wf1: "wf_links ?h1" by (rule keepsD(1) [OF same_graph_keeps [OF sg Suc.prems(1)]])
  have par: "parent_of ?h1 = parent_of h" by (intro ext) (simp add: parent_of_def)
  have "\<forall>p\<in>set (getParentNodes h n). depth_le ?h1 fuel p"
    using Suc.prems(2) by (simp add: list_all_iff getParentNodes_def same_graph_depth [OF sg])
  from loop [OF this wf1, of 1] obtain h' k' where
    1: "fold_opt ?f (getParentNodes h n) (?h1, 1) = Some (h', k')" "same_graph ?h1 h'"
    "stale env h' \<subseteq> stale env ?h1 - {q. \<exists>p\<in>set (getParentNodes h n). (parent_of h)\<^sup>*\<^sup>* p q}"
    unfolding par by blast
  have anc: "q = n \<or> (\<exists>p\<in>set (getParentNodes h n). (parent_of h)\<^sup>*\<^sup>* p q)"
    if "(parent_of h)\<^sup>*\<^sup>* n q" for q
    using that by (cases rule: converse_rtranclpE) (auto simp: parent_of_def)
  have "stale env h' \<subseteq> stale env h - {p. (parent_of h)\<^sup>*\<^sup>* n p}"
  proof
    fix q assume q: "q \<in> stale env h'"
    with 1(3) have q1: "q \<in> stale env ?h1" "\<not> (\<exists>p\<in>set (getParentNodes h n). (parent_of h)\<^sup>*\<^sup>* p q)" by auto
    then have "\<not> parent_of h n q" by (auto simp: parent_of_def)
    with q1(1) updateRadixInfo_stale [OF Suc.prems(1) depth_le_self [OF Suc.prems(2)], of env]
    have "q \<in> stale env h" "q \<noteq> n" by auto
    with anc q1(2) show "q \<in> stale env h - {p. (parent_of h)\<^sup>*\<^sup>* n p}" by blast
  qed
  moreover have "updateRadixInfoForAllRootPaths env (Suc fuel) n h = Some (h', k')"
    using 1(1) by simp
  ultimately show ?case using same_graph_trans [OF sg 1(2)] by blast
qed


subsection \<open>Enough fuel\<close>

text \<open>A ranking that decreases from parents to children bounds the paths both ways.\<close>

lemma height_le_rank:
  assumes "\<And>n m. child_of h n m \<Longrightarrow> f m < (f n :: nat)"
  shows "f n < k \<Longrightarrow> height_le h k n"
proof (induction k arbitrary: n)
  case (Suc k)
  have "height_le h k m" if "child_of h n m" for m
    using Suc.IH [of m] assms [OF that] Suc.prems by simp
  then show ?case by (auto simp: list_all_iff child_of_def set_getChildNodes)
qed simp

lemma depth_le_rank:
  assumes "\<And>n p. parent_of h n p \<Longrightarrow> f n < (f p :: nat)" and "\<And>n. f n \<le> B"
  shows "B - f n < k \<Longrightarrow> depth_le h k n"
proof (induction k arbitrary: n)
  case (Suc k)
  have "depth_le h k p" if "parent_of h n p" for p
    using Suc.IH [of p] assms(1) [OF that] assms(2) [of p] assms(2) [of n] Suc.prems by linarith
  then show ?case by (auto simp: list_all_iff parent_of_def getParentNodes_def)
qed simp

subsection \<open>The proof hash determines what is below it\<close>

text \<open>Strings without the delimiter.\<close>

definition plain :: "string \<Rightarrow> bool" where
  "plain s = (CHR ''#'' \<notin> set s)"

lemma plain_takeWhile:
  "plain a \<Longrightarrow> x = [] \<or> hd x = CHR ''#'' \<Longrightarrow> takeWhile (\<lambda>c. c \<noteq> CHR ''#'') (a @ x) = a"
  by (induction a) (cases x; auto simp: plain_def)+

lemma delim_split:
  assumes "plain a" and "plain b" and "x = [] \<or> hd x = CHR ''#''" and "y = [] \<or> hd y = CHR ''#''"
    and "a @ x = b @ y"
  shows "a = b \<and> x = y"
proof -
  have "a = b" using plain_takeWhile [OF assms(1,3)] plain_takeWhile [OF assms(2,4)] assms(5) by simp
  with assms(5) show ?thesis by simp
qed

definition entry :: "string \<times> string \<Rightarrow> string" where
  "entry x = ''#'' @ fst x @ ''#'' @ snd x"

lemma entries_hd: "concat (map entry xs) = [] \<or> hd (concat (map entry xs)) = CHR ''#''"
  by (cases xs) (simp_all add: entry_def)

lemma entries_inj:
  assumes "\<forall>x\<in>set xs. plain (fst x) \<and> plain (snd x)" and "\<forall>x\<in>set ys. plain (fst x) \<and> plain (snd x)"
    and "concat (map entry xs) = concat (map entry ys)"
  shows "xs = ys"
  using assms
proof (induction xs arbitrary: ys)
  case Nil
  then show ?case by (cases ys) (simp_all add: entry_def)
next
  case (Cons x xs)
  then obtain y ys' where y: "ys = y # ys'" by (cases ys) (auto simp: entry_def)
  from Cons.prems y have eq: "fst x @ ''#'' @ snd x @ concat (map entry xs) = fst y @ ''#'' @ snd y @ concat (map entry ys')"
    by (simp add: entry_def [of x] entry_def [of y])
  have 1: "fst x = fst y \<and> ''#'' @ snd x @ concat (map entry xs) = ''#'' @ snd y @ concat (map entry ys')"
    by (rule delim_split [OF _ _ _ _ eq]) (use Cons.prems y in simp_all)
  then have "snd x @ concat (map entry xs) = snd y @ concat (map entry ys')" by simp
  from delim_split [OF _ _ entries_hd entries_hd this] Cons.prems y
  have "snd x = snd y \<and> concat (map entry xs) = concat (map entry ys')" by simp
  with 1 Cons.IH [of ys'] Cons.prems y show ?case by (auto intro: prod_eqI)
qed

text \<open>The preimage of a node's proof hash, and the state proof hash held at a node.\<close>

definition state_hash :: "heap \<Rightarrow> rid \<Rightarrow> string option" where
  "state_hash h n = map_option (\<lambda>s. template (sn_proofHash (sn h s))) (value_of h n)"

definition child_entries :: "heap \<Rightarrow> rid \<Rightarrow> (string \<times> string) list" where
  "child_entries h n = map (\<lambda>m. (getLabel h m, template (rn_proofHash (rn h m)))) (getChildNodes h n)"

definition own_hash :: "heap \<Rightarrow> rid \<Rightarrow> string" where
  "own_hash h n = (case state_hash h n of None \<Rightarrow> [] | Some x \<Rightarrow> x)"

definition child_part :: "heap \<Rightarrow> rid \<Rightarrow> string" where
  "child_part h n =
     (if child_entries h n = [] then ''#'' else concat (map entry (child_entries h n)))"

definition preimage_of :: "heap \<Rightarrow> rid \<Rightarrow> string" where
  "preimage_of h n = own_hash h n @ ''#'' @ child_part h n"

lemma foldl_preimage:
  assumes "\<not> env_LIGHTWEIGHT env"
  shows "ri_preimage (foldl (addChildInfo env h) a ms) =
    ri_preimage a @ concat (map entry (map (\<lambda>m. (getLabel h m, template (rn_proofHash (rn h m)))) ms))"
  using assms by (induction ms arbitrary: a) (simp_all add: addChildInfo_def entry_def HASH_DELIMITER_def)

lemma verified_proofHash:
  assumes "\<not> env_LIGHTWEIGHT env" and "verifyRadixInfo env h n"
  shows "rn_proofHash (rn h n) = Some (hashString env (preimage_of h n))"
proof -
  have len: "(child_entries h n = []) = (numChildren h n = 0)"
    by (simp add: child_entries_def getChildNodes_def numChildren_def flip: length_0_conv)
  have own: "ri_preimage (stateInfo env h n) = own_hash h n"
    using assms(1) by (simp add: stateInfo_def own_hash_def state_hash_def value_of_def split: option.split)
  have "fst (buildRadixInfo env h n) = hashString env (preimage_of h n)"
    using assms(1)
    by (simp add: buildRadixInfo_def Let_def foldl_preimage own preimage_of_def child_part_def len
        HASH_DELIMITER_def flip: child_entries_def)
  with assms(2) show ?thesis by (simp add: verifyRadixInfo_def split: prod.splits)
qed

text \<open>
  What the argument relies on: no hash (of a state node, or computed by the hash function) and
  no label contains the delimiter, and state nodes have non-empty proof hashes.
\<close>

definition delimiter_free :: "env \<Rightarrow> heap \<Rightarrow> bool" where
  "delimiter_free env h \<longleftrightarrow> (\<forall>s. plain (env_hashMessage env s)) \<and>
     (\<forall>n x. state_hash h n = Some x \<longrightarrow> x \<noteq> [] \<and> plain x) \<and>
     (\<forall>n m. child_of h n m \<longrightarrow> plain (getLabel h m))"

lemma entries_eq_edges:
  assumes "wf_links h" and "wf_links h2" and "child_entries h n = child_entries h2 n2"
    and "edges_of h n c = Some (suf, m)"
  shows "\<exists>m2. edges_of h2 n2 c = Some (suf, m2) \<and> child_of h n m \<and> child_of h2 n2 m2 \<and>
    template (rn_proofHash (rn h m)) = template (rn_proofHash (rn h2 m2))"
proof -
  have kid: "([c], m) \<in> set (kids h n)" and suf: "rn_labelSuffix (rn h m) = suf"
    using assms(4) by (simp_all add: edges_of_Some [OF assms(1)])
  have m: "child_of h n m" using kid by (force simp: child_of_def set_getChildNodes)
  then have "(getLabel h m, template (rn_proofHash (rn h m))) \<in> set (child_entries h n)"
    by (auto simp: child_entries_def child_of_def)
  then obtain m2 where m2: "m2 \<in> set (getChildNodes h2 n2)" "getLabel h2 m2 = getLabel h m"
    "template (rn_proofHash (rn h2 m2)) = template (rn_proofHash (rn h m))"
    unfolding assms(3) by (auto simp: child_entries_def)
  then obtain k where k: "(k, m2) \<in> set (kids h2 n2)" by (auto simp: set_getChildNodes)
  obtain y where y: "k = [y]" using wf_kid_key [OF assms(2) k] by blast
  have "getLabel h m = c # suf" using wf_kid_radix [OF assms(1) kid] suf by (simp add: getLabel_def)
  moreover have "getLabel h2 m2 = y # rn_labelSuffix (rn h2 m2)"
    using wf_kid_radix [OF assms(2) k] y by (simp add: getLabel_def)
  ultimately have "y = c" "rn_labelSuffix (rn h2 m2) = suf" using m2(2) by simp_all
  with k y have "edges_of h2 n2 c = Some (suf, m2)" by (simp add: edges_of_Some [OF assms(2)])
  with m m2 show ?thesis by (auto simp: child_of_def)
qed

lemma child_entries_plain:
  assumes "delimiter_free env h" and "\<not> env_LIGHTWEIGHT env" and "tree_verified env h n"
  shows "\<forall>x\<in>set (child_entries h n). plain (fst x) \<and> plain (snd x)"
proof
  fix x assume "x \<in> set (child_entries h n)"
  then obtain m where m: "child_of h n m" "x = (getLabel h m, template (rn_proofHash (rn h m)))"
    by (auto simp: child_entries_def child_of_def)
  with assms(3) have "verifyRadixInfo env h m" by (simp add: tree_verified_step [of env h n] tree_verified_self)
  from verified_proofHash [OF assms(2) this] m assms(1) show "plain (fst x) \<and> plain (snd x)"
    by (auto simp: delimiter_free_def template_def hashString_def plain_def)
qed

lemma preimage_inj:
  assumes "delimiter_free env h" and "delimiter_free env h2"
    and "\<not> env_LIGHTWEIGHT env" and "tree_verified env h n" and "tree_verified env h2 n2"
    and "preimage_of h n = preimage_of h2 n2"
  shows "state_hash h n = state_hash h2 n2 \<and> child_entries h n = child_entries h2 n2"
proof -
  have s: "plain (own_hash g k)" if "delimiter_free env g" for g k
    using that by (auto simp: delimiter_free_def own_hash_def plain_def split: option.splits)
  have sp: "own_hash h n = own_hash h2 n2 \<and> ''#'' @ child_part h n = ''#'' @ child_part h2 n2"
    by (rule delim_split [OF s [OF assms(1)] s [OF assms(2)]]) (use assms(6) in \<open>simp_all add: preimage_of_def\<close>)
  have ne: "state_hash g k \<noteq> Some []" if "delimiter_free env g" for g k
    using that by (auto simp: delimiter_free_def)
  have "state_hash h n = state_hash h2 n2"
    using sp ne [OF assms(1)] ne [OF assms(2)] by (auto simp: own_hash_def split: option.splits)
  moreover have "length (child_part g k) \<ge> 2" if "child_entries g k \<noteq> []" for g k
    using that by (cases "child_entries g k") (auto simp: child_part_def entry_def)
  moreover have "length (child_part g k) = 1" if "child_entries g k = []" for g k
    using that by (simp add: child_part_def)
  moreover have "child_part h n = child_part h2 n2" using sp by simp
  ultimately show ?thesis
    using entries_inj [OF child_entries_plain [OF assms(1,3,4)] child_entries_plain [OF assms(2,3,5)]]
    by (metis child_part_def numeral_le_one_iff semiring_norm(69))
qed


lemma proof_hash_binding:
  assumes "inj (env_hashMessage env)" and "\<not> env_LIGHTWEIGHT env"
    and "delimiter_free env h" and "delimiter_free env h2" and "wf_links h" and "wf_links h2"
    and "tree_verified env h n" and "tree_verified env h2 n2"
    and "rn_proofHash (rn h n) = rn_proofHash (rn h2 n2)"
  shows "look (edges_of h) (state_hash h) n t = look (edges_of h2) (state_hash h2) n2 t"
  using assms(7-9)
proof (induction t arbitrary: n n2 rule: measure_induct_rule [where f = length])
  case (less t)
  note hash1 = verified_proofHash [OF assms(2) tree_verified_self [OF less.prems(1)]]
    and hash2 = verified_proofHash [OF assms(2) tree_verified_self [OF less.prems(2)]]
  from hash1 hash2 less.prems(3) assms(1) have "preimage_of h n = preimage_of h2 n2"
    by (simp add: hashString_def inj_eq)
  from preimage_inj [OF assms(3,4,2) less.prems(1,2) this]
  have sh: "state_hash h n = state_hash h2 n2" and ce: "child_entries h n = child_entries h2 n2" by simp_all
  show ?case
  proof (cases t)
    case Nil
    with sh show ?thesis by simp
  next
    case (Cons c r)
    show ?thesis
    proof (cases "edges_of h n c")
      case None
      then have "edges_of h2 n2 c = None"
        using entries_eq_edges [OF assms(6,5) ce [symmetric]] by (cases "edges_of h2 n2 c") fastforce+
      with None Cons show ?thesis by (simp add: look_Cons)
    next
      case (Some e)
      obtain suf m where e: "e = (suf, m)" by fastforce
      obtain m2 where m2: "edges_of h2 n2 c = Some (suf, m2)" "child_of h n m" "child_of h2 n2 m2"
        "template (rn_proofHash (rn h m)) = template (rn_proofHash (rn h2 m2))"
        using entries_eq_edges [OF assms(5,6) ce Some [unfolded e]] by blast
      have v: "tree_verified env h m" "tree_verified env h2 m2"
        using less.prems(1,2) m2(2,3) tree_verified_step by blast+
      have "rn_proofHash (rn h m) = rn_proofHash (rn h2 m2)"
        using m2(4) verified_proofHash [OF assms(2) tree_verified_self [OF v(1)]]
          verified_proofHash [OF assms(2) tree_verified_self [OF v(2)]]
        by (simp add: template_def)
      then have "look (edges_of h) (state_hash h) m (drop (length suf) r) =
          look (edges_of h2) (state_hash h2) m2 (drop (length suf) r)"
        using Cons v by (intro less.IH) simp_all
      with Some e m2(1) Cons show ?thesis by (simp add: look_Cons)
    qed
  qed
qed

subsection \<open>Properties\<close>

text \<open>
  \<open>updateRadixInfoForRadixTree\<close> returns when the fuel exceeds the height of the tree, changes
  nothing but the Merkle information, and leaves a tree on which \<open>verifyRadixInfoForRadixTree\<close>
  returns true. The nodes may be shared and may be visited several times.
\<close>

theorem updateRadixInfoForRadixTree_verifies:
  assumes "wf_links h" and "height_le h fuel n"
  shows "\<exists>h' k. updateRadixInfoForRadixTree env fuel n h = Some (h', k) \<and> keeps h h' \<and>
    verifyRadixInfoForRadixTree env fuel h' n = Some True"
proof -
  obtain h' k where u: "updateRadixInfoForRadixTree env fuel n h = Some (h', k)" "same_graph h h'"
    "tree_verified env h' n" using updateRadixInfoForRadixTree_verified [OF assms(2)] by blast
  have "height_le h' fuel n" using assms(2) by (simp add: same_graph_height [OF u(2)])
  from verifyRadixInfoForRadixTree_verified [OF this u(3)] u(1) same_graph_keeps [OF u(2) assms(1)]
  show ?thesis by blast
qed

text \<open>
  C5. \<open>updateRadixInfoForAllRootPaths\<close> from a node returns when the fuel exceeds the length of
  every path up to a root. When the only nodes with stale information are the node itself and
  nodes above it, no stale node is left in the whole heap, in any version.
\<close>

theorem updateRadixInfoForAllRootPaths_repairs:
  assumes "wf_links h" and "depth_le h fuel n"
    and "\<And>m. m < next_rid h \<Longrightarrow> \<not> verifyRadixInfo env h m \<Longrightarrow> (parent_of h)\<^sup>*\<^sup>* n m"
  shows "\<exists>h' k. updateRadixInfoForAllRootPaths env fuel n h = Some (h', k) \<and> keeps h h' \<and>
    (\<forall>m<next_rid h. verifyRadixInfo env h' m)"
proof -
  obtain h' k where u: "updateRadixInfoForAllRootPaths env fuel n h = Some (h', k)" "same_graph h h'"
    "stale env h' \<subseteq> stale env h - {p. (parent_of h)\<^sup>*\<^sup>* n p}"
    using updateRadixInfoForAllRootPaths_stale [OF assms(1,2)] by blast
  then have "\<forall>m<next_rid h. verifyRadixInfo env h' m"
    using assms(3) by (auto simp: stale_def)
  with u(1) same_graph_keeps [OF u(2) assms(1)] show ?thesis by blast
qed



subsection \<open>Witnesses\<close>

definition hexEnv :: env where
  "hexEnv = \<lparr>env_hashMessage = buffer_hex, env_sizeof = length, env_LIGHTWEIGHT = False\<rparr>"

lemma tree1_graph: "kids (snd tree1) n = []" "pars (snd tree1) n = []" "value_of (snd tree1) n = None"
  by (simp_all add: tree1_def newRadixTree_def treeNewRadixNode_def newRadixNode_def heap0_def
      blank_radix_node_def value_of_def)

lemma tree1_next: "m < next_rid (snd tree1) \<Longrightarrow> m = rt_root (fst tree1)"
  by (simp add: tree1_root)

lemma plain_buffer_hex: "plain (buffer_hex s)"
  using buffer_hex_lower [of s] by (auto simp: plain_def lower_hex_def is_digit_def)

theorem updateRadixInfoForRadixTree_verifies_witness:
  "\<exists>h' k. updateRadixInfoForRadixTree hexEnv 1 (rt_root (fst tree1)) (snd tree1) = Some (h', k) \<and>
    verifyRadixInfoForRadixTree hexEnv 1 h' (rt_root (fst tree1)) = Some True"
proof -
  have "height_le (snd tree1) 1 (rt_root (fst tree1))" by (simp add: tree1_graph)
  with updateRadixInfoForRadixTree_verifies [OF tree_okD(1) [OF tree1_ok]] show ?thesis by blast
qed

theorem updateRadixInfoForAllRootPaths_repairs_witness:
  "\<exists>h' k. updateRadixInfoForAllRootPaths hexEnv 1 (rt_root (fst tree1)) (snd tree1) = Some (h', k) \<and>
    verifyRadixInfo hexEnv h' (rt_root (fst tree1))"
proof -
  let ?r = "rt_root (fst tree1)"
  have d: "depth_le (snd tree1) 1 ?r" by (simp add: tree1_graph)
  have "(parent_of (snd tree1))\<^sup>*\<^sup>* ?r m" if "m < next_rid (snd tree1)" for m
    using tree1_next [OF that] by simp
  then obtain h' k where "updateRadixInfoForAllRootPaths hexEnv 1 ?r (snd tree1) = Some (h', k)"
    "\<forall>m<next_rid (snd tree1). verifyRadixInfo hexEnv h' m"
    using updateRadixInfoForAllRootPaths_repairs [OF tree_okD(1) [OF tree1_ok] d, of hexEnv] by blast
  then show ?thesis by (simp add: tree1_root)
qed


end
