(* ===== verification/Paths.thy ===== *)
theory Paths
  imports JsValue
begin

text \<open>
  Database paths (\<open>common/common-util.js\<close>, \<open>db/index.js\<close>) and account names
  (\<open>db/rule-util.js\<close>). A parsed path is a list of labels. A label that the code passes as a
  number stands here in the text form that the stringifier gives it. The lemmas say when
  formatting and parsing are inverse.
\<close>

subsection \<open>Parsing and formatting\<close>

definition parsePath :: "string \<Rightarrow> string list" where
  "parsePath path = (if path = [] then [] else filter (\<lambda>node. node \<noteq> []) (split_on CHR ''/'' path))"

definition formatPath :: "string list \<Rightarrow> string" where
  "formatPath parsedPath =
     (if parsedPath = [] then ''/''
      else
        let formatted = foldl (\<lambda>formatted label. formatted @ ''/'' @ label) [] parsedPath
        in (if prefix ''/'' formatted then [] else ''/'') @ formatted)"

definition appendPath :: "string \<Rightarrow> string list \<Rightarrow> string" where
  "appendPath path pathsToAppend =
     formatPath (foldl (\<lambda>labels toAppend. labels @ parsePath toAppend) (parsePath path) pathsToAppend)"

definition isPrefixedLabel :: "string \<Rightarrow> string \<Rightarrow> bool" where
  "isPrefixedLabel label pre = prefix pre label"

definition isVariableLabel :: "string \<Rightarrow> bool" where
  "isVariableLabel label = isPrefixedLabel label ''$''"

text \<open>A label that formatting keeps apart from its neighbours.\<close>

definition path_label :: "string \<Rightarrow> bool" where
  "path_label l = (l \<noteq> [] \<and> CHR ''/'' \<notin> set l)"

lemma foldl_labels: "foldl (\<lambda>f l. f @ CHR ''/'' # l) a ls = a @ concat (map (\<lambda>l. CHR ''/'' # l) ls)"
  by (induction ls arbitrary: a) simp_all

lemma formatPath_concat: "ls \<noteq> [] \<Longrightarrow> formatPath ls = concat (map (\<lambda>l. CHR ''/'' # l) ls)"
  by (cases ls) (simp_all add: formatPath_def foldl_labels Let_def del: foldl_Cons)

lemma parsePath_filter: "parsePath s = filter (\<lambda>node. node \<noteq> []) (split_on CHR ''/'' s)"
  by (simp add: parsePath_def)

lemma split_on_append: "split_on c (a @ c # b) = split_on c a @ split_on c b"
proof (induction a)
  case (Cons x a)
  then show ?case by (cases "split_on c a") auto
qed simp

lemma parsePath_join: "parsePath (a @ CHR ''/'' # b) = parsePath a @ parsePath b"
  by (simp add: parsePath_filter split_on_append)

lemma parsePath_label: "CHR ''/'' \<notin> set l \<Longrightarrow> parsePath l = (if l = [] then [] else [l])"
  by (simp add: parsePath_filter split_on_no_sep)

lemma parsePath_Nil [simp]: "parsePath [] = []"
  by (simp add: parsePath_def)

lemma parsePath_labels: "l \<in> set (parsePath s) \<Longrightarrow> path_label l"
  by (auto simp: parsePath_filter path_label_def dest: split_on_free)

lemma parsePath_slash: "parsePath (CHR ''/'' # s) = parsePath s"
  using parsePath_join [of "[]" s] by simp

lemma parsePath_concat:
  "parsePath (concat (map (\<lambda>l. CHR ''/'' # l) ls)) = concat (map parsePath ls)"
proof (induction ls)
  case (Cons l ls)
  let ?r = "concat (map (\<lambda>l. CHR ''/'' # l) ls)"
  have "parsePath (l @ ?r) = parsePath l @ parsePath ?r"
  proof (cases ls)
    case (Cons m ms)
    then obtain r where "?r = CHR ''/'' # r" by simp
    then show ?thesis by (simp add: parsePath_join parsePath_slash)
  qed simp
  with Cons show ?case by (simp add: parsePath_slash)
qed simp

lemma parsePath_format: "parsePath (formatPath ls) = concat (map parsePath ls)"
proof (cases "ls = []")
  case True
  then show ?thesis by (simp add: formatPath_def parsePath_def)
next
  case False
  then show ?thesis by (simp add: formatPath_concat parsePath_concat)
qed

lemma parse_formatPath: "\<forall>l\<in>set ls. path_label l \<Longrightarrow> parsePath (formatPath ls) = ls"
proof -
  assume "\<forall>l\<in>set ls. path_label l"
  then have "concat (map parsePath ls) = ls"
    by (induction ls) (auto simp: path_label_def parsePath_label)
  then show ?thesis by (simp only: parsePath_format)
qed

lemma parsePath_under:
  "\<forall>x\<in>set (l # ls). path_label x \<Longrightarrow> parsePath (formatPath ls @ CHR ''/'' # l) = ls @ [l]"
  by (simp add: parsePath_join parse_formatPath parsePath_label path_label_def)

lemma formatPath_inj:
  "\<forall>l\<in>set ls. path_label l \<Longrightarrow> \<forall>l\<in>set ms. path_label l \<Longrightarrow> formatPath ls = formatPath ms \<longleftrightarrow> ls = ms"
  using parse_formatPath by metis

lemma parsePath_appendPath: "parsePath (appendPath p qs) = parsePath p @ concat (map parsePath qs)"
proof -
  have "foldl (\<lambda>ls q. ls @ parsePath q) a qs = a @ concat (map parsePath qs)" for a
    by (induction qs arbitrary: a) simp_all
  moreover have "\<forall>l\<in>set (parsePath p @ concat (map parsePath qs)). path_label l"
    by (auto intro: parsePath_labels)
  ultimately show ?thesis unfolding appendPath_def by (metis parse_formatPath)
qed

text \<open>
  C7. Parsing inverts formatting on paths whose labels are non-empty and free of slashes; every
  string parses to such labels, and formatting the parsed labels again gives a canonical form
  that parses to the same labels. Appending paths appends their labels.
\<close>

theorem path_roundtrip:
  "((\<forall>l\<in>set ls. l \<noteq> [] \<and> CHR ''/'' \<notin> set l) \<longrightarrow> parsePath (formatPath ls) = ls) \<and>
   parsePath (formatPath (parsePath s)) = parsePath s \<and>
   parsePath (appendPath s qs) = parsePath s @ concat (map parsePath qs)"
proof -
  have "parsePath (formatPath (parsePath s)) = parsePath s"
    by (intro parse_formatPath ballI) (rule parsePath_labels)
  then show ?thesis using parse_formatPath [of ls] parsePath_appendPath by (simp add: path_label_def)
qed

theorem path_roundtrip_witness: "parsePath (formatPath [''a'', ''b'']) = [''a'', ''b'']"
  using path_roundtrip [of "[''a'', ''b'']" "[]" "[]"] by simp

subsection \<open>Local, global and full paths\<close>

definition getFullPath :: "string list \<Rightarrow> string \<Rightarrow> string list" where
  "getFullPath parsedPath rootLabel = rootLabel # parsedPath"

definition toLocalPath :: "string list \<Rightarrow> string list \<Rightarrow> string list option" where
  "toLocalPath parsedPath shardingPath =
     (if length shardingPath = 0 then Some parsedPath
      else if length parsedPath < length shardingPath then None
      else if \<not> list_all (\<lambda>i. parsedPath ! i = shardingPath ! i) [0..<length shardingPath] then None
      else Some (drop (length shardingPath) parsedPath))"

definition toGlobalPath :: "bool \<Rightarrow> string list \<Rightarrow> string list \<Rightarrow> string list" where
  "toGlobalPath isRootBlockchain shardingPath parsedPath =
     (if isRootBlockchain then parsedPath else shardingPath @ parsedPath)"

lemma list_all_nth_prefix:
  "length sh \<le> length p \<Longrightarrow> list_all (\<lambda>i. p ! i = sh ! i) [0..<length sh] \<longleftrightarrow> take (length sh) p = sh"
  unfolding list_all_iff by (subst list_eq_iff_nth_eq) auto

lemma toLocalPath_iff: "toLocalPath p sh = Some l \<longleftrightarrow> p = sh @ l"
proof
  assume "toLocalPath p sh = Some l"
  then have "take (length sh) p = sh" "drop (length sh) p = l"
    using list_all_nth_prefix [of sh p] by (auto simp: toLocalPath_def split: if_splits)
  then show "p = sh @ l" by (metis append_take_drop_id)
next
  assume "p = sh @ l"
  then show "toLocalPath p sh = Some l"
    using list_all_nth_prefix [of sh p] by (simp add: toLocalPath_def)
qed

text \<open>
  Local and global paths correspond: converting a path of a shard to a global path and back
  gives the path, and a path has a local form exactly when it lies under the sharding path.
\<close>

theorem local_global_roundtrip:
  "toLocalPath (toGlobalPath False sh p) sh = Some p \<and>
   (toLocalPath g sh = Some l \<longleftrightarrow> g = toGlobalPath False sh l) \<and>
   (toLocalPath g sh = None \<longleftrightarrow> \<not> prefix sh g)"
proof -
  have "toLocalPath g sh = None \<longleftrightarrow> \<not> prefix sh g"
    using toLocalPath_iff [of g sh] by (cases "toLocalPath g sh") (auto simp: prefix_def)
  then show ?thesis by (simp add: toLocalPath_iff toGlobalPath_def)
qed

subsection \<open>Account names\<close>

definition parseServAcntName :: "string \<Rightarrow> string option list" where
  "parseServAcntName accountName =
     (let parsed = split_on CHR ''|'' accountName;
          nth = (\<lambda>i. if i < length parsed then Some (parsed ! i) else None)
      in [nth 0, nth 1,
          if length parsed \<le> 3 then nth 2 else Some (join_with ''|'' (drop 2 parsed))])"

definition toServiceAccountName :: "string \<Rightarrow> string \<Rightarrow> string \<Rightarrow> string" where
  "toServiceAccountName serviceType serviceName key = serviceType @ ''|'' @ serviceName @ ''|'' @ key"

definition toBillingAccountName :: "string \<Rightarrow> string" where
  "toBillingAccountName billing = ''billing'' @ ''|'' @ billing"

definition toEscrowAccountName :: "string \<Rightarrow> string \<Rightarrow> string \<Rightarrow> string" where
  "toEscrowAccountName source target escrowKey = source @ '':'' @ target @ '':'' @ escrowKey"

definition getServiceNameFromServAcntName :: "string \<Rightarrow> string option" where
  "getServiceNameFromServAcntName accountName = parseServAcntName accountName ! 1"

text \<open>
  A service account name parses back to its service type, service name and key, when the
  first two contain no bar; the key may contain bars.
\<close>

theorem service_account_roundtrip:
  assumes "CHR ''|'' \<notin> set t" and "CHR ''|'' \<notin> set n"
  shows "parseServAcntName (toServiceAccountName t n k) = [Some t, Some n, Some k]"
proof -
  have s: "split_on CHR ''|'' (toServiceAccountName t n k) = t # n # split_on CHR ''|'' k"
    using assms by (simp add: toServiceAccountName_def split_on_append_sep)
  have k: "join_with ''|'' (split_on CHR ''|'' k) = k" by (rule join_split_on)
  obtain w ws where w: "split_on CHR ''|'' k = w # ws" by (cases "split_on CHR ''|'' k") auto
  then show ?thesis using k by (cases ws) (simp_all add: parseServAcntName_def Let_def s)
qed

theorem service_account_roundtrip_witness:
  "parseServAcntName (toServiceAccountName ''staking'' ''consensus'' ''0xA|0'')
     = [Some ''staking'', Some ''consensus'', Some ''0xA|0'']"
  by (rule service_account_roundtrip) simp_all

end
