(* ===== verification/PathUtil.thy ===== *)
theory PathUtil
  imports Paths
begin

text \<open>
  \<open>common/path-util.js\<close>: the database paths of the protocol's own data, one definition per
  function, with the labels of \<open>PredefinedDbPaths\<close> written out. Arguments are label texts.
\<close>

definition getAccountPath :: "string \<Rightarrow> string" where
  "getAccountPath address =
     formatPath [''accounts'', address]"

definition getAccountBalancePath :: "string \<Rightarrow> string" where
  "getAccountBalancePath address =
     (getAccountPath address) @ ''/'' @ ''balance''"

definition getAccountNoncePath :: "string \<Rightarrow> string" where
  "getAccountNoncePath address =
     (getAccountPath address) @ ''/'' @ ''nonce''"

definition getAccountTimestampPath :: "string \<Rightarrow> string" where
  "getAccountTimestampPath address =
     (getAccountPath address) @ ''/'' @ ''timestamp''"

definition getServiceAccountPath :: "string \<Rightarrow> string \<Rightarrow> string \<Rightarrow> string" where
  "getServiceAccountPath serviceType serviceName accountKey =
     formatPath [''service_accounts'', serviceType, serviceName, accountKey]"

definition getServiceAccountBalancePath :: "string \<Rightarrow> string \<Rightarrow> string \<Rightarrow> string" where
  "getServiceAccountBalancePath serviceType serviceName accountKey =
     (getServiceAccountPath serviceType serviceName accountKey) @ ''/'' @ ''balance''"

definition getServiceAccountPathFromAccountName :: "string \<Rightarrow> string" where
  "getServiceAccountPathFromAccountName accountName =
     formatPath [''service_accounts'', (template (parseServAcntName accountName ! 0)), (template (parseServAcntName accountName ! 1)), (template (parseServAcntName accountName ! 2))]"

definition getServiceAccountBalancePathFromAccountName :: "string \<Rightarrow> string" where
  "getServiceAccountBalancePathFromAccountName accountName =
     (getServiceAccountPathFromAccountName accountName) @ ''/'' @ ''balance''"

definition getTokenBridgeConfigPath :: "string \<Rightarrow> string \<Rightarrow> string \<Rightarrow> string" where
  "getTokenBridgeConfigPath networkName chainId tokenId =
     formatPath [''blockchain_params'', ''token'', ''bridge'', networkName, chainId, tokenId]"

definition getTokenBridgeTokenPoolPath :: "string \<Rightarrow> string \<Rightarrow> string \<Rightarrow> string" where
  "getTokenBridgeTokenPoolPath networkName chainId tokenId =
     formatPath [''blockchain_params'', ''token'', ''bridge'', networkName, chainId, tokenId, ''token_pool'']"

definition getTransferPath :: "string \<Rightarrow> string \<Rightarrow> string \<Rightarrow> string" where
  "getTransferPath src to key =
     formatPath [''transfer'', src, to, key]"

definition getTransferValuePath :: "string \<Rightarrow> string \<Rightarrow> string \<Rightarrow> string" where
  "getTransferValuePath src to key =
     appendPath (getTransferPath src to key) [''value'']"

definition getTransferResultPath :: "string \<Rightarrow> string \<Rightarrow> string \<Rightarrow> string" where
  "getTransferResultPath src to key =
     appendPath (getTransferPath src to key) [''result'']"

definition getCreateAppRecordPath :: "string \<Rightarrow> string \<Rightarrow> string" where
  "getCreateAppRecordPath appName recordId =
     formatPath [''manage_app'', appName, ''create'', recordId]"

definition getCreateAppResultPath :: "string \<Rightarrow> string \<Rightarrow> string" where
  "getCreateAppResultPath appName recordId =
     (getCreateAppRecordPath appName recordId) @ ''/'' @ ''result''"

definition getManageAppConfigPath :: "string \<Rightarrow> string" where
  "getManageAppConfigPath appName =
     formatPath [''manage_app'', appName, ''config'']"

definition getManageAppConfigAdminPath :: "string \<Rightarrow> string" where
  "getManageAppConfigAdminPath appName =
     (getManageAppConfigPath appName) @ ''/'' @ ''admin''"

definition getManageAppBillingUsersPath :: "string \<Rightarrow> string \<Rightarrow> string" where
  "getManageAppBillingUsersPath appName billingId =
     (getManageAppConfigPath appName) @ ''/'' @ ''billing'' @ ''/'' @ billingId @ ''/'' @ ''users''"

definition getAppPath :: "string \<Rightarrow> string" where
  "getAppPath appName =
     formatPath [''apps'', appName]"

definition getStakingLockupDurationPath :: "string \<Rightarrow> string" where
  "getStakingLockupDurationPath serviceName =
     formatPath [''manage_app'', serviceName, ''config'', ''service'', ''staking'', ''lockup_duration'']"

definition getStakingServicePath :: "string \<Rightarrow> string" where
  "getStakingServicePath serviceName =
     formatPath [''staking'', serviceName]"

definition getStakingExpirationPath :: "string \<Rightarrow> string \<Rightarrow> string \<Rightarrow> string" where
  "getStakingExpirationPath serviceName user stakingKey =
     formatPath [''staking'', serviceName, user, stakingKey, ''expire_at'']"

definition getStakingStakeRecordPath :: "string \<Rightarrow> string \<Rightarrow> string \<Rightarrow> string \<Rightarrow> string" where
  "getStakingStakeRecordPath serviceName user stakingKey recordId =
     formatPath [''staking'', serviceName, user, stakingKey, ''stake'', recordId]"

definition getStakingUnstakeRecordPath :: "string \<Rightarrow> string \<Rightarrow> string \<Rightarrow> string \<Rightarrow> string" where
  "getStakingUnstakeRecordPath serviceName user stakingKey recordId =
     formatPath [''staking'', serviceName, user, stakingKey, ''unstake'', recordId]"

definition getStakingStakeRecordValuePath :: "string \<Rightarrow> string \<Rightarrow> string \<Rightarrow> string \<Rightarrow> string" where
  "getStakingStakeRecordValuePath serviceName user stakingKey recordId =
     (getStakingStakeRecordPath serviceName user stakingKey recordId) @ ''/'' @ ''value''"

definition getStakingStakeResultPath :: "string \<Rightarrow> string \<Rightarrow> string \<Rightarrow> string \<Rightarrow> string" where
  "getStakingStakeResultPath serviceName user stakingKey recordId =
     (getStakingStakeRecordPath serviceName user stakingKey recordId) @ ''/'' @ ''result''"

definition getStakingUnstakeResultPath :: "string \<Rightarrow> string \<Rightarrow> string \<Rightarrow> string \<Rightarrow> string" where
  "getStakingUnstakeResultPath serviceName user stakingKey recordId =
     (getStakingUnstakeRecordPath serviceName user stakingKey recordId) @ ''/'' @ ''result''"

definition getStakingBalanceTotalPath :: "string \<Rightarrow> string" where
  "getStakingBalanceTotalPath serviceName =
     formatPath [''staking'', serviceName, ''balance_total'']"

definition getStakingBalanceTotalSumPath :: "string" where
  "getStakingBalanceTotalSumPath =
     formatPath [''staking'', ''balance_total_sum'']"

definition getPaymentServiceAdminPath :: "string \<Rightarrow> string" where
  "getPaymentServiceAdminPath serviceName =
     formatPath [''payments'', serviceName, ''config'', ''admin'']"

definition getPaymentPayRecordPath :: "string \<Rightarrow> string \<Rightarrow> string \<Rightarrow> string \<Rightarrow> string" where
  "getPaymentPayRecordPath serviceName user paymentKey recordId =
     formatPath [''payments'', serviceName, user, paymentKey, ''pay'', recordId]"

definition getPaymentClaimRecordPath :: "string \<Rightarrow> string \<Rightarrow> string \<Rightarrow> string \<Rightarrow> string" where
  "getPaymentClaimRecordPath serviceName user paymentKey recordId =
     formatPath [''payments'', serviceName, user, paymentKey, ''claim'', recordId]"

definition getPaymentPayRecordResultPath :: "string \<Rightarrow> string \<Rightarrow> string \<Rightarrow> string \<Rightarrow> string" where
  "getPaymentPayRecordResultPath serviceName user paymentKey recordId =
     (getPaymentPayRecordPath serviceName user paymentKey recordId) @ ''/'' @ ''result''"

definition getPaymentClaimRecordResultPath :: "string \<Rightarrow> string \<Rightarrow> string \<Rightarrow> string \<Rightarrow> string" where
  "getPaymentClaimRecordResultPath serviceName user paymentKey recordId =
     (getPaymentClaimRecordPath serviceName user paymentKey recordId) @ ''/'' @ ''result''"

definition getEscrowHoldRecordPath :: "string \<Rightarrow> string \<Rightarrow> string \<Rightarrow> string \<Rightarrow> string" where
  "getEscrowHoldRecordPath source target escrowKey recordId =
     formatPath [''escrow'', source, target, escrowKey, ''hold'', recordId]"

definition getEscrowHoldRecordResultPath :: "string \<Rightarrow> string \<Rightarrow> string \<Rightarrow> string \<Rightarrow> string" where
  "getEscrowHoldRecordResultPath source target escrowKey recordId =
     (getEscrowHoldRecordPath source target escrowKey recordId) @ ''/'' @ ''result''"

definition getEscrowReleaseRecordResultPath :: "string \<Rightarrow> string \<Rightarrow> string \<Rightarrow> string \<Rightarrow> string" where
  "getEscrowReleaseRecordResultPath source target escrowKey recordId =
     formatPath [''escrow'', source, target, escrowKey, ''release'', recordId, ''result'']"

definition getLatestShardReportPath :: "string \<Rightarrow> string" where
  "getLatestShardReportPath branchPath =
     appendPath branchPath [''latest_block_number'']"

definition getCheckinRequestPath :: "string \<Rightarrow> string \<Rightarrow> string \<Rightarrow> string \<Rightarrow> string \<Rightarrow> string" where
  "getCheckinRequestPath networkName chainId tokenId address checkinId =
     formatPath [''checkin'', ''requests'', networkName, chainId, tokenId, address, checkinId]"

definition getCheckinHistoryPath :: "string \<Rightarrow> string \<Rightarrow> string \<Rightarrow> string \<Rightarrow> string \<Rightarrow> string" where
  "getCheckinHistoryPath networkName chainId tokenId address checkinId =
     formatPath [''checkin'', ''history'', networkName, chainId, tokenId, address, checkinId]"

definition getCheckinPendingAmountPerTokenPoolPath :: "string \<Rightarrow> string" where
  "getCheckinPendingAmountPerTokenPoolPath tokenPoolAddr =
     formatPath [''checkin'', ''stats'', ''pending'', ''token_pool'', tokenPoolAddr]"

definition getCheckinPendingAmountPerSenderPath :: "string \<Rightarrow> string \<Rightarrow> string \<Rightarrow> string \<Rightarrow> string" where
  "getCheckinPendingAmountPerSenderPath networkName chainId tokenId sender =
     formatPath [''checkin'', ''stats'', ''pending'', networkName, chainId, tokenId, sender]"

definition getCheckinCompleteAmountTotalPath :: "string" where
  "getCheckinCompleteAmountTotalPath =
     formatPath [''checkin'', ''stats'', ''complete'', ''total'']"

definition getCheckinCompleteAmountPerAddrPath :: "string \<Rightarrow> string" where
  "getCheckinCompleteAmountPerAddrPath address =
     formatPath [''checkin'', ''stats'', ''complete'', address]"

definition getCheckoutRequestPath :: "string \<Rightarrow> string \<Rightarrow> string \<Rightarrow> string \<Rightarrow> string \<Rightarrow> string" where
  "getCheckoutRequestPath networkName chainId tokenId address checkoutId =
     formatPath [''checkout'', ''requests'', networkName, chainId, tokenId, address, checkoutId]"

definition getCheckoutHistoryPath :: "string \<Rightarrow> string \<Rightarrow> string \<Rightarrow> string \<Rightarrow> string \<Rightarrow> string" where
  "getCheckoutHistoryPath networkName chainId tokenId address checkoutId =
     formatPath [''checkout'', ''history'', networkName, chainId, tokenId, address, checkoutId]"

definition getCheckoutRefundPath :: "string \<Rightarrow> string \<Rightarrow> string \<Rightarrow> string \<Rightarrow> string \<Rightarrow> string" where
  "getCheckoutRefundPath networkName chainId tokenId address checkoutId =
     formatPath [''checkout'', ''refunds'', networkName, chainId, tokenId, address, checkoutId]"

definition getCheckoutPendingAmountTotalPath :: "string" where
  "getCheckoutPendingAmountTotalPath =
     formatPath [''checkout'', ''stats'', ''pending'', ''total'']"

definition getCheckoutPendingAmountPerAddrPath :: "string \<Rightarrow> string" where
  "getCheckoutPendingAmountPerAddrPath address =
     formatPath [''checkout'', ''stats'', ''pending'', address]"

definition getCheckoutCompleteAmountTotalPath :: "string" where
  "getCheckoutCompleteAmountTotalPath =
     formatPath [''checkout'', ''stats'', ''complete'', ''total'']"

definition getCheckoutCompleteAmountDailyPath :: "string \<Rightarrow> string" where
  "getCheckoutCompleteAmountDailyPath dayTimestamp =
     formatPath [''checkout'', ''stats'', ''complete'', dayTimestamp]"

definition getConsensusOffenseRecordsPath :: "string" where
  "getConsensusOffenseRecordsPath =
     formatPath [''consensus'', ''offense_records'']"

definition getConsensusOffenseRecordsAddrPath :: "string \<Rightarrow> string" where
  "getConsensusOffenseRecordsAddrPath address =
     formatPath [''consensus'', ''offense_records'', address]"

definition getConsensusProposerWhitelistPath :: "string" where
  "getConsensusProposerWhitelistPath =
     formatPath [''consensus'', ''proposer_whitelist'']"

definition getConsensusProposerWhitelistAddrPath :: "string \<Rightarrow> string" where
  "getConsensusProposerWhitelistAddrPath address =
     formatPath [''consensus'', ''proposer_whitelist'', address]"

definition getConsensusValidatorWhitelistPath :: "string" where
  "getConsensusValidatorWhitelistPath =
     formatPath [''consensus'', ''validator_whitelist'']"

definition getConsensusValidatorWhitelistAddrPath :: "string \<Rightarrow> string" where
  "getConsensusValidatorWhitelistAddrPath address =
     formatPath [''consensus'', ''validator_whitelist'', address]"

definition getConsensusStakingAccountPath :: "string \<Rightarrow> string" where
  "getConsensusStakingAccountPath address =
     getServiceAccountPath ''staking'' ''consensus'' (address @ ''|0'')"

definition getConsensusStakingAccountBalancePath :: "string \<Rightarrow> string" where
  "getConsensusStakingAccountBalancePath address =
     appendPath (getServiceAccountPath ''staking'' ''consensus'' (address @ ''|0'')) [''balance'']"

definition getConsensusRewardsPath :: "string \<Rightarrow> string" where
  "getConsensusRewardsPath address =
     formatPath [''consensus'', ''rewards'', address]"

definition getConsensusRewardsUnclaimedPath :: "string \<Rightarrow> string" where
  "getConsensusRewardsUnclaimedPath address =
     formatPath [''consensus'', ''rewards'', address, ''unclaimed'']"

definition getConsensusRewardsCumulativePath :: "string \<Rightarrow> string" where
  "getConsensusRewardsCumulativePath address =
     formatPath [''consensus'', ''rewards'', address, ''cumulative'']"

definition getConsensusNumberPath :: "string \<Rightarrow> string" where
  "getConsensusNumberPath blockNumber =
     formatPath [''consensus'', ''number'', blockNumber]"

definition getConsensusProposePath :: "string \<Rightarrow> string" where
  "getConsensusProposePath blockNumber =
     formatPath [''consensus'', ''number'', blockNumber, ''propose'']"

definition getConsensusVotePath :: "string \<Rightarrow> string \<Rightarrow> string \<Rightarrow> string" where
  "getConsensusVotePath blockNumber blockHash address =
     formatPath [''consensus'', ''number'', blockNumber, blockHash, ''vote'', address]"

definition getGasFeeClaimPath :: "string \<Rightarrow> string \<Rightarrow> string" where
  "getGasFeeClaimPath userAddr recordId =
     formatPath [''gas_fee'', ''claim'', userAddr, recordId]"

definition getGasFeeCollectPath :: "string \<Rightarrow> string \<Rightarrow> string \<Rightarrow> string" where
  "getGasFeeCollectPath blockNumber userAddr txHash =
     formatPath [''gas_fee'', ''collect'', blockNumber, userAddr, txHash]"

definition getReceiptPath :: "string \<Rightarrow> string" where
  "getReceiptPath txHash =
     formatPath [''receipts'', txHash]"

definition getDevelopersRestFunctionsUrlWhitelistPath :: "string" where
  "getDevelopersRestFunctionsUrlWhitelistPath =
     formatPath [''developers'', ''rest_functions'', ''url_whitelist'']"

definition getDevelopersRestFunctionsUrlWhitelistUserPath :: "string \<Rightarrow> string" where
  "getDevelopersRestFunctionsUrlWhitelistUserPath address =
     appendPath (getDevelopersRestFunctionsUrlWhitelistPath) [address]"

definition getDevelopersRestFunctionsUserWhitelistUserPath :: "string \<Rightarrow> string" where
  "getDevelopersRestFunctionsUserWhitelistUserPath address =
     formatPath [''developers'', ''rest_functions'', ''user_whitelist'', address]"

definition getBlockchainParamsMaxUrlsPerDeveloperPath :: "string" where
  "getBlockchainParamsMaxUrlsPerDeveloperPath =
     formatPath [''blockchain_params'', ''resource'', ''max_function_urls_per_developer'']"

definition getBlockchainParamsRootPath :: "string" where
  "getBlockchainParamsRootPath =
     formatPath [''blockchain_params'']"

definition getSingleBlockchainParamPath :: "string \<Rightarrow> string \<Rightarrow> string" where
  "getSingleBlockchainParamPath category name =
     formatPath [''blockchain_params'', category, name]"

definition getLatestShardReportPathFromValuePath :: "string list \<Rightarrow> string" where
  "getLatestShardReportPathFromValuePath valuePath =
     getLatestShardReportPath (formatPath (take (length valuePath - 3) valuePath))"

subsection \<open>Property\<close>

text \<open>
  The paths of the protocol's records do not collide: for labels that are non-empty and
  free of slashes, two stake records, payments, escrow holds, transfers, check-in requests or
  votes with the same path have the same components, and an account balance path names exactly
  one account.
\<close>

theorem record_paths_injective:
  assumes "\<forall>l\<in>set [a, b, c, d, a', b', c', d']. l \<noteq> [] \<and> CHR ''/'' \<notin> set l"
  shows "(getStakingStakeRecordPath a b c d = getStakingStakeRecordPath a' b' c' d' \<longleftrightarrow> (a, b, c, d) = (a', b', c', d'))
    \<and> (getPaymentPayRecordPath a b c d = getPaymentPayRecordPath a' b' c' d' \<longleftrightarrow> (a, b, c, d) = (a', b', c', d'))
    \<and> (getEscrowHoldRecordPath a b c d = getEscrowHoldRecordPath a' b' c' d' \<longleftrightarrow> (a, b, c, d) = (a', b', c', d'))
    \<and> (getTransferPath a b c = getTransferPath a' b' c' \<longleftrightarrow> (a, b, c) = (a', b', c'))
    \<and> (getConsensusVotePath a b c = getConsensusVotePath a' b' c' \<longleftrightarrow> (a, b, c) = (a', b', c'))
    \<and> parsePath (getAccountBalancePath a) = [''accounts'', a, ''balance'']
    \<and> (getAccountBalancePath a = getAccountBalancePath a' \<longleftrightarrow> a = a')"
proof -
  have l: "path_label a" "path_label b" "path_label c" "path_label d"
    "path_label a'" "path_label b'" "path_label c'" "path_label d'"
    using assms by (simp_all add: path_label_def)
  have const: "path_label ''staking''" "path_label ''stake''" "path_label ''payments''" "path_label ''pay''"
    "path_label ''escrow''" "path_label ''hold''" "path_label ''transfer''" "path_label ''consensus''"
    "path_label ''number''" "path_label ''vote''" "path_label ''accounts''" "path_label ''balance''"
    by (simp_all add: path_label_def)
  have bal: "parsePath (getAccountBalancePath x) = [''accounts'', x, ''balance'']" if "path_label x" for x
    using that const by (simp add: getAccountBalancePath_def getAccountPath_def parsePath_under)
  have "getStakingStakeRecordPath a b c d = getStakingStakeRecordPath a' b' c' d' \<longleftrightarrow> (a, b, c, d) = (a', b', c', d')"
    unfolding getStakingStakeRecordPath_def by (subst formatPath_inj) (simp_all add: l const)
  moreover have "getPaymentPayRecordPath a b c d = getPaymentPayRecordPath a' b' c' d' \<longleftrightarrow> (a, b, c, d) = (a', b', c', d')"
    unfolding getPaymentPayRecordPath_def by (subst formatPath_inj) (simp_all add: l const)
  moreover have "getEscrowHoldRecordPath a b c d = getEscrowHoldRecordPath a' b' c' d' \<longleftrightarrow> (a, b, c, d) = (a', b', c', d')"
    unfolding getEscrowHoldRecordPath_def by (subst formatPath_inj) (simp_all add: l const)
  moreover have "getTransferPath a b c = getTransferPath a' b' c' \<longleftrightarrow> (a, b, c) = (a', b', c')"
    unfolding getTransferPath_def by (subst formatPath_inj) (simp_all add: l const)
  moreover have "getConsensusVotePath a b c = getConsensusVotePath a' b' c' \<longleftrightarrow> (a, b, c) = (a', b', c')"
    unfolding getConsensusVotePath_def by (subst formatPath_inj) (simp_all add: l const)
  moreover have "getAccountBalancePath a = getAccountBalancePath a' \<longleftrightarrow> a = a'"
    by (metis bal [OF l(1)] bal [OF l(5)] list.inject)
  ultimately show ?thesis using bal [OF l(1)] by (intro conjI)
qed

theorem record_paths_injective_witness:
  "getTransferPath ''a'' ''b'' ''1'' \<noteq> getTransferPath ''a'' ''b'' ''2''"
  using record_paths_injective [of "''a''" "''b''" "''1''" "''1''" "''a''" "''b''" "''2''" "''2''"] by simp

end
