(* ===== verification/Transaction.thy ===== *)
theory Transaction
  imports JsValue
begin

text \<open>
  \<open>tx-pool/transaction.js\<close>: the sanitized form of a transaction body, its validation, and the
  creation of executable transactions. Reading a property of \<open>null\<close> or \<open>undefined\<close> throws a
  \<open>TypeError\<close>, so the functions that may do so return a sum. Configuration flags, the hash and
  signature functions of \<open>ain-util\<close>, and the numeric coercion of strings, arrays and objects
  are parameters, kept in a record.
\<close>

datatype js_error = TypeError

record tx_env =
  te_ENABLE_GAS_FEE_WORKAROUND :: bool
  te_ENABLE_TX_SIG_VERIF_WORKAROUND :: bool
  te_toNumber :: "jsval \<Rightarrow> rat option"
  te_hashSignature :: "jsval \<Rightarrow> string"
  te_hashTxBody :: "jsval \<Rightarrow> string"
  te_getAddressFromSignature :: "string \<Rightarrow> jsval \<Rightarrow> jsval \<Rightarrow> string"
  te_ecVerifySig :: "jsval \<Rightarrow> jsval \<Rightarrow> string \<Rightarrow> jsval \<Rightarrow> bool option"

record transaction =
  tx_body :: jsval
  tx_signature :: jsval
  tx_hash :: string
  tx_address :: string
  tx_extra :: "(string \<times> jsval) list"

definition nullish :: "jsval \<Rightarrow> bool" where
  "nullish v = (v = JUndef \<or> v = JNull)"

definition set_types :: "jsval set" where
  "set_types = {JUndef, JStr ''SET_VALUE'', JStr ''SET_RULE'', JStr ''SET_FUNCTION'', JStr ''SET_OWNER''}"

definition inc_types :: "jsval set" where
  "inc_types = {JStr ''INC_VALUE'', JStr ''DEC_VALUE''}"

definition sanitizeSimpleOperation :: "jsval \<Rightarrow> js_error + jsval" where
  "sanitizeSimpleOperation p =
     (if nullish p then Inl TypeError
      else
        let type = prop_get p ''type''; ref = prop_get p ''ref''; val = prop_get p ''value'';
            glob = prop_get p ''is_global'';
            refs = (if truthy ref \<and> type \<in> set_types \<union> inc_types
                    then [(''ref'', JStr (stringOrEmpty ref))] else []);
            vals = (if val = JUndef then []
                    else if type \<in> set_types then [(''value'', val)]
                    else if type \<in> inc_types then [(''value'', JNum (numberOrZero val))]
                    else []);
            types = (if truthy type then [(''type'', JStr (stringOrEmpty type))] else []);
            globs = (if glob = JUndef then [] else [(''is_global'', JBool (boolOrFalse glob))])
        in Inr (JObj (refs @ vals @ types @ globs)))"

definition sanitizeSetOperation :: "jsval \<Rightarrow> js_error + jsval" where
  "sanitizeSetOperation setOp =
     (case map_err sanitizeSimpleOperation
             (case prop_get setOp ''op_list'' of JArr ops \<Rightarrow> ops | _ \<Rightarrow> []) of
        Inl e \<Rightarrow> Inl e
      | Inr opList \<Rightarrow>
          Inr (JObj [(''type'', if prop_get setOp ''type'' = JStr ''SET'' then JStr ''SET'' else JNull),
                     (''op_list'', JArr opList)]))"

definition sanitizeOperation :: "jsval \<Rightarrow> js_error + jsval" where
  "sanitizeOperation p =
     (if nullish p then Inl TypeError
      else if prop_get p ''type'' = JStr ''SET'' then sanitizeSetOperation p
      else sanitizeSimpleOperation p)"

text \<open>A property copied when the source has it.\<close>

definition opt_prop :: "string \<Rightarrow> (jsval \<Rightarrow> jsval) \<Rightarrow> jsval \<Rightarrow> (string \<times> jsval) list" where
  "opt_prop k f b = (if prop_get b k = JUndef then [] else [(k, f (prop_get b k))])"

definition sanitizeTxBody :: "jsval \<Rightarrow> js_error + jsval" where
  "sanitizeTxBody txBody =
     (case sanitizeOperation (prop_get txBody ''operation'') of
        Inl e \<Rightarrow> Inl e
      | Inr operation \<Rightarrow>
          Inr (JObj ([(''operation'', operation),
                      (''nonce'', JNum (numberOrZero (prop_get txBody ''nonce''))),
                      (''timestamp'', JNum (numberOrZero (prop_get txBody ''timestamp'')))]
                     @ opt_prop ''parent_tx_hash'' (JStr \<circ> stringOrEmpty) txBody
                     @ opt_prop ''gas_price'' (JNum \<circ> numberOrZero) txBody
                     @ opt_prop ''billing'' (JStr \<circ> stringOrEmpty) txBody
                     @ opt_prop ''address'' (JStr \<circ> stringOrEmpty) txBody)))"

definition hasRequiredFields :: "jsval \<Rightarrow> bool" where
  "hasRequiredFields txBody =
     (truthy txBody \<and> prop_get txBody ''operation'' \<noteq> JUndef \<and> prop_get txBody ''timestamp'' \<noteq> JUndef
      \<and> prop_get txBody ''nonce'' \<noteq> JUndef)"

definition isValidNonce :: "jsval \<Rightarrow> bool" where
  "isValidNonce nonce = (isInteger nonce \<and> numberOrZero nonce \<ge> -2)"

text \<open>\<open>v > 0\<close>\<close>

definition gt_zero :: "tx_env \<Rightarrow> jsval \<Rightarrow> bool" where
  "gt_zero env v =
     (case v of
        JNum q \<Rightarrow> q > 0
      | JInf b \<Rightarrow> b
      | JBool b \<Rightarrow> b
      | JUndef \<Rightarrow> False
      | JNull \<Rightarrow> False
      | JNaN \<Rightarrow> False
      | _ \<Rightarrow> (case te_toNumber env v of None \<Rightarrow> False | Some q \<Rightarrow> q > 0))"

definition isValidGasPrice :: "tx_env \<Rightarrow> jsval \<Rightarrow> bool" where
  "isValidGasPrice env gasPrice =
     (gt_zero env gasPrice \<or>
      te_ENABLE_GAS_FEE_WORKAROUND env \<and> (gasPrice = JUndef \<or> gasPrice = JNum 0))"

definition isValidBilling :: "jsval \<Rightarrow> bool" where
  "isValidBilling billing =
     (billing = JUndef \<or> isString billing \<and> length (split_on CHR ''|'' (stringOrEmpty billing)) = 2)"

definition isInStandardFormat :: "jsval \<Rightarrow> js_error + bool" where
  "isInStandardFormat txBody =
     (case sanitizeTxBody txBody of
        Inl e \<Rightarrow> Inl e
      | Inr sanitized \<Rightarrow>
          if \<not> js_equal (json_norm sanitized) txBody then Inr False
          else
            let operation = prop_get sanitized ''operation'' in
            if prop_get operation ''type'' = JStr ''SET'' \<and> isEmpty (prop_get operation ''op_list'')
            then Inr False else Inr True)"

definition isValidTxBody :: "tx_env \<Rightarrow> jsval \<Rightarrow> js_error + bool" where
  "isValidTxBody env txBody =
     (if \<not> hasRequiredFields txBody then Inr False
      else if \<not> isValidNonce (prop_get txBody ''nonce'') then Inr False
      else if \<not> isValidGasPrice env (prop_get txBody ''gas_price'') then Inr False
      else if \<not> isValidBilling (prop_get txBody ''billing'') then Inr False
      else isInStandardFormat txBody)"

text \<open>\<open>new Transaction(...)\<close> and \<open>create\<close>; \<open>Inr None\<close> is \<open>null\<close>.\<close>

definition newTransaction ::
  "jsval \<Rightarrow> jsval \<Rightarrow> string \<Rightarrow> string \<Rightarrow> bool \<Rightarrow> rat \<Rightarrow> transaction" where
  "newTransaction txBody sig hsh addr skipVerif createdAt =
     \<lparr>tx_body = json_norm txBody, tx_signature = sig, tx_hash = hsh, tx_address = addr,
      tx_extra = [(''created_at'', JNum createdAt), (''executed_at'', JNull)]
              @ (if skipVerif then [(''skip_verif'', JBool True)] else [])\<rparr>"

definition create :: "tx_env \<Rightarrow> rat \<Rightarrow> jsval \<Rightarrow> jsval \<Rightarrow> jsval \<Rightarrow> js_error + transaction option" where
  "create env now txBody sig chainId =
     (case isValidTxBody env txBody of
        Inl e \<Rightarrow> Inl e
      | Inr False \<Rightarrow> Inr None
      | Inr True \<Rightarrow>
          let hsh = (if truthy sig then te_hashSignature env sig else te_hashTxBody env txBody) in
          if te_ENABLE_TX_SIG_VERIF_WORKAROUND env \<and> prop_get txBody ''address'' \<noteq> JUndef
          then Inr (Some (newTransaction txBody sig hsh (stringOrEmpty (prop_get txBody ''address'')) True now))
          else Inr (Some (newTransaction txBody sig hsh
                 (te_getAddressFromSignature env (drop 2 hsh) sig chainId) False now)))"

text \<open>\<open>toExecutable\<close>: an instance of the class is kept, a plain object is built anew.\<close>

definition toExecutable :: "tx_env \<Rightarrow> rat \<Rightarrow> bool \<Rightarrow> transaction \<Rightarrow> jsval \<Rightarrow> js_error + transaction option" where
  "toExecutable env now isInstance tx chainId =
     (if isInstance then Inr (Some tx) else create env now (tx_body tx) (tx_signature tx) chainId)"

definition setExtraField :: "string \<Rightarrow> jsval \<Rightarrow> transaction \<Rightarrow> transaction" where
  "setExtraField name val tx =
     (if val = JNull then tx\<lparr>tx_extra := AList.delete name (tx_extra tx)\<rparr>
      else tx\<lparr>tx_extra := AList.update name val (tx_extra tx)\<rparr>)"

definition toJsObject :: "transaction \<Rightarrow> jsval" where
  "toJsObject tx =
     JObj [(''tx_body'', tx_body tx), (''signature'', tx_signature tx), (''hash'', JStr (tx_hash tx)),
           (''address'', JStr (tx_address tx))]"

text \<open>A \<open>null\<close> transaction is \<^const>\<open>None\<close>; an exception of \<open>ecVerifySig\<close> is caught.\<close>

definition verifyTransaction :: "tx_env \<Rightarrow> transaction option \<Rightarrow> jsval \<Rightarrow> js_error + bool" where
  "verifyTransaction env tx chainId =
     (case tx of
        None \<Rightarrow> Inr False
      | Some t \<Rightarrow>
          (case isValidTxBody env (tx_body t) of
             Inl e \<Rightarrow> Inl e
           | Inr False \<Rightarrow> Inr False
           | Inr True \<Rightarrow>
               if truthy (prop_get (JObj (tx_extra t)) ''skip_verif'') then Inr True
               else (case te_ecVerifySig env (tx_body t) (tx_signature t) (tx_address t) chainId of
                       None \<Rightarrow> Inr False
                     | Some b \<Rightarrow> Inr b)))"

definition isBatchTxBody :: "jsval \<Rightarrow> bool" where
  "isBatchTxBody txBody = (truthy txBody \<and> isArray (prop_get txBody ''tx_body_list''))"

definition isBatchTransaction :: "jsval \<Rightarrow> bool" where
  "isBatchTransaction tx = (truthy tx \<and> isArray (prop_get tx ''tx_list''))"

definition isFreeTransaction :: "transaction \<Rightarrow> bool" where
  "isFreeTransaction tx =
     (prop_get (tx_body tx) ''gas_price'' = JUndef \<or> prop_get (tx_body tx) ''gas_price'' = JNum 0)"

subsection \<open>The shape of a valid body\<close>

definition simple_operation :: "jsval \<Rightarrow> bool" where
  "simple_operation p \<longleftrightarrow> isDict p \<and>
     set (keys_of p) \<subseteq> {''ref'', ''value'', ''type'', ''is_global''} \<and>
     (prop_get p ''type'' = JUndef \<or> isString (prop_get p ''type'')) \<and>
     (prop_get p ''ref'' = JUndef \<or> isString (prop_get p ''ref'')) \<and>
     (prop_get p ''is_global'' = JUndef \<or> isBool (prop_get p ''is_global'')) \<and>
     (prop_get p ''type'' \<in> inc_types \<longrightarrow> prop_get p ''value'' = JUndef \<or> isNumber (prop_get p ''value''))"

lemma json_norm_neq_undef [simp]: "json_norm v \<noteq> JUndef"
  by (cases v) simp_all

lemma prop_get_JObj: "prop_get (JObj ps) k = (case map_of ps k of None \<Rightarrow> JUndef | Some v \<Rightarrow> v)"
  by simp

lemma js_equal_absent:
  assumes "js_equal (JObj ps) w" and "distinct (map fst ps)" and "k \<notin> fst ` set ps"
  shows "prop_get w k = JUndef"
proof -
  obtain qs where w: "w = JObj qs" using js_equal_objD [OF assms(1)] by metis
  have "k \<notin> fst ` set qs" using js_equal_keys [OF assms(1,2)] assms(3) by (simp add: w)
  then have "map_of qs k = None" by (simp add: map_of_eq_None_iff)
  then show ?thesis by (simp add: w)
qed

text \<open>A property that is present under a condition.\<close>

definition prop_if :: "bool \<Rightarrow> string \<Rightarrow> jsval \<Rightarrow> (string \<times> jsval) list" where
  "prop_if c k v = (if c then [(k, v)] else [])"

lemma prop_if_simps [simp]:
  "map fst (prop_if c k v) = (if c then [k] else [])"
  "distinct (map fst (prop_if c k v))"
  "x \<in> fst ` set (prop_if c k v) \<longleftrightarrow> c \<and> x = k"
  "map_of (prop_if c k v) = (if c then [k \<mapsto> v] else Map.empty)"
  by (auto simp: prop_if_def)

lemma fst_set_prop_if: "fst ` set (prop_if c k v) \<subseteq> {k}"
  by (auto simp: prop_if_def)

lemma js_equal_opt:
  assumes "js_equal (JObj ps) w" and "distinct (map fst ps)"
    and "map_of ps k = (if c then Some v else None)"
  shows "if c then js_equal v (prop_get w k) else prop_get w k = JUndef"
proof (cases c)
  case True
  then have "(k, v) \<in> set ps" using assms(3) by (simp add: map_of_SomeD)
  with js_equal_prop [OF assms(1)] True show ?thesis by simp
next
  case False
  then have "k \<notin> fst ` set ps" using assms(3) by (simp add: map_of_eq_None_iff)
  with js_equal_absent [OF assms(1,2)] False show ?thesis by simp
qed

lemma json_norm_obj:
  "\<forall>p\<in>set ps. snd p \<noteq> JUndef \<Longrightarrow> json_norm (JObj ps) = JObj (map (\<lambda>p. (fst p, json_norm (snd p))) ps)"
  by simp

lemma sanitizeSimpleOperation_shape:
  assumes "sanitizeSimpleOperation p = Inr s" and "js_equal (json_norm s) p"
  shows "simple_operation p"
proof -
  let ?type = "prop_get p ''type''" and ?ref = "prop_get p ''ref''" and ?val = "prop_get p ''value''"
    and ?glob = "prop_get p ''is_global''"
  let ?cr = "truthy ?ref \<and> ?type \<in> set_types \<union> inc_types"
    and ?cv = "?val \<noteq> JUndef \<and> ?type \<in> set_types \<union> inc_types"
    and ?nv = "json_norm (if ?type \<in> set_types then ?val else JNum (numberOrZero ?val))"
  define ps where "ps = prop_if ?cr ''ref'' (JStr (stringOrEmpty ?ref)) @ prop_if ?cv ''value'' ?nv
     @ prop_if (truthy ?type) ''type'' (JStr (stringOrEmpty ?type))
     @ prop_if (?glob \<noteq> JUndef) ''is_global'' (JBool (boolOrFalse ?glob))"
  have "json_norm s = JObj ps"
    using assms(1) by (auto simp: sanitizeSimpleOperation_def Let_def ps_def prop_if_def split: if_splits)
  with assms(2) have eq: "js_equal (JObj ps) p" by simp
  have dist: "distinct (map fst ps)" by (simp add: ps_def)
  note opt = js_equal_opt [OF eq dist]
  have "set (keys_of p) \<subseteq> {''ref'', ''value'', ''type'', ''is_global''}"
    unfolding js_equal_keys [OF eq dist] ps_def set_append image_Un
    by (intro Un_least order_trans [OF fst_set_prop_if]) simp_all
  moreover have "isDict p" using js_equal_objD [OF eq] by (metis isDict.simps(1))
  moreover have "if truthy ?type then js_equal (JStr (stringOrEmpty ?type)) ?type else ?type = JUndef"
    by (rule opt) (simp add: ps_def)
  then have "?type = JUndef \<or> isString ?type"
    by (auto split: if_splits) (metis isString.simps(1))
  moreover have "if ?cr then js_equal (JStr (stringOrEmpty ?ref)) ?ref else ?ref = JUndef"
    by (rule opt) (simp add: ps_def)
  then have "?ref = JUndef \<or> isString ?ref"
    by (auto split: if_splits) (metis isString.simps(1))+
  moreover have "if ?glob \<noteq> JUndef then js_equal (JBool (boolOrFalse ?glob)) ?glob else ?glob = JUndef"
    by (rule opt) (simp add: ps_def)
  then have "?glob = JUndef \<or> isBool ?glob"
    by (auto split: if_splits) (metis isBool.simps(1))
  moreover have "if ?cv then js_equal ?nv ?val else ?val = JUndef"
    by (rule opt) (simp add: ps_def)
  then have "?val = JUndef \<or> isNumber ?val" if "?type \<in> inc_types"
    using that by (auto simp: inc_types_def set_types_def split: if_splits) (metis isNumber.simps(1))+
  ultimately show ?thesis by (simp add: simple_operation_def)
qed

definition valid_operation :: "jsval \<Rightarrow> bool" where
  "valid_operation p \<longleftrightarrow>
     (if prop_get p ''type'' = JStr ''SET''
      then \<exists>ops. prop_get p ''op_list'' = JArr ops \<and> ops \<noteq> [] \<and> (\<forall>q\<in>set ops. simple_operation q)
      else simple_operation p)"

lemma sanitizeOperation_shape:
  assumes "sanitizeOperation p = Inr s" and "js_equal (json_norm s) p"
    and "\<not> (prop_get s ''type'' = JStr ''SET'' \<and> isEmpty (prop_get s ''op_list''))"
  shows "valid_operation p"
proof (cases "prop_get p ''type'' = JStr ''SET''")
  case False
  with assms sanitizeSimpleOperation_shape show ?thesis
    by (auto simp: valid_operation_def sanitizeOperation_def split: if_splits)
next
  case True
  let ?ops = "case prop_get p ''op_list'' of JArr ops \<Rightarrow> ops | _ \<Rightarrow> []"
  from assms(1) True obtain opList where m: "map_err sanitizeSimpleOperation ?ops = Inr opList"
    and s: "s = JObj [(''type'', JStr ''SET''), (''op_list'', JArr opList)]"
    by (auto simp: sanitizeOperation_def sanitizeSetOperation_def split: if_splits sum.splits)
  from assms(2) s have "js_equal (JObj [(''type'', JStr ''SET''), (''op_list'', JArr (map json_norm opList))]) p"
    by simp
  from js_equal_prop [OF this, of "''op_list''"]
  have eq: "js_equal (JArr (map json_norm opList)) (prop_get p ''op_list'')" by simp
  obtain ops where ops: "prop_get p ''op_list'' = JArr ops" "length opList = length ops"
    "\<And>i. i < length opList \<Longrightarrow> js_equal (json_norm (opList ! i)) (ops ! i)"
    using js_equal_arrD [OF eq] by (metis length_map nth_map)
  have "opList \<noteq> []" using assms(3) by (auto simp: s)
  then have "ops \<noteq> []" using ops(2) by auto
  moreover have "simple_operation q" if "q \<in> set ops" for q
  proof -
    from that have "\<exists>i<length ops. ops ! i = q" by (simp add: in_set_conv_nth)
    then obtain i where i: "i < length ops" "q = ops ! i" by blast
    have "sanitizeSimpleOperation (ops ! i) = Inr (opList ! i)"
      using map_err_Inr [OF m] i(1) by (simp add: ops(1))
    with ops(2,3) i show ?thesis by (auto intro: sanitizeSimpleOperation_shape)
  qed
  ultimately show ?thesis using True ops(1) by (simp add: valid_operation_def)
qed

lemma opt_prop_norm:
  "(\<And>v. f v \<noteq> JUndef) \<Longrightarrow> map (\<lambda>p. (fst p, json_norm (snd p))) (filter (\<lambda>p. snd p \<noteq> JUndef) (opt_prop k f b)) =
     (if prop_get b k = JUndef then [] else [(k, json_norm (f (prop_get b k)))])"
  by (simp add: opt_prop_def)

lemma sanitizeTxBody_shape:
  assumes "sanitizeTxBody b = Inr s" and "js_equal (json_norm s) b"
  shows "set (keys_of b) \<subseteq> {''operation'', ''nonce'', ''timestamp'', ''parent_tx_hash'', ''gas_price'', ''billing'', ''address''}"
    "isNumber (prop_get b ''timestamp'')"
    "prop_get b ''gas_price'' = JUndef \<or> isNumber (prop_get b ''gas_price'')"
    "\<exists>p. sanitizeOperation (prop_get b ''operation'') = Inr p \<and> prop_get s ''operation'' = p \<and>
       js_equal (json_norm p) (prop_get b ''operation'')"
proof -
  from assms(1) obtain p where p: "sanitizeOperation (prop_get b ''operation'') = Inr p"
    by (auto simp: sanitizeTxBody_def split: sum.splits)
  have pn: "p \<noteq> JUndef"
    using p by (auto simp: sanitizeOperation_def sanitizeSetOperation_def sanitizeSimpleOperation_def Let_def
        split: if_splits sum.splits)
  let ?o = "\<lambda>k v. prop_if (prop_get b k \<noteq> JUndef) k v"
  define ps where "ps = [(''operation'', json_norm p), (''nonce'', JNum (numberOrZero (prop_get b ''nonce''))),
      (''timestamp'', JNum (numberOrZero (prop_get b ''timestamp'')))]
     @ ?o ''parent_tx_hash'' (JStr (stringOrEmpty (prop_get b ''parent_tx_hash'')))
     @ ?o ''gas_price'' (JNum (numberOrZero (prop_get b ''gas_price'')))
     @ ?o ''billing'' (JStr (stringOrEmpty (prop_get b ''billing'')))
     @ ?o ''address'' (JStr (stringOrEmpty (prop_get b ''address'')))"
  have "json_norm s = JObj ps"
    using assms(1) pn by (auto simp: sanitizeTxBody_def p ps_def opt_prop_norm prop_if_def)
  with assms(2) have eq: "js_equal (JObj ps) b" by simp
  have dist: "distinct (map fst ps)" by (simp add: ps_def)
  show "set (keys_of b) \<subseteq> {''operation'', ''nonce'', ''timestamp'', ''parent_tx_hash'', ''gas_price'', ''billing'', ''address''}"
    unfolding js_equal_keys [OF eq dist] ps_def set_append image_Un
    by (intro Un_least order_trans [OF fst_set_prop_if]) simp_all
  have "js_equal (JNum (numberOrZero (prop_get b ''timestamp''))) (prop_get b ''timestamp'')"
    by (rule js_equal_prop [OF eq]) (simp add: ps_def)
  then show "isNumber (prop_get b ''timestamp'')" by (metis isNumber.simps(1) js_equal_atoms(4))
  have "if prop_get b ''gas_price'' \<noteq> JUndef
      then js_equal (JNum (numberOrZero (prop_get b ''gas_price''))) (prop_get b ''gas_price'')
      else prop_get b ''gas_price'' = JUndef"
    by (rule js_equal_opt [OF eq dist]) (simp add: ps_def)
  then show "prop_get b ''gas_price'' = JUndef \<or> isNumber (prop_get b ''gas_price'')"
    by (metis isNumber.simps(1) js_equal_atoms(4))
  have "js_equal (json_norm p) (prop_get b ''operation'')"
    by (rule js_equal_prop [OF eq]) (simp add: ps_def)
  moreover have "prop_get s ''operation'' = p"
    using assms(1) by (auto simp: sanitizeTxBody_def p)
  ultimately show "\<exists>p. sanitizeOperation (prop_get b ''operation'') = Inr p \<and> prop_get s ''operation'' = p \<and>
       js_equal (json_norm p) (prop_get b ''operation'')" using p by blast
qed

lemma split_on_two:
  assumes "length (split_on c s) = 2"
  shows "\<exists>u v. s = u @ c # v \<and> c \<notin> set u \<and> c \<notin> set v"
proof -
  obtain u v where uv: "split_on c s = [u, v]"
    using assms by (auto simp: length_Suc_conv numeral_2_eq_2)
  then have "s = u @ c # v" using join_split_on [of c s] by simp
  with uv split_on_free [of u c s] split_on_free [of v c s] show ?thesis by auto
qed

text \<open>
  A body that \<open>isValidTxBody\<close> accepts has only the known fields, an integer nonce of at least
  -2, a number as timestamp, a positive gas price (or, under the workaround flag, none or zero),
  a billing of two parts separated by one bar when it has one, and a well-formed operation: a
  simple one, or a \<open>SET\<close> with a non-empty list of simple ones.
\<close>

theorem isValidTxBody_shape:
  assumes "isValidTxBody env b = Inr True"
  shows "set (keys_of b) \<subseteq> {''operation'', ''nonce'', ''timestamp'', ''parent_tx_hash'', ''gas_price'', ''billing'', ''address''}
    \<and> (\<exists>n. prop_get b ''nonce'' = JNum (of_int n) \<and> n \<ge> -2)
    \<and> (\<exists>t. prop_get b ''timestamp'' = JNum t)
    \<and> ((\<exists>g > 0. prop_get b ''gas_price'' = JNum g) \<or>
       te_ENABLE_GAS_FEE_WORKAROUND env \<and> prop_get b ''gas_price'' \<in> {JUndef, JNum 0})
    \<and> (prop_get b ''billing'' = JUndef \<or>
       (\<exists>u v. prop_get b ''billing'' = JStr (u @ CHR ''|'' # v) \<and> CHR ''|'' \<notin> set u \<and> CHR ''|'' \<notin> set v))
    \<and> valid_operation (prop_get b ''operation'')"
proof -
  from assms have v: "isValidNonce (prop_get b ''nonce'')" "isValidGasPrice env (prop_get b ''gas_price'')"
    "isValidBilling (prop_get b ''billing'')" and std: "isInStandardFormat b = Inr True"
    by (auto simp: isValidTxBody_def split: if_splits)
  from std obtain s where s: "sanitizeTxBody b = Inr s" "js_equal (json_norm s) b"
    "\<not> (prop_get (prop_get s ''operation'') ''type'' = JStr ''SET'' \<and> isEmpty (prop_get (prop_get s ''operation'') ''op_list''))"
    by (auto simp: isInStandardFormat_def Let_def split: sum.splits if_splits)
  note sh = sanitizeTxBody_shape [OF s(1,2)]
  have nonce: "\<exists>n. prop_get b ''nonce'' = JNum (of_int n) \<and> n \<ge> -2"
  proof (cases "prop_get b ''nonce''")
    case (JNum q)
    then have "of_int \<lfloor>q\<rfloor> = q" "q \<ge> -2" using v(1) by (simp_all add: isValidNonce_def)
    then have "prop_get b ''nonce'' = JNum (of_int \<lfloor>q\<rfloor>) \<and> \<lfloor>q\<rfloor> \<ge> -2" using JNum by (simp only: le_floor_iff) simp
    then show ?thesis by blast
  qed (use v(1) in \<open>simp_all add: isValidNonce_def\<close>)
  moreover have "\<exists>t. prop_get b ''timestamp'' = JNum t"
    using sh(2) by (cases "prop_get b ''timestamp''") simp_all
  moreover have "(\<exists>g > 0. prop_get b ''gas_price'' = JNum g) \<or>
       te_ENABLE_GAS_FEE_WORKAROUND env \<and> prop_get b ''gas_price'' \<in> {JUndef, JNum 0}"
    using sh(3) v(2) by (cases "prop_get b ''gas_price''") (auto simp: isValidGasPrice_def gt_zero_def)
  moreover have "prop_get b ''billing'' = JUndef \<or>
       (\<exists>u v. prop_get b ''billing'' = JStr (u @ CHR ''|'' # v) \<and> CHR ''|'' \<notin> set u \<and> CHR ''|'' \<notin> set v)"
    using v(3) split_on_two by (cases "prop_get b ''billing''") (auto simp: isValidBilling_def)
  moreover have "valid_operation (prop_get b ''operation'')"
    using sh(4) s(3) by (auto intro: sanitizeOperation_shape)
  ultimately show ?thesis using sh(1) by (intro conjI)
qed

text \<open>
  A body whose operation is \<open>null\<close>, or a \<open>SET\<close> whose list contains \<open>null\<close>, is not rejected:
  once its other fields are valid, the validation throws.
\<close>

theorem isValidTxBody_null_operation:
  assumes "hasRequiredFields b" and "isValidNonce (prop_get b ''nonce'')"
    and "isValidGasPrice env (prop_get b ''gas_price'')" and "isValidBilling (prop_get b ''billing'')"
    and "prop_get b ''operation'' = JNull"
  shows "isValidTxBody env b = Inl TypeError"
  using assms
  by (simp add: isValidTxBody_def isInStandardFormat_def sanitizeTxBody_def sanitizeOperation_def nullish_def)

text \<open>
  \<open>create\<close> returns a transaction only for a valid body. Unless the verification workaround is
  enabled and the body names an address, the transaction's address is the one recovered from the
  signature, and \<open>verifyTransaction\<close> accepts a transaction without the skip mark only if the
  signature library does.
\<close>

theorem create_verified:
  assumes "create env now b sig chainId = Inr (Some tx)"
    and "\<not> (te_ENABLE_TX_SIG_VERIF_WORKAROUND env \<and> prop_get b ''address'' \<noteq> JUndef)"
  shows "isValidTxBody env b = Inr True \<and> tx_body tx = json_norm b \<and>
    tx_address tx = te_getAddressFromSignature env (drop 2 (tx_hash tx)) sig chainId \<and>
    (verifyTransaction env (Some tx) chainId = Inr True \<longrightarrow>
       isValidTxBody env (tx_body tx) = Inr True \<and>
       te_ecVerifySig env (tx_body tx) sig (tx_address tx) chainId = Some True)"
  using assms
  by (auto simp: create_def newTransaction_def verifyTransaction_def Let_def
      split: sum.splits bool.splits if_splits option.splits)

subsection \<open>Witnesses\<close>

definition txEnv1 :: tx_env where
  "txEnv1 = \<lparr>te_ENABLE_GAS_FEE_WORKAROUND = False, te_ENABLE_TX_SIG_VERIF_WORKAROUND = False,
     te_toNumber = \<lambda>_. None, te_hashSignature = stringOrEmpty, te_hashTxBody = \<lambda>_. ''0x'',
     te_getAddressFromSignature = \<lambda>h s c. ''0xA'', te_ecVerifySig = \<lambda>b s a c. Some True\<rparr>"

definition txBody1 :: jsval where
  "txBody1 = JObj [(''operation'', JObj [(''ref'', JStr ''/a''), (''value'', JNum 1), (''type'', JStr ''SET_VALUE'')]),
     (''nonce'', JNum (-1)), (''timestamp'', JNum 7), (''gas_price'', JNum 1)]"

lemma txBody1_valid: "isValidTxBody txEnv1 txBody1 = Inr True"
proof -
  have op: "sanitizeOperation (prop_get txBody1 ''operation'') = Inr (prop_get txBody1 ''operation'')"
    by (simp add: txBody1_def sanitizeOperation_def sanitizeSimpleOperation_def nullish_def set_types_def
        inc_types_def Let_def)
  have san: "sanitizeTxBody txBody1 = Inr txBody1"
    unfolding sanitizeTxBody_def op by (simp add: txBody1_def opt_prop_def)
  have eq: "js_equal (json_norm txBody1) txBody1"
    by (simp add: txBody1_def js_equal.simps [of "JObj ps" for ps])
  have int: "isInteger (JNum (- 1))" unfolding isInteger.simps by (metis floor_of_int of_int_minus of_int_1)
  show ?thesis
    unfolding isValidTxBody_def isInStandardFormat_def san using eq int
    by (simp add: txBody1_def hasRequiredFields_def isValidNonce_def isValidGasPrice_def gt_zero_def
        isValidBilling_def del: isInteger.simps)
qed

theorem isValidTxBody_shape_witness: "valid_operation (prop_get txBody1 ''operation'')"
  using isValidTxBody_shape [OF txBody1_valid] by blast

theorem isValidTxBody_null_operation_witness:
  "isValidTxBody txEnv1 (JObj [(''operation'', JNull), (''nonce'', JNum 0), (''timestamp'', JNum 7),
     (''gas_price'', JNum 1)]) = Inl TypeError"
  by (rule isValidTxBody_null_operation)
    (simp_all add: hasRequiredFields_def isValidNonce_def isValidGasPrice_def gt_zero_def isValidBilling_def)

theorem create_verified_witness:
  "\<exists>tx. create txEnv1 5 txBody1 (JStr ''0xsig'') (JNum 0) = Inr (Some tx) \<and> tx_address tx = ''0xA''"
proof -
  have "\<exists>tx. create txEnv1 5 txBody1 (JStr ''0xsig'') (JNum 0) = Inr (Some tx)"
    by (simp add: create_def txBody1_valid Let_def)
  then obtain tx where tx: "create txEnv1 5 txBody1 (JStr ''0xsig'') (JNum 0) = Inr (Some tx)" ..
  have "\<not> (te_ENABLE_TX_SIG_VERIF_WORKAROUND txEnv1 \<and> prop_get txBody1 ''address'' \<noteq> JUndef)"
    by (simp add: txEnv1_def)
  from create_verified [OF tx this] have "tx_address tx = ''0xA''" by (simp add: txEnv1_def)
  with tx show ?thesis by blast
qed

end
