(* ===== verification/Block.thy ===== *)
theory Block
  imports Transaction
begin

text \<open>
  \<open>blockchain/block.js\<close>: blocks, their header, body and hashes, and the validation of the hashes
  and of the validator set. The hash function, the stable stringifier (package
  \<open>fast-json-stable-stringify\<close>), the size function and the checksum-address test of \<open>ain-util\<close>
  are parameters.
\<close>

record evidence =
  ev_transactions :: "transaction list"
  ev_votes :: "transaction list"
  ev_block :: jsval
  ev_offense_type :: string

record block =
  b_last_votes :: "transaction list"
  b_evidence :: "(string \<times> evidence list) list"
  b_transactions :: "transaction list"
  b_receipts :: "jsval list"
  b_last_hash :: string
  b_last_votes_hash :: string
  b_evidence_hash :: string
  b_transactions_hash :: string
  b_receipts_hash :: string
  b_number :: int
  b_epoch :: int
  b_timestamp :: rat
  b_state_proof_hash :: string
  b_proposer :: string
  b_validators :: "(string \<times> jsval) list"
  b_gas_amount_total :: rat
  b_gas_cost_total :: rat
  b_hash :: string
  b_size :: nat

record block_env =
  be_hashMessage :: "string \<Rightarrow> string"
  be_stringify :: "jsval \<Rightarrow> string"
  be_sizeof :: "jsval \<Rightarrow> nat"
  be_isCksumAddr :: "string \<Rightarrow> bool"

definition blockHashString :: "block_env \<Rightarrow> jsval \<Rightarrow> string" where
  "blockHashString env v = ''0x'' @ be_hashMessage env (be_stringify env v)"

text \<open>The plain objects the fields are stringified as.\<close>

definition votes_js :: "transaction list \<Rightarrow> jsval" where
  "votes_js txs = JArr (map toJsObject txs)"

definition evidence_js :: "(string \<times> evidence list) list \<Rightarrow> jsval" where
  "evidence_js ev = JObj (map (\<lambda>(addr, es). (addr, JArr (map (\<lambda>e.
      JObj [(''transactions'', votes_js (ev_transactions e)), (''block'', ev_block e),
            (''votes'', votes_js (ev_votes e)), (''offense_type'', JStr (ev_offense_type e))]) es))) ev)"

definition block_header :: "block \<Rightarrow> jsval" where
  "block_header b = JObj
     [(''last_hash'', JStr (b_last_hash b)),
      (''last_votes_hash'', JStr (b_last_votes_hash b)),
      (''transactions_hash'', JStr (b_transactions_hash b)),
      (''receipts_hash'', JStr (b_receipts_hash b)),
      (''evidence_hash'', JStr (b_evidence_hash b)),
      (''number'', JNum (of_int (b_number b))),
      (''epoch'', JNum (of_int (b_epoch b))),
      (''timestamp'', JNum (b_timestamp b)),
      (''state_proof_hash'', JStr (b_state_proof_hash b)),
      (''proposer'', JStr (b_proposer b)),
      (''validators'', JObj (b_validators b)),
      (''gas_amount_total'', JNum (b_gas_amount_total b)),
      (''gas_cost_total'', JNum (b_gas_cost_total b))]"

definition block_body :: "block \<Rightarrow> jsval" where
  "block_body b = JObj
     [(''last_votes'', votes_js (b_last_votes b)),
      (''evidence'', evidence_js (b_evidence b)),
      (''transactions'', votes_js (b_transactions b)),
      (''receipts'', JArr (b_receipts b))]"

text \<open>\<open>sanitizeTransactions\<close> drops the extra fields.\<close>

definition sanitizeTransactions :: "transaction list \<Rightarrow> transaction list" where
  "sanitizeTransactions transactions = map (\<lambda>tx. tx\<lparr>tx_extra := []\<rparr>) transactions"

definition blockHash :: "block_env \<Rightarrow> block \<Rightarrow> string" where
  "blockHash env b = blockHashString env (block_header b)"

definition blockSize :: "block_env \<Rightarrow> block \<Rightarrow> nat" where
  "blockSize env b =
     be_sizeof env (case (block_header b, block_body b) of
        (JObj ps, JObj qs) \<Rightarrow> JObj (ps @ qs) | _ \<Rightarrow> JUndef)"

definition newBlock ::
  "block_env \<Rightarrow> string \<Rightarrow> transaction list \<Rightarrow> (string \<times> evidence list) list \<Rightarrow> transaction list \<Rightarrow> jsval list
   \<Rightarrow> int \<Rightarrow> int \<Rightarrow> rat \<Rightarrow> string \<Rightarrow> string \<Rightarrow> (string \<times> jsval) list \<Rightarrow> rat \<Rightarrow> rat \<Rightarrow> block" where
  "newBlock env lastHash lastVotes ev transactions receipts number epoch timestamp stateProofHash
     proposer validators gasAmountTotal gasCostTotal =
     (let txs = sanitizeTransactions transactions;
          b = \<lparr>b_last_votes = lastVotes, b_evidence = ev, b_transactions = txs, b_receipts = receipts,
               b_last_hash = lastHash,
               b_last_votes_hash = blockHashString env (votes_js lastVotes),
               b_evidence_hash = blockHashString env (evidence_js ev),
               b_transactions_hash = blockHashString env (votes_js txs),
               b_receipts_hash = blockHashString env (JArr receipts),
               b_number = number, b_epoch = epoch, b_timestamp = timestamp,
               b_state_proof_hash = stateProofHash, b_proposer = proposer, b_validators = validators,
               b_gas_amount_total = gasAmountTotal, b_gas_cost_total = gasCostTotal,
               b_hash = [], b_size = 0\<rparr>;
          b = b\<lparr>b_hash := blockHash env b\<rparr>
      in b\<lparr>b_size := blockSize env b\<rparr>)"

text \<open>\<open>Block.create\<close>: a zero timestamp is replaced by the current time.\<close>

definition createBlock ::
  "block_env \<Rightarrow> rat \<Rightarrow> string \<Rightarrow> transaction list \<Rightarrow> (string \<times> evidence list) list \<Rightarrow> transaction list \<Rightarrow> jsval list
   \<Rightarrow> int \<Rightarrow> int \<Rightarrow> string \<Rightarrow> string \<Rightarrow> (string \<times> jsval) list \<Rightarrow> rat \<Rightarrow> rat \<Rightarrow> rat option \<Rightarrow> block" where
  "createBlock env now lastHash lastVotes ev transactions receipts number epoch stateProofHash
     proposer validators gasAmountTotal gasCostTotal timestamp =
     newBlock env lastHash lastVotes ev transactions receipts number epoch
       (case timestamp of None \<Rightarrow> now | Some t \<Rightarrow> if t = 0 then now else t)
       stateProofHash proposer validators gasAmountTotal gasCostTotal"

text \<open>The second definition of \<open>hasRequiredFields\<close> in the class, which replaces the first.\<close>

definition blockHasRequiredFields :: "jsval \<Rightarrow> bool" where
  "blockHasRequiredFields b =
     (truthy b \<and> list_all (\<lambda>k. prop_get b k \<noteq> JUndef)
        [''last_hash'', ''last_votes'', ''evidence'', ''transactions'', ''receipts'', ''number'',
         ''epoch'', ''timestamp'', ''state_proof_hash'', ''proposer'', ''validators'',
         ''gas_amount_total'', ''gas_cost_total''])"

definition validateHashes :: "block_env \<Rightarrow> block \<Rightarrow> bool" where
  "validateHashes env b =
     (if b_hash b \<noteq> blockHash env b then False
      else if b_transactions_hash b \<noteq> blockHashString env (votes_js (b_transactions b)) then False
      else if b_receipts_hash b \<noteq> blockHashString env (JArr (b_receipts b)) then False
      else if b_last_votes_hash b \<noteq> blockHashString env (votes_js (b_last_votes b)) then False
      else if b_evidence_hash b \<noteq> blockHashString env (evidence_js (b_evidence b)) then False
      else True)"

definition validateValidators :: "block_env \<Rightarrow> jsval \<Rightarrow> bool" where
  "validateValidators env validators =
     (case validators of
        JObj ps \<Rightarrow> list_all (\<lambda>(addr, info).
            be_isCksumAddr env addr \<and> isDict info \<and> isNumber (prop_get info ''stake'') \<and>
            isBool (prop_get info ''proposal_right'')) ps
      | _ \<Rightarrow> False)"

subsection \<open>Properties\<close>

text \<open>A stringifier is stable when equal strings come from values that are equal as JSON.\<close>

definition stable_stringify :: "(jsval \<Rightarrow> string) \<Rightarrow> bool" where
  "stable_stringify f =
     (\<forall>v w. js_wf v \<longrightarrow> js_wf w \<longrightarrow> f v = f w \<longrightarrow> js_equal (json_norm v) (json_norm w))"

definition block_wf :: "block \<Rightarrow> bool" where
  "block_wf b = (js_wf (block_header b) \<and> js_wf (votes_js (b_transactions b)) \<and> js_wf (JArr (b_receipts b)) \<and>
     js_wf (votes_js (b_last_votes b)) \<and> js_wf (evidence_js (b_evidence b)))"

lemma blockHashString_inj:
  assumes "inj (be_hashMessage env)" and "stable_stringify (be_stringify env)"
    and "js_wf v" and "js_wf w" and "blockHashString env v = blockHashString env w"
  shows "js_equal (json_norm v) (json_norm w)"
  using assms by (auto simp: blockHashString_def stable_stringify_def inj_eq)

lemma json_norm_str [simp]: "json_norm (JStr s) = JStr s" "json_norm (JNum q) = JNum q"
  by simp_all

lemma header_field:
  assumes "js_equal (json_norm (block_header b)) (json_norm (block_header b'))"
  shows "b_last_hash b' = b_last_hash b" "b_last_votes_hash b' = b_last_votes_hash b"
    "b_transactions_hash b' = b_transactions_hash b" "b_receipts_hash b' = b_receipts_hash b"
    "b_evidence_hash b' = b_evidence_hash b" "b_number b' = b_number b" "b_epoch b' = b_epoch b"
    "b_timestamp b' = b_timestamp b" "b_state_proof_hash b' = b_state_proof_hash b"
    "b_proposer b' = b_proposer b"
    "js_equal (json_norm (JObj (b_validators b))) (json_norm (JObj (b_validators b')))"
    "b_gas_amount_total b' = b_gas_amount_total b" "b_gas_cost_total b' = b_gas_cost_total b"
  using assms by (simp_all add: block_header_def js_equal.simps [of "JObj (x # xs)" for x xs])


text \<open>A new block validates its own hashes.\<close>

lemma newBlock_valid:
  "validateHashes env (newBlock env lh lv ev txs rs n ep ts sph pr vals ga gc)"
  by (simp add: newBlock_def Let_def validateHashes_def blockHash_def block_header_def)

subsection \<open>Witness\<close>

definition unary :: "nat \<Rightarrow> string" where
  "unary n = replicate n (CHR ''x'')"

lemma unary_inj: "unary m = unary n \<Longrightarrow> m = n"
  by (drule arg_cong [of _ _ length]) (simp add: unary_def)

definition blockEnv1 :: block_env where
  "blockEnv1 = \<lparr>be_hashMessage = id, be_stringify = \<lambda>v. unary (to_nat v), be_sizeof = \<lambda>_. 0,
     be_isCksumAddr = \<lambda>_. True\<rparr>"

lemma blockEnv1_stable: "inj (be_hashMessage blockEnv1)" "stable_stringify (be_stringify blockEnv1)"
  by (auto simp: blockEnv1_def stable_stringify_def intro!: js_equal_refl js_wf_json_norm dest!: unary_inj)

definition block1 :: block where
  "block1 = newBlock blockEnv1 ''0x'' [] [] [] [] 1 1 1 ''0x'' ''0x'' [] 0 0"


end
