(* ===== verification/TxResult.thy ===== *)
theory TxResult
  imports Transaction Paths
begin

text \<open>
  The result trees of transactions and what \<open>common/common-util.js\<close> computes from them: whether
  a transaction failed, and the bandwidth gas amounts per service and per app. A result holds the
  results of the functions it triggered, which hold the results of the writes they made, and so
  on. An absent amount is 0 and an absent list is empty; a missing result is \<^const>\<open>None\<close>.
\<close>

datatype tx_result =
    TxResult (tr_code: int) (tr_gas: rat) (tr_funcs: "(string \<times> func_result) list")
      (tr_subtree: "(string \<times> (string \<times> (string \<times> func_result) list) list) list")
      (tr_list: "(nat \<times> tx_result) list option")
  and func_result =
    FuncResult (fr_code: int) (fr_gas: rat) (fr_ops: "(string \<times> string \<times> tx_result option) list")

subsection \<open>Failure\<close>

definition isFailedTxResultCode :: "int \<Rightarrow> bool" where
  "isFailedTxResultCode code = (code \<noteq> 0)"

definition isFailedFuncResultCode :: "int \<Rightarrow> bool" where
  "isFailedFuncResultCode code = (code \<noteq> 0 \<and> code \<noteq> 20000)"

fun isFailedTx :: "tx_result option \<Rightarrow> bool"
  and isFailedResultList :: "(nat \<times> tx_result) list \<Rightarrow> bool"
  and isFailedFuncTrigger :: "(string \<times> func_result) list \<Rightarrow> bool"
  and isFailedOpResults :: "(string \<times> string \<times> tx_result option) list \<Rightarrow> bool"
  and isFailedSubtreeFuncTrigger :: "(string \<times> (string \<times> (string \<times> func_result) list) list) list \<Rightarrow> bool"
  and isFailedFuncPathResult :: "(string \<times> (string \<times> func_result) list) list \<Rightarrow> bool" where
  "isFailedTx None = True"
| "isFailedTx (Some (TxResult code gas funcs subtree (Some rs))) = isFailedResultList rs"
| "isFailedTx (Some (TxResult code gas funcs subtree None)) =
     (isFailedTxResultCode code \<or> isFailedFuncTrigger funcs \<or> isFailedSubtreeFuncTrigger subtree)"
| "isFailedResultList [] = False"
| "isFailedResultList ((i, TxResult code gas funcs subtree rs) # rest) =
     (isFailedTxResultCode code \<or> isFailedFuncTrigger funcs \<or> isFailedSubtreeFuncTrigger subtree
      \<or> isFailedResultList rest)"
| "isFailedFuncTrigger [] = False"
| "isFailedFuncTrigger ((fid, FuncResult code gas ops) # rest) =
     (isFailedFuncResultCode code \<or> isFailedOpResults ops \<or> isFailedFuncTrigger rest)"
| "isFailedOpResults [] = False"
| "isFailedOpResults ((k, path, res) # rest) = (isFailedTx res \<or> isFailedOpResults rest)"
| "isFailedSubtreeFuncTrigger [] = False"
| "isFailedSubtreeFuncTrigger ((fp, vs) # rest) =
     (isFailedFuncPathResult vs \<or> isFailedSubtreeFuncTrigger rest)"
| "isFailedFuncPathResult [] = False"
| "isFailedFuncPathResult ((vp, funcs) # rest) =
     (isFailedFuncTrigger funcs \<or> isFailedFuncPathResult rest)"

subsection \<open>Bandwidth gas amounts\<close>

record gas_amount =
  g_service :: rat
  g_app :: "(string \<times> rat) list"

definition zero_gas :: gas_amount where
  "zero_gas = \<lparr>g_service = 0, g_app = []\<rparr>"

text \<open>\<open>mergeNumericJsObjects\<close> on gas amounts.\<close>

definition app_gas :: "(string \<times> rat) list \<Rightarrow> string \<Rightarrow> rat" where
  "app_gas m a = (case map_of m a of None \<Rightarrow> 0 | Some v \<Rightarrow> v)"

definition mergeNumericJsObjects :: "(string \<times> rat) list \<Rightarrow> (string \<times> rat) list \<Rightarrow> (string \<times> rat) list" where
  "mergeNumericJsObjects m1 m2 = foldl (\<lambda>m (k, v). AList.update k (app_gas m k + v) m) m1 m2"

definition mergeGas :: "gas_amount \<Rightarrow> gas_amount \<Rightarrow> gas_amount" where
  "mergeGas g1 g2 = \<lparr>g_service = g_service g1 + g_service g2, g_app = mergeNumericJsObjects (g_app g1) (g_app g2)\<rparr>"

definition isAppPath :: "string list \<Rightarrow> bool" where
  "isAppPath parsedPath = (parsedPath \<noteq> [] \<and> hd parsedPath = ''apps'')"

text \<open>\<open>getSingleOpBandwidthGasAmount\<close>: an app path without an app name gives \<open>undefined\<close>, which merges as nothing.\<close>

definition getSingleOpBandwidthGasAmount :: "string list \<Rightarrow> rat \<Rightarrow> gas_amount" where
  "getSingleOpBandwidthGasAmount parsedPath val =
     (if val = 0 then zero_gas
      else if isAppPath parsedPath then
        (case tl parsedPath of
           [] \<Rightarrow> zero_gas
         | appName # _ \<Rightarrow> \<lparr>g_service = 0, g_app = [(appName, val)]\<rparr>)
      else \<lparr>g_service = val, g_app = []\<rparr>)"

fun getTotalBandwidthGasAmountInternal :: "string list \<Rightarrow> tx_result option \<Rightarrow> gas_amount"
  and funcResultsGas :: "string list \<Rightarrow> (string \<times> func_result) list \<Rightarrow> gas_amount \<Rightarrow> gas_amount"
  and opResultsGas :: "(string \<times> string \<times> tx_result option) list \<Rightarrow> gas_amount \<Rightarrow> gas_amount"
  and subtreeFuncResultsGas ::
    "string list \<Rightarrow> (string \<times> (string \<times> (string \<times> func_result) list) list) list \<Rightarrow> gas_amount \<Rightarrow> gas_amount"
  and funcPathResultGas ::
    "string list \<Rightarrow> (string \<times> (string \<times> func_result) list) list \<Rightarrow> gas_amount \<Rightarrow> gas_amount" where
  "getTotalBandwidthGasAmountInternal trig None = zero_gas"
| "getTotalBandwidthGasAmountInternal trig (Some (TxResult code gas funcs subtree (Some rs))) = zero_gas"
| "getTotalBandwidthGasAmountInternal trig (Some (TxResult code gas funcs subtree None)) =
     mergeGas (mergeGas (mergeGas zero_gas (funcResultsGas trig funcs zero_gas))
                (subtreeFuncResultsGas trig subtree zero_gas))
       (getSingleOpBandwidthGasAmount trig gas)"
| "funcResultsGas trig [] acc = acc"
| "funcResultsGas trig ((fid, FuncResult code gas ops) # rest) acc =
     funcResultsGas trig rest
       (mergeGas (opResultsGas ops acc) (getSingleOpBandwidthGasAmount trig gas))"
| "opResultsGas [] acc = acc"
| "opResultsGas ((k, path, res) # rest) acc =
     opResultsGas rest (mergeGas acc (getTotalBandwidthGasAmountInternal (parsePath path) res))"
| "subtreeFuncResultsGas trig [] acc = acc"
| "subtreeFuncResultsGas trig ((fp, vs) # rest) acc =
     subtreeFuncResultsGas trig rest (funcPathResultGas trig vs acc)"
| "funcPathResultGas trig [] acc = acc"
| "funcPathResultGas trig ((vp, funcs) # rest) acc =
     funcPathResultGas trig rest (mergeGas acc (funcResultsGas (trig @ parsePath vp) funcs zero_gas))"

text \<open>
  \<open>getTotalBandwidthGasAmount(op, result)\<close> for an operation with the reference \<open>ref\<close> and the
  references \<open>refs\<close> of its list; an index outside of the list throws.
\<close>

definition getTotalBandwidthGasAmount :: "string \<Rightarrow> string list \<Rightarrow> tx_result option \<Rightarrow> js_error + gas_amount" where
  "getTotalBandwidthGasAmount ref refs result =
     (case result of
        None \<Rightarrow> Inr zero_gas
      | Some r \<Rightarrow>
          (case tr_list r of
             None \<Rightarrow> Inr (mergeGas zero_gas (getTotalBandwidthGasAmountInternal (parsePath ref) result))
           | Some rs \<Rightarrow>
               foldl (\<lambda>acc (i, res). case acc of
                        Inl e \<Rightarrow> Inl e
                      | Inr g \<Rightarrow>
                          if i < length refs
                          then Inr (mergeGas g (getTotalBandwidthGasAmountInternal (parsePath (refs ! i)) (Some res)))
                          else Inl TypeError)
                 (Inr zero_gas) rs))"

subsection \<open>Gas cost\<close>

definition getTotalGasCost :: "jsval \<Rightarrow> jsval \<Rightarrow> rat \<Rightarrow> bool \<Rightarrow> rat" where
  "getTotalGasCost gasPrice gasAmount gasPriceUnit enableGasCostFlooring =
     (let cost = numberOrZero gasPrice * gasPriceUnit * numberOrZero gasAmount
      in if enableGasCostFlooring then of_int \<lfloor>cost * 1000000\<rfloor> / 1000000 else cost)"

definition getServiceGasCostTotalFromTxList ::
  "transaction list \<Rightarrow> jsval list \<Rightarrow> rat \<Rightarrow> bool \<Rightarrow> rat \<times> rat" where
  "getServiceGasCostTotalFromTxList txList gasAmounts gasPriceUnit enableGasCostFlooring =
     foldl (\<lambda>(amount, cost) (tx, charged).
              (amount + numberOrZero charged,
               cost + getTotalGasCost (prop_get (tx_body tx) ''gas_price'') charged gasPriceUnit enableGasCostFlooring))
       (0, 0) (zip txList gasAmounts)"

subsection \<open>Where the gas goes\<close>

text \<open>All the amounts in a result tree with the path each is charged to.\<close>

fun charges :: "string list \<Rightarrow> tx_result option \<Rightarrow> (string list \<times> rat) list"
  and funcCharges :: "string list \<Rightarrow> (string \<times> func_result) list \<Rightarrow> (string list \<times> rat) list"
  and opCharges :: "(string \<times> string \<times> tx_result option) list \<Rightarrow> (string list \<times> rat) list"
  and subtreeCharges ::
    "string list \<Rightarrow> (string \<times> (string \<times> (string \<times> func_result) list) list) list \<Rightarrow> (string list \<times> rat) list"
  and funcPathCharges :: "string list \<Rightarrow> (string \<times> (string \<times> func_result) list) list \<Rightarrow> (string list \<times> rat) list" where
  "charges trig None = []"
| "charges trig (Some (TxResult code gas funcs subtree (Some rs))) = []"
| "charges trig (Some (TxResult code gas funcs subtree None)) =
     funcCharges trig funcs @ subtreeCharges trig subtree @ [(trig, gas)]"
| "funcCharges trig [] = []"
| "funcCharges trig ((fid, FuncResult code gas ops) # rest) =
     opCharges ops @ (trig, gas) # funcCharges trig rest"
| "opCharges [] = []"
| "opCharges ((k, path, res) # rest) = charges (parsePath path) res @ opCharges rest"
| "subtreeCharges trig [] = []"
| "subtreeCharges trig ((fp, vs) # rest) = funcPathCharges trig vs @ subtreeCharges trig rest"
| "funcPathCharges trig [] = []"
| "funcPathCharges trig ((vp, funcs) # rest) =
     funcCharges (trig @ parsePath vp) funcs @ funcPathCharges trig rest"

definition service_charge :: "(string list \<times> rat) list \<Rightarrow> rat" where
  "service_charge cs = sum_list (map snd (filter (\<lambda>c. \<not> isAppPath (fst c)) cs))"

definition app_charge :: "string \<Rightarrow> (string list \<times> rat) list \<Rightarrow> rat" where
  "app_charge a cs = sum_list (map snd (filter (\<lambda>c. isAppPath (fst c) \<and> take 1 (tl (fst c)) = [a]) cs))"

lemma charge_simps [simp]:
  "service_charge [] = 0" "service_charge (xs @ ys) = service_charge xs + service_charge ys"
  "service_charge (c # cs) = (if isAppPath (fst c) then 0 else snd c) + service_charge cs"
  "app_charge a [] = 0" "app_charge a (xs @ ys) = app_charge a xs + app_charge a ys"
  "app_charge a (c # cs) = (if isAppPath (fst c) \<and> take 1 (tl (fst c)) = [a] then snd c else 0) + app_charge a cs"
  by (simp_all add: service_charge_def app_charge_def)

definition gas_distinct :: "gas_amount \<Rightarrow> bool" where
  "gas_distinct g = distinct (map fst (g_app g))"

lemma merge_foldl:
  assumes "distinct (map fst m2)"
  shows "app_gas (mergeNumericJsObjects m1 m2) a = app_gas m1 a + app_gas m2 a"
  using assms
proof (induction m2 arbitrary: m1)
  case Nil
  then show ?case by (simp add: mergeNumericJsObjects_def app_gas_def)
next
  case (Cons kv m2)
  obtain k v where kv: "kv = (k, v)" by fastforce
  have "mergeNumericJsObjects m1 (kv # m2) = mergeNumericJsObjects (AList.update k (app_gas m1 k + v) m1) m2"
    by (simp add: mergeNumericJsObjects_def kv)
  moreover have "app_gas (AList.update k (app_gas m1 k + v) m1) a = app_gas m1 a + (if a = k then v else 0)"
    by (simp add: app_gas_def)
  moreover have "map_of m2 k = None" using Cons.prems by (simp add: kv map_of_eq_None_iff)
  then have "app_gas (kv # m2) a = (if a = k then v else 0) + app_gas m2 a"
    by (auto simp: app_gas_def kv)
  ultimately show ?case using Cons by simp
qed

lemma merge_distinct: "distinct (map fst m1) \<Longrightarrow> distinct (map fst (mergeNumericJsObjects m1 m2))"
proof (induction m2 arbitrary: m1)
  case (Cons kv m2)
  then show ?case by (cases kv) (simp add: mergeNumericJsObjects_def distinct_update)
qed (simp add: mergeNumericJsObjects_def)

lemma mergeGas_simps [simp]:
  "g_service (mergeGas g1 g2) = g_service g1 + g_service g2"
  "gas_distinct g2 \<Longrightarrow> app_gas (g_app (mergeGas g1 g2)) a = app_gas (g_app g1) a + app_gas (g_app g2) a"
  "gas_distinct g1 \<Longrightarrow> gas_distinct (mergeGas g1 g2)"
  by (simp_all add: mergeGas_def gas_distinct_def merge_foldl merge_distinct)

lemma zero_gas_simps [simp]:
  "g_service zero_gas = 0" "app_gas (g_app zero_gas) a = 0" "gas_distinct zero_gas"
  by (simp_all add: zero_gas_def app_gas_def gas_distinct_def)

lemma single_simps [simp]:
  "g_service (getSingleOpBandwidthGasAmount p v) = (if isAppPath p then 0 else v)"
  "app_gas (g_app (getSingleOpBandwidthGasAmount p v)) a =
     (if isAppPath p \<and> take 1 (tl p) = [a] then v else 0)"
  "gas_distinct (getSingleOpBandwidthGasAmount p v)"
  by (auto simp: getSingleOpBandwidthGasAmount_def gas_distinct_def zero_gas_def app_gas_def split: list.splits)

lemma gas_charges:
  "gas_distinct (getTotalBandwidthGasAmountInternal trig r)
    \<and> g_service (getTotalBandwidthGasAmountInternal trig r) = service_charge (charges trig r)
    \<and> app_gas (g_app (getTotalBandwidthGasAmountInternal trig r)) a = app_charge a (charges trig r)"
  "gas_distinct acc \<Longrightarrow> gas_distinct (funcResultsGas trig fs acc)
    \<and> g_service (funcResultsGas trig fs acc) = g_service acc + service_charge (funcCharges trig fs)
    \<and> app_gas (g_app (funcResultsGas trig fs acc)) a = app_gas (g_app acc) a + app_charge a (funcCharges trig fs)"
  "gas_distinct acc \<Longrightarrow> gas_distinct (opResultsGas os acc)
    \<and> g_service (opResultsGas os acc) = g_service acc + service_charge (opCharges os)
    \<and> app_gas (g_app (opResultsGas os acc)) a = app_gas (g_app acc) a + app_charge a (opCharges os)"
  "gas_distinct acc \<Longrightarrow> gas_distinct (subtreeFuncResultsGas trig st acc)
    \<and> g_service (subtreeFuncResultsGas trig st acc) = g_service acc + service_charge (subtreeCharges trig st)
    \<and> app_gas (g_app (subtreeFuncResultsGas trig st acc)) a = app_gas (g_app acc) a + app_charge a (subtreeCharges trig st)"
  "gas_distinct acc \<Longrightarrow> gas_distinct (funcPathResultGas trig vs acc)
    \<and> g_service (funcPathResultGas trig vs acc) = g_service acc + service_charge (funcPathCharges trig vs)
    \<and> app_gas (g_app (funcPathResultGas trig vs acc)) a = app_gas (g_app acc) a + app_charge a (funcPathCharges trig vs)"
proof (induction trig r and trig fs acc and os acc and trig st acc and trig vs acc
    rule: getTotalBandwidthGasAmountInternal_funcResultsGas_opResultsGas_subtreeFuncResultsGas_funcPathResultGas.induct)
qed simp_all

text \<open>
  No bandwidth gas is lost or charged twice: the service amount of a result is the sum of
  the amounts in its tree whose path is not an app path, and the amount of an app is the sum of
  the amounts whose path lies below that app.
\<close>

theorem bandwidth_gas_conserved:
  assumes "tr_list r = None"
  shows "\<exists>g. getTotalBandwidthGasAmount ref refs (Some r) = Inr g \<and>
    g_service g = service_charge (charges (parsePath ref) (Some r)) \<and>
    (\<forall>a. app_gas (g_app g) a = app_charge a (charges (parsePath ref) (Some r)))"
proof -
  let ?g = "getTotalBandwidthGasAmountInternal (parsePath ref) (Some r)"
  have "gas_distinct ?g \<and> g_service ?g = service_charge (charges (parsePath ref) (Some r))
    \<and> app_gas (g_app ?g) a = app_charge a (charges (parsePath ref) (Some r))" for a
    by (rule gas_charges)
  then show ?thesis using assms by (simp add: getTotalBandwidthGasAmount_def)
qed

theorem bandwidth_gas_conserved_witness:
  "\<exists>g. getTotalBandwidthGasAmount ''/apps/a/x'' [] (Some (TxResult 0 5 [(''f'', FuncResult 0 7 [])] [] None)) = Inr g \<and>
    g_service g = 0 \<and> app_gas (g_app g) ''a'' = 12"
proof -
  let ?r = "TxResult 0 5 [(''f'', FuncResult 0 7 [])] [] None"
  have p: "parsePath ''/apps/a/x'' = [''apps'', ''a'', ''x'']" by (simp add: parsePath_def)
  obtain g where g: "getTotalBandwidthGasAmount ''/apps/a/x'' [] (Some ?r) = Inr g"
    "g_service g = service_charge (charges (parsePath ''/apps/a/x'') (Some ?r))"
    "\<forall>a. app_gas (g_app g) a = app_charge a (charges (parsePath ''/apps/a/x'') (Some ?r))"
    using bandwidth_gas_conserved [of ?r "''/apps/a/x''" "[]"] by auto
  have "app_gas (g_app g) ''a'' = 12" by (simp only: g(3)) (simp add: p isAppPath_def)
  moreover have "g_service g = 0" by (simp only: g(2)) (simp add: p isAppPath_def)
  ultimately show ?thesis using g(1) by blast
qed

end
