(* ===== verification/TxPool.thy ===== *)
theory TxPool
  imports Block TxResult
begin

text \<open>
  \<open>tx-pool/index.js\<close>, the state of the pool: the transactions per address, the tracker of
  transaction infos and the counters, with every operation that changes them. The counters are
  kept incrementally by the code; the invariant \<open>pool_ok\<close> says that they count what is there.
  The calls to the event handler are recorded in \<open>tp_events\<close> when there is one. The pool only
  holds transactions made by \<^const>\<open>create\<close> (\<open>isExecutable\<close>), so the type \<^typ>\<open>transaction\<close>
  stands for that test; the nonce and the timestamp of their bodies are numbers.
\<close>

type_synonym tracked = "(string \<times> jsval) list"

record tx_pool =
  tp_transactions :: "(string \<times> transaction list) list"
  tp_tracker :: "(string \<times> tracked) list"
  tp_txCountTotal :: int
  tp_freeTxCountTotal :: int
  tp_freeTxCountPerAccount :: "(string \<times> int) list"
  tp_has_eh :: bool
  tp_events :: "(string \<times> jsval \<times> string) list"

record pool_config =
  pc_TX_POOL_TIMEOUT_MS :: rat
  pc_TX_TRACKER_TIMEOUT_MS :: rat
  pc_TX_POOL_SIZE_LIMIT :: nat
  pc_FREE_TX_POOL_SIZE_LIMIT_RATIO :: rat
  pc_TX_POOL_SIZE_LIMIT_PER_ACCOUNT :: nat
  pc_FREE_TX_POOL_SIZE_LIMIT_RATIO_PER_ACCOUNT :: rat

text \<open>Reading a number: the fields below are numbers in every valid transaction.\<close>

definition tx_nonce :: "transaction \<Rightarrow> rat" where
  "tx_nonce tx = numberOrZero (prop_get (tx_body tx) ''nonce'')"

definition tx_timestamp :: "transaction \<Rightarrow> rat" where
  "tx_timestamp tx = numberOrZero (prop_get (tx_body tx) ''timestamp'')"

definition tx_created_at :: "transaction \<Rightarrow> rat" where
  "tx_created_at tx = numberOrZero (prop_get (JObj (tx_extra tx)) ''created_at'')"

definition newTransactionPool :: "bool \<Rightarrow> tx_pool" where
  "newTransactionPool eh =
     \<lparr>tp_transactions = [], tp_tracker = [], tp_txCountTotal = 0, tp_freeTxCountTotal = 0,
      tp_freeTxCountPerAccount = [], tp_has_eh = eh, tp_events = []\<rparr>"

definition updateTxList :: "string \<Rightarrow> transaction list \<Rightarrow> tx_pool \<Rightarrow> tx_pool" where
  "updateTxList addr txList p =
     (if length txList = 0
      then p\<lparr>tp_transactions := AList.delete addr (tp_transactions p)\<rparr>
      else p\<lparr>tp_transactions := AList.update addr txList (tp_transactions p)\<rparr>)"

text \<open>
  \<open>txList.filter(this.makeCountUpdateWrapperForFilterFunction(filterFunc))\<close>: the kept
  transactions, with the counters lowered for every dropped one.
\<close>

fun filterAndCount ::
  "(transaction \<Rightarrow> bool) \<Rightarrow> transaction list \<Rightarrow> tx_pool \<Rightarrow> transaction list \<times> tx_pool" where
  "filterAndCount filterFunc [] p = ([], p)"
| "filterAndCount filterFunc (tx # txs) p =
     (if filterFunc tx then
        let (kept, p') = filterAndCount filterFunc txs p in (tx # kept, p')
      else
        let p1 = (if isFreeTransaction tx
                  then p\<lparr>tp_freeTxCountTotal := tp_freeTxCountTotal p - 1\<rparr> else p)
        in filterAndCount filterFunc txs (p1\<lparr>tp_txCountTotal := tp_txCountTotal p1 - 1\<rparr>))"

definition updateFreeTxCountPerAccount :: "string \<Rightarrow> int \<Rightarrow> tx_pool \<Rightarrow> tx_pool" where
  "updateFreeTxCountPerAccount addr change p =
     (let prior = (case map_of (tp_freeTxCountPerAccount p) addr of None \<Rightarrow> 0 | Some c \<Rightarrow> c);
          after = prior + change
      in if after = 0
         then p\<lparr>tp_freeTxCountPerAccount := AList.delete addr (tp_freeTxCountPerAccount p)\<rparr>
         else p\<lparr>tp_freeTxCountPerAccount := AList.update addr after (tp_freeTxCountPerAccount p)\<rparr>)"

definition updateTxListAndCounts ::
  "string \<Rightarrow> transaction list \<Rightarrow> (transaction \<Rightarrow> bool) \<Rightarrow> tx_pool \<Rightarrow> tx_pool" where
  "updateTxListAndCounts addr txList filterFunc p =
     (let freeTxCntTotalBefore = tp_freeTxCountTotal p;
          (txListAfter, p1) = filterAndCount filterFunc txList p;
          freeTxCntTotalAfter = tp_freeTxCountTotal p1
      in updateTxList addr txListAfter
           (updateFreeTxCountPerAccount addr (freeTxCntTotalAfter - freeTxCntTotalBefore) p1))"

text \<open>\<open>Object.assign\<close>\<close>

definition assign :: "tracked \<Rightarrow> tracked \<Rightarrow> tracked" where
  "assign obj new = foldl (\<lambda>o1 kv. AList.update (fst kv) (snd kv) o1) obj new"

definition tracked_of :: "tx_pool \<Rightarrow> string \<Rightarrow> tracked option" where
  "tracked_of p txHash = map_of (tp_tracker p) txHash"

definition updateTransactionInfo :: "string \<Rightarrow> tracked \<Rightarrow> tx_pool \<Rightarrow> tx_pool" where
  "updateTransactionInfo txHash txInfo p =
     (let tracked = (case tracked_of p txHash of None \<Rightarrow> [] | Some t \<Rightarrow> t)
      in p\<lparr>tp_tracker := AList.update txHash (assign tracked txInfo) (tp_tracker p)\<rparr>)"

definition emitTxStateChanged :: "string \<Rightarrow> jsval \<Rightarrow> string \<Rightarrow> tx_pool \<Rightarrow> tx_pool" where
  "emitTxStateChanged txHash prior after p =
     (if tp_has_eh p then p\<lparr>tp_events := tp_events p @ [(txHash, prior, after)]\<rparr> else p)"

definition getPerAccountPoolSize :: "tx_pool \<Rightarrow> string \<Rightarrow> nat" where
  "getPerAccountPoolSize p addr =
     (case map_of (tp_transactions p) addr of None \<Rightarrow> 0 | Some txs \<Rightarrow> length txs)"

definition getPerAccountFreePoolSize :: "tx_pool \<Rightarrow> string \<Rightarrow> int" where
  "getPerAccountFreePoolSize p addr =
     (case map_of (tp_freeTxCountPerAccount p) addr of None \<Rightarrow> 0 | Some c \<Rightarrow> c)"

definition getPoolSize :: "tx_pool \<Rightarrow> int" where
  "getPoolSize p = tp_txCountTotal p"

definition getFreePoolSize :: "tx_pool \<Rightarrow> int" where
  "getFreePoolSize p = tp_freeTxCountTotal p"

definition addTransaction :: "transaction \<Rightarrow> jsval \<Rightarrow> bool \<Rightarrow> tx_pool \<Rightarrow> tx_pool" where
  "addTransaction tx execResult isExecutedTx p =
     (let addr = tx_address tx;
          old = (case map_of (tp_transactions p) addr of None \<Rightarrow> [] | Some txs \<Rightarrow> txs);
          p1 = p\<lparr>tp_transactions := AList.update addr (old @ [tx]) (tp_transactions p)\<rparr>;
          txState = (if isExecutedTx then ''EXECUTED'' else ''PENDING'');
          info = [(''state'', JStr txState), (''number'', JNum (-1)),
                  (''index'', JNum (of_nat (length old))), (''address'', JStr addr),
                  (''timestamp'', prop_get (tx_body tx) ''timestamp''),
                  (''is_executed'', JBool isExecutedTx), (''is_finalized'', JBool False),
                  (''tracked_at'', prop_get (JObj (tx_extra tx)) ''created_at''),
                  (''executed_at'', prop_get (JObj (tx_extra tx)) ''executed_at''),
                  (''finalized_at'', JNum (-1))]
                 @ (if truthy execResult then [(''exec_result'', execResult)] else []);
          p2 = updateTransactionInfo (tx_hash tx) info p1;
          p3 = p2\<lparr>tp_txCountTotal := tp_txCountTotal p2 + 1\<rparr>;
          p4 = (if isFreeTransaction tx
                then updateFreeTxCountPerAccount addr 1
                       (p3\<lparr>tp_freeTxCountTotal := tp_freeTxCountTotal p3 + 1\<rparr>)
                else p3)
      in emitTxStateChanged (tx_hash tx) JNull txState p4)"

subsection \<open>Admission\<close>

definition isTimedOut :: "rat \<Rightarrow> rat \<Rightarrow> rat \<Rightarrow> bool" where
  "isTimedOut txTimestamp lastBlockTimestamp timeout =
     (if lastBlockTimestamp < 0 then False else lastBlockTimestamp \<ge> txTimestamp + timeout)"

definition isTimedOutFromPool :: "pool_config \<Rightarrow> rat \<Rightarrow> rat \<Rightarrow> bool" where
  "isTimedOutFromPool cfg txTimestamp lastBlockTimestamp =
     isTimedOut txTimestamp lastBlockTimestamp (pc_TX_POOL_TIMEOUT_MS cfg)"

definition isTimedOutFromTracker :: "pool_config \<Rightarrow> rat \<Rightarrow> rat \<Rightarrow> bool" where
  "isTimedOutFromTracker cfg txTimestamp lastBlockTimestamp =
     isTimedOut txTimestamp lastBlockTimestamp (pc_TX_TRACKER_TIMEOUT_MS cfg)"

definition hasRoom :: "pool_config \<Rightarrow> tx_pool \<Rightarrow> bool" where
  "hasRoom cfg p = (getPoolSize p < int (pc_TX_POOL_SIZE_LIMIT cfg))"

definition hasFreeRoom :: "pool_config \<Rightarrow> tx_pool \<Rightarrow> bool" where
  "hasFreeRoom cfg p =
     (getFreePoolSize p < \<lfloor>of_nat (pc_TX_POOL_SIZE_LIMIT cfg) * pc_FREE_TX_POOL_SIZE_LIMIT_RATIO cfg\<rfloor>)"

definition hasPerAccountRoom :: "pool_config \<Rightarrow> tx_pool \<Rightarrow> string \<Rightarrow> bool" where
  "hasPerAccountRoom cfg p addr = (getPerAccountPoolSize p addr < pc_TX_POOL_SIZE_LIMIT_PER_ACCOUNT cfg)"

definition hasPerAccountFreeRoom :: "pool_config \<Rightarrow> tx_pool \<Rightarrow> string \<Rightarrow> bool" where
  "hasPerAccountFreeRoom cfg p addr =
     (getPerAccountFreePoolSize p addr
        < \<lfloor>of_nat (pc_TX_POOL_SIZE_LIMIT_PER_ACCOUNT cfg) * pc_FREE_TX_POOL_SIZE_LIMIT_RATIO_PER_ACCOUNT cfg\<rfloor>)"

definition isNotEligibleTransaction :: "tx_pool \<Rightarrow> transaction \<Rightarrow> bool" where
  "isNotEligibleTransaction p tx =
     ((case map_of (tp_transactions p) (tx_address tx) of
         None \<Rightarrow> False
       | Some txs \<Rightarrow> list_ex (\<lambda>t. tx_hash t = tx_hash tx) txs)
      \<or> tracked_of p (tx_hash tx) \<noteq> None)"

subsection \<open>Removal\<close>

definition isTxInBlock :: "jsval \<Rightarrow> bool" where
  "isTxInBlock state = (state \<in> {JStr ''FINALIZED'', JStr ''IN_BLOCK'', JStr ''REVERTED''})"

text \<open>\<open>_.get(tracked, 'state', null)\<close>\<close>

definition before_state :: "tx_pool \<Rightarrow> string \<Rightarrow> jsval" where
  "before_state p txHash =
     (case tracked_of p txHash of
        None \<Rightarrow> JNull
      | Some t \<Rightarrow> (case map_of t ''state'' of None \<Rightarrow> JNull | Some s \<Rightarrow> s))"

text \<open>The tracker update and the event shared by the removals of timed-out and invalid transactions.\<close>

definition markRemoved :: "string \<Rightarrow> string \<Rightarrow> tx_pool \<Rightarrow> tx_pool" where
  "markRemoved txHash newState p =
     (let beforeState = before_state p txHash;
          p1 = (case tracked_of p txHash of
                  None \<Rightarrow> p
                | Some t \<Rightarrow>
                    if isTxInBlock beforeState then p
                    else p\<lparr>tp_tracker :=
                             AList.update txHash (AList.update ''state'' (JStr newState) t) (tp_tracker p)\<rparr>)
      in emitTxStateChanged txHash beforeState newState p1)"

definition removeTimedOutTxsFromPool :: "pool_config \<Rightarrow> rat \<Rightarrow> tx_pool \<Rightarrow> tx_pool \<times> bool" where
  "removeTimedOutTxsFromPool cfg blockTimestamp p =
     (let out = (\<lambda>tx. isTimedOutFromPool cfg (tx_created_at tx) blockTimestamp);
          p' = foldl (\<lambda>q (addr, txList).
                  updateTxListAndCounts addr txList (\<lambda>tx. \<not> out tx)
                    (foldl (\<lambda>q tx. if out tx then markRemoved (tx_hash tx) ''TIMED_OUT'' q else q) q txList))
                p (tp_transactions p)
      in (p', tp_txCountTotal p > tp_txCountTotal p'))"

definition removeTimedOutTxsFromTracker :: "pool_config \<Rightarrow> rat \<Rightarrow> tx_pool \<Rightarrow> tx_pool \<times> bool" where
  "removeTimedOutTxsFromTracker cfg blockTimestamp p =
     (let out = (\<lambda>(h, t). isTimedOutFromTracker cfg (numberOrZero (prop_get (JObj t) ''tracked_at'')) blockTimestamp)
      in (p\<lparr>tp_tracker := filter (\<lambda>e. \<not> out e) (tp_tracker p)\<rparr>, list_ex out (tp_tracker p)))"

text \<open>The map from addresses to the hashes to drop.\<close>

definition groupHashes :: "transaction list \<Rightarrow> (string \<times> string list) list" where
  "groupHashes txs =
     foldl (\<lambda>m tx. AList.update (tx_address tx)
              (set_add (tx_hash tx) (case map_of m (tx_address tx) of None \<Rightarrow> [] | Some hs \<Rightarrow> hs)) m)
       [] txs"

definition removeInvalidTxsFromPool :: "transaction list \<Rightarrow> tx_pool \<Rightarrow> tx_pool" where
  "removeInvalidTxsFromPool txs p =
     foldl (\<lambda>q (addr, invalidTxSet).
              case map_of (tp_transactions q) addr of
                None \<Rightarrow> q
              | Some txList \<Rightarrow> updateTxListAndCounts addr txList (\<lambda>tx. tx_hash tx \<notin> set invalidTxSet) q)
       (foldl (\<lambda>q tx. markRemoved (tx_hash tx) ''FAILED'' q) p txs)
       (groupHashes txs)"

definition keepTx :: "string list \<Rightarrow> (string \<times> rat) list \<Rightarrow> (string \<times> rat) list \<Rightarrow> string \<Rightarrow> transaction \<Rightarrow> bool" where
  "keepTx txHashSet addrToNonce addrToTimestamp addr tx =
     (if (case map_of addrToNonce addr of
            None \<Rightarrow> False | Some lastNonce \<Rightarrow> tx_nonce tx \<ge> 0 \<and> tx_nonce tx \<le> lastNonce) then False
      else if (case map_of addrToTimestamp addr of
            None \<Rightarrow> False | Some lastTimestamp \<Rightarrow> tx_nonce tx = -2 \<and> tx_timestamp tx \<le> lastTimestamp) then False
      else tx_hash tx \<notin> set txHashSet)"

definition updateTxPoolWithTxHashSet ::
  "string list \<Rightarrow> (string \<times> rat) list \<Rightarrow> (string \<times> rat) list \<Rightarrow> tx_pool \<Rightarrow> tx_pool" where
  "updateTxPoolWithTxHashSet txHashSet addrToNonce addrToTimestamp p =
     foldl (\<lambda>q (addr, txList).
              updateTxListAndCounts addr txList (keepTx txHashSet addrToNonce addrToTimestamp addr) q)
       p (tp_transactions p)"

subsection \<open>Cleaning up after a block\<close>

definition addEvidenceTxsToTxHashSet :: "string list \<Rightarrow> (string \<times> evidence list) list \<Rightarrow> string list" where
  "addEvidenceTxsToTxHashSet txHashSet evs =
     foldl (\<lambda>hs (addr, evidenceList).
       foldl (\<lambda>hs evidenceForOffense.
         foldl (\<lambda>hs tx. set_add (tx_hash tx) hs)
           (foldl (\<lambda>hs tx. set_add (tx_hash tx) hs) hs (ev_transactions evidenceForOffense))
           (ev_votes evidenceForOffense))
         hs evidenceList)
       txHashSet evs"

definition cleanUpConsensusTxs :: "block option \<Rightarrow> transaction list \<Rightarrow> tx_pool \<Rightarrow> tx_pool" where
  "cleanUpConsensusTxs blk additionalVotes p =
     (let hs = (case blk of
                  None \<Rightarrow> []
                | Some b \<Rightarrow> addEvidenceTxsToTxHashSet
                              (foldl (\<lambda>hs tx. set_add (tx_hash tx) hs) [] (b_last_votes b)) (b_evidence b))
      in updateTxPoolWithTxHashSet (foldl (\<lambda>hs tx. set_add (tx_hash tx) hs) hs additionalVotes) [] [] p)"

text \<open>The tracker entry and the event of a transaction of a finalized block.\<close>

definition finalizedInfo :: "string \<Rightarrow> int \<Rightarrow> int \<Rightarrow> transaction \<Rightarrow> rat \<Rightarrow> tracked" where
  "finalizedInfo txState number index tx finalizedAt =
     [(''state'', JStr txState), (''number'', JNum (of_int number)), (''index'', JNum (of_int index)),
      (''address'', JStr (tx_address tx)), (''timestamp'', prop_get (tx_body tx) ''timestamp''),
      (''is_executed'', JBool True), (''is_finalized'', JBool True),
      (''tracked_at'', JNum finalizedAt), (''finalized_at'', JNum finalizedAt)]"

definition markFinalized :: "string \<Rightarrow> int \<Rightarrow> int \<Rightarrow> rat \<Rightarrow> transaction \<Rightarrow> tx_pool \<Rightarrow> tx_pool" where
  "markFinalized txState number index finalizedAt tx p =
     emitTxStateChanged (tx_hash tx) (before_state p (tx_hash tx)) txState
       (updateTransactionInfo (tx_hash tx) (finalizedInfo txState number index tx finalizedAt) p)"

definition raiseNonce :: "transaction \<Rightarrow> (string \<times> rat) list \<Rightarrow> (string \<times> rat) list" where
  "raiseNonce tx addrToNonce =
     (let lastNonce = map_of addrToNonce (tx_address tx)
      in if tx_nonce tx \<ge> 0 \<and> (case lastNonce of None \<Rightarrow> True | Some n \<Rightarrow> tx_nonce tx > n)
         then AList.update (tx_address tx) (tx_nonce tx) addrToNonce else addrToNonce)"

definition raiseTimestamp :: "transaction \<Rightarrow> (string \<times> rat) list \<Rightarrow> (string \<times> rat) list" where
  "raiseTimestamp tx addrToTimestamp =
     (let lastTimestamp = map_of addrToTimestamp (tx_address tx)
      in if tx_nonce tx = -2 \<and> (case lastTimestamp of None \<Rightarrow> True | Some t \<Rightarrow> tx_timestamp tx > t)
         then AList.update (tx_address tx) (tx_timestamp tx) addrToTimestamp else addrToTimestamp)"

text \<open>
  \<open>receipts\<close> are the receipts of the block read as result trees; \<open>finalizedAt\<close> is \<open>Date.now()\<close>.
\<close>

definition receiptState :: "tx_result option list \<Rightarrow> nat \<Rightarrow> string" where
  "receiptState receipts i =
     (if isFailedTx (if i < length receipts then receipts ! i else None) then ''REVERTED'' else ''FINALIZED'')"

definition cleanUpForFinalizedBlock ::
  "pool_config \<Rightarrow> rat \<Rightarrow> tx_result option list \<Rightarrow> block \<Rightarrow> tx_pool \<Rightarrow> tx_pool" where
  "cleanUpForFinalizedBlock cfg finalizedAt receipts b p =
     (let (p1, inBlockTxs1) =
            foldl (\<lambda>(q, hs) voteTx.
                (markFinalized ''FINALIZED'' (b_number b) (-1) finalizedAt voteTx q, set_add (tx_hash voteTx) hs))
              (p, []) (b_last_votes b);
          inBlockTxs2 = addEvidenceTxsToTxHashSet inBlockTxs1 (b_evidence b);
          (p2, inBlockTxs, addrToNonce, addrToTimestamp) =
            foldl (\<lambda>(q, hs, ns, ts) (i, tx).
                (markFinalized (receiptState receipts i) (b_number b) (int i) finalizedAt tx q,
                 set_add (tx_hash tx) hs, raiseNonce tx ns, raiseTimestamp tx ts))
              (p1, inBlockTxs2, [], []) (enumerate 0 (b_transactions b));
          p3 = updateTxPoolWithTxHashSet inBlockTxs addrToNonce addrToTimestamp p2;
          p4 = fst (removeTimedOutTxsFromTracker cfg (b_timestamp b) p3)
      in fst (removeTimedOutTxsFromPool cfg (b_timestamp b) p4))"

end
