(* ===== verification/TxPoolInv.thy ===== *)
theory TxPoolInv
  imports TxPool
begin

text \<open>
  The invariant of the transaction pool: the incrementally kept counters agree with the lists.
  Every operation of \<open>TxPool\<close> is described by its effect on the lists of the addresses and is
  shown to keep the invariant, for single operations and for every history of the pool.
\<close>

subsection \<open>Sums over the lists\<close>

definition txs_of :: "(string \<times> transaction list) list \<Rightarrow> string \<Rightarrow> transaction list" where
  "txs_of ts a = (case map_of ts a of None \<Rightarrow> [] | Some l \<Rightarrow> l)"

definition asum :: "(transaction list \<Rightarrow> int) \<Rightarrow> (string \<times> transaction list) list \<Rightarrow> int" where
  "asum f ts = (\<Sum>e\<leftarrow>ts. f (snd e))"

definition n_free :: "transaction list \<Rightarrow> int" where
  "n_free l = int (length (filter isFreeTransaction l))"

lemma asum_simps [simp]: "asum f [] = 0" "asum f (e # ts) = f (snd e) + asum f ts"
  by (simp_all add: asum_def)

lemma n_free_simps [simp]: "n_free [] = 0" "n_free (t # l) = (if isFreeTransaction t then 1 else 0) + n_free l"
  "n_free (l @ l') = n_free l + n_free l'"
  by (simp_all add: n_free_def)

lemma n_free_ge0: "n_free l \<ge> 0" by (simp add: n_free_def)

lemma txs_of_simps [simp]:
  "txs_of [] a = []"
  "txs_of ((b, l) # ts) a = (if a = b then l else txs_of ts a)"
  "txs_of (AList.update b l ts) a = (if a = b then l else txs_of ts a)"
  "txs_of (AList.delete b ts) a = (if a = b then [] else txs_of ts a)"
  by (auto simp: txs_of_def update_conv' delete_conv')

lemma txs_of_member: "distinct (map fst ts) \<Longrightarrow> (a, l) \<in> set ts \<Longrightarrow> txs_of ts a = l"
  by (simp add: txs_of_def)

lemma txs_of_None: "a \<notin> fst ` set ts \<Longrightarrow> txs_of ts a = []"
  by (simp add: txs_of_def map_of_eq_None_iff [symmetric])

lemma asum_update:
  "distinct (map fst ts) \<Longrightarrow> f [] = 0 \<Longrightarrow> asum f (AList.update a l ts) = asum f ts - f (txs_of ts a) + f l"
  by (induction ts) (auto simp: txs_of_None)

lemma asum_delete:
  "distinct (map fst ts) \<Longrightarrow> f [] = 0 \<Longrightarrow> asum f (AList.delete a ts) = asum f ts - f (txs_of ts a)"
  by (induction ts) (auto simp: txs_of_None delete_fresh)

subsection \<open>The invariant\<close>

definition pool_ok :: "tx_pool \<Rightarrow> bool" where
  "pool_ok p \<longleftrightarrow>
     distinct (map fst (tp_transactions p)) \<and>
     (\<forall>(a, l)\<in>set (tp_transactions p). l \<noteq> [] \<and> (\<forall>tx\<in>set l. tx_address tx = a)) \<and>
     tp_txCountTotal p = asum (\<lambda>l. int (length l)) (tp_transactions p) \<and>
     tp_freeTxCountTotal p = asum n_free (tp_transactions p) \<and>
     map_of (tp_freeTxCountPerAccount p) =
       (\<lambda>a. let n = n_free (txs_of (tp_transactions p) a) in if n = 0 then None else Some n)"

abbreviation pool_txs :: "tx_pool \<Rightarrow> string \<Rightarrow> transaction list" where
  "pool_txs p a \<equiv> txs_of (tp_transactions p) a"

lemma pool_ok_new [simp]: "pool_ok (newTransactionPool eh)"
  by (simp add: pool_ok_def newTransactionPool_def fun_eq_iff)

text \<open>Operations that only touch the tracker and the events.\<close>

definition same_lists :: "tx_pool \<Rightarrow> tx_pool \<Rightarrow> bool" where
  "same_lists p q \<longleftrightarrow> tp_transactions q = tp_transactions p \<and> tp_txCountTotal q = tp_txCountTotal p \<and>
     tp_freeTxCountTotal q = tp_freeTxCountTotal p \<and>
     map_of (tp_freeTxCountPerAccount q) = map_of (tp_freeTxCountPerAccount p)"

lemma same_lists_ok: "same_lists p q \<Longrightarrow> pool_ok q = pool_ok p"
  by (simp add: same_lists_def pool_ok_def)

lemma same_lists_refl [simp, intro]: "same_lists p p" by (simp add: same_lists_def)

lemma same_lists_trans: "same_lists p q \<Longrightarrow> same_lists q r \<Longrightarrow> same_lists p r" by (simp add: same_lists_def)

lemma same_lists_foldl: "(\<And>q x. same_lists q (f q x)) \<Longrightarrow> same_lists p (foldl f p xs)"
  by (induction xs arbitrary: p) (auto intro: same_lists_trans)

lemma same_lists_ops [simp, intro]:
  "same_lists p (updateTransactionInfo h info p)"
  "same_lists p (emitTxStateChanged h s s' p)"
  "same_lists p (fst (removeTimedOutTxsFromTracker cfg t p))"
  by (simp_all add: same_lists_def updateTransactionInfo_def emitTxStateChanged_def
      removeTimedOutTxsFromTracker_def Let_def split: if_splits)

lemma same_lists_mark [simp, intro]:
  "same_lists p (markRemoved h s p)"
  "same_lists p (markFinalized s n i f tx p)"
proof -
  show "same_lists p (markRemoved h s p)"
    by (simp add: same_lists_def markRemoved_def emitTxStateChanged_def Let_def split: option.splits)
  show "same_lists p (markFinalized s n i f tx p)"
    unfolding markFinalized_def by (rule same_lists_trans [OF same_lists_ops(1) same_lists_ops(2)])
qed

subsection \<open>Filtering one list\<close>

lemma filterAndCount_effect:
  "filterAndCount F l p =
     (filter F l, p\<lparr>tp_txCountTotal := tp_txCountTotal p - int (length l) + int (length (filter F l)),
                   tp_freeTxCountTotal := tp_freeTxCountTotal p - n_free l + n_free (filter F l)\<rparr>)"
  by (induction l arbitrary: p) (auto simp: Let_def split: prod.splits)

text \<open>Replacing the list of one address and adjusting its counts.\<close>

definition put_txs :: "string \<Rightarrow> transaction list \<Rightarrow> tx_pool \<Rightarrow> tx_pool" where
  "put_txs a l p =
     updateTxList a l
       (updateFreeTxCountPerAccount a (n_free l - n_free (pool_txs p a))
         (p\<lparr>tp_txCountTotal := tp_txCountTotal p - int (length (pool_txs p a)) + int (length l),
            tp_freeTxCountTotal := tp_freeTxCountTotal p - n_free (pool_txs p a) + n_free l\<rparr>))"

lemma put_txs_transactions:
  "tp_transactions (put_txs a l p) =
     (if l = [] then AList.delete a (tp_transactions p) else AList.update a l (tp_transactions p))"
  by (simp add: put_txs_def updateTxList_def updateFreeTxCountPerAccount_def Let_def)

lemma put_txs_pool_txs [simp]: "pool_txs (put_txs a l p) b = (if b = a then l else pool_txs p b)"
  by (simp add: put_txs_transactions)

lemma free_count: "pool_ok p \<Longrightarrow>
  (case map_of (tp_freeTxCountPerAccount p) a of None \<Rightarrow> 0 | Some c \<Rightarrow> c) = n_free (pool_txs p a)"
  by (simp add: pool_ok_def Let_def)

lemma free_count_Some: "pool_ok p \<Longrightarrow> map_of (tp_freeTxCountPerAccount p) a \<noteq> Some 0"
  by (simp add: pool_ok_def Let_def)

lemma put_txs_per_account:
  assumes "pool_ok p"
  shows "map_of (tp_freeTxCountPerAccount (put_txs a l p)) =
    (\<lambda>b. let n = n_free (pool_txs (put_txs a l p) b) in if n = 0 then None else Some n)"
proof -
  have "map_of (tp_freeTxCountPerAccount p) b =
      (if n_free (pool_txs p b) = 0 then None else Some (n_free (pool_txs p b)))" for b
    using assms by (simp add: pool_ok_def Let_def)
  then show ?thesis
    by (auto simp: put_txs_def updateTxList_def updateFreeTxCountPerAccount_def Let_def fun_eq_iff
        free_count [OF assms] update_conv' delete_conv')
qed

lemma put_txs_ok:
  assumes ok: "pool_ok p" and l: "\<forall>tx\<in>set l. tx_address tx = a"
  shows "pool_ok (put_txs a l p)"
proof -
  have d: "distinct (map fst (tp_transactions p))" using ok by (simp add: pool_ok_def)
  have c: "tp_txCountTotal (put_txs a l p) = tp_txCountTotal p - int (length (pool_txs p a)) + int (length l)"
    "tp_freeTxCountTotal (put_txs a l p) = tp_freeTxCountTotal p - n_free (pool_txs p a) + n_free l"
    by (simp_all add: put_txs_def updateTxList_def updateFreeTxCountPerAccount_def Let_def)
  have m: "(b, k) \<in> set (tp_transactions (put_txs a l p)) \<Longrightarrow> k \<noteq> [] \<and> (\<forall>tx\<in>set k. tx_address tx = b)" for b k
    using ok l mem_update [of b k a l "tp_transactions p"]
    by (auto simp: pool_ok_def put_txs_transactions AList.delete_eq split: if_splits)
  have "distinct (map fst (tp_transactions (put_txs a l p)))"
    using d by (simp add: put_txs_transactions distinct_update distinct_delete)
  moreover have "tp_txCountTotal (put_txs a l p) = asum (\<lambda>l. int (length l)) (tp_transactions (put_txs a l p))"
    "tp_freeTxCountTotal (put_txs a l p) = asum n_free (tp_transactions (put_txs a l p))"
    using ok by (simp_all add: c put_txs_transactions asum_update [OF d] asum_delete [OF d] pool_ok_def)
  ultimately show ?thesis
    using m put_txs_per_account [OF ok, of a l] unfolding pool_ok_def by blast
qed

lemma updateTxListAndCounts_effect:
  assumes "l = pool_txs p a"
  shows "updateTxListAndCounts a l F p = put_txs a (filter F l) p"
  unfolding updateTxListAndCounts_def filterAndCount_effect put_txs_def assms [symmetric] Let_def
  by simp

lemma pool_txs_address: "pool_ok p \<Longrightarrow> tx \<in> set (pool_txs p a) \<Longrightarrow> tx_address tx = a"
  by (auto simp: pool_ok_def txs_of_def split: option.splits dest!: map_of_SomeD)

lemma updateTxListAndCounts_ok:
  "pool_ok p \<Longrightarrow> l = pool_txs p a \<Longrightarrow> pool_ok (updateTxListAndCounts a l F p)"
  by (simp add: updateTxListAndCounts_effect put_txs_ok pool_txs_address)

lemma updateTxListAndCounts_pool_txs:
  "l = pool_txs p a \<Longrightarrow>
    pool_txs (updateTxListAndCounts a l F p) b = (if b = a then filter F (pool_txs p a) else pool_txs p b)"
  by (simp add: updateTxListAndCounts_effect)

subsection \<open>Filtering every list\<close>

lemma filter_all_lists:
  assumes ok: "pool_ok p" and same: "\<And>q l. same_lists q (M q l)"
  shows "pool_ok (foldl (\<lambda>q (a, l). updateTxListAndCounts a l (F a) (M q l)) p (tp_transactions p))
    \<and> pool_txs (foldl (\<lambda>q (a, l). updateTxListAndCounts a l (F a) (M q l)) p (tp_transactions p)) b
      = filter (F b) (pool_txs p b)"
proof -
  have step: "pool_ok q \<Longrightarrow> l = pool_txs q a \<Longrightarrow> pool_ok (updateTxListAndCounts a l (F a) (M q l)) \<and>
      pool_txs (updateTxListAndCounts a l (F a) (M q l)) b = (if b = a then filter (F a) (pool_txs q a) else pool_txs q b)"
    for q a l b
    using updateTxListAndCounts_ok [of "M q l" l a "F a"] updateTxListAndCounts_pool_txs [of l "M q l" a "F a" b]
      same [of q l] same_lists_ok [OF same [of q l]]
    by (simp add: same_lists_def)
  have "distinct (map fst ts) \<Longrightarrow> pool_ok q \<Longrightarrow> (\<forall>(a, l)\<in>set ts. l = pool_txs q a) \<Longrightarrow>
      pool_ok (foldl (\<lambda>q (a, l). updateTxListAndCounts a l (F a) (M q l)) q ts)
      \<and> pool_txs (foldl (\<lambda>q (a, l). updateTxListAndCounts a l (F a) (M q l)) q ts) b
        = (if b \<in> fst ` set ts then filter (F b) (pool_txs q b) else pool_txs q b)" for ts q
  proof (induction ts arbitrary: q)
    case (Cons e ts)
    obtain a l where e: "e = (a, l)" by fastforce
    let ?q = "updateTxListAndCounts a l (F a) (M q l)"
    have s: "pool_ok ?q" "\<And>b. pool_txs ?q b = (if b = a then filter (F a) (pool_txs q a) else pool_txs q b)"
      using step [of q l a] Cons.prems by (simp_all add: e)
    have "\<forall>(a', l')\<in>set ts. l' = pool_txs ?q a'"
    proof (intro ballI, clarify)
      fix a' l'
      assume m: "(a', l') \<in> set ts"
      then have "a' \<noteq> a" using Cons.prems(1) by (force simp: e)
      then show "l' = pool_txs ?q a'" using Cons.prems(3) m by (auto simp: s(2))
    qed
    then show ?case using Cons.IH [of ?q] Cons.prems s by (auto simp: e)
  qed simp
  note loop = this
  have d: "distinct (map fst (tp_transactions p))" using ok by (simp add: pool_ok_def)
  have "\<forall>(a, l)\<in>set (tp_transactions p). l = pool_txs p a"
    using txs_of_member [OF d] by fastforce
  note r = loop [OF d ok this]
  show ?thesis
  proof (cases "b \<in> fst ` set (tp_transactions p)")
    case False
    then show ?thesis using r txs_of_None [OF False] by simp
  qed (use r in simp)
qed

subsection \<open>The operations\<close>

lemma addTransaction_effect:
  assumes ok: "pool_ok p"
  shows "pool_ok (addTransaction tx r e p)"
    and "pool_txs (addTransaction tx r e p) b = pool_txs p b @ (if b = tx_address tx then [tx] else [])"
proof -
  let ?l = "pool_txs p (tx_address tx) @ [tx]"
  have "same_lists (put_txs (tx_address tx) ?l p) (addTransaction tx r e p)"
    using free_count [OF ok, of "tx_address tx"] free_count_Some [OF ok, of "tx_address tx"]
    by (auto simp: same_lists_def put_txs_def updateTxList_def updateFreeTxCountPerAccount_def Let_def
        addTransaction_def emitTxStateChanged_def updateTransactionInfo_def txs_of_def fun_eq_iff
        update_conv' delete_conv' split: option.splits)
  then show "pool_ok (addTransaction tx r e p)"
    "pool_txs (addTransaction tx r e p) b = pool_txs p b @ (if b = tx_address tx then [tx] else [])"
    using put_txs_ok [OF ok, of ?l] pool_txs_address [OF ok] put_txs_pool_txs [of "tx_address tx" ?l p b]
    by (auto simp: same_lists_ok) (auto simp: same_lists_def)
qed

lemma removeTimedOutTxsFromPool_effect:
  assumes "pool_ok p"
  shows "pool_ok (fst (removeTimedOutTxsFromPool cfg t p))"
    and "pool_txs (fst (removeTimedOutTxsFromPool cfg t p)) b =
      filter (\<lambda>tx. \<not> isTimedOutFromPool cfg (tx_created_at tx) t) (pool_txs p b)"
  unfolding removeTimedOutTxsFromPool_def Let_def fst_conv
  using filter_all_lists [OF assms,
      where F = "\<lambda>a tx. \<not> isTimedOutFromPool cfg (tx_created_at tx) t" and b = b
        and M = "\<lambda>q l. foldl (\<lambda>q tx. if isTimedOutFromPool cfg (tx_created_at tx) t
                       then markRemoved (tx_hash tx) ''TIMED_OUT'' q else q) q l"]
  by (simp_all add: same_lists_foldl)

lemma updateTxPoolWithTxHashSet_effect:
  assumes "pool_ok p"
  shows "pool_ok (updateTxPoolWithTxHashSet hs ns ts p)"
    and "pool_txs (updateTxPoolWithTxHashSet hs ns ts p) b = filter (keepTx hs ns ts b) (pool_txs p b)"
  unfolding updateTxPoolWithTxHashSet_def
  using filter_all_lists [OF assms, where F = "keepTx hs ns ts" and b = b and M = "\<lambda>q l. q"] by simp_all

lemma same_lists_effect:
  assumes "same_lists p q"
  shows "pool_ok p \<Longrightarrow> pool_ok q" and "pool_txs q b = pool_txs p b"
  using same_lists_ok [OF assms] assms by (simp_all add: same_lists_def)

lemma groupHashes_snoc:
  "groupHashes (txs @ [tx]) = AList.update (tx_address tx)
     (set_add (tx_hash tx) (case map_of (groupHashes txs) (tx_address tx) of None \<Rightarrow> [] | Some hs \<Rightarrow> hs))
     (groupHashes txs)"
  by (simp add: groupHashes_def)

lemma groupHashes_facts:
  "distinct (map fst (groupHashes txs)) \<and>
   (map_of (groupHashes txs) a = None \<longrightarrow> (\<forall>tx\<in>set txs. tx_address tx \<noteq> a)) \<and>
   (\<forall>hs. map_of (groupHashes txs) a = Some hs \<longrightarrow> set hs = tx_hash ` {tx \<in> set txs. tx_address tx = a})"
proof (induction txs rule: rev_induct)
  case (snoc tx txs)
  then show ?case
    by (cases "tx_address tx = a"; cases "map_of (groupHashes txs) a")
      (auto simp: groupHashes_snoc distinct_update update_conv' set_add_def)
qed (simp add: groupHashes_def)

lemma filter_groups:
  assumes "distinct (map fst gs)" and "pool_ok p"
  shows "pool_ok (foldl (\<lambda>q (a, hs). case map_of (tp_transactions q) a of None \<Rightarrow> q
             | Some l \<Rightarrow> updateTxListAndCounts a l (\<lambda>tx. tx_hash tx \<notin> set hs) q) p gs)
    \<and> pool_txs (foldl (\<lambda>q (a, hs). case map_of (tp_transactions q) a of None \<Rightarrow> q
             | Some l \<Rightarrow> updateTxListAndCounts a l (\<lambda>tx. tx_hash tx \<notin> set hs) q) p gs) b
      = filter (\<lambda>tx. case map_of gs b of None \<Rightarrow> True | Some hs \<Rightarrow> tx_hash tx \<notin> set hs) (pool_txs p b)"
  using assms
proof (induction gs arbitrary: p)
  case (Cons g gs)
  obtain a hs where g: "g = (a, hs)" by fastforce
  let ?q = "case map_of (tp_transactions p) a of None \<Rightarrow> p
      | Some l \<Rightarrow> updateTxListAndCounts a l (\<lambda>tx. tx_hash tx \<notin> set hs) p"
  have q: "pool_ok ?q \<and> (\<forall>b. pool_txs ?q b =
      (if b = a then filter (\<lambda>tx. tx_hash tx \<notin> set hs) (pool_txs p a) else pool_txs p b))"
  proof (cases "map_of (tp_transactions p) a")
    case None
    then show ?thesis using Cons.prems by (simp add: txs_of_def)
  next
    case (Some l)
    then have "l = pool_txs p a" by (simp add: txs_of_def)
    then show ?thesis
      using Some updateTxListAndCounts_ok [OF Cons.prems(2)] updateTxListAndCounts_pool_txs by simp
  qed
  have "map_of gs a = None" using Cons.prems by (simp add: g map_of_eq_None_iff)
  then show ?case using Cons.IH [of ?q] Cons.prems q by (simp add: g)
qed simp

lemma removeInvalidTxsFromPool_effect:
  assumes "pool_ok p"
  shows "pool_ok (removeInvalidTxsFromPool txs p)"
    and "pool_txs (removeInvalidTxsFromPool txs p) b =
      filter (\<lambda>tx. \<forall>u\<in>set txs. tx_address u = b \<longrightarrow> tx_hash u \<noteq> tx_hash tx) (pool_txs p b)"
proof -
  let ?p = "foldl (\<lambda>q tx. markRemoved (tx_hash tx) ''FAILED'' q) p txs"
  have s: "same_lists p ?p" by (rule same_lists_foldl) simp
  note r = filter_groups [of "groupHashes txs" ?p b] groupHashes_facts [of txs b] same_lists_effect [OF s]
  show "pool_ok (removeInvalidTxsFromPool txs p)"
    using r assms by (simp add: removeInvalidTxsFromPool_def)
  have e: "pool_txs (removeInvalidTxsFromPool txs p) b = filter (\<lambda>tx. case map_of (groupHashes txs) b of
      None \<Rightarrow> True | Some hs \<Rightarrow> tx_hash tx \<notin> set hs) (pool_txs p b)"
    using r assms by (simp add: removeInvalidTxsFromPool_def)
  show "pool_txs (removeInvalidTxsFromPool txs p) b =
      filter (\<lambda>tx. \<forall>u\<in>set txs. tx_address u = b \<longrightarrow> tx_hash u \<noteq> tx_hash tx) (pool_txs p b)"
    unfolding e
  proof (cases "map_of (groupHashes txs) b")
    case (Some hs)
    then have "set hs = tx_hash ` {u \<in> set txs. tx_address u = b}" using groupHashes_facts [of txs b] by blast
    then have "(\<lambda>tx. case map_of (groupHashes txs) b of None \<Rightarrow> True | Some hs \<Rightarrow> tx_hash tx \<notin> set hs)
        = (\<lambda>tx. \<forall>u\<in>set txs. tx_address u = b \<longrightarrow> tx_hash u \<noteq> tx_hash tx)"
      by (intro ext) (auto simp: Some image_iff)
    then show "filter (\<lambda>tx. case map_of (groupHashes txs) b of None \<Rightarrow> True | Some hs \<Rightarrow> tx_hash tx \<notin> set hs)
        (pool_txs p b) = filter (\<lambda>tx. \<forall>u\<in>set txs. tx_address u = b \<longrightarrow> tx_hash u \<noteq> tx_hash tx) (pool_txs p b)"
      by (rule arg_cong)
  qed (use groupHashes_facts [of txs b] in simp)
qed

subsection \<open>Finalized blocks\<close>

lemma set_add_foldl [simp]: "set (foldl (\<lambda>hs tx. set_add (tx_hash tx) hs) hs txs) = set hs \<union> tx_hash ` set txs"
  by (induction txs arbitrary: hs) auto

definition evidence_txs :: "(string \<times> evidence list) list \<Rightarrow> transaction set" where
  "evidence_txs evs = (\<Union>(a, es)\<in>set evs. \<Union>e\<in>set es. set (ev_transactions e) \<union> set (ev_votes e))"

lemma addEvidence_set: "set (addEvidenceTxsToTxHashSet hs evs) = set hs \<union> tx_hash ` evidence_txs evs"
proof -
  have es: "set (foldl (\<lambda>hs e. foldl (\<lambda>hs tx. set_add (tx_hash tx) hs)
      (foldl (\<lambda>hs tx. set_add (tx_hash tx) hs) hs (ev_transactions e)) (ev_votes e)) hs es)
    = set hs \<union> tx_hash ` (\<Union>e\<in>set es. set (ev_transactions e) \<union> set (ev_votes e))" for hs es
    by (induction es arbitrary: hs) auto
  show ?thesis
    unfolding addEvidenceTxsToTxHashSet_def evidence_txs_def
  proof (induction evs arbitrary: hs)
    case (Cons x evs)
    then show ?case by (cases x) (simp add: es image_Un Un_assoc)
  qed simp
qed

text \<open>The highest numbered nonce, and the highest timestamp of an ordered transaction, per address.\<close>

definition above :: "(string \<times> rat) list \<Rightarrow> string \<Rightarrow> rat \<Rightarrow> bool" where
  "above m a v \<longleftrightarrow> (case map_of m a of None \<Rightarrow> True | Some w \<Rightarrow> w < v)"

lemma above_raiseNonce:
  "above (raiseNonce tx m) a v \<longleftrightarrow> above m a v \<and> (tx_address tx = a \<and> tx_nonce tx \<ge> 0 \<longrightarrow> tx_nonce tx < v)"
  by (auto simp: above_def raiseNonce_def Let_def update_conv' split: option.splits)

lemma above_raiseTimestamp:
  "above (raiseTimestamp tx m) a v \<longleftrightarrow>
     above m a v \<and> (tx_address tx = a \<and> tx_nonce tx = -2 \<longrightarrow> tx_timestamp tx < v)"
  by (auto simp: above_def raiseTimestamp_def Let_def update_conv' split: option.splits)

lemma keepTx_above:
  "keepTx hs ns ts a tx \<longleftrightarrow> (tx_nonce tx \<ge> 0 \<longrightarrow> above ns a (tx_nonce tx)) \<and>
     (tx_nonce tx = -2 \<longrightarrow> above ts a (tx_timestamp tx)) \<and> tx_hash tx \<notin> set hs"
  by (auto simp: keepTx_def above_def split: option.splits)

lemma votes_loop:
  "same_lists p (fst (foldl (\<lambda>(q, hs) v. (markFinalized s n i f v q, set_add (tx_hash v) hs)) (p, hs) vs))
   \<and> set (snd (foldl (\<lambda>(q, hs) v. (markFinalized s n i f v q, set_add (tx_hash v) hs)) (p, hs) vs))
     = set hs \<union> tx_hash ` set vs"
proof (induction vs arbitrary: p hs)
  case (Cons v vs)
  then show ?case
    using same_lists_trans [OF same_lists_mark(2) conjunct1 [OF Cons.IH]] by (simp add: insert_commute)
qed simp

definition txs_loop ::
  "(nat \<Rightarrow> string) \<Rightarrow> int \<Rightarrow> rat \<Rightarrow> (nat \<times> transaction) list \<Rightarrow>
   tx_pool \<times> string list \<times> (string \<times> rat) list \<times> (string \<times> rat) list \<Rightarrow>
   tx_pool \<times> string list \<times> (string \<times> rat) list \<times> (string \<times> rat) list" where
  "txs_loop S n f txs s = foldl (\<lambda>(q, hs, ns, ts) (i, tx).
     (markFinalized (S i) n (int i) f tx q, set_add (tx_hash tx) hs, raiseNonce tx ns, raiseTimestamp tx ts)) s txs"

lemma txs_loop_simps [simp]:
  "txs_loop S n f [] s = s"
  "txs_loop S n f ((i, tx) # txs) (q, hs, ns, ts) = txs_loop S n f txs
     (markFinalized (S i) n (int i) f tx q, set_add (tx_hash tx) hs, raiseNonce tx ns, raiseTimestamp tx ts)"
  by (simp_all add: txs_loop_def)

lemma txs_loop_effect:
  assumes "txs_loop S n f txs (p, hs, ns, ts) = (p', hs', ns', ts')"
  shows "same_lists p p' \<and> set hs' = set hs \<union> tx_hash ` snd ` set txs \<and>
    (\<forall>a v. above ns' a v \<longleftrightarrow> above ns a v \<and>
       (\<forall>u\<in>snd ` set txs. tx_address u = a \<and> tx_nonce u \<ge> 0 \<longrightarrow> tx_nonce u < v)) \<and>
    (\<forall>a v. above ts' a v \<longleftrightarrow> above ts a v \<and>
       (\<forall>u\<in>snd ` set txs. tx_address u = a \<and> tx_nonce u = -2 \<longrightarrow> tx_timestamp u < v))"
  using assms
proof (induction txs arbitrary: p hs ns ts)
  case (Cons e txs)
  obtain i tx where e: "e = (i, tx)" by fastforce
  note ih = Cons.IH [OF Cons.prems [unfolded e txs_loop_simps]]
  show ?case
    using ih same_lists_trans [OF same_lists_mark(2) [of p "S i" n "int i" f tx]]
    by (simp add: e above_raiseNonce above_raiseTimestamp)
qed simp

lemma above_Nil [simp]: "above [] a v"
  by (simp add: above_def)

text \<open>The transactions of a pool that survive a finalized block.\<close>

definition survives :: "block \<Rightarrow> string \<Rightarrow> transaction \<Rightarrow> bool" where
  "survives b a tx \<longleftrightarrow>
     tx_hash tx \<notin> tx_hash ` (set (b_last_votes b) \<union> evidence_txs (b_evidence b) \<union> set (b_transactions b)) \<and>
     (\<forall>u\<in>set (b_transactions b). tx_address u = a \<longrightarrow>
        (tx_nonce u \<ge> 0 \<and> tx_nonce tx \<ge> 0 \<longrightarrow> tx_nonce u < tx_nonce tx) \<and>
        (tx_nonce u = -2 \<and> tx_nonce tx = -2 \<longrightarrow> tx_timestamp u < tx_timestamp tx))"

lemma cleanUpForFinalizedBlock_effect:
  assumes ok: "pool_ok p"
  shows "pool_ok (cleanUpForFinalizedBlock cfg now receipts b p)"
    and "pool_txs (cleanUpForFinalizedBlock cfg now receipts b p) a =
      filter (\<lambda>tx. survives b a tx \<and> \<not> isTimedOutFromPool cfg (tx_created_at tx) (b_timestamp b)) (pool_txs p a)"
proof -
  let ?v = "foldl (\<lambda>(q, hs) voteTx.
      (markFinalized ''FINALIZED'' (b_number b) (-1) now voteTx q, set_add (tx_hash voteTx) hs)) (p, []) (b_last_votes b)"
  obtain p1 hs1 where v: "?v = (p1, hs1)" by (rule prod.exhaust)
  let ?l = "txs_loop (receiptState receipts) (b_number b) now (enumerate 0 (b_transactions b))
      (p1, addEvidenceTxsToTxHashSet hs1 (b_evidence b), [], [])"
  obtain p2 hs ns ts where l: "?l = (p2, hs, ns, ts)" by (rule prod_cases4)
  let ?p3 = "updateTxPoolWithTxHashSet hs ns ts p2"
  let ?p4 = "fst (removeTimedOutTxsFromTracker cfg (b_timestamp b) ?p3)"
  have c: "cleanUpForFinalizedBlock cfg now receipts b p = fst (removeTimedOutTxsFromPool cfg (b_timestamp b) ?p4)"
    by (simp only: cleanUpForFinalizedBlock_def Let_def v prod.case l [unfolded txs_loop_def])
  note lf = txs_loop_effect [OF l]
  note vf = votes_loop [of p "''FINALIZED''" "b_number b" "-1" now "[]" "b_last_votes b", unfolded v]
  have s: "same_lists p p2" using lf vf same_lists_trans by (metis fst_conv)
  have hs: "set hs = tx_hash ` (set (b_last_votes b) \<union> evidence_txs (b_evidence b) \<union> set (b_transactions b))"
    using lf vf by (simp add: addEvidence_set image_Un)
  have k: "keepTx hs ns ts a = survives b a"
    by (rule ext) (use lf in \<open>unfold keepTx_above survives_def hs snd_enumerate, auto\<close>)
  have ok2: "pool_ok p2" using s ok same_lists_effect by blast
  have ok4: "pool_ok ?p4"
    using updateTxPoolWithTxHashSet_effect(1) [OF ok2] same_lists_effect(1) [OF same_lists_ops(3)] by blast
  have t4: "pool_txs ?p4 a = filter (survives b a) (pool_txs p a)"
    using updateTxPoolWithTxHashSet_effect(2) [OF ok2, of hs ns ts a] same_lists_effect(2) [OF s, of a]
      same_lists_effect(2) [OF same_lists_ops(3), of cfg "b_timestamp b" ?p3 a]
    by (simp add: k)
  show "pool_ok (cleanUpForFinalizedBlock cfg now receipts b p)"
    unfolding c by (rule removeTimedOutTxsFromPool_effect(1) [OF ok4])
  show "pool_txs (cleanUpForFinalizedBlock cfg now receipts b p) a =
      filter (\<lambda>tx. survives b a tx \<and> \<not> isTimedOutFromPool cfg (tx_created_at tx) (b_timestamp b)) (pool_txs p a)"
    unfolding c removeTimedOutTxsFromPool_effect(2) [OF ok4] t4 filter_filter by (simp add: conj_commute)
qed

lemma cleanUpConsensusTxs_effect:
  assumes "pool_ok p"
  shows "pool_ok (cleanUpConsensusTxs blk vs p)"
    and "pool_txs (cleanUpConsensusTxs blk vs p) a =
      filter (\<lambda>tx. tx_hash tx \<notin> tx_hash ` (set vs \<union>
          (case blk of None \<Rightarrow> {} | Some b \<Rightarrow> set (b_last_votes b) \<union> evidence_txs (b_evidence b)))) (pool_txs p a)"
  unfolding cleanUpConsensusTxs_def Let_def
  using updateTxPoolWithTxHashSet_effect [OF assms]
  by (auto simp: keepTx_above addEvidence_set intro!: filter_cong split: option.splits)

subsection \<open>Histories of the pool\<close>

datatype pool_op =
    AddTransaction transaction jsval bool
  | UpdateTransactionInfo string tracked
  | RemoveTimedOutTxsFromPool rat
  | RemoveTimedOutTxsFromTracker rat
  | RemoveInvalidTxs "transaction list"
  | CleanUpConsensusTxs "block option" "transaction list"
  | CleanUpForFinalizedBlock rat "tx_result option list" block

fun pool_exec :: "pool_config \<Rightarrow> tx_pool \<Rightarrow> pool_op \<Rightarrow> tx_pool" where
  "pool_exec cfg p (AddTransaction tx r e) = addTransaction tx r e p"
| "pool_exec cfg p (UpdateTransactionInfo h info) = updateTransactionInfo h info p"
| "pool_exec cfg p (RemoveTimedOutTxsFromPool t) = fst (removeTimedOutTxsFromPool cfg t p)"
| "pool_exec cfg p (RemoveTimedOutTxsFromTracker t) = fst (removeTimedOutTxsFromTracker cfg t p)"
| "pool_exec cfg p (RemoveInvalidTxs txs) = removeInvalidTxsFromPool txs p"
| "pool_exec cfg p (CleanUpConsensusTxs blk vs) = cleanUpConsensusTxs blk vs p"
| "pool_exec cfg p (CleanUpForFinalizedBlock now rs b) = cleanUpForFinalizedBlock cfg now rs b p"

text \<open>What each operation promises about the list of an address.\<close>

fun spec_exec :: "pool_config \<Rightarrow> (string \<Rightarrow> transaction list) \<Rightarrow> pool_op \<Rightarrow> string \<Rightarrow> transaction list" where
  "spec_exec cfg m (AddTransaction tx r e) a = m a @ (if a = tx_address tx then [tx] else [])"
| "spec_exec cfg m (UpdateTransactionInfo h info) a = m a"
| "spec_exec cfg m (RemoveTimedOutTxsFromPool t) a =
     filter (\<lambda>tx. \<not> isTimedOutFromPool cfg (tx_created_at tx) t) (m a)"
| "spec_exec cfg m (RemoveTimedOutTxsFromTracker t) a = m a"
| "spec_exec cfg m (RemoveInvalidTxs txs) a =
     filter (\<lambda>tx. \<forall>u\<in>set txs. tx_address u = a \<longrightarrow> tx_hash u \<noteq> tx_hash tx) (m a)"
| "spec_exec cfg m (CleanUpConsensusTxs blk vs) a =
     filter (\<lambda>tx. tx_hash tx \<notin> tx_hash ` (set vs \<union>
       (case blk of None \<Rightarrow> {} | Some b \<Rightarrow> set (b_last_votes b) \<union> evidence_txs (b_evidence b)))) (m a)"
| "spec_exec cfg m (CleanUpForFinalizedBlock now rs b) a =
     filter (\<lambda>tx. survives b a tx \<and> \<not> isTimedOutFromPool cfg (tx_created_at tx) (b_timestamp b)) (m a)"

lemma pool_exec_refines:
  assumes "pool_ok p"
  shows "pool_ok (pool_exec cfg p x)" and "txs_of (tp_transactions (pool_exec cfg p x)) = spec_exec cfg (pool_txs p) x"
  using assms addTransaction_effect removeTimedOutTxsFromPool_effect removeInvalidTxsFromPool_effect
    cleanUpConsensusTxs_effect cleanUpForFinalizedBlock_effect
    same_lists_effect [OF same_lists_ops(1)] same_lists_effect [OF same_lists_ops(3)]
  by (cases x; simp add: fun_eq_iff)+

lemma pool_history:
  assumes "pool_ok p"
  shows "pool_ok (foldl (pool_exec cfg) p xs)
    \<and> txs_of (tp_transactions (foldl (pool_exec cfg) p xs)) = foldl (spec_exec cfg) (pool_txs p) xs"
  using assms
proof (induction xs arbitrary: p)
  case (Cons x xs)
  then show ?case using Cons.IH [OF pool_exec_refines(1) [OF Cons.prems, of cfg x]] pool_exec_refines(2) [OF Cons.prems, of cfg x]
    by simp
qed simp

subsection \<open>The tracker of finalized transactions\<close>

lemma assign_map_of: "map_of (assign t info) k =
  (case map_of (rev info) k of None \<Rightarrow> map_of t k | Some v \<Rightarrow> Some v)"
proof (induction info rule: rev_induct)
  case (snoc kv info)
  then show ?case by (cases kv) (simp add: assign_def update_conv')
qed (simp add: assign_def)

lemma finalizedInfo_fields:
  "map_of (finalizedInfo s n i tx f) ''state'' = Some (JStr s)"
  "map_of (finalizedInfo s n i tx f) ''number'' = Some (JNum (of_int n))"
  "map_of (finalizedInfo s n i tx f) ''index'' = Some (JNum (of_int i))"
  "map_of (finalizedInfo s n i tx f) ''is_finalized'' = Some (JBool True)"
  "map_of (finalizedInfo s n i tx f) ''tracked_at'' = Some (JNum f)"
  by (simp_all add: finalizedInfo_def)

definition tracked_as :: "tx_pool \<Rightarrow> string \<Rightarrow> tracked \<Rightarrow> bool" where
  "tracked_as p h info \<longleftrightarrow> distinct (map fst (tp_tracker p)) \<and>
     (\<exists>t. tracked_of p h = Some t \<and> (\<forall>k v. map_of info k = Some v \<longrightarrow> map_of t k = Some v))"

lemma updateTransactionInfo_tracker:
  "tp_tracker (updateTransactionInfo h info p) =
     AList.update h (assign (case tracked_of p h of None \<Rightarrow> [] | Some t \<Rightarrow> t) info) (tp_tracker p)"
  by (simp add: updateTransactionInfo_def Let_def)

lemma emit_tracker [simp]: "tp_tracker (emitTxStateChanged h s s' p) = tp_tracker p"
  by (simp add: emitTxStateChanged_def)

lemma markFinalized_distinct:
  "distinct (map fst (tp_tracker p)) \<Longrightarrow> distinct (map fst (tp_tracker (markFinalized s n i f tx p)))"
  by (simp add: markFinalized_def updateTransactionInfo_tracker distinct_update)

lemma markFinalized_tracked:
  assumes "distinct (map fst (tp_tracker p))"
  shows "tracked_as (markFinalized s n i f tx p) (tx_hash tx) (finalizedInfo s n i tx f)"
proof -
  have "map_of (rev (finalizedInfo s n i tx f)) = map_of (finalizedInfo s n i tx f)"
    by (rule map_of_rev_distinct) (simp add: finalizedInfo_def)
  then show ?thesis
    using markFinalized_distinct [OF assms]
    by (auto simp: tracked_as_def tracked_of_def markFinalized_def updateTransactionInfo_tracker
        update_conv' assign_map_of)
qed

lemma markFinalized_other:
  "tracked_as p h info \<Longrightarrow> tx_hash tx \<noteq> h \<Longrightarrow> tracked_as (markFinalized s n i f tx p) h info"
  using markFinalized_distinct [of p s n i f tx]
  by (auto simp: tracked_as_def tracked_of_def markFinalized_def updateTransactionInfo_tracker update_conv')

lemma markFinalized_votes_distinct:
  "distinct (map fst (tp_tracker p)) \<Longrightarrow>
   distinct (map fst (tp_tracker (fst (foldl (\<lambda>(q, hs) v. (markFinalized s n i f v q, set_add (tx_hash v) hs)) (p, hs) vs))))"
  by (induction vs arbitrary: p hs) (simp_all add: markFinalized_distinct)

lemma txs_loop_tracked:
  assumes "txs_loop S n f txs (p, r) = (p', r')" and "distinct (map fst (tp_tracker p))"
    and "distinct (map (tx_hash \<circ> snd) txs)"
  shows "(\<forall>(i, tx)\<in>set txs. tracked_as p' (tx_hash tx) (finalizedInfo (S i) n (int i) tx f))
    \<and> (\<forall>h info. tracked_as p h info \<and> h \<notin> (tx_hash \<circ> snd) ` set txs \<longrightarrow> tracked_as p' h info)"
  using assms
proof (induction txs arbitrary: p r)
  case (Cons e txs)
  obtain i tx where e: "e = (i, tx)" by fastforce
  obtain hs ns ts where r: "r = (hs, ns, ts)" by (rule prod_cases3)
  let ?p = "markFinalized (S i) n (int i) f tx p"
  have l: "txs_loop S n f txs (?p, set_add (tx_hash tx) hs, raiseNonce tx ns, raiseTimestamp tx ts) = (p', r')"
    using Cons.prems(1) by (simp add: e r)
  have ih: "(\<forall>(i, tx)\<in>set txs. tracked_as p' (tx_hash tx) (finalizedInfo (S i) n (int i) tx f))
    \<and> (\<forall>h info. tracked_as ?p h info \<and> h \<notin> (tx_hash \<circ> snd) ` set txs \<longrightarrow> tracked_as p' h info)"
    by (rule Cons.IH [OF l markFinalized_distinct [OF Cons.prems(2)]]) (use Cons.prems(3) in simp)
  moreover have "tx_hash tx \<notin> (tx_hash \<circ> snd) ` set txs" using Cons.prems(3) by (simp add: e)
  ultimately show ?case
    using markFinalized_tracked [OF Cons.prems(2), of "S i" n "int i" f tx]
      markFinalized_other [of p _ _ tx "S i" n "int i" f]
    by (simp add: e) metis
qed simp

lemma same_tracker_foldl:
  "(\<And>q x. tp_tracker (f q x) = tp_tracker q) \<Longrightarrow> tp_tracker (foldl f p xs) = tp_tracker p"
  by (induction xs arbitrary: p) auto

lemma updateTxListAndCounts_tracker [simp]: "tp_tracker (updateTxListAndCounts a l F p) = tp_tracker p"
  by (simp add: updateTxListAndCounts_def filterAndCount_effect updateTxList_def updateFreeTxCountPerAccount_def Let_def)

lemma updateTxPoolWithTxHashSet_tracker [simp]: "tp_tracker (updateTxPoolWithTxHashSet hs ns ts p) = tp_tracker p"
  unfolding updateTxPoolWithTxHashSet_def by (rule same_tracker_foldl) (simp split: prod.split)

lemma tracked_as_tracker: "tp_tracker q = tp_tracker p \<Longrightarrow> tracked_as q h info = tracked_as p h info"
  by (simp add: tracked_as_def tracked_of_def)

lemma removeTracker_tracked:
  assumes "tracked_as p h info" and "map_of info ''tracked_at'' = Some (JNum t)"
    and "\<not> isTimedOutFromTracker cfg t now"
  shows "tracked_as (fst (removeTimedOutTxsFromTracker cfg now p)) h info"
proof -
  obtain e where e: "map_of (tp_tracker p) h = Some e" "\<And>k v. map_of info k = Some v \<Longrightarrow> map_of e k = Some v"
    and d: "distinct (map fst (tp_tracker p))"
    using assms(1) by (auto simp: tracked_as_def tracked_of_def)
  have n: "prop_get (JObj e) ''tracked_at'' = JNum t" using e(2) [OF assms(2)] by simp
  have r: "tp_tracker (fst (removeTimedOutTxsFromTracker cfg now p)) = filter (\<lambda>e. \<not> isTimedOutFromTracker cfg
      (numberOrZero (prop_get (JObj (snd e)) ''tracked_at'')) now) (tp_tracker p)"
    by (simp add: removeTimedOutTxsFromTracker_def Let_def split_beta)
  have "map_of (tp_tracker (fst (removeTimedOutTxsFromTracker cfg now p))) h = Some e"
    unfolding r by (rule map_of_filter_distinct [OF d e(1)])
      (use assms(3) in \<open>simp only: snd_conv n numberOrZero.simps not_False_eq_True\<close>)
  moreover have "distinct (map fst (tp_tracker (fst (removeTimedOutTxsFromTracker cfg now p))))"
    using d by (simp add: removeTimedOutTxsFromTracker_def Let_def distinct_map_filter)
  ultimately show ?thesis using e(2) by (auto simp: tracked_as_def tracked_of_def)
qed

lemma markRemoved_tracked:
  assumes "tracked_as p h info" and "map_of info ''state'' = Some s" and "isTxInBlock s"
  shows "tracked_as (markRemoved h' s' p) h info"
proof (cases "h' = h")
  case True
  obtain e where "tracked_of p h = Some e" "map_of e ''state'' = Some s"
    using assms by (auto simp: tracked_as_def)
  then have "tp_tracker (markRemoved h' s' p) = tp_tracker p"
    using True assms(3) by (simp add: markRemoved_def before_state_def Let_def)
  then show ?thesis using assms(1) tracked_as_tracker by blast
next
  case False
  then show ?thesis
    using assms(1) by (auto simp: markRemoved_def Let_def tracked_as_def tracked_of_def update_conv' distinct_update
        simp del: map_of_eq_Some_iff split: option.splits)
qed

lemma removePool_tracked:
  assumes "tracked_as p h info" and "map_of info ''state'' = Some s" and "isTxInBlock s"
  shows "tracked_as (fst (removeTimedOutTxsFromPool cfg now p)) h info"
proof -
  have inner: "tracked_as q h info \<Longrightarrow>
      tracked_as (foldl (\<lambda>q tx. if P tx then markRemoved (tx_hash tx) ''TIMED_OUT'' q else q) q l) h info" for q l P
    by (induction l arbitrary: q) (auto intro: markRemoved_tracked [OF _ assms(2,3)])
  have "tracked_as q h info \<Longrightarrow> tracked_as (foldl (\<lambda>q (a, l). updateTxListAndCounts a l F
      (foldl (\<lambda>q tx. if P tx then markRemoved (tx_hash tx) ''TIMED_OUT'' q else q) q l)) q ts) h info" for q F P ts
  proof (induction ts arbitrary: q)
    case (Cons x ts)
    obtain a l where "x = (a, l)" by fastforce
    then show ?case
      using Cons.IH [of "updateTxListAndCounts a l F (foldl (\<lambda>q tx. if P tx then markRemoved (tx_hash tx) ''TIMED_OUT'' q else q) q l)"]
        inner [OF Cons.prems, of P l] tracked_as_tracker [OF updateTxListAndCounts_tracker]
      by simp
  qed simp
  then show ?thesis using assms(1) by (simp add: removeTimedOutTxsFromPool_def Let_def)
qed

subsection \<open>Properties\<close>

text \<open>
  C8. The counters of the pool are exact after any history: starting from an empty pool, after
  any sequence of additions, removals, time-outs and block clean-ups, the total and free counters
  and the counters per account are the numbers of (free) transactions in the lists, and every
  transaction is filed under its own address. The lists themselves are what the abstract
  operations \<open>spec_exec\<close> make of a map from addresses to lists.
\<close>

theorem pool_history_exact:
  "let p = foldl (pool_exec cfg) (newTransactionPool eh) ops
   in getPoolSize p = (\<Sum>e\<leftarrow>tp_transactions p. int (length (snd e))) \<and>
      getFreePoolSize p = (\<Sum>e\<leftarrow>tp_transactions p. int (length (filter isFreeTransaction (snd e)))) \<and>
      (\<forall>a. getPerAccountPoolSize p a = length (foldl (spec_exec cfg) (\<lambda>a. []) ops a) \<and>
           getPerAccountFreePoolSize p a = int (length (filter isFreeTransaction (foldl (spec_exec cfg) (\<lambda>a. []) ops a))) \<and>
           txs_of (tp_transactions p) a = foldl (spec_exec cfg) (\<lambda>a. []) ops a)"
proof -
  let ?p = "foldl (pool_exec cfg) (newTransactionPool eh) ops"
  have "txs_of (tp_transactions (newTransactionPool eh)) = (\<lambda>a. [])"
    by (simp add: newTransactionPool_def fun_eq_iff)
  then have h: "pool_ok ?p" "txs_of (tp_transactions ?p) = foldl (spec_exec cfg) (\<lambda>a. []) ops"
    using pool_history [OF pool_ok_new, of cfg eh ops] by simp_all
  have "getPerAccountPoolSize ?p a = length (pool_txs ?p a)" for a
    by (simp add: getPerAccountPoolSize_def txs_of_def split: option.splits)
  moreover have "getPerAccountFreePoolSize ?p a = n_free (pool_txs ?p a)" for a
    using free_count [OF h(1)] by (simp add: getPerAccountFreePoolSize_def)
  ultimately show ?thesis
    using h(1) unfolding Let_def h(2) getPoolSize_def getFreePoolSize_def
    by (simp add: pool_ok_def asum_def n_free_def)
qed

text \<open>
  A finalized transaction is tracked as such: after the clean-up for a finalized block whose
  transactions have different hashes, the tracker holds for the transaction at index \<open>i\<close> the state
  its receipt says (\<open>REVERTED\<close> when it failed, \<open>FINALIZED\<close> otherwise), the block number and the
  index, unless the tracker entry timed out at that very moment; removals by time-out do not
  overwrite it.
\<close>

theorem finalized_transaction_tracked:
  assumes "i < length (b_transactions b)" and "distinct (map tx_hash (b_transactions b))"
    and "\<not> isTimedOutFromTracker cfg now (b_timestamp b)" and "distinct (map fst (tp_tracker p))"
  shows "\<exists>t. tracked_of (cleanUpForFinalizedBlock cfg now receipts b p) (tx_hash (b_transactions b ! i)) = Some t \<and>
    map_of t ''state'' = Some (JStr (if isFailedTx (if i < length receipts then receipts ! i else None)
                                     then ''REVERTED'' else ''FINALIZED'')) \<and>
    map_of t ''number'' = Some (JNum (of_int (b_number b))) \<and> map_of t ''index'' = Some (JNum (of_nat i)) \<and>
    map_of t ''is_finalized'' = Some (JBool True)"
proof -
  let ?tx = "b_transactions b ! i"
  let ?info = "finalizedInfo (receiptState receipts i) (b_number b) (int i) ?tx now"
  let ?v = "foldl (\<lambda>(q, hs) voteTx.
      (markFinalized ''FINALIZED'' (b_number b) (-1) now voteTx q, set_add (tx_hash voteTx) hs)) (p, []) (b_last_votes b)"
  obtain p1 hs1 where v: "?v = (p1, hs1)" by (rule prod.exhaust)
  obtain p2 hs ns ts where l: "txs_loop (receiptState receipts) (b_number b) now (enumerate 0 (b_transactions b))
      (p1, addEvidenceTxsToTxHashSet hs1 (b_evidence b), [], []) = (p2, hs, ns, ts)"
    by (rule prod_cases4)
  let ?p3 = "updateTxPoolWithTxHashSet hs ns ts p2"
  let ?p4 = "fst (removeTimedOutTxsFromTracker cfg (b_timestamp b) ?p3)"
  have c: "cleanUpForFinalizedBlock cfg now receipts b p = fst (removeTimedOutTxsFromPool cfg (b_timestamp b) ?p4)"
    by (simp only: cleanUpForFinalizedBlock_def Let_def v prod.case l [unfolded txs_loop_def])
  have d1: "distinct (map fst (tp_tracker p1))"
    using markFinalized_votes_distinct [OF assms(4), of "''FINALIZED''" "b_number b" "-1" now "[]" "b_last_votes b"]
    by (simp only: v fst_conv)
  have m: "(i, ?tx) \<in> set (enumerate 0 (b_transactions b))" using assms(1) by (simp add: in_set_enumerate_eq)
  have dh: "distinct (map (tx_hash \<circ> snd) (enumerate 0 (b_transactions b)))"
    using assms(2) by (simp flip: map_map)
  have "tracked_as p2 (tx_hash ?tx) ?info"
    using bspec [OF conjunct1 [OF txs_loop_tracked [OF l d1 dh]] m] by (simp only: prod.case)
  then have "tracked_as ?p3 (tx_hash ?tx) ?info"
    by (simp only: tracked_as_tracker [OF updateTxPoolWithTxHashSet_tracker])
  then have "tracked_as ?p4 (tx_hash ?tx) ?info"
    by (rule removeTracker_tracked [OF _ finalizedInfo_fields(5) assms(3)])
  then have "tracked_as (fst (removeTimedOutTxsFromPool cfg (b_timestamp b) ?p4)) (tx_hash ?tx) ?info"
    by (rule removePool_tracked [OF _ finalizedInfo_fields(1)]) (simp add: isTxInBlock_def receiptState_def)
  then obtain t where t: "tracked_of (cleanUpForFinalizedBlock cfg now receipts b p) (tx_hash ?tx) = Some t"
    "\<And>k v. map_of ?info k = Some v \<Longrightarrow> map_of t k = Some v"
    unfolding c tracked_as_def by blast
  show ?thesis
    by (intro exI [of _ t] conjI t(1)) (simp_all only: t(2) [OF finalizedInfo_fields(1), unfolded receiptState_def]
      t(2) [OF finalizedInfo_fields(2)] t(2) [OF finalizedInfo_fields(3)] t(2) [OF finalizedInfo_fields(4)] of_int_of_nat_eq)
qed

definition poolConfig1 :: pool_config where
  "poolConfig1 = \<lparr>pc_TX_POOL_TIMEOUT_MS = 3600000, pc_TX_TRACKER_TIMEOUT_MS = 86400000,
     pc_TX_POOL_SIZE_LIMIT = 1000, pc_FREE_TX_POOL_SIZE_LIMIT_RATIO = 1 / 10,
     pc_TX_POOL_SIZE_LIMIT_PER_ACCOUNT = 100, pc_FREE_TX_POOL_SIZE_LIMIT_RATIO_PER_ACCOUNT = 1 / 10\<rparr>"

theorem finalized_transaction_tracked_witness:
  "let tx = \<lparr>tx_body = txBody1, tx_signature = JStr ''0x'', tx_hash = ''0xab'', tx_address = ''0xA'', tx_extra = []\<rparr>;
       b = block1\<lparr>b_transactions := [tx], b_timestamp := 10\<rparr>;
       p = cleanUpForFinalizedBlock poolConfig1 10 [Some (TxResult 0 1 [] [] None)] b (newTransactionPool False)
   in \<exists>t. tracked_of p ''0xab'' = Some t \<and> map_of t ''state'' = Some (JStr ''FINALIZED'')"
proof -
  let ?tx = "\<lparr>tx_body = txBody1, tx_signature = JStr ''0x'', tx_hash = ''0xab'', tx_address = ''0xA'', tx_extra = []\<rparr>"
  let ?b = "block1\<lparr>b_transactions := [?tx], b_timestamp := 10\<rparr>"
  have "0 < length (b_transactions ?b)" "distinct (map tx_hash (b_transactions ?b))"
    "\<not> isTimedOutFromTracker poolConfig1 10 (b_timestamp ?b)"
    "distinct (map fst (tp_tracker (newTransactionPool False)))"
    by (simp_all add: isTimedOutFromTracker_def isTimedOut_def poolConfig1_def newTransactionPool_def)
  note r = finalized_transaction_tracked [OF this, of "[Some (TxResult 0 1 [] [] None)]"]
  have n: "b_transactions ?b ! 0 = ?tx" "tx_hash ?tx = ''0xab''" by simp_all
  have f: "\<not> isFailedTx (Some (TxResult 0 1 [] [] None))" by (simp add: isFailedTxResultCode_def)
  show ?thesis
    using r unfolding Let_def n by (simp only: f list.size nth_Cons_0 if_False simp_thms) (auto simp: f simp del: isFailedTx.simps)
qed

end
