(* ===== verification/StateTree.thy ===== *)
theory StateTree
  imports PathUtil "HOL-Library.Sublist"
begin

text \<open>
  One version of the state tree, and the reads and writes of \<open>db/index.js\<close> on it. A state node
  (\<open>db/state-node.js\<close>) is a leaf with a value or an inner node with children by label; the radix
  tree in which a node keeps its children is the map proved correct in \<open>RadixContract\<close>, with the
  children listed in the order in which their labels were first set. Versions share nodes in the
  code, which copies a shared node before it writes below it: on one version the effect is the
  functional update below. Objects carry their keys in the order in which JavaScript lists them.
\<close>

datatype snode = SLeaf jsval | SNode "(string \<times> snode) list"

subsection \<open>Nodes\<close>

definition emptySNode :: snode where
  "emptySNode = SLeaf JNull"

fun getIsLeaf :: "snode \<Rightarrow> bool" where
  "getIsLeaf (SLeaf v) = True"
| "getIsLeaf (SNode cs) = False"

fun children :: "snode \<Rightarrow> (string \<times> snode) list" where
  "children (SLeaf v) = []"
| "children (SNode cs) = cs"

definition sgetChild :: "snode \<Rightarrow> string \<Rightarrow> snode option" where
  "sgetChild n label = map_of (children n) label"

definition ssetChild :: "string \<Rightarrow> snode \<Rightarrow> snode \<Rightarrow> snode" where
  "ssetChild label child n = SNode (AList.update label child (children n))"

definition sdeleteChild :: "string \<Rightarrow> snode \<Rightarrow> snode" where
  "sdeleteChild label n =
     (if sgetChild n label = None then n
      else let cs = AList.delete label (children n) in if cs = [] then emptySNode else SNode cs)"

definition getChildLabels :: "snode \<Rightarrow> string list" where
  "getChildLabels n = map fst (children n)"

definition numChildNodes :: "snode \<Rightarrow> nat" where
  "numChildNodes n = length (children n)"

fun resetValue :: "snode \<Rightarrow> snode" where
  "resetValue (SLeaf v) = emptySNode"
| "resetValue (SNode cs) = SNode cs"

definition isEmptyNode :: "snode \<Rightarrow> bool" where
  "isEmptyNode n = (n = emptySNode)"

subsection \<open>Snapshots\<close>

definition is_meta_label :: "string \<Rightarrow> bool" where
  "is_meta_label l = isPrefixedLabel l ''#''"

fun fromStateSnapshot :: "jsval \<Rightarrow> snode"
  and addEntries :: "(string \<times> jsval) list \<Rightarrow> snode \<Rightarrow> snode" where
  "fromStateSnapshot (JObj kvs) = addEntries kvs emptySNode"
| "fromStateSnapshot v = SLeaf v"
| "addEntries [] n = n"
| "addEntries ((key, childObj) # kvs) n =
     (if is_meta_label key then addEntries kvs n
      else addEntries kvs (ssetChild key (fromStateSnapshot childObj) n))"

text \<open>
  \<open>toStateSnapshot\<close> with the options \<open>isShallow\<close> and \<open>includeProof\<close> off or on; \<open>ph\<close> gives the proof
  hash of a node. The options for versions, tree information and partial listing are left out.
\<close>

fun toStateSnapshot :: "snode \<Rightarrow> jsval"
  and snapshotEntries :: "(string \<times> snode) list \<Rightarrow> (string \<times> jsval) list" where
  "toStateSnapshot (SLeaf v) = v"
| "toStateSnapshot (SNode cs) = JObj (snapshotEntries cs)"
| "snapshotEntries [] = []"
| "snapshotEntries ((label, child) # cs) = (label, toStateSnapshot child) # snapshotEntries cs"

definition toShallowSnapshot :: "(snode \<Rightarrow> string) \<Rightarrow> snode \<Rightarrow> jsval" where
  "toShallowSnapshot ph n =
     (case n of
        SLeaf v \<Rightarrow> v
      | SNode cs \<Rightarrow> JObj (map (\<lambda>(label, child).
            (label, case child of SLeaf v \<Rightarrow> v | SNode _ \<Rightarrow> JObj [(''#state_ph'', JStr (ph child))])) cs))"

subsection \<open>Reading and writing\<close>

fun getRefForReadingFromStateRoot :: "snode \<Rightarrow> string list \<Rightarrow> snode option" where
  "getRefForReadingFromStateRoot n [] = Some n"
| "getRefForReadingFromStateRoot n (label # path) =
     (case sgetChild n label of None \<Rightarrow> None | Some child \<Rightarrow> getRefForReadingFromStateRoot child path)"

text \<open>
  \<open>getRefForWritingToStateRoot\<close>, the \<open>setChild\<close> of the new tree and the removal of empty nodes on
  the way up (\<open>updateStateInfoForAllRootPaths\<close>), as one recursion along the path.
\<close>

fun putTree :: "snode \<Rightarrow> string list \<Rightarrow> snode \<Rightarrow> snode" where
  "putTree n [] tree = tree"
| "putTree n (label # path) tree =
     (let child = (case sgetChild n label of None \<Rightarrow> emptySNode | Some c \<Rightarrow> resetValue c);
          child' = putTree child path tree;
          n' = ssetChild label child' n
      in if isEmptyNode child' then sdeleteChild label n' else n')"

definition writeToStateRoot :: "snode \<Rightarrow> string list \<Rightarrow> jsval \<Rightarrow> snode" where
  "writeToStateRoot stateRoot fullPath stateObj = putTree stateRoot fullPath (fromStateSnapshot stateObj)"

definition readFromStateRoot :: "snode \<Rightarrow> string \<Rightarrow> string \<Rightarrow> jsval" where
  "readFromStateRoot stateRoot rootLabel refPath =
     (case getRefForReadingFromStateRoot stateRoot (getFullPath (parsePath refPath) rootLabel) of
        None \<Rightarrow> JNull
      | Some n \<Rightarrow> toStateSnapshot n)"

definition getValueFromStateRoot :: "snode \<Rightarrow> string \<Rightarrow> jsval" where
  "getValueFromStateRoot stateRoot statePath = readFromStateRoot stateRoot ''values'' statePath"

definition getValueShallowFromStateRoot :: "(snode \<Rightarrow> string) \<Rightarrow> snode \<Rightarrow> string \<Rightarrow> jsval" where
  "getValueShallowFromStateRoot ph stateRoot statePath =
     (case getRefForReadingFromStateRoot stateRoot (getFullPath (parsePath statePath) ''values'') of
        None \<Rightarrow> JNull
      | Some n \<Rightarrow> toShallowSnapshot ph n)"

subsection \<open>Accounts and stakes\<close>

definition or_zero :: "jsval \<Rightarrow> jsval" where
  "or_zero v = (if truthy v then v else JNum 0)"

definition getAccountNonceAndTimestampFromStateRoot :: "snode \<Rightarrow> string \<Rightarrow> jsval \<times> jsval" where
  "getAccountNonceAndTimestampFromStateRoot stateRoot address =
     (or_zero (getValueFromStateRoot stateRoot (getAccountNoncePath address)),
      or_zero (getValueFromStateRoot stateRoot (getAccountTimestampPath address)))"

definition updateAccountNonceAndTimestampToStateRoot :: "snode \<Rightarrow> string \<Rightarrow> rat \<Rightarrow> rat \<Rightarrow> snode" where
  "updateAccountNonceAndTimestampToStateRoot stateRoot address nonce timestamp =
     (if nonce \<ge> 0 then
        writeToStateRoot stateRoot (getFullPath (parsePath (getAccountNoncePath address)) ''values'') (JNum (nonce + 1))
      else if nonce = -2 then
        writeToStateRoot stateRoot (getFullPath (parsePath (getAccountTimestampPath address)) ''values'') (JNum timestamp)
      else stateRoot)"

definition getAppStakeFromStateRoot :: "snode \<Rightarrow> string \<Rightarrow> jsval" where
  "getAppStakeFromStateRoot stateRoot appName =
     or_zero (getValueFromStateRoot stateRoot (getStakingBalanceTotalPath appName))"

definition getAppStakesTotalFromStateRoot :: "(snode \<Rightarrow> string) \<Rightarrow> snode \<Rightarrow> rat" where
  "getAppStakesTotalFromStateRoot ph stateRoot =
     (let balanceTotalSum = getValueFromStateRoot stateRoot getStakingBalanceTotalSumPath;
          consensusStakeTotal = or_zero (getValueFromStateRoot stateRoot (getStakingBalanceTotalPath ''consensus''))
      in if balanceTotalSum \<noteq> JNull then numberOrZero balanceTotalSum - numberOrZero consensusStakeTotal
         else
           let appStakes = getValueShallowFromStateRoot ph stateRoot ''staking''
           in \<Sum>appName\<leftarrow>filter (\<lambda>a. a \<noteq> ''consensus'') (keys_of appStakes).
                numberOrZero (getValueFromStateRoot stateRoot (getStakingBalanceTotalPath appName)))"

subsection \<open>Heights and sizes of values\<close>

fun getObjectHeightAndSize :: "jsval \<Rightarrow> nat \<times> nat"
  and entriesHeightAndSize :: "(string \<times> jsval) list \<Rightarrow> nat \<times> nat \<Rightarrow> nat \<times> nat" where
  "getObjectHeightAndSize (JObj kvs) = (if kvs = [] then (0, 0) else entriesHeightAndSize kvs (1, 0))"
| "getObjectHeightAndSize v = (0, 0)"
| "entriesHeightAndSize [] r = r"
| "entriesHeightAndSize ((key, v) # kvs) r =
     (if isDict v
      then let (height, size) = getObjectHeightAndSize v
           in entriesHeightAndSize kvs (max (height + 1) (fst r), snd r + (size + 1))
      else entriesHeightAndSize kvs (fst r, snd r + 1))"

subsection \<open>Lookup after an update\<close>

lemma sgetChild_simps [simp]:
  "sgetChild (SLeaf v) l = None"
  "sgetChild emptySNode l = None"
  "sgetChild (resetValue n) l = sgetChild n l"
  "sgetChild (ssetChild k c n) l = (if l = k then Some c else sgetChild n l)"
  "sgetChild (sdeleteChild k n) l = (if l = k then None else sgetChild n l)"
proof -
  show "sgetChild (resetValue n) l = sgetChild n l" by (cases n) (simp_all add: sgetChild_def emptySNode_def)
  have d: "map_of (AList.delete k (children n)) l = (if l = k then None else map_of (children n) l)"
    by (simp add: delete_conv')
  show "sgetChild (sdeleteChild k n) l = (if l = k then None else sgetChild n l)"
  proof (cases "AList.delete k (children n) = []")
    case True
    then show ?thesis using d by (auto simp: sdeleteChild_def sgetChild_def emptySNode_def Let_def)
  next
    case False
    then show ?thesis using d by (auto simp: sdeleteChild_def sgetChild_def Let_def)
  qed
qed (simp_all add: sgetChild_def ssetChild_def emptySNode_def update_conv')

abbreviation ref :: "snode \<Rightarrow> string list \<Rightarrow> snode option" where
  "ref \<equiv> getRefForReadingFromStateRoot"

lemma ref_emptySNode [simp]: "ref emptySNode p = (if p = [] then Some emptySNode else None)"
  by (cases p) simp_all

lemma ref_append: "ref n (p @ q) = (case ref n p of None \<Rightarrow> None | Some m \<Rightarrow> ref m q)"
  by (induction p arbitrary: n) (auto split: option.splits)

lemma ref_resetValue: "q \<noteq> [] \<Longrightarrow> ref (resetValue n) q = ref n q"
  by (cases q) simp_all

lemma ref_putTree_below:
  "p \<noteq> [] \<Longrightarrow> ref (putTree n p t) (p @ r) = (if isEmptyNode t then None else ref t r)"
proof (induction p arbitrary: n)
  case (Cons l p)
  let ?c = "case sgetChild n l of None \<Rightarrow> emptySNode | Some c \<Rightarrow> resetValue c"
  have "isEmptyNode (putTree ?c p t) \<Longrightarrow> p \<noteq> [] \<Longrightarrow> \<not> isEmptyNode t \<Longrightarrow> ref t r = None"
    using Cons.IH [of ?c] by (cases p) (auto simp: isEmptyNode_def Let_def)
  moreover have "isEmptyNode t \<Longrightarrow> ref t r = (if r = [] then Some t else None)"
    by (simp add: isEmptyNode_def)
  ultimately show ?case
    using Cons.IH [of ?c] by (cases "p = []") (auto simp: Let_def)
qed simp

text \<open>Two paths of which neither is a prefix of the other are \<^const>\<open>parallel\<close>.\<close>

lemma parallel_Cons: "a # p \<parallel> b # q \<longleftrightarrow> a \<noteq> b \<or> p \<parallel> q"
  by (auto simp: parallel_def)

lemma parallel_Nil [simp]: "\<not> [] \<parallel> q" "\<not> p \<parallel> []"
  by (simp_all add: parallel_def)

lemma ref_putTree_parallel: "p \<parallel> q \<Longrightarrow> ref (putTree n p t) q = ref n q"
proof (induction p arbitrary: n q)
  case (Cons l p)
  obtain b q' where q: "q = b # q'" using Cons.prems by (cases q) auto
  let ?c = "case sgetChild n l of None \<Rightarrow> emptySNode | Some c \<Rightarrow> resetValue c"
  show ?case
  proof (cases "b = l")
    case False
    then show ?thesis by (simp add: q Let_def)
  next
    case True
    then have a: "p \<parallel> q'" using Cons.prems by (simp add: q parallel_Cons)
    then have "q' \<noteq> []" by auto
    then have "ref ?c q' = (case sgetChild n l of None \<Rightarrow> None | Some c \<Rightarrow> ref c q')"
      by (auto simp: ref_resetValue split: option.splits)
    moreover have "isEmptyNode (putTree ?c p t) \<Longrightarrow> ref (putTree ?c p t) q' = None"
      using \<open>q' \<noteq> []\<close> by (simp add: isEmptyNode_def)
    ultimately show ?thesis using Cons.IH [OF a, of ?c] True by (auto simp: q Let_def)
  qed
qed simp

lemma ref_putTree_prefix: "prefix a p \<Longrightarrow> a \<noteq> [] \<Longrightarrow> ref (putTree n p t) a \<noteq> Some emptySNode"
proof (induction p arbitrary: n a)
  case (Cons l p)
  obtain a' where a: "a = l # a'" "prefix a' p" using Cons.prems by (cases a) auto
  let ?c = "case sgetChild n l of None \<Rightarrow> emptySNode | Some c \<Rightarrow> resetValue c"
  show ?case
    using Cons.IH [OF a(2), of ?c] by (cases a') (auto simp: a Let_def isEmptyNode_def)
qed simp

subsection \<open>Values that survive a snapshot\<close>

fun state_value :: "jsval \<Rightarrow> bool" where
  "state_value (JObj kvs) = (kvs \<noteq> [] \<and> distinct (map fst kvs) \<and>
     (\<forall>k\<in>set (map fst kvs). \<not> is_meta_label k) \<and> (\<forall>v\<in>set (map snd kvs). state_value v))"
| "state_value v = True"

lemma snapshotEntries_map: "snapshotEntries cs = map (\<lambda>(l, c). (l, toStateSnapshot c)) cs"
  by (induction cs) auto

lemma update_fresh: "k \<notin> fst ` set xs \<Longrightarrow> AList.update k v xs = xs @ [(k, v)]"
  by (induction xs) auto

lemma snapshot_roundtrip:
  "state_value v \<Longrightarrow> toStateSnapshot (fromStateSnapshot v) = v"
  "distinct (map fst kvs) \<Longrightarrow> (\<forall>k\<in>set (map fst kvs). \<not> is_meta_label k) \<Longrightarrow> (\<forall>v\<in>set (map snd kvs). state_value v) \<Longrightarrow>
     fst ` set (children n) \<inter> fst ` set kvs = {} \<Longrightarrow>
     snapshotEntries (children (addEntries kvs n)) = snapshotEntries (children n) @ kvs \<and>
     (kvs \<noteq> [] \<longrightarrow> (\<exists>cs. addEntries kvs n = SNode cs))"
proof (induction v and kvs n rule: fromStateSnapshot_addEntries.induct)
  case (1 kvs)
  then obtain cs where cs: "addEntries kvs emptySNode = SNode cs"
    "snapshotEntries (children (addEntries kvs emptySNode)) = snapshotEntries (children emptySNode) @ kvs"
    by (auto simp: emptySNode_def)
  then show ?case by (simp add: emptySNode_def)
next
  case (4 key v kvs n)
  have nm: "\<not> is_meta_label key" using "4.prems" by simp
  let ?n = "ssetChild key (fromStateSnapshot v) n"
  have c: "children ?n = children n @ [(key, fromStateSnapshot v)]"
    using "4.prems"(4) by (simp add: ssetChild_def update_fresh)
  have "snapshotEntries (children (addEntries kvs ?n)) = snapshotEntries (children ?n) @ kvs \<and>
     (kvs \<noteq> [] \<longrightarrow> (\<exists>cs. addEntries kvs ?n = SNode cs))"
    using "4.IH"(3) [OF nm] "4.prems" by (auto simp: c)
  moreover have "snapshotEntries (children ?n) = snapshotEntries (children n) @ [(key, v)]"
    using "4.IH"(2) [OF nm] "4.prems" by (simp add: c snapshotEntries_map)
  ultimately show ?case using nm by (cases "kvs = []") (auto simp: ssetChild_def)
qed simp_all

lemma fromStateSnapshot_empty: "state_value v \<Longrightarrow> isEmptyNode (fromStateSnapshot v) \<longleftrightarrow> v = JNull"
  using snapshot_roundtrip(1) [of v] by (auto simp: isEmptyNode_def emptySNode_def)

lemma getValue_write:
  "state_value v \<Longrightarrow> parsePath t = parsePath s \<Longrightarrow>
     getValueFromStateRoot (writeToStateRoot rt (getFullPath (parsePath s) ''values'') v) t = v"
  using ref_putTree_below [of "''values'' # parsePath s" rt "fromStateSnapshot v" "[]"]
  by (simp add: getValueFromStateRoot_def readFromStateRoot_def writeToStateRoot_def getFullPath_def
      fromStateSnapshot_empty snapshot_roundtrip del: putTree.simps getRefForReadingFromStateRoot.simps(2))

lemma getValue_write_other:
  "parsePath s \<parallel> parsePath t \<Longrightarrow>
     getValueFromStateRoot (writeToStateRoot rt (getFullPath (parsePath s) ''values'') v) t = getValueFromStateRoot rt t"
  using ref_putTree_parallel [of "''values'' # parsePath s" "''values'' # parsePath t" rt "fromStateSnapshot v"]
  by (simp add: getValueFromStateRoot_def readFromStateRoot_def writeToStateRoot_def getFullPath_def
      parallel_Cons del: putTree.simps getRefForReadingFromStateRoot.simps(2))

subsection \<open>The ledger of nonces and timestamps\<close>

text \<open>What the transaction pool and the execution of transactions rely on.\<close>

locale account_ledger =
  fixes account :: "'s \<Rightarrow> string \<Rightarrow> rat \<times> rat"
    and record_tx :: "'s \<Rightarrow> string \<Rightarrow> rat \<Rightarrow> rat \<Rightarrow> 's"
    and valid :: "string \<Rightarrow> bool"
  assumes account_record: "valid a \<Longrightarrow> account (record_tx s a n t) a =
      (if n \<ge> 0 then (n + 1, snd (account s a)) else if n = -2 then (fst (account s a), t) else account s a)"
    and account_other: "valid a \<Longrightarrow> valid b \<Longrightarrow> a \<noteq> b \<Longrightarrow> account (record_tx s a n t) b = account s b"

definition accountNonceAndTimestamp :: "snode \<Rightarrow> string \<Rightarrow> rat \<times> rat" where
  "accountNonceAndTimestamp stateRoot address =
     map_prod numberOrZero numberOrZero (getAccountNonceAndTimestampFromStateRoot stateRoot address)"

lemma numberOrZero_or_zero [simp]: "numberOrZero (or_zero v) = numberOrZero v"
  by (cases v) (auto simp: or_zero_def)

lemma account_paths:
  "path_label a \<Longrightarrow> parsePath (getAccountNoncePath a) = [''accounts'', a, ''nonce'']"
  "path_label a \<Longrightarrow> parsePath (getAccountTimestampPath a) = [''accounts'', a, ''timestamp'']"
  by (simp_all add: getAccountNoncePath_def getAccountTimestampPath_def getAccountPath_def
      parsePath_under path_label_def)

interpretation ledger: account_ledger accountNonceAndTimestamp updateAccountNonceAndTimestampToStateRoot path_label
proof
  fix a b s n t
  assume a: "path_label a"
  have p: "parsePath (getAccountNoncePath a) \<parallel> parsePath (getAccountTimestampPath a)"
    "parsePath (getAccountTimestampPath a) \<parallel> parsePath (getAccountNoncePath a)"
    by (simp_all add: account_paths [OF a] parallel_Cons)
  show "accountNonceAndTimestamp (updateAccountNonceAndTimestampToStateRoot s a n t) a =
      (if n \<ge> 0 then (n + 1, snd (accountNonceAndTimestamp s a))
       else if n = -2 then (fst (accountNonceAndTimestamp s a), t) else accountNonceAndTimestamp s a)"
    by (simp add: accountNonceAndTimestamp_def getAccountNonceAndTimestampFromStateRoot_def
        updateAccountNonceAndTimestampToStateRoot_def getValue_write getValue_write_other p)
  assume b: "path_label b" and ne: "a \<noteq> b"
  have q: "parsePath (getAccountNoncePath a) \<parallel> parsePath (getAccountNoncePath b)"
    "parsePath (getAccountNoncePath a) \<parallel> parsePath (getAccountTimestampPath b)"
    "parsePath (getAccountTimestampPath a) \<parallel> parsePath (getAccountNoncePath b)"
    "parsePath (getAccountTimestampPath a) \<parallel> parsePath (getAccountTimestampPath b)"
    by (simp_all add: account_paths [OF a] account_paths [OF b] parallel_Cons ne)
  show "accountNonceAndTimestamp (updateAccountNonceAndTimestampToStateRoot s a n t) b = accountNonceAndTimestamp s b"
    by (simp add: accountNonceAndTimestamp_def getAccountNonceAndTimestampFromStateRoot_def
        updateAccountNonceAndTimestampToStateRoot_def getValue_write_other q)
qed

subsection \<open>Properties\<close>

text \<open>
  A value written to the state is read back at its path, and reads at paths of which neither
  is a prefix of the other are not affected, whatever the tree held before. This is so for every
  value without empty objects and without meta labels (those starting with \<open>#\<close>), which the code
  drops.
\<close>

theorem state_write_read:
  assumes "state_value v"
  shows "getValueFromStateRoot (writeToStateRoot rt (getFullPath (parsePath s) ''values'') v) s = v \<and>
    (parsePath s \<parallel> parsePath t \<longrightarrow>
       getValueFromStateRoot (writeToStateRoot rt (getFullPath (parsePath s) ''values'') v) t = getValueFromStateRoot rt t)"
  using assms getValue_write getValue_write_other by simp

theorem state_write_read_witness:
  "getValueFromStateRoot (writeToStateRoot (SLeaf JNull) [''values'', ''a''] (JObj [(''x'', JNum 1), (''y'', JNull)])) ''/a''
    = JObj [(''x'', JNum 1), (''y'', JNull)]"
proof -
  have "state_value (JObj [(''x'', JNum 1), (''y'', JNull)])" by (simp add: is_meta_label_def isPrefixedLabel_def)
  note r = state_write_read [OF this, of "SLeaf JNull" "''/a''"]
  show ?thesis using r by (simp add: parsePath_def getFullPath_def del: putTree.simps)
qed

text \<open>
  C11. Writing \<open>null\<close> deletes, and empty nodes do not pile up: after a write of \<open>null\<close> there is no
  node at the path or below it, and after any write no node on the way to the written path is an
  empty one, since a node that loses its last child is removed with it.
\<close>

theorem write_prunes_empty_nodes:
  assumes "p \<noteq> []"
  shows "getRefForReadingFromStateRoot (writeToStateRoot rt p JNull) (p @ q) = None \<and>
    (\<forall>a. prefix a p \<and> a \<noteq> [] \<longrightarrow> getRefForReadingFromStateRoot (writeToStateRoot rt p v) a \<noteq> Some (SLeaf JNull))"
  using assms ref_putTree_below [of p rt "SLeaf JNull" q] ref_putTree_prefix [of _ p rt "fromStateSnapshot v"]
  by (simp add: writeToStateRoot_def isEmptyNode_def emptySNode_def)

theorem write_prunes_empty_nodes_witness:
  "getRefForReadingFromStateRoot (writeToStateRoot (SNode [(''values'', SNode [(''a'', SLeaf (JNum 1))])]) [''values'', ''a''] JNull)
     [''values''] \<noteq> Some (SLeaf JNull)"
  using write_prunes_empty_nodes [of "[''values'', ''a'']" "SNode [(''values'', SNode [(''a'', SLeaf (JNum 1))])]" "[]" JNull]
  by (metis list.discI append_Cons append_Nil prefixI)

text \<open>
  Executing a transaction of an account moves exactly that account on: a numbered nonce sets
  the account's nonce to its successor and keeps the timestamp, an ordered transaction (nonce -2)
  sets the timestamp and keeps the nonce, an unordered one changes nothing, and other accounts keep
  both.
\<close>

theorem account_nonce_and_timestamp_updated:
  assumes "\<forall>x\<in>{a, b}. x \<noteq> [] \<and> CHR ''/'' \<notin> set x"
  shows "accountNonceAndTimestamp (updateAccountNonceAndTimestampToStateRoot rt a n t) b =
    (if a \<noteq> b \<or> n < 0 \<and> n \<noteq> -2 then accountNonceAndTimestamp rt b
     else if n \<ge> 0 then (n + 1, snd (accountNonceAndTimestamp rt b))
     else (fst (accountNonceAndTimestamp rt b), t))"
  using assms ledger.account_record [of a rt n t] ledger.account_other [of a b rt n t]
  by (cases "a = b") (auto simp: path_label_def)

theorem account_nonce_and_timestamp_updated_witness:
  "accountNonceAndTimestamp (updateAccountNonceAndTimestampToStateRoot (SLeaf JNull) ''0xA'' 0 7) ''0xA'' =
    (1, snd (accountNonceAndTimestamp (SLeaf JNull) ''0xA''))"
  by (subst account_nonce_and_timestamp_updated) simp_all

end
