(* ===== verification/TxSelection.thy ===== *)
theory TxSelection
  imports TxPoolInv StateTree
begin

text \<open>
  The choice of transactions for the next block, \<open>tx-pool/index.js\<close>: filtering and sorting per
  address, the check of nonces and timestamps against a temporary state, the merge of the lists
  by priority and the bandwidth budgets. The sort of JavaScript arrays is the parameter \<open>sortBy\<close>, of
  which only that it permutes its argument is used; the flag and the budgets come from a record.
\<close>

definition isCorrectlyNoncedOrTimestamped :: "rat \<Rightarrow> rat \<Rightarrow> rat \<Rightarrow> rat \<Rightarrow> bool" where
  "isCorrectlyNoncedOrTimestamped txNonce txTimestamp accountNonce accountTimestamp =
     (txNonce = -1 \<or> (txNonce = -2 \<and> txTimestamp > accountTimestamp) \<or> txNonce = accountNonce)"

definition not_consensus_ref :: "jsval \<Rightarrow> bool" where
  "not_consensus_ref r = (case r of JStr s \<Rightarrow> s \<noteq> [] \<and> take 17 s \<noteq> ''/consensus/number'' | _ \<Rightarrow> False)"

definition excludeConsensusTransactions :: "transaction list \<Rightarrow> transaction list" where
  "excludeConsensusTransactions txList = filter (\<lambda>tx.
     let type = js_get (tx_body tx) [Key ''operation'', Key ''type''] JUndef
     in if type \<noteq> JStr ''SET_VALUE'' \<and> type \<noteq> JStr ''SET'' then True
        else not_consensus_ref (js_get (tx_body tx) [Key ''operation'', Key ''ref''] JUndef)
          \<or> not_consensus_ref (js_get (tx_body tx) [Key ''operation'', Key ''op_list'', Idx 0, Key ''ref''] JUndef)) txList"

text \<open>The comparison passed to \<open>sort\<close>.\<close>

definition compareTxs :: "transaction \<Rightarrow> transaction \<Rightarrow> rat" where
  "compareTxs a b =
     (if tx_nonce a = tx_nonce b then (if tx_nonce a \<ge> 0 then 0 else tx_timestamp a - tx_timestamp b)
      else if tx_nonce a \<ge> 0 \<and> tx_nonce b \<ge> 0 then tx_nonce a - tx_nonce b
      else 0)"

type_synonym tx_sorter = "(transaction \<Rightarrow> transaction \<Rightarrow> rat) \<Rightarrow> transaction list \<Rightarrow> transaction list"

definition filterAndSortTransactions ::
  "tx_sorter \<Rightarrow> (string \<times> transaction list) list \<Rightarrow> block list \<Rightarrow> (string \<times> transaction list) list" where
  "filterAndSortTransactions sortBy addrToTxList excludeBlockList =
     (let excludeTransactions = concat (map (\<lambda>b. b_last_votes b @ b_transactions b) excludeBlockList);
          f = (\<lambda>txList. excludeConsensusTransactions
                 (filter (\<lambda>a. \<not> list_ex (\<lambda>b. tx_hash a = tx_hash b) excludeTransactions) txList))
      in map (\<lambda>(address, txList). (address, sortBy compareTxs (f txList)))
           (filter (\<lambda>(address, txList). f txList \<noteq> []) addrToTxList))"

subsection \<open>Nonces and timestamps\<close>

text \<open>The loop over the list of one address, and the loop over the addresses.\<close>

fun selectCorrectlyNonced ::
  "('s \<Rightarrow> string \<Rightarrow> rat \<times> rat) \<Rightarrow> ('s \<Rightarrow> string \<Rightarrow> rat \<Rightarrow> rat \<Rightarrow> 's) \<Rightarrow> string \<Rightarrow>
   transaction list \<Rightarrow> 's \<Rightarrow> transaction list \<times> 's" where
  "selectCorrectlyNonced account update addr [] s = ([], s)"
| "selectCorrectlyNonced account update addr (tx # txs) s =
     (let (accountNonce, accountTimestamp) = account s addr
      in if isCorrectlyNoncedOrTimestamped (tx_nonce tx) (tx_timestamp tx) accountNonce accountTimestamp
         then let (newTxList, s') = selectCorrectlyNonced account update addr txs
                                      (update s addr (tx_nonce tx) (tx_timestamp tx))
              in (tx # newTxList, s')
         else selectCorrectlyNonced account update addr txs s)"

fun selectForAddresses ::
  "('s \<Rightarrow> string \<Rightarrow> rat \<times> rat) \<Rightarrow> ('s \<Rightarrow> string \<Rightarrow> rat \<Rightarrow> rat \<Rightarrow> 's) \<Rightarrow>
   (string \<times> transaction list) list \<Rightarrow> 's \<Rightarrow> (string \<times> transaction list) list \<times> 's" where
  "selectForAddresses account update [] s = ([], s)"
| "selectForAddresses account update ((addr, txList) # rest) s =
     (let (newTxList, s') = selectCorrectlyNonced account update addr txList s;
          (selected, s'') = selectForAddresses account update rest s'
      in ((addr, newTxList) # selected, s''))"

subsection \<open>Merging\<close>

definition tx_extra_get :: "transaction \<Rightarrow> path_key list \<Rightarrow> jsval \<Rightarrow> jsval" where
  "tx_extra_get tx path dflt = js_get (JObj (tx_extra tx)) path dflt"

definition isServiceTx :: "transaction \<Rightarrow> bool" where
  "isServiceTx tx = truthy (tx_extra_get tx [Key ''gas'', Key ''bandwidth'', Key ''service''] (JBool False))"

definition tx_gas_price :: "transaction \<Rightarrow> rat" where
  "tx_gas_price tx = numberOrZero (prop_get (tx_body tx) ''gas_price'')"

text \<open>Whether the first of two transactions goes first.\<close>

definition takesFirst :: "transaction \<Rightarrow> transaction \<Rightarrow> bool" where
  "takesFirst tx1 tx2 =
     (if isServiceTx tx1 \<and> isServiceTx tx2 then tx_gas_price tx1 > tx_gas_price tx2
      else if \<not> isServiceTx tx1 \<and> \<not> isServiceTx tx2 then tx_timestamp tx1 < tx_timestamp tx2
      else isServiceTx tx1)"

fun mergeTwoSortedArrays :: "transaction list \<Rightarrow> transaction list \<Rightarrow> transaction list" where
  "mergeTwoSortedArrays (tx1 # txs1) (tx2 # txs2) =
     (if takesFirst tx1 tx2 then tx1 # mergeTwoSortedArrays txs1 (tx2 # txs2)
      else tx2 # mergeTwoSortedArrays (tx1 # txs1) txs2)"
| "mergeTwoSortedArrays [] arr2 = arr2"
| "mergeTwoSortedArrays arr1 [] = arr1"

fun mergePairs :: "transaction list list \<Rightarrow> transaction list list" where
  "mergePairs (a1 # a2 # arrays) = mergeTwoSortedArrays a1 a2 # mergePairs arrays"
| "mergePairs [a1] = [a1]"
| "mergePairs [] = []"

lemma length_mergePairs: "length (mergePairs arrays) = (length arrays + 1) div 2"
  by (induction arrays rule: mergePairs.induct) simp_all

function mergeMultipleSortedArrays :: "transaction list list \<Rightarrow> transaction list" where
  "mergeMultipleSortedArrays arrays =
     (if length arrays > 1 then mergeMultipleSortedArrays (mergePairs arrays)
      else if length arrays = 1 then hd arrays else [])"
  by auto
termination
  by (relation "measure length") (simp_all add: length_mergePairs)

declare mergeMultipleSortedArrays.simps [simp del]

subsection \<open>Bandwidth\<close>

record bandwidth_budgets =
  bb_service :: rat
  bb_apps :: rat
  bb_free :: rat

definition getBandwidthBudgets :: "rat \<Rightarrow> rat \<Rightarrow> rat \<Rightarrow> rat \<Rightarrow> bandwidth_budgets" where
  "getBandwidthBudgets perBlock serviceRatio appsRatio freeRatio =
     \<lparr>bb_service = perBlock * serviceRatio, bb_apps = perBlock * appsRatio, bb_free = perBlock * freeRatio\<rparr>"

definition getAppBandwidthAllocated :: "snode \<Rightarrow> rat \<Rightarrow> string \<Rightarrow> rat \<Rightarrow> rat" where
  "getAppBandwidthAllocated db appStakesTotal appName appsBandwidthBudgetPerBlock =
     (let appStake = numberOrZero (getAppStakeFromStateRoot db appName)
      in if appStakesTotal > 0 then appsBandwidthBudgetPerBlock * appStake / appStakesTotal else 0)"

definition service_bandwidth :: "transaction \<Rightarrow> rat" where
  "service_bandwidth tx = numberOrZero (tx_extra_get tx [Key ''gas'', Key ''bandwidth'', Key ''service''] (JNum 0))"

definition app_bandwidth :: "transaction \<Rightarrow> (string \<times> rat) list" where
  "app_bandwidth tx =
     (case tx_extra_get tx [Key ''gas'', Key ''bandwidth'', Key ''app''] JNull of
        JObj kvs \<Rightarrow> map (\<lambda>(k, v). (k, numberOrZero v)) kvs
      | _ \<Rightarrow> [])"

text \<open>
  The loop over the apps of one transaction: \<open>None\<close> when the transaction is skipped, otherwise the
  new sum of the free tier. The entries of \<open>appBandwidth\<close> have different names.
\<close>

fun checkAppBandwidth ::
  "(string \<Rightarrow> rat) \<Rightarrow> rat \<Rightarrow> (string \<times> rat) list \<Rightarrow> (string \<times> rat) list \<Rightarrow> (string \<times> rat) list \<Rightarrow> rat \<Rightarrow> rat option" where
  "checkAppBandwidth allocated freeBudget appSum tempSum [] tempFree = Some tempFree"
| "checkAppBandwidth allocated freeBudget appSum tempSum ((appName, bandwidth) # rest) tempFree =
     (let curr = app_gas appSum appName + app_gas tempSum appName;
          tempSum' = AList.update appName bandwidth tempSum
      in if curr + bandwidth > allocated appName then
           (if allocated appName = 0 \<and> tempFree + bandwidth \<le> freeBudget
            then checkAppBandwidth allocated freeBudget appSum tempSum' rest (tempFree + bandwidth)
            else None)
         else checkAppBandwidth allocated freeBudget appSum tempSum' rest tempFree)"

record bandwidth_state =
  bs_service :: rat
  bs_free :: rat
  bs_app :: "(string \<times> rat) list"
  bs_discardedNonced :: "string set"
  bs_candidates :: "transaction list"

definition discardTx :: "transaction \<Rightarrow> bandwidth_state \<Rightarrow> bandwidth_state" where
  "discardTx tx st =
     (if tx_nonce tx \<ge> 0 then st\<lparr>bs_discardedNonced := insert (tx_address tx) (bs_discardedNonced st)\<rparr> else st)"

definition checkBandwidthStep ::
  "bandwidth_budgets \<Rightarrow> (string \<Rightarrow> rat) \<Rightarrow> bandwidth_state \<Rightarrow> transaction \<Rightarrow> bandwidth_state" where
  "checkBandwidthStep bb allocated st tx =
     (if tx_address tx \<in> bs_discardedNonced st \<and> tx_nonce tx \<ge> 0 then st
      else if service_bandwidth tx \<noteq> 0 \<and> bs_service st + service_bandwidth tx > bb_service bb
      then discardTx tx st
      else
        let st1 = st\<lparr>bs_service := bs_service st + service_bandwidth tx\<rparr>
        in case checkAppBandwidth allocated (bb_free bb) (bs_app st1) [] (app_bandwidth tx) (bs_free st1) of
             None \<Rightarrow> discardTx tx st1
           | Some free \<Rightarrow>
               st1\<lparr>bs_free := free, bs_app := mergeNumericJsObjects (bs_app st1) (app_bandwidth tx),
                   bs_candidates := bs_candidates st1 @ [tx]\<rparr>)"

definition performBandwidthChecks :: "bandwidth_budgets \<Rightarrow> (string \<Rightarrow> rat) \<Rightarrow> transaction list \<Rightarrow> transaction list" where
  "performBandwidthChecks bb allocated txList =
     bs_candidates (foldl (checkBandwidthStep bb allocated)
       \<lparr>bs_service = 0, bs_free = 0, bs_app = [], bs_discardedNonced = {}, bs_candidates = []\<rparr> txList)"

subsection \<open>Putting it together\<close>

definition getValidTransactions ::
  "tx_sorter \<Rightarrow> (snode \<Rightarrow> string) \<Rightarrow> bool \<Rightarrow> bandwidth_budgets \<Rightarrow> block list \<Rightarrow> snode \<Rightarrow> tx_pool \<Rightarrow> transaction list" where
  "getValidTransactions sortBy ph enableTxBandwidthCheckPerBlock bb excludeBlockList tempDb p =
     (let addrToTxList = filterAndSortTransactions sortBy (tp_transactions p) excludeBlockList;
          (selected, tempDb') =
            selectForAddresses accountNonceAndTimestamp updateAccountNonceAndTimestampToStateRoot addrToTxList tempDb;
          merged = mergeMultipleSortedArrays (map snd selected)
      in if \<not> enableTxBandwidthCheckPerBlock then merged
         else performBandwidthChecks bb
                (\<lambda>appName. getAppBandwidthAllocated tempDb' (getAppStakesTotalFromStateRoot ph tempDb') appName (bb_apps bb))
                merged)"

subsection \<open>The merge\<close>

lemma mset_mergeTwo [simp]: "mset (mergeTwoSortedArrays xs ys) = mset xs + mset ys"
  by (induction xs ys rule: mergeTwoSortedArrays.induct) simp_all

lemma set_mergeTwo [simp]: "set (mergeTwoSortedArrays xs ys) = set xs \<union> set ys"
  by (induction xs ys rule: mergeTwoSortedArrays.induct) auto

lemma filter_mergeTwo:
  "(\<forall>y\<in>set ys. \<not> P y) \<Longrightarrow> filter P (mergeTwoSortedArrays xs ys) = filter P xs"
  "(\<forall>x\<in>set xs. \<not> P x) \<Longrightarrow> filter P (mergeTwoSortedArrays xs ys) = filter P ys"
  by (induction xs ys rule: mergeTwoSortedArrays.induct) (simp_all add: filter_False)

lemma subseq_mergeTwo:
  "subseq xs (mergeTwoSortedArrays xs ys)" "subseq ys (mergeTwoSortedArrays xs ys)"
  by (induction xs ys rule: mergeTwoSortedArrays.induct) (auto dest: subseq_Cons')

lemma mset_mergePairs [simp]: "mset (concat (mergePairs arrays)) = mset (concat arrays)"
  by (induction arrays rule: mergePairs.induct) simp_all

lemma subseq_mergePairs: "xs \<in> set arrays \<Longrightarrow> \<exists>ys\<in>set (mergePairs arrays). subseq xs ys"
proof (induction arrays rule: mergePairs.induct)
  case (1 a1 a2 arrays)
  then show ?case using subseq_mergeTwo by auto
qed simp_all

text \<open>A predicate that holds in one list at most selects that list's elements in their order.\<close>

fun in_one :: "('a \<Rightarrow> bool) \<Rightarrow> 'a list list \<Rightarrow> bool" where
  "in_one P [] = True"
| "in_one P (a # arrays) =
     ((\<forall>x\<in>set (concat arrays). \<not> P x) \<or> (\<forall>x\<in>set a. \<not> P x) \<and> in_one P arrays)"

lemma in_one_none: "\<forall>x\<in>set (concat arrays). \<not> P x \<Longrightarrow> in_one P arrays"
  by (cases arrays) simp_all

lemma in_one_mergePairs:
  "in_one P arrays \<Longrightarrow> in_one P (mergePairs arrays) \<and> filter P (concat (mergePairs arrays)) = filter P (concat arrays)"
proof (induction arrays rule: mergePairs.induct)
  case (1 a1 a2 arrays)
  have s: "set (concat (mergePairs arrays)) = set (concat arrays)"
    using mset_eq_setD [OF mset_mergePairs [of arrays]] .
  have "(\<forall>x\<in>set a1. \<not> P x) \<or> (\<forall>x\<in>set a2. \<not> P x)" using "1.prems" by auto
  then have f: "filter P (mergeTwoSortedArrays a1 a2) = filter P a1 @ filter P a2"
    using filter_mergeTwo [where P = P and xs = a1 and ys = a2] by (auto simp: filter_False)
  have "in_one P arrays" using "1.prems" in_one_none [of arrays P] by auto
  then show ?case using "1.IH" "1.prems" f s by auto
qed simp_all

lemma mergeMultiple_base [simp]: "mergeMultipleSortedArrays [] = []" "mergeMultipleSortedArrays [a] = a"
  by (subst mergeMultipleSortedArrays.simps; simp)+

lemma mset_mergeMultiple: "mset (mergeMultipleSortedArrays arrays) = mset (concat arrays)"
proof (induction arrays rule: mergeMultipleSortedArrays.induct)
  case (1 arrays)
  show ?case
  proof (cases "length arrays > 1")
    case True
    then show ?thesis using 1 by (subst mergeMultipleSortedArrays.simps) simp
  next
    case False
    then show ?thesis by (cases arrays) auto
  qed
qed

lemma subseq_mergeMultiple: "xs \<in> set arrays \<Longrightarrow> subseq xs (mergeMultipleSortedArrays arrays)"
proof (induction arrays arbitrary: xs rule: mergeMultipleSortedArrays.induct)
  case (1 arrays)
  show ?case
  proof (cases "length arrays > 1")
    case True
    obtain ys where "ys \<in> set (mergePairs arrays)" "subseq xs ys" using subseq_mergePairs [OF "1.prems"] by blast
    then have "subseq xs (mergeMultipleSortedArrays (mergePairs arrays))"
      using "1.IH" [OF True] subseq_order.trans by blast
    then show ?thesis using True by (simp add: mergeMultipleSortedArrays.simps [of arrays])
  next
    case False
    then show ?thesis using "1.prems" by (cases arrays) auto
  qed
qed

lemma filter_mergeMultiple:
  "in_one P arrays \<Longrightarrow> filter P (mergeMultipleSortedArrays arrays) = filter P (concat arrays)"
proof (induction arrays rule: mergeMultipleSortedArrays.induct)
  case (1 arrays)
  show ?case
  proof (cases "length arrays > 1")
    case True
    then show ?thesis
      using "1.IH" [OF True] in_one_mergePairs [OF "1.prems"] by (simp add: mergeMultipleSortedArrays.simps [of arrays])
  next
    case False
    then show ?thesis by (cases arrays) auto
  qed
qed

subsection \<open>Nonces and timestamps\<close>

abbreviation numbered :: "transaction \<Rightarrow> bool" where
  "numbered tx \<equiv> tx_nonce tx \<ge> 0"

abbreviation ordered :: "transaction \<Rightarrow> bool" where
  "ordered tx \<equiv> tx_nonce tx = -2"

text \<open>Numbers that count up from a start, and times that grow from one.\<close>

definition counts_from :: "rat \<Rightarrow> rat list \<Rightarrow> bool" where
  "counts_from n xs \<longleftrightarrow> xs = map (\<lambda>i. n + of_nat i) [0..<length xs]"

lemma counts_from_simps [simp]: "counts_from n []" "counts_from n (x # xs) \<longleftrightarrow> x = n \<and> counts_from (n + 1) xs"
proof -
  have "map (\<lambda>i. n + of_nat i) [0..<Suc (length xs)] = n # map (\<lambda>i. n + 1 + of_nat i) [0..<length xs]"
    by (simp add: upt_rec [of 0] map_Suc_upt [symmetric] comp_def algebra_simps del: upt_Suc)
  then show "counts_from n (x # xs) \<longleftrightarrow> x = n \<and> counts_from (n + 1) xs"
    by (simp add: counts_from_def)
qed (simp add: counts_from_def)

lemma counts_from_prefix: "counts_from n ys \<Longrightarrow> prefix xs ys \<Longrightarrow> counts_from n xs"
proof (induction xs arbitrary: n ys)
  case (Cons x xs)
  then show ?case by (cases ys) auto
qed simp

context account_ledger begin

lemma select_one:
  assumes "valid a" and "fst (account s a) \<ge> 0" and "selectCorrectlyNonced account record_tx a txs s = (sel, s')"
  shows "counts_from (fst (account s a)) (map tx_nonce (filter numbered sel))"
    and "sorted_wrt (<) (snd (account s a) # map tx_timestamp (filter ordered sel))"
    and "subseq sel txs"
    and "valid b \<Longrightarrow> b \<noteq> a \<Longrightarrow> account s' b = account s b"
proof -
  have "counts_from (fst (account s a)) (map tx_nonce (filter numbered sel)) \<and>
    sorted_wrt (<) (snd (account s a) # map tx_timestamp (filter ordered sel)) \<and> subseq sel txs \<and>
    (valid b \<longrightarrow> b \<noteq> a \<longrightarrow> account s' b = account s b)"
    using assms(2,3)
  proof (induction txs arbitrary: s sel)
    case (Cons tx txs)
    obtain n t where acc: "account s a = (n, t)" by fastforce
    show ?case
    proof (cases "isCorrectlyNoncedOrTimestamped (tx_nonce tx) (tx_timestamp tx) n t")
      case False
      then show ?thesis using Cons.IH [of s sel] Cons.prems by (auto simp: acc)
    next
      case True
      let ?s = "record_tx s a (tx_nonce tx) (tx_timestamp tx)"
      obtain sel1 where sel: "sel = tx # sel1" "selectCorrectlyNonced account record_tx a txs ?s = (sel1, s')"
        using Cons.prems True by (auto simp: acc split: prod.splits)
      have a: "account ?s a = (if tx_nonce tx \<ge> 0 then (tx_nonce tx + 1, t) else if tx_nonce tx = -2 then (n, tx_timestamp tx) else (n, t))"
        using account_record [OF assms(1)] by (simp add: acc)
      have "fst (account ?s a) \<ge> 0" using Cons.prems(1) by (simp add: a acc)
      note ih = Cons.IH [OF this sel(2)]
      have "tx_nonce tx \<ge> 0 \<Longrightarrow> tx_nonce tx = n" "tx_nonce tx = -2 \<Longrightarrow> t < tx_timestamp tx"
        using True Cons.prems(1) by (auto simp: isCorrectlyNoncedOrTimestamped_def acc)
      then show ?thesis
        using ih account_other [OF assms(1), of b s "tx_nonce tx" "tx_timestamp tx"]
        by (auto simp: sel(1) a acc dest: order_less_trans)
    qed
  qed simp
  then show "counts_from (fst (account s a)) (map tx_nonce (filter numbered sel))"
    "sorted_wrt (<) (snd (account s a) # map tx_timestamp (filter ordered sel))" "subseq sel txs"
    "valid b \<Longrightarrow> b \<noteq> a \<Longrightarrow> account s' b = account s b"
    by blast+
qed

lemma select_all:
  assumes "\<forall>a\<in>fst ` set entries. valid a \<and> fst (account s a) \<ge> 0" and "distinct (map fst entries)"
    and "selectForAddresses account record_tx entries s = (sel, s')"
  shows "map fst sel = map fst entries" and "(a, l) \<in> set sel \<Longrightarrow>
    counts_from (fst (account s a)) (map tx_nonce (filter numbered l)) \<and>
    sorted_wrt (<) (snd (account s a) # map tx_timestamp (filter ordered l)) \<and>
    (\<exists>l'. (a, l') \<in> set entries \<and> subseq l l')"
proof -
  have "map fst sel = map fst entries \<and> (\<forall>(a, l)\<in>set sel.
    counts_from (fst (account s a)) (map tx_nonce (filter numbered l)) \<and>
    sorted_wrt (<) (snd (account s a) # map tx_timestamp (filter ordered l)) \<and>
    (\<exists>l'. (a, l') \<in> set entries \<and> subseq l l'))"
    using assms
  proof (induction entries arbitrary: s sel)
    case (Cons e entries)
    obtain a l where e: "e = (a, l)" by fastforce
    obtain l1 s1 where one: "selectCorrectlyNonced account record_tx a l s = (l1, s1)" by fastforce
    obtain sel1 where rest: "selectForAddresses account record_tx entries s1 = (sel1, s')" "sel = (a, l1) # sel1"
      using Cons.prems(3) by (auto simp: e one split: prod.splits)
    have va: "valid a" "fst (account s a) \<ge> 0" using Cons.prems by (auto simp: e)
    note o = select_one [OF va one]
    have same: "account s1 b = account s b" if "b \<in> fst ` set entries" for b
      using o(4) [of b] that Cons.prems(1,2) by (force simp: e)
    have v: "\<forall>b\<in>fst ` set entries. valid b \<and> fst (account s1 b) \<ge> 0" using Cons.prems(1) same by (simp add: e)
    note ih = Cons.IH [OF v _ rest(1)]
    have m: "map fst sel1 = map fst entries" using ih Cons.prems(2) by simp
    have "(b, k) \<in> set sel1 \<Longrightarrow> b \<in> fst ` set entries" for b k
      using m by (metis fst_conv image_eqI set_map)
    then show ?case
      using ih m same o(1-3) Cons.prems(2) by (fastforce simp: rest(2) e)
  qed simp
  then show "map fst sel = map fst entries" "(a, l) \<in> set sel \<Longrightarrow>
    counts_from (fst (account s a)) (map tx_nonce (filter numbered l)) \<and>
    sorted_wrt (<) (snd (account s a) # map tx_timestamp (filter ordered l)) \<and>
    (\<exists>l'. (a, l') \<in> set entries \<and> subseq l l')"
    by blast+
qed

end

subsection \<open>Bandwidth\<close>

lemma app_gas_merge:
  "distinct (map fst m2) \<Longrightarrow> app_gas (mergeNumericJsObjects m1 m2) a = app_gas m1 a + app_gas m2 a"
  by (rule merge_foldl)

definition bandwidth_ok :: "transaction \<Rightarrow> bool" where
  "bandwidth_ok tx \<longleftrightarrow> service_bandwidth tx \<ge> 0 \<and> distinct (map fst (app_bandwidth tx)) \<and>
     (\<forall>(a, v)\<in>set (app_bandwidth tx). v \<ge> 0)"

lemma checkApp_None_or_fits:
  assumes "checkAppBandwidth allocated freeBudget appSum tempSum entries tempFree = Some free"
    and "distinct (map fst entries)" and "\<forall>(a, v)\<in>set entries. v \<ge> 0" and "\<forall>a\<in>fst ` set entries. app_gas tempSum a = 0"
    and "\<forall>a. allocated a \<ge> 0" and "\<forall>a. app_gas appSum a \<ge> 0" and "tempFree \<le> freeBudget"
  shows "tempFree \<le> free \<and> free \<le> freeBudget \<and>
    (\<forall>(a, v)\<in>set entries. allocated a > 0 \<longrightarrow> app_gas appSum a + v \<le> allocated a) \<and>
    (\<Sum>(a, v)\<leftarrow>entries. if allocated a = 0 then v else 0) \<le> free - tempFree"
  using assms
proof (induction allocated freeBudget appSum tempSum entries tempFree rule: checkAppBandwidth.induct)
  case (2 allocated freeBudget appSum tempSum a v rest tempFree)
  have t: "app_gas tempSum a = 0" using "2.prems"(4) by simp
  have t': "\<forall>b\<in>fst ` set rest. app_gas (AList.update a v tempSum) b = 0"
    using "2.prems"(2,4) by (auto simp: app_gas_def update_conv')
  have r: "distinct (map fst rest)" "\<forall>(a, v)\<in>set rest. v \<ge> 0" "v \<ge> 0" using "2.prems"(2,3) by auto
  have g: "app_gas appSum a \<ge> 0" "allocated a \<ge> 0" using "2.prems"(5,6) by blast+
  show ?case
  proof (cases "app_gas appSum a + v > allocated a")
    case True
    then have z: "allocated a = 0" "tempFree + v \<le> freeBudget"
      and c: "checkAppBandwidth allocated freeBudget appSum (AList.update a v tempSum) rest (tempFree + v) = Some free"
      using "2.prems"(1) by (simp_all add: t Let_def split: if_splits)
    show ?thesis
      using "2.IH"(1) [of "app_gas appSum a + app_gas tempSum a" "AList.update a v tempSum"] True z c t t' r "2.prems"(5,6)
      by auto
  next
    case False
    then have c: "checkAppBandwidth allocated freeBudget appSum (AList.update a v tempSum) rest tempFree = Some free"
      using "2.prems"(1) by (simp add: t Let_def)
    have "allocated a = 0 \<Longrightarrow> v = 0" using False g r(3) by simp
    then show ?thesis
      using "2.IH"(2) [of "app_gas appSum a + app_gas tempSum a" "AList.update a v tempSum"] False c t t' r "2.prems"(5,6,7)
      by auto
  qed
qed simp

definition service_sum :: "transaction list \<Rightarrow> rat" where
  "service_sum txs = (\<Sum>tx\<leftarrow>txs. service_bandwidth tx)"

definition app_sum :: "string \<Rightarrow> transaction list \<Rightarrow> rat" where
  "app_sum a txs = (\<Sum>tx\<leftarrow>txs. app_gas (app_bandwidth tx) a)"

definition free_sum :: "(string \<Rightarrow> rat) \<Rightarrow> transaction list \<Rightarrow> rat" where
  "free_sum allocated txs = (\<Sum>tx\<leftarrow>txs. \<Sum>(a, v)\<leftarrow>app_bandwidth tx. if allocated a = 0 then v else 0)"

lemma sum_simps [simp]:
  "service_sum [] = 0" "service_sum (xs @ [tx]) = service_sum xs + service_bandwidth tx"
  "app_sum a [] = 0" "app_sum a (xs @ [tx]) = app_sum a xs + app_gas (app_bandwidth tx) a"
  "free_sum al [] = 0"
  "free_sum al (xs @ [tx]) = free_sum al xs + (\<Sum>(a, v)\<leftarrow>app_bandwidth tx. if al a = 0 then v else 0)"
  by (simp_all add: service_sum_def app_sum_def free_sum_def)

definition bandwidth_inv :: "bandwidth_budgets \<Rightarrow> (string \<Rightarrow> rat) \<Rightarrow> bandwidth_state \<Rightarrow> bool" where
  "bandwidth_inv bb al st \<longleftrightarrow>
     service_sum (bs_candidates st) \<le> bs_service st \<and> bs_service st \<le> bb_service bb \<and>
     free_sum al (bs_candidates st) \<le> bs_free st \<and> bs_free st \<le> bb_free bb \<and>
     (\<forall>a. app_gas (bs_app st) a = app_sum a (bs_candidates st)) \<and>
     (\<forall>a. app_sum a (bs_candidates st) \<ge> 0) \<and>
     (\<forall>a. al a > 0 \<longrightarrow> app_sum a (bs_candidates st) \<le> al a)"

lemma bandwidth_inv_discard [simp]: "bandwidth_inv bb al (discardTx tx st) = bandwidth_inv bb al st"
  by (simp add: bandwidth_inv_def discardTx_def)

lemma app_gas_entry:
  "distinct (map fst m) \<Longrightarrow> app_gas m a \<noteq> 0 \<Longrightarrow> (a, app_gas m a) \<in> set m"
  by (auto simp: app_gas_def split: option.splits)

lemma bandwidth_inv_step:
  assumes inv: "bandwidth_inv bb al st" and ok: "bandwidth_ok tx" and al: "\<forall>a. al a \<ge> 0"
  shows "bandwidth_inv bb al (checkBandwidthStep bb al st tx)"
proof (cases "(tx_address tx \<in> bs_discardedNonced st \<and> tx_nonce tx \<ge> 0) \<or>
    (service_bandwidth tx \<noteq> 0 \<and> bs_service st + service_bandwidth tx > bb_service bb)")
  case True
  then show ?thesis using inv by (auto simp: checkBandwidthStep_def)
next
  case False
  let ?st = "st\<lparr>bs_service := bs_service st + service_bandwidth tx\<rparr>"
  have b: "service_bandwidth tx \<ge> 0" "distinct (map fst (app_bandwidth tx))" "\<forall>(a, v)\<in>set (app_bandwidth tx). v \<ge> 0"
    using ok by (simp_all add: bandwidth_ok_def)
  have inv1: "bandwidth_inv bb al ?st" using inv False b(1) by (auto simp: bandwidth_inv_def)
  show ?thesis
  proof (cases "checkAppBandwidth al (bb_free bb) (bs_app ?st) [] (app_bandwidth tx) (bs_free ?st)")
    case None
    then show ?thesis using False inv1 by (auto simp: checkBandwidthStep_def Let_def)
  next
    case (Some free)
    have "\<forall>a. app_gas (bs_app ?st) a \<ge> 0" "bs_free ?st \<le> bb_free bb" using inv1 by (simp_all add: bandwidth_inv_def)
    note r = checkApp_None_or_fits [OF Some b(2,3) _ al this]
    have fits: "bs_free ?st \<le> free \<and> free \<le> bb_free bb \<and>
      (\<forall>(a, v)\<in>set (app_bandwidth tx). al a > 0 \<longrightarrow> app_gas (bs_app ?st) a + v \<le> al a) \<and>
      (\<Sum>(a, v)\<leftarrow>app_bandwidth tx. if al a = 0 then v else 0) \<le> free - bs_free ?st"
      by (rule r) (simp add: app_gas_def)
    have nn: "app_gas (app_bandwidth tx) a \<ge> 0" for a
      using app_gas_entry [OF b(2), of a] b(3) by fastforce
    have le: "app_gas (bs_app ?st) a + app_gas (app_bandwidth tx) a \<le> al a" if "al a > 0" for a
    proof (cases "app_gas (app_bandwidth tx) a = 0")
      case True
      then show ?thesis using inv1 that by (simp add: bandwidth_inv_def)
    next
      case False
      then show ?thesis using app_gas_entry [OF b(2) False] fits that by fastforce
    qed
    have "checkBandwidthStep bb al st tx = ?st\<lparr>bs_free := free,
        bs_app := mergeNumericJsObjects (bs_app st) (app_bandwidth tx), bs_candidates := bs_candidates st @ [tx]\<rparr>"
      using False Some by (auto simp: checkBandwidthStep_def Let_def)
    then show ?thesis
      using inv inv1 fits nn le by (simp add: bandwidth_inv_def app_gas_merge [OF b(2)])
  qed
qed

lemma bandwidth_inv_foldl:
  "bandwidth_inv bb al st \<Longrightarrow> \<forall>tx\<in>set txs. bandwidth_ok tx \<Longrightarrow> \<forall>a. al a \<ge> 0 \<Longrightarrow>
    bandwidth_inv bb al (foldl (checkBandwidthStep bb al) st txs)"
  by (induction txs arbitrary: st) (simp_all add: bandwidth_inv_step)

definition of_account :: "string \<Rightarrow> transaction \<Rightarrow> bool" where
  "of_account a tx \<longleftrightarrow> tx_address tx = a \<and> numbered tx"

definition discard_inv :: "transaction list \<Rightarrow> bandwidth_state \<Rightarrow> bool" where
  "discard_inv seen st \<longleftrightarrow> subseq (bs_candidates st) seen \<and>
     (\<forall>a. prefix (filter (of_account a) (bs_candidates st)) (filter (of_account a) seen) \<and>
       (a \<notin> bs_discardedNonced st \<longrightarrow> filter (of_account a) (bs_candidates st) = filter (of_account a) seen))"

lemma step_cases:
  obtains (skip) "tx_address tx \<in> bs_discardedNonced st" "tx_nonce tx \<ge> 0" "checkBandwidthStep bb al st tx = st"
  | (drop) st1 where "bs_candidates st1 = bs_candidates st" "bs_discardedNonced st1 = bs_discardedNonced st"
      "checkBandwidthStep bb al st tx = discardTx tx st1"
  | (keep) "tx_address tx \<notin> bs_discardedNonced st \<or> tx_nonce tx < 0"
      "bs_candidates (checkBandwidthStep bb al st tx) = bs_candidates st @ [tx]"
      "bs_discardedNonced (checkBandwidthStep bb al st tx) = bs_discardedNonced st"
proof (cases "tx_address tx \<in> bs_discardedNonced st \<and> tx_nonce tx \<ge> 0")
  case True
  then show thesis using skip by (simp add: checkBandwidthStep_def)
next
  case False
  let ?st = "st\<lparr>bs_service := bs_service st + service_bandwidth tx\<rparr>"
  show thesis
  proof (cases "service_bandwidth tx \<noteq> 0 \<and> bs_service st + service_bandwidth tx > bb_service bb")
    case True
    then show thesis using drop [of st] False by (auto simp: checkBandwidthStep_def)
  next
    case fits: False
    show thesis
    proof (cases "checkAppBandwidth al (bb_free bb) (bs_app ?st) [] (app_bandwidth tx) (bs_free ?st)")
      case None
      then show thesis using drop [of ?st] False fits by (simp add: checkBandwidthStep_def Let_def)
    next
      case (Some free)
      then show thesis using keep False fits by (auto simp: checkBandwidthStep_def Let_def)
    qed
  qed
qed

lemma discard_inv_step:
  assumes "discard_inv seen st"
  shows "discard_inv (seen @ [tx]) (checkBandwidthStep bb al st tx)"
proof (cases rule: step_cases [where tx = tx and st = st and bb = bb and al = al])
  case skip
  then show ?thesis
    using assms by (auto simp: discard_inv_def of_account_def intro: subseq_order.trans prefix_order.trans)
next
  case (drop st1)
  then show ?thesis
    using assms by (auto simp: discard_inv_def discardTx_def of_account_def)
next
  case keep
  then show ?thesis
    using assms by (auto simp: discard_inv_def of_account_def)
qed

lemma discard_inv_foldl:
  "discard_inv seen st \<Longrightarrow> discard_inv (seen @ txs) (foldl (checkBandwidthStep bb al) st txs)"
proof (induction txs arbitrary: seen st)
  case (Cons tx txs)
  then show ?case using Cons.IH [OF discard_inv_step [OF Cons.prems]] by simp
qed simp

lemma performBandwidthChecks_subseq: "subseq (performBandwidthChecks bb al txs) txs"
  "prefix (filter (of_account a) (performBandwidthChecks bb al txs)) (filter (of_account a) txs)"
proof -
  let ?st = "\<lparr>bs_service = 0, bs_free = 0, bs_app = [], bs_discardedNonced = {}, bs_candidates = []\<rparr>"
  have "discard_inv [] ?st" by (simp add: discard_inv_def)
  from discard_inv_foldl [OF this, of txs bb al]
  show "subseq (performBandwidthChecks bb al txs) txs"
    "prefix (filter (of_account a) (performBandwidthChecks bb al txs)) (filter (of_account a) txs)"
    by (simp_all add: discard_inv_def performBandwidthChecks_def)
qed

subsection \<open>Properties\<close>

text \<open>
  Merging the lists of the addresses loses nothing: the result is a permutation of all the
  transactions, and every list is a subsequence of it, so the order within an address is kept.
\<close>

theorem merge_keeps_all:
  "mset (mergeMultipleSortedArrays arrays) = mset (concat arrays) \<and>
   (\<forall>xs\<in>set arrays. subseq xs (mergeMultipleSortedArrays arrays))"
  using mset_mergeMultiple subseq_mergeMultiple by blast

theorem merge_keeps_all_witness:
  "\<exists>x. x = mergeMultipleSortedArrays [[], []] \<and> mset x = {#}"
  using merge_keeps_all [of "[[], []]"] by simp

text \<open>
  C10. The budgets hold: among the transactions that pass the bandwidth checks, the service
  bandwidth stays within the service budget, the bandwidth of each app with an allocation stays
  within its allocation, and the bandwidth of the apps without one stays, all together, within the
  free budget.
\<close>

theorem bandwidth_within_budgets:
  assumes "\<forall>tx\<in>set txs. service_bandwidth tx \<ge> 0 \<and> distinct (map fst (app_bandwidth tx)) \<and>
      (\<forall>e\<in>set (app_bandwidth tx). snd e \<ge> 0)"
    and "\<forall>a. allocated a \<ge> 0" and "bb_service bb \<ge> 0" and "bb_free bb \<ge> 0"
  shows "(\<Sum>tx\<leftarrow>performBandwidthChecks bb allocated txs. service_bandwidth tx) \<le> bb_service bb \<and>
    (\<forall>a. allocated a > 0 \<longrightarrow>
       (\<Sum>tx\<leftarrow>performBandwidthChecks bb allocated txs. app_gas (app_bandwidth tx) a) \<le> allocated a) \<and>
    (\<Sum>tx\<leftarrow>performBandwidthChecks bb allocated txs.
       \<Sum>(a, v)\<leftarrow>app_bandwidth tx. if allocated a = 0 then v else 0) \<le> bb_free bb"
proof -
  let ?st = "\<lparr>bs_service = 0, bs_free = 0, bs_app = [], bs_discardedNonced = {}, bs_candidates = []\<rparr>"
  have "bandwidth_inv bb allocated ?st" using assms(3,4) by (simp add: bandwidth_inv_def app_gas_def)
  moreover have "\<forall>tx\<in>set txs. bandwidth_ok tx" using assms(1) by (simp add: bandwidth_ok_def case_prod_beta)
  ultimately have "bandwidth_inv bb allocated (foldl (checkBandwidthStep bb allocated) ?st txs)"
    by (rule bandwidth_inv_foldl [OF _ _ assms(2)])
  then show ?thesis
    by (auto simp: bandwidth_inv_def performBandwidthChecks_def service_sum_def app_sum_def free_sum_def)
qed

theorem bandwidth_within_budgets_witness:
  "(\<Sum>tx\<leftarrow>performBandwidthChecks \<lparr>bb_service = 5, bb_apps = 1, bb_free = 1\<rparr> (\<lambda>a. 0)
      [\<lparr>tx_body = txBody1, tx_signature = JStr ''0x'', tx_hash = ''0xab'', tx_address = ''0xA'',
        tx_extra = [(''gas'', JObj [(''bandwidth'', JObj [(''service'', JNum 7), (''app'', JObj [])])])]\<rparr>].
      service_bandwidth tx) \<le> (5::rat)"
  using bandwidth_within_budgets [of "[\<lparr>tx_body = txBody1, tx_signature = JStr ''0x'', tx_hash = ''0xab'', tx_address = ''0xA'',
      tx_extra = [(''gas'', JObj [(''bandwidth'', JObj [(''service'', JNum 7), (''app'', JObj [])])])]\<rparr>]"
      "\<lambda>a. 0" "\<lparr>bb_service = 5, bb_apps = 1, bb_free = 1\<rparr>"]
  by (simp add: service_bandwidth_def app_bandwidth_def tx_extra_get_def js_get_def)

text \<open>
  Dropping a transaction for lack of bandwidth does not leave a gap in the nonces: the
  selected transactions are a subsequence of the given ones, and the selected numbered
  transactions of an address are an initial part of those given.
\<close>

theorem bandwidth_checks_leave_no_gap:
  "subseq (performBandwidthChecks bb allocated txs) txs \<and>
   prefix (filter (\<lambda>tx. tx_address tx = a \<and> tx_nonce tx \<ge> 0) (performBandwidthChecks bb allocated txs))
     (filter (\<lambda>tx. tx_address tx = a \<and> tx_nonce tx \<ge> 0) txs)"
  using performBandwidthChecks_subseq(1) [of bb allocated txs]
    performBandwidthChecks_subseq(2) [where bb = bb and al = allocated and txs = txs and a = a]
  by (simp add: of_account_def [abs_def])

lemma in_one_entries:
  "distinct (map fst ls) \<Longrightarrow> (\<forall>(a, l)\<in>set ls. \<forall>x\<in>set l. key x = a) \<Longrightarrow> (\<forall>x. P x \<longrightarrow> key x = b) \<Longrightarrow>
    in_one P (map snd ls) \<and> (filter P (concat (map snd ls)) = [] \<or>
      (\<exists>l. (b, l) \<in> set ls \<and> filter P (concat (map snd ls)) = filter P l))"
proof (induction ls)
  case (Cons e ls)
  obtain a l where e: "e = (a, l)" by fastforce
  have ih: "in_one P (map snd ls) \<and> (filter P (concat (map snd ls)) = [] \<or>
      (\<exists>l. (b, l) \<in> set ls \<and> filter P (concat (map snd ls)) = filter P l))"
    using Cons by simp
  show ?case
  proof (cases "a = b")
    case True
    have "\<not> P x" if "x \<in> set (concat (map snd ls))" for x
      using that Cons.prems True by (force simp: e)
    then have "filter P (concat (map snd ls)) = []" "\<forall>x\<in>set (concat (map snd ls)). \<not> P x" by auto
    then show ?thesis using True by (auto simp: e)
  next
    case False
    then have "\<forall>x\<in>set l. \<not> P x" using Cons.prems by (force simp: e)
    then show ?thesis using ih by (auto simp: e)
  qed
qed simp

lemma subseq_set: "subseq xs ys \<Longrightarrow> set xs \<subseteq> set ys"
  by (induction rule: list_emb.induct) auto

lemma sorted_wrt_subseq: "subseq xs ys \<Longrightarrow> sorted_wrt R ys \<Longrightarrow> sorted_wrt R xs"
  by (induction rule: list_emb.induct) (auto dest: subseq_set)

definition permutes_lists :: "tx_sorter \<Rightarrow> bool" where
  "permutes_lists sortBy \<longleftrightarrow> (\<forall>l. mset (sortBy compareTxs l) = mset l)"

lemma filterAndSort_entries:
  assumes "permutes_lists sortBy" and "(a, l) \<in> set (filterAndSortTransactions sortBy ts excl)"
  shows "\<exists>l'. (a, l') \<in> set ts \<and> set l \<subseteq> set l' \<and>
    (\<forall>x\<in>set l. \<forall>b\<in>set excl. tx_hash x \<notin> tx_hash ` (set (b_last_votes b) \<union> set (b_transactions b)))"
proof -
  have s: "set (sortBy compareTxs l) = set l" for l
    using assms(1) mset_eq_setD unfolding permutes_lists_def by blast
  have "set (excludeConsensusTransactions l) \<subseteq> set l" for l by (auto simp: excludeConsensusTransactions_def)
  then show ?thesis
    using assms(2) by (fastforce simp: filterAndSortTransactions_def Let_def s list_ex_iff)
qed

lemma filterAndSort_keys:
  "distinct (map fst ts) \<Longrightarrow> distinct (map fst (filterAndSortTransactions sortBy ts excl))"
  by (simp add: filterAndSortTransactions_def Let_def comp_def case_prod_beta distinct_map_filter)

lemma selected_members:
  assumes ok: "pool_ok p" and perm: "permutes_lists sortBy"
    and l: "\<exists>l'. (b, l') \<in> set (filterAndSortTransactions sortBy (tp_transactions p) excl) \<and> subseq l l'"
  shows "\<forall>x\<in>set l. x \<in> set (txs_of (tp_transactions p) b) \<and> tx_address x = b \<and>
      (\<forall>c\<in>set excl. tx_hash x \<notin> tx_hash ` (set (b_last_votes c) \<union> set (b_transactions c)))"
proof -
  have d: "distinct (map fst (tp_transactions p))" using ok by (simp add: pool_ok_def)
  obtain l' where "(b, l') \<in> set (filterAndSortTransactions sortBy (tp_transactions p) excl)" "subseq l l'"
    using l by blast
  moreover note filterAndSort_entries [OF perm this(1)]
  ultimately obtain l'' where l'': "(b, l'') \<in> set (tp_transactions p)" "set l \<subseteq> set l''"
    and ex: "\<forall>x\<in>set l. \<forall>c\<in>set excl. tx_hash x \<notin> tx_hash ` (set (b_last_votes c) \<union> set (b_transactions c))"
    using subseq_set by blast
  have "l'' = txs_of (tp_transactions p) b" using txs_of_member [OF d l''(1)] by simp
  then show ?thesis using l''(2) ex pool_txs_address [OF ok] by blast
qed

text \<open>What holds of each list restricted by \<open>Q\<close> holds of the merge restricted to one address.\<close>

lemma merged_entry:
  assumes d: "distinct (map fst sel)"
    and mem: "\<And>b l. (b, l) \<in> set sel \<Longrightarrow> \<forall>x\<in>set l. tx_address x = b"
    and empty: "R (map f [])" and each: "\<And>l. (a, l) \<in> set sel \<Longrightarrow> R (map f (filter Q l))"
  shows "R (map f (filter (\<lambda>x. tx_address x = a \<and> Q x) (mergeMultipleSortedArrays (map snd sel))))"
proof -
  let ?P = "\<lambda>x. tx_address x = a \<and> Q x"
  have one: "in_one ?P (map snd sel) \<and> (filter ?P (concat (map snd sel)) = [] \<or>
      (\<exists>l. (a, l) \<in> set sel \<and> filter ?P (concat (map snd sel)) = filter ?P l))"
    by (rule in_one_entries [where key = tx_address, OF d]) (use mem in blast)+
  have "filter ?P (mergeMultipleSortedArrays (map snd sel)) = filter ?P (concat (map snd sel))"
    by (rule filter_mergeMultiple) (use one in blast)
  with one consider "filter ?P (mergeMultipleSortedArrays (map snd sel)) = []"
    | l where "(a, l) \<in> set sel" "filter ?P (mergeMultipleSortedArrays (map snd sel)) = filter ?P l"
    by (elim conjE disjE exE) simp_all
  then show ?thesis
  proof cases
    case (2 l)
    have "filter ?P l = filter Q l" by (rule filter_cong [OF refl]) (use mem [OF 2(1)] in simp)
    then show ?thesis using each [OF 2(1)] unfolding 2(2) by simp
  qed (use empty in simp)
qed

text \<open>
  C9. The transactions chosen for a block can be executed in their order. After any history of the
  pool, for every address the numbered nonces chosen count up from the nonce of the account in the
  base state without a gap, the timestamps of the ordered transactions grow strictly from the
  account's timestamp, and every chosen transaction is in the pool and in none of the blocks to
  exclude. The sort is only assumed to permute, and the nonces in the state not to be negative.
\<close>

theorem chosen_transactions_executable:
  assumes perm: "\<forall>l. mset (sortBy compareTxs l) = mset l"
    and p: "p = foldl (pool_exec cfg) (newTransactionPool eh) ops"
    and labels: "\<forall>a\<in>fst ` set (tp_transactions p). a \<noteq> [] \<and> CHR ''/'' \<notin> set a"
    and nonneg: "\<forall>a. fst (accountNonceAndTimestamp db a) \<ge> 0"
  shows "let chosen = getValidTransactions sortBy ph en bb excl db p;
             nonces = map tx_nonce (filter (\<lambda>tx. tx_address tx = a \<and> tx_nonce tx \<ge> 0) chosen);
             times = map tx_timestamp (filter (\<lambda>tx. tx_address tx = a \<and> tx_nonce tx = -2) chosen)
         in nonces = map (\<lambda>i. fst (accountNonceAndTimestamp db a) + of_nat i) [0..<length nonces] \<and>
            sorted_wrt (<) (snd (accountNonceAndTimestamp db a) # times) \<and>
            (\<forall>tx\<in>set chosen. tx \<in> set (txs_of (tp_transactions p) (tx_address tx)) \<and>
               (\<forall>b\<in>set excl. tx_hash tx \<notin> tx_hash ` (set (b_last_votes b) \<union> set (b_transactions b))))"
proof -
  let ?entries = "filterAndSortTransactions sortBy (tp_transactions p) excl"
  let ?A = "accountNonceAndTimestamp db a"
  have ok: "pool_ok p" using pool_history [OF pool_ok_new, of cfg eh ops] by (simp add: p)
  then have d: "distinct (map fst (tp_transactions p))" by (simp add: pool_ok_def)
  have perm': "permutes_lists sortBy" using perm by (simp add: permutes_lists_def)
  obtain sel db' where sel: "selectForAddresses accountNonceAndTimestamp updateAccountNonceAndTimestampToStateRoot ?entries db = (sel, db')"
    by fastforce
  have keys: "\<forall>a\<in>fst ` set ?entries. path_label a \<and> fst (accountNonceAndTimestamp db a) \<ge> 0"
    using labels nonneg filterAndSort_entries [OF perm'] by (force simp: path_label_def)
  note s = ledger.select_all [OF keys filterAndSort_keys [OF d] sel]
  have sd: "distinct (map fst sel)" using s(1) filterAndSort_keys [OF d] by simp
  have mem: "\<forall>x\<in>set l. x \<in> set (txs_of (tp_transactions p) b) \<and> tx_address x = b \<and>
      (\<forall>c\<in>set excl. tx_hash x \<notin> tx_hash ` (set (b_last_votes c) \<union> set (b_transactions c)))"
    if "(b, l) \<in> set sel" for b l
    using s(2) [OF that] selected_members [OF ok perm'] by blast
  let ?merged = "mergeMultipleSortedArrays (map snd sel)"
  let ?res = "getValidTransactions sortBy ph en bb excl db p"
  have res: "subseq ?res ?merged" "prefix (filter (of_account a) ?res) (filter (of_account a) ?merged)"
    using performBandwidthChecks_subseq by (simp_all add: getValidTransactions_def Let_def sel)
  have "counts_from (fst ?A) (map tx_nonce (filter (of_account a) ?merged))"
    unfolding of_account_def by (rule merged_entry [OF sd]) (use mem s(2) in blast | simp)+
  then have n: "counts_from (fst ?A) (map tx_nonce (filter (of_account a) ?res))"
    by (rule counts_from_prefix) (rule map_mono_prefix [OF res(2)])
  let ?o = "\<lambda>tx. tx_address tx = a \<and> tx_nonce tx = -2"
  have "sorted_wrt (<) (snd ?A # map tx_timestamp (filter ?o ?merged))"
    by (rule merged_entry [OF sd]) (use mem s(2) in blast | simp)+
  then have t: "sorted_wrt (<) (snd ?A # map tx_timestamp (filter ?o ?res))"
    by (rule sorted_wrt_subseq [rotated]) (use res(1) in \<open>simp add: subseq_map\<close>)
  have "set ?res \<subseteq> set (concat (map snd sel))"
    using subseq_set [OF res(1)] mset_eq_setD [OF mset_mergeMultiple] by blast
  then have m: "\<forall>tx\<in>set ?res. tx \<in> set (txs_of (tp_transactions p) (tx_address tx)) \<and>
      (\<forall>b\<in>set excl. tx_hash tx \<notin> tx_hash ` (set (b_last_votes b) \<union> set (b_transactions b)))"
    using mem by fastforce
  show ?thesis
    using n t m by (simp add: Let_def counts_from_def of_account_def [abs_def])
qed

theorem chosen_transactions_executable_witness:
  "set (getValidTransactions (\<lambda>c l. l) (\<lambda>n. []) True \<lparr>bb_service = 1, bb_apps = 1, bb_free = 1\<rparr> [] (SLeaf JNull)
      (foldl (pool_exec poolConfig1) (newTransactionPool False)
        [AddTransaction \<lparr>tx_body = txBody1, tx_signature = JStr ''0x'', tx_hash = ''0xab'', tx_address = ''0xA'', tx_extra = []\<rparr> JNull False])) \<subseteq>
    {tx. tx_hash tx = ''0xab''}"
proof -
  let ?tx = "\<lparr>tx_body = txBody1, tx_signature = JStr ''0x'', tx_hash = ''0xab'', tx_address = ''0xA'', tx_extra = []\<rparr>"
  let ?ops = "[AddTransaction ?tx JNull False]"
  let ?p = "foldl (pool_exec poolConfig1) (newTransactionPool False) ?ops"
  let ?db = "SLeaf JNull"
  have ts: "tp_transactions ?p = [(''0xA'', [?tx])]"
    by (simp add: addTransaction_def Let_def emitTxStateChanged_def updateFreeTxCountPerAccount_def
        updateTransactionInfo_def newTransactionPool_def)
  have nn: "\<forall>a. fst (accountNonceAndTimestamp ?db a) \<ge> 0"
    by (simp add: accountNonceAndTimestamp_def getAccountNonceAndTimestampFromStateRoot_def getValueFromStateRoot_def
        readFromStateRoot_def getFullPath_def)
  have l: "\<forall>a\<in>fst ` set (tp_transactions ?p). a \<noteq> [] \<and> CHR ''/'' \<notin> set a" unfolding ts by simp
  note r = chosen_transactions_executable [OF _ refl l nn, of "\<lambda>c l. l" "\<lambda>n. []" True "\<lparr>bb_service = 1, bb_apps = 1, bb_free = 1\<rparr>" "[]"]
  show ?thesis
    using r unfolding Let_def ts by (fastforce split: if_splits)
qed

end
