(* ===== verification/StateMatch.thy ===== *)
theory StateMatch
  imports StateTree
begin

text \<open>
  The matching of paths against the function, rule and owner trees, \<open>db/index.js\<close> with the config
  accessors of \<open>db/state-util.js\<close>: function and rule trees may have variable labels (starting with
  \<open>$\<close>) and an exact label is preferred; the configuration that applies is the closest one on the
  matched path. The permission checks over owner configurations follow in \<open>Permissions\<close>.
\<close>

subsection \<open>Configurations\<close>

definition hasConfig :: "snode option \<Rightarrow> string \<Rightarrow> bool" where
  "hasConfig node label = (case node of None \<Rightarrow> False | Some n \<Rightarrow> sgetChild n label \<noteq> None)"

definition getConfig :: "snode option \<Rightarrow> string \<Rightarrow> jsval" where
  "getConfig node label =
     (case node of
        None \<Rightarrow> JNull
      | Some n \<Rightarrow> (case sgetChild n label of None \<Rightarrow> JNull | Some c \<Rightarrow> toStateSnapshot c))"

definition hasShardConfig :: "snode option \<Rightarrow> bool" where
  "hasShardConfig valueNode = hasConfig valueNode ''.shard''"

definition getShardConfig :: "snode option \<Rightarrow> jsval" where
  "getShardConfig valueNode = getConfig valueNode ''.shard''"

definition hasFunctionConfig :: "snode option \<Rightarrow> bool" where
  "hasFunctionConfig funcNode = hasConfig funcNode ''.function''"

definition getFunctionConfig :: "snode option \<Rightarrow> jsval" where
  "getFunctionConfig funcNode = getConfig funcNode ''.function''"

definition hasRuleConfig :: "snode option \<Rightarrow> bool" where
  "hasRuleConfig ruleNode = hasConfig ruleNode ''.rule''"

definition hasRuleConfigWithProp :: "snode option \<Rightarrow> string \<Rightarrow> bool" where
  "hasRuleConfigWithProp ruleNode ruleProp =
     (case ruleNode of
        None \<Rightarrow> False
      | Some n \<Rightarrow> (case sgetChild n ''.rule'' of None \<Rightarrow> False | Some c \<Rightarrow> sgetChild c ruleProp \<noteq> None))"

definition getRuleConfig :: "snode option \<Rightarrow> jsval" where
  "getRuleConfig ruleNode = getConfig ruleNode ''.rule''"

definition hasOwnerConfig :: "snode option \<Rightarrow> bool" where
  "hasOwnerConfig ownerNode = hasConfig ownerNode ''.owner''"

definition getOwnerConfig :: "snode option \<Rightarrow> jsval" where
  "getOwnerConfig ownerNode = getConfig ownerNode ''.owner''"

text \<open>A shard configuration is an object, so reading its property does not throw.\<close>

definition hasEnabledShardConfig :: "snode option \<Rightarrow> bool" where
  "hasEnabledShardConfig node =
     (if hasShardConfig node then boolOrFalse (prop_get (getShardConfig node) ''sharding_enabled'') else False)"

fun shardingWalk :: "string list \<Rightarrow> snode \<Rightarrow> string list \<Rightarrow> bool \<times> string list" where
  "shardingWalk [] curNode path = (\<not> hasEnabledShardConfig (Some curNode), path)"
| "shardingWalk (label # rest) curNode path =
     (if label \<noteq> ''.shard'' \<and> hasEnabledShardConfig (Some curNode) then (False, path)
      else case sgetChild curNode label of
             None \<Rightarrow> (\<not> hasEnabledShardConfig (Some curNode), path)
           | Some child \<Rightarrow> shardingWalk rest child (path @ [label]))"

definition isWritablePathWithSharding :: "string list \<Rightarrow> snode \<Rightarrow> bool \<times> string" where
  "isWritablePathWithSharding fullPath rt =
     (let (isValid, path) = shardingWalk fullPath rt [] in (isValid, if isValid then [] else formatPath path))"

definition getVariableLabel :: "snode \<Rightarrow> string option" where
  "getVariableLabel node = (if getIsLeaf node then None else find isVariableLabel (getChildLabels node))"

subsection \<open>Functions\<close>

record function_match =
  fm_matchedValuePath :: "string list"
  fm_matchedFunctionPath :: "string list"
  fm_pathVars :: "(string \<times> string) list"
  fm_matchedFunctionNode :: "snode option"

definition bindVar :: "string \<Rightarrow> string \<Rightarrow> (string \<times> string) list \<Rightarrow> (string \<times> string) list" where
  "bindVar var label vars = (if map_of vars var \<noteq> None then vars else vars @ [(var, label)])"

fun matchFunctionPathRecursive :: "string list \<Rightarrow> snode option \<Rightarrow> function_match" where
  "matchFunctionPathRecursive [] cur =
     \<lparr>fm_matchedValuePath = [], fm_matchedFunctionPath = [], fm_pathVars = [], fm_matchedFunctionNode = cur\<rparr>"
| "matchFunctionPathRecursive (label # path) cur =
     (let noMatch = \<lparr>fm_matchedValuePath = [], fm_matchedFunctionPath = [], fm_pathVars = [], fm_matchedFunctionNode = None\<rparr>
      in case cur of
        None \<Rightarrow> noMatch
      | Some n \<Rightarrow>
          (case sgetChild n label of
             Some next \<Rightarrow>
               let matched = matchFunctionPathRecursive path (Some next)
               in matched\<lparr>fm_matchedValuePath := label # fm_matchedValuePath matched,
                          fm_matchedFunctionPath := label # fm_matchedFunctionPath matched\<rparr>
           | None \<Rightarrow>
               (case getVariableLabel n of
                  Some varLabel \<Rightarrow>
                    let matched = matchFunctionPathRecursive path (sgetChild n varLabel)
                    in matched\<lparr>fm_matchedValuePath := label # fm_matchedValuePath matched,
                               fm_matchedFunctionPath := varLabel # fm_matchedFunctionPath matched,
                               fm_pathVars := bindVar varLabel label (fm_pathVars matched)\<rparr>
                | None \<Rightarrow> noMatch)))"

definition matchFunctionPath :: "snode \<Rightarrow> string list \<Rightarrow> function_match" where
  "matchFunctionPath stateRoot parsedValuePath =
     matchFunctionPathRecursive parsedValuePath (sgetChild stateRoot ''functions'')"

subsection \<open>Configurations below a node\<close>

type_synonym path_config = "string list \<times> jsval"

lemma size_child: "(l, c) \<in> set cs \<Longrightarrow> size (c :: snode) < size (SNode cs)"
  using size_list_estimation' [of "(l, c)" cs "size c" "size_prod (\<lambda>_. 0) size"] by simp

lemma size_children: "x \<in> set (children n) \<Longrightarrow> size (snd x) < size n"
  by (cases n; cases x) (auto dest: size_child)

text \<open>
  \<open>getSubtree...Recursive\<close>: the configurations strictly below the node at depth 0, children first in
  their order; for functions and rules the variable child comes last (\<open>varLast\<close>).
\<close>

function subtreeConfigs ::
  "bool \<Rightarrow> (snode \<Rightarrow> bool) \<Rightarrow> (snode \<Rightarrow> jsval) \<Rightarrow> nat \<Rightarrow> snode \<Rightarrow> path_config list" where
  "subtreeConfigs varLast has get depth cur =
     (if depth \<noteq> 0 \<and> has cur then [([], get cur)] else []) @
     (let varLabel = (if varLast then getVariableLabel cur else None)
      in concat (map (\<lambda>child. map (\<lambda>entry. (fst child # fst entry, snd entry))
                          (subtreeConfigs varLast has get (depth + 1) (snd child)))
                   (filter (\<lambda>child. Some (fst child) \<noteq> varLabel) (children cur))) @
         concat (map (\<lambda>child. map (\<lambda>entry. (fst child # fst entry, snd entry))
                          (subtreeConfigs varLast has get (depth + 1) (snd child)))
                   (filter (\<lambda>child. Some (fst child) = varLabel) (children cur))))"
  by auto
termination
  by (relation "measure (\<lambda>(_, _, _, _, n). size n)") (auto dest: size_children)

declare subtreeConfigs.simps [simp del]

definition getSubtreeFunctionsRecursive :: "nat \<Rightarrow> snode option \<Rightarrow> path_config list" where
  "getSubtreeFunctionsRecursive depth curFuncNode =
     (case curFuncNode of None \<Rightarrow> []
      | Some n \<Rightarrow> subtreeConfigs True (\<lambda>n. hasFunctionConfig (Some n)) (\<lambda>n. getFunctionConfig (Some n)) depth n)"

definition getSubtreeFunctions :: "snode option \<Rightarrow> path_config list" where
  "getSubtreeFunctions funcNode = getSubtreeFunctionsRecursive 0 funcNode"

definition getSubtreeRulesRecursive :: "nat \<Rightarrow> snode option \<Rightarrow> string \<Rightarrow> path_config list" where
  "getSubtreeRulesRecursive depth curRuleNode ruleProp =
     (case curRuleNode of None \<Rightarrow> []
      | Some n \<Rightarrow> subtreeConfigs True (\<lambda>n. hasRuleConfigWithProp (Some n) ruleProp) (\<lambda>n. getRuleConfig (Some n)) depth n)"

definition getSubtreeRules :: "snode option \<Rightarrow> string \<Rightarrow> path_config list" where
  "getSubtreeRules ruleNode ruleProp = getSubtreeRulesRecursive 0 ruleNode ruleProp"

definition getSubtreeOwnersRecursive :: "nat \<Rightarrow> snode option \<Rightarrow> path_config list" where
  "getSubtreeOwnersRecursive depth curOwnerNode =
     (case curOwnerNode of None \<Rightarrow> []
      | Some n \<Rightarrow> subtreeConfigs False (\<lambda>n. hasOwnerConfig (Some n)) (\<lambda>n. getOwnerConfig (Some n)) depth n)"

definition getSubtreeOwners :: "snode option \<Rightarrow> path_config list" where
  "getSubtreeOwners ownerNode = getSubtreeOwnersRecursive 0 ownerNode"

definition getSubtreeConfigPathList :: "path_config list \<Rightarrow> string list" where
  "getSubtreeConfigPathList configs = map (\<lambda>c. formatPath (fst c)) configs"

record matched_function =
  mf_matchedValuePath :: "string list"
  mf_matchedFunctionPath :: "string list"
  mf_pathVars :: "(string \<times> string) list"
  mf_matchedFunction :: path_config
  mf_subtreeFunctions :: "path_config list"

definition matchFunctionForParsedPath :: "snode \<Rightarrow> string list \<Rightarrow> matched_function" where
  "matchFunctionForParsedPath stateRoot parsedValuePath =
     (let matched = matchFunctionPath stateRoot parsedValuePath;
          matchedConfig =
            (if length (fm_matchedFunctionPath matched) = length parsedValuePath \<and>
                hasFunctionConfig (fm_matchedFunctionNode matched)
             then getFunctionConfig (fm_matchedFunctionNode matched) else JNull)
      in \<lparr>mf_matchedValuePath = fm_matchedValuePath matched,
          mf_matchedFunctionPath = fm_matchedFunctionPath matched,
          mf_pathVars = fm_pathVars matched,
          mf_matchedFunction = (fm_matchedFunctionPath matched, matchedConfig),
          mf_subtreeFunctions = getSubtreeFunctions (fm_matchedFunctionNode matched)\<rparr>)"

subsection \<open>Rules\<close>

record rule_match =
  rm_matchedValuePath :: "string list"
  rm_matchedRulePath :: "string list"
  rm_pathVars :: "(string \<times> string) list"
  rm_matchedRuleNode :: "snode option"
  rm_closestConfigNode :: "snode option"
  rm_closestConfigDepth :: nat

definition closestHere :: "nat \<Rightarrow> snode option \<Rightarrow> string \<Rightarrow> snode option \<Rightarrow> rule_match" where
  "closestHere depth cur ruleProp node =
     \<lparr>rm_matchedValuePath = [], rm_matchedRulePath = [], rm_pathVars = [], rm_matchedRuleNode = node,
      rm_closestConfigNode = (if hasRuleConfigWithProp cur ruleProp then cur else None),
      rm_closestConfigDepth = (if hasRuleConfigWithProp cur ruleProp then depth else 0)\<rparr>"

definition orClosest :: "nat \<Rightarrow> snode option \<Rightarrow> string \<Rightarrow> rule_match \<Rightarrow> rule_match" where
  "orClosest depth cur ruleProp matched =
     (if rm_closestConfigNode matched = None \<and> hasRuleConfigWithProp cur ruleProp
      then matched\<lparr>rm_closestConfigNode := cur, rm_closestConfigDepth := depth\<rparr> else matched)"

fun matchRulePathRecursive :: "string list \<Rightarrow> nat \<Rightarrow> snode option \<Rightarrow> string \<Rightarrow> rule_match" where
  "matchRulePathRecursive [] depth cur ruleProp = closestHere depth cur ruleProp cur"
| "matchRulePathRecursive (label # path) depth cur ruleProp =
     (case cur of
        None \<Rightarrow> closestHere depth cur ruleProp None
      | Some n \<Rightarrow>
          (case sgetChild n label of
             Some next \<Rightarrow>
               let matched = matchRulePathRecursive path (depth + 1) (Some next) ruleProp
               in orClosest depth cur ruleProp
                    (matched\<lparr>rm_matchedValuePath := label # rm_matchedValuePath matched,
                             rm_matchedRulePath := label # rm_matchedRulePath matched\<rparr>)
           | None \<Rightarrow>
               (case getVariableLabel n of
                  Some varLabel \<Rightarrow>
                    let matched = matchRulePathRecursive path (depth + 1) (sgetChild n varLabel) ruleProp
                    in orClosest depth cur ruleProp
                         (matched\<lparr>rm_matchedValuePath := label # rm_matchedValuePath matched,
                                  rm_matchedRulePath := varLabel # rm_matchedRulePath matched,
                                  rm_pathVars := bindVar varLabel label (rm_pathVars matched)\<rparr>)
                | None \<Rightarrow> closestHere depth cur ruleProp None)))"

definition matchRulePath :: "snode \<Rightarrow> string list \<Rightarrow> string \<Rightarrow> rule_match" where
  "matchRulePath stateRoot parsedValuePath ruleProp =
     matchRulePathRecursive parsedValuePath 0 (sgetChild stateRoot ''rules'') ruleProp"

record matched_rule =
  mr_matchedValuePath :: "string list"
  mr_matchedRulePath :: "string list"
  mr_pathVars :: "(string \<times> string) list"
  mr_closestRule :: path_config
  mr_subtreeRules :: "path_config list option"

definition to_matched_rule :: "rule_match \<Rightarrow> path_config list option \<Rightarrow> matched_rule" where
  "to_matched_rule m subtreeRules =
     \<lparr>mr_matchedValuePath = rm_matchedValuePath m, mr_matchedRulePath = rm_matchedRulePath m,
      mr_pathVars = rm_pathVars m,
      mr_closestRule = (take (rm_closestConfigDepth m) (rm_matchedRulePath m), getRuleConfig (rm_closestConfigNode m)),
      mr_subtreeRules = subtreeRules\<rparr>"

text \<open>The write match and the state match.\<close>

definition matchRuleForParsedPath :: "snode \<Rightarrow> string list \<Rightarrow> matched_rule \<times> matched_rule" where
  "matchRuleForParsedPath stateRoot parsedValuePath =
     (let matchedWriteRule = matchRulePath stateRoot parsedValuePath ''write'';
          matchedStateRule = matchRulePath stateRoot parsedValuePath ''state'';
          subtreeRules = (if rm_matchedRuleNode matchedWriteRule \<noteq> None
                          then getSubtreeRules (rm_matchedRuleNode matchedWriteRule) ''write'' else [])
      in (to_matched_rule matchedWriteRule (Some subtreeRules), to_matched_rule matchedStateRule None))"

subsection \<open>Owners\<close>

record owner_match =
  om_matchedOwnerNode :: "snode option"
  om_matchedDepth :: nat
  om_closestConfigNode :: "snode option"
  om_closestConfigDepth :: nat

definition ownerHere :: "nat \<Rightarrow> snode option \<Rightarrow> snode option \<Rightarrow> owner_match" where
  "ownerHere depth cur node =
     \<lparr>om_matchedOwnerNode = node, om_matchedDepth = depth,
      om_closestConfigNode = (if hasOwnerConfig cur then cur else None),
      om_closestConfigDepth = (if hasOwnerConfig cur then depth else 0)\<rparr>"

fun matchOwnerPathRecursive :: "string list \<Rightarrow> nat \<Rightarrow> snode option \<Rightarrow> owner_match" where
  "matchOwnerPathRecursive [] depth cur = ownerHere depth cur cur"
| "matchOwnerPathRecursive (label # path) depth cur =
     (case cur of
        None \<Rightarrow> ownerHere depth cur None
      | Some n \<Rightarrow>
          (case sgetChild n label of
             Some next \<Rightarrow>
               let matched = matchOwnerPathRecursive path (depth + 1) (Some next)
               in if om_closestConfigNode matched = None \<and> hasOwnerConfig cur
                  then matched\<lparr>om_closestConfigNode := cur, om_closestConfigDepth := depth\<rparr> else matched
           | None \<Rightarrow> ownerHere depth cur None))"

definition matchOwnerPath :: "snode \<Rightarrow> string list \<Rightarrow> owner_match" where
  "matchOwnerPath stateRoot parsedRefPath = matchOwnerPathRecursive parsedRefPath 0 (sgetChild stateRoot ''owners'')"

record matched_owner =
  mo_matchedOwnerPath :: "string list"
  mo_closestOwner :: path_config
  mo_subtreeOwners :: "path_config list"

definition matchOwnerForParsedPath :: "snode \<Rightarrow> string list \<Rightarrow> matched_owner" where
  "matchOwnerForParsedPath stateRoot parsedRefPath =
     (let matched = matchOwnerPath stateRoot parsedRefPath
      in \<lparr>mo_matchedOwnerPath = take (om_matchedDepth matched) parsedRefPath,
          mo_closestOwner = (take (om_closestConfigDepth matched) parsedRefPath, getOwnerConfig (om_closestConfigNode matched)),
          mo_subtreeOwners = (if om_matchedOwnerNode matched \<noteq> None then getSubtreeOwners (om_matchedOwnerNode matched) else [])\<rparr>)"

subsection \<open>Matches for the API\<close>

text \<open>\<open>gp\<close> is \<open>toGlobalPath\<close> of the database.\<close>

definition convertPathAndConfig :: "(string list \<Rightarrow> string list) \<Rightarrow> path_config \<Rightarrow> bool \<Rightarrow> jsval" where
  "convertPathAndConfig gp pathAndConfig isGlobal =
     JObj [(''path'', JStr (formatPath (if isGlobal then gp (fst pathAndConfig) else fst pathAndConfig))),
           (''config'', snd pathAndConfig)]"

definition vars_js :: "(string \<times> string) list \<Rightarrow> jsval" where
  "vars_js vars = JObj (map (\<lambda>(k, v). (k, JStr v)) vars)"

definition convertFunctionMatch :: "(string list \<Rightarrow> string list) \<Rightarrow> matched_function \<Rightarrow> bool \<Rightarrow> jsval" where
  "convertFunctionMatch gp matched isGlobal =
     (let functionPath = (if isGlobal then gp (mf_matchedFunctionPath matched) else mf_matchedFunctionPath matched);
          valuePath = (if isGlobal then gp (mf_matchedValuePath matched) else mf_matchedValuePath matched)
      in JObj [(''matched_path'', JObj [(''target_path'', JStr (formatPath functionPath)),
                  (''ref_path'', JStr (formatPath valuePath)), (''path_vars'', vars_js (mf_pathVars matched))]),
               (''matched_config'', convertPathAndConfig gp (mf_matchedFunction matched) isGlobal),
               (''subtree_configs'', JArr (map (\<lambda>e. convertPathAndConfig gp e False) (mf_subtreeFunctions matched)))])"

definition convertRuleMatch :: "(string list \<Rightarrow> string list) \<Rightarrow> matched_rule \<Rightarrow> bool \<Rightarrow> jsval" where
  "convertRuleMatch gp matched isGlobal =
     (let rulePath = (if isGlobal then gp (mr_matchedRulePath matched) else mr_matchedRulePath matched);
          valuePath = (if isGlobal then gp (mr_matchedValuePath matched) else mr_matchedValuePath matched)
      in JObj ([(''matched_path'', JObj [(''target_path'', JStr (formatPath rulePath)),
                  (''ref_path'', JStr (formatPath valuePath)), (''path_vars'', vars_js (mr_pathVars matched))]),
               (''matched_config'', convertPathAndConfig gp (mr_closestRule matched) isGlobal)] @
               (case mr_subtreeRules matched of
                  None \<Rightarrow> []
                | Some rs \<Rightarrow> [(''subtree_configs'', JArr (map (\<lambda>e. convertPathAndConfig gp e False) rs))])))"

definition convertOwnerMatch :: "(string list \<Rightarrow> string list) \<Rightarrow> matched_owner \<Rightarrow> bool \<Rightarrow> jsval" where
  "convertOwnerMatch gp matched isGlobal =
     (let ownerPath = (if isGlobal then gp (mo_matchedOwnerPath matched) else mo_matchedOwnerPath matched)
      in JObj [(''matched_path'', JObj [(''target_path'', JStr (formatPath ownerPath))]),
               (''matched_config'', convertPathAndConfig gp (mo_closestOwner matched) isGlobal),
               (''subtree_configs'', JArr (map (\<lambda>e. convertPathAndConfig gp e False) (mo_subtreeOwners matched)))])"

end
