(* ===== verification/Permissions.thy ===== *)
theory Permissions
  imports StateMatch
begin

text \<open>
  The permission checks of \<open>db/index.js\<close>: who may write a value (write rules and state rules), a
  rule, a function or an owner configuration, the limits of state rules and the garbage collection
  they ask for, and the API wrappers around matching and evaluation. A write rule is JavaScript
  source; running it (\<open>new Function\<close>) is the parameter \<open>runRule\<close>. Results carry the result code and
  the match; the message texts are left out.
\<close>

subsection \<open>Owner permissions\<close>

definition getOwnerPermissions :: "jsval \<Rightarrow> jsval \<Rightarrow> jsval" where
  "getOwnerPermissions config auth =
     (if \<not> truthy config then JNull
      else let owners = prop_get config ''owners'' in
        if \<not> truthy owners then JNull
        else if truthy auth \<and> \<not> truthy (prop_get auth ''fid'') \<and> \<not> truthy (prop_get auth ''addr'') then JNull
        else
          let permissions =
                (if \<not> truthy auth then JNull
                 else if truthy (prop_get auth ''fid'') then prop_get owners (''fid:'' @ stringOrEmpty (prop_get auth ''fid''))
                 else prop_get owners (stringOrEmpty (prop_get auth ''addr'')));
              permissions' = (if \<not> truthy permissions then prop_get owners ''*'' else permissions)
          in if \<not> truthy permissions' then JNull else permissions')"

definition checkPermission :: "jsval \<Rightarrow> jsval \<Rightarrow> string \<Rightarrow> bool" where
  "checkPermission config auth permission =
     (let permissionObj = getOwnerPermissions config auth
      in truthy permissionObj \<and> prop_get permissionObj permission = JBool True)"

type_synonym owner_result = "int \<times> matched_owner"

definition getPermissionForRule :: "snode \<Rightarrow> string list \<Rightarrow> jsval \<Rightarrow> bool \<Rightarrow> owner_result" where
  "getPermissionForRule stateRoot parsedRulePath auth isMerge =
     (let matched = matchOwnerForParsedPath stateRoot parsedRulePath
      in if \<not> isMerge \<and> length (mo_subtreeOwners matched) > 0 then (12301, matched)
         else if \<not> checkPermission (snd (mo_closestOwner matched)) auth ''write_rule'' then (12302, matched)
         else (0, matched))"

definition getPermissionForFunction :: "snode \<Rightarrow> string list \<Rightarrow> jsval \<Rightarrow> bool \<Rightarrow> owner_result" where
  "getPermissionForFunction stateRoot parsedFuncPath auth isMerge =
     (let matched = matchOwnerForParsedPath stateRoot parsedFuncPath
      in if \<not> isMerge \<and> length (mo_subtreeOwners matched) > 0 then (12401, matched)
         else if \<not> checkPermission (snd (mo_closestOwner matched)) auth ''write_function'' then (12402, matched)
         else (0, matched))"

definition getPermissionForOwner :: "snode \<Rightarrow> string list \<Rightarrow> jsval \<Rightarrow> bool \<Rightarrow> owner_result" where
  "getPermissionForOwner stateRoot parsedOwnerPath auth isMerge =
     (let matched = matchOwnerForParsedPath stateRoot parsedOwnerPath;
          permission = (if length (fst (mo_closestOwner matched)) = length parsedOwnerPath
                        then ''write_owner'' else ''branch_owner'')
      in if \<not> isMerge \<and> length (mo_subtreeOwners matched) > 0 then (12501, matched)
         else if \<not> checkPermission (snd (mo_closestOwner matched)) auth permission then (12502, matched)
         else (0, matched))"

subsection \<open>Write rules and state rules\<close>

record rule_call =
  rc_auth :: jsval
  rc_data :: jsval
  rc_newData :: jsval
  rc_timestamp :: jsval
  rc_blockNumber :: jsval
  rc_blockTime :: jsval
  rc_parsedValuePath :: "string list"
  rc_pathVars :: "(string \<times> string) list"

datatype rule_outcome = RuleSyntaxError | RuleThrows | RuleReturns jsval

datatype write_eval = EvalCode int | EvalThrows | EvalResult bool

definition evalWriteRuleConfig :: "(string \<Rightarrow> rule_call \<Rightarrow> rule_outcome) \<Rightarrow> jsval \<Rightarrow> rule_call \<Rightarrow> write_eval" where
  "evalWriteRuleConfig runRule writeRuleConfig call =
     (if \<not> isDict writeRuleConfig then EvalResult False
      else case prop_get writeRuleConfig ''write'' of
             JBool b \<Rightarrow> EvalResult b
           | JStr ruleString \<Rightarrow>
               (case runRule (''\"use strict\"; return '' @ ruleString) call of
                  RuleSyntaxError \<Rightarrow> EvalCode 12105
                | RuleThrows \<Rightarrow> EvalThrows
                | RuleReturns v \<Rightarrow> EvalResult (truthy v))
           | _ \<Rightarrow> EvalResult False)"

text \<open>\<open>n <= limit\<close> for a limit that is a number or \<open>null\<close>.\<close>

definition fits_limit :: "nat \<Rightarrow> jsval \<Rightarrow> bool" where
  "fits_limit n bound = (case bound of JNum q \<Rightarrow> of_nat n \<le> q | JNull \<Rightarrow> n = 0 | _ \<Rightarrow> False)"

definition evalStateRuleConfig :: "(jsval \<Rightarrow> nat) \<Rightarrow> jsval \<Rightarrow> jsval \<Rightarrow> bool" where
  "evalStateRuleConfig sizeof stateRuleConfig newValue =
     (if \<not> isDict stateRuleConfig then True
      else let stateRuleObj = prop_get stateRuleConfig ''state'' in
        if isEmpty stateRuleObj then True
        else if has_prop stateRuleObj ''max_bytes'' \<and> \<not> fits_limit (sizeof newValue) (prop_get stateRuleObj ''max_bytes'') then False
        else if \<not> isDict newValue then True
        else if has_prop stateRuleObj ''max_children'' \<and>
                \<not> fits_limit (length (keys_of newValue)) (prop_get stateRuleObj ''max_children'') then False
        else let (height, size) = getObjectHeightAndSize newValue in
          if has_prop stateRuleObj ''max_height'' \<and> \<not> fits_limit height (prop_get stateRuleObj ''max_height'') then False
          else if has_prop stateRuleObj ''max_size'' \<and> \<not> fits_limit size (prop_get stateRuleObj ''max_size'') then False
          else True)"

definition addPathToValue :: "jsval \<Rightarrow> string list \<Rightarrow> nat \<Rightarrow> jsval" where
  "addPathToValue value matchedValuePath closestConfigDepth =
     foldr (\<lambda>label v. JObj [(label, v)]) (drop closestConfigDepth matchedValuePath) value"

record value_env =
  ve_runRule :: "string \<Rightarrow> rule_call \<Rightarrow> rule_outcome"
  ve_sizeof :: "jsval \<Rightarrow> nat"

record eval_options =
  eo_timestamp :: jsval
  eo_blockNumber :: jsval
  eo_blockTime :: jsval

type_synonym rule_result = "int \<times> matched_rule \<times> matched_rule"

definition getPermissionForValue ::
  "value_env \<Rightarrow> snode \<Rightarrow> string list \<Rightarrow> jsval \<Rightarrow> jsval \<Rightarrow> eval_options \<Rightarrow> rule_result" where
  "getPermissionForValue env stateRoot parsedValuePath newValue auth opts =
     (let (matchedWriteRules, matchedStateRules) = matchRuleForParsedPath stateRoot parsedValuePath;
          matched = (matchedWriteRules, matchedStateRules);
          value = getValueFromStateRoot stateRoot (formatPath parsedValuePath);
          addPath = (\<lambda>v. addPathToValue v (mr_matchedValuePath matchedWriteRules)
                            (length (fst (mr_closestRule matchedWriteRules))));
          call = \<lparr>rc_auth = auth, rc_data = addPath value, rc_newData = addPath newValue,
                  rc_timestamp = eo_timestamp opts, rc_blockNumber = eo_blockNumber opts,
                  rc_blockTime = eo_blockTime opts, rc_parsedValuePath = parsedValuePath,
                  rc_pathVars = mr_pathVars matchedWriteRules\<rparr>
      in if (case mr_subtreeRules matchedWriteRules of None \<Rightarrow> False | Some rs \<Rightarrow> length rs > 0) then (12101, matched)
         else case evalWriteRuleConfig (ve_runRule env) (snd (mr_closestRule matchedWriteRules)) call of
                EvalCode code \<Rightarrow> (code, matched)
              | EvalThrows \<Rightarrow> (12102, matched)
              | EvalResult False \<Rightarrow> (12103, matched)
              | EvalResult True \<Rightarrow>
                  if \<not> evalStateRuleConfig (ve_sizeof env) (snd (mr_closestRule matchedStateRules)) newValue
                  then (12104, matched) else (0, matched))"

subsection \<open>Garbage collection\<close>

text \<open>
  The number of deletions and the new state; \<open>None\<close> when there are fewer children than the rule
  wants deleted, where the code would write to an undefined label.
\<close>

definition deleteChildren :: "snode \<Rightarrow> string list \<Rightarrow> string list \<Rightarrow> snode" where
  "deleteChildren stateRoot parentPath labels =
     foldl (\<lambda>s label. writeToStateRoot s (parentPath @ [label]) JNull) stateRoot labels"

definition applyStateGarbageCollectionRule :: "snode \<Rightarrow> matched_rule \<Rightarrow> string list \<Rightarrow> (nat \<times> snode) option" where
  "applyStateGarbageCollectionRule stateRoot matchedRules parsedValuePath =
     (let stateRuleConfig = snd (mr_closestRule matchedRules);
          stateRuleObj = prop_get stateRuleConfig ''state'';
          gcMaxSiblings = prop_get stateRuleObj ''gc_max_siblings'';
          gcNumSiblingsDeleted = prop_get stateRuleObj ''gc_num_siblings_deleted''
      in if \<not> isDict stateRuleConfig then Some (0, stateRoot)
         else if isEmpty stateRuleObj \<or> \<not> truthy gcMaxSiblings \<or> \<not> truthy gcNumSiblingsDeleted then Some (0, stateRoot)
         else if length (fst (mr_closestRule matchedRules)) < 1 then Some (0, stateRoot)
         else
           let parentPath = ''values'' # take (length (fst (mr_closestRule matchedRules)) - 1) parsedValuePath
           in case getRefForReadingFromStateRoot stateRoot parentPath of
                None \<Rightarrow> Some (0, stateRoot)
              | Some node \<Rightarrow>
                  if fits_limit (numChildNodes node) gcMaxSiblings then Some (0, stateRoot)
                  else
                    let n = nat \<lceil>numberOrZero gcNumSiblingsDeleted\<rceil>;
                        childLabelList = getChildLabels node
                    in if n > length childLabelList then None
                       else Some (n, deleteChildren stateRoot parentPath (take n childLabelList)))"

subsection \<open>The API\<close>

record api_options =
  ao_isGlobal :: bool
  ao_fromApi :: bool
  ao_isFinal :: bool
  ao_isShallow :: bool
  ao_isPartial :: bool
  ao_isMerge :: bool
  ao_eval :: eval_options

text \<open>The database as these operations see it; the two functions give the tree information of a node.\<close>

record db_view =
  dv_stateRoot :: snode
  dv_finalRoot :: snode
  dv_shardingPath :: "string list"
  dv_isRootBlockchain :: bool
  dv_treeMaxSiblings :: "snode \<Rightarrow> nat"
  dv_treeBytes :: "snode \<Rightarrow> nat"
  dv_GET_RESP_MAX_SIBLINGS :: nat
  dv_GET_RESP_BYTES_LIMIT :: nat

definition checkRespTreeLimits :: "db_view \<Rightarrow> snode \<Rightarrow> api_options \<Rightarrow> int option" where
  "checkRespTreeLimits db stateNode options =
     (if \<not> ao_isPartial options \<and> dv_treeMaxSiblings db stateNode > dv_GET_RESP_MAX_SIBLINGS db then Some 30003
      else if \<not> (ao_isShallow options \<or> ao_isPartial options) \<and>
              dv_treeBytes db stateNode > dv_GET_RESP_BYTES_LIMIT db then Some 30002
      else None)"

definition checkRespTreeLimitsForEvalOrMatch :: "db_view \<Rightarrow> string \<Rightarrow> string list \<Rightarrow> api_options \<Rightarrow> int option" where
  "checkRespTreeLimitsForEvalOrMatch db rootLabel localPath options =
     (if ao_fromApi options then
        (case getRefForReadingFromStateRoot (if ao_isFinal options then dv_finalRoot db else dv_stateRoot db)
                (getFullPath localPath rootLabel) of
           None \<Rightarrow> None
         | Some stateNode \<Rightarrow> checkRespTreeLimits db stateNode options)
      else None)"

text \<open>\<open>null\<close> when the path is not in this shard, a limit's code, or the result.\<close>

datatype 'a api_result = NoLocalPath | LimitExceeded int | ApiResult 'a

definition withLocalPath ::
  "db_view \<Rightarrow> string \<Rightarrow> string \<Rightarrow> api_options \<Rightarrow> (string list \<Rightarrow> 'a) \<Rightarrow> 'a api_result" where
  "withLocalPath db rootLabel path options k =
     (let parsedPath = parsePath path
      in case (if ao_isGlobal options then toLocalPath parsedPath (dv_shardingPath db) else Some parsedPath) of
           None \<Rightarrow> NoLocalPath
         | Some localPath \<Rightarrow>
             (case checkRespTreeLimitsForEvalOrMatch db rootLabel localPath options of
                Some code \<Rightarrow> LimitExceeded code
              | None \<Rightarrow> ApiResult (k localPath)))"

definition toGlobal :: "db_view \<Rightarrow> string list \<Rightarrow> string list" where
  "toGlobal db = toGlobalPath (dv_isRootBlockchain db) (dv_shardingPath db)"

definition matchFunction :: "db_view \<Rightarrow> string \<Rightarrow> api_options \<Rightarrow> jsval api_result" where
  "matchFunction db funcPath options = withLocalPath db ''functions'' funcPath options
     (\<lambda>localPath. convertFunctionMatch (toGlobal db) (matchFunctionForParsedPath (dv_stateRoot db) localPath) (ao_isGlobal options))"

definition matchRule :: "db_view \<Rightarrow> string \<Rightarrow> api_options \<Rightarrow> jsval api_result" where
  "matchRule db valuePath options = withLocalPath db ''rules'' valuePath options
     (\<lambda>localPath. let matched = matchRuleForParsedPath (dv_stateRoot db) localPath
        in JObj [(''write'', convertRuleMatch (toGlobal db) (fst matched) (ao_isGlobal options)),
                 (''state'', convertRuleMatch (toGlobal db) (snd matched) (ao_isGlobal options))])"

definition matchOwner :: "db_view \<Rightarrow> string \<Rightarrow> api_options \<Rightarrow> jsval api_result" where
  "matchOwner db rulePath options = withLocalPath db ''owners'' rulePath options
     (\<lambda>localPath. convertOwnerMatch (toGlobal db) (matchOwnerForParsedPath (dv_stateRoot db) localPath) (ao_isGlobal options))"

definition evalRule :: "value_env \<Rightarrow> db_view \<Rightarrow> string \<Rightarrow> jsval \<Rightarrow> jsval \<Rightarrow> api_options \<Rightarrow> rule_result api_result" where
  "evalRule env db valuePath value auth options = withLocalPath db ''rules'' valuePath options
     (\<lambda>localPath. getPermissionForValue env (dv_stateRoot db) localPath value auth (ao_eval options))"

definition evalOwner :: "db_view \<Rightarrow> string \<Rightarrow> string \<Rightarrow> jsval \<Rightarrow> api_options \<Rightarrow> (int \<times> matched_owner option) api_result" where
  "evalOwner db refPath permission auth options = withLocalPath db ''owners'' refPath options
     (\<lambda>localPath.
        let found = (\<lambda>r. (fst r, Some (snd r))) in
        if permission = ''write_rule'' then
          found (getPermissionForRule (dv_stateRoot db) localPath auth (ao_isMerge options))
        else if permission = ''write_function'' then
          found (getPermissionForFunction (dv_stateRoot db) localPath auth (ao_isMerge options))
        else if permission = ''write_owner'' \<or> permission = ''branch_owner'' then
          found (getPermissionForOwner (dv_stateRoot db) localPath auth (ao_isMerge options))
        else (12201, None))"

end
