(* ===== verification/MatchProps.thy ===== *)
theory MatchProps
  imports Permissions
begin

text \<open>
  What matching and permission checks compute, stated without the recursion: the closest
  configuration is the one at the longest matched prefix that has one, an exact label wins over a
  variable label, the configurations reported for a subtree are exactly those strictly below it, and
  a permission is granted exactly by the closest owner configuration.
\<close>

subsection \<open>Well-formed state trees\<close>

fun snode_wf :: "snode \<Rightarrow> bool" where
  "snode_wf (SLeaf v) = True"
| "snode_wf (SNode cs) = (distinct (map fst cs) \<and> (\<forall>n\<in>set (map snd cs). snode_wf n))"

lemma snode_wf_children: "snode_wf n \<longleftrightarrow> distinct (map fst (children n)) \<and> (\<forall>(l, c)\<in>set (children n). snode_wf c)"
  by (cases n) auto

lemma snode_wf_child: "snode_wf n \<Longrightarrow> sgetChild n l = Some c \<Longrightarrow> snode_wf c"
  by (cases n) (auto simp: sgetChild_def dest!: map_of_SomeD)

lemma snode_wf_simps [simp]: "snode_wf emptySNode" "snode_wf (resetValue n) = snode_wf n"
  by (simp add: emptySNode_def) (cases n; simp add: emptySNode_def)

lemma snode_wf_set: "snode_wf n \<Longrightarrow> snode_wf c \<Longrightarrow> snode_wf (ssetChild l c n)"
  by (auto simp: ssetChild_def snode_wf_children [of n] distinct_update dest!: mem_update)

lemma snode_wf_delete: "snode_wf n \<Longrightarrow> snode_wf (sdeleteChild l n)"
  using distinct_delete [of "children n" l] 
  by (auto simp: sdeleteChild_def Let_def snode_wf_children [of n] AList.delete_eq)

lemma snode_wf_fromStateSnapshot: "snode_wf (fromStateSnapshot v)" "snode_wf n \<Longrightarrow> snode_wf (addEntries kvs n)"
  by (induction v and kvs n rule: fromStateSnapshot_addEntries.induct) (simp_all add: snode_wf_set)

lemma snode_wf_putTree: "snode_wf n \<Longrightarrow> snode_wf t \<Longrightarrow> snode_wf (putTree n p t)"
proof (induction p arbitrary: n)
  case (Cons l p)
  have "snode_wf (case sgetChild n l of None \<Rightarrow> emptySNode | Some c \<Rightarrow> resetValue c)"
    using Cons.prems snode_wf_child by (auto split: option.splits)
  then show ?case using Cons by (auto simp: Let_def intro!: snode_wf_set snode_wf_delete)
qed simp

lemma snode_wf_write: "snode_wf rt \<Longrightarrow> snode_wf (writeToStateRoot rt p v)"
  by (simp add: writeToStateRoot_def snode_wf_putTree snode_wf_fromStateSnapshot)

lemma snode_wf_writes: "snode_wf rt \<Longrightarrow> snode_wf (foldl (\<lambda>s (p, v). writeToStateRoot s p v) rt ws)"
  by (induction ws arbitrary: rt) (auto simp: snode_wf_write)

lemma snode_wf_ref: "snode_wf n \<Longrightarrow> ref n p = Some m \<Longrightarrow> snode_wf m"
  by (induction p arbitrary: n) (auto split: option.splits dest: snode_wf_child)

subsection \<open>Configurations below a node\<close>

lemma set_concat_filter:
  "set (concat (map g (filter (\<lambda>x. \<not> P x) cs)) @ concat (map g (filter P cs))) = (\<Union>x\<in>set cs. set (g x))"
  by auto

lemma subtreeConfigs_set:
  "set (subtreeConfigs vl has get d n) = set (if d \<noteq> 0 \<and> has n then [([], get n)] else []) \<union>
     (\<Union>x\<in>set (children n). set (map (\<lambda>e. (fst x # fst e, snd e)) (subtreeConfigs vl has get (d + 1) (snd x))))"
  unfolding subtreeConfigs.simps [of vl has get d n] Let_def set_append [of "if _ then _ else _"] set_concat_filter ..

lemma push_label_mem: "(q, cfg) \<in> set (map (\<lambda>e. (l # fst e, snd e)) xs) \<longleftrightarrow> (\<exists>q'. q = l # q' \<and> (q', cfg) \<in> set xs)"
proof
  assume "(q, cfg) \<in> set (map (\<lambda>e. (l # fst e, snd e)) xs)"
  then obtain e where "e \<in> set xs" "q = l # fst e" "cfg = snd e" by auto
  then show "\<exists>q'. q = l # q' \<and> (q', cfg) \<in> set xs" by (intro exI [of _ "fst e"]) simp
next
  assume "\<exists>q'. q = l # q' \<and> (q', cfg) \<in> set xs"
  then obtain q' where "q = l # q'" "(q', cfg) \<in> set xs" by blast
  then show "(q, cfg) \<in> set (map (\<lambda>e. (l # fst e, snd e)) xs)"
    unfolding set_map by (intro image_eqI [of _ _ "(q', cfg)"]) simp_all
qed

lemma subtreeConfigs_mem:
  "(q, cfg) \<in> set (subtreeConfigs vl has get d n) \<longleftrightarrow>
     (q = [] \<and> d \<noteq> 0 \<and> has n \<and> cfg = get n) \<or>
     (\<exists>l c q'. q = l # q' \<and> (l, c) \<in> set (children n) \<and> (q', cfg) \<in> set (subtreeConfigs vl has get (d + 1) c))"
proof -
  have "(q, cfg) \<in> set (if d \<noteq> 0 \<and> has n then [([], get n)] else []) \<longleftrightarrow> q = [] \<and> d \<noteq> 0 \<and> has n \<and> cfg = get n"
    by auto
  then show ?thesis
    unfolding subtreeConfigs_set [of vl has get d n] Un_iff UN_iff push_label_mem Bex_def split_paired_Ex fst_conv snd_conv by blast
qed

lemma ref_Nil: "ref n [] = Some m \<longleftrightarrow> m = n" by auto

lemma subtreeConfigs_iff:
  "snode_wf n \<Longrightarrow> (q, cfg) \<in> set (subtreeConfigs vl has get d n) \<longleftrightarrow>
     (q \<noteq> [] \<or> d \<noteq> 0) \<and> (\<exists>m. ref n q = Some m \<and> has m \<and> cfg = get m)"
proof (induction q arbitrary: d n)
  case Nil
  show ?case unfolding subtreeConfigs_mem [of "[]" cfg vl has get d n]
    by (simp only: list.distinct not_False_eq_True ref_Nil option.inject simp_thms ex_simps)
next
  case (Cons l q)
  have d: "distinct (map fst (children n))" using Cons.prems by (simp add: snode_wf_children [of n])
  show ?case
  proof (cases "sgetChild n l")
    case None
    have "(l, c) \<notin> set (children n)" for c using d None by (auto simp: sgetChild_def)
    then show ?thesis unfolding subtreeConfigs_mem [of "l # q" cfg vl has get d n] by (simp add: None)
  next
    case (Some c)
    have ch: "(l, c') \<in> set (children n) \<longleftrightarrow> c' = c" for c'
      using d Some map_of_eq_Some_iff [OF d] unfolding sgetChild_def by (metis option.inject)
    have "(l # q, cfg) \<in> set (subtreeConfigs vl has get d n) \<longleftrightarrow> (q, cfg) \<in> set (subtreeConfigs vl has get (d + 1) c)"
      unfolding subtreeConfigs_mem [of "l # q" cfg vl has get d n] by (simp add: ch)
    then show ?thesis
      using Cons.IH [OF snode_wf_child [OF Cons.prems Some], of "d + 1"] by (simp add: Some)
  qed
qed

subsection \<open>Closest configurations\<close>

definition ref_opt :: "snode option \<Rightarrow> string list \<Rightarrow> snode option" where
  "ref_opt cur q = (case cur of None \<Rightarrow> None | Some n \<Rightarrow> ref n q)"

lemma ref_opt_simps [simp]:
  "ref_opt None q = None" "ref_opt (Some n) q = ref n q" "ref_opt cur [] = cur"
  "ref_opt (sgetChild n l) q = ref n (l # q)"
  by (simp_all add: ref_opt_def split: option.splits)

text \<open>
  \<open>closest_at has path c\<close>: the prefix \<open>c\<close> of \<open>path\<close> has the property and no longer prefix has it.
\<close>

definition closest_at :: "(string list \<Rightarrow> bool) \<Rightarrow> string list \<Rightarrow> string list \<Rightarrow> bool" where
  "closest_at has path c \<longleftrightarrow> prefix c path \<and> has c \<and> (\<forall>q. prefix q path \<and> has q \<longrightarrow> length q \<le> length c)"

definition none_at :: "(string list \<Rightarrow> bool) \<Rightarrow> string list \<Rightarrow> bool" where
  "none_at has path \<longleftrightarrow> (\<forall>q. prefix q path \<longrightarrow> \<not> has q)"

lemma closest_Cons:
  "closest_at has (l # path) [] \<longleftrightarrow> has [] \<and> none_at (\<lambda>q. has (l # q)) path"
  "closest_at has (l # path) (l' # c) \<longleftrightarrow> l' = l \<and> closest_at (\<lambda>q. has (l # q)) path c"
  "none_at has (l # path) \<longleftrightarrow> \<not> has [] \<and> none_at (\<lambda>q. has (l # q)) path"
  "closest_at has [] c \<longleftrightarrow> c = [] \<and> has []" "none_at has [] \<longleftrightarrow> \<not> has []"
  by (auto simp: closest_at_def none_at_def prefix_Cons)

lemma closest_Cons_child:
  assumes "closest_at (\<lambda>q. has (l # q)) path c" shows "closest_at has (l # path) (l # c)"
  using assms by (simp add: closest_Cons)

text \<open>Owners.\<close>

definition owner_at :: "snode option \<Rightarrow> string list \<Rightarrow> bool" where
  "owner_at cur q = hasOwnerConfig (ref_opt cur q)"

lemma owner_at_simps [simp]:
  "\<not> owner_at None q" "hasOwnerConfig None = False" "owner_at cur [] = hasOwnerConfig cur"
  "owner_at (Some n) (l # q) = owner_at (sgetChild n l) q"
  by (simp_all add: owner_at_def hasOwnerConfig_def hasConfig_def)

lemma none_at_None [simp]: "none_at (owner_at None) path" "none_at (\<lambda>q. False) path"
  by (simp_all add: none_at_def)

lemma matchOwner_closest:
  "(case om_closestConfigNode (matchOwnerPathRecursive path d cur) of
      None \<Rightarrow> none_at (owner_at cur) path \<and> om_closestConfigDepth (matchOwnerPathRecursive path d cur) = 0
    | Some n \<Rightarrow> \<exists>c. closest_at (owner_at cur) path c \<and> ref_opt cur c = Some n \<and>
        om_closestConfigDepth (matchOwnerPathRecursive path d cur) = d + length c)"
proof (induction path arbitrary: d cur)
  case Nil
  then show ?case by (cases cur) (auto simp: ownerHere_def closest_Cons)
next
  case (Cons l path)
  show ?case
  proof (cases cur)
    case None
    then show ?thesis by (simp add: ownerHere_def)
  next
    case (Some n)
    have f: "(\<lambda>q. owner_at (Some n) (l # q)) = owner_at (sgetChild n l)" by (rule ext) simp
    show ?thesis
    proof (cases "sgetChild n l")
      case None
      then have "closest_at (owner_at cur) (l # path) [] \<longleftrightarrow> hasOwnerConfig cur"
        "none_at (owner_at cur) (l # path) \<longleftrightarrow> \<not> hasOwnerConfig cur"
        by (simp_all add: Some closest_Cons f)
      then show ?thesis using None by (auto simp: Some ownerHere_def)
    next
      case nx: (Some m)
      let ?m = "matchOwnerPathRecursive path (d + 1) (Some m)"
      show ?thesis
      proof (cases "om_closestConfigNode ?m")
        case None
        then have n: "none_at (owner_at (Some m)) path" "om_closestConfigDepth ?m = 0"
          using Cons.IH [where d = "d + 1" and cur = "Some m"] by simp_all
        then have "closest_at (owner_at cur) (l # path) [] \<longleftrightarrow> hasOwnerConfig cur"
          "none_at (owner_at cur) (l # path) \<longleftrightarrow> \<not> hasOwnerConfig cur"
          by (simp_all add: Some closest_Cons f nx)
        then show ?thesis using n None by (auto simp: Some nx Let_def)
      next
        case (Some k)
        then obtain c where c: "closest_at (owner_at (Some m)) path c" "ref m c = Some k"
          "om_closestConfigDepth ?m = d + 1 + length c"
          using Cons.IH [where d = "d + 1" and cur = "Some m"] by auto
        have "closest_at (owner_at cur) (l # path) (l # c)"
          using c(1) by (simp add: \<open>cur = Some n\<close> closest_Cons f nx)
        moreover have "ref_opt cur (l # c) = Some k" using c(2) by (simp add: \<open>cur = Some n\<close> nx)
        moreover have "om_closestConfigDepth ?m = d + length (l # c)" using c(3) by simp
        moreover have e: "matchOwnerPathRecursive (l # path) d cur = ?m"
          using Some by (simp add: \<open>cur = Some n\<close> nx Let_def)
        ultimately show ?thesis unfolding e Some option.case by blast
      qed
    qed
  qed
qed

lemma matchOwner_node:
  "om_matchedOwnerNode (matchOwnerPathRecursive path d cur) = ref_opt cur path"
proof (induction path arbitrary: d cur)
  case (Cons l path)
  then show ?case by (auto simp: ownerHere_def Let_def split: option.splits)
qed (simp add: ownerHere_def)

lemma take_prefix: "prefix c p \<Longrightarrow> take (length c) p = c"
  by (auto simp: prefix_def)

lemma matchOwnerForParsedPath_closest:
  "(none_at (owner_at (sgetChild rt ''owners'')) p \<and> mo_closestOwner (matchOwnerForParsedPath rt p) = ([], JNull)) \<or>
   (\<exists>c. closest_at (owner_at (sgetChild rt ''owners'')) p c \<and>
     mo_closestOwner (matchOwnerForParsedPath rt p) = (c, getOwnerConfig (ref rt (''owners'' # c))))"
proof -
  let ?m = "matchOwnerPathRecursive p 0 (sgetChild rt ''owners'')"
  have m: "mo_closestOwner (matchOwnerForParsedPath rt p) =
      (take (om_closestConfigDepth ?m) p, getOwnerConfig (om_closestConfigNode ?m))"
    by (simp add: matchOwnerForParsedPath_def matchOwnerPath_def Let_def)
  show ?thesis
  proof (cases "om_closestConfigNode ?m")
    case None
    then show ?thesis
      using matchOwner_closest [where path = p and d = 0 and cur = "sgetChild rt ''owners''"] by (simp add: m getOwnerConfig_def getConfig_def)
  next
    case (Some n)
    then obtain c where c: "closest_at (owner_at (sgetChild rt ''owners'')) p c"
      "ref rt (''owners'' # c) = Some n" "om_closestConfigDepth ?m = length c"
      using matchOwner_closest [where path = p and d = 0 and cur = "sgetChild rt ''owners''"] by auto
    moreover have "take (length c) p = c" using c(1) by (auto simp: closest_at_def take_prefix)
    ultimately show ?thesis by (intro disjI2 exI [of _ c]) (simp add: m Some del: getRefForReadingFromStateRoot.simps)
  qed
qed

lemma list_nonempty_pair: "xs \<noteq> [] \<longleftrightarrow> (\<exists>q cfg. (q, cfg) \<in> set xs)"
  by (cases xs) auto

lemma subtreeOwners_nonempty:
  assumes "snode_wf rt"
  shows "mo_subtreeOwners (matchOwnerForParsedPath rt p) \<noteq> [] \<longleftrightarrow>
    (\<exists>q. q \<noteq> [] \<and> hasOwnerConfig (ref rt (''owners'' # p @ q)))"
proof -
  let ?cur = "sgetChild rt ''owners''"
  have n: "om_matchedOwnerNode (matchOwnerPath rt p) = ref rt (''owners'' # p)"
    by (simp add: matchOwnerPath_def matchOwner_node del: getRefForReadingFromStateRoot.simps)
  have r: "ref rt (''owners'' # p @ q) = (case ref rt (''owners'' # p) of None \<Rightarrow> None | Some m \<Rightarrow> ref m q)" for q
    using ref_append [of rt "''owners'' # p" q] by (simp del: getRefForReadingFromStateRoot.simps)
  show ?thesis
  proof (cases "ref rt (''owners'' # p)")
    case None
    then show ?thesis
      by (simp add: matchOwnerForParsedPath_def Let_def n r hasOwnerConfig_def hasConfig_def
          del: getRefForReadingFromStateRoot.simps)
  next
    case (Some m)
    have wf: "snode_wf m" using snode_wf_ref [OF assms Some] .
    have "mo_subtreeOwners (matchOwnerForParsedPath rt p) \<noteq> [] \<longleftrightarrow>
      (\<exists>q cfg. (q, cfg) \<in> set (subtreeConfigs False (\<lambda>n. hasOwnerConfig (Some n)) (\<lambda>n. getOwnerConfig (Some n)) 0 m))"
      by (simp add: matchOwnerForParsedPath_def Let_def n Some getSubtreeOwners_def getSubtreeOwnersRecursive_def
          list_nonempty_pair del: getRefForReadingFromStateRoot.simps)
    also have "\<dots> \<longleftrightarrow> (\<exists>q. q \<noteq> [] \<and> (\<exists>k. ref m q = Some k \<and> hasOwnerConfig (Some k)))"
      by (simp add: subtreeConfigs_iff [OF wf])
    also have "\<dots> \<longleftrightarrow> (\<exists>q. q \<noteq> [] \<and> hasOwnerConfig (ref rt (''owners'' # p @ q)))"
      unfolding r Some option.case
      by (intro arg_cong [where f = Ex] ext) (auto simp: hasOwnerConfig_def hasConfig_def split: option.splits)
    finally show ?thesis .
  qed
qed

lemma owner_at_ref: "owner_at (sgetChild rt ''owners'') = (\<lambda>q. hasOwnerConfig (ref rt (''owners'' # q)))"
  by (rule ext) (simp add: owner_at_def)

lemma closest_unique: "closest_at P p c \<Longrightarrow> closest_at P p c' \<Longrightarrow> c' = c"
  unfolding closest_at_def by (metis antisym prefix_order.antisym prefix_length_prefix)

lemma owner_closest_permission:
  "checkPermission (snd (mo_closestOwner (matchOwnerForParsedPath rt p))) auth (pm (fst (mo_closestOwner (matchOwnerForParsedPath rt p)))) \<longleftrightarrow>
    (\<exists>c. closest_at (\<lambda>q. hasOwnerConfig (ref rt (''owners'' # q))) p c \<and>
       checkPermission (getOwnerConfig (ref rt (''owners'' # c))) auth (pm c))"
proof (rule disjE [OF matchOwnerForParsedPath_closest [of rt p]])
  assume a: "none_at (owner_at (sgetChild rt ''owners'')) p \<and> mo_closestOwner (matchOwnerForParsedPath rt p) = ([], JNull)"
  then show ?thesis
    by (auto simp: owner_at_ref none_at_def closest_at_def checkPermission_def getOwnerPermissions_def)
next
  assume "\<exists>c. closest_at (owner_at (sgetChild rt ''owners'')) p c \<and>
     mo_closestOwner (matchOwnerForParsedPath rt p) = (c, getOwnerConfig (ref rt (''owners'' # c)))"
  then obtain c where c: "closest_at (\<lambda>q. hasOwnerConfig (ref rt (''owners'' # q))) p c"
    "mo_closestOwner (matchOwnerForParsedPath rt p) = (c, getOwnerConfig (ref rt (''owners'' # c)))"
    unfolding owner_at_ref by blast
  show ?thesis unfolding c(2) fst_conv snd_conv using c(1) closest_unique by blast
qed

lemma owner_closest_length:
  "length (fst (mo_closestOwner (matchOwnerForParsedPath rt p))) = length p \<longleftrightarrow>
     fst (mo_closestOwner (matchOwnerForParsedPath rt p)) = p"
proof -
  have "prefix (fst (mo_closestOwner (matchOwnerForParsedPath rt p))) p"
    using matchOwnerForParsedPath_closest [of rt p] by (auto simp: closest_at_def)
  then show ?thesis using take_prefix by (metis take_all order_refl)
qed

subsection \<open>Walking a rule or function tree\<close>

text \<open>
  \<open>rule_walk n value pattern m\<close>: from \<open>n\<close> the labels of \<open>value\<close> lead to \<open>m\<close> along the labels of
  \<open>pattern\<close>, taking the child with the very label when there is one and the variable child otherwise.
\<close>

inductive rule_walk :: "snode \<Rightarrow> string list \<Rightarrow> string list \<Rightarrow> snode \<Rightarrow> bool" where
  Done: "rule_walk n [] [] n"
| Exact: "sgetChild n l = Some c \<Longrightarrow> rule_walk c v r m \<Longrightarrow> rule_walk n (l # v) (l # r) m"
| Variable: "sgetChild n l = None \<Longrightarrow> getVariableLabel n = Some x \<Longrightarrow> sgetChild n x = Some c \<Longrightarrow>
    rule_walk c v r m \<Longrightarrow> rule_walk n (l # v) (x # r) m"

inductive_cases rule_walk_NilE: "rule_walk n [] r m"
inductive_cases rule_walk_ConsE: "rule_walk n (l # v) r m"

lemma rule_walk_deterministic: "rule_walk n v r m \<Longrightarrow> rule_walk n v r' m' \<Longrightarrow> r' = r \<and> m' = m"
proof (induction arbitrary: r' m' rule: rule_walk.induct)
  case (Done n)
  then show ?case by (auto elim: rule_walk_NilE)
next
  case (Exact n l c v r m)
  show ?case
    by (rule rule_walk_ConsE [OF Exact.prems])
      (use Exact.IH Exact.hyps(1) in \<open>metis option.inject option.distinct(1)\<close>)+
next
  case (Variable n l x c v r m)
  show ?case
    by (rule rule_walk_ConsE [OF Variable.prems])
      (use Variable.IH Variable.hyps(1-3) in \<open>metis option.inject option.distinct(1)\<close>)+
qed

lemma rule_walk_ref: "rule_walk n v r m \<Longrightarrow> ref n r = Some m \<and> length r = length v"
  by (induction rule: rule_walk.induct) simp_all

lemma getVariableLabel_Some:
  "getVariableLabel n = Some x \<Longrightarrow> isVariableLabel x \<and> (\<exists>c. sgetChild n x = Some c)"
proof -
  assume "getVariableLabel n = Some x"
  then have "find isVariableLabel (getChildLabels n) = Some x" by (simp add: getVariableLabel_def split: if_splits)
  then have "isVariableLabel x" "x \<in> set (map fst (children n))"
    by (auto simp: find_Some_iff getChildLabels_def)
  then show ?thesis
    using map_of_eq_None_iff [of "children n" x] by (auto simp: sgetChild_def)
qed

text \<open>A rule configuration with the property at a node of the tree.\<close>

definition rule_at :: "string \<Rightarrow> snode option \<Rightarrow> string list \<Rightarrow> bool" where
  "rule_at ruleProp cur q = hasRuleConfigWithProp (ref_opt cur q) ruleProp"

lemma rule_at_simps [simp]:
  "\<not> rule_at pr None q" "hasRuleConfigWithProp None pr = False" "rule_at pr cur [] = hasRuleConfigWithProp cur pr"
  "rule_at pr (Some n) (l # q) = rule_at pr (sgetChild n l) q"
  by (simp_all add: rule_at_def hasRuleConfigWithProp_def)

definition closest_rule :: "string \<Rightarrow> nat \<Rightarrow> snode option \<Rightarrow> rule_match \<Rightarrow> bool" where
  "closest_rule pr d cur m \<longleftrightarrow>
     (case rm_closestConfigNode m of
        None \<Rightarrow> none_at (rule_at pr cur) (rm_matchedRulePath m) \<and> rm_closestConfigDepth m = 0
      | Some k \<Rightarrow> \<exists>c. closest_at (rule_at pr cur) (rm_matchedRulePath m) c \<and> ref_opt cur c = Some k \<and>
          rm_closestConfigDepth m = d + length c)"

lemma closest_rule_here: "closest_rule pr d cur (closestHere d cur pr node)"
  by (cases cur) (auto simp: closest_rule_def closestHere_def closest_Cons)

lemma closest_rule_Cons:
  assumes n: "sgetChild n x = Some c" and ih: "closest_rule pr (d + 1) (Some c) m"
    and m': "rm_matchedRulePath m' = x # rm_matchedRulePath m"
      "rm_closestConfigNode m' = rm_closestConfigNode m" "rm_closestConfigDepth m' = rm_closestConfigDepth m"
  shows "closest_rule pr d (Some n) (orClosest d (Some n) pr m')"
proof -
  have f: "(\<lambda>q. rule_at pr (Some n) (x # q)) = rule_at pr (Some c)" by (rule ext) (simp add: n)
  show ?thesis
  proof (cases "rm_closestConfigNode m")
    case None
    then have "none_at (rule_at pr (Some c)) (rm_matchedRulePath m)" "rm_closestConfigDepth m = 0"
      using ih by (simp_all add: closest_rule_def)
    then have "closest_at (rule_at pr (Some n)) (x # rm_matchedRulePath m) [] \<longleftrightarrow> hasRuleConfigWithProp (Some n) pr"
      "none_at (rule_at pr (Some n)) (x # rm_matchedRulePath m) \<longleftrightarrow> \<not> hasRuleConfigWithProp (Some n) pr"
      by (simp_all add: closest_Cons f n)
    then show ?thesis
      using None m' \<open>rm_closestConfigDepth m = 0\<close> by (auto simp: closest_rule_def orClosest_def)
  next
    case (Some k)
    then obtain q where q: "closest_at (rule_at pr (Some c)) (rm_matchedRulePath m) q" "ref c q = Some k"
      "rm_closestConfigDepth m = d + 1 + length q"
      using ih by (auto simp: closest_rule_def)
    have "closest_at (rule_at pr (Some n)) (rm_matchedRulePath m') (x # q)"
      using q(1) by (simp add: m' closest_Cons f n)
    moreover have "ref_opt (Some n) (x # q) = Some k" using q(2) by (simp add: n)
    moreover have "rm_closestConfigDepth m' = d + length (x # q)" using q(3) m' by simp
    moreover have "orClosest d (Some n) pr m' = m'" using Some m' by (simp add: orClosest_def)
    ultimately show ?thesis unfolding closest_rule_def using Some m'(2) by (simp only: option.case) blast
  qed
qed

definition rule_match_ok :: "string \<Rightarrow> nat \<Rightarrow> snode \<Rightarrow> string list \<Rightarrow> rule_match \<Rightarrow> bool" where
  "rule_match_ok pr d n path m \<longleftrightarrow>
     (\<exists>k rest. path = rm_matchedValuePath m @ rest \<and> rule_walk n (rm_matchedValuePath m) (rm_matchedRulePath m) k \<and>
        rm_matchedRuleNode m = (if rest = [] then Some k else None) \<and>
        (rest \<noteq> [] \<longrightarrow> sgetChild k (hd rest) = None \<and> getVariableLabel k = None)) \<and>
     set (rm_pathVars m) \<subseteq> set (zip (rm_matchedRulePath m) (rm_matchedValuePath m)) \<and>
     closest_rule pr d (Some n) m"

lemma orClosest_fields [simp]:
  "rm_matchedValuePath (orClosest d cur pr m) = rm_matchedValuePath m"
  "rm_matchedRulePath (orClosest d cur pr m) = rm_matchedRulePath m"
  "rm_pathVars (orClosest d cur pr m) = rm_pathVars m"
  "rm_matchedRuleNode (orClosest d cur pr m) = rm_matchedRuleNode m"
  by (simp_all add: orClosest_def)

lemma bindVar_subset: "set (bindVar x l vars) \<subseteq> insert (x, l) (set vars)"
  by (auto simp: bindVar_def)

lemma rule_match_ok_push:
  assumes ih: "rule_match_ok pr (d + 1) c path m"
    and step: "\<And>v r k. rule_walk c v r k \<Longrightarrow> rule_walk n (l # v) (x # r) k"
    and close: "closest_rule pr d (Some n) (orClosest d (Some n) pr m')"
    and m': "rm_matchedValuePath m' = l # rm_matchedValuePath m" "rm_matchedRulePath m' = x # rm_matchedRulePath m"
      "rm_matchedRuleNode m' = rm_matchedRuleNode m" "set (rm_pathVars m') \<subseteq> insert (x, l) (set (rm_pathVars m))"
  shows "rule_match_ok pr d n (l # path) (orClosest d (Some n) pr m')"
proof -
  obtain k rest where w: "path = rm_matchedValuePath m @ rest" "rule_walk c (rm_matchedValuePath m) (rm_matchedRulePath m) k"
    "rm_matchedRuleNode m = (if rest = [] then Some k else None)"
    "rest \<noteq> [] \<longrightarrow> sgetChild k (hd rest) = None \<and> getVariableLabel k = None"
    and v: "set (rm_pathVars m) \<subseteq> set (zip (rm_matchedRulePath m) (rm_matchedValuePath m))"
    using ih unfolding rule_match_ok_def by blast
  have "set (rm_pathVars m') \<subseteq> set (zip (rm_matchedRulePath m') (rm_matchedValuePath m'))"
    using v m'(4) unfolding m'(1,2) by auto
  moreover have "l # path = rm_matchedValuePath m' @ rest" using w(1) m'(1) by simp
  moreover have "rule_walk n (rm_matchedValuePath m') (rm_matchedRulePath m') k"
    using step [OF w(2)] m'(1,2) by simp
  ultimately show ?thesis
    unfolding rule_match_ok_def orClosest_fields m'(3) using w(3,4) close by blast
qed

lemma matchRule_ok: "rule_match_ok pr d n path (matchRulePathRecursive path d (Some n) pr)"
proof (induction path arbitrary: d n)
  case Nil
  show ?case
    unfolding rule_match_ok_def matchRulePathRecursive.simps
    using closest_rule_here [of pr d "Some n" "Some n"] by (auto simp: closestHere_def intro: rule_walk.Done)
next
  case (Cons l path)
  show ?case
  proof (cases "sgetChild n l")
    case (Some c)
    let ?m = "matchRulePathRecursive path (d + 1) (Some c) pr"
    let ?m' = "?m\<lparr>rm_matchedValuePath := l # rm_matchedValuePath ?m, rm_matchedRulePath := l # rm_matchedRulePath ?m\<rparr>"
    have ih: "rule_match_ok pr (d + 1) c path ?m" by (rule Cons.IH)
    have e: "matchRulePathRecursive (l # path) d (Some n) pr = orClosest d (Some n) pr ?m'"
      by (simp add: Some Let_def)
    have cl: "closest_rule pr d (Some n) (orClosest d (Some n) pr ?m')"
      by (rule closest_rule_Cons [OF Some]) (use ih in \<open>simp_all add: rule_match_ok_def\<close>)
    show ?thesis unfolding e by (rule rule_match_ok_push [OF ih rule_walk.Exact [OF Some] cl]) auto
  next
    case None
    show ?thesis
    proof (cases "getVariableLabel n")
      case (Some x)
      then obtain c where c: "sgetChild n x = Some c" using getVariableLabel_Some by blast
      let ?m = "matchRulePathRecursive path (d + 1) (Some c) pr"
      let ?m' = "?m\<lparr>rm_matchedValuePath := l # rm_matchedValuePath ?m, rm_matchedRulePath := x # rm_matchedRulePath ?m,
          rm_pathVars := bindVar x l (rm_pathVars ?m)\<rparr>"
      have ih: "rule_match_ok pr (d + 1) c path ?m" by (rule Cons.IH)
      have e: "matchRulePathRecursive (l # path) d (Some n) pr = orClosest d (Some n) pr ?m'"
        by (simp add: None Some c Let_def)
      have cl: "closest_rule pr d (Some n) (orClosest d (Some n) pr ?m')"
        by (rule closest_rule_Cons [OF c]) (use ih in \<open>simp_all add: rule_match_ok_def\<close>)
      show ?thesis
        unfolding e by (rule rule_match_ok_push [OF ih rule_walk.Variable [OF None Some c] cl])
          (use bindVar_subset [of x l "rm_pathVars ?m"] in auto)
    next
      case no: None
      show ?thesis
        unfolding rule_match_ok_def
        using closest_rule_here [of pr d "Some n" None] by (auto simp: closestHere_def None no intro: rule_walk.Done)
    qed
  qed
qed

text \<open>The function tree is walked in the same way.\<close>

definition functionPart :: "rule_match \<Rightarrow> function_match" where
  "functionPart m = \<lparr>fm_matchedValuePath = rm_matchedValuePath m, fm_matchedFunctionPath = rm_matchedRulePath m,
     fm_pathVars = rm_pathVars m, fm_matchedFunctionNode = rm_matchedRuleNode m\<rparr>"

lemma functionPart_orClosest [simp]: "functionPart (orClosest d cur pr m) = functionPart m"
  by (simp add: functionPart_def)

lemma matchFunction_as_rule: "matchFunctionPathRecursive path cur = functionPart (matchRulePathRecursive path d cur pr)"
proof (induction path arbitrary: cur d)
  case (Cons l path)
  show ?case
  proof (cases cur)
    case n: (Some n)
    show ?thesis
    proof (cases "sgetChild n l")
      case (Some c)
      then show ?thesis
        by (simp add: n Some Let_def Cons.IH [where cur = "Some c" and d = "d + 1"]) (simp add: functionPart_def)
    next
      case None
      show ?thesis
      proof (cases "getVariableLabel n")
        case (Some x)
        then show ?thesis
          by (simp add: n None Let_def Cons.IH [where cur = "sgetChild n x" and d = "d + 1"]) (simp add: functionPart_def)
      qed (simp add: n None functionPart_def closestHere_def)
    qed
  qed (simp add: functionPart_def closestHere_def)
qed (simp add: functionPart_def closestHere_def)

subsection \<open>Garbage collection\<close>

lemma deleteChildren_ref:
  "p \<noteq> [] \<Longrightarrow> ref (deleteChildren rt p labels) (p @ l # q) = (if l \<in> set labels then None else ref rt (p @ l # q))"
proof (induction labels arbitrary: rt)
  case (Cons k labels)
  have "ref (putTree rt (p @ [k]) emptySNode) (p @ l # q) = (if l = k then None else ref rt (p @ l # q))"
  proof (cases "l = k")
    case True
    then show ?thesis using ref_putTree_below [of "p @ [k]" rt emptySNode q] by (simp add: isEmptyNode_def)
  next
    case False
    then have "p @ [k] \<parallel> p @ l # q" by (simp add: parallel_def)
    then show ?thesis using False by (simp add: ref_putTree_parallel)
  qed
  then show ?case
    using Cons.IH [of "putTree rt (p @ [k]) emptySNode"] Cons.prems
    by (cases "l = k") (simp_all add: deleteChildren_def writeToStateRoot_def flip: emptySNode_def)
qed (simp add: deleteChildren_def)

lemma deleteChildren_parallel: "p \<parallel> q \<Longrightarrow> ref (deleteChildren rt p labels) q = ref rt q"
proof (induction labels arbitrary: rt)
  case (Cons k labels)
  have "p @ [k] \<parallel> q" using Cons.prems by (metis append_prefixD parallel_def prefix_append prefix_order.trans prefixI)
  then show ?case
    using Cons.IH [OF Cons.prems, of "writeToStateRoot rt (p @ [k]) JNull"]
    by (simp add: deleteChildren_def writeToStateRoot_def ref_putTree_parallel)
qed (simp add: deleteChildren_def)

subsection \<open>Properties\<close>

text \<open>
  C14. A well-formed state tree has no node with two children of the same label, and stays so
  under every sequence of writes and deletions. In such a tree the rule configurations that are
  reported below a node are exactly those at the nodes strictly below it that have the property,
  each with its path, and likewise for functions and owners.
\<close>

theorem subtree_configs_exact:
  assumes "snode_wf rt"
    and "getRefForReadingFromStateRoot (foldl (\<lambda>s (p, v). writeToStateRoot s p v) rt ws) q = Some n"
  shows "snode_wf n \<and>
    set (getSubtreeRules (Some n) pr) = {(p, getRuleConfig (Some m)) |p m. p \<noteq> [] \<and>
      getRefForReadingFromStateRoot n p = Some m \<and> hasRuleConfigWithProp (Some m) pr} \<and>
    set (getSubtreeFunctions (Some n)) = {(p, getFunctionConfig (Some m)) |p m. p \<noteq> [] \<and>
      getRefForReadingFromStateRoot n p = Some m \<and> hasFunctionConfig (Some m)} \<and>
    set (getSubtreeOwners (Some n)) = {(p, getOwnerConfig (Some m)) |p m. p \<noteq> [] \<and>
      getRefForReadingFromStateRoot n p = Some m \<and> hasOwnerConfig (Some m)}"
proof -
  have wf: "snode_wf n" using assms snode_wf_writes snode_wf_ref by blast
  have "set (subtreeConfigs vl has get 0 n) = {(p, get m) |p m. p \<noteq> [] \<and> ref n p = Some m \<and> has m}"
    for vl has and get :: "snode \<Rightarrow> jsval"
  proof (rule set_eqI)
    fix e
    show "e \<in> set (subtreeConfigs vl has get 0 n) \<longleftrightarrow> e \<in> {(p, get m) |p m. p \<noteq> [] \<and> ref n p = Some m \<and> has m}"
      using subtreeConfigs_iff [OF wf, of "fst e" "snd e" vl has get 0] by (cases e) auto
  qed
  then show ?thesis
    by (simp add: wf getSubtreeRules_def getSubtreeRulesRecursive_def getSubtreeFunctions_def
        getSubtreeFunctionsRecursive_def getSubtreeOwners_def getSubtreeOwnersRecursive_def)
qed

theorem subtree_configs_exact_witness:
  "set (getSubtreeOwners (Some (SNode [(''a'', SNode [(''.owner'', SLeaf (JBool True))])]))) \<supseteq>
     {([''a''], getOwnerConfig (Some (SNode [(''.owner'', SLeaf (JBool True))])))}"
proof -
  let ?n = "SNode [(''a'', SNode [(''.owner'', SLeaf (JBool True))])]"
  have "ref (foldl (\<lambda>s (p, v). writeToStateRoot s p v) ?n []) [] = Some ?n" "snode_wf ?n" by simp_all
  from subtree_configs_exact [OF this(2,1)] show ?thesis
    by (auto simp: sgetChild_def hasOwnerConfig_def hasConfig_def intro!: exI [of _ "[''a'']"])
qed

text \<open>
  C12. Who may change an owner configuration: the write is permitted exactly when it is a merge or
  no owner configuration lies strictly below the path, and the owner configuration at the longest
  prefix of the path that has one grants the permission - \<open>write_owner\<close> when that prefix is the
  path itself, \<open>branch_owner\<close> when it is a proper one. Without any owner configuration on the path
  nobody may.
\<close>

theorem owner_permission_exact:
  assumes "snode_wf rt"
  shows "fst (getPermissionForOwner rt p auth isMerge) = 0 \<longleftrightarrow>
    (isMerge \<or> (\<forall>q. q \<noteq> [] \<longrightarrow> \<not> hasOwnerConfig (getRefForReadingFromStateRoot rt (''owners'' # p @ q)))) \<and>
    (\<exists>c. closest_at (\<lambda>q. hasOwnerConfig (getRefForReadingFromStateRoot rt (''owners'' # q))) p c \<and>
       checkPermission (getOwnerConfig (getRefForReadingFromStateRoot rt (''owners'' # c))) auth
         (if c = p then ''write_owner'' else ''branch_owner''))"
  using owner_closest_permission [of rt p auth "\<lambda>c. if c = p then ''write_owner'' else ''branch_owner''"]
    subtreeOwners_nonempty [OF assms, of p]
  by (auto simp: getPermissionForOwner_def Let_def owner_closest_length)

theorem owner_permission_exact_witness:
  "fst (getPermissionForOwner (SNode []) [''apps''] JNull False) \<noteq> 0"
proof -
  have "snode_wf (SNode [])" by simp
  from owner_permission_exact [OF this, of "[''apps'']" JNull False] show ?thesis
    by (simp add: sgetChild_def hasOwnerConfig_def hasConfig_def closest_at_def)
qed

text \<open>
  Who may change a rule or a function: the permissions \<open>write_rule\<close> and \<open>write_function\<close> are
  those of the closest owner configuration on the path, and a write that is not a merge must not
  have an owner configuration strictly below its path.
\<close>

theorem rule_and_function_permission_exact:
  assumes "snode_wf rt"
  shows "(fst (getPermissionForRule rt p auth isMerge) = 0 \<longleftrightarrow>
    (isMerge \<or> (\<forall>q. q \<noteq> [] \<longrightarrow> \<not> hasOwnerConfig (getRefForReadingFromStateRoot rt (''owners'' # p @ q)))) \<and>
    (\<exists>c. closest_at (\<lambda>q. hasOwnerConfig (getRefForReadingFromStateRoot rt (''owners'' # q))) p c \<and>
       checkPermission (getOwnerConfig (getRefForReadingFromStateRoot rt (''owners'' # c))) auth ''write_rule'')) \<and>
   (fst (getPermissionForFunction rt p auth isMerge) = 0 \<longleftrightarrow>
    (isMerge \<or> (\<forall>q. q \<noteq> [] \<longrightarrow> \<not> hasOwnerConfig (getRefForReadingFromStateRoot rt (''owners'' # p @ q)))) \<and>
    (\<exists>c. closest_at (\<lambda>q. hasOwnerConfig (getRefForReadingFromStateRoot rt (''owners'' # q))) p c \<and>
       checkPermission (getOwnerConfig (getRefForReadingFromStateRoot rt (''owners'' # c))) auth ''write_function''))"
  using owner_closest_permission [of rt p auth "\<lambda>c. ''write_rule''"] owner_closest_permission [of rt p auth "\<lambda>c. ''write_function''"]
    subtreeOwners_nonempty [OF assms, of p]
  by (auto simp: getPermissionForRule_def getPermissionForFunction_def Let_def)

theorem rule_and_function_permission_exact_witness:
  "fst (getPermissionForRule (SNode []) [''apps''] JNull True) \<noteq> 0"
proof -
  have "snode_wf (SNode [])" by simp
  from rule_and_function_permission_exact [OF this, of "[''apps'']" JNull True] show ?thesis
    by (simp add: sgetChild_def hasOwnerConfig_def hasConfig_def closest_at_def)
qed

text \<open>
  C13. Matching a value path against the rule tree follows the labels of the path as far as they
  lead: an exact label is taken where there is one and the variable label otherwise, and the match
  stops only at a node with neither. The path variables are bound to labels of the value path at
  their place, and the configuration that applies is the one at the deepest node on the matched
  path that has the property.
\<close>

theorem rule_match_exact:
  assumes "sgetChild rt ''rules'' = Some n"
  shows "(\<exists>k rest. p = rm_matchedValuePath (matchRulePath rt p pr) @ rest \<and>
      rule_walk n (rm_matchedValuePath (matchRulePath rt p pr)) (rm_matchedRulePath (matchRulePath rt p pr)) k \<and>
      rm_matchedRuleNode (matchRulePath rt p pr) = (if rest = [] then Some k else None) \<and>
      (rest \<noteq> [] \<longrightarrow> sgetChild k (hd rest) = None \<and> getVariableLabel k = None)) \<and>
    set (rm_pathVars (matchRulePath rt p pr)) \<subseteq>
      set (zip (rm_matchedRulePath (matchRulePath rt p pr)) (rm_matchedValuePath (matchRulePath rt p pr))) \<and>
    closest_rule pr 0 (Some n) (matchRulePath rt p pr)"
  using matchRule_ok [of pr 0 n p] assms by (simp add: matchRulePath_def rule_match_ok_def)

theorem rule_match_exact_witness:
  "rm_matchedRulePath (matchRulePath (SNode [(''rules'', SNode [(''$x'', SLeaf JNull)])]) [''a''] ''write'') = [''$x'']"
proof -
  let ?n = "SNode [(''$x'', SLeaf JNull)]" let ?rt = "SNode [(''rules'', ?n)]"
  let ?m = "matchRulePath ?rt [''a''] ''write''"
  have v: "getVariableLabel ?n = Some ''$x''"
    by (simp add: getVariableLabel_def getChildLabels_def getIsLeaf.simps isVariableLabel_def isPrefixedLabel_def)
  have "sgetChild ?rt ''rules'' = Some ?n" by (simp add: sgetChild_def)
  from rule_match_exact [OF this, of "[''a'']" "''write''"] obtain k rest
    where k: "[''a''] = rm_matchedValuePath ?m @ rest" "rule_walk ?n (rm_matchedValuePath ?m) (rm_matchedRulePath ?m) k"
      "rest \<noteq> [] \<longrightarrow> getVariableLabel k = None" by blast
  have "rm_matchedValuePath ?m \<noteq> []"
    using k v by (cases "rm_matchedValuePath ?m") (auto elim: rule_walk_NilE)
  then have "rm_matchedValuePath ?m = [''a'']" using k(1) by (cases "rm_matchedValuePath ?m") auto
  with k(2) have "rule_walk ?n [''a''] (rm_matchedRulePath ?m) k" by simp
  then show ?thesis by (rule rule_walk_ConsE) (use v in \<open>auto simp: sgetChild_def elim: rule_walk_NilE\<close>)
qed

text \<open>
  Function paths are matched by the same walk as rule paths: on the same tree the two matchers
  agree on the matched paths, the variables and the node, whatever rule property is asked for.
\<close>

theorem function_match_as_rule_match:
  "matchFunctionPathRecursive p cur =
     \<lparr>fm_matchedValuePath = rm_matchedValuePath (matchRulePathRecursive p d cur pr),
      fm_matchedFunctionPath = rm_matchedRulePath (matchRulePathRecursive p d cur pr),
      fm_pathVars = rm_pathVars (matchRulePathRecursive p d cur pr),
      fm_matchedFunctionNode = rm_matchedRuleNode (matchRulePathRecursive p d cur pr)\<rparr>"
  using matchFunction_as_rule [of p cur d pr] by (simp add: functionPart_def)

text \<open>
  Garbage collection by a state rule that deletes at most as many siblings as it allows
  (\<open>gc_num_siblings_deleted\<close> at most \<open>gc_max_siblings\<close>) never runs past the child list: when the
  parent has more children than allowed exactly that many are deleted, the first ones with all that
  is below them, otherwise none; every other child of the parent and everything outside the parent
  stays as it was.
\<close>

theorem state_gc_deletes_first_children:
  assumes "isDict (snd (mr_closestRule m))"
    and "prop_get (prop_get (snd (mr_closestRule m)) ''state'') ''gc_max_siblings'' = JNum (of_nat gcMax)"
    and "prop_get (prop_get (snd (mr_closestRule m)) ''state'') ''gc_num_siblings_deleted'' = JNum (of_nat gcNum)"
    and "0 < gcNum" "gcNum \<le> gcMax"
    and "fst (mr_closestRule m) \<noteq> []"
    and parent: "parent = ''values'' # take (length (fst (mr_closestRule m)) - 1) path"
  shows "\<exists>k rt'. applyStateGarbageCollectionRule rt m path = Some (k, rt') \<and>
    k = (case getRefForReadingFromStateRoot rt parent of None \<Rightarrow> 0
         | Some node \<Rightarrow> if numChildNodes node > gcMax then gcNum else 0) \<and>
    (\<forall>l q. getRefForReadingFromStateRoot rt' (parent @ l # q) =
       (if \<exists>node. getRefForReadingFromStateRoot rt parent = Some node \<and> l \<in> set (take k (getChildLabels node))
        then None else getRefForReadingFromStateRoot rt (parent @ l # q))) \<and>
    (\<forall>q. parent \<parallel> q \<longrightarrow> getRefForReadingFromStateRoot rt' q = getRefForReadingFromStateRoot rt q)"
proof -
  obtain kvs where obj: "prop_get (snd (mr_closestRule m)) ''state'' = JObj kvs" "kvs \<noteq> []"
    using assms(2) by (cases "prop_get (snd (mr_closestRule m)) ''state''") fastforce+
  have start: "applyStateGarbageCollectionRule rt m path =
     (case ref rt parent of None \<Rightarrow> Some (0, rt)
      | Some node \<Rightarrow> if numChildNodes node \<le> gcMax then Some (0, rt)
          else if gcNum > length (getChildLabels node) then None
          else Some (gcNum, deleteChildren rt parent (take gcNum (getChildLabels node))))"
    unfolding applyStateGarbageCollectionRule_def Let_def parent
    unfolding assms(2,3) using assms(1,4-6) obj(2)
    by (simp add: obj(1) fits_limit_def Suc_le_eq del: getRefForReadingFromStateRoot.simps split: option.split)
  have len: "length (getChildLabels node) = numChildNodes node" for node
    by (simp add: getChildLabels_def numChildNodes_def)
  show ?thesis
  proof (cases "\<exists>node. ref rt parent = Some node \<and> numChildNodes node > gcMax")
    case True
    then obtain node where node: "ref rt parent = Some node" "numChildNodes node > gcMax" by blast
    let ?rt' = "deleteChildren rt parent (take gcNum (getChildLabels node))"
    have e: "applyStateGarbageCollectionRule rt m path = Some (gcNum, ?rt')"
      using node assms(5) by (simp add: start len)
    have "parent \<noteq> []" using parent by simp
    then show ?thesis
      unfolding e using node deleteChildren_ref [of parent rt "take gcNum (getChildLabels node)"]
        deleteChildren_parallel [of parent _ rt "take gcNum (getChildLabels node)"] by simp
  next
    case False
    then have "applyStateGarbageCollectionRule rt m path = Some (0, rt)"
      unfolding start by (auto split: option.split)
    then show ?thesis using False by (auto split: option.split)
  qed
qed

theorem state_gc_deletes_first_children_witness:
  "\<exists>rt'. applyStateGarbageCollectionRule (SNode [(''values'', SNode [(''a'', SLeaf (JNum 1)), (''b'', SLeaf (JNum 2))])])
     (to_matched_rule \<lparr>rm_matchedValuePath = [''a''], rm_matchedRulePath = [''$x''], rm_pathVars = [], rm_matchedRuleNode = None,
        rm_closestConfigNode = Some (fromStateSnapshot (JObj [(''.rule'', JObj [(''state'',
          JObj [(''gc_max_siblings'', JNum 1), (''gc_num_siblings_deleted'', JNum 1)])])])),
        rm_closestConfigDepth = 1\<rparr> None) [''c''] = Some (1, rt') \<and>
     getRefForReadingFromStateRoot rt' [''values'', ''a''] = None \<and>
     getRefForReadingFromStateRoot rt' [''values'', ''b''] = Some (SLeaf (JNum 2))"
proof -
  let ?rt = "SNode [(''values'', SNode [(''a'', SLeaf (JNum 1)), (''b'', SLeaf (JNum 2))])]"
  let ?m = "to_matched_rule \<lparr>rm_matchedValuePath = [''a''], rm_matchedRulePath = [''$x''], rm_pathVars = [], rm_matchedRuleNode = None,
        rm_closestConfigNode = Some (fromStateSnapshot (JObj [(''.rule'', JObj [(''state'',
          JObj [(''gc_max_siblings'', JNum 1), (''gc_num_siblings_deleted'', JNum 1)])])])),
        rm_closestConfigDepth = 1\<rparr> None"
  have cfg: "mr_closestRule ?m = ([''$x''], JObj [(''state'',
      JObj [(''gc_max_siblings'', JNum 1), (''gc_num_siblings_deleted'', JNum 1)])])" by code_simp
  have h: "isDict (snd (mr_closestRule ?m))" "0 < (1::nat)" "(1::nat) \<le> 1" "fst (mr_closestRule ?m) \<noteq> []"
    "prop_get (prop_get (snd (mr_closestRule ?m)) ''state'') ''gc_max_siblings'' = JNum (of_nat 1)"
    "prop_get (prop_get (snd (mr_closestRule ?m)) ''state'') ''gc_num_siblings_deleted'' = JNum (of_nat 1)"
    "[''values''] = ''values'' # take (length (fst (mr_closestRule ?m)) - 1) [''c'']"
    unfolding cfg by simp_all
  obtain k rt' where r: "applyStateGarbageCollectionRule ?rt ?m [''c''] = Some (k, rt')"
    "k = (case ref ?rt [''values''] of None \<Rightarrow> 0 | Some node \<Rightarrow> if numChildNodes node > 1 then 1 else 0)"
    "\<forall>l q. ref rt' ([''values''] @ l # q) =
       (if \<exists>node. ref ?rt [''values''] = Some node \<and> l \<in> set (take k (getChildLabels node))
        then None else ref ?rt ([''values''] @ l # q))"
    using state_gc_deletes_first_children [OF h(1,5,6,2,3,4,7), of ?rt] by blast
  have "k = 1" using r(2) by (simp add: sgetChild_def numChildNodes_def)
  then show ?thesis
    using r(1) r(3) [rule_format, of "''a''" "[]"] r(3) [rule_format, of "''b''" "[]"]
    by (intro exI [of _ rt']) (simp add: sgetChild_def getChildLabels_def)
qed

end
