(* ===== verification/JsOps.thy ===== *)
theory JsOps
  imports JsValue
begin

text \<open>
  The operators of JavaScript that the native functions and the rule library apply to values of the
  state: conversion to numbers and strings, arithmetic, comparison, and reading and writing nested
  objects (\<open>getJsObject\<close> and \<open>setJsObject\<close> of \<open>common/common-util.js\<close>). Sums, products and
  differences are exact; rounding to doubles is not modelled.
\<close>

subsection \<open>Numbers and their texts\<close>

definition digit_char :: "nat \<Rightarrow> char" where
  "digit_char d = char_of (48 + d)"

fun nat_string :: "nat \<Rightarrow> string" where
  "nat_string n = (if n < 10 then [digit_char n] else nat_string (n div 10) @ [digit_char (n mod 10)])"

declare nat_string.simps [simp del]

text \<open>\<open>String(q)\<close>; the text of a number that is not an integer comes from \<open>dstr\<close>.\<close>

definition num_string :: "(rat \<Rightarrow> string) \<Rightarrow> rat \<Rightarrow> string" where
  "num_string dstr q =
     (if of_int \<lfloor>q\<rfloor> \<noteq> q then dstr q
      else if q < 0 then CHR ''-'' # nat_string (nat (- \<lfloor>q\<rfloor>)) else nat_string (nat \<lfloor>q\<rfloor>))"

definition digits_value :: "string \<Rightarrow> nat" where
  "digits_value s = foldl (\<lambda>n c. 10 * n + (of_char c - 48)) 0 s"

definition is_space :: "char \<Rightarrow> bool" where
  "is_space c = ((of_char c :: nat) = 32 \<or> 9 \<le> (of_char c :: nat) \<and> (of_char c :: nat) \<le> 13 \<or> (of_char c :: nat) = 160)"

definition trim :: "string \<Rightarrow> string" where
  "trim s = rev (dropWhile is_space (rev (dropWhile is_space s)))"

definition sign_split :: "string \<Rightarrow> bool \<times> string" where
  "sign_split s = (if prefix ''-'' s then (True, drop 1 s) else if prefix ''+'' s then (False, drop 1 s) else (False, s))"

definition ten_power :: "int \<Rightarrow> rat" where
  "ten_power e = (if e \<ge> 0 then 10 ^ nat e else 1 / 10 ^ nat (- e))"

definition hex_value :: "string \<Rightarrow> nat" where
  "hex_value s = foldl (\<lambda>n c. 16 * n +
     (if is_digit c then of_char c - 48 else of_char (lower_char c) - 87)) 0 s"

text \<open>A decimal literal without sign; \<open>None\<close> for what is not one.\<close>

definition decimal_value :: "string \<Rightarrow> rat option" where
  "decimal_value s =
     (let mant = takeWhile (\<lambda>c. c \<noteq> CHR ''e'' \<and> c \<noteq> CHR ''E'') s;
          hasExp = length mant < length s;
          (eneg, edigits) = sign_split (drop (Suc (length mant)) s);
          ipart = takeWhile (\<lambda>c. c \<noteq> CHR ''.'') mant;
          fpart = drop (Suc (length ipart)) mant
      in if list_all is_digit ipart \<and> list_all is_digit fpart \<and> ipart @ fpart \<noteq> [] \<and>
            (hasExp \<longrightarrow> edigits \<noteq> [] \<and> list_all is_digit edigits)
         then Some (of_nat (digits_value (ipart @ fpart)) * ten_power (- int (length fpart)) *
                    ten_power (if \<not> hasExp then 0 else if eneg then - int (digits_value edigits) else int (digits_value edigits)))
         else None)"

text \<open>\<open>Number(s)\<close> of a string (without the octal and binary literals).\<close>

definition string_number :: "string \<Rightarrow> jsval" where
  "string_number str =
     (let s = trim str; (neg, t) = sign_split s in
      if s = [] then JNum 0
      else if t = ''Infinity'' then JInf (\<not> neg)
      else if prefix ''0x'' s \<or> prefix ''0X'' s then
        (if drop 2 s \<noteq> [] \<and> list_all is_hex_digit (drop 2 s) then JNum (of_nat (hex_value (drop 2 s))) else JNaN)
      else case decimal_value t of
             None \<Rightarrow> JNaN
           | Some q \<Rightarrow> JNum (if neg then - q else q))"

text \<open>\<open>Number(v)\<close>: a number, an infinity or \<open>NaN\<close>; an array or object counts as \<open>NaN\<close>.\<close>

fun to_number :: "jsval \<Rightarrow> jsval" where
  "to_number JNull = JNum 0"
| "to_number (JBool b) = JNum (if b then 1 else 0)"
| "to_number (JNum q) = JNum q"
| "to_number (JInf b) = JInf b"
| "to_number (JStr s) = string_number s"
| "to_number _ = JNaN"

subsection \<open>Arithmetic and comparison\<close>

definition num_add :: "jsval \<Rightarrow> jsval \<Rightarrow> jsval" where
  "num_add a b =
     (case (to_number a, to_number b) of
        (JNum x, JNum y) \<Rightarrow> JNum (x + y)
      | (JInf s, JNum _) \<Rightarrow> JInf s
      | (JNum _, JInf s) \<Rightarrow> JInf s
      | (JInf s, JInf t) \<Rightarrow> if s = t then JInf s else JNaN
      | _ \<Rightarrow> JNaN)"

definition num_neg :: "jsval \<Rightarrow> jsval" where
  "num_neg a = (case to_number a of JNum x \<Rightarrow> JNum (- x) | JInf s \<Rightarrow> JInf (\<not> s) | _ \<Rightarrow> JNaN)"

definition js_sub :: "jsval \<Rightarrow> jsval \<Rightarrow> jsval" where
  "js_sub a b = num_add a (num_neg b)"

definition js_mul :: "jsval \<Rightarrow> jsval \<Rightarrow> jsval" where
  "js_mul a b =
     (case (to_number a, to_number b) of
        (JNum x, JNum y) \<Rightarrow> JNum (x * y)
      | (JInf s, JNum y) \<Rightarrow> if y = 0 then JNaN else JInf (s = (0 < y))
      | (JNum x, JInf t) \<Rightarrow> if x = 0 then JNaN else JInf ((0 < x) = t)
      | (JInf s, JInf t) \<Rightarrow> JInf (s = t)
      | _ \<Rightarrow> JNaN)"

definition js_div :: "jsval \<Rightarrow> jsval \<Rightarrow> jsval" where
  "js_div a b =
     (case (to_number a, to_number b) of
        (JNum x, JNum y) \<Rightarrow> if y \<noteq> 0 then JNum (x / y) else if x = 0 then JNaN else JInf (0 < x)
      | (JInf s, JNum y) \<Rightarrow> JInf (s = (0 \<le> y))
      | (JNum x, JInf t) \<Rightarrow> JNum 0
      | _ \<Rightarrow> JNaN)"

fun string_less :: "string \<Rightarrow> string \<Rightarrow> bool" where
  "string_less s [] = False"
| "string_less [] (c # t) = True"
| "string_less (b # s) (c # t) =
     ((of_char b :: nat) < of_char c \<or> b = c \<and> string_less s t)"

definition num_less :: "jsval \<Rightarrow> jsval \<Rightarrow> bool" where
  "num_less a b =
     (case (a, b) of
        (JNum x, JNum y) \<Rightarrow> x < y
      | (JInf s, JNum _) \<Rightarrow> \<not> s
      | (JNum _, JInf t) \<Rightarrow> t
      | (JInf s, JInf t) \<Rightarrow> \<not> s \<and> t
      | _ \<Rightarrow> False)"

text \<open>\<open>a < b\<close> and \<open>a <= b\<close>.\<close>

definition js_lt :: "jsval \<Rightarrow> jsval \<Rightarrow> bool" where
  "js_lt a b =
     (case (a, b) of
        (JStr s, JStr t) \<Rightarrow> string_less s t
      | _ \<Rightarrow> num_less (to_number a) (to_number b))"

definition js_le :: "jsval \<Rightarrow> jsval \<Rightarrow> bool" where
  "js_le a b =
     (case (a, b) of
        (JStr s, JStr t) \<Rightarrow> \<not> string_less t s
      | _ \<Rightarrow> to_number a \<noteq> JNaN \<and> to_number b \<noteq> JNaN \<and> \<not> num_less (to_number b) (to_number a))"

text \<open>\<open>Math.max(a, b)\<close> and \<open>Math.min(a, b)\<close>.\<close>

definition js_max :: "jsval \<Rightarrow> jsval \<Rightarrow> jsval" where
  "js_max a b =
     (let x = to_number a; y = to_number b in
      if x = JNaN \<or> y = JNaN then JNaN else if num_less x y then y else x)"

definition js_min :: "jsval \<Rightarrow> jsval \<Rightarrow> jsval" where
  "js_min a b =
     (let x = to_number a; y = to_number b in
      if x = JNaN \<or> y = JNaN then JNaN else if num_less y x then y else x)"

text \<open>\<open>a || d\<close>\<close>

definition js_or :: "jsval \<Rightarrow> jsval \<Rightarrow> jsval" where
  "js_or a d = (if truthy a then a else d)"

lemma num_ops [simp]:
  "num_add (JNum x) (JNum y) = JNum (x + y)" "js_sub (JNum x) (JNum y) = JNum (x - y)"
  "js_mul (JNum x) (JNum y) = JNum (x * y)" "js_lt (JNum x) (JNum y) \<longleftrightarrow> x < y"
  "js_le (JNum x) (JNum y) \<longleftrightarrow> x \<le> y"
  by (auto simp: num_add_def js_sub_def num_neg_def js_mul_def js_lt_def js_le_def num_less_def)

subsection \<open>Texts of values\<close>

text \<open>A value inside a template literal; an object or array there is not modelled.\<close>

fun js_string :: "(rat \<Rightarrow> string) \<Rightarrow> jsval \<Rightarrow> string" where
  "js_string dstr (JStr s) = s"
| "js_string dstr (JNum q) = num_string dstr q"
| "js_string dstr (JBool b) = (if b then ''true'' else ''false'')"
| "js_string dstr JNull = ''null''"
| "js_string dstr JUndef = ''undefined''"
| "js_string dstr JNaN = ''NaN''"
| "js_string dstr (JInf s) = (if s then ''Infinity'' else ''-Infinity'')"
| "js_string dstr _ = ''[object Object]''"

text \<open>\<open>a + b\<close>: concatenation when one side is a string.\<close>

definition js_add :: "(rat \<Rightarrow> string) \<Rightarrow> jsval \<Rightarrow> jsval \<Rightarrow> jsval" where
  "js_add dstr a b =
     (if isString a \<or> isString b then JStr (js_string dstr a @ js_string dstr b) else num_add a b)"

lemma js_add_num [simp]: "js_add dstr (JNum x) (JNum y) = JNum (x + y)"
  by (simp add: js_add_def)

subsection \<open>Nested objects\<close>

definition dict_of :: "jsval \<Rightarrow> (string \<times> jsval) list" where
  "dict_of v = (case v of JObj kvs \<Rightarrow> kvs | _ \<Rightarrow> [])"

definition set_prop :: "string \<Rightarrow> jsval \<Rightarrow> jsval \<Rightarrow> jsval" where
  "set_prop k v obj = JObj (AList.update k v (dict_of obj))"

definition delete_prop :: "string \<Rightarrow> jsval \<Rightarrow> jsval" where
  "delete_prop k obj = JObj (AList.delete k (dict_of obj))"

fun getJsObject :: "jsval \<Rightarrow> string list \<Rightarrow> jsval" where
  "getJsObject obj [] = (if obj = JUndef then JNull else obj)"
| "getJsObject obj (key # path) = (if isDict obj then getJsObject (prop_get obj key) path else JNull)"

text \<open>The object after the call, \<open>None\<close> when the code returns \<open>false\<close> and changes nothing.\<close>

fun set_path :: "jsval \<Rightarrow> string list \<Rightarrow> jsval \<Rightarrow> jsval" where
  "set_path obj [] val = val"
| "set_path obj (key # path) val =
     set_prop key (set_path (if path \<noteq> [] \<and> \<not> isDict (prop_get obj key) then JObj [] else prop_get obj key) path val) obj"

definition setJsObject :: "jsval \<Rightarrow> string list \<Rightarrow> jsval \<Rightarrow> jsval option" where
  "setJsObject obj path val =
     (if \<not> isDict obj then None
      else if path = [] then
        if \<not> isDict val then None
        else Some (foldl (\<lambda>o1 (k, v). set_prop k v o1) obj (dict_of val))
      else Some (set_path obj path val))"

text \<open>\<open>[...new Set(xs)]\<close>\<close>

definition js_set :: "'a list \<Rightarrow> 'a list" where
  "js_set xs = rev (remdups (rev xs))"

lemma js_set_simps [simp]: "set (js_set xs) = set xs" "distinct (js_set xs)"
  by (simp_all add: js_set_def)

lemma dict_simps [simp]:
  "dict_of (JObj kvs) = kvs" "isDict (set_prop k v obj)" "isDict (delete_prop k obj)"
  "prop_get (set_prop k v obj) k' = (if k' = k then v else prop_get obj k')"
  "prop_get (delete_prop k obj) k' = (if k' = k then JUndef else prop_get obj k')"
  by (cases obj; simp add: dict_of_def set_prop_def delete_prop_def)+

lemma dict_of_id: "isDict obj \<Longrightarrow> JObj (dict_of obj) = obj"
  by (cases obj) simp_all

lemma isDict_set_path [simp]: "path \<noteq> [] \<Longrightarrow> isDict (set_path obj path val)"
  by (cases path) simp_all

lemma getJsObject_set_path:
  "val \<noteq> JUndef \<Longrightarrow> path \<noteq> [] \<Longrightarrow> getJsObject (set_path obj path val) path = val"
proof (induction path arbitrary: obj)
  case (Cons key path)
  then show ?case by (cases "path = []") simp_all
qed simp

subsection \<open>Texts of natural numbers\<close>

lemma nat_string_inj: "nat_string m = nat_string n \<Longrightarrow> m = n"
proof (induction m arbitrary: n rule: nat_string.induct)
  case (1 m)
  have d: "a = b" if "digit_char a = digit_char b" "a < 10" "b < 10" for a b
  proof -
    have "(of_char (digit_char k) :: nat) = 48 + k" if "k < 10" for k using that by (simp add: digit_char_def)
    then show ?thesis using that by (metis add_left_cancel)
  qed
  have ne: "nat_string k \<noteq> []" for k by (subst nat_string.simps) simp
  show ?case
  proof (cases "m < 10")
    case True
    have "n < 10"
    proof (rule ccontr)
      assume "\<not> n < 10"
      then show False using "1.prems" True ne [of "n div 10"] by (simp add: nat_string.simps [of m] nat_string.simps [of n])
    qed
    then show ?thesis using "1.prems" True by (simp add: nat_string.simps [of m] nat_string.simps [of n] d)
  next
    case False
    have "\<not> n < 10"
    proof
      assume "n < 10"
      then show False using "1.prems" False ne [of "m div 10"] by (simp add: nat_string.simps [of m] nat_string.simps [of n])
    qed
    then have e: "nat_string (m div 10) = nat_string (n div 10)" "digit_char (m mod 10) = digit_char (n mod 10)"
      using "1.prems" False by (simp_all add: nat_string.simps [of m] nat_string.simps [of n])
    have "m div 10 = n div 10" using "1.IH" False e(1) by simp
    moreover have "m mod 10 = n mod 10" using d [OF e(2)] by simp
    ultimately show ?thesis by (metis div_mult_mod_eq)
  qed
qed

lemma nat_string_digits: "list_all is_digit (nat_string n)" "nat_string n \<noteq> []"
proof -
  have "list_all is_digit (nat_string n) \<and> nat_string n \<noteq> []"
  proof (induction n rule: nat_string.induct)
    case (1 n)
    have "is_digit (digit_char d)" if "d < 10" for d
      using that by (simp add: digit_char_def is_digit_def)
    with 1 show ?case by (subst (1 2) nat_string.simps) auto
  qed
  then show "list_all is_digit (nat_string n)" "nat_string n \<noteq> []" by auto
qed

lemma digits_value_nat_string: "digits_value (nat_string n) = n"
proof (induction n rule: nat_string.induct)
  case (1 n)
  have d: "(of_char (digit_char k) :: nat) = 48 + k" if "k < 10" for k using that by (simp add: digit_char_def)
  show ?case
  proof (cases "n < 10")
    case True
    then show ?thesis using d [of n] by (subst nat_string.simps) (simp add: digits_value_def)
  next
    case False
    with 1 have "digits_value (nat_string (n div 10)) = n div 10" by simp
    then show ?thesis using False d [of "n mod 10"]
      by (subst nat_string.simps) (simp add: digits_value_def)
  qed
qed

lemma digit_char_facts:
  assumes "is_digit c"
  shows "\<not> is_space c" "c \<noteq> CHR ''-''" "c \<noteq> CHR ''+''" "c \<noteq> CHR ''e''" "c \<noteq> CHR ''E''" "c \<noteq> CHR ''.''"
    "c \<noteq> CHR ''x''" "c \<noteq> CHR ''X''" "c \<noteq> CHR ''I''"
  using assms by (auto simp: is_digit_def is_space_def)

lemma string_number_digits:
  assumes "list_all is_digit s" and "s \<noteq> []"
  shows "string_number s = JNum (of_nat (digits_value s))"
proof -
  have all: "\<forall>c\<in>set s. is_digit c" using assms(1) by (simp add: list_all_iff)
  have keep: "dropWhile is_space u = u" if "\<forall>c\<in>set u. is_digit c" for u
    using that digit_char_facts(1) by (cases u) auto
  have "trim s = s" using keep [of s] keep [of "rev s"] all by (simp add: trim_def)
  obtain c t where s: "s = c # t" using assms(2) by (cases s) auto
  then have c: "is_digit c" using all by simp
  have ss: "sign_split s = (False, s)" using digit_char_facts [OF c] s by (simp add: sign_split_def)
  have e3: "\<forall>c\<in>set s. c \<noteq> CHR ''e'' \<and> c \<noteq> CHR ''E'' \<and> c \<noteq> CHR ''.''"
    using all digit_char_facts(4-6) by metis
  have tw: "takeWhile (\<lambda>c. c \<noteq> CHR ''e'' \<and> c \<noteq> CHR ''E'') s = s" "takeWhile (\<lambda>c. c \<noteq> CHR ''.'') s = s"
    using e3 by (simp_all add: takeWhile_eq_all_conv)
  have dec: "decimal_value s = Some (of_nat (digits_value s))"
    unfolding decimal_value_def Let_def tw using assms by (simp add: ten_power_def sign_split_def)
  have "\<not> prefix ''0x'' s" "\<not> prefix ''0X'' s" "s \<noteq> ''Infinity''"
    using all by (auto simp: prefix_def is_digit_def)
  then show ?thesis unfolding string_number_def Let_def \<open>trim s = s\<close> ss using assms(2) dec by simp
qed

lemma string_number_nat_string: "string_number (nat_string n) = JNum (of_nat n)"
  by (simp add: string_number_digits nat_string_digits digits_value_nat_string)

end
