(* ===== verification/StateLabels.thy ===== *)
theory StateLabels
  imports JsOps PathUtil
begin

text \<open>
  Names and labels of states, \<open>db/state-util.js\<close>, with the tests of timer flags and reserved names of
  \<open>common\<close>. The code tests labels with regular expressions that have the flag \<open>m\<close>, so \<open>^\<close> and \<open>$\<close>
  match at every line of the label: a label passes when one of its lines does.
\<close>

subsection \<open>Names\<close>

text \<open>The lines of a text; of the line terminators only two are below 256.\<close>

definition is_line_end :: "char \<Rightarrow> bool" where
  "is_line_end c = ((of_char c :: nat) = 10 \<or> (of_char c :: nat) = 13)"

fun lines_of :: "string \<Rightarrow> string list" where
  "lines_of [] = [[]]"
| "lines_of (c # s) =
     (if is_line_end c then [] # lines_of s
      else (case lines_of s of l # ls \<Rightarrow> (c # l) # ls | [] \<Rightarrow> [[c]]))"

definition is_lower :: "char \<Rightarrow> bool" where
  "is_lower c = (97 \<le> (of_char c :: nat) \<and> (of_char c :: nat) \<le> 122)"

definition is_upper :: "char \<Rightarrow> bool" where
  "is_upper c = (65 \<le> (of_char c :: nat) \<and> (of_char c :: nat) \<le> 90)"

definition hasVarNamePattern :: "string \<Rightarrow> bool" where
  "hasVarNamePattern name =
     list_ex (\<lambda>l. l \<noteq> [] \<and> (is_lower (hd l) \<or> is_upper (hd l) \<or> hd l = CHR ''_'') \<and>
        list_all (\<lambda>c. is_lower c \<or> is_upper c \<or> is_digit c \<or> c = CHR ''_'') l) (lines_of name)"

definition hasServiceNamePattern :: "string \<Rightarrow> bool" where
  "hasServiceNamePattern name =
     list_ex (\<lambda>l. l \<noteq> [] \<and> (is_lower (hd l) \<or> hd l = CHR ''_'') \<and>
        list_all (\<lambda>c. is_lower c \<or> is_digit c \<or> c = CHR ''_'') l) (lines_of name)"

text \<open>The characters of \<open>/[\/\.\$\*#\{\}\[\]<>'"` \x00-\x1F\x7F]/\<close>.\<close>

definition is_reserved_char :: "char \<Rightarrow> bool" where
  "is_reserved_char c =
     (c \<in> set ''/.$*#{}[]<>\"` '' \<or> (of_char c :: nat) = 39 \<or> (of_char c :: nat) < 32 \<or> (of_char c :: nat) = 127)"

definition hasReservedChar :: "string \<Rightarrow> bool" where
  "hasReservedChar label = list_ex is_reserved_char label"

definition hasAllowedPattern :: "string \<Rightarrow> bool" where
  "hasAllowedPattern label =
     list_ex (\<lambda>l. l = ''*'' \<or>
        (case l of c # d # r \<Rightarrow> (c = CHR ''.'' \<or> c = CHR ''$'') \<and> list_all (\<lambda>x. \<not> is_reserved_char x) (d # r)
         | _ \<Rightarrow> False)) (lines_of label)"

text \<open>\<open>n > limit\<close> for a limit that is a number or missing.\<close>

definition isValidStateLabel :: "jsval \<Rightarrow> string \<Rightarrow> bool" where
  "isValidStateLabel stateLabelLengthLimit label =
     (\<not> (label = [] \<or> js_lt stateLabelLengthLimit (JNum (of_nat (length label))) \<or>
        (hasReservedChar label \<and> \<not> hasAllowedPattern label)))"

text \<open>The result of a check: \<open>Invalid\<close> with the path, or an exception.\<close>

datatype validity = Valid | Invalid string | Throws

fun firstInvalid :: "(string \<Rightarrow> bool) \<Rightarrow> string list \<Rightarrow> string list \<Rightarrow> string list option" where
  "firstInvalid valid path [] = None"
| "firstInvalid valid path (label # rest) =
     (if valid label then firstInvalid valid (path @ [label]) rest else Some (path @ [label]))"

definition isValidPathForStates :: "jsval \<Rightarrow> string list \<Rightarrow> validity" where
  "isValidPathForStates stateLabelLengthLimit fullPath =
     (case firstInvalid (isValidStateLabel stateLabelLengthLimit) [] fullPath of
        None \<Rightarrow> Valid
      | Some path \<Rightarrow> Invalid (formatPath path))"

fun isValidJsObjectForStates :: "jsval \<Rightarrow> string list \<Rightarrow> jsval \<Rightarrow> validity"
  and isValidEntriesForStates :: "jsval \<Rightarrow> string list \<Rightarrow> (string \<times> jsval) list \<Rightarrow> validity" where
  "isValidJsObjectForStates lenLimit path (JObj kvs) =
     (if kvs = [] then Invalid (formatPath path) else isValidEntriesForStates lenLimit path kvs)"
| "isValidJsObjectForStates lenLimit path obj =
     (if \<not> isBool obj \<and> \<not> isNumber obj \<and> \<not> isString obj \<and> obj \<noteq> JNull then Invalid (formatPath path) else Valid)"
| "isValidEntriesForStates lenLimit path [] = Valid"
| "isValidEntriesForStates lenLimit path ((key, childObj) # kvs) =
     (if \<not> isValidStateLabel lenLimit key then Invalid (formatPath (path @ [key]))
      else case isValidJsObjectForStates lenLimit (path @ [key]) childObj of
             Valid \<Rightarrow> isValidEntriesForStates lenLimit path kvs
           | invalid \<Rightarrow> invalid)"

subsection \<open>Timer flags and services\<close>

definition RESERVED_SERVICE_NAME_SET :: "string set" where
  "RESERVED_SERVICE_NAME_SET = {''balance_total_sum''}"

definition isReservedServiceName :: "string \<Rightarrow> bool" where
  "isReservedServiceName name = (name \<in> RESERVED_SERVICE_NAME_SET)"

definition getFlagBlockNumber :: "jsval \<Rightarrow> jsval \<Rightarrow> string \<Rightarrow> jsval" where
  "getFlagBlockNumber earlyAppliedBlockNumber timerFlag key =
     (let n = prop_get timerFlag key in
      if \<not> isNumber n then JNull
      else if isNumber earlyAppliedBlockNumber \<and> js_le n earlyAppliedBlockNumber then JNum 2 else n)"

definition getEnabledBlockNumberFromTimerFlag :: "jsval \<Rightarrow> jsval \<Rightarrow> jsval" where
  "getEnabledBlockNumberFromTimerFlag early timerFlag = getFlagBlockNumber early timerFlag ''enabled_block''"

definition getDisabledBlockNumberFromTimerFlag :: "jsval \<Rightarrow> jsval \<Rightarrow> jsval" where
  "getDisabledBlockNumberFromTimerFlag early timerFlag = getFlagBlockNumber early timerFlag ''disabled_block''"

definition getTimerFlagEnabledBlockNumber :: "jsval \<Rightarrow> jsval \<Rightarrow> string \<Rightarrow> jsval" where
  "getTimerFlagEnabledBlockNumber early timerFlags flagName =
     (if isDict (prop_get timerFlags flagName)
      then getEnabledBlockNumberFromTimerFlag early (prop_get timerFlags flagName) else JNull)"

definition getTimerFlagDisabledBlockNumber :: "jsval \<Rightarrow> jsval \<Rightarrow> string \<Rightarrow> jsval" where
  "getTimerFlagDisabledBlockNumber early timerFlags flagName =
     (if isDict (prop_get timerFlags flagName)
      then getDisabledBlockNumberFromTimerFlag early (prop_get timerFlags flagName) else JNull)"

text \<open>\<open>early\<close> is the environment variable \<open>TIMER_FLAG_EARLY_APPLIED_BLOCK_NUMBER\<close> as a number.\<close>

definition hasTimerFlagEnabled :: "jsval \<Rightarrow> jsval \<Rightarrow> string \<Rightarrow> jsval \<Rightarrow> bool" where
  "hasTimerFlagEnabled early timerFlags flagName blockNumber =
     (let flag = prop_get timerFlags flagName;
          enabled = getEnabledBlockNumberFromTimerFlag early flag;
          disabled = getDisabledBlockNumberFromTimerFlag early flag
      in if \<not> isDict flag then False
         else if \<not> isNumber blockNumber then False
         else if \<not> isNumber enabled \<or> js_lt blockNumber enabled then False
         else if \<not> isNumber disabled \<or> js_lt blockNumber disabled then True
         else False)"

definition isValidServiceName :: "(string \<Rightarrow> jsval \<Rightarrow> bool) \<Rightarrow> jsval \<Rightarrow> string \<Rightarrow> bool" where
  "isValidServiceName flagEnabled blockNumber name =
     (if isReservedServiceName name then False
      else if isNumber blockNumber \<and> flagEnabled ''allow_lower_case_app_names_only'' blockNumber
      then hasServiceNamePattern name
      else hasVarNamePattern name)"

definition isServiceAccountServiceType :: "string \<Rightarrow> bool" where
  "isServiceAccountServiceType type = (type \<in> set [''billing'', ''escrow'', ''gas_fee'', ''payments'', ''staking''])"

definition isAppDependentServiceType :: "string \<Rightarrow> bool" where
  "isAppDependentServiceType type = (type \<in> set [''manage_app'', ''payments'', ''staking''])"

lemma lines_of_single: "list_all (\<lambda>c. \<not> is_line_end c) s \<Longrightarrow> lines_of s = [s]"
  by (induction s) auto

text \<open>A label of one line is valid exactly when it is \<open>*\<close>, a plain one, or a plain one after \<open>.\<close> or \<open>$\<close>.\<close>

lemma state_label_single_line:
  assumes "list_all (\<lambda>c. \<not> is_line_end c) s"
  shows "isValidStateLabel lenLimit s \<longleftrightarrow> s \<noteq> [] \<and> \<not> js_lt lenLimit (JNum (of_nat (length s))) \<and>
    (s = ''*'' \<or> (\<not> list_ex is_reserved_char (tl s) \<and>
       (\<not> is_reserved_char (hd s) \<or> (hd s = CHR ''.'' \<or> hd s = CHR ''$'') \<and> tl s \<noteq> [])))"
proof (cases s)
  case (Cons c r)
  have l: "lines_of (c # r) = [c # r]" using lines_of_single [OF assms] by (simp only: Cons)
  have e: "hasAllowedPattern (c # r) \<longleftrightarrow> c # r = ''*'' \<or> (c = CHR ''.'' \<or> c = CHR ''$'') \<and> r \<noteq> [] \<and> \<not> list_ex is_reserved_char r"
    unfolding hasAllowedPattern_def l by (cases r) (auto simp: list_ex_iff list_all_iff)
  show ?thesis
    unfolding isValidStateLabel_def Cons e hasReservedChar_def
    by (cases "is_reserved_char c") (auto simp: is_reserved_char_def)
qed (simp add: isValidStateLabel_def)

end
