(* ===== verification/RuleUtil.thy ===== *)
theory RuleUtil
  imports StateLabels
begin

text \<open>
  \<open>db/rule-util.js\<close>: what write rules may call. The functions that validate the data of the native
  services read the state through \<open>getValue\<close>, which is a parameter here as it is in the code; it maps
  a path to a value. Addresses are checked by a package (\<open>ainUtil\<close>) and URLs by the platform, so they
  are fields of \<open>rule_env\<close>.
\<close>

record rule_env =
  re_isValidAddress :: "string \<Rightarrow> bool"
  re_toChecksumAddress :: "string \<Rightarrow> string"
  re_isUrl :: "string \<Rightarrow> bool"
  re_flagEnabled :: "string \<Rightarrow> jsval \<Rightarrow> bool"

type_synonym getter = "string \<Rightarrow> jsval"

subsection \<open>Values and names\<close>

definition isFloatString :: "string \<Rightarrow> bool" where
  "isFloatString s =
     (let d = (if prefix ''-'' s then drop 1 s else s);
          ipart = takeWhile is_digit d; rest = dropWhile is_digit d
      in ipart \<noteq> [] \<and> prefix ''.'' rest \<and> tl rest \<noteq> [] \<and> list_all is_digit (tl rest))"

definition js_includes :: "jsval \<Rightarrow> jsval \<Rightarrow> bool" where
  "js_includes arr v = (case arr of JArr xs \<Rightarrow> v \<in> set xs | _ \<Rightarrow> False)"

fun toNumberOrNaN :: "jsval \<Rightarrow> jsval" where
  "toNumberOrNaN v = (if isNumber v then v else to_number v)"

definition isValAddr :: "rule_env \<Rightarrow> jsval \<Rightarrow> bool" where
  "isValAddr env addr = (case addr of JStr s \<Rightarrow> re_isValidAddress env s | _ \<Rightarrow> False)"

definition isCksumAddr :: "rule_env \<Rightarrow> jsval \<Rightarrow> bool" where
  "isCksumAddr env addr =
     (isValAddr env addr \<and> (case addr of JStr s \<Rightarrow> s = re_toChecksumAddress env s | _ \<Rightarrow> False))"

text \<open>The only caller passes no block number.\<close>

definition isServAcntName :: "rule_env \<Rightarrow> string \<Rightarrow> bool" where
  "isServAcntName env name =
     (let parsed = split_on CHR ''|'' name in
      if length parsed < 3 then False
      else isServiceAccountServiceType (parsed ! 0) \<and> isValidServiceName (re_flagEnabled env) JNull (parsed ! 1))"

definition isValShardProto :: "jsval \<Rightarrow> bool" where
  "isValShardProto v = (v = JStr ''NONE'' \<or> v = JStr ''POA'')"

definition isValidatorOffenseType :: "jsval \<Rightarrow> bool" where
  "isValidatorOffenseType type = (type = JStr ''INVALID_PROPOSAL'')"

definition isValidUrlWhitelistItem :: "rule_env \<Rightarrow> jsval \<Rightarrow> bool" where
  "isValidUrlWhitelistItem env url = re_isUrl env (js_string (\<lambda>q. '''') url)"

definition checkValuePathLen :: "jsval \<Rightarrow> nat \<Rightarrow> bool" where
  "checkValuePathLen parsedValuePath expectedLen =
     (isArray parsedValuePath \<and> length_of parsedValuePath = expectedLen)"

subsection \<open>Accounts\<close>

definition isAppAdmin :: "string \<Rightarrow> string \<Rightarrow> getter \<Rightarrow> bool" where
  "isAppAdmin appName address getValue =
     (getValue (getManageAppConfigAdminPath appName @ ''/'' @ address) = JBool True)"

definition isAppAdminFromServAcntName :: "string \<Rightarrow> string \<Rightarrow> getter \<Rightarrow> bool" where
  "isAppAdminFromServAcntName accountName address getValue =
     isAppAdmin (template (getServiceNameFromServAcntName accountName)) address getValue"

definition getBalancePath :: "rule_env \<Rightarrow> string \<Rightarrow> string" where
  "getBalancePath env addrOrServAcnt =
     (if isServAcntName env addrOrServAcnt then
        let parsed = parseServAcntName addrOrServAcnt
        in getServiceAccountBalancePath (template (parsed ! 0)) (template (parsed ! 1)) (template (parsed ! 2))
      else getAccountBalancePath addrOrServAcnt)"

definition getBalance :: "rule_env \<Rightarrow> string \<Rightarrow> getter \<Rightarrow> jsval" where
  "getBalance env addrOrServAcnt getValue = js_or (getValue (getBalancePath env addrOrServAcnt)) (JNum 0)"

definition isBillingUser :: "string \<Rightarrow> string \<Rightarrow> getter \<Rightarrow> bool" where
  "isBillingUser billingServAcntName userAddr getValue =
     (let parsed = parseServAcntName billingServAcntName
      in getValue (getManageAppBillingUsersPath (template (parsed ! 1)) (template (parsed ! 2)) @ ''/'' @ userAddr)
           = JBool True)"

definition getConsensusStakeBalance :: "string \<Rightarrow> getter \<Rightarrow> jsval" where
  "getConsensusStakeBalance address getValue =
     js_or (getValue (getConsensusStakingAccountBalancePath address)) (JNum 0)"

definition getMinStakeAmount :: "getter \<Rightarrow> jsval" where
  "getMinStakeAmount getValue = getValue (getSingleBlockchainParamPath ''consensus'' ''min_stake_for_proposer'')"

definition getMaxStakeAmount :: "getter \<Rightarrow> jsval" where
  "getMaxStakeAmount getValue = getValue (getSingleBlockchainParamPath ''consensus'' ''max_stake_for_proposer'')"

definition getMinNumValidators :: "getter \<Rightarrow> jsval" where
  "getMinNumValidators getValue = getValue (getSingleBlockchainParamPath ''consensus'' ''min_num_validators'')"

definition getConsensusProposerWhitelistSize :: "getter \<Rightarrow> nat" where
  "getConsensusProposerWhitelistSize getValue =
     length (filter (\<lambda>x. x = JBool True) (values_of (js_or (getValue getConsensusProposerWhitelistPath) (JObj []))))"

definition getConsensusValidatorWhitelistSize :: "getter \<Rightarrow> nat" where
  "getConsensusValidatorWhitelistSize getValue =
     length (filter (\<lambda>x. x = JBool True) (values_of (js_or (getValue getConsensusValidatorWhitelistPath) (JObj []))))"

definition getTokenBridgeConfig :: "string \<Rightarrow> string \<Rightarrow> string \<Rightarrow> getter \<Rightarrow> jsval" where
  "getTokenBridgeConfig networkName chainId tokenId getValue =
     getValue (getTokenBridgeConfigPath networkName chainId tokenId)"

definition getTokenPoolAddr :: "string \<Rightarrow> string \<Rightarrow> string \<Rightarrow> getter \<Rightarrow> jsval" where
  "getTokenPoolAddr networkName chainId tokenId getValue =
     getValue (getTokenBridgeTokenPoolPath networkName chainId tokenId)"

subsection \<open>Check-in and check-out\<close>

definition validateCheckoutRefundData ::
  "string \<Rightarrow> string \<Rightarrow> string \<Rightarrow> string \<Rightarrow> string \<Rightarrow> jsval \<Rightarrow> jsval \<Rightarrow> getter \<Rightarrow> bool" where
  "validateCheckoutRefundData networkName chainId tokenId userAddr checkoutId auth newData getValue =
     (if \<not> isString newData then False
      else if prop_get auth ''fid'' \<noteq> JStr ''_closeCheckout'' \<and>
              prop_get auth ''addr'' \<noteq> getTokenPoolAddr networkName chainId tokenId getValue then False
      else if \<not> truthy (getValue (getCheckoutHistoryPath networkName chainId tokenId userAddr checkoutId)) then False
      else True)"

definition validateCheckoutRequestData ::
  "string \<Rightarrow> string \<Rightarrow> string \<Rightarrow> string \<Rightarrow> string \<Rightarrow> jsval \<Rightarrow> jsval \<Rightarrow> getter \<Rightarrow> bool" where
  "validateCheckoutRequestData networkName chainId tokenId userAddr checkoutId newData currentTime getValue =
     (if \<not> isDict newData \<or> \<not> isNumber (prop_get newData ''amount'') \<or> js_le (prop_get newData ''amount'') (JNum 0) \<or>
         \<not> isString (prop_get newData ''recipient'') \<or> \<not> isNumber (prop_get newData ''fee_rate'') \<or>
         to_number (JStr checkoutId) = JNaN \<or> to_number (JStr checkoutId) \<noteq> currentTime
      then False
      else let tokenBridgeConfig = getTokenBridgeConfig networkName chainId tokenId getValue in
        if \<not> isDict tokenBridgeConfig then False
        else if prop_get tokenBridgeConfig ''checkout_fee_rate'' \<noteq> prop_get newData ''fee_rate'' then False
        else if truthy (getValue (getCheckoutHistoryPath networkName chainId tokenId userAddr checkoutId)) then False
        else True)"

definition validResponse :: "jsval \<Rightarrow> bool" where
  "validResponse newData =
     (let response = prop_get newData ''response'' in
      isDict response \<and> isBool (prop_get response ''status'') \<and>
      (prop_get response ''tx_hash'' = JUndef \<or>
       (case prop_get response ''tx_hash'' of JStr s \<Rightarrow> isValidHash s | _ \<Rightarrow> False)))"

definition validateCheckoutHistoryData ::
  "string \<Rightarrow> string \<Rightarrow> string \<Rightarrow> string \<Rightarrow> string \<Rightarrow> jsval \<Rightarrow> getter \<Rightarrow> bool" where
  "validateCheckoutHistoryData networkName chainId tokenId userAddr checkoutId newData getValue =
     (let request = getValue (getCheckoutRequestPath networkName chainId tokenId userAddr checkoutId) in
      if \<not> truthy request \<or> \<not> isDict request \<or> \<not> isDict newData then False
      else if \<not> js_equal request (prop_get newData ''request'') then False
      else validResponse newData)"

definition validateCheckinRequestData ::
  "string \<Rightarrow> string \<Rightarrow> string \<Rightarrow> string \<Rightarrow> string \<Rightarrow> jsval \<Rightarrow> jsval \<Rightarrow> getter \<Rightarrow> bool" where
  "validateCheckinRequestData networkName chainId tokenId userAddr checkinId newData currentTime getValue =
     (if \<not> isDict newData \<or> \<not> isNumber (prop_get newData ''amount'') \<or> js_le (prop_get newData ''amount'') (JNum 0) \<or>
         \<not> isString (prop_get newData ''sender'') \<or> \<not> isString (prop_get newData ''sender_proof'') \<or>
         to_number (JStr checkinId) = JNaN \<or> to_number (JStr checkinId) \<noteq> currentTime
      then False
      else if truthy (getValue (getCheckinHistoryPath networkName chainId tokenId userAddr checkinId)) then False
      else isDict (getTokenBridgeConfig networkName chainId tokenId getValue))"

definition validateCheckinHistoryData ::
  "string \<Rightarrow> string \<Rightarrow> string \<Rightarrow> string \<Rightarrow> string \<Rightarrow> jsval \<Rightarrow> getter \<Rightarrow> bool" where
  "validateCheckinHistoryData networkName chainId tokenId userAddr checkinId newData getValue =
     (let request = getValue (getCheckinRequestPath networkName chainId tokenId userAddr checkinId) in
      if \<not> truthy request \<or> \<not> isDict request \<or> \<not> isDict newData then False
      else if \<not> js_equal request (prop_get newData ''request'') then False
      else validResponse newData)"

subsection \<open>Rewards, fees and consensus\<close>

definition validateClaimRewardData :: "string \<Rightarrow> jsval \<Rightarrow> getter \<Rightarrow> bool" where
  "validateClaimRewardData userAddr newData getValue =
     (if \<not> isDict newData \<or> \<not> isNumber (prop_get newData ''amount'') \<or> js_le (prop_get newData ''amount'') (JNum 0) then False
      else js_le (prop_get newData ''amount'') (js_or (getValue (getConsensusRewardsUnclaimedPath userAddr)) (JNum 0)))"

definition validateCollectFeeData :: "rule_env \<Rightarrow> jsval \<Rightarrow> jsval \<Rightarrow> string \<Rightarrow> getter \<Rightarrow> bool" where
  "validateCollectFeeData env data newData src getValue =
     (data = JNull \<and> isDict newData \<and> isNumber (prop_get newData ''amount'') \<and>
      js_le (prop_get newData ''amount'') (getBalance env src getValue))"

definition validateConsensusProposalData :: "jsval \<Rightarrow> string \<Rightarrow> jsval \<Rightarrow> getter \<Rightarrow> bool" where
  "validateConsensusProposalData newData userAddr blockNumber getValue =
     (if \<not> isDict newData \<or> to_number blockNumber = JNaN \<or> to_number blockNumber \<noteq> prop_get newData ''number'' \<or>
         \<not> isNumber (prop_get newData ''gas_cost_total'') then False
      else if prop_get newData ''proposer'' \<noteq> JStr userAddr \<or>
              getValue (getConsensusProposerWhitelistAddrPath userAddr) \<noteq> JBool True then False
      else let stake = getConsensusStakeBalance userAddr getValue
           in js_le (getMinStakeAmount getValue) stake \<and> js_le stake (getMaxStakeAmount getValue))"

definition validateConsensusVoteData :: "jsval \<Rightarrow> string \<Rightarrow> string \<Rightarrow> getter \<Rightarrow> bool" where
  "validateConsensusVoteData newData userAddr blockHash getValue =
     (if getValue (getConsensusValidatorWhitelistAddrPath userAddr) \<noteq> JBool True \<and>
         getValue (getConsensusProposerWhitelistAddrPath userAddr) \<noteq> JBool True then False
      else if \<not> isDict newData \<or> \<not> isBool (prop_get newData ''is_against'') \<or> \<not> isNumber (prop_get newData ''stake'') \<or>
              prop_get newData ''block_hash'' \<noteq> JStr blockHash then False
      else if truthy (prop_get newData ''is_against'') \<and> \<not> isValidatorOffenseType (prop_get newData ''offense_type'') then False
      else getConsensusStakeBalance userAddr getValue = prop_get newData ''stake'')"

subsection \<open>Developers and app configurations\<close>

definition validateRestFunctionsUrlWhitelistData :: "rule_env \<Rightarrow> string \<Rightarrow> jsval \<Rightarrow> jsval \<Rightarrow> getter \<Rightarrow> bool" where
  "validateRestFunctionsUrlWhitelistData env userAddr data newData getValue =
     (if getValue (getDevelopersRestFunctionsUserWhitelistUserPath userAddr) \<noteq> JBool True then False
      else if newData \<noteq> JNull \<and> \<not> isValidUrlWhitelistItem env newData then False
      else let maxUrlsPerDeveloper = getValue getBlockchainParamsMaxUrlsPerDeveloperPath;
               existingUrls = js_or (getValue (getDevelopersRestFunctionsUrlWhitelistUserPath userAddr)) (JObj [])
           in data \<noteq> JNull \<or> newData = JNull \<or>
              js_lt (JNum (of_nat (length (keys_of existingUrls)))) maxUrlsPerDeveloper)"

definition validateManageAppAdminConfig :: "rule_env \<Rightarrow> jsval \<Rightarrow> bool" where
  "validateManageAppAdminConfig env newData =
     (if \<not> isDict newData \<or> isEmpty newData then False
      else list_all (\<lambda>(addr, val). isCksumAddr env (JStr addr) \<and> isBool val) (dict_of newData))"

definition validateManageAppBillingConfig :: "rule_env \<Rightarrow> jsval \<Rightarrow> bool" where
  "validateManageAppBillingConfig env newData =
     (if \<not> isDict newData \<or> isEmpty newData then False
      else list_all (\<lambda>billingConfig. isDict billingConfig \<and> isDict (prop_get billingConfig ''users'') \<and>
             list_all (\<lambda>(user, permission). isCksumAddr env (JStr user) \<and> isBool permission)
               (dict_of (prop_get billingConfig ''users''))) (values_of newData))"

definition validateManageAppIsPublicConfig :: "jsval \<Rightarrow> bool" where
  "validateManageAppIsPublicConfig newData = (newData = JNull \<or> isBool newData)"

definition validateManageAppServiceConfig :: "jsval \<Rightarrow> bool" where
  "validateManageAppServiceConfig newData =
     (if \<not> isDict newData \<or> \<not> isDict (prop_get newData ''staking'') then False
      else let lockupDuration = prop_get (prop_get newData ''staking'') ''lockup_duration'' in
        if \<not> isInteger lockupDuration \<or> js_lt lockupDuration (JNum 0) then False
        else js_equal (JObj [(''staking'', JObj [(''lockup_duration'', lockupDuration)])]) newData)"

end
