(* ===== verification/StateValid.thy ===== *)
theory StateValid
  imports RuleUtil
begin

text \<open>
  The validation of rule, function and owner trees and the application of their changes,
  \<open>db/state-util.js\<close>. Tokenising the source of a write rule is done by a package (\<open>espree\<close>) and is a
  parameter: the list of tokens with their types and texts, \<open>None\<close> when the source has a lexical error
  (the package throws). The strict URL test of function URLs is a parameter as well.
\<close>

record valid_env =
  va_rule_env :: rule_env
  va_tokenize :: "string \<Rightarrow> (string \<times> string) list option"
  va_isValidUrl :: "string \<Rightarrow> bool"

subsection \<open>Rule configurations\<close>

definition stateRuleProps :: "string list" where
  "stateRuleProps = [''max_children'', ''max_height'', ''max_size'', ''max_bytes'', ''gc_max_siblings'', ''gc_num_siblings_deleted'']"

definition sanitizeRuleConfig :: "jsval \<Rightarrow> jsval" where
  "sanitizeRuleConfig rule =
     (if \<not> truthy rule then JNull
      else
        let withWrite = (if has_prop rule ''write'' then set_prop ''write'' (prop_get rule ''write'') (JObj []) else JObj []);
            stateRule = prop_get rule ''state''
        in if \<not> has_prop rule ''state'' then withWrite
           else if stateRule = JNull then set_prop ''state'' JNull withWrite
           else foldl (\<lambda>sanitized p.
                  if has_prop stateRule p
                  then set_path sanitized [''state'', p] (JNum (numberOrZero (prop_get stateRule p)))
                  else sanitized) withWrite stateRuleProps)"

definition makeWriteRuleCodeSnippet :: "string \<Rightarrow> string" where
  "makeWriteRuleCodeSnippet ruleString = ''\"use strict\"; return '' @ ruleString"

text \<open>The variable labels of a path, or the path up to the second occurrence of one.\<close>

fun variableLabelsFrom :: "string list \<Rightarrow> string list \<Rightarrow> string list \<Rightarrow> string list + string list" where
  "variableLabelsFrom seen done1 [] = Inr seen"
| "variableLabelsFrom seen done1 (label # path) =
     (if isVariableLabel label then
        if label \<in> set seen then Inl (done1 @ [label])
        else variableLabelsFrom (seen @ [label]) (done1 @ [label]) path
      else variableLabelsFrom seen (done1 @ [label]) path)"

definition getVariableLabels :: "string list \<Rightarrow> string + string list" where
  "getVariableLabels parsedRulePath =
     (case variableLabelsFrom [] [] parsedRulePath of
        Inl path \<Rightarrow> Inl (formatPath path)
      | Inr labels \<Rightarrow> Inr labels)"

fun getTopLevelIdTokens :: "bool \<Rightarrow> (string \<times> string) list \<Rightarrow> string list" where
  "getTopLevelIdTokens withProceedingDot [] = []"
| "getTopLevelIdTokens withProceedingDot ((type, text) # tokenList) =
     (let rest = getTopLevelIdTokens (type = ''Punctuator'' \<and> text = ''.'') tokenList
      in if type = ''Identifier'' \<and> \<not> withProceedingDot then text # rest else rest)"

definition getKeywordTokens :: "(string \<times> string) list \<Rightarrow> string list" where
  "getKeywordTokens tokenList = map snd (filter (\<lambda>t. fst t = ''Keyword'') tokenList)"

definition getPuncTokens :: "(string \<times> string) list \<Rightarrow> string list" where
  "getPuncTokens tokenList = map snd (filter (\<lambda>t. fst t = ''Punctuator'') tokenList)"

definition WRITE_RULE_ID_TOKEN_WHITELIST_BASE :: "string list" where
  "WRITE_RULE_ID_TOKEN_WHITELIST_BASE =
     [''auth'', ''blockNumber'', ''blockTime'', ''currentTime'', ''data'', ''evalOwner'', ''evalRule'', ''getFunction'',
      ''getOwner'', ''getRule'', ''getValue'', ''lastBlockNumber'', ''newData'', ''util'', ''parsedValuePath'',
      ''Number'', ''String'', ''Boolean'']"

text \<open>\<open>None\<close> when the tokenizer throws.\<close>

definition isValidWriteRule :: "valid_env \<Rightarrow> string list \<Rightarrow> jsval \<Rightarrow> bool option" where
  "isValidWriteRule env variableLabels rule =
     (case rule of
        JStr ruleString \<Rightarrow>
          (case va_tokenize env (makeWriteRuleCodeSnippet ruleString) of
             None \<Rightarrow> None
           | Some tokenList \<Rightarrow>
               Some (list_all (\<lambda>t. t \<in> set (WRITE_RULE_ID_TOKEN_WHITELIST_BASE @ variableLabels))
                       (getTopLevelIdTokens False tokenList) \<and>
                     list_all (\<lambda>t. t \<noteq> ''function'') (getKeywordTokens tokenList) \<and>
                     list_all (\<lambda>t. t \<noteq> ''='' \<and> t \<noteq> ''=>'') (getPuncTokens tokenList)))
      | _ \<Rightarrow> Some (rule = JNull \<or> isBool rule))"

definition positiveProp :: "jsval \<Rightarrow> string \<Rightarrow> bool" where
  "positiveProp stateRule p = (has_prop stateRule p \<longrightarrow> \<not> js_le (prop_get stateRule p) (JNum 0))"

definition isValidStateRule :: "jsval \<Rightarrow> jsval \<Rightarrow> bool" where
  "isValidStateRule minGcNumSiblingsDeleted stateRule =
     (if stateRule = JNull then True
      else if \<not> isDict stateRule \<or> isEmpty stateRule then False
      else if \<not> list_all (positiveProp stateRule) [''max_children'', ''max_height'', ''max_size'', ''max_bytes'', ''gc_max_siblings'']
      then False
      else if has_prop stateRule ''gc_max_siblings'' \<and>
              (\<not> has_prop stateRule ''gc_num_siblings_deleted'' \<or>
               js_lt (prop_get stateRule ''gc_num_siblings_deleted'') minGcNumSiblingsDeleted \<or>
               js_lt (prop_get stateRule ''gc_max_siblings'') (prop_get stateRule ''gc_num_siblings_deleted''))
      then False
      else list_ex (has_prop stateRule) [''max_children'', ''max_height'', ''max_size'', ''max_bytes'', ''gc_max_siblings''])"

record config_params =
  cp_minGcNumSiblingsDeleted :: jsval
  cp_variableLabels :: "string list"

definition isValidRuleConfig :: "valid_env \<Rightarrow> config_params \<Rightarrow> jsval \<Rightarrow> validity" where
  "isValidRuleConfig env params ruleConfigObj =
     (if \<not> isDict ruleConfigObj then Invalid (formatPath [])
      else if \<not> has_prop ruleConfigObj ''write'' \<and> \<not> has_prop ruleConfigObj ''state'' then Invalid (formatPath [])
      else
        let sanitized = sanitizeRuleConfig ruleConfigObj in
        if \<not> js_equal (json_norm sanitized) ruleConfigObj then Invalid (formatPath [])
        else
          case (if has_prop sanitized ''write''
                then isValidWriteRule env (cp_variableLabels params) (prop_get sanitized ''write'') else Some True) of
            None \<Rightarrow> Throws
          | Some False \<Rightarrow> Invalid (formatPath [''write''])
          | Some True \<Rightarrow>
              if has_prop sanitized ''state'' \<and>
                 \<not> isValidStateRule (cp_minGcNumSiblingsDeleted params) (prop_get sanitized ''state'')
              then Invalid (formatPath [''state'']) else Valid)"

subsection \<open>Function configurations\<close>

definition sanitizeFunctionInfo :: "jsval \<Rightarrow> jsval" where
  "sanitizeFunctionInfo functionInfoObj =
     (if \<not> truthy functionInfoObj then JNull
      else
        let functionType = prop_get functionInfoObj ''function_type'';
            functionId = JStr (stringOrEmpty (prop_get functionInfoObj ''function_id''))
        in if functionType = JStr ''NATIVE'' then
             JObj [(''function_type'', functionType), (''function_id'', functionId)]
           else if functionType = JStr ''REST'' then
             JObj [(''function_type'', functionType), (''function_id'', functionId),
                   (''function_url'', JStr (stringOrEmpty (prop_get functionInfoObj ''function_url'')))]
           else JObj [])"

definition isValidFunctionInfo :: "valid_env \<Rightarrow> jsval \<Rightarrow> bool" where
  "isValidFunctionInfo env functionInfoObj =
     (if isEmpty functionInfoObj then False
      else if \<not> js_equal (json_norm (sanitizeFunctionInfo functionInfoObj)) functionInfoObj then False
      else case prop_get functionInfoObj ''function_url'' of
             JUndef \<Rightarrow> True
           | JStr url \<Rightarrow> va_isValidUrl env url
           | _ \<Rightarrow> False)"

fun isValidFunctionEntries :: "valid_env \<Rightarrow> (string \<times> jsval) list \<Rightarrow> validity" where
  "isValidFunctionEntries env [] = Valid"
| "isValidFunctionEntries env ((fid, functionInfo) # rest) =
     (if functionInfo = JNull then isValidFunctionEntries env rest
      else if \<not> isValidFunctionInfo env functionInfo then Invalid (formatPath [fid])
      else if prop_get functionInfo ''function_id'' \<noteq> JStr fid then Invalid (formatPath [fid, ''function_id''])
      else isValidFunctionEntries env rest)"

definition isValidFunctionConfig :: "valid_env \<Rightarrow> config_params \<Rightarrow> jsval \<Rightarrow> validity" where
  "isValidFunctionConfig env params functionConfigObj =
     (if \<not> isDict functionConfigObj then Invalid (formatPath [])
      else if keys_of functionConfigObj = [] then Invalid (formatPath [])
      else isValidFunctionEntries env (dict_of functionConfigObj))"

subsection \<open>Owner configurations\<close>

definition sanitizeOwnerPermissions :: "jsval \<Rightarrow> jsval" where
  "sanitizeOwnerPermissions permissionObj =
     (if \<not> truthy permissionObj then JNull
      else JObj (map (\<lambda>p. (p, JBool (boolOrFalse (prop_get permissionObj p))))
             [''branch_owner'', ''write_function'', ''write_owner'', ''write_rule'']))"

definition isValidOwnerPermissions :: "jsval \<Rightarrow> bool" where
  "isValidOwnerPermissions permissionObj =
     (if isEmpty permissionObj then False
      else js_equal (json_norm (sanitizeOwnerPermissions permissionObj)) permissionObj)"

definition NativeFunctionIds :: "string list" where
  "NativeFunctionIds =
     [''_cancelCheckin'', ''_claim'', ''_claimReward'', ''_closeCheckin'', ''_closeCheckout'', ''_collectFee'',
      ''_createApp'', ''_distributeFee'', ''_eraseValue'', ''_fail'', ''_handleOffenses'', ''_hold'', ''_openCheckin'',
      ''_openCheckout'', ''_pay'', ''_release'', ''_saveLastTx'', ''_setOwnerConfig'', ''_stake'', ''_transfer'',
      ''_unstake'', ''_updateLatestShardReport'']"

definition isNativeFunctionId :: "string \<Rightarrow> bool" where
  "isNativeFunctionId fid = (fid \<in> set NativeFunctionIds)"

fun isValidOwnerEntries :: "valid_env \<Rightarrow> (string \<times> jsval) list \<Rightarrow> validity" where
  "isValidOwnerEntries env [] = Valid"
| "isValidOwnerEntries env ((owner, ownerPermissions) # rest) =
     (if owner \<noteq> ''*'' \<and> \<not> isCksumAddr (va_rule_env env) (JStr owner) \<and>
         (\<not> prefix ''fid:'' owner \<or> \<not> isNativeFunctionId (drop 4 owner)) then Invalid (formatPath [''owners'', owner])
      else if ownerPermissions \<in> {JNull, JUndef} then isValidOwnerEntries env rest
      else if \<not> isValidOwnerPermissions ownerPermissions then Invalid (formatPath [''owners'', owner])
      else isValidOwnerEntries env rest)"

definition isValidOwnerConfig :: "valid_env \<Rightarrow> config_params \<Rightarrow> jsval \<Rightarrow> validity" where
  "isValidOwnerConfig env params ownerConfigObj =
     (if \<not> isDict ownerConfigObj then Invalid (formatPath [])
      else if \<not> has_prop ownerConfigObj ''owners'' then Invalid (formatPath [])
      else
        let ownersProp = prop_get ownerConfigObj ''owners'' in
        if \<not> isDict ownersProp then Invalid (formatPath [''owners''])
        else if keys_of ownersProp = [] then Invalid (formatPath [''owners''])
        else isValidOwnerEntries env (dict_of ownersProp))"

subsection \<open>Trees of configurations\<close>

text \<open>
  \<open>variableLabels\<close> grows on the way down and shrinks on the way up, so it is an argument here; the
  path that the code pushes to and pops from is one as well.
\<close>

fun isValidConfigTreeRecursive ::
  "string list \<Rightarrow> string \<Rightarrow> (config_params \<Rightarrow> jsval \<Rightarrow> validity) \<Rightarrow> config_params \<Rightarrow> string list \<Rightarrow> jsval \<Rightarrow> validity"
  and isValidConfigEntries ::
  "string list \<Rightarrow> string \<Rightarrow> (config_params \<Rightarrow> jsval \<Rightarrow> validity) \<Rightarrow> config_params \<Rightarrow> string list \<Rightarrow> (string \<times> jsval) list \<Rightarrow> validity"
  where
  "isValidConfigTreeRecursive treePath configLabel validator params subtreePath (JObj kvs) =
     (if kvs = [] then Invalid (formatPath subtreePath)
      else isValidConfigEntries treePath configLabel validator params subtreePath kvs)"
| "isValidConfigTreeRecursive treePath configLabel validator params subtreePath v = Invalid (formatPath subtreePath)"
| "isValidConfigEntries treePath configLabel validator params subtreePath [] = Valid"
| "isValidConfigEntries treePath configLabel validator params subtreePath ((label, subtree) # kvs) =
     (let path = subtreePath @ [label];
          isVar = isVariableLabel label;
          below = (if isVar then params\<lparr>cp_variableLabels := cp_variableLabels params @ [label]\<rparr> else params)
      in if isVar \<and> label \<in> set (cp_variableLabels params) then Invalid (formatPath (treePath @ path))
         else case (if label = configLabel then
                      (case validator below subtree of
                         Invalid p \<Rightarrow> Invalid (appendPath (formatPath path) [p])
                       | v \<Rightarrow> v)
                    else isValidConfigTreeRecursive treePath configLabel validator below path subtree) of
                Valid \<Rightarrow> isValidConfigEntries treePath configLabel validator params subtreePath kvs
              | invalid \<Rightarrow> invalid)"

definition isValidRuleTree :: "valid_env \<Rightarrow> jsval \<Rightarrow> string list \<Rightarrow> jsval \<Rightarrow> validity" where
  "isValidRuleTree env minGcNumSiblingsDeleted treePath ruleTreeObj =
     (if ruleTreeObj = JNull then Valid
      else case getVariableLabels treePath of
             Inl p \<Rightarrow> Invalid p
           | Inr labels \<Rightarrow>
               isValidConfigTreeRecursive treePath ''.rule'' (isValidRuleConfig env)
                 \<lparr>cp_minGcNumSiblingsDeleted = minGcNumSiblingsDeleted, cp_variableLabels = labels\<rparr> [] ruleTreeObj)"

definition isValidFunctionTree :: "valid_env \<Rightarrow> string list \<Rightarrow> jsval \<Rightarrow> validity" where
  "isValidFunctionTree env treePath functionTreeObj =
     (if functionTreeObj = JNull then Valid
      else case getVariableLabels treePath of
             Inl p \<Rightarrow> Invalid p
           | Inr labels \<Rightarrow>
               isValidConfigTreeRecursive treePath ''.function'' (isValidFunctionConfig env)
                 \<lparr>cp_minGcNumSiblingsDeleted = JUndef, cp_variableLabels = labels\<rparr> [] functionTreeObj)"

definition isValidOwnerTree :: "valid_env \<Rightarrow> string list \<Rightarrow> jsval \<Rightarrow> validity" where
  "isValidOwnerTree env treePath ownerTreeObj =
     (if ownerTreeObj = JNull then Valid
      else case getVariableLabels treePath of
             Inl p \<Rightarrow> Invalid p
           | Inr labels \<Rightarrow>
               isValidConfigTreeRecursive treePath ''.owner'' (isValidOwnerConfig env)
                 \<lparr>cp_minGcNumSiblingsDeleted = JUndef, cp_variableLabels = labels\<rparr> [] ownerTreeObj)"

subsection \<open>Changes of configurations\<close>

definition hasConfigLabel :: "jsval \<Rightarrow> string \<Rightarrow> bool" where
  "hasConfigLabel stateTreeObj configLabel = (getJsObject stateTreeObj [configLabel] \<noteq> JNull)"

definition hasConfigLabelOnly :: "jsval \<Rightarrow> string \<Rightarrow> bool" where
  "hasConfigLabelOnly stateTreeObj configLabel =
     (hasConfigLabel stateTreeObj configLabel \<and> length (keys_of stateTreeObj) = 1)"

definition getConfigFromStateTreeObj :: "jsval \<Rightarrow> string list \<Rightarrow> jsval" where
  "getConfigFromStateTreeObj stateTreeObj configPath = getJsObject stateTreeObj configPath"

definition setConfigToStateTreeObj :: "jsval \<Rightarrow> string list \<Rightarrow> jsval \<Rightarrow> jsval" where
  "setConfigToStateTreeObj stateTreeObj configPath config =
     (case setJsObject stateTreeObj configPath config of None \<Rightarrow> stateTreeObj | Some v \<Rightarrow> v)"

text \<open>The loop over the entries of a change.\<close>

definition mergeConfig :: "jsval \<Rightarrow> (string \<times> jsval) list \<Rightarrow> jsval" where
  "mergeConfig newMap change =
     foldl (\<lambda>m (k, info). if info = JNull then delete_prop k m else set_prop k info m) newMap change"

definition mergeIntoTree :: "jsval \<Rightarrow> string list \<Rightarrow> (string \<times> jsval) list \<Rightarrow> jsval" where
  "mergeIntoTree curTree path changeMap =
     (let newConfig = (if isDict curTree then json_norm curTree else JObj []);
          newConfig' = (if isDict (getConfigFromStateTreeObj newConfig path) then newConfig
                        else setConfigToStateTreeObj newConfig path (JObj []))
      in setConfigToStateTreeObj newConfig' path (mergeConfig (getConfigFromStateTreeObj newConfig' path) changeMap))"

definition applyConfigChange :: "string \<Rightarrow> string list \<Rightarrow> jsval \<Rightarrow> jsval \<Rightarrow> bool \<times> jsval" where
  "applyConfigChange label path curTree change =
     (if \<not> hasConfigLabel curTree label \<or> \<not> hasConfigLabelOnly change label then
        (False, if isDict change then json_norm change else change)
      else
        let changeMap = getConfigFromStateTreeObj change path in
        if \<not> truthy changeMap \<or> keys_of changeMap = [] then (True, curTree)
        else (True, mergeIntoTree curTree path (dict_of changeMap)))"

definition applyRuleChange :: "jsval \<Rightarrow> jsval \<Rightarrow> bool \<times> jsval" where
  "applyRuleChange curRuleTree ruleChange = applyConfigChange ''.rule'' [''.rule''] curRuleTree ruleChange"

definition applyFunctionChange :: "jsval \<Rightarrow> jsval \<Rightarrow> bool \<times> jsval" where
  "applyFunctionChange curFuncTree functionChange =
     applyConfigChange ''.function'' [''.function''] curFuncTree functionChange"

definition applyOwnerChange :: "jsval \<Rightarrow> jsval \<Rightarrow> bool \<times> jsval" where
  "applyOwnerChange curOwnerTree ownerChange =
     applyConfigChange ''.owner'' [''.owner'', ''owners''] curOwnerTree ownerChange"

end
