(* ===== verification/ConfigProps.thy ===== *)
theory ConfigProps
  imports StateValid MatchProps
begin

text \<open>
  What the validation of labels and configurations guarantees, and what applying a change of a
  configuration does.
\<close>

subsection \<open>Merging configurations\<close>

lemma getJsObject_not_dict: "\<not> isDict v \<Longrightarrow> q \<noteq> [] \<Longrightarrow> getJsObject v q = JNull"
  by (cases q) simp_all

lemma getJsObject_empty [simp]: "q \<noteq> [] \<Longrightarrow> getJsObject (JObj []) q = JNull"
  by (cases q; cases "tl q") simp_all

lemma prop_get_not_dict [simp]: "\<not> isDict v \<Longrightarrow> prop_get v k = JUndef"
  by (cases v) simp_all

lemma getJsObject_undef: "getJsObject JUndef q = JNull"
  by (cases q) simp_all

lemma getJsObject_set_path_below:
  "path \<noteq> [] \<Longrightarrow> getJsObject (set_path obj path val) (path @ q) = getJsObject val q"
proof (induction path arbitrary: obj)
  case (Cons key path)
  then show ?case by (cases "path = []") simp_all
qed simp

lemma getJsObject_set_path_parallel:
  "path \<parallel> q \<Longrightarrow> isDict obj \<Longrightarrow> getJsObject (set_path obj path val) q = getJsObject obj q"
proof (induction path arbitrary: obj q)
  case (Cons key path)
  obtain l q' where q: "q = l # q'" using Cons.prems(1) by (cases q) auto
  show ?case
  proof (cases "l = key")
    case False
    then show ?thesis using Cons.prems(2) by (simp add: q)
  next
    case True
    then have p: "path \<parallel> q'" using Cons.prems(1) by (simp add: q parallel_Cons)
    then have ne: "path \<noteq> []" "q' \<noteq> []" by auto
    show ?thesis
    proof (cases "isDict (prop_get obj key)")
      case d: True
      then show ?thesis using Cons.IH [OF p d] Cons.prems(2) by (simp add: q True)
    next
      case d: False
      have "getJsObject (set_path (JObj []) path val) q' = JNull" using Cons.IH [OF p, of "JObj []"] ne(2) by simp
      then show ?thesis using d ne Cons.prems(2) getJsObject_not_dict [OF d ne(2)] by (simp add: q True)
    qed
  qed
qed simp

lemma getJsObject_app:
  "getJsObject v (path @ [k]) = (if isDict (getJsObject v path) then getJsObject (getJsObject v path) [k] else JNull)"
  by (induction v path rule: getJsObject.induct) auto

lemma mergeConfig_get:
  "distinct (map fst ch) \<Longrightarrow> isDict m \<Longrightarrow>
     isDict (mergeConfig m ch) \<and>
     prop_get (mergeConfig m ch) k = (case map_of ch k of None \<Rightarrow> prop_get m k | Some v \<Rightarrow> if v = JNull then JUndef else v)"
proof (induction ch arbitrary: m)
  case (Cons e ch)
  obtain l v where e: "e = (l, v)" by fastforce
  let ?m = "if v = JNull then delete_prop l m else set_prop l v m"
  have d: "isDict ?m" by simp
  have "prop_get ?m k = (if k = l then if v = JNull then JUndef else v else prop_get m k)"
    by simp
  moreover have "mergeConfig m (e # ch) = mergeConfig ?m ch" by (simp add: mergeConfig_def e)
  moreover have "map_of ch l = None" using Cons.prems(1) by (simp add: e map_of_eq_None_iff)
  ultimately show ?case using Cons.IH [OF _ d] Cons.prems(1) by (cases "map_of ch k") (auto simp: e)
qed (simp add: mergeConfig_def)

lemma mergeIntoTree_get:
  assumes cur: "json_norm cur = cur" "isDict cur" and path: "path \<noteq> []" and ch: "distinct (map fst ch)" "JUndef \<notin> snd ` set ch"
  shows "getJsObject (mergeIntoTree cur path ch) (path @ [k]) =
      (case map_of ch k of None \<Rightarrow> getJsObject cur (path @ [k]) | Some v \<Rightarrow> v)"
    and "path \<parallel> q \<Longrightarrow> getJsObject (mergeIntoTree cur path ch) q = getJsObject cur q"
proof -
  let ?c = "if isDict (getJsObject cur path) then cur else set_path cur path (JObj [])"
  have dc: "isDict ?c" using cur(2) path by (cases path) auto
  have m: "isDict (getJsObject ?c path)"
    using getJsObject_set_path_below [OF path, of cur "JObj []" "[]"] by simp
  have e: "mergeIntoTree cur path ch = set_path ?c path (mergeConfig (getJsObject ?c path) ch)"
    using cur path dc by (simp add: mergeIntoTree_def Let_def getConfigFromStateTreeObj_def setConfigToStateTreeObj_def setJsObject_def)
  have g: "getJsObject ?c (path @ [k]) = getJsObject cur (path @ [k])"
    using getJsObject_set_path_below [OF path, of cur "JObj []" "[k]"] getJsObject_app [of cur path k] by simp
  have u: "v \<noteq> JUndef" if "map_of ch k = Some v" for v
    using that ch(2) by (force dest: map_of_SomeD)
  have "getJsObject (mergeIntoTree cur path ch) (path @ [k]) = getJsObject (mergeConfig (getJsObject ?c path) ch) [k]"
    unfolding e by (rule getJsObject_set_path_below [OF path])
  also have "\<dots> = (case map_of ch k of None \<Rightarrow> getJsObject cur (path @ [k]) | Some v \<Rightarrow> v)"
    using mergeConfig_get [OF ch(1) m, of k] g getJsObject_app [of ?c path k] u m by (auto split: option.splits)
  finally show "getJsObject (mergeIntoTree cur path ch) (path @ [k]) =
      (case map_of ch k of None \<Rightarrow> getJsObject cur (path @ [k]) | Some v \<Rightarrow> v)" .
  assume q: "path \<parallel> q"
  show "getJsObject (mergeIntoTree cur path ch) q = getJsObject cur q"
    unfolding e getJsObject_set_path_parallel [OF q dc] using getJsObject_set_path_parallel [OF q cur(2)] by simp
qed

lemma applyConfigChange_merges:
  assumes "hasConfigLabel cur label" "hasConfigLabelOnly change label"
    and "json_norm cur = cur" "path \<noteq> []" "getJsObject change path = JObj ch" "ch \<noteq> []" "distinct (map fst ch)" "JUndef \<notin> snd ` set ch"
  shows "fst (applyConfigChange label path cur change) \<and>
    getJsObject (snd (applyConfigChange label path cur change)) (path @ [k]) =
      (case map_of ch k of None \<Rightarrow> getJsObject cur (path @ [k]) | Some v \<Rightarrow> v) \<and>
    (\<forall>q. path \<parallel> q \<longrightarrow> getJsObject (snd (applyConfigChange label path cur change)) q = getJsObject cur q)"
proof -
  have d: "isDict cur" using assms(1) by (simp add: hasConfigLabel_def split: if_splits)
  have "applyConfigChange label path cur change = (True, mergeIntoTree cur path ch)"
    using assms(1,2,5,6) by (simp add: applyConfigChange_def Let_def getConfigFromStateTreeObj_def)
  then show ?thesis
    using mergeIntoTree_get [OF assms(3) d assms(4,7,8)] by simp
qed



subsection \<open>Valid configurations\<close>

lemma json_norm_prop:
  "isDict v \<Longrightarrow> prop_get v k \<noteq> JUndef \<Longrightarrow> prop_get (json_norm v) k = json_norm (prop_get v k)"
proof -
  have "map_of ps k = Some w \<Longrightarrow> w \<noteq> JUndef \<Longrightarrow>
    map_of (map (\<lambda>p. (fst p, json_norm (snd p))) (filter (\<lambda>p. snd p \<noteq> JUndef) ps)) k = Some (json_norm w)" for ps w
    by (induction ps) (auto split: if_splits)
  then show "isDict v \<Longrightarrow> prop_get v k \<noteq> JUndef \<Longrightarrow> ?thesis"
    by (cases v) (auto split: option.splits)
qed

lemma getJsObject_num_norm: "getJsObject v q = JNum x \<Longrightarrow> getJsObject (json_norm v) q = JNum x"
proof (induction q arbitrary: v)
  case (Cons k q)
  then have d: "isDict v" and g: "getJsObject (prop_get v k) q = JNum x" by (simp_all split: if_splits)
  then have "prop_get v k \<noteq> JUndef" using getJsObject_undef by auto
  then show ?case using Cons.IH [OF g] json_norm_prop [OF d] d by (cases v) auto
qed (simp split: if_splits)

lemma getJsObject_num_equal: "js_equal v w \<Longrightarrow> getJsObject v q = JNum x \<Longrightarrow> getJsObject w q = JNum x"
proof (induction q arbitrary: v w)
  case (Cons k q)
  then obtain ps where v: "v = JObj ps" and g: "getJsObject (prop_get v k) q = JNum x"
    by (cases v) (simp_all split: if_splits)
  then obtain u where u: "map_of ps k = Some u" using getJsObject_undef by (cases "map_of ps k") auto
  have "js_equal (JObj ps) w" using Cons.prems(1) v by simp
  then have "js_equal u (prop_get w k)" "isDict w"
    using js_equal_prop [OF _ map_of_SomeD [OF u]] js_equal_objD by (blast, metis isDict.simps(1))
  then show ?case using Cons.IH [of u "prop_get w k"] g u v by simp
qed (simp split: if_splits)

lemma foldl_state_props:
  "distinct ps \<Longrightarrow> isDict o1 \<Longrightarrow>
    getJsObject (foldl (\<lambda>s p. if has_prop st p then set_path s [''state'', p] (JNum (f p)) else s) o1 ps) [''state'', p] =
      (if p \<in> set ps \<and> has_prop st p then JNum (f p) else getJsObject o1 [''state'', p])"
proof (induction ps arbitrary: o1)
  case (Cons q ps)
  let ?o = "if has_prop st q then set_path o1 [''state'', q] (JNum (f q)) else o1"
  have d: "isDict ?o" using Cons.prems(2) by simp
  have "getJsObject ?o [''state'', p] = (if p = q \<and> has_prop st q then JNum (f q) else getJsObject o1 [''state'', p])"
  proof (cases "p = q")
    case True
    then show ?thesis using getJsObject_set_path [of "JNum (f q)" "[''state'', q]" o1] by simp
  next
    case False
    then have "[''state'', q] \<parallel> [''state'', p]" by (simp add: parallel_def)
    then show ?thesis using getJsObject_set_path_parallel [OF _ Cons.prems(2)] False by simp
  qed
  then show ?case using Cons.IH [OF _ d] Cons.prems(1) by auto
qed simp

lemma sanitized_state_prop:
  assumes "isDict rule" "has_prop rule ''state''" "isDict (prop_get rule ''state'')" "p \<in> set stateRuleProps"
  shows "getJsObject (sanitizeRuleConfig rule) [''state'', p] =
    (if has_prop (prop_get rule ''state'') p then JNum (numberOrZero (prop_get (prop_get rule ''state'') p)) else JNull)"
proof -
  let ?w = "if has_prop rule ''write'' then set_prop ''write'' (prop_get rule ''write'') (JObj []) else JObj []"
  have "truthy rule" using assms(1) by (cases rule) auto
  moreover have "prop_get rule ''state'' \<noteq> JNull" using assms(3) by auto
  ultimately have e: "sanitizeRuleConfig rule =
     foldl (\<lambda>s p. if has_prop (prop_get rule ''state'') p
        then set_path s [''state'', p] (JNum (numberOrZero (prop_get (prop_get rule ''state'') p))) else s) ?w stateRuleProps"
    using assms(2) by (simp add: sanitizeRuleConfig_def Let_def)
  have "isDict ?w" "getJsObject ?w [''state'', p] = JNull" "distinct stateRuleProps" by (simp_all add: stateRuleProps_def)
  then show ?thesis unfolding e using foldl_state_props [of stateRuleProps ?w _ _ p] assms(4) by simp
qed

lemma has_prop_set [simp]: "has_prop (set_prop q v x) p \<longleftrightarrow> p = q \<or> has_prop x p"
  by (cases x) (auto simp: set_prop_def dict_of_def dom_update)

lemma sanitized_state_has:
  assumes "isDict rule" "has_prop rule ''state''" "isDict (prop_get rule ''state'')"
    and "has_prop (prop_get (sanitizeRuleConfig rule) ''state'') p"
  shows "has_prop (prop_get rule ''state'') p"
proof -
  let ?st = "prop_get rule ''state''"
  let ?w = "if has_prop rule ''write'' then set_prop ''write'' (prop_get rule ''write'') (JObj []) else JObj []"
  have "\<not> has_prop ?st p \<Longrightarrow> \<not> has_prop (prop_get o1 ''state'') p \<Longrightarrow>
    \<not> has_prop (prop_get (foldl (\<lambda>s p. if has_prop ?st p then set_path s [''state'', p] (JNum (f p)) else s) o1 ps) ''state'') p"
    for ps o1 f
  proof (induction ps arbitrary: o1)
    case (Cons q ps)
    let ?o = "if has_prop ?st q then set_path o1 [''state'', q] (JNum (f q)) else o1"
    have "\<not> has_prop (prop_get ?o ''state'') p"
      using Cons.prems by (cases "q = p"; cases "isDict (prop_get o1 ''state'')") simp_all
    then show ?case using Cons.IH [of ?o] Cons.prems(1) by (simp only: foldl_Cons not_False_eq_True)
  qed simp
  note step = this
  have "truthy rule" using assms(1) by (cases rule) auto
  moreover have "?st \<noteq> JNull" using assms(3) by auto
  ultimately have e: "sanitizeRuleConfig rule =
     foldl (\<lambda>s p. if has_prop ?st p then set_path s [''state'', p] (JNum (numberOrZero (prop_get ?st p))) else s) ?w stateRuleProps"
    using assms(2) by (simp add: sanitizeRuleConfig_def Let_def)
  have "\<not> has_prop (prop_get ?w ''state'') p" by simp
  from step [OF _ this, of "\<lambda>p. numberOrZero (prop_get ?st p)" stateRuleProps] show ?thesis
    using assms(4) unfolding e by blast
qed

lemma has_prop_get: "prop_get v k \<noteq> JUndef \<Longrightarrow> has_prop v k"
  by (cases v) (auto split: option.splits dest!: map_of_SomeD intro: rev_image_eqI)

lemma valid_rule_gc:
  assumes valid: "isValidRuleConfig env \<lparr>cp_minGcNumSiblingsDeleted = JNum mn, cp_variableLabels = labels\<rparr> rule = Valid"
    and state: "isDict (prop_get rule ''state'')"
    and gc: "truthy (prop_get (prop_get rule ''state'') ''gc_max_siblings'')"
  shows "\<exists>M N. prop_get (prop_get rule ''state'') ''gc_max_siblings'' = JNum M \<and>
    prop_get (prop_get rule ''state'') ''gc_num_siblings_deleted'' = JNum N \<and> mn \<le> N \<and> N \<le> M"
proof -
  let ?st = "prop_get rule ''state''" and ?s = "sanitizeRuleConfig rule"
  have d: "isDict rule" and eq: "js_equal (json_norm ?s) rule"
    using valid by (simp_all add: isValidRuleConfig_def Let_def split: if_splits)
  have hs: "has_prop rule ''state''" using state by (intro has_prop_get) auto
  have g: "getJsObject ?s [''state'', p] = (if has_prop ?st p then JNum (numberOrZero (prop_get ?st p)) else JNull)"
    if "p \<in> set stateRuleProps" for p using sanitized_state_prop [OF d hs state that] .
  have num: "prop_get ?st p = JNum (numberOrZero (prop_get ?st p)) \<and> prop_get (prop_get ?s ''state'') p = prop_get ?st p \<and>
      has_prop (prop_get ?s ''state'') p"
    if p: "p \<in> set stateRuleProps" and h: "has_prop ?st p" for p
  proof -
    have x: "getJsObject ?s [''state'', p] = JNum (numberOrZero (prop_get ?st p))" using g [OF p] h by simp
    then have "getJsObject rule [''state'', p] = JNum (numberOrZero (prop_get ?st p))"
      using getJsObject_num_equal [OF eq] getJsObject_num_norm by blast
    then have y: "prop_get ?st p = JNum (numberOrZero (prop_get ?st p))" by (simp split: if_splits)
    have "prop_get (prop_get ?s ''state'') p = JNum (numberOrZero (prop_get ?st p))"
      using x by (simp split: if_splits)
    with y show ?thesis by (metis has_prop_get jsval.distinct(5))
  qed
  have mem: "''gc_max_siblings'' \<in> set stateRuleProps" "''gc_num_siblings_deleted'' \<in> set stateRuleProps"
    by (simp_all add: stateRuleProps_def)
  have hm: "has_prop ?st ''gc_max_siblings''"
    using gc by (intro has_prop_get) auto
  note m = num [OF mem(1) hm]
  have vs: "isValidStateRule (JNum mn) (prop_get ?s ''state'')"
  proof -
    have "has_prop ?s ''state''" using m by (intro has_prop_get) auto
    then show ?thesis
      using valid by (simp add: isValidRuleConfig_def Let_def split: if_splits option.splits bool.splits)
  qed
  have nn: "prop_get ?s ''state'' \<noteq> JNull" using m by auto
  have hn: "has_prop (prop_get ?s ''state'') ''gc_num_siblings_deleted''"
    and le: "\<not> js_lt (prop_get (prop_get ?s ''state'') ''gc_num_siblings_deleted'') (JNum mn)"
      "\<not> js_lt (prop_get (prop_get ?s ''state'') ''gc_max_siblings'') (prop_get (prop_get ?s ''state'') ''gc_num_siblings_deleted'')"
    using vs m nn unfolding isValidStateRule_def by (simp_all split: if_splits)
  have "has_prop ?st ''gc_num_siblings_deleted''"
    using hn sanitized_state_has [OF d hs state] by blast
  note n = num [OF mem(2) this]
  show ?thesis using m n le by (metis not_less num_ops(4))
qed

text \<open>
  C16. A rule configuration that passes validation cannot make garbage collection run past the
  list of children: for every state and every match with this configuration the collection
  terminates normally, since validation forces the number of deletions below the sibling limit.
\<close>

theorem valid_state_rule_gc_safe:
  assumes "isValidRuleConfig env \<lparr>cp_minGcNumSiblingsDeleted = JNum mn, cp_variableLabels = labels\<rparr> rule = Valid"
    and "snd (mr_closestRule m) = rule"
  shows "applyStateGarbageCollectionRule rt m path \<noteq> None"
proof -
  let ?st = "prop_get rule ''state''"
  show ?thesis
  proof (cases "truthy (prop_get ?st ''gc_max_siblings'')")
    case False
    then show ?thesis using assms(2) by (simp add: applyStateGarbageCollectionRule_def Let_def)
  next
    case True
    then have st: "isDict ?st" by (cases ?st) simp_all
    obtain M N where mn: "prop_get ?st ''gc_max_siblings'' = JNum M" "prop_get ?st ''gc_num_siblings_deleted'' = JNum N" "N \<le> M"
      using valid_rule_gc [OF assms(1) st True] by blast
    have "nat \<lceil>N\<rceil> \<le> length (getChildLabels node)" if "\<not> fits_limit (numChildNodes node) (JNum M)" for node
      using that mn(3) by (simp add: fits_limit_def numChildNodes_def getChildLabels_def nat_le_iff ceiling_le_iff)
    then show ?thesis
      unfolding applyStateGarbageCollectionRule_def Let_def assms(2) mn(1,2)
      by (auto split: option.split simp del: getRefForReadingFromStateRoot.simps dest!: leD)
  qed
qed

theorem valid_state_rule_gc_safe_witness:
  "applyStateGarbageCollectionRule (SNode [(''values'', SNode [(''a'', SLeaf (JNum 1)), (''b'', SLeaf (JNum 2))])])
     \<lparr>mr_matchedValuePath = [''a''], mr_matchedRulePath = [''a''], mr_pathVars = [],
      mr_closestRule = ([''a''], JObj [(''state'', JObj [(''gc_max_siblings'', JNum 1), (''gc_num_siblings_deleted'', JNum 1)])]),
      mr_subtreeRules = None\<rparr> [''a''] \<noteq> None"
proof (rule valid_state_rule_gc_safe)
  show "isValidRuleConfig \<lparr>va_rule_env = undefined, va_tokenize = \<lambda>s. None, va_isValidUrl = \<lambda>s. False\<rparr>
      \<lparr>cp_minGcNumSiblingsDeleted = JNum 1, cp_variableLabels = []\<rparr>
      (JObj [(''state'', JObj [(''gc_max_siblings'', JNum 1), (''gc_num_siblings_deleted'', JNum 1)])]) = Valid"
    by (simp add: isValidRuleConfig_def Let_def sanitizeRuleConfig_def stateRuleProps_def set_prop_def dict_of_def
        js_equal.simps isValidStateRule_def positiveProp_def)
qed simp

lemma all_values_of_keys:
  assumes d: "distinct (map fst kvs)" and f: "finite P"
  shows "length kvs = card P \<and> (\<forall>p\<in>P. \<exists>u. map_of kvs p = Some u \<and> R u) \<longleftrightarrow>
    set (map fst kvs) = P \<and> (\<forall>x\<in>set (map snd kvs). R x)"
proof
  have n: "card (set (map fst kvs)) = length kvs" using distinct_card [OF d] by simp
  { assume l: "length kvs = card P \<and> (\<forall>p\<in>P. \<exists>u. map_of kvs p = Some u \<and> R u)"
    have "P \<subseteq> set (map fst kvs)" using l by (auto simp: image_iff dest!: map_of_SomeD bspec, force)
    then have e: "set (map fst kvs) = P" using n l card_subset_eq [of "set (map fst kvs)" P] by simp
    have "R x" if "(k, x) \<in> set kvs" for k x
    proof -
      have "map_of kvs k = Some x" "k \<in> P" using d that e by (simp, force)
      then show ?thesis using l by fastforce
    qed
    with e show "set (map fst kvs) = P \<and> (\<forall>x\<in>set (map snd kvs). R x)" by auto }
  assume r: "set (map fst kvs) = P \<and> (\<forall>x\<in>set (map snd kvs). R x)"
  have "\<exists>u. map_of kvs p = Some u \<and> R u" if "p \<in> P" for p
  proof -
    have "p \<in> fst ` set kvs" using r that by simp
    then obtain u where "(p, u) \<in> set kvs" by fastforce
    then show ?thesis using d r by force
  qed
  then show "length kvs = card P \<and> (\<forall>p\<in>P. \<exists>u. map_of kvs p = Some u \<and> R u)" using n r by simp
qed

text \<open>
  The permissions of an owner are valid exactly when they are an object with the four
  permissions, each a boolean, and nothing else.
\<close>

theorem owner_permissions_shape:
  assumes d: "distinct (map fst kvs)"
  shows "isValidOwnerPermissions (JObj kvs) \<longleftrightarrow>
    set (map fst kvs) = {''branch_owner'', ''write_function'', ''write_owner'', ''write_rule''} \<and> (\<forall>x\<in>set (map snd kvs). isBool x)"
proof -
  let ?P = "{''branch_owner'', ''write_function'', ''write_owner'', ''write_rule''}"
  have c: "card ?P = 4" "finite ?P" by simp_all
  have b: "u = JBool (boolOrFalse u) \<longleftrightarrow> isBool u" for u by (cases u) simp_all
  have g: "(\<exists>u. map_of kvs p = Some u \<and> js_equal (JBool (boolOrFalse (prop_get (JObj kvs) p))) u)
      \<longleftrightarrow> (\<exists>u. map_of kvs p = Some u \<and> isBool u)" for p
  proof (cases "map_of kvs p")
    case (Some u)
    then show ?thesis using b [of u] by simp
  qed simp
  have o: "js_equal (JObj ps) (JObj kvs) \<longleftrightarrow> length ps = length kvs \<and>
      (\<forall>p\<in>set ps. \<exists>u. map_of kvs (fst p) = Some u \<and> js_equal (snd p) u)" for ps
    by (auto simp: js_equal.simps [of "JObj ps"] list_all_iff split: option.splits)
  have "isValidOwnerPermissions (JObj kvs) \<longleftrightarrow> length kvs = 4 \<and> (\<forall>p\<in>?P. \<exists>u. map_of kvs p = Some u \<and> isBool u)"
    unfolding isValidOwnerPermissions_def sanitizeOwnerPermissions_def
    by (cases "kvs = []") (simp_all add: o g eq_commute [of _ "length kvs"] conj_ac eval_nat_numeral del: prop_get.simps js_equal_atoms)
  also have "\<dots> \<longleftrightarrow> set (map fst kvs) = ?P \<and> (\<forall>x\<in>set (map snd kvs). isBool x)"
    using all_values_of_keys [OF d c(2), of isBool] unfolding c(1) .
  finally show ?thesis .
qed

theorem owner_permissions_shape_witness:
  "\<not> isValidOwnerPermissions (JObj [(''write_rule'', JBool True)])"
  using owner_permissions_shape [of "[(''write_rule'', JBool True)]"] by auto

lemma is_line_endE: "is_line_end c \<Longrightarrow> c = CHR 0x0A \<or> c = CHR 0x0D"
proof -
  have "(char_of (10::nat) :: char) = CHR 0x0A" "(char_of (13::nat) :: char) = CHR 0x0D" by code_simp+
  then show "is_line_end c \<Longrightarrow> c = CHR 0x0A \<or> c = CHR 0x0D" unfolding is_line_end_def by (metis char_of_char)
qed

text \<open>
  State labels. A label of one line is valid exactly when it is short enough and is \<open>*\<close>, or has
  no reserved character apart from a leading \<open>.\<close> or \<open>$\<close> that something follows. But the patterns are
  matched line by line, so any text at all is a valid label when it is put after a line that is \<open>*\<close>.
\<close>

theorem state_label_patterns:
  "(\<not> isValidStateLabel (JNum n) s \<or> CHR 0x0A \<in> set s \<or> CHR 0x0D \<in> set s \<or>
      s = ''*'' \<or> (list_all (\<lambda>c. \<not> is_reserved_char c) (tl s) \<and>
        (is_reserved_char (hd s) \<longrightarrow> hd s \<in> {CHR ''.'', CHR ''$''} \<and> tl s \<noteq> []))) \<and>
   (of_nat (length t + 2) \<le> n \<longrightarrow> isValidStateLabel (JNum n) (''*'' @ CHR 0x0A # t))"
proof (intro conjI impI)
  show "\<not> isValidStateLabel (JNum n) s \<or> CHR 0x0A \<in> set s \<or> CHR 0x0D \<in> set s \<or>
      s = ''*'' \<or> (list_all (\<lambda>c. \<not> is_reserved_char c) (tl s) \<and>
        (is_reserved_char (hd s) \<longrightarrow> hd s \<in> {CHR ''.'', CHR ''$''} \<and> tl s \<noteq> []))"
  proof (cases "list_all (\<lambda>c. \<not> is_line_end c) s")
    case True
    then show ?thesis using state_label_single_line [OF True, of "JNum n"] by (auto simp: list_all_iff list_ex_iff)
  next
    case False
    then obtain c where "c \<in> set s" "is_line_end c" by (auto simp: list_all_iff)
    moreover have "c = CHR 0x0A \<or> c = CHR 0x0D"
      using \<open>is_line_end c\<close> by (rule is_line_endE)
    ultimately show ?thesis by auto
  qed
  assume l: "of_nat (length t + 2) \<le> n"
  have "hasAllowedPattern (''*'' @ CHR 0x0A # t)" by (simp add: hasAllowedPattern_def is_line_end_def)
  then show "isValidStateLabel (JNum n) (''*'' @ CHR 0x0A # t)" using l by (simp add: isValidStateLabel_def)
qed

theorem state_label_patterns_witness: "isValidStateLabel (JNum 10) (''*'' @ CHR 0x0A # ''/a'')"
  using state_label_patterns [of 10 "''a''" "''/a''"] by simp

end
