(* ===== verification/ExecMonad.thy ===== *)
theory ExecMonad
  imports StateValid Permissions TxResult
begin

text \<open>
  The effects of executing a transaction, as a state monad: the state root of the database that every
  write replaces, the list of operation results of the native function that is running, and the value
  changes emitted to the event handler. A computation returns, raises an exception that keeps the
  changes made before it, or runs out of the fuel that bounds the nesting of native functions.
  \<open>wp m Q s\<close> says that running \<open>m\<close> in \<open>s\<close> ends with an outcome and a state that satisfy \<open>Q\<close>.
\<close>

datatype 'a outcome = Returned 'a | Raised | OutOfFuel

record value_change =
  vc_auth :: jsval
  vc_path :: "string list"
  vc_before :: jsval
  vc_after :: jsval
  vc_eventSource :: jsval

record exec_state =
  es_root :: snode
  es_opResults :: "(string \<times> tx_result) list"
  es_events :: "value_change list"

type_synonym ('s, 'a) effect = "'s \<Rightarrow> 'a outcome \<times> 's"

type_synonym 'a exec = "(exec_state, 'a) effect"

definition ret :: "'a \<Rightarrow> ('s, 'a) effect" where
  "ret x s = (Returned x, s)"

definition raise :: "('s, 'a) effect" where
  "raise s = (Raised, s)"

definition out_of_fuel :: "('s, 'a) effect" where
  "out_of_fuel s = (OutOfFuel, s)"

definition andThen :: "('s, 'a) effect \<Rightarrow> ('a \<Rightarrow> ('s, 'b) effect) \<Rightarrow> ('s, 'b) effect" where
  "andThen m k s =
     (case m s of
        (Returned x, s') \<Rightarrow> k x s'
      | (Raised, s') \<Rightarrow> (Raised, s')
      | (OutOfFuel, s') \<Rightarrow> (OutOfFuel, s'))"

text \<open>The state root as it is now, and a change of it.\<close>

definition get_root :: "snode exec" where
  "get_root s = (Returned (es_root s), s)"

definition change_root :: "(snode \<Rightarrow> snode) \<Rightarrow> unit exec" where
  "change_root f s = (Returned (), s\<lparr>es_root := f (es_root s)\<rparr>)"

definition emit :: "value_change \<Rightarrow> unit exec" where
  "emit c s = (Returned (), s\<lparr>es_events := es_events s @ [c]\<rparr>)"

definition addToOpResultList :: "string \<Rightarrow> tx_result \<Rightarrow> unit exec" where
  "addToOpResultList path result s = (Returned (), s\<lparr>es_opResults := es_opResults s @ [(path, result)]\<rparr>)"

definition get_opResults :: "(string \<times> tx_result) list exec" where
  "get_opResults s = (Returned (es_opResults s), s)"

text \<open>
  The call of a native function: its results start empty, the caller's are back afterwards; and a call
  whose exception is stopped, \<open>None\<close> standing for the exception.
\<close>

definition with_fresh_opResults :: "'a exec \<Rightarrow> 'a exec" where
  "with_fresh_opResults m s =
     (case m (s\<lparr>es_opResults := []\<rparr>) of (r, s') \<Rightarrow> (r, s'\<lparr>es_opResults := es_opResults s\<rparr>))"

definition attempt :: "'a exec \<Rightarrow> 'a option exec" where
  "attempt m s =
     (case m s of
        (Returned x, s') \<Rightarrow> (Returned (Some x), s')
      | (Raised, s') \<Rightarrow> (Returned None, s')
      | (OutOfFuel, s') \<Rightarrow> (OutOfFuel, s'))"

fun for_each :: "('a \<Rightarrow> ('s, 'b) effect) \<Rightarrow> 'a list \<Rightarrow> ('s, 'b list) effect" where
  "for_each f [] = ret []"
| "for_each f (x # xs) = andThen (f x) (\<lambda>y. andThen (for_each f xs) (\<lambda>ys. ret (y # ys)))"

fun of_validity :: "validity \<Rightarrow> bool exec" where
  "of_validity Valid = ret True"
| "of_validity (Invalid p) = ret False"
| "of_validity Throws = raise"

subsection \<open>Reasoning\<close>

definition wp :: "('s, 'a) effect \<Rightarrow> ('a outcome \<Rightarrow> 's \<Rightarrow> bool) \<Rightarrow> 's \<Rightarrow> bool" where
  "wp m Q s = Q (fst (m s)) (snd (m s))"

text \<open>\<open>Q\<close> for what an exception or missing fuel leaves, \<open>K\<close> for what a returned value does.\<close>

fun after :: "('a \<Rightarrow> 's \<Rightarrow> bool) \<Rightarrow> ('b outcome \<Rightarrow> 's \<Rightarrow> bool) \<Rightarrow> 'a outcome \<Rightarrow> 's \<Rightarrow> bool" where
  "after K Q (Returned x) s = K x s"
| "after K Q Raised s = Q Raised s"
| "after K Q OutOfFuel s = Q OutOfFuel s"

lemma wp_simps [simp]:
  "wp (ret x) Q s = Q (Returned x) s" "wp raise Q s = Q Raised s" "wp out_of_fuel Q s = Q OutOfFuel s"
  by (simp_all add: wp_def ret_def raise_def out_of_fuel_def)

lemma wp_state [simp]:
  "wp get_root Q s = Q (Returned (es_root s)) s"
  "wp (change_root f) R s = R (Returned ()) (s\<lparr>es_root := f (es_root s)\<rparr>)"
  "wp (emit c) R s = R (Returned ()) (s\<lparr>es_events := es_events s @ [c]\<rparr>)"
  "wp (addToOpResultList path r) R s = R (Returned ()) (s\<lparr>es_opResults := es_opResults s @ [(path, r)]\<rparr>)"
  "wp get_opResults S s = S (Returned (es_opResults s)) s"
  by (simp_all add: wp_def get_root_def change_root_def emit_def addToOpResultList_def get_opResults_def)

lemma wp_andThen [simp]: "wp (andThen m k) Q s = wp m (after (\<lambda>x. wp (k x) Q) Q) s"
  by (auto simp: wp_def andThen_def split: prod.splits outcome.splits)

lemma wp_if: "wp (if b then m else n) Q s = (if b then wp m Q s else wp n Q s)"
  by simp

lemma wp_mono: "wp m P s \<Longrightarrow> (\<And>r s'. P r s' \<Longrightarrow> Q r s') \<Longrightarrow> wp m Q s"
  by (simp add: wp_def)

lemma wp_fresh [simp]:
  "wp (with_fresh_opResults m) Q s =
     wp m (\<lambda>r s'. Q r (s'\<lparr>es_opResults := es_opResults s\<rparr>)) (s\<lparr>es_opResults := []\<rparr>)"
  by (simp add: wp_def with_fresh_opResults_def split: prod.splits)

lemma wp_attempt [simp]:
  "wp (attempt m) Q s =
     wp m (\<lambda>r s'. case r of Returned x \<Rightarrow> Q (Returned (Some x)) s' | Raised \<Rightarrow> Q (Returned None) s'
                   | OutOfFuel \<Rightarrow> Q OutOfFuel s') s"
  by (auto simp: wp_def attempt_def split: prod.splits outcome.splits)

definition enough_fuel :: "('s, 'a) effect \<Rightarrow> bool" where
  "enough_fuel m \<longleftrightarrow> (\<forall>s. fst (m s) \<noteq> OutOfFuel)"

named_theorems fuel_intros "computations that do not run out of fuel"

lemma enough_fuel_primitive [fuel_intros]:
  "enough_fuel (ret x)" "enough_fuel raise" "enough_fuel get_root" "enough_fuel (change_root f)"
  "enough_fuel (emit c)" "enough_fuel (addToOpResultList path r)" "enough_fuel get_opResults"
  by (simp_all add: enough_fuel_def ret_def raise_def get_root_def change_root_def emit_def
      addToOpResultList_def get_opResults_def)

lemma enough_fuel_andThen [fuel_intros]:
  "enough_fuel m \<Longrightarrow> (\<And>x. enough_fuel (k x)) \<Longrightarrow> enough_fuel (andThen m k)"
  unfolding enough_fuel_def andThen_def by (auto split: prod.splits outcome.splits) (metis fst_conv)+

lemma enough_fuel_fresh [fuel_intros]: "enough_fuel m \<Longrightarrow> enough_fuel (with_fresh_opResults m)"
  unfolding enough_fuel_def with_fresh_opResults_def by (auto split: prod.splits) (metis fst_conv)

lemma enough_fuel_attempt [fuel_intros]: "enough_fuel m \<Longrightarrow> enough_fuel (attempt m)"
  unfolding enough_fuel_def attempt_def by (auto split: prod.splits outcome.splits) (metis fst_conv)

lemma enough_fuel_for_each [fuel_intros]: "(\<And>x. enough_fuel (f x)) \<Longrightarrow> enough_fuel (for_each f xs)"
  by (induction xs) (auto intro!: fuel_intros)

lemma enough_fuel_validity [fuel_intros]: "enough_fuel (of_validity v)"
  by (cases v) (auto intro!: fuel_intros)

lemma enough_fuel_split [fuel_intros]:
  "(b \<Longrightarrow> enough_fuel m) \<Longrightarrow> (\<not> b \<Longrightarrow> enough_fuel n) \<Longrightarrow> enough_fuel (if b then m else n)"
  "(\<And>x. enough_fuel (f x)) \<Longrightarrow> enough_fuel m \<Longrightarrow> enough_fuel (case opt of None \<Rightarrow> m | Some x \<Rightarrow> f x)"
  "(\<And>x y. enough_fuel (g x y)) \<Longrightarrow> enough_fuel (case p of (x, y) \<Rightarrow> g x y)"
  "(\<And>x. enough_fuel (f x)) \<Longrightarrow> enough_fuel (let x = e in f x)"
  by (auto split: option.splits prod.splits)

end
