(* ===== verification/ConfigWrite.thy ===== *)
theory ConfigWrite
  imports ExecMonad
begin

text \<open>
  \<open>setFunction\<close>, \<open>setRule\<close> and \<open>setOwner\<close> of \<open>db/index.js\<close>: every check in the order of the code, the
  change applied to the current configuration and the write. The three differ in the result codes, the
  validator, the permission check and the root label, so they are instances of \<open>setConfig\<close>; only
  \<open>setFunction\<close> has one more check, for functions that only the owner of the chain may set.
\<close>

subsection \<open>What the database is run with\<close>

text \<open>
  The parameters of the environment: the validators' environment, the evaluation of write rules (which
  may read the state it is called in), the sharding path, the genesis parameters of the chain, the
  formatting of numbers that are not integers, the switches of the node, the URL matcher, the address
  a signature of a message comes from, the proof hash of a node and the information of its tree.
\<close>

record exec_env =
  xe_valid :: valid_env
  xe_value :: "snode \<Rightarrow> value_env"
  xe_shardingPath :: "string list"
  xe_BlockchainParams :: "string \<Rightarrow> string \<Rightarrow> jsval"
  xe_dstr :: "rat \<Rightarrow> string"
  xe_hasEventHandler :: bool
  xe_ENABLE_REST_FUNCTION_CALL :: bool
  xe_enableGasFeeCollection :: bool
  xe_enableGasFeeDistribution :: bool
  xe_matchUrl :: "jsval \<Rightarrow> jsval list \<Rightarrow> bool"
  xe_recover :: "jsval \<Rightarrow> jsval \<Rightarrow> jsval option"
  xe_proofHash :: "snode \<Rightarrow> string"
  xe_treeHeight :: "snode \<Rightarrow> nat"
  xe_treeSize :: "snode \<Rightarrow> nat"
  xe_treeBytes :: "snode \<Rightarrow> nat"

record set_options = eval_options +
  so_isGlobal :: bool
  so_eventSource :: jsval

definition flagEnabled :: "exec_env \<Rightarrow> string \<Rightarrow> jsval \<Rightarrow> bool" where
  "flagEnabled env = re_flagEnabled (va_rule_env (xe_valid env))"

text \<open>A missing block number counts as 0, and \<open>null <= 0\<close> holds.\<close>

definition getBlockchainParam :: "exec_env \<Rightarrow> string \<Rightarrow> string \<Rightarrow> jsval \<Rightarrow> snode \<Rightarrow> jsval" where
  "getBlockchainParam env category name blockNumber stateRoot =
     (if js_le (if blockNumber = JUndef then JNum 0 else blockNumber) (JNum 0)
      then xe_BlockchainParams env category name
      else getValueFromStateRoot stateRoot (getSingleBlockchainParamPath category name))"

definition toLocal :: "exec_env \<Rightarrow> bool \<Rightarrow> string list \<Rightarrow> string list option" where
  "toLocal env isGlobal parsedPath =
     (if isGlobal then toLocalPath parsedPath (xe_shardingPath env) else Some parsedPath)"

definition isConsensusAppAdmin :: "exec_env \<Rightarrow> snode \<Rightarrow> jsval \<Rightarrow> bool" where
  "isConsensusAppAdmin env stateRoot address =
     (let admins = getValueFromStateRoot stateRoot (getManageAppConfigAdminPath ''consensus'') in
      if admins = JNull then address = xe_BlockchainParams env ''genesis'' ''genesis_addr''
      else prop_get admins (js_string (xe_dstr env) address) = JBool True)"

definition returnTxResult ::
  "int \<Rightarrow> rat \<Rightarrow> (string \<times> func_result) list \<Rightarrow>
   (string \<times> (string \<times> (string \<times> func_result) list) list) list \<Rightarrow> tx_result" where
  "returnTxResult code bandwidthGasAmount funcResults subtreeFuncResults =
     TxResult code bandwidthGasAmount funcResults subtreeFuncResults None"

definition unitWriteGasAmount :: "exec_env \<Rightarrow> jsval \<Rightarrow> snode \<Rightarrow> rat" where
  "unitWriteGasAmount env blockNumber stateRoot =
     numberOrZero (getBlockchainParam env ''resource'' ''unit_write_gas_amount'' blockNumber stateRoot)"

subsection \<open>Functions only the owner of the chain may set\<close>

definition ownerOnlyFunctions :: "string list" where
  "ownerOnlyFunctions =
     [''_cancelCheckin'', ''_claim'', ''_claimReward'', ''_closeCheckin'', ''_closeCheckout'', ''_collectFee'',
      ''_createApp'', ''_distributeFee'', ''_handleOffenses'', ''_hold'', ''_openCheckin'', ''_openCheckout'',
      ''_pay'', ''_release'', ''_stake'', ''_unstake'', ''_transfer'']"

fun hasOwnerOnlyFunction :: "jsval \<Rightarrow> string option"
  and ownerOnlyInEntries :: "(string \<times> jsval) list \<Rightarrow> string option" where
  "hasOwnerOnlyFunction (JObj kvs) = ownerOnlyInEntries kvs"
| "hasOwnerOnlyFunction _ = None"
| "ownerOnlyInEntries [] = None"
| "ownerOnlyInEntries ((key, childObj) # kvs) =
     (case (if key = ''.function'' then find (\<lambda>fid. fid \<in> set ownerOnlyFunctions) (keys_of childObj)
            else hasOwnerOnlyFunction childObj) of
        Some fid \<Rightarrow> Some fid
      | None \<Rightarrow> ownerOnlyInEntries kvs)"

subsection \<open>Writing configurations\<close>

record config_kind =
  ck_codes :: "int \<times> int \<times> int"
  ck_rootLabel :: string
  ck_isValidTree :: "snode \<Rightarrow> string list \<Rightarrow> jsval \<Rightarrow> validity"
  ck_check :: "snode \<Rightarrow> jsval \<Rightarrow> int option"
  ck_applyChange :: "jsval \<Rightarrow> jsval \<Rightarrow> bool \<times> jsval"
  ck_getPermission :: "snode \<Rightarrow> string list \<Rightarrow> jsval \<Rightarrow> bool \<Rightarrow> owner_result"

definition writeConfig :: "config_kind \<Rightarrow> rat \<Rightarrow> string list option \<Rightarrow> jsval \<Rightarrow> jsval \<Rightarrow> snode \<Rightarrow> tx_result exec" where
  "writeConfig kind gas localPath config auth stateRoot =
     (let finish = (\<lambda>code. ret (returnTxResult code gas [] [])) in
      case localPath of
        None \<Rightarrow> finish 0
      | Some path \<Rightarrow>
          let cur = readFromStateRoot stateRoot (ck_rootLabel kind) (formatPath path);
              (isMerge, new) = ck_applyChange kind cur config;
              code = fst (ck_getPermission kind stateRoot path auth isMerge)
          in if isFailedTxResultCode code then finish code
             else andThen (change_root (\<lambda>rt. writeToStateRoot rt (getFullPath path (ck_rootLabel kind)) new))
                    (\<lambda>_. finish 0))"

definition setConfig :: "exec_env \<Rightarrow> config_kind \<Rightarrow> string \<Rightarrow> jsval \<Rightarrow> jsval \<Rightarrow> set_options \<Rightarrow> tx_result exec" where
  "setConfig env kind refPath config auth opts =
     andThen get_root (\<lambda>stateRoot.
       let blockNumber = eo_blockNumber opts;
           labelLimit = getBlockchainParam env ''resource'' ''state_label_length_limit'' blockNumber stateRoot;
           gas = unitWriteGasAmount env blockNumber stateRoot;
           finish = (\<lambda>code. ret (returnTxResult code gas [] []));
           (statesCode, pathCode, treeCode) = ck_codes kind;
           parsedPath = parsePath refPath
       in andThen (of_validity (isValidJsObjectForStates labelLimit [] config)) (\<lambda>validObj.
            if \<not> validObj then finish statesCode
            else andThen (of_validity (isValidPathForStates labelLimit parsedPath)) (\<lambda>validPath.
              if \<not> validPath then finish pathCode
              else andThen (of_validity (ck_isValidTree kind stateRoot parsedPath config)) (\<lambda>validTree.
                if \<not> validTree then finish treeCode
                else case ck_check kind stateRoot config of
                       Some code \<Rightarrow> finish code
                     | None \<Rightarrow> writeConfig kind gas (toLocal env (so_isGlobal opts) parsedPath) config auth stateRoot))))"

definition functionKind :: "exec_env \<Rightarrow> jsval \<Rightarrow> config_kind" where
  "functionKind env auth =
     \<lparr>ck_codes = (10401, 10402, 10403), ck_rootLabel = ''functions'',
      ck_isValidTree = (\<lambda>stateRoot. isValidFunctionTree (xe_valid env)),
      ck_check = (\<lambda>stateRoot func.
        if (\<not> truthy auth \<or> \<not> isConsensusAppAdmin env stateRoot (prop_get auth ''addr'')) \<and>
           hasOwnerOnlyFunction func \<noteq> None then Some 10404 else None),
      ck_applyChange = applyFunctionChange, ck_getPermission = getPermissionForFunction\<rparr>"

definition setFunction :: "exec_env \<Rightarrow> string \<Rightarrow> jsval \<Rightarrow> jsval \<Rightarrow> set_options \<Rightarrow> tx_result exec" where
  "setFunction env functionPath func auth opts = setConfig env (functionKind env auth) functionPath func auth opts"

definition ruleKind :: "exec_env \<Rightarrow> jsval \<Rightarrow> config_kind" where
  "ruleKind env blockNumber =
     \<lparr>ck_codes = (10501, 10502, 10503), ck_rootLabel = ''rules'',
      ck_isValidTree = (\<lambda>stateRoot. isValidRuleTree (xe_valid env)
        (getBlockchainParam env ''resource'' ''min_gc_num_siblings_deleted'' blockNumber stateRoot)),
      ck_check = (\<lambda>stateRoot rule. None),
      ck_applyChange = applyRuleChange, ck_getPermission = getPermissionForRule\<rparr>"

definition setRule :: "exec_env \<Rightarrow> string \<Rightarrow> jsval \<Rightarrow> jsval \<Rightarrow> set_options \<Rightarrow> tx_result exec" where
  "setRule env rulePath rule auth opts = setConfig env (ruleKind env (eo_blockNumber opts)) rulePath rule auth opts"

definition ownerKind :: "exec_env \<Rightarrow> config_kind" where
  "ownerKind env =
     \<lparr>ck_codes = (10601, 10602, 10603), ck_rootLabel = ''owners'',
      ck_isValidTree = (\<lambda>stateRoot. isValidOwnerTree (xe_valid env)),
      ck_check = (\<lambda>stateRoot owner. None),
      ck_applyChange = applyOwnerChange, ck_getPermission = getPermissionForOwner\<rparr>"

definition setOwner :: "exec_env \<Rightarrow> string \<Rightarrow> jsval \<Rightarrow> jsval \<Rightarrow> set_options \<Rightarrow> tx_result exec" where
  "setOwner env ownerPath owner auth opts = setConfig env (ownerKind env) ownerPath owner auth opts"

subsection \<open>What a write of a configuration does\<close>

lemma enough_fuel_setConfig [fuel_intros]: "enough_fuel (setConfig env kind refPath config auth opts)"
  unfolding setConfig_def writeConfig_def Let_def
  by (auto intro!: fuel_intros split: prod.splits)

lemma enough_fuel_config [fuel_intros]:
  "enough_fuel (setFunction env p c a opts)" "enough_fuel (setRule env p c a opts)" "enough_fuel (setOwner env p c a opts)"
  unfolding setFunction_def setRule_def setOwner_def by (rule enough_fuel_setConfig)+

end
