(* ===== verification/NativeContext.thy ===== *)
theory NativeContext
  imports ConfigWrite RuleUtil
begin

text \<open>
  What the native functions of \<open>db/functions.js\<close> work with: their context, the reads they make, the
  writes that record their result (\<open>setValueOrLog\<close> and the others) and the results they return. The
  writes go through \<open>setValue\<close> of the database at the present depth of the call stack, which is an
  argument (\<open>sv\<close>); \<open>incValue\<close> and \<open>decValue\<close> of \<open>db/index.js\<close> are defined from it here.
\<close>

type_synonym set_value = "string \<Rightarrow> jsval \<Rightarrow> jsval \<Rightarrow> transaction \<Rightarrow> set_options \<Rightarrow> tx_result exec"

record chain_params =
  bp_accountRegistrationGasAmount :: jsval
  bp_appCreationGasAmount :: jsval
  bp_restFunctionCallGasAmount :: jsval
  bp_rewardType :: jsval
  bp_rewardAnnualRate :: jsval
  bp_epochMs :: jsval
  bp_stakeLockupExtension :: jsval

record fn_context =
  fc_fid :: string
  fc_fids :: "string list"
  fc_valuePath :: "string list"
  fc_functionPath :: "string list"
  fc_prevValue :: jsval
  fc_params :: "(string \<times> string) list"
  fc_timestamp :: jsval
  fc_executedAt :: jsval
  fc_blockNumber :: jsval
  fc_blockTime :: jsval
  fc_eventSource :: jsval
  fc_transaction :: transaction
  fc_auth :: jsval
  fc_chain :: chain_params

definition param :: "fn_context \<Rightarrow> string \<Rightarrow> string" where
  "param ctx name = (case map_of (fc_params ctx) name of None \<Rightarrow> ''undefined'' | Some v \<Rightarrow> v)"

definition context_options :: "fn_context \<Rightarrow> jsval \<Rightarrow> set_options" where
  "context_options ctx source =
     \<lparr>eo_timestamp = fc_timestamp ctx, eo_blockNumber = fc_blockNumber ctx, eo_blockTime = fc_blockTime ctx,
      so_isGlobal = False, so_eventSource = source\<rparr>"

definition readValue :: "string \<Rightarrow> jsval exec" where
  "readValue path = andThen get_root (\<lambda>stateRoot. ret (getValueFromStateRoot stateRoot path))"

definition readShallow :: "exec_env \<Rightarrow> string \<Rightarrow> jsval exec" where
  "readShallow env path = andThen get_root (\<lambda>stateRoot. ret (getValueShallowFromStateRoot (xe_proofHash env) stateRoot path))"

text \<open>A property of \<open>undefined\<close> or \<open>null\<close> raises.\<close>

definition field :: "jsval \<Rightarrow> string \<Rightarrow> jsval exec" where
  "field v name = (if nullish v then raise else ret (prop_get v name))"

subsection \<open>Increments and decrements\<close>

definition getValueWithOption :: "exec_env \<Rightarrow> snode \<Rightarrow> string \<Rightarrow> bool \<Rightarrow> jsval" where
  "getValueWithOption env stateRoot valuePath isGlobal =
     (case toLocal env isGlobal (parsePath valuePath) of
        None \<Rightarrow> JNull
      | Some localPath \<Rightarrow>
          (case getRefForReadingFromStateRoot stateRoot (getFullPath localPath ''values'') of
             None \<Rightarrow> JNull
           | Some n \<Rightarrow> toStateSnapshot n))"

definition changeNumber ::
  "(rat \<Rightarrow> rat \<Rightarrow> rat) \<Rightarrow> int \<Rightarrow> exec_env \<Rightarrow> set_value \<Rightarrow> string \<Rightarrow> jsval \<Rightarrow> jsval \<Rightarrow> transaction \<Rightarrow> set_options \<Rightarrow> tx_result exec" where
  "changeNumber change code env sv valuePath delta auth tx opts =
     andThen get_root (\<lambda>stateRoot.
       let valueBefore = getValueWithOption env stateRoot valuePath (so_isGlobal opts) in
       if (valueBefore \<noteq> JNull \<and> \<not> isNumber valueBefore) \<or> \<not> isNumber delta
       then ret (returnTxResult code (unitWriteGasAmount env (eo_blockNumber opts) stateRoot) [] [])
       else sv valuePath (JNum (change (numberOrZero valueBefore) (numberOrZero delta))) auth tx opts)"

definition incValue :: "exec_env \<Rightarrow> set_value \<Rightarrow> string \<Rightarrow> jsval \<Rightarrow> jsval \<Rightarrow> transaction \<Rightarrow> set_options \<Rightarrow> tx_result exec" where
  "incValue env sv = changeNumber (+) 10201 env sv"

definition decValue :: "exec_env \<Rightarrow> set_value \<Rightarrow> string \<Rightarrow> jsval \<Rightarrow> jsval \<Rightarrow> transaction \<Rightarrow> set_options \<Rightarrow> tx_result exec" where
  "decValue env sv = changeNumber (-) 10301 env sv"

subsection \<open>Writes that are recorded\<close>

definition recorded :: "string \<Rightarrow> tx_result exec \<Rightarrow> tx_result exec" where
  "recorded path m = andThen m (\<lambda>result. andThen (addToOpResultList path result) (\<lambda>_. ret result))"

definition setValueOrLog :: "set_value \<Rightarrow> string \<Rightarrow> jsval \<Rightarrow> fn_context \<Rightarrow> tx_result exec" where
  "setValueOrLog sv valuePath val ctx =
     recorded valuePath (sv valuePath val (fc_auth ctx) (fc_transaction ctx) (context_options ctx (fc_eventSource ctx)))"

definition incValueOrLog :: "exec_env \<Rightarrow> set_value \<Rightarrow> string \<Rightarrow> jsval \<Rightarrow> fn_context \<Rightarrow> tx_result exec" where
  "incValueOrLog env sv valuePath delta ctx =
     recorded valuePath (incValue env sv valuePath delta (fc_auth ctx) (fc_transaction ctx) (context_options ctx JNull))"

definition decValueOrLog :: "exec_env \<Rightarrow> set_value \<Rightarrow> string \<Rightarrow> jsval \<Rightarrow> fn_context \<Rightarrow> tx_result exec" where
  "decValueOrLog env sv valuePath delta ctx =
     recorded valuePath (decValue env sv valuePath delta (fc_auth ctx) (fc_transaction ctx) (context_options ctx JNull))"

definition setServiceAccountTransferOrLog ::
  "exec_env \<Rightarrow> set_value \<Rightarrow> string \<Rightarrow> string \<Rightarrow> jsval \<Rightarrow> fn_context \<Rightarrow> tx_result exec" where
  "setServiceAccountTransferOrLog env sv src dst val ctx =
     setValueOrLog sv (getTransferValuePath src dst (js_string (xe_dstr env) (fc_timestamp ctx))) val ctx"

definition setOwnerOrLog :: "exec_env \<Rightarrow> string \<Rightarrow> jsval \<Rightarrow> fn_context \<Rightarrow> tx_result exec" where
  "setOwnerOrLog env ownerPath owner ctx =
     recorded ownerPath (setOwner env ownerPath owner (fc_auth ctx) (context_options ctx JNull))"

definition setRuleOrLog :: "exec_env \<Rightarrow> string \<Rightarrow> jsval \<Rightarrow> fn_context \<Rightarrow> tx_result exec" where
  "setRuleOrLog env rulePath rule ctx =
     recorded rulePath (setRule env rulePath rule (fc_auth ctx) (context_options ctx JNull))"

subsection \<open>Results\<close>

text \<open>The extra gas amount of every native function is 0, and an additional one counts when it is positive.\<close>

definition buildFuncResultToReturn :: "int \<Rightarrow> jsval \<Rightarrow> int \<times> rat" where
  "buildFuncResultToReturn code extraGasAmount =
     (code, if isNumber extraGasAmount \<and> numberOrZero extraGasAmount > 0 then numberOrZero extraGasAmount else 0)"

definition convertListToObj :: "(string \<times> tx_result) list \<Rightarrow> (string \<times> string \<times> tx_result option) list" where
  "convertListToObj results = map (\<lambda>(i, path, result). (nat_string i, path, Some result)) (enumerate 0 results)"

definition returnFuncResult :: "int \<Rightarrow> jsval \<Rightarrow> func_result exec" where
  "returnFuncResult code extraGasAmount =
     andThen get_opResults (\<lambda>results.
       let (c, gas) = buildFuncResultToReturn code extraGasAmount
       in ret (FuncResult c gas (convertListToObj results)))"

definition result_code :: "int \<Rightarrow> func_result exec" where
  "result_code code = returnFuncResult code (JNum 0)"

text \<open>Nothing happens for a \<open>null\<close> value.\<close>

definition unlessNull :: "jsval \<Rightarrow> func_result exec \<Rightarrow> func_result exec" where
  "unlessNull val m = (if val = JNull then result_code 0 else m)"

text \<open>Success, or the given code when the write failed.\<close>

definition successOr :: "int \<Rightarrow> tx_result \<Rightarrow> func_result exec" where
  "successOr code result = (if isFailedTx (Some result) then result_code code else result_code 0)"

definition unlessFailed :: "int \<Rightarrow> tx_result \<Rightarrow> func_result exec \<Rightarrow> func_result exec" where
  "unlessFailed code result m = (if isFailedTx (Some result) then result_code code else m)"

definition unlessCode :: "int option \<Rightarrow> func_result exec \<Rightarrow> func_result exec" where
  "unlessCode c m = (case c of None \<Rightarrow> m | Some code \<Rightarrow> result_code code)"

subsection \<open>Fuel\<close>

definition set_value_fuel :: "set_value \<Rightarrow> bool" where
  "set_value_fuel sv \<longleftrightarrow> (\<forall>path val auth tx opts. enough_fuel (sv path val auth tx opts))"

lemma enough_fuel_reads [fuel_intros]:
  "enough_fuel (readValue path)" "enough_fuel (readShallow env path)" "enough_fuel (field v name)"
  unfolding readValue_def readShallow_def field_def by (auto intro!: fuel_intros)

lemma enough_fuel_sv: "set_value_fuel sv \<Longrightarrow> enough_fuel (sv path val auth tx opts)"
  by (simp add: set_value_fuel_def)

lemma enough_fuel_recorded [fuel_intros]: "enough_fuel m \<Longrightarrow> enough_fuel (recorded path m)"
  unfolding recorded_def by (auto intro!: fuel_intros)

lemma enough_fuel_writes [fuel_intros]:
  assumes "set_value_fuel sv"
  shows "enough_fuel (incValue env sv p d a tx opts)" "enough_fuel (decValue env sv p d a tx opts)"
    "enough_fuel (setValueOrLog sv p v ctx)" "enough_fuel (incValueOrLog env sv p d ctx)"
    "enough_fuel (decValueOrLog env sv p d ctx)" "enough_fuel (setServiceAccountTransferOrLog env sv src dst v ctx)"
  unfolding incValue_def decValue_def setValueOrLog_def incValueOrLog_def decValueOrLog_def changeNumber_def
    setServiceAccountTransferOrLog_def Let_def
  by (auto intro!: fuel_intros enough_fuel_sv [OF assms])

lemma enough_fuel_config_writes [fuel_intros]:
  "enough_fuel (setOwnerOrLog env p v ctx)" "enough_fuel (setRuleOrLog env p v ctx)"
  unfolding setOwnerOrLog_def setRuleOrLog_def by (auto intro!: fuel_intros)

lemma enough_fuel_results [fuel_intros]:
  "enough_fuel (returnFuncResult code extra)" "enough_fuel (result_code code)" "enough_fuel (successOr code r)"
  "enough_fuel m \<Longrightarrow> enough_fuel (unlessNull val m)" "enough_fuel m \<Longrightarrow> enough_fuel (unlessFailed code r m)"
  "enough_fuel m \<Longrightarrow> enough_fuel (unlessCode c m)"
  unfolding returnFuncResult_def result_code_def successOr_def unlessNull_def unlessFailed_def unlessCode_def Let_def
  by (auto intro!: fuel_intros)

end
