(* ===== verification/NativeFunctions.thy ===== *)
theory NativeFunctions
  imports NativeContext
begin

text \<open>
  The native functions of \<open>db/functions.js\<close> apart from the token bridge: tests, transfers, apps, fees,
  rewards, offenses, staking, payments, escrow and shard reports. Each is a computation over the
  state; \<open>sv\<close> is \<open>setValue\<close> at the depth of the call. Amounts are values of the state and may be of
  any type, so they are combined with the operators of JavaScript.
\<close>

subsection \<open>Functions for tests\<close>

definition native_saveLastTx :: "exec_env \<Rightarrow> set_value \<Rightarrow> jsval \<Rightarrow> fn_context \<Rightarrow> func_result exec" where
  "native_saveLastTx env sv val ctx = unlessNull val
     (if fc_valuePath ctx = [] then result_code 0
      else
        let lastTxPath = butlast (fc_valuePath ctx) @ [''.last_tx'', last (fc_valuePath ctx)]
        in andThen (setValueOrLog sv (formatPath lastTxPath) (JObj [(''tx_hash'', JStr (tx_hash (fc_transaction ctx)))]) ctx)
             (successOr 20001))"

definition native_eraseValue :: "exec_env \<Rightarrow> set_value \<Rightarrow> jsval \<Rightarrow> fn_context \<Rightarrow> func_result exec" where
  "native_eraseValue env sv val ctx = unlessNull val
     (andThen (setValueOrLog sv (formatPath (fc_valuePath ctx)) (JStr ''erased'') ctx) (successOr 20001))"

definition native_fail :: "exec_env \<Rightarrow> set_value \<Rightarrow> jsval \<Rightarrow> fn_context \<Rightarrow> func_result exec" where
  "native_fail env sv val ctx = unlessNull val (result_code 20001)"

definition buildOwnerPermissions :: "bool \<Rightarrow> bool \<Rightarrow> bool \<Rightarrow> bool \<Rightarrow> jsval" where
  "buildOwnerPermissions branchOwner writeFunction writeOwner writeRule =
     JObj [(''branch_owner'', JBool branchOwner), (''write_function'', JBool writeFunction),
           (''write_owner'', JBool writeOwner), (''write_rule'', JBool writeRule)]"

definition buildRulePermission :: "jsval \<Rightarrow> jsval" where
  "buildRulePermission rule = JObj [(''.rule'', JObj [(''write'', rule)])]"

definition native_setOwnerConfig :: "exec_env \<Rightarrow> set_value \<Rightarrow> jsval \<Rightarrow> fn_context \<Rightarrow> func_result exec" where
  "native_setOwnerConfig env sv val ctx = unlessNull val
     (let permissions = buildOwnerPermissions False True True True;
          owners = set_prop ''*'' permissions
            (set_prop (js_string (xe_dstr env) (prop_get (fc_auth ctx) ''addr'')) permissions (JObj []));
          owner = JObj [(''.owner'', JObj [(''owners'', owners)])]
      in andThen (setOwnerOrLog env (formatPath (fc_valuePath ctx)) owner ctx) (successOr 20001))"

subsection \<open>Transfers\<close>

definition isNonExistingAccount :: "exec_env \<Rightarrow> string \<Rightarrow> bool exec" where
  "isNonExistingAccount env addrOrServAcnt =
     (let accountPath = (if isServAcntName (va_rule_env (xe_valid env)) addrOrServAcnt
                         then getServiceAccountPathFromAccountName addrOrServAcnt
                         else getAccountPath addrOrServAcnt)
      in andThen (readShallow env accountPath) (\<lambda>v. ret (v = JNull)))"

text \<open>The gas for a new account of the receiver.\<close>

definition registrationGas :: "exec_env \<Rightarrow> string \<Rightarrow> string \<Rightarrow> fn_context \<Rightarrow> jsval exec" where
  "registrationGas env dst dstBalancePath ctx =
     andThen (if flagEnabled env ''extend_account_registration_gas_amount'' (fc_blockNumber ctx)
              then isNonExistingAccount env dst
              else andThen (readValue dstBalancePath) (\<lambda>v. ret (v = JNull)))
       (\<lambda>new. ret (if new then bp_accountRegistrationGasAmount (fc_chain ctx) else JNum 0))"

definition native_transfer :: "exec_env \<Rightarrow> set_value \<Rightarrow> jsval \<Rightarrow> fn_context \<Rightarrow> func_result exec" where
  "native_transfer env sv val ctx = unlessNull val
     (let src = param ctx ''from''; dst = param ctx ''to'';
          srcBalancePath = getBalancePath (va_rule_env (xe_valid env)) src;
          dstBalancePath = getBalancePath (va_rule_env (xe_valid env)) dst
      in andThen (readValue srcBalancePath) (\<lambda>srcBalance.
           if srcBalance = JNull \<or> js_lt srcBalance val then result_code 20101
           else andThen (registrationGas env dst dstBalancePath ctx) (\<lambda>extraGasAmount.
             andThen (decValueOrLog env sv srcBalancePath val ctx) (\<lambda>decResult.
               unlessFailed 20002 decResult
                 (andThen (incValueOrLog env sv dstBalancePath val ctx) (\<lambda>incResult.
                    unlessFailed 20002 incResult (returnFuncResult 0 extraGasAmount)))))))"

subsection \<open>Apps\<close>

text \<open>\<open>None\<close> for the error code \<open>FAILURE\<close>.\<close>

definition sanitizeCreateAppConfig :: "exec_env \<Rightarrow> jsval \<Rightarrow> jsval option" where
  "sanitizeCreateAppConfig env rawVal =
     (let adminConfig = prop_get rawVal ''admin''; billingConfig = prop_get rawVal ''billing'';
          serviceConfig = prop_get rawVal ''service''; isPublic = prop_get rawVal ''is_public''
      in if \<not> isDict adminConfig then None
         else if \<not> list_all (\<lambda>(addr, v). isCksumAddr (va_rule_env (xe_valid env)) (JStr addr) \<and> isBool v) (dict_of adminConfig)
         then None
         else if \<not> isBool isPublic \<and> isPublic \<noteq> JUndef then None
         else
           let sanitizedVal = JObj ([(''admin'', adminConfig)]
                 @ (if truthy isPublic then [(''is_public'', JBool True)] else [])
                 @ (if truthy billingConfig then [(''billing'', billingConfig)] else [])
                 @ (if truthy serviceConfig then [(''service'', serviceConfig)] else []))
           in if js_equal sanitizedVal rawVal then Some sanitizedVal else None)"

fun setConfigValues :: "set_value \<Rightarrow> string \<Rightarrow> (string \<times> jsval) list \<Rightarrow> fn_context \<Rightarrow> bool exec" where
  "setConfigValues sv manageAppConfigPath [] ctx = ret True"
| "setConfigValues sv manageAppConfigPath ((configKey, configVal) # rest) ctx =
     andThen (setValueOrLog sv (manageAppConfigPath @ ''/'' @ configKey) configVal ctx) (\<lambda>result.
       if isFailedTx (Some result) then ret False else setConfigValues sv manageAppConfigPath rest ctx)"

definition createAppOwner :: "string list \<Rightarrow> bool \<Rightarrow> jsval" where
  "createAppOwner adminAddrList isPublic =
     foldl (\<lambda>owner (addr, permissions). set_path owner [''.owner'', ''owners'', addr] permissions) (JObj [])
       (map (\<lambda>addr. (addr, buildOwnerPermissions True True True True)) adminAddrList
        @ (if isPublic then [(''*'', buildOwnerPermissions True True False True)] else []))"

definition createAppRule :: "string list \<Rightarrow> bool \<Rightarrow> jsval" where
  "createAppRule adminAddrList isPublic =
     (if isPublic then JBool True
      else JStr (join_with '' || '' (map (\<lambda>addr. ''auth.addr === '' @ [CHR 0x27] @ addr @ [CHR 0x27]) adminAddrList)))"

text \<open>The results of writing the rule and the owner of the app are not looked at.\<close>

definition native_createApp :: "exec_env \<Rightarrow> set_value \<Rightarrow> jsval \<Rightarrow> fn_context \<Rightarrow> func_result exec" where
  "native_createApp env sv val ctx = unlessNull val
     (let appName = param ctx ''app_name'' in
      if \<not> isValidServiceName (flagEnabled env) (fc_blockNumber ctx) appName then result_code 20301
      else case sanitizeCreateAppConfig env val of
             None \<Rightarrow> result_code 20001
           | Some sanitizedVal \<Rightarrow>
               andThen (if flagEnabled env ''add_app_creation_gas_amount'' (fc_blockNumber ctx)
                        then andThen (readShallow env (getManageAppConfigPath appName))
                               (\<lambda>v. ret (if v = JNull then bp_appCreationGasAmount (fc_chain ctx) else JNum 0))
                        else ret (JNum 0))
                 (\<lambda>extraGasAmount.
                    let adminAddrList = keys_of (prop_get sanitizedVal ''admin'');
                        isPublic = truthy (prop_get sanitizedVal ''is_public'');
                        appPath = getAppPath appName
                    in andThen (setRuleOrLog env appPath (buildRulePermission (createAppRule adminAddrList isPublic)) ctx)
                         (\<lambda>_. andThen (setOwnerOrLog env appPath (createAppOwner adminAddrList isPublic) ctx)
                           (\<lambda>_. andThen (setConfigValues sv (getManageAppConfigPath appName) (dict_of sanitizedVal) ctx)
                             (\<lambda>ok. if ok then returnFuncResult 0 extraGasAmount else result_code 20001)))))"

subsection \<open>Fees and rewards\<close>

definition gasFeeServiceAccountName :: string where
  "gasFeeServiceAccountName = toServiceAccountName ''gas_fee'' ''gas_fee'' ''unclaimed''"

definition native_collectFee :: "exec_env \<Rightarrow> set_value \<Rightarrow> jsval \<Rightarrow> fn_context \<Rightarrow> func_result exec" where
  "native_collectFee env sv val ctx = unlessNull val
     (andThen (setServiceAccountTransferOrLog env sv (param ctx ''from'') gasFeeServiceAccountName
                (prop_get val ''amount'') ctx) (successOr 20001))"

definition incrementConsensusRewards :: "exec_env \<Rightarrow> set_value \<Rightarrow> string \<Rightarrow> jsval \<Rightarrow> fn_context \<Rightarrow> tx_result exec" where
  "incrementConsensusRewards env sv address amount ctx =
     (let rewardsPath = getConsensusRewardsPath address in
      andThen (readValue rewardsPath) (\<lambda>v.
        let prevRewards = js_or v (JObj []);
            plus = (\<lambda>name. js_add (xe_dstr env) (js_or (prop_get prevRewards name) (JNum 0)) amount)
        in setValueOrLog sv rewardsPath
             (JObj [(''unclaimed'', plus ''unclaimed''), (''cumulative'', plus ''cumulative'')]) ctx))"

definition getBlockRewardMultiplier :: "fn_context \<Rightarrow> jsval" where
  "getBlockRewardMultiplier ctx =
     (if bp_rewardType (fc_chain ctx) = JStr ''FIXED''
      then js_max (js_div (js_mul (bp_rewardAnnualRate (fc_chain ctx)) (bp_epochMs (fc_chain ctx))) (JNum 31557600000)) (JNum 0)
      else JNum 0)"

text \<open>The loop over the validators; the results of the writes are not looked at.\<close>

fun distributeTo ::
  "exec_env \<Rightarrow> set_value \<Rightarrow> fn_context \<Rightarrow> jsval \<Rightarrow> jsval \<Rightarrow> jsval \<Rightarrow> (string \<times> jsval) list \<Rightarrow> jsval \<Rightarrow> unit exec" where
  "distributeTo env sv ctx blockRewardMultiplier gasCostTotal totalAtStake [] txFeeSum = ret ()"
| "distributeTo env sv ctx blockRewardMultiplier gasCostTotal totalAtStake ((validatorAddr, validatorStake) # rest) txFeeSum =
     (let blockReward = js_mul blockRewardMultiplier validatorStake;
          fees = xe_enableGasFeeCollection env \<and> js_lt (JNum 0) gasCostTotal;
          txFee = (if \<not> fees then JNum 0
                   else if rest = [] then js_sub gasCostTotal txFeeSum
                   else js_mul gasCostTotal (js_div validatorStake totalAtStake));
          txFeeSum' = (if fees \<and> rest \<noteq> [] then js_add (xe_dstr env) txFeeSum txFee else txFeeSum);
          amount = js_add (xe_dstr env) txFee blockReward
      in andThen (if js_lt (JNum 0) amount
                  then andThen (incrementConsensusRewards env sv validatorAddr amount ctx) (\<lambda>_. ret ()) else ret ())
           (\<lambda>_. distributeTo env sv ctx blockRewardMultiplier gasCostTotal totalAtStake rest txFeeSum'))"

definition native_distributeFee :: "exec_env \<Rightarrow> set_value \<Rightarrow> jsval \<Rightarrow> fn_context \<Rightarrow> func_result exec" where
  "native_distributeFee env sv val ctx = unlessNull val
     (let blockNumber = JStr (param ctx ''number'') in
      if \<not> xe_enableGasFeeDistribution env \<or> js_le blockNumber (JNum 1) then result_code 0
      else andThen (readValue (getConsensusNumberPath (js_string (xe_dstr env) (js_sub blockNumber (JNum 1)))))
        (\<lambda>lastConsensusRound. andThen (field lastConsensusRound ''propose'')
          (\<lambda>propose. andThen (field propose ''gas_cost_total'')
            (\<lambda>gasCostTotal. andThen (field propose ''block_hash'')
              (\<lambda>blockHash. andThen (field lastConsensusRound (js_string (xe_dstr env) blockHash))
                (\<lambda>proposal. andThen (field proposal ''vote'')
                  (\<lambda>votes. if nullish votes then raise
                    else andThen (for_each (\<lambda>(addr, vote). andThen (field vote ''stake'') (\<lambda>stake. ret (addr, stake))) (dict_of votes))
                      (\<lambda>stakes.
                         let totalAtStake = foldl (\<lambda>acc stake. js_add (xe_dstr env) acc (snd stake)) (JNum 0) stakes
                         in andThen (distributeTo env sv ctx (getBlockRewardMultiplier ctx) gasCostTotal totalAtStake stakes (JNum 0))
                              (\<lambda>_. result_code 0)))))))))"

definition native_claimReward :: "exec_env \<Rightarrow> set_value \<Rightarrow> jsval \<Rightarrow> fn_context \<Rightarrow> func_result exec" where
  "native_claimReward env sv val ctx = unlessNull val
     (let addr = param ctx ''user_addr''; amount = prop_get val ''amount'';
          unclaimedRewardsPath = getConsensusRewardsUnclaimedPath addr
      in andThen (readValue unclaimedRewardsPath) (\<lambda>v.
           let unclaimedRewards = js_or v (JNum 0) in
           if js_lt unclaimedRewards amount then result_code 20501
           else andThen (setServiceAccountTransferOrLog env sv gasFeeServiceAccountName addr amount ctx) (\<lambda>transferRes.
             unlessFailed 20001 transferRes
               (andThen (setValueOrLog sv unclaimedRewardsPath (js_sub unclaimedRewards amount) ctx) (successOr 20002)))))"

subsection \<open>Offenses\<close>

text \<open>
  The sum of \<open>stakeLockupExtension * Math.pow(2, n - 1)\<close> for the new offenses; the numbers of
  offenses are tallies of votes, hence integers, and \<open>NaN\<close> stands for what others would give.
\<close>

definition getLockupExtensionForNewOffenses :: "jsval \<Rightarrow> jsval \<Rightarrow> jsval \<Rightarrow> jsval" where
  "getLockupExtensionForNewOffenses numNewOffenses updatedNumOffenses stakeLockupExtension =
     (if isInteger numNewOffenses \<and> isInteger updatedNumOffenses then
        let new = \<lfloor>numberOrZero numNewOffenses\<rfloor>; updated = \<lfloor>numberOrZero updatedNumOffenses\<rfloor>
        in foldl (\<lambda>extension n. num_add extension
                    (js_mul stakeLockupExtension (JNum (if n \<ge> 1 then 2 ^ nat (n - 1) else 1 / 2 ^ nat (1 - n)))))
             (JNum 0) [updated - new + 1..updated]
      else JNaN)"

fun handleOffensesOf :: "exec_env \<Rightarrow> set_value \<Rightarrow> (string \<times> jsval) list \<Rightarrow> fn_context \<Rightarrow> unit exec" where
  "handleOffensesOf env sv [] ctx = ret ()"
| "handleOffensesOf env sv ((offender, offenseList) # rest) ctx =
     (if nullish offenseList then raise
      else
        let numNewOffenses = foldl (js_add (xe_dstr env)) (JNum 0) (values_of offenseList);
            offenseRecordsPath = getConsensusOffenseRecordsAddrPath offender;
            expirationPath = getStakingExpirationPath ''consensus'' offender ''0''
        in andThen (incValueOrLog env sv offenseRecordsPath numNewOffenses ctx)
          (\<lambda>_. andThen (readValue offenseRecordsPath)
            (\<lambda>updatedNumOffenses.
               let lockupExtension = getLockupExtensionForNewOffenses numNewOffenses updatedNumOffenses
                     (bp_stakeLockupExtension (fc_chain ctx))
               in andThen (if js_lt (JNum 0) lockupExtension
                    then andThen (readValue expirationPath) (\<lambda>expiration.
                           let currentExpiration = js_max expiration (fc_blockTime ctx)
                           in andThen (setValueOrLog sv expirationPath
                                         (js_add (xe_dstr env) currentExpiration lockupExtension) ctx) (\<lambda>_. ret ()))
                    else ret ())
                 (\<lambda>_. handleOffensesOf env sv rest ctx))))"

definition native_handleOffenses :: "exec_env \<Rightarrow> set_value \<Rightarrow> jsval \<Rightarrow> fn_context \<Rightarrow> func_result exec" where
  "native_handleOffenses env sv val ctx = unlessNull val
     (if isEmpty (prop_get val ''offenses'') then result_code 0
      else andThen (handleOffensesOf env sv (dict_of (prop_get val ''offenses'')) ctx) (\<lambda>_. result_code 0))"

end
