(* ===== verification/NativeServices.thy ===== *)
theory NativeServices
  imports NativeFunctions
begin

text \<open>
  The native functions of the services in \<open>db/functions.js\<close>: staking, payments, escrow, shard reports,
  and the check-in and check-out of the token bridge; then the table of all native functions.
\<close>

subsection \<open>Staking\<close>

definition sumUpStakingBalanceTotal :: "exec_env \<Rightarrow> jsval exec" where
  "sumUpStakingBalanceTotal env =
     andThen (readShallow env ''staking'') (\<lambda>v.
       andThen (for_each (\<lambda>appName. readValue (getStakingBalanceTotalPath appName)) (keys_of (js_or v (JObj []))))
         (\<lambda>balances. ret (foldl (js_add (xe_dstr env)) (JNum 0) balances)))"

text \<open>The totals after a stake or an unstake, \<open>change\<close> being the increment or the decrement.\<close>

definition updateStakingTotals ::
  "exec_env \<Rightarrow> set_value \<Rightarrow> (string \<Rightarrow> tx_result exec) \<Rightarrow> string \<Rightarrow> fn_context \<Rightarrow> func_result exec" where
  "updateStakingTotals env sv change serviceName ctx =
     andThen (change (getStakingBalanceTotalPath serviceName)) (\<lambda>_.
       andThen (if flagEnabled env ''staking_balance_total_sum'' (fc_blockNumber ctx)
                then andThen (readValue getStakingBalanceTotalSumPath) (\<lambda>v.
                       if v = JNull
                       then andThen (sumUpStakingBalanceTotal env) (\<lambda>total.
                              andThen (setValueOrLog sv getStakingBalanceTotalSumPath total ctx) (\<lambda>_. ret ()))
                       else andThen (change getStakingBalanceTotalSumPath) (\<lambda>_. ret ()))
                else ret ())
         (\<lambda>_. result_code 0))"

definition stakingServiceAccountName :: "string \<Rightarrow> string \<Rightarrow> string \<Rightarrow> string" where
  "stakingServiceAccountName serviceName user stakingKey =
     toServiceAccountName ''staking'' serviceName (user @ ''|'' @ stakingKey)"

definition native_stake :: "exec_env \<Rightarrow> set_value \<Rightarrow> jsval \<Rightarrow> fn_context \<Rightarrow> func_result exec" where
  "native_stake env sv val ctx = unlessNull val
     (let serviceName = param ctx ''service_name''; user = param ctx ''user_addr''; stakingKey = param ctx ''staking_key'';
          expirationPath = getStakingExpirationPath serviceName user stakingKey
      in andThen (readValue expirationPath) (\<lambda>expiration.
           andThen (readValue (getStakingLockupDurationPath serviceName)) (\<lambda>duration.
             let currentExpiration = to_number expiration; lockup = js_or duration (JNum 0) in
             if \<not> isInteger lockup \<or> js_lt lockup (JNum 0) then result_code 20202
             else
               let newExpiration = js_add (xe_dstr env) (fc_blockTime ctx) lockup;
                   updateExpiration = js_lt currentExpiration newExpiration;
                   setExpiration = (if updateExpiration
                     then andThen (setValueOrLog sv expirationPath newExpiration ctx) (\<lambda>_. ret ()) else ret ())
               in if val = JNum 0 \<and> updateExpiration then andThen setExpiration (\<lambda>_. result_code 0)
                  else andThen (setServiceAccountTransferOrLog env sv user
                         (stakingServiceAccountName serviceName user stakingKey) val ctx) (\<lambda>result.
                    unlessFailed 20002 result
                      (andThen setExpiration (\<lambda>_.
                        updateStakingTotals env sv (\<lambda>path. incValueOrLog env sv path val ctx) serviceName ctx))))))"

definition native_unstake :: "exec_env \<Rightarrow> set_value \<Rightarrow> jsval \<Rightarrow> fn_context \<Rightarrow> func_result exec" where
  "native_unstake env sv val ctx = unlessNull val
     (let serviceName = param ctx ''service_name''; user = param ctx ''user_addr''; stakingKey = param ctx ''staking_key''
      in andThen (readValue (getStakingExpirationPath serviceName user stakingKey)) (\<lambda>expireAt.
           if js_lt (fc_executedAt ctx) expireAt then result_code 20201
           else andThen (setServiceAccountTransferOrLog env sv (stakingServiceAccountName serviceName user stakingKey)
                  user val ctx) (\<lambda>result.
             unlessFailed 20002 result
               (updateStakingTotals env sv (\<lambda>path. decValueOrLog env sv path val ctx) serviceName ctx))))"

subsection \<open>Payments and escrow\<close>

definition validatePaymentRecord :: "string \<Rightarrow> jsval \<Rightarrow> bool" where
  "validatePaymentRecord adminAddr val =
     (adminAddr \<noteq> [] \<and> truthy val \<and> truthy (prop_get val ''amount'') \<and> isNumber (prop_get val ''amount''))"

definition paymentAccountName :: "fn_context \<Rightarrow> string" where
  "paymentAccountName ctx =
     toServiceAccountName ''payments'' (param ctx ''service_name'') (param ctx ''user_addr'' @ ''|'' @ param ctx ''payment_key'')"

definition native_pay :: "exec_env \<Rightarrow> set_value \<Rightarrow> jsval \<Rightarrow> fn_context \<Rightarrow> func_result exec" where
  "native_pay env sv val ctx = unlessNull val
     (if \<not> validatePaymentRecord (tx_address (fc_transaction ctx)) val then result_code 20001
      else andThen (setServiceAccountTransferOrLog env sv (tx_address (fc_transaction ctx)) (paymentAccountName ctx)
             (prop_get val ''amount'') ctx) (successOr 20002))"

definition native_claim :: "exec_env \<Rightarrow> set_value \<Rightarrow> jsval \<Rightarrow> fn_context \<Rightarrow> func_result exec" where
  "native_claim env sv val ctx = unlessNull val
     (if \<not> validatePaymentRecord (tx_address (fc_transaction ctx)) val then result_code 20001
      else
        let str = js_string (xe_dstr env);
            target = str (prop_get val ''target'')
        in andThen (if prop_get val ''escrow_key'' \<noteq> JUndef
                    then setValueOrLog sv (getEscrowHoldRecordPath (paymentAccountName ctx) target
                           (str (prop_get val ''escrow_key'')) (str (fc_blockTime ctx)))
                           (JObj [(''amount'', prop_get val ''amount'')]) ctx
                    else setServiceAccountTransferOrLog env sv (paymentAccountName ctx) target (prop_get val ''amount'') ctx)
             (successOr 20002))"

definition escrowAccountName :: "fn_context \<Rightarrow> string" where
  "escrowAccountName ctx =
     toServiceAccountName ''escrow'' ''escrow''
       (toEscrowAccountName (param ctx ''source_account'') (param ctx ''target_account'') (param ctx ''escrow_key''))"

definition native_hold :: "exec_env \<Rightarrow> set_value \<Rightarrow> jsval \<Rightarrow> fn_context \<Rightarrow> func_result exec" where
  "native_hold env sv val ctx = unlessNull val
     (let amount = prop_get val ''amount'' in
      if \<not> isNumber amount then result_code 20001
      else andThen (setServiceAccountTransferOrLog env sv (param ctx ''source_account'') (escrowAccountName ctx) amount ctx)
             (successOr 20002))"

definition transferIfPositive ::
  "exec_env \<Rightarrow> set_value \<Rightarrow> string \<Rightarrow> jsval \<Rightarrow> fn_context \<Rightarrow> func_result exec \<Rightarrow> func_result exec" where
  "transferIfPositive env sv dst amount ctx continue =
     (if js_lt (JNum 0) amount
      then andThen (setServiceAccountTransferOrLog env sv (escrowAccountName ctx) dst amount ctx)
             (\<lambda>result. unlessFailed 20002 result continue)
      else continue)"

definition native_release :: "exec_env \<Rightarrow> set_value \<Rightarrow> jsval \<Rightarrow> fn_context \<Rightarrow> func_result exec" where
  "native_release env sv val ctx = unlessNull val
     (let ratio = prop_get val ''ratio'' in
      if \<not> isNumber ratio \<or> js_lt ratio (JNum 0) \<or> js_lt (JNum 1) ratio then result_code 20001
      else andThen (readValue (getServiceAccountBalancePathFromAccountName (escrowAccountName ctx))) (\<lambda>escrowAmount.
        let targetAmount = js_mul escrowAmount ratio; sourceAmount = js_sub escrowAmount targetAmount
        in transferIfPositive env sv (param ctx ''target_account'') targetAmount ctx
             (transferIfPositive env sv (param ctx ''source_account'') sourceAmount ctx (result_code 0))))"

subsection \<open>Shard reports\<close>

definition native_updateLatestShardReport :: "exec_env \<Rightarrow> set_value \<Rightarrow> jsval \<Rightarrow> fn_context \<Rightarrow> func_result exec" where
  "native_updateLatestShardReport env sv val ctx = unlessNull val
     (let blockNumberReported = (case map_of (fc_params ctx) ''block_number'' of None \<Rightarrow> JNaN | Some s \<Rightarrow> string_number s) in
      if \<not> isString val then result_code 0
      else
        let latestReportPath = getLatestShardReportPathFromValuePath (fc_valuePath ctx)
        in andThen (readValue latestReportPath) (\<lambda>currentLatestBlockNumber.
             if currentLatestBlockNumber \<noteq> JNull \<and> js_le blockNumberReported (to_number currentLatestBlockNumber)
             then result_code 0
             else andThen (setValueOrLog sv latestReportPath blockNumberReported ctx) (successOr 20001)))"

subsection \<open>Check-in\<close>

text \<open>A change of two statistics; the second is left out when the first fails. \<open>None\<close> is \<open>true\<close>.\<close>

definition updateBoth :: "(string \<Rightarrow> tx_result exec) \<Rightarrow> string \<Rightarrow> string \<Rightarrow> int option exec" where
  "updateBoth change path1 path2 =
     andThen (change path1) (\<lambda>r1.
       if isFailedTx (Some r1) then ret (Some 20002)
       else andThen (change path2) (\<lambda>r2. ret (if isFailedTx (Some r2) then Some 20002 else None)))"

definition changeBy :: "exec_env \<Rightarrow> set_value \<Rightarrow> jsval \<Rightarrow> bool \<Rightarrow> fn_context \<Rightarrow> string \<Rightarrow> tx_result exec" where
  "changeBy env sv amount isIncrease ctx path =
     (if isIncrease then incValueOrLog env sv path amount ctx else decValueOrLog env sv path amount ctx)"

definition updateStatsForPendingCheckin ::
  "exec_env \<Rightarrow> set_value \<Rightarrow> jsval \<Rightarrow> jsval \<Rightarrow> jsval \<Rightarrow> bool \<Rightarrow> fn_context \<Rightarrow> int option exec" where
  "updateStatsForPendingCheckin env sv sender tokenPool amount isIncrease ctx =
     updateBoth (changeBy env sv amount isIncrease ctx)
       (getCheckinPendingAmountPerSenderPath (param ctx ''network_name'') (param ctx ''chain_id'') (param ctx ''token_id'')
          (js_string (xe_dstr env) sender))
       (getCheckinPendingAmountPerTokenPoolPath (js_string (xe_dstr env) tokenPool))"

definition updateStatsForCompleteCheckin :: "exec_env \<Rightarrow> set_value \<Rightarrow> string \<Rightarrow> jsval \<Rightarrow> fn_context \<Rightarrow> int option exec" where
  "updateStatsForCompleteCheckin env sv user amount ctx =
     updateBoth (changeBy env sv amount True ctx) (getCheckinCompleteAmountPerAddrPath user) getCheckinCompleteAmountTotalPath"

definition validateCheckinSender :: "exec_env \<Rightarrow> jsval \<Rightarrow> string \<Rightarrow> int option" where
  "validateCheckinSender env sender networkName =
     (if networkName = ''ETH'' \<and> isCksumAddr (va_rule_env (xe_valid env)) sender then None else Some 20405)"

definition validateCheckinSenderProof ::
  "exec_env \<Rightarrow> string \<Rightarrow> jsval \<Rightarrow> jsval \<Rightarrow> jsval \<Rightarrow> transaction \<Rightarrow> int option" where
  "validateCheckinSenderProof env refPath amount sender senderProof tx =
     (let body = JObj [(''ref'', JStr refPath), (''amount'', amount), (''sender'', sender),
                       (''timestamp'', prop_get (tx_body tx) ''timestamp''), (''nonce'', prop_get (tx_body tx) ''nonce'')]
      in case xe_recover env body senderProof of
           None \<Rightarrow> Some 20408
         | Some signer \<Rightarrow> if signer \<noteq> sender then Some 20408 else None)"

definition validateCheckinAmount :: "exec_env \<Rightarrow> jsval \<Rightarrow> jsval \<Rightarrow> jsval \<Rightarrow> fn_context \<Rightarrow> int option exec" where
  "validateCheckinAmount env sender amount tokenPool ctx =
     andThen (readValue (getCheckinPendingAmountPerSenderPath (param ctx ''network_name'') (param ctx ''chain_id'')
                (param ctx ''token_id'') (js_string (xe_dstr env) sender))) (\<lambda>pendingSender.
       if js_lt (JNum 0) (js_or pendingSender (JNum 0)) then ret (Some 20406)
       else andThen (readValue (getAccountBalancePath (js_string (xe_dstr env) tokenPool))) (\<lambda>tokenPoolBalance.
         andThen (readValue (getCheckinPendingAmountPerTokenPoolPath (js_string (xe_dstr env) tokenPool))) (\<lambda>pendingPerTokenPool.
           ret (if js_lt (js_or tokenPoolBalance (JNum 0)) (js_add (xe_dstr env) amount (js_or pendingPerTokenPool (JNum 0)))
                then Some 20407 else None))))"

definition validateTokenBridgeConfig :: "jsval \<Rightarrow> int option" where
  "validateTokenBridgeConfig config =
     (if \<exists>name\<in>set [''token_pool'', ''min_checkout_per_request'', ''max_checkout_per_request'', ''max_checkout_per_day'',
                    ''token_exchange_rate'', ''token_exchange_scheme'']. prop_get config name = JUndef
      then Some 20404 else None)"

text \<open>Destructuring the configuration raises when there is none.\<close>

definition readTokenBridgeConfig :: "fn_context \<Rightarrow> jsval exec" where
  "readTokenBridgeConfig ctx =
     andThen (readValue (getTokenBridgeConfigPath (param ctx ''network_name'') (param ctx ''chain_id'') (param ctx ''token_id'')))
       (\<lambda>config. if nullish config then raise else ret config)"

definition native_openCheckin :: "exec_env \<Rightarrow> set_value \<Rightarrow> jsval \<Rightarrow> fn_context \<Rightarrow> func_result exec" where
  "native_openCheckin env sv val ctx = unlessNull val
     (let amount = prop_get val ''amount''; sender = prop_get val ''sender''
      in andThen (readTokenBridgeConfig ctx) (\<lambda>config.
           let tokenPool = prop_get config ''token_pool'' in
           unlessCode (validateTokenBridgeConfig config)
             (unlessCode (validateCheckinSender env sender (param ctx ''network_name''))
               (unlessCode (validateCheckinSenderProof env (formatPath (fc_valuePath ctx)) amount sender
                              (prop_get val ''sender_proof'') (fc_transaction ctx))
                 (andThen (validateCheckinAmount env sender amount tokenPool ctx) (\<lambda>amountValidated.
                    unlessCode amountValidated
                      (andThen (updateStatsForPendingCheckin env sv sender tokenPool amount True ctx)
                        (\<lambda>incPending. unlessCode incPending (result_code 0)))))))))"

definition native_cancelCheckin :: "exec_env \<Rightarrow> set_value \<Rightarrow> jsval \<Rightarrow> fn_context \<Rightarrow> func_result exec" where
  "native_cancelCheckin env sv val ctx =
     (if val \<noteq> JNull \<or> length (fc_fids ctx) > 1 then result_code 0
      else andThen (readTokenBridgeConfig ctx) (\<lambda>config.
        andThen (field (fc_prevValue ctx) ''sender'') (\<lambda>sender.
          andThen (updateStatsForPendingCheckin env sv sender (prop_get config ''token_pool'')
                     (prop_get (fc_prevValue ctx) ''amount'') False ctx)
            (\<lambda>decPending. unlessCode decPending (result_code 0)))))"

definition native_closeCheckin :: "exec_env \<Rightarrow> set_value \<Rightarrow> jsval \<Rightarrow> fn_context \<Rightarrow> func_result exec" where
  "native_closeCheckin env sv val ctx = unlessNull val
     (let user = param ctx ''user_addr''; request = prop_get val ''request'';
          finish = (\<lambda>tokenPool. andThen (setValueOrLog sv (getCheckinRequestPath (param ctx ''network_name'') (param ctx ''chain_id'')
                       (param ctx ''token_id'') user (param ctx ''checkin_id'')) JNull ctx) (\<lambda>removeRes.
             unlessFailed 20001 removeRes
               (andThen (field request ''sender'') (\<lambda>sender.
                  andThen (updateStatsForPendingCheckin env sv sender tokenPool (prop_get request ''amount'') False ctx)
                    (\<lambda>decPending. unlessCode decPending (result_code 0))))))
      in andThen (readTokenBridgeConfig ctx) (\<lambda>config. let tokenPool = prop_get config ''token_pool'' in
           andThen (field (prop_get val ''response'') ''status'') (\<lambda>status.
             if status = JBool True
             then andThen (field request ''amount'') (\<lambda>amount.
               andThen (updateStatsForCompleteCheckin env sv user amount ctx) (\<lambda>updateStats.
                 unlessCode updateStats
                   (andThen (setServiceAccountTransferOrLog env sv (js_string (xe_dstr env) tokenPool) user amount ctx)
                     (\<lambda>transferRes. unlessFailed 20001 transferRes (finish tokenPool)))))
             else finish tokenPool)))"

subsection \<open>Check-out\<close>

text \<open>Midnight UTC of a time in milliseconds since 1970.\<close>

definition getDayTimestamp :: "jsval \<Rightarrow> jsval" where
  "getDayTimestamp timestamp =
     (case timestamp of
        JNum t \<Rightarrow> if 0 \<le> t \<and> t \<le> 8640000000000000 then JNum (of_int (\<lfloor>t / 86400000\<rfloor> * 86400000)) else JNaN
      | JNull \<Rightarrow> JNum 0
      | _ \<Rightarrow> JNaN)"

definition updateStatsForPendingCheckout :: "exec_env \<Rightarrow> set_value \<Rightarrow> string \<Rightarrow> jsval \<Rightarrow> bool \<Rightarrow> fn_context \<Rightarrow> int option exec" where
  "updateStatsForPendingCheckout env sv user amount isIncrease ctx =
     updateBoth (changeBy env sv amount isIncrease ctx) (getCheckoutPendingAmountPerAddrPath user) getCheckoutPendingAmountTotalPath"

definition updateStatsForCompleteCheckout :: "exec_env \<Rightarrow> set_value \<Rightarrow> jsval \<Rightarrow> jsval \<Rightarrow> fn_context \<Rightarrow> int option exec" where
  "updateStatsForCompleteCheckout env sv amount blockTime ctx =
     updateBoth (changeBy env sv amount True ctx)
       (getCheckoutCompleteAmountDailyPath (js_string (xe_dstr env) (getDayTimestamp blockTime))) getCheckoutCompleteAmountTotalPath"

definition validateCheckoutRecipient :: "exec_env \<Rightarrow> jsval \<Rightarrow> string \<Rightarrow> int option" where
  "validateCheckoutRecipient env recipient networkName =
     (if networkName = ''ETH'' \<and> isCksumAddr (va_rule_env (xe_valid env)) recipient then None else Some 20403)"

definition validateCheckoutAmount :: "exec_env \<Rightarrow> jsval \<Rightarrow> jsval \<Rightarrow> jsval \<Rightarrow> int option exec" where
  "validateCheckoutAmount env amount blockTime config =
     andThen (readValue getCheckoutPendingAmountTotalPath) (\<lambda>pendingTotal.
       andThen (readValue (getCheckoutCompleteAmountDailyPath (js_string (xe_dstr env) (getDayTimestamp blockTime)))) (\<lambda>today.
         ret (if js_lt amount (prop_get config ''min_checkout_per_request'') \<or>
                 js_lt (prop_get config ''max_checkout_per_request'') amount then Some 20402
              else if js_lt (prop_get config ''max_checkout_per_day'')
                     (js_add (xe_dstr env) (js_or pendingTotal (JNum 0)) (js_or today (JNum 0))) then Some 20402
              else None)))"

definition native_openCheckout :: "exec_env \<Rightarrow> set_value \<Rightarrow> jsval \<Rightarrow> fn_context \<Rightarrow> func_result exec" where
  "native_openCheckout env sv val ctx = unlessNull val
     (let user = param ctx ''user_addr''; amount = prop_get val ''amount''
      in andThen (updateStatsForPendingCheckout env sv user amount True ctx) (\<lambda>incPending.
           unlessCode incPending
             (andThen (readTokenBridgeConfig ctx) (\<lambda>config.
               unlessCode (validateTokenBridgeConfig config)
                 (unlessCode (validateCheckoutRecipient env (prop_get val ''recipient'') (param ctx ''network_name''))
                   (andThen (validateCheckoutAmount env amount (fc_blockTime ctx) config) (\<lambda>amountValidated.
                      unlessCode amountValidated
                        (let transferAmount = js_add (xe_dstr env) amount (js_mul amount (prop_get config ''checkout_fee_rate''))
                         in andThen (setServiceAccountTransferOrLog env sv user
                              (js_string (xe_dstr env) (prop_get config ''token_pool'')) transferAmount ctx) (successOr 20001)))))))))"

definition native_closeCheckout :: "exec_env \<Rightarrow> set_value \<Rightarrow> jsval \<Rightarrow> fn_context \<Rightarrow> func_result exec" where
  "native_closeCheckout env sv val ctx = unlessNull val
     (let networkName = param ctx ''network_name''; chainId = param ctx ''chain_id''; tokenId = param ctx ''token_id'';
          user = param ctx ''user_addr''; checkoutId = param ctx ''checkout_id''; request = prop_get val ''request'';
          str = js_string (xe_dstr env);
          finish = andThen (setValueOrLog sv (getCheckoutRequestPath networkName chainId tokenId user checkoutId) JNull ctx)
            (\<lambda>removeRes. unlessFailed 20001 removeRes
               (andThen (field request ''amount'') (\<lambda>amount.
                 andThen (updateStatsForPendingCheckout env sv user amount False ctx)
                   (\<lambda>decPending. unlessCode decPending (result_code 0)))))
      in andThen (field (prop_get val ''response'') ''status'') (\<lambda>status.
           if status = JBool True
           then andThen (field request ''amount'') (\<lambda>amount.
             andThen (updateStatsForCompleteCheckout env sv amount (fc_blockTime ctx) ctx)
               (\<lambda>updateStats. unlessCode updateStats finish))
           else andThen (readValue (getTokenBridgeTokenPoolPath networkName chainId tokenId)) (\<lambda>tokenPool.
             andThen (field request ''amount'') (\<lambda>amount.
               let refundAmount = js_add (xe_dstr env) amount (js_mul amount (prop_get request ''fee_rate'')) in
               andThen (setServiceAccountTransferOrLog env sv (str tokenPool) user refundAmount ctx) (\<lambda>transferRes.
                 unlessFailed 20001 transferRes
                   (andThen (setValueOrLog sv (getCheckoutRefundPath networkName chainId tokenId user checkoutId)
                              (JStr (getTransferPath (str tokenPool) user (str (fc_timestamp ctx)))) ctx)
                     (\<lambda>setRefundRes. unlessFailed 20001 setRefundRes finish)))))))"

subsection \<open>The table\<close>

definition nativeFunctionMap :: "(string \<times> (exec_env \<Rightarrow> set_value \<Rightarrow> jsval \<Rightarrow> fn_context \<Rightarrow> func_result exec)) list" where
  "nativeFunctionMap =
     [(''_cancelCheckin'', native_cancelCheckin), (''_claim'', native_claim), (''_claimReward'', native_claimReward),
      (''_closeCheckin'', native_closeCheckin), (''_closeCheckout'', native_closeCheckout), (''_collectFee'', native_collectFee),
      (''_createApp'', native_createApp), (''_distributeFee'', native_distributeFee), (''_eraseValue'', native_eraseValue),
      (''_fail'', native_fail), (''_handleOffenses'', native_handleOffenses), (''_hold'', native_hold),
      (''_openCheckin'', native_openCheckin), (''_openCheckout'', native_openCheckout), (''_pay'', native_pay),
      (''_release'', native_release), (''_saveLastTx'', native_saveLastTx), (''_setOwnerConfig'', native_setOwnerConfig),
      (''_stake'', native_stake), (''_unstake'', native_unstake), (''_transfer'', native_transfer),
      (''_updateLatestShardReport'', native_updateLatestShardReport)]"

end
