(* ===== verification/DbWrite.thy ===== *)
theory DbWrite
  imports NativeServices
begin

text \<open>
  Writing values, \<open>setValue\<close> of \<open>db/index.js\<close>, together with the functions it triggers (the class
  \<open>Functions\<close> of \<open>db/functions.js\<close>). The two call each other: \<open>setValue\<close> triggers the native functions
  of the path, and these write values again. A native function that is on the call stack already is not
  called again, so the nesting is bounded by the number of native functions. \<open>fids\<close> is the call stack;
  \<open>setValueAt n\<close> ties the knot with the fuel \<open>n\<close>, and 23 is always enough.
\<close>

subsection \<open>Matching the value with the functions below\<close>

definition convertPathVars2Params :: "(string \<times> string) list \<Rightarrow> (string \<times> string) list" where
  "convertPathVars2Params pathVars = foldl (\<lambda>params (key, v). AList.update (drop 1 key) v params) [] pathVars"

record matched_value =
  mv_path :: "string list"
  mv_pathVars :: "(string \<times> string) list"
  mv_value :: jsval

text \<open>The matched values keyed by their formatted paths; \<open>vars\<close> are the variables bound so far.\<close>

fun matchValueWithFunctionPathRecursive ::
  "string list \<Rightarrow> jsval \<Rightarrow> string list \<Rightarrow> (string \<times> string) list \<Rightarrow> (string \<times> matched_value) list" where
  "matchValueWithFunctionPathRecursive [] valueObj valuePath pathVars =
     [(formatPath valuePath, \<lparr>mv_path = valuePath, mv_pathVars = pathVars, mv_value = json_norm valueObj\<rparr>)]"
| "matchValueWithFunctionPathRecursive (label # functionPath) valueObj valuePath pathVars =
     (if \<not> isDict valueObj then []
      else if isVariableLabel label then
        foldl (\<lambda>matched (valueLabel, child).
                 foldl (\<lambda>m (k, v). AList.update k v m) matched
                   (matchValueWithFunctionPathRecursive functionPath child (valuePath @ [valueLabel])
                      (if map_of pathVars label \<noteq> None then pathVars else pathVars @ [(label, valueLabel)])))
          [] (dict_of valueObj)
      else if prop_get valueObj label \<noteq> JUndef then
        matchValueWithFunctionPathRecursive functionPath (prop_get valueObj label) (valuePath @ [label]) pathVars
      else [])"

definition matchValueWithFunctionPath :: "jsval \<Rightarrow> string list \<Rightarrow> (string \<times> matched_value) list" where
  "matchValueWithFunctionPath val functionPath = matchValueWithFunctionPathRecursive functionPath val [] []"

fun matchValueWithValuePath :: "jsval \<Rightarrow> string list \<Rightarrow> jsval" where
  "matchValueWithValuePath valueObj [] = (if isDict valueObj then json_norm valueObj else valueObj)"
| "matchValueWithValuePath valueObj (label # path) =
     (if \<not> isDict valueObj \<or> prop_get valueObj label = JUndef then JNull
      else matchValueWithValuePath (prop_get valueObj label) path)"

subsection \<open>Triggering functions\<close>

record trigger_args =
  ta_auth :: jsval
  ta_transaction :: transaction
  ta_chain :: chain_params
  ta_options :: set_options

definition isCircularCall :: "string list \<Rightarrow> string \<Rightarrow> bool" where
  "isCircularCall fids fid = (fid \<in> set fids)"

definition newAuth :: "jsval \<Rightarrow> string \<Rightarrow> string list \<Rightarrow> jsval" where
  "newAuth auth fid fids = set_prop ''fids'' (JArr (map JStr fids)) (set_prop ''fid'' (JStr fid) (JObj (dict_of auth)))"

definition formatRawRestFunctionsWhitelist :: "jsval \<Rightarrow> jsval list" where
  "formatRawRestFunctionsWhitelist raw = js_set (concat (map values_of (values_of raw)))"

definition isWhitelistedUrl :: "exec_env \<Rightarrow> snode \<Rightarrow> jsval \<Rightarrow> bool" where
  "isWhitelistedUrl env stateRoot url =
     xe_matchUrl env url
       (formatRawRestFunctionsWhitelist (getValueFromStateRoot stateRoot getDevelopersRestFunctionsUrlWhitelistPath))"

definition callContext ::
  "trigger_args \<Rightarrow> string \<Rightarrow> string list \<Rightarrow> string list \<Rightarrow> (string \<times> string) list \<Rightarrow> string list \<Rightarrow> jsval \<Rightarrow> fn_context" where
  "callContext args fid fids functionPath params valuePath prevValue =
     \<lparr>fc_fid = fid, fc_fids = fids, fc_valuePath = valuePath, fc_functionPath = functionPath, fc_prevValue = prevValue,
      fc_params = params, fc_timestamp = eo_timestamp (ta_options args),
      fc_executedAt = prop_get (JObj (tx_extra (ta_transaction args))) ''executed_at'',
      fc_blockNumber = eo_blockNumber (ta_options args), fc_blockTime = eo_blockTime (ta_options args),
      fc_eventSource = so_eventSource (ta_options args), fc_transaction = ta_transaction args,
      fc_auth = newAuth (ta_auth args) fid fids, fc_chain = ta_chain args\<rparr>"

text \<open>
  The loop over the functions of a path. The \<open>break\<close> in the \<open>finally\<close> block stops the loop after a
  native function that failed, and swallows the exception of one that raised: then it leaves no result.
  A call to a REST function is not modelled; its result is there at once.
\<close>

fun triggerList ::
  "exec_env \<Rightarrow> (string list \<Rightarrow> set_value) \<Rightarrow> string list \<Rightarrow> trigger_args \<Rightarrow> string list \<Rightarrow> (string \<times> string) list \<Rightarrow>
   string list \<Rightarrow> jsval \<Rightarrow> jsval \<Rightarrow> jsval list \<Rightarrow> (string \<times> func_result) list \<Rightarrow> (string \<times> func_result) list exec" where
  "triggerList env svAt fids args functionPath params valuePath val prevValue [] funcResults = ret funcResults"
| "triggerList env svAt fids args functionPath params valuePath val prevValue (functionEntry # rest) funcResults =
     (let continue = triggerList env svAt fids args functionPath params valuePath val prevValue rest;
          ftype = prop_get functionEntry ''function_type'';
          fid = js_string (xe_dstr env) (prop_get functionEntry ''function_id'');
          fids' = fids @ [fid]
      in if \<not> truthy functionEntry \<or> \<not> truthy ftype then continue funcResults
         else if ftype = JStr ''NATIVE'' then
           (if isCircularCall fids fid then continue funcResults
            else case map_of nativeFunctionMap fid of
                   None \<Rightarrow> continue funcResults
                 | Some nativeFunction \<Rightarrow>
                     andThen (attempt (with_fresh_opResults (nativeFunction env (svAt fids') val
                                (callContext args fid fids' functionPath params valuePath prevValue)))) (\<lambda>r.
                       case r of
                         None \<Rightarrow> ret funcResults
                       | Some result \<Rightarrow>
                           let funcResults' = AList.update fid result funcResults in
                           if isFailedFuncResultCode (fr_code result) then ret funcResults' else continue funcResults'))
         else if ftype = JStr ''REST'' \<and> truthy (prop_get functionEntry ''function_url'') then
           andThen get_root (\<lambda>stateRoot.
             if \<not> isWhitelistedUrl env stateRoot (prop_get functionEntry ''function_url'') then continue funcResults
             else continue (AList.update fid
                    (FuncResult (if xe_ENABLE_REST_FUNCTION_CALL env \<and> so_eventSource (ta_options args) \<noteq> JNull then 0 else 20000)
                       (numberOrZero (bp_restFunctionCallGasAmount (ta_chain args))) []) funcResults))
         else continue funcResults)"

definition triggerFunctions ::
  "exec_env \<Rightarrow> (string list \<Rightarrow> set_value) \<Rightarrow> string list \<Rightarrow> trigger_args \<Rightarrow> string list \<Rightarrow> (string \<times> string) list \<Rightarrow> jsval \<Rightarrow>
   string list \<Rightarrow> jsval \<Rightarrow> jsval \<Rightarrow> (string \<times> func_result) list exec" where
  "triggerFunctions env svAt fids args functionPath pathVars functionMap valuePath val prevValue =
     triggerList env svAt fids args functionPath (convertPathVars2Params pathVars) valuePath val prevValue
       (values_of functionMap) []"

definition mergeVars :: "(string \<times> string) list \<Rightarrow> (string \<times> string) list \<Rightarrow> (string \<times> string) list" where
  "mergeVars vars1 vars2 = foldl (\<lambda>vars (k, v). AList.update k v vars) vars1 vars2"

text \<open>The functions of one path below: first those of values being deleted, then those of values being written.\<close>

definition triggerSubtree ::
  "exec_env \<Rightarrow> (string list \<Rightarrow> set_value) \<Rightarrow> string list \<Rightarrow> trigger_args \<Rightarrow> matched_function \<Rightarrow> string list \<Rightarrow> jsval \<Rightarrow> jsval \<Rightarrow>
   path_config \<Rightarrow> (string \<times> (string \<times> (string \<times> func_result) list) list) exec" where
  "triggerSubtree env svAt fids args matchedFunction parsedValuePath val prevValue subtreeConfig =
     (let matchedPrevValues = matchValueWithFunctionPath prevValue (fst subtreeConfig);
          matchedValues = matchValueWithFunctionPath val (fst subtreeConfig);
          call = (\<lambda>mv v pv. triggerFunctions env svAt fids args
                    (fst (mf_matchedFunction matchedFunction) @ fst subtreeConfig)
                    (mergeVars (mf_pathVars matchedFunction) (mv_pathVars mv)) (snd subtreeConfig)
                    (parsedValuePath @ mv_path mv) v pv)
      in andThen (for_each (\<lambda>(pathKey, mv). andThen (call mv JNull (mv_value mv)) (\<lambda>r. ret (pathKey, r)))
                   (filter (\<lambda>e. map_of matchedValues (fst e) = None) matchedPrevValues)) (\<lambda>deleted.
           andThen (for_each (\<lambda>(pathKey, mv). andThen (call mv (mv_value mv) (matchValueWithValuePath prevValue (mv_path mv)))
                                (\<lambda>r. ret (pathKey, r))) matchedValues) (\<lambda>written.
             ret (formatPath (fst subtreeConfig), deleted @ written))))"

definition matchAndTriggerFunctions ::
  "exec_env \<Rightarrow> (string list \<Rightarrow> set_value) \<Rightarrow> string list \<Rightarrow> trigger_args \<Rightarrow> string list \<Rightarrow> jsval \<Rightarrow> jsval \<Rightarrow>
   ((string \<times> func_result) list \<times> (string \<times> (string \<times> (string \<times> func_result) list) list) list) exec" where
  "matchAndTriggerFunctions env svAt fids args parsedValuePath val prevValue =
     andThen get_root (\<lambda>stateRoot.
       let matchedFunction = matchFunctionForParsedPath stateRoot parsedValuePath
       in andThen (triggerFunctions env svAt fids args (fst (mf_matchedFunction matchedFunction)) (mf_pathVars matchedFunction)
                     (snd (mf_matchedFunction matchedFunction)) parsedValuePath val prevValue) (\<lambda>funcResults.
            andThen (for_each (triggerSubtree env svAt fids args matchedFunction parsedValuePath val prevValue)
                      (mf_subtreeFunctions matchedFunction)) (\<lambda>subtreeResults.
              ret (funcResults, subtreeResults))))"

subsection \<open>Writing a value\<close>

definition readChainParams :: "exec_env \<Rightarrow> jsval \<Rightarrow> chain_params exec" where
  "readChainParams env blockNumber =
     andThen get_root (\<lambda>stateRoot.
       let param = (\<lambda>category name. getBlockchainParam env category name blockNumber stateRoot)
       in ret \<lparr>bp_accountRegistrationGasAmount = param ''resource'' ''account_registration_gas_amount'',
               bp_appCreationGasAmount = param ''resource'' ''app_creation_gas_amount'',
               bp_restFunctionCallGasAmount = param ''resource'' ''rest_function_call_gas_amount'',
               bp_rewardType = param ''reward'' ''type'', bp_rewardAnnualRate = param ''reward'' ''annual_rate'',
               bp_epochMs = param ''genesis'' ''epoch_ms'',
               bp_stakeLockupExtension = param ''consensus'' ''stake_lockup_extension''\<rparr>)"

text \<open>After the functions: garbage collection unless the value is deleted, and the event.\<close>

definition finishSetValue ::
  "exec_env \<Rightarrow> set_options \<Rightarrow> jsval \<Rightarrow> matched_rule \<Rightarrow> string list \<Rightarrow> jsval \<Rightarrow> jsval \<Rightarrow> jsval \<Rightarrow> tx_result \<Rightarrow> tx_result exec" where
  "finishSetValue env opts auth stateRule localPath val prevValueCopy valueCopy result =
     andThen get_root (\<lambda>stateRoot.
       andThen (if val = JNull then ret ()
                else case applyStateGarbageCollectionRule stateRoot stateRule localPath of
                       None \<Rightarrow> raise
                     | Some (n, stateRoot') \<Rightarrow> change_root (\<lambda>_. stateRoot')) (\<lambda>_.
         andThen (if xe_hasEventHandler env \<and> so_eventSource opts \<noteq> JNull
                  then emit \<lparr>vc_auth = auth, vc_path = localPath, vc_before = prevValueCopy, vc_after = valueCopy,
                             vc_eventSource = so_eventSource opts\<rparr>
                  else ret ())
           (\<lambda>_. ret result)))"

text \<open>The write and everything after it, when the checks are passed.\<close>

definition applyValue ::
  "exec_env \<Rightarrow> (string list \<Rightarrow> set_value) \<Rightarrow> string list \<Rightarrow> rat \<Rightarrow> matched_rule \<Rightarrow> string list \<Rightarrow> jsval \<Rightarrow> jsval \<Rightarrow>
   transaction \<Rightarrow> set_options \<Rightarrow> tx_result exec" where
  "applyValue env svAt fids gas stateRule localPath val auth tx opts =
     andThen get_root (\<lambda>stateRoot.
       let prevValue = getValueFromStateRoot stateRoot (formatPath localPath);
           prevValueCopy = (if isDict prevValue then json_norm prevValue else prevValue);
           valueCopy = (if isDict val then json_norm val else val);
           finish = finishSetValue env opts auth stateRule localPath val prevValueCopy valueCopy
       in andThen (change_root (\<lambda>rt. writeToStateRoot rt (getFullPath localPath ''values'') valueCopy)) (\<lambda>_.
            if truthy auth \<and> (truthy (prop_get auth ''addr'') \<or> truthy (prop_get auth ''fid''))
            then andThen (readChainParams env (eo_blockNumber opts)) (\<lambda>chain.
              andThen (matchAndTriggerFunctions env svAt fids
                         \<lparr>ta_auth = auth, ta_transaction = tx, ta_chain = chain, ta_options = opts\<rparr>
                         localPath valueCopy prevValueCopy) (\<lambda>(funcResults, subtreeFuncResults).
                if isFailedFuncTrigger funcResults then ret (returnTxResult 10104 gas funcResults subtreeFuncResults)
                else if isFailedSubtreeFuncTrigger subtreeFuncResults
                then ret (returnTxResult 10105 gas funcResults subtreeFuncResults)
                else finish (returnTxResult 0 gas funcResults subtreeFuncResults)))
            else finish (returnTxResult 0 gas [] [])))"

definition setValueBody ::
  "exec_env \<Rightarrow> (string list \<Rightarrow> set_value) \<Rightarrow> string list \<Rightarrow> set_value" where
  "setValueBody env svAt fids valuePath val auth tx opts =
     andThen get_root (\<lambda>stateRoot.
       let blockNumber = eo_blockNumber opts;
           parsedPath = parsePath valuePath;
           labelLimit = getBlockchainParam env ''resource'' ''state_label_length_limit'' blockNumber stateRoot;
           gas = unitWriteGasAmount env blockNumber stateRoot;
           finish = (\<lambda>code. ret (returnTxResult code gas [] []))
       in andThen (of_validity (isValidPathForStates labelLimit parsedPath)) (\<lambda>validPath.
            if \<not> validPath then finish 10102
            else andThen (of_validity (isValidJsObjectForStates labelLimit [] val)) (\<lambda>validObj.
              if \<not> validObj then finish 10101
              else case toLocal env (so_isGlobal opts) parsedPath of
                     None \<Rightarrow> finish 0
                   | Some localPath \<Rightarrow>
                       let (code, writeRule, stateRule) =
                             getPermissionForValue (xe_value env stateRoot) stateRoot localPath val auth (eval_options.truncate opts)
                       in if isFailedTxResultCode code then finish code
                          else if \<not> fst (isWritablePathWithSharding (getFullPath localPath ''values'') stateRoot)
                          then finish (if so_isGlobal opts then 0 else 10103)
                          else applyValue env svAt fids gas stateRule localPath val auth tx opts)))"

subsection \<open>The knot\<close>

primrec setValueAt :: "nat \<Rightarrow> exec_env \<Rightarrow> string list \<Rightarrow> set_value" where
  "setValueAt 0 env fids = (\<lambda>valuePath val auth tx opts. out_of_fuel)"
| "setValueAt (Suc n) env fids = setValueBody env (setValueAt n env) fids"

definition call_fuel :: nat where
  "call_fuel = 23"

definition setValue :: "exec_env \<Rightarrow> set_value" where
  "setValue env = setValueAt call_fuel env []"

end
