(* ===== verification/Operations.thy ===== *)
theory Operations
  imports DbWrite
begin

text \<open>
  Executing the operation of a transaction, \<open>executeOperation\<close> of \<open>db/index.js\<close>: single and multiple
  writes, the gas amounts, the limits on the state and the budgets of services and apps, and the move
  of the account's nonce. The usage caches of the code are keyed by proof hashes of what they are
  computed from, so they are computed afresh here. Of the usages only the tree bytes are kept, which
  is what the checks read.
\<close>

subsection \<open>Apps of an operation\<close>

definition op_ref :: "jsval \<Rightarrow> string" where
  "op_ref p = stringOrEmpty (prop_get p ''ref'')"

definition op_list :: "jsval \<Rightarrow> jsval list option" where
  "op_list p = (case prop_get p ''op_list'' of JArr ops \<Rightarrow> Some ops | _ \<Rightarrow> None)"

definition hasServiceOp :: "jsval \<Rightarrow> bool" where
  "hasServiceOp p =
     (case op_list p of
        Some ops \<Rightarrow> list_ex (\<lambda>innerOp. \<not> isAppPath (parsePath (op_ref innerOp))) ops
      | None \<Rightarrow> \<not> isAppPath (parsePath (op_ref p)))"

definition getAppNameFromRef :: "exec_env \<Rightarrow> jsval \<Rightarrow> string option" where
  "getAppNameFromRef env p =
     (case toLocal env (prop_get p ''is_global'' = JBool True) (parsePath (op_ref p)) of
        None \<Rightarrow> None
      | Some localPath \<Rightarrow>
          if isAppPath localPath then (case tl localPath of [] \<Rightarrow> None | name # _ \<Rightarrow> Some name) else None)"

definition names_of_ops :: "(jsval \<Rightarrow> string option) \<Rightarrow> jsval \<Rightarrow> string list" where
  "names_of_ops name p =
     (if \<not> truthy p then []
      else js_set (List.map_filter name (case op_list p of Some ops \<Rightarrow> ops | None \<Rightarrow> [p])))"

definition getAppNameList :: "exec_env \<Rightarrow> jsval \<Rightarrow> string list" where
  "getAppNameList env p = names_of_ops (getAppNameFromRef env) p"

definition getDependentAppNameFromRef :: "jsval \<Rightarrow> string option" where
  "getDependentAppNameFromRef p =
     (case parsePath (op_ref p) of
        type # name # _ \<Rightarrow> if isAppDependentServiceType type then Some name else None
      | _ \<Rightarrow> None)"

definition getServiceDependentAppNameList :: "jsval \<Rightarrow> string list" where
  "getServiceDependentAppNameList p = names_of_ops getDependentAppNameFromRef p"

subsection \<open>Writes of an operation\<close>

record op_args =
  oa_nonce :: jsval
  oa_timestamp :: jsval
  oa_blockNumber :: jsval
  oa_blockTime :: jsval
  oa_eventSource :: jsval

definition op_options :: "op_args \<Rightarrow> jsval \<Rightarrow> set_options" where
  "op_options args p =
     \<lparr>eo_timestamp = oa_timestamp args, eo_blockNumber = oa_blockNumber args, eo_blockTime = oa_blockTime args,
      so_isGlobal = (prop_get p ''is_global'' \<noteq> JUndef \<and> toBool (prop_get p ''is_global'')),
      so_eventSource = oa_eventSource args\<rparr>"

definition executeSingleSetOperation :: "exec_env \<Rightarrow> jsval \<Rightarrow> jsval \<Rightarrow> op_args \<Rightarrow> transaction \<Rightarrow> tx_result exec" where
  "executeSingleSetOperation env p auth args tx =
     (let opts = op_options args p; type = prop_get p ''type''; val = prop_get p ''value'' in
      if type = JUndef \<or> type = JStr ''SET_VALUE'' then setValue env (op_ref p) val auth tx opts
      else if type = JStr ''INC_VALUE'' then incValue env (setValue env) (op_ref p) val auth tx opts
      else if type = JStr ''DEC_VALUE'' then decValue env (setValue env) (op_ref p) val auth tx opts
      else if type = JStr ''SET_FUNCTION'' then setFunction env (op_ref p) val auth opts
      else if type = JStr ''SET_RULE'' then setRule env (op_ref p) val auth opts
      else if type = JStr ''SET_OWNER'' then setOwner env (op_ref p) val auth opts
      else andThen get_root (\<lambda>stateRoot.
             ret (returnTxResult 10709 (unitWriteGasAmount env (oa_blockNumber args) stateRoot) [] [])))"

text \<open>The loop stops after the first operation that failed.\<close>

fun executeOpList ::
  "exec_env \<Rightarrow> nat \<Rightarrow> jsval list \<Rightarrow> jsval \<Rightarrow> op_args \<Rightarrow> transaction \<Rightarrow> (nat \<times> tx_result) list exec" where
  "executeOpList env i [] auth args tx = ret []"
| "executeOpList env i (p # ops) auth args tx =
     andThen (executeSingleSetOperation env p auth args tx) (\<lambda>result.
       if isFailedTx (Some result) then ret [(i, result)]
       else andThen (executeOpList env (i + 1) ops auth args tx) (\<lambda>rest. ret ((i, result) # rest)))"

definition executeMultiSetOperation :: "exec_env \<Rightarrow> jsval list \<Rightarrow> jsval \<Rightarrow> op_args \<Rightarrow> transaction \<Rightarrow> tx_result exec" where
  "executeMultiSetOperation env opList auth args tx =
     andThen get_root (\<lambda>stateRoot.
       let setOpListSizeLimit = getBlockchainParam env ''resource'' ''set_op_list_size_limit'' (oa_blockNumber args) stateRoot in
       if js_lt (JNum 0) (oa_blockNumber args) \<and> js_lt setOpListSizeLimit (JNum (of_nat (length opList)))
       then ret (TxResult 30005 0 [] [] None)
       else andThen (executeOpList env 0 opList auth args tx) (\<lambda>resultList. ret (TxResult 0 0 [] [] (Some resultList))))"

subsection \<open>Results of a transaction\<close>

text \<open>
  The result of the writes with the gas of the whole transaction. \<open>xr_code\<close> is the property \<open>code\<close> of
  the result, which a result with a list has only when a later check sets it.
\<close>

record exec_result =
  xr_result :: tx_result
  xr_code :: "int option"
  xr_bandwidth :: gas_amount
  xr_stateService :: jsval
  xr_stateApp :: "(string \<times> jsval) list"
  xr_gasAmountCharged :: jsval
  xr_gasCostTotal :: rat
  xr_isDryrun :: bool

definition newResult :: "tx_result \<Rightarrow> gas_amount \<Rightarrow> exec_result" where
  "newResult result gas =
     \<lparr>xr_result = result, xr_code = (if tr_list result = None then Some (tr_code result) else None),
      xr_bandwidth = gas, xr_stateService = JNum 0, xr_stateApp = [], xr_gasAmountCharged = JUndef,
      xr_gasCostTotal = 0, xr_isDryrun = False\<rparr>"

definition set_code :: "int \<Rightarrow> exec_result \<Rightarrow> exec_result" where
  "set_code code r = r\<lparr>xr_code := Some code\<rparr>"

text \<open>\<open>isFailedTx\<close> of such a result: with a list of results the code is not looked at.\<close>

definition isFailedExecution :: "exec_result \<Rightarrow> bool" where
  "isFailedExecution r =
     (case xr_result r of
        TxResult code gas funcs subtree list \<Rightarrow>
          isFailedTx (Some (TxResult (case xr_code r of None \<Rightarrow> code | Some c \<Rightarrow> c) gas funcs subtree list)))"

subsection \<open>Usage and limits of the state\<close>

text \<open>The tree bytes of the four trees at a path, \<open>undefined\<close> when none is there.\<close>

definition getStateUsageAtPath :: "exec_env \<Rightarrow> snode \<Rightarrow> string list \<Rightarrow> jsval" where
  "getStateUsageAtPath env stateRoot path =
     (let nodes = List.map_filter (\<lambda>rootLabel. getRefForReadingFromStateRoot stateRoot (rootLabel # path))
            [''values'', ''rules'', ''functions'', ''owners'']
      in if nodes = [] then JUndef else JNum (of_nat (sum_list (map (xe_treeBytes env) nodes))))"

definition serviceStateUsage :: "exec_env \<Rightarrow> snode \<Rightarrow> jsval" where
  "serviceStateUsage env stateRoot =
     js_sub (JNum (of_nat (xe_treeBytes env stateRoot))) (getStateUsageAtPath env stateRoot [''apps''])"

definition getStateUsagePerApp :: "exec_env \<Rightarrow> snode \<Rightarrow> jsval \<Rightarrow> (string \<times> jsval) list" where
  "getStateUsagePerApp env stateRoot p =
     map (\<lambda>appName. (appName, getStateUsageAtPath env stateRoot [''apps'', appName])) (getAppNameList env p)"

definition stakedApp :: "snode \<Rightarrow> string \<Rightarrow> bool" where
  "stakedApp stateRoot appName =
     (let stake = getValueFromStateRoot stateRoot (getStakingBalanceTotalPath appName)
      in isNumber stake \<and> js_lt (JNum 0) stake)"

definition getStateFreeTierUsage :: "exec_env \<Rightarrow> snode \<Rightarrow> jsval" where
  "getStateFreeTierUsage env stateRoot =
     (let apps = keys_of (getValueShallowFromStateRoot (xe_proofHash env) stateRoot ''apps'');
          usages = filter (\<lambda>u. u \<noteq> JUndef)
            (map (\<lambda>appName. getStateUsageAtPath env stateRoot [''apps'', appName]) (filter (\<lambda>a. \<not> stakedApp stateRoot a) apps))
      in if usages = [] then JUndef else JNum (sum_list (map numberOrZero usages)))"

record state_budgets =
  sb_service :: jsval
  sb_apps :: jsval
  sb_free :: jsval

definition getStateBudgets :: "exec_env \<Rightarrow> jsval \<Rightarrow> snode \<Rightarrow> state_budgets" where
  "getStateBudgets env blockNumber stateRoot =
     (let param = (\<lambda>name. getBlockchainParam env ''resource'' name blockNumber stateRoot);
          total = param ''state_tree_bytes_limit''
      in \<lparr>sb_service = js_mul total (param ''service_state_budget_ratio''),
          sb_apps = js_mul total (param ''apps_state_budget_ratio''),
          sb_free = js_mul total (param ''free_state_budget_ratio'')\<rparr>)"

text \<open>The check of one app, and of the apps of an operation: the first code that is not 0.\<close>

definition checkAppBudget :: "exec_env \<Rightarrow> snode \<Rightarrow> state_budgets \<Rightarrow> string \<Rightarrow> int" where
  "checkAppBudget env stateRoot budgets appName =
     (let appStake = getAppStakeFromStateRoot stateRoot appName in
      if appStake = JNum 0 then
        (if js_le (sb_free budgets) (getStateFreeTierUsage env stateRoot) then 10905 else 0)
      else
        let singleAppStateBudget = js_div (js_mul (sb_apps budgets) appStake)
              (JNum (getAppStakesTotalFromStateRoot (xe_proofHash env) stateRoot))
        in if js_lt singleAppStateBudget (getStateUsageAtPath env stateRoot [''apps'', appName]) then 10907 else 0)"

definition checkStateGasBudgets :: "exec_env \<Rightarrow> snode \<Rightarrow> jsval \<Rightarrow> state_budgets \<Rightarrow> int" where
  "checkStateGasBudgets env stateRoot p budgets =
     (if js_lt (sb_service budgets) (serviceStateUsage env stateRoot) then 10901
      else if js_lt (sb_apps budgets) (getStateUsageAtPath env stateRoot [''apps'']) then 10902
      else case find (\<lambda>c. c \<noteq> 0) (map (checkAppBudget env stateRoot budgets) (getAppNameList env p)) of
             Some c \<Rightarrow> c
           | None \<Rightarrow> 0)"

definition checkTreeHeightAndBytes :: "exec_env \<Rightarrow> jsval \<Rightarrow> snode \<Rightarrow> int" where
  "checkTreeHeightAndBytes env blockNumber stateRoot =
     (let param = (\<lambda>name. getBlockchainParam env ''resource'' name blockNumber stateRoot) in
      if js_lt (param ''state_tree_height_limit'') (JNum (of_nat (xe_treeHeight env stateRoot))) then 11101
      else if js_lt (param ''state_tree_bytes_limit'') (JNum (of_nat (xe_treeBytes env stateRoot))) then 11103
      else 0)"

definition updateStateGasAmount :: "exec_env \<Rightarrow> jsval \<Rightarrow> jsval \<Rightarrow> snode \<Rightarrow> snode \<Rightarrow> exec_result \<Rightarrow> exec_result" where
  "updateStateGasAmount env p blockNumber rootBefore rootAfter r =
     (let stateGasCoefficient = getBlockchainParam env ''resource'' ''state_gas_coefficient'' blockNumber rootAfter;
          serviceDelta = js_sub (serviceStateUsage env rootAfter) (serviceStateUsage env rootBefore);
          deltas = map (\<lambda>(appName, after). (appName, js_sub after (getStateUsageAtPath env rootBefore [''apps'', appName])))
            (getStateUsagePerApp env rootAfter p)
      in r\<lparr>xr_stateService := js_mul (js_max serviceDelta (JNum 0)) stateGasCoefficient,
           xr_stateApp := map (\<lambda>(appName, delta). (appName, js_mul delta stateGasCoefficient))
             (filter (\<lambda>(appName, delta). js_lt (JNum 0) delta) deltas)\<rparr>)"

subsection \<open>The operation of a transaction\<close>

definition checkIfNonExistingAccount :: "exec_env \<Rightarrow> snode \<Rightarrow> jsval \<Rightarrow> bool" where
  "checkIfNonExistingAccount env stateRoot auth =
     (truthy auth \<and> truthy (prop_get auth ''addr'') \<and> \<not> truthy (prop_get auth ''fid'') \<and>
      getValueFromStateRoot stateRoot (formatPath [''accounts'', js_string (xe_dstr env) (prop_get auth ''addr'')]) = JNull)"

fun add_gas :: "rat \<Rightarrow> tx_result \<Rightarrow> tx_result" where
  "add_gas n (TxResult code gas funcs subtree list) = TxResult code (gas + n) funcs subtree list"

text \<open>
  The gas for a new account, on the result or on the first result of the list; reading the list of a
  result without one raises.
\<close>

definition addRegistrationGas :: "bool \<Rightarrow> rat \<Rightarrow> tx_result \<Rightarrow> tx_result exec" where
  "addRegistrationGas isSet n result =
     (if \<not> isSet then ret (add_gas n result)
      else case result of
             TxResult code gas funcs subtree (Some ((i, r) # rest)) \<Rightarrow>
               ret (TxResult code gas funcs subtree (Some ((i, add_gas n r) # rest)))
           | _ \<Rightarrow> raise)"

text \<open>After the writes: the limits, the state gas, the budgets and the account.\<close>

definition finishOperation ::
  "exec_env \<Rightarrow> jsval \<Rightarrow> jsval \<Rightarrow> op_args \<Rightarrow> transaction \<Rightarrow> snode \<Rightarrow> exec_result \<Rightarrow> exec_result exec" where
  "finishOperation env p auth args tx rootBefore r =
     andThen get_root (\<lambda>stateRoot.
       let blockNumber = oa_blockNumber args; heightAndBytesCheck = checkTreeHeightAndBytes env blockNumber stateRoot in
       if isFailedTxResultCode heightAndBytesCheck then ret (set_code heightAndBytesCheck r)
       else
         let r' = updateStateGasAmount env p blockNumber rootBefore stateRoot r;
             stateGasBudgetCheck = checkStateGasBudgets env stateRoot p (getStateBudgets env blockNumber stateRoot)
         in if isFailedTxResultCode stateGasBudgetCheck then ret (set_code stateGasBudgetCheck r')
            else andThen (if truthy auth \<and> truthy (prop_get auth ''addr'') \<and> \<not> truthy (prop_get auth ''fid'')
                          then change_root (\<lambda>rt. updateAccountNonceAndTimestampToStateRoot rt
                                 (js_string (xe_dstr env) (prop_get auth ''addr''))
                                 (numberOrZero (prop_get (tx_body tx) ''nonce'')) (numberOrZero (prop_get (tx_body tx) ''timestamp'')))
                          else ret ())
                   (\<lambda>_. ret r'))"

definition executeWrites :: "exec_env \<Rightarrow> jsval \<Rightarrow> jsval \<Rightarrow> op_args \<Rightarrow> transaction \<Rightarrow> tx_result exec" where
  "executeWrites env p auth args tx =
     (if prop_get p ''type'' = JStr ''SET''
      then (case op_list p of
              None \<Rightarrow> raise
            | Some ops \<Rightarrow> executeMultiSetOperation env ops auth args tx)
      else executeSingleSetOperation env p auth args tx)"

definition executeOperation :: "exec_env \<Rightarrow> jsval \<Rightarrow> jsval \<Rightarrow> op_args \<Rightarrow> transaction \<Rightarrow> exec_result exec" where
  "executeOperation env p auth args tx =
     andThen get_root (\<lambda>rootBefore.
       let blockNumber = oa_blockNumber args;
           registrationGasAmount =
             numberOrZero (getBlockchainParam env ''resource'' ''account_registration_gas_amount'' blockNumber rootBefore);
           flag = flagEnabled env ''extend_account_registration_gas_amount'' blockNumber;
           wasNonExistingAccount = flag \<and> checkIfNonExistingAccount env rootBefore auth;
           isSet = (prop_get p ''type'' = JStr ''SET'')
       in if \<not> truthy p
          then ret (newResult (returnTxResult 10708 (unitWriteGasAmount env blockNumber rootBefore) [] []) zero_gas)
          else andThen (executeWrites env p auth args tx) (\<lambda>written.
            andThen get_root (\<lambda>stateRoot.
              andThen (if flag \<and> wasNonExistingAccount \<and> checkIfNonExistingAccount env stateRoot auth \<and> oa_nonce args \<noteq> JNum (-1)
                       then addRegistrationGas isSet registrationGasAmount written else ret written) (\<lambda>result.
                case getTotalBandwidthGasAmount (op_ref p) (case op_list p of None \<Rightarrow> [] | Some ops \<Rightarrow> map op_ref ops) (Some result) of
                  Inl e \<Rightarrow> raise
                | Inr gas \<Rightarrow>
                    let r = newResult result gas in
                    if isFailedExecution r then ret r else finishOperation env p auth args tx rootBefore r))))"

end
