(* ===== verification/StateManager.thy ===== *)
theory StateManager
  imports StateTree JsOps
begin

text \<open>
  The class \<open>StateManager\<close> of \<open>db/state-manager.js\<close>: the versions of the state, each with its root, and
  the final version. A root is the tree it stands for: cloning a root gives a root with the same
  entries that later writes do not affect (shown for the radix trees), so here it copies the tree.
\<close>

record state_manager =
  sm_rootMap :: "(string \<times> snode) list"
  sm_finalVersion :: "string option"

definition newStateManager :: state_manager where
  "newStateManager = \<lparr>sm_rootMap = [(''EMPTY'', emptySNode)], sm_finalVersion = None\<rparr>"

definition numVersions :: "state_manager \<Rightarrow> nat" where
  "numVersions m = length (sm_rootMap m)"

definition isFinalVersion :: "state_manager \<Rightarrow> string option \<Rightarrow> bool" where
  "isFinalVersion m version = (sm_finalVersion m = version)"

definition getRoot :: "state_manager \<Rightarrow> string \<Rightarrow> snode option" where
  "getRoot m version = map_of (sm_rootMap m) version"

definition setRoot :: "string \<Rightarrow> snode \<Rightarrow> state_manager \<Rightarrow> state_manager" where
  "setRoot version rt m = m\<lparr>sm_rootMap := AList.update version rt (sm_rootMap m)\<rparr>"

definition deleteRoot :: "string \<Rightarrow> state_manager \<Rightarrow> state_manager" where
  "deleteRoot version m = m\<lparr>sm_rootMap := AList.delete version (sm_rootMap m)\<rparr>"

definition hasVersion :: "state_manager \<Rightarrow> string option \<Rightarrow> bool" where
  "hasVersion m version = (case version of None \<Rightarrow> False | Some v \<Rightarrow> getRoot m v \<noteq> None)"

definition getVersionList :: "state_manager \<Rightarrow> string list" where
  "getVersionList m = map fst (sm_rootMap m)"

definition getFinalRoot :: "state_manager \<Rightarrow> snode option" where
  "getFinalRoot m = (case sm_finalVersion m of None \<Rightarrow> None | Some v \<Rightarrow> getRoot m v)"

text \<open>The new root and the manager; \<open>None\<close> for \<open>null\<close>, when nothing changes.\<close>

definition cloneVersion :: "string option \<Rightarrow> string \<Rightarrow> state_manager \<Rightarrow> (snode \<times> state_manager) option" where
  "cloneVersion version newVersion m =
     (if \<not> hasVersion m version \<or> hasVersion m (Some newVersion) then None
      else case getRoot m (the version) of
             None \<Rightarrow> None
           | Some rt \<Rightarrow> Some (rt, setRoot newVersion rt m))"

definition cloneFinalVersion :: "string \<Rightarrow> state_manager \<Rightarrow> (snode \<times> state_manager) option" where
  "cloneFinalVersion newVersion m = cloneVersion (sm_finalVersion m) newVersion m"

definition deleteVersion :: "string option \<Rightarrow> state_manager \<Rightarrow> bool \<times> state_manager" where
  "deleteVersion version m =
     (if \<not> hasVersion m version \<or> isFinalVersion m version then (False, m)
      else (True, deleteRoot (the version) m))"

definition finalizeVersion :: "string \<Rightarrow> state_manager \<Rightarrow> bool \<times> state_manager" where
  "finalizeVersion version m =
     (if isFinalVersion m (Some version) \<or> \<not> hasVersion m (Some version) then (False, m)
      else (True, m\<lparr>sm_finalVersion := Some version\<rparr>))"

text \<open>The loop over the index, with one step more than there are versions.\<close>

definition version_name :: "string \<Rightarrow> rat \<Rightarrow> nat \<Rightarrow> string" where
  "version_name versionPrefix timestamp i =
     versionPrefix @ '':'' @ num_string (\<lambda>q. []) timestamp @ '':'' @ nat_string i"

fun uniqueVersionFrom :: "nat \<Rightarrow> state_manager \<Rightarrow> string \<Rightarrow> rat \<Rightarrow> nat \<Rightarrow> string option" where
  "uniqueVersionFrom 0 m versionPrefix timestamp i = None"
| "uniqueVersionFrom (Suc n) m versionPrefix timestamp i =
     (let version = version_name versionPrefix timestamp i in
      if hasVersion m (Some version) then uniqueVersionFrom n m versionPrefix timestamp (i + 1) else Some version)"

definition createUniqueVersionName :: "string \<Rightarrow> rat \<Rightarrow> state_manager \<Rightarrow> string option" where
  "createUniqueVersionName versionPrefix timestamp m = uniqueVersionFrom (numVersions m + 1) m versionPrefix timestamp 0"

definition cloneToTempVersion :: "string option \<Rightarrow> string \<Rightarrow> rat \<Rightarrow> state_manager \<Rightarrow> (string \<times> snode) option \<times> state_manager" where
  "cloneToTempVersion stateVersion versionPrefix timestamp m =
     (case createUniqueVersionName versionPrefix timestamp m of
        None \<Rightarrow> (None, m)
      | Some tempVersion \<Rightarrow>
          (case cloneVersion stateVersion tempVersion m of
             None \<Rightarrow> (None, m)
           | Some (tempRoot, m') \<Rightarrow> (Some (tempVersion, tempRoot), m')))"

subsection \<open>Unique names are found\<close>

lemma version_name_inj: "version_name p t i = version_name p t j \<Longrightarrow> i = j"
  by (auto simp: version_name_def dest: nat_string_inj)

lemma uniqueVersionFrom_None:
  "uniqueVersionFrom n m p t i = None \<Longrightarrow> k < n \<Longrightarrow> hasVersion m (Some (version_name p t (i + k)))"
proof (induction n arbitrary: i k)
  case (Suc n)
  then have h: "hasVersion m (Some (version_name p t i))" "uniqueVersionFrom n m p t (Suc i) = None"
    by (auto simp: Let_def split: if_splits)
  show ?case
  proof (cases k)
    case (Suc k')
    then show ?thesis using Suc.IH [OF h(2), of k'] Suc.prems(2) by simp
  qed (simp add: h)
qed simp

lemma uniqueVersionFrom_Some: "uniqueVersionFrom n m p t i = Some v \<Longrightarrow> \<not> hasVersion m (Some v)"
  by (induction n arbitrary: i) (auto simp: Let_def split: if_splits)

lemma createUniqueVersionName_ex:
  obtains v where "createUniqueVersionName p t m = Some v" "\<not> hasVersion m (Some v)"
proof (cases "createUniqueVersionName p t m")
  case None
  let ?N = "(\<lambda>k. version_name p t k) ` {..numVersions m}"
  have "?N \<subseteq> fst ` set (sm_rootMap m)"
  proof
    fix x
    assume "x \<in> ?N"
    then obtain k where "x = version_name p t k" "k < numVersions m + 1" by auto
    then have "hasVersion m (Some x)"
      using uniqueVersionFrom_None [of "numVersions m + 1" m p t 0 k] None by (simp add: createUniqueVersionName_def)
    then show "x \<in> fst ` set (sm_rootMap m)"
      by (auto simp: hasVersion_def getRoot_def dest: map_of_SomeD intro: rev_image_eqI)
  qed
  then have "card ?N \<le> card (fst ` set (sm_rootMap m))" by (rule card_mono [rotated]) simp
  also have "\<dots> \<le> numVersions m" unfolding numVersions_def by (metis card_length image_set length_map)
  finally have "card ?N \<le> numVersions m" .
  moreover have "card ?N = numVersions m + 1"
    using version_name_inj by (subst card_image) (auto intro!: inj_onI)
  ultimately show ?thesis by simp
next
  case (Some v)
  then show ?thesis using that uniqueVersionFrom_Some [of _ m p t 0 v] unfolding createUniqueVersionName_def by blast
qed

end
