(* ===== verification/Execution.thy ===== *)
theory Execution
  imports Operations StateManager
begin

text \<open>
  Executing a transaction, \<open>executeTransaction\<close> of \<open>db/index.js\<close>: the versions of the database with
  backup and restore, the checks before execution, the collection of the gas fee and the receipt. The
  root of the database is the root its version has in the state manager, so the manager's entry for
  this version is brought up to date before the manager is used. The clock stands still during a
  transaction.
\<close>

subsection \<open>The database and its versions\<close>

record db_state =
  db_exec :: exec_state
  db_stateVersion :: "string option"
  db_backup :: "(string \<times> snode) option"
  db_manager :: state_manager
  db_lastBlockNumber :: rat
  db_now :: rat

type_synonym 'a dbx = "(db_state, 'a) effect"

definition lift_exec :: "'a exec \<Rightarrow> 'a dbx" where
  "lift_exec m db = (case m (db_exec db) of (r, s) \<Rightarrow> (r, db\<lparr>db_exec := s\<rparr>))"

definition db_root :: "db_state \<Rightarrow> snode" where
  "db_root db = es_root (db_exec db)"

definition get_db :: "db_state dbx" where
  "get_db db = (Returned db, db)"

definition change_db :: "(db_state \<Rightarrow> 'a \<times> db_state) \<Rightarrow> 'a dbx" where
  "change_db f db = (case f db of (x, db') \<Rightarrow> (Returned x, db'))"

definition syncedManager :: "db_state \<Rightarrow> state_manager" where
  "syncedManager db =
     (case db_stateVersion db of
        Some v \<Rightarrow> (if hasVersion (db_manager db) (Some v) then setRoot v (db_root db) (db_manager db) else db_manager db)
      | None \<Rightarrow> db_manager db)"

text \<open>The deletion of a version that the manager refuses is only logged.\<close>

definition deleteStateVersion :: "db_state \<Rightarrow> bool \<times> db_state" where
  "deleteStateVersion db =
     (case db_stateVersion db of
        None \<Rightarrow> (True, db)
      | Some v \<Rightarrow> (True, db\<lparr>db_manager := snd (deleteVersion (Some v) (syncedManager db)), db_stateVersion := None\<rparr>))"

definition deleteBackupStateVersion :: "db_state \<Rightarrow> bool \<times> db_state" where
  "deleteBackupStateVersion db =
     (case db_backup db of
        None \<Rightarrow> (True, db)
      | Some (v, _) \<Rightarrow> (True, db\<lparr>db_manager := snd (deleteVersion (Some v) (db_manager db)), db_backup := None\<rparr>))"

definition setStateVersion :: "string \<Rightarrow> snode \<Rightarrow> db_state \<Rightarrow> bool \<times> db_state" where
  "setStateVersion version rt db =
     (if db_stateVersion db = Some version \<or> map_option fst (db_backup db) = Some version then (False, db)
      else
        let db' = (if isFinalVersion (db_manager db) (db_stateVersion db)
                   then db\<lparr>db_manager := syncedManager db\<rparr> else snd (deleteStateVersion db))
        in (True, db'\<lparr>db_stateVersion := Some version, db_exec := (db_exec db')\<lparr>es_root := rt\<rparr>\<rparr>))"

definition setBackupStateVersion :: "string \<Rightarrow> snode \<Rightarrow> db_state \<Rightarrow> bool \<times> db_state" where
  "setBackupStateVersion version rt db =
     (if map_option fst (db_backup db) = Some version \<or> db_stateVersion db = Some version then (False, db)
      else (True, (snd (deleteBackupStateVersion db))\<lparr>db_backup := Some (version, rt)\<rparr>))"

definition versionName :: "string \<Rightarrow> db_state \<Rightarrow> string" where
  "versionName label db =
     (case createUniqueVersionName (label @ '':'' @ num_string (\<lambda>q. []) (db_lastBlockNumber db)) (db_now db) (db_manager db) of
        Some name \<Rightarrow> name
      | None \<Rightarrow> label)"

definition backupDb :: "db_state \<Rightarrow> bool \<times> db_state" where
  "backupDb db =
     (let backupVersion = versionName ''BACKUP'' db in
      case cloneVersion (db_stateVersion db) backupVersion (syncedManager db) of
        None \<Rightarrow> (False, db)
      | Some (backupRoot, m) \<Rightarrow> (True, snd (setBackupStateVersion backupVersion backupRoot (db\<lparr>db_manager := m\<rparr>))))"

definition restoreDb :: "db_state \<Rightarrow> bool \<times> db_state" where
  "restoreDb db =
     (let restoreVersion = versionName ''NODE'' db in
      case cloneVersion (map_option fst (db_backup db)) restoreVersion (syncedManager db) of
        None \<Rightarrow> (False, db)
      | Some (restoreRoot, m) \<Rightarrow>
          let m' = (if isFinalVersion m (db_stateVersion db) then snd (finalizeVersion restoreVersion m) else m);
              db' = snd (setStateVersion restoreVersion restoreRoot (db\<lparr>db_manager := m'\<rparr>))
          in (True, snd (deleteBackupStateVersion db')))"

definition destroyDb :: "db_state \<Rightarrow> db_state" where
  "destroyDb db = snd (deleteBackupStateVersion (snd (deleteStateVersion db)))"

subsection \<open>Checks before the execution\<close>

definition dbIsBillingUser :: "exec_env \<Rightarrow> snode \<Rightarrow> string \<Rightarrow> string \<Rightarrow> string \<Rightarrow> bool" where
  "dbIsBillingUser env stateRoot billingAppName billingId userAddr =
     (getValueFromStateRoot stateRoot (getManageAppBillingUsersPath billingAppName billingId @ ''/'' @ userAddr) = JBool True)"

definition dbGetBalance :: "exec_env \<Rightarrow> snode \<Rightarrow> string \<Rightarrow> jsval" where
  "dbGetBalance env stateRoot addrOrServAcnt =
     js_or (getValueFromStateRoot stateRoot (getBalancePath (va_rule_env (xe_valid env)) addrOrServAcnt)) (JNum 0)"

text \<open>The result codes; \<open>None\<close> is \<open>true\<close>.\<close>

definition precheckNonceAndTimestamp :: "snode \<Rightarrow> jsval \<Rightarrow> jsval \<Rightarrow> string \<Rightarrow> int option" where
  "precheckNonceAndTimestamp stateRoot nonce timestamp addr =
     (let (accountNonce, accountTimestamp) = getAccountNonceAndTimestampFromStateRoot stateRoot addr in
      if \<not> isNumber nonce then Some 10710
      else if \<not> isNumber timestamp then Some 10711
      else if js_le (JNum 0) nonce \<and> nonce \<noteq> accountNonce then Some 10712
      else if nonce = JNum (-2) \<and> js_le timestamp accountTimestamp then Some 10713
      else None)"

definition precheckTxBillingParams :: "exec_env \<Rightarrow> snode \<Rightarrow> jsval \<Rightarrow> string \<Rightarrow> jsval \<Rightarrow> jsval \<Rightarrow> int option" where
  "precheckTxBillingParams env stateRoot p addr billing blockNumber =
     (if \<not> truthy billing \<or> blockNumber = JNum 0 then None
      else
        let parsed = parseServAcntName (stringOrEmpty billing);
            appNameList = getServiceDependentAppNameList p
        in if parsed ! 0 = None \<or> parsed ! 1 = None \<or> parsed ! 2 \<noteq> None then Some 10801
           else if \<not> dbIsBillingUser env stateRoot (template (parsed ! 0)) (template (parsed ! 1)) addr then Some 10802
           else if length appNameList > 1 then Some 10803
           else if length appNameList = 1 \<and> Some (hd appNameList) \<noteq> parsed ! 0 then Some 10804
           else None)"

text \<open>
  The code then loops over the apps of the operation with \<open>forEach\<close> and returns a result from inside
  the callback when the stake of an app is too low; such a result is dropped.
\<close>

definition precheckBalanceAndStakes :: "exec_env \<Rightarrow> snode \<Rightarrow> jsval \<Rightarrow> string \<Rightarrow> jsval \<Rightarrow> jsval \<Rightarrow> int option" where
  "precheckBalanceAndStakes env stateRoot p addr billing blockNumber =
     (if blockNumber = JNum 0 then None
      else
        let billedTo = (if truthy billing then toBillingAccountName (stringOrEmpty billing) else addr);
            minBalance = getBlockchainParam env ''resource'' ''min_balance_for_service_tx'' blockNumber stateRoot
        in if hasServiceOp p \<and> js_lt (dbGetBalance env stateRoot billedTo) minBalance then Some 10805
           else None)"

definition precheckTransaction :: "exec_env \<Rightarrow> snode \<Rightarrow> transaction \<Rightarrow> bool \<Rightarrow> jsval \<Rightarrow> int option" where
  "precheckTransaction env stateRoot tx skipFees blockNumber =
     (let body = tx_body tx; gasPrice = prop_get body ''gas_price''; billing = prop_get body ''billing'';
          p = prop_get body ''operation''; addr = tx_address tx;
          minGasPrice = getBlockchainParam env ''resource'' ''min_gas_price'' blockNumber stateRoot
      in if \<not> truthy body then Some 10706
         else if \<not> isInteger gasPrice \<or>
                 gasPrice \<noteq> JNum 0 \<and> (js_lt gasPrice (JNum 0) \<or> js_lt gasPrice minGasPrice) then Some 10714
         else case precheckNonceAndTimestamp stateRoot (prop_get body ''nonce'') (prop_get body ''timestamp'') addr of
                Some code \<Rightarrow> Some code
              | None \<Rightarrow>
                  if skipFees then None
                  else case precheckTxBillingParams env stateRoot p addr billing blockNumber of
                         Some code \<Rightarrow> Some code
                       | None \<Rightarrow> precheckBalanceAndStakes env stateRoot p addr billing blockNumber)"

subsection \<open>Fees and receipts\<close>

definition billedAccount :: "exec_env \<Rightarrow> snode \<Rightarrow> jsval \<Rightarrow> string \<Rightarrow> string" where
  "billedAccount env stateRoot billing addr =
     (if \<not> truthy billing then addr
      else
        let parsed = parseServAcntName (stringOrEmpty billing) in
        if dbIsBillingUser env stateRoot (template (parsed ! 0)) (template (parsed ! 1)) addr
        then toBillingAccountName (stringOrEmpty billing) else addr)"

definition gasCost :: "exec_env \<Rightarrow> jsval \<Rightarrow> transaction \<Rightarrow> snode \<Rightarrow> jsval \<Rightarrow> rat" where
  "gasCost env blockNumber tx stateRoot gasAmount =
     getTotalGasCost (prop_get (tx_body tx) ''gas_price'') gasAmount
       (numberOrZero (getBlockchainParam env ''resource'' ''gas_price_unit'' blockNumber stateRoot))
       (flagEnabled env ''allow_up_to_6_decimal_transfer_value_only'' blockNumber)"

text \<open>The gas to charge when the balance is not enough: the changes of the operation are reverted first.\<close>

definition chargeWhatIsLeft :: "exec_env \<Rightarrow> string \<Rightarrow> rat \<Rightarrow> jsval dbx" where
  "chargeWhatIsLeft env billedTo serviceBandwidth =
     andThen (change_db restoreDb) (\<lambda>_. andThen get_db (\<lambda>db.
       ret (js_min (dbGetBalance env (db_root db) billedTo) (JNum serviceBandwidth))))"

text \<open>The price unit and the parameters are those at the start, before a restore.\<close>

definition collectFee ::
  "exec_env \<Rightarrow> jsval \<Rightarrow> transaction \<Rightarrow> op_args \<Rightarrow> exec_result \<Rightarrow> bool \<Rightarrow> exec_result dbx" where
  "collectFee env auth tx args r isDryrun =
     andThen get_db (\<lambda>db.
       let stateRoot = db_root db; blockNumber = oa_blockNumber args;
           gasPrice = prop_get (tx_body tx) ''gas_price'';
           addr = js_string (xe_dstr env) (prop_get auth ''addr'');
           cost = gasCost env blockNumber tx stateRoot;
           serviceBandwidth = g_service (xr_bandwidth r);
           gasAmount = js_add (xe_dstr env) (JNum serviceBandwidth)
             (if isFailedExecution r then JNum 0 else xr_stateService r);
           charged = (\<lambda>amount r. r\<lparr>xr_gasAmountCharged := amount, xr_gasCostTotal := cost amount\<rparr>)
       in if js_le gasAmount (JNum 0) \<or> gasPrice = JNum 0 then ret (charged gasAmount r)
          else
            let billedTo = billedAccount env stateRoot (prop_get (tx_body tx) ''billing'') addr;
                tooLow = (\<not> isDryrun \<and> js_lt (dbGetBalance env stateRoot billedTo) (JNum (cost gasAmount)))
            in andThen (if tooLow then chargeWhatIsLeft env billedTo serviceBandwidth else ret gasAmount) (\<lambda>amount.
                 let r' = charged amount (if tooLow then set_code 11001 r else r) in
                 if isDryrun \<or> xr_gasCostTotal r' \<le> 0 then ret r'
                 else andThen (lift_exec (setValue env
                        (getGasFeeCollectPath (js_string (xe_dstr env) blockNumber) billedTo (tx_hash tx))
                        (JObj [(''amount'', JNum (xr_gasCostTotal r'))]) auth tx
                        \<lparr>eo_timestamp = oa_timestamp args, eo_blockNumber = blockNumber, eo_blockTime = oa_blockTime args,
                         so_isGlobal = False, so_eventSource = oa_eventSource args\<rparr>)) (\<lambda>collected.
                   ret (if isFailedTx (Some collected) then set_code 11002 r' else r'))))"

definition trimExecutionResult :: "exec_result \<Rightarrow> jsval" where
  "trimExecutionResult r =
     JObj ((case xr_code r of None \<Rightarrow> [] | Some c \<Rightarrow> [(''code'', JNum (of_int c))])
       @ (if xr_gasAmountCharged r = JUndef then [] else [(''gas_amount_charged'', xr_gasAmountCharged r)])
       @ [(''gas_cost_total'', JNum (xr_gasCostTotal r))]
       @ (case tr_list (xr_result r) of
            None \<Rightarrow> []
          | Some rs \<Rightarrow> [(''result_list'', JObj (map (\<lambda>(i, res). (nat_string i, JObj [(''code'', JNum (of_int (tr_code res)))])) rs))]))"

definition recordReceipt :: "exec_env \<Rightarrow> jsval \<Rightarrow> transaction \<Rightarrow> jsval \<Rightarrow> exec_result \<Rightarrow> unit exec" where
  "recordReceipt env auth tx blockNumber r =
     (let billing = prop_get (tx_body tx) ''billing'';
          receipt = JObj ([(''address'', prop_get auth ''addr''), (''block_number'', blockNumber),
                           (''exec_result'', trimExecutionResult r)]
                          @ (if truthy billing then [(''billing'', billing)] else []));
          parsedPath = parsePath (getReceiptPath (tx_hash tx))
      in andThen (change_root (\<lambda>rt. writeToStateRoot rt (getFullPath parsedPath ''values'') receipt)) (\<lambda>_.
           andThen get_root (\<lambda>stateRoot.
             case applyStateGarbageCollectionRule stateRoot (to_matched_rule (matchRulePath stateRoot parsedPath ''state'') None)
                    parsedPath of
               None \<Rightarrow> raise
             | Some (n, stateRoot') \<Rightarrow> change_root (\<lambda>_. stateRoot'))))"

subsection \<open>The transaction\<close>

record tx_options =
  to_skipFees :: bool
  to_restoreIfFails :: bool
  to_blockNumber :: jsval
  to_blockTime :: jsval
  to_eventSource :: jsval
  to_isDryrun :: bool

definition checkFailed :: "int \<Rightarrow> exec_result" where
  "checkFailed code = newResult (returnTxResult code 0 [] []) zero_gas"

definition tx_args :: "tx_options \<Rightarrow> transaction \<Rightarrow> op_args" where
  "tx_args opts tx =
     \<lparr>oa_nonce = prop_get (tx_body tx) ''nonce'', oa_timestamp = prop_get (tx_body tx) ''timestamp'',
      oa_blockNumber = to_blockNumber opts, oa_blockTime = to_blockTime opts, oa_eventSource = to_eventSource opts\<rparr>"

definition feesAndReceipt :: "exec_env \<Rightarrow> tx_options \<Rightarrow> jsval \<Rightarrow> transaction \<Rightarrow> exec_result \<Rightarrow> exec_result dbx" where
  "feesAndReceipt env opts auth tx r =
     (if to_skipFees opts then ret r
      else andThen (if xe_enableGasFeeCollection env then collectFee env auth tx (tx_args opts tx) r (to_isDryrun opts) else ret r)
        (\<lambda>r'. andThen (if flagEnabled env ''disable_tx_receipt_recording'' (to_blockNumber opts) then ret ()
                       else lift_exec (recordReceipt env auth tx (to_blockNumber opts) r'))
           (\<lambda>_. ret r')))"

definition settle :: "tx_options \<Rightarrow> exec_result \<Rightarrow> bool dbx" where
  "settle opts r =
     (if to_isDryrun opts then change_db restoreDb
      else if to_restoreIfFails opts then
        (if isFailedExecution r then change_db restoreDb else change_db deleteBackupStateVersion)
      else ret True)"

definition executeTransaction :: "exec_env \<Rightarrow> tx_options \<Rightarrow> transaction \<Rightarrow> exec_result dbx" where
  "executeTransaction env opts tx =
     andThen get_db (\<lambda>db.
       case precheckTransaction env (db_root db) tx (to_skipFees opts) (to_blockNumber opts) of
         Some code \<Rightarrow> ret (checkFailed code)
       | None \<Rightarrow>
           andThen (if to_restoreIfFails opts \<or> to_isDryrun opts then change_db backupDb else ret True) (\<lambda>backedUp.
             if \<not> backedUp then ret (checkFailed 16001)
             else
               let tx' = setExtraField ''executed_at'' (JNum (db_now db)) tx;
                   auth = JObj [(''addr'', JStr (tx_address tx))]
               in andThen (lift_exec (executeOperation env (prop_get (tx_body tx) ''operation'') auth (tx_args opts tx) tx')) (\<lambda>r.
                 let r1 = (if to_isDryrun opts then r\<lparr>xr_isDryrun := True\<rparr> else r) in
                 andThen (feesAndReceipt env opts auth tx' r1) (\<lambda>r2.
                   andThen (settle opts r2) (\<lambda>_. ret r2)))))"

definition FailedTxPrecheckCodeSet :: "int set" where
  "FailedTxPrecheckCodeSet =
     {10707, 10706, 10710, 10711, 10712, 10713, 10714, 16001, 10801, 10802, 10803, 10804, 10805, 10806}"

definition txPrecheckFailed :: "exec_result \<Rightarrow> bool" where
  "txPrecheckFailed r = (case xr_code r of None \<Rightarrow> False | Some c \<Rightarrow> c \<in> FailedTxPrecheckCodeSet)"

text \<open>
  A transaction of the list is an instance of the class or a plain object, of which the transaction is
  created anew, with its address recovered from the signature; what cannot be created is not executable.
\<close>

definition executeExecutable :: "tx_env \<Rightarrow> exec_env \<Rightarrow> tx_options \<Rightarrow> bool \<Rightarrow> transaction \<Rightarrow> exec_result dbx" where
  "executeExecutable txe env opts isInstance tx =
     andThen get_db (\<lambda>db.
       case toExecutable txe (db_now db) isInstance tx (xe_BlockchainParams env ''genesis'' ''chain_id'') of
         Inl e \<Rightarrow> raise
       | Inr None \<Rightarrow> ret (checkFailed 10707)
       | Inr (Some executableTx) \<Rightarrow> executeTransaction env opts executableTx)"

text \<open>The list of results; \<open>None\<close> is \<open>false\<close>, when the execution was aborted.\<close>

fun executeTransactionList ::
  "tx_env \<Rightarrow> exec_env \<Rightarrow> tx_options \<Rightarrow> bool \<Rightarrow> transaction list \<Rightarrow> exec_result list option dbx" where
  "executeTransactionList txe env opts isInstance [] = ret (Some [])"
| "executeTransactionList txe env opts isInstance (tx # txList) =
     andThen (executeExecutable txe env opts isInstance tx) (\<lambda>res.
       if isFailedExecution res \<and> txPrecheckFailed res \<and> \<not> to_restoreIfFails opts then ret None
       else andThen (executeTransactionList txe env opts isInstance txList) (\<lambda>rest. ret (map_option (\<lambda>rs. res # rs) rest)))"

end
