(* ===== verification/DbFuel.thy ===== *)
theory DbFuel
  imports DbWrite
begin

text \<open>
  Every write returns: the nesting of native functions is bounded, because a function on the call stack
  is not called again and there are only as many native functions as the table has.
\<close>

subsection \<open>Native functions\<close>

lemma fuel_setConfigValues:
  assumes "set_value_fuel sv"
  shows "enough_fuel (setConfigValues sv path kvs ctx)"
  by (induction kvs) (auto intro!: fuel_intros assms)

lemma fuel_incrementConsensusRewards:
  assumes "set_value_fuel sv"
  shows "enough_fuel (incrementConsensusRewards env sv a v ctx)"
  unfolding incrementConsensusRewards_def Let_def by (auto intro!: fuel_intros assms)

lemma fuel_distributeTo:
  assumes "set_value_fuel sv"
  shows "enough_fuel (distributeTo env sv ctx m g t stakes s)"
  by (induction stakes arbitrary: s)
    (auto simp: Let_def intro!: fuel_intros fuel_incrementConsensusRewards assms)

lemma fuel_handleOffensesOf:
  assumes "set_value_fuel sv"
  shows "enough_fuel (handleOffensesOf env sv os ctx)"
  by (induction os) (auto simp: Let_def intro!: fuel_intros assms)

lemma fuel_updateStakingTotals:
  assumes "set_value_fuel sv" and "\<And>path. enough_fuel (change path)"
  shows "enough_fuel (updateStakingTotals env sv change s ctx)"
  unfolding updateStakingTotals_def sumUpStakingBalanceTotal_def Let_def
  by (auto intro!: fuel_intros assms)

lemma fuel_updateBoth:
  assumes "set_value_fuel sv"
  shows "enough_fuel (updateBoth (changeBy env sv amount b ctx) p1 p2)"
  unfolding updateBoth_def changeBy_def by (auto intro!: fuel_intros assms)

lemma fuel_token_bridge:
  assumes "set_value_fuel sv"
  shows "enough_fuel (updateStatsForPendingCheckin env sv sender tokenPool amount b ctx)"
    "enough_fuel (updateStatsForCompleteCheckin env sv user amount ctx)"
    "enough_fuel (updateStatsForPendingCheckout env sv user amount b ctx)"
    "enough_fuel (updateStatsForCompleteCheckout env sv amount t ctx)"
    "enough_fuel (validateCheckinAmount env sender amount tokenPool ctx)"
    "enough_fuel (validateCheckoutAmount env amount t config)"
    "enough_fuel (readTokenBridgeConfig ctx)"
  unfolding updateStatsForPendingCheckin_def updateStatsForCompleteCheckin_def updateStatsForPendingCheckout_def
    updateStatsForCompleteCheckout_def validateCheckinAmount_def validateCheckoutAmount_def readTokenBridgeConfig_def Let_def
  by (auto intro!: fuel_intros fuel_updateBoth assms)

lemmas fuel_helpers = fuel_setConfigValues fuel_incrementConsensusRewards fuel_distributeTo fuel_handleOffensesOf
  fuel_updateStakingTotals fuel_token_bridge

lemma fuel_natives_basic:
  assumes "set_value_fuel sv"
  shows "enough_fuel (native_saveLastTx env sv v ctx)" "enough_fuel (native_eraseValue env sv v ctx)"
    "enough_fuel (native_fail env sv v ctx)" "enough_fuel (native_setOwnerConfig env sv v ctx)"
    "enough_fuel (native_collectFee env sv v ctx)" "enough_fuel (native_claimReward env sv v ctx)"
    "enough_fuel (native_handleOffenses env sv v ctx)" "enough_fuel (native_pay env sv v ctx)"
    "enough_fuel (native_claim env sv v ctx)" "enough_fuel (native_hold env sv v ctx)"
    "enough_fuel (native_updateLatestShardReport env sv v ctx)"
  unfolding native_saveLastTx_def native_eraseValue_def native_fail_def native_setOwnerConfig_def native_collectFee_def
    native_claimReward_def native_handleOffenses_def native_pay_def native_claim_def native_hold_def
    native_updateLatestShardReport_def Let_def
  by (auto intro!: fuel_intros fuel_helpers assms)

lemma fuel_natives_transfer:
  assumes "set_value_fuel sv"
  shows "enough_fuel (native_transfer env sv v ctx)"
  unfolding native_transfer_def registrationGas_def isNonExistingAccount_def Let_def
  by (auto intro!: fuel_intros assms)

lemma fuel_natives_createApp:
  assumes "set_value_fuel sv"
  shows "enough_fuel (native_createApp env sv v ctx)"
  unfolding native_createApp_def Let_def by (auto intro!: fuel_intros fuel_helpers assms)

lemma fuel_natives_distributeFee:
  assumes "set_value_fuel sv"
  shows "enough_fuel (native_distributeFee env sv v ctx)"
  unfolding native_distributeFee_def Let_def by (auto intro!: fuel_intros fuel_helpers assms)

lemma fuel_natives_stake:
  assumes "set_value_fuel sv"
  shows "enough_fuel (native_stake env sv v ctx)" "enough_fuel (native_unstake env sv v ctx)"
  unfolding native_stake_def native_unstake_def Let_def by (auto intro!: fuel_intros fuel_helpers assms)

lemma fuel_natives_release:
  assumes "set_value_fuel sv"
  shows "enough_fuel (native_release env sv v ctx)"
  unfolding native_release_def transferIfPositive_def Let_def by (auto intro!: fuel_intros assms)

lemma fuel_natives_checkin:
  assumes "set_value_fuel sv"
  shows "enough_fuel (native_openCheckin env sv v ctx)" "enough_fuel (native_cancelCheckin env sv v ctx)"
    "enough_fuel (native_closeCheckin env sv v ctx)"
  unfolding native_openCheckin_def native_cancelCheckin_def native_closeCheckin_def Let_def
  by (auto intro!: fuel_intros fuel_helpers assms)

lemma fuel_natives_checkout:
  assumes "set_value_fuel sv"
  shows "enough_fuel (native_openCheckout env sv v ctx)" "enough_fuel (native_closeCheckout env sv v ctx)"
  unfolding native_openCheckout_def native_closeCheckout_def Let_def
  by (auto intro!: fuel_intros fuel_helpers assms)

lemma fuel_native:
  assumes "set_value_fuel sv" and "map_of nativeFunctionMap fid = Some f"
  shows "enough_fuel (f env sv v ctx)"
proof -
  have "f \<in> snd ` set nativeFunctionMap" using assms(2) by (metis map_of_SomeD image_eqI snd_conv)
  then show ?thesis
    using fuel_natives_basic [OF assms(1)] fuel_natives_transfer [OF assms(1)] fuel_natives_createApp [OF assms(1)]
      fuel_natives_distributeFee [OF assms(1)] fuel_natives_stake [OF assms(1)] fuel_natives_release [OF assms(1)]
      fuel_natives_checkin [OF assms(1)] fuel_natives_checkout [OF assms(1)]
    by (auto simp: nativeFunctionMap_def)
qed

subsection \<open>Triggering and writing\<close>

text \<open>Every native function that may be called from the call stack finds enough fuel.\<close>

definition deeper_fuel :: "(string list \<Rightarrow> set_value) \<Rightarrow> string list \<Rightarrow> bool" where
  "deeper_fuel svAt fids \<longleftrightarrow>
     (\<forall>fid. fid \<notin> set fids \<longrightarrow> fid \<in> fst ` set nativeFunctionMap \<longrightarrow> set_value_fuel (svAt (fids @ [fid])))"

lemma fuel_triggerList:
  assumes "deeper_fuel svAt fids"
  shows "enough_fuel (triggerList env svAt fids args fp ps vp v pv es rs)"
proof (induction es arbitrary: rs)
  case (Cons e es)
  have native: "enough_fuel (f env (svAt (fids @ [fid])) v ctx)"
    if "\<not> isCircularCall fids fid" "map_of nativeFunctionMap fid = Some f" for fid f ctx
  proof (rule fuel_native [OF _ that(2)])
    have "fid \<in> fst ` set nativeFunctionMap" using that(2) by (metis map_of_SomeD image_eqI fst_conv)
    then show "set_value_fuel (svAt (fids @ [fid]))" using assms that(1) by (simp add: deeper_fuel_def isCircularCall_def)
  qed
  show ?case
    unfolding triggerList.simps Let_def
    by (auto intro!: fuel_intros Cons.IH native split: option.splits)
qed (simp add: fuel_intros)

lemma fuel_triggers:
  assumes "deeper_fuel svAt fids"
  shows "enough_fuel (triggerFunctions env svAt fids args fp vars fm vp v pv)"
    "enough_fuel (triggerSubtree env svAt fids args mf vp v pv c)"
    "enough_fuel (matchAndTriggerFunctions env svAt fids args vp v pv)"
proof -
  show t: "enough_fuel (triggerFunctions env svAt fids args fp vars fm vp v pv)" for fp vars fm vp v pv
    unfolding triggerFunctions_def by (rule fuel_triggerList [OF assms])
  show s: "enough_fuel (triggerSubtree env svAt fids args mf vp v pv c)" for mf c
    unfolding triggerSubtree_def Let_def by (auto intro!: fuel_intros t)
  show "enough_fuel (matchAndTriggerFunctions env svAt fids args vp v pv)"
    unfolding matchAndTriggerFunctions_def Let_def by (auto intro!: fuel_intros t s)
qed

lemma fuel_applyValue:
  assumes "deeper_fuel svAt fids"
  shows "enough_fuel (applyValue env svAt fids gas sr lp v auth tx opts)"
proof -
  have f: "enough_fuel (finishSetValue env opts auth sr lp v pvc vc r)" for pvc vc r
    unfolding finishSetValue_def by (auto intro!: fuel_intros)
  show ?thesis
    unfolding applyValue_def readChainParams_def Let_def
    by (auto intro!: fuel_intros f fuel_triggers assms)
qed

lemma fuel_setValueBody:
  assumes "deeper_fuel svAt fids"
  shows "set_value_fuel (setValueBody env svAt fids)"
  unfolding set_value_fuel_def setValueBody_def Let_def
  by (auto intro!: fuel_intros fuel_applyValue assms)

lemma fuel_setValueAt:
  assumes "distinct fids" "set fids \<subseteq> fst ` set nativeFunctionMap" "call_fuel \<le> length fids + n"
  shows "set_value_fuel (setValueAt n env fids)"
  using assms
proof (induction n arbitrary: fids)
  case 0
  have "length fids = card (set fids)" using 0(1) by (simp add: distinct_card)
  also have "\<dots> \<le> card (fst ` set nativeFunctionMap)" using 0(2) by (intro card_mono) simp_all
  also have "\<dots> \<le> length nativeFunctionMap" by (metis card_length image_set length_map)
  finally show ?case using 0(3) by (simp add: nativeFunctionMap_def call_fuel_def)
next
  case (Suc n)
  have "deeper_fuel (setValueAt n env) fids"
    unfolding deeper_fuel_def
  proof (intro allI impI)
    fix fid
    assume "fid \<notin> set fids" "fid \<in> fst ` set nativeFunctionMap"
    then show "set_value_fuel (setValueAt n env (fids @ [fid]))" using Suc.prems by (intro Suc.IH) simp_all
  qed
  then show ?case by (simp add: fuel_setValueBody)
qed

lemma fuel_setValue: "set_value_fuel (setValue env)"
  unfolding setValue_def by (rule fuel_setValueAt) simp_all

text \<open>More fuel than is enough gives the same result.\<close>

definition deeper_same :: "(string list \<Rightarrow> set_value) \<Rightarrow> (string list \<Rightarrow> set_value) \<Rightarrow> string list \<Rightarrow> bool" where
  "deeper_same sv1 sv2 fids \<longleftrightarrow>
     (\<forall>fid. fid \<notin> set fids \<longrightarrow> fid \<in> fst ` set nativeFunctionMap \<longrightarrow> sv1 (fids @ [fid]) = sv2 (fids @ [fid]))"

lemma triggerList_same:
  assumes "deeper_same sv1 sv2 fids"
  shows "triggerList env sv1 fids args fp ps vp v pv es rs = triggerList env sv2 fids args fp ps vp v pv es rs"
proof (induction es arbitrary: rs)
  case (Cons e es)
  have "sv1 (fids @ [fid]) = sv2 (fids @ [fid])"
    if "\<not> isCircularCall fids fid" "map_of nativeFunctionMap fid = Some f" for fid f
  proof -
    have "fid \<in> fst ` set nativeFunctionMap" using that(2) by (metis map_of_SomeD image_eqI fst_conv)
    then show ?thesis using assms that(1) by (simp add: deeper_same_def isCircularCall_def)
  qed
  then show ?case unfolding triggerList.simps Let_def Cons.IH by (auto split: option.splits)
qed simp

lemma setValueBody_same:
  assumes "deeper_same sv1 sv2 fids"
  shows "setValueBody env sv1 fids = setValueBody env sv2 fids"
proof -
  have t: "triggerFunctions env sv1 fids = triggerFunctions env sv2 fids"
    by (intro ext) (simp add: triggerFunctions_def triggerList_same [OF assms])
  then have "triggerSubtree env sv1 fids = triggerSubtree env sv2 fids"
    by (intro ext) (simp only: triggerSubtree_def)
  with t have "matchAndTriggerFunctions env sv1 fids = matchAndTriggerFunctions env sv2 fids"
    by (intro ext) (simp only: matchAndTriggerFunctions_def)
  then have "applyValue env sv1 fids = applyValue env sv2 fids" by (intro ext) (simp only: applyValue_def)
  then show ?thesis by (intro ext) (simp only: setValueBody_def)
qed

lemma setValueAt_same:
  assumes "distinct fids" "set fids \<subseteq> fst ` set nativeFunctionMap" "call_fuel \<le> length fids + n" "n \<le> m"
  shows "setValueAt m env fids = setValueAt n env fids"
  using assms
proof (induction n arbitrary: m fids)
  case 0
  have "length fids = card (set fids)" using 0(1) by (simp add: distinct_card)
  also have "\<dots> \<le> card (fst ` set nativeFunctionMap)" using 0(2) by (intro card_mono) simp_all
  also have "\<dots> \<le> length nativeFunctionMap" by (metis card_length image_set length_map)
  finally show ?case using 0(3) by (simp add: nativeFunctionMap_def call_fuel_def)
next
  case (Suc n)
  obtain m' where m: "m = Suc m'" "n \<le> m'" using Suc.prems(4) by (cases m) auto
  have "deeper_same (setValueAt m' env) (setValueAt n env) fids"
    unfolding deeper_same_def
  proof (intro allI impI)
    fix fid
    assume "fid \<notin> set fids" "fid \<in> fst ` set nativeFunctionMap"
    then show "setValueAt m' env (fids @ [fid]) = setValueAt n env (fids @ [fid])"
      using Suc.prems m(2) by (intro Suc.IH) simp_all
  qed
  then show ?case by (simp add: m(1) setValueBody_same)
qed

text \<open>
  C22. Writing a value always comes to an end: the nested native functions never need more than the
  bound on the depth of the call stack, whatever functions the state configures and whatever the
  value, the transaction and the options are; and a larger bound would change no result.
\<close>

theorem every_write_returns:
  "fst (setValue env valuePath val auth tx opts s) \<noteq> OutOfFuel \<and>
   fst (incValue env (setValue env) valuePath val auth tx opts s) \<noteq> OutOfFuel \<and>
   fst (decValue env (setValue env) valuePath val auth tx opts s) \<noteq> OutOfFuel \<and>
   setValueAt (call_fuel + n) env [] = setValue env"
proof -
  note f = fuel_setValue [of env]
  have "enough_fuel (setValue env valuePath val auth tx opts)" using f by (simp add: set_value_fuel_def)
  moreover have "setValueAt (call_fuel + n) env [] = setValue env"
    unfolding setValue_def by (rule setValueAt_same) simp_all
  ultimately show ?thesis
    using enough_fuel_writes(1,2) [OF f] unfolding enough_fuel_def by (intro conjI) simp_all
qed

end
