(* ===== verification/Samples.thy ===== *)
theory Samples
  imports Execution DbFuel
begin

text \<open>
  A small database to apply the theorems to: every number parameter of the chain is 100, every timer
  flag is off, anyone may write values and configurations, and there are no functions. The other
  arguments of the environment are constants.
\<close>

definition sample_env :: exec_env where
  "sample_env =
     \<lparr>xe_valid = \<lparr>va_rule_env = \<lparr>re_isValidAddress = (\<lambda>_. True), re_toChecksumAddress = (\<lambda>s. s), re_isUrl = (\<lambda>_. True),
                                re_flagEnabled = (\<lambda>_ _. False)\<rparr>,
                 va_tokenize = (\<lambda>_. None), va_isValidUrl = (\<lambda>_. True)\<rparr>,
      xe_value = (\<lambda>_. \<lparr>ve_runRule = (\<lambda>_ _. RuleReturns (JBool True)), ve_sizeof = (\<lambda>_. 0)\<rparr>),
      xe_shardingPath = [], xe_BlockchainParams = (\<lambda>_ _. JNum 100), xe_dstr = (\<lambda>_. []),
      xe_hasEventHandler = False, xe_ENABLE_REST_FUNCTION_CALL = False,
      xe_enableGasFeeCollection = True, xe_enableGasFeeDistribution = True,
      xe_matchUrl = (\<lambda>_ _. False), xe_recover = (\<lambda>_ _. None), xe_proofHash = (\<lambda>_. []),
      xe_treeHeight = (\<lambda>_. 1), xe_treeSize = (\<lambda>_. 1), xe_treeBytes = (\<lambda>_. 1)\<rparr>"

definition full_permissions :: snode where
  "full_permissions = SNode [(''branch_owner'', SLeaf (JBool True)), (''write_function'', SLeaf (JBool True)),
                             (''write_owner'', SLeaf (JBool True)), (''write_rule'', SLeaf (JBool True))]"

definition sample_root :: snode where
  "sample_root =
     SNode [(''rules'', SNode [(''.rule'', SNode [(''write'', SLeaf (JBool True))])]),
            (''owners'', SNode [(''.owner'', SNode [(''owners'', SNode [(''*'', full_permissions)])])]),
            (''values'', SNode [(''accounts'', SNode [(''a'', SNode [(''balance'', SLeaf (JNum 10))]),
                                                      (''b'', SNode [(''balance'', SLeaf (JNum 1))])])])]"

definition sample_state :: exec_state where
  "sample_state = \<lparr>es_root = sample_root, es_opResults = [], es_events = []\<rparr>"

definition sample_tx :: "jsval \<Rightarrow> transaction" where
  "sample_tx p =
     \<lparr>tx_body = JObj [(''operation'', p), (''gas_price'', JNum 0), (''nonce'', JNum 0), (''timestamp'', JNum 5)],
      tx_signature = JNull, tx_hash = ''h'', tx_address = ''a'', tx_extra = []\<rparr>"

definition sample_auth :: jsval where
  "sample_auth = JObj [(''addr'', JStr ''a'')]"

definition sample_options :: set_options where
  "sample_options =
     \<lparr>eo_timestamp = JNum 5, eo_blockNumber = JNum 0, eo_blockTime = JNull, so_isGlobal = False, so_eventSource = JNull\<rparr>"

definition sample_args :: op_args where
  "sample_args =
     \<lparr>oa_nonce = JNum 0, oa_timestamp = JNum 5, oa_blockNumber = JNum 0, oa_blockTime = JNull, oa_eventSource = JNull\<rparr>"

definition sample_db :: db_state where
  "sample_db =
     \<lparr>db_exec = sample_state, db_stateVersion = Some ''v'', db_backup = None,
      db_manager = setRoot ''v'' sample_root newStateManager, db_lastBlockNumber = 0, db_now = 7\<rparr>"

definition sample_tx_options :: "bool \<Rightarrow> tx_options" where
  "sample_tx_options isDryrun =
     \<lparr>to_skipFees = True, to_restoreIfFails = True, to_blockNumber = JNum 0, to_blockTime = JNull,
      to_eventSource = JNull, to_isDryrun = isDryrun\<rparr>"

text \<open>A list of a write and an operation of an unknown type, and a single write.\<close>

definition sample_write :: jsval where
  "sample_write = JObj [(''ref'', JStr ''/x''), (''value'', JNum 1)]"

definition sample_bad :: jsval where
  "sample_bad = JObj [(''type'', JStr ''BAD''), (''ref'', JStr ''/x'')]"

definition sample_set :: "jsval list \<Rightarrow> jsval" where
  "sample_set ops = JObj [(''type'', JStr ''SET''), (''op_list'', JArr ops)]"

end
