(* ===== verification/VersionProps.thy ===== *)
theory VersionProps
  imports Samples
begin

text \<open>
  The versions of the database and what they give: a backup keeps the root it was taken of whatever is
  written afterwards, restoring brings it back, and so a transaction that fails or is a dry run leaves
  the state as it was. \<open>db_ok\<close> is the invariant of the database between transactions, \<open>saved rt\<close> the one
  during a transaction with the root \<open>rt\<close> backed up.
\<close>

subsection \<open>Operations of the state manager\<close>

lemma hasVersion_setRoot [simp]: "hasVersion (setRoot v rt m) w \<longleftrightarrow> w = Some v \<or> hasVersion m w"
  by (auto simp: hasVersion_def setRoot_def getRoot_def update_conv' split: option.splits)

lemma getRoot_setRoot [simp]: "getRoot (setRoot v rt m) w = (if w = v then Some rt else getRoot m w)"
  by (auto simp: setRoot_def getRoot_def update_conv')

lemma finalVersion_setRoot [simp]: "isFinalVersion (setRoot v rt m) w = isFinalVersion m w"
  by (simp add: isFinalVersion_def setRoot_def)

lemma getRoot_deleteVersion:
  "w \<noteq> v \<Longrightarrow> getRoot (snd (deleteVersion (Some v) m)) w = getRoot m w"
  by (simp add: deleteVersion_def deleteRoot_def getRoot_def delete_conv')

lemma hasVersion_deleteVersion: "w \<noteq> v \<Longrightarrow> hasVersion (snd (deleteVersion (Some v) m)) (Some w) = hasVersion m (Some w)"
  by (simp add: hasVersion_def getRoot_deleteVersion)

lemma hasVersion_finalize [simp]:
  "hasVersion (snd (finalizeVersion v m)) w = hasVersion m w" "getRoot (snd (finalizeVersion v m)) x = getRoot m x"
  by (auto simp: finalizeVersion_def hasVersion_def getRoot_def split: option.splits)

subsection \<open>Backup and restore\<close>

definition db_ok :: "db_state \<Rightarrow> bool" where
  "db_ok db \<longleftrightarrow> db_stateVersion db \<noteq> None \<and> hasVersion (db_manager db) (db_stateVersion db) \<and> db_backup db = None"

definition saved :: "snode \<Rightarrow> db_state \<Rightarrow> bool" where
  "saved rt db \<longleftrightarrow> (\<exists>v b rb. db_stateVersion db = Some v \<and> hasVersion (db_manager db) (Some v) \<and> v \<noteq> b \<and>
     db_backup db = Some (b, rb) \<and> getRoot (db_manager db) b = Some rt)"

lemma synced [simp]: 
  "hasVersion (syncedManager db) w = hasVersion (db_manager db) w"
  "isFinalVersion (syncedManager db) w = isFinalVersion (db_manager db) w"
  by (auto simp: syncedManager_def split: option.splits)

lemma versionName_fresh: "\<not> hasVersion (db_manager db) (Some (versionName label db))"
  unfolding versionName_def
  by (rule createUniqueVersionName_ex [of "label @ '':'' @ num_string (\<lambda>q. []) (db_lastBlockNumber db)" "db_now db" "db_manager db"]) simp

lemma backupDb_ok:
  assumes "db_ok db"
  shows "fst (backupDb db)" "saved (db_root db) (snd (backupDb db))" "db_root (snd (backupDb db)) = db_root db"
proof -
  obtain v where v: "db_stateVersion db = Some v" "hasVersion (db_manager db) (Some v)" "db_backup db = None"
    using assms by (auto simp: db_ok_def)
  have f: "\<not> hasVersion (db_manager db) (Some (versionName ''BACKUP'' db))" by (rule versionName_fresh)
  then have n: "versionName ''BACKUP'' db \<noteq> v" using v(2) by auto
  have g: "getRoot (syncedManager db) v = Some (db_root db)" using v by (simp add: syncedManager_def)
  show "fst (backupDb db)" "saved (db_root db) (snd (backupDb db))" "db_root (snd (backupDb db)) = db_root db"
    using v f n g by (auto simp: backupDb_def cloneVersion_def Let_def setBackupStateVersion_def deleteBackupStateVersion_def
        saved_def db_root_def)
qed

lemma restoreDb_ok: "db_ok db \<Longrightarrow> restoreDb db = (False, db)"
  by (simp add: restoreDb_def cloneVersion_def db_ok_def Let_def hasVersion_def)

lemma restoreDb_saved:
  assumes "saved rt db"
  shows "db_root (snd (restoreDb db)) = rt" "db_ok (snd (restoreDb db))"
proof -
  obtain v b rb where s: "db_stateVersion db = Some v" "hasVersion (db_manager db) (Some v)" "v \<noteq> b"
     "db_backup db = Some (b, rb)" "getRoot (db_manager db) b = Some rt" using assms by (auto simp: saved_def)
  let ?r = "versionName ''NODE'' db"
  have f: "\<not> hasVersion (db_manager db) (Some ?r)" by (rule versionName_fresh)
  have hb: "hasVersion (db_manager db) (Some b)" using s(5) by (simp add: hasVersion_def)
  then have n: "?r \<noteq> v" "?r \<noteq> b" using f s(2) by auto
  have g: "getRoot (syncedManager db) b = Some rt" using s by (simp add: syncedManager_def)
  show "db_root (snd (restoreDb db)) = rt" "db_ok (snd (restoreDb db))"
    using s f n g hb
    by (auto simp: restoreDb_def cloneVersion_def Let_def setStateVersion_def deleteBackupStateVersion_def deleteStateVersion_def
        db_root_def db_ok_def hasVersion_deleteVersion syncedManager_def)
qed

lemma deleteBackup_saved:
  "saved rt db \<Longrightarrow> db_ok (snd (deleteBackupStateVersion db)) \<and> db_root (snd (deleteBackupStateVersion db)) = db_root db"
  by (auto simp: saved_def deleteBackupStateVersion_def db_ok_def hasVersion_deleteVersion db_root_def)

subsection \<open>Transactions\<close>

lemma wp_db [simp]:
  "wp get_db Q db = Q (Returned db) db"
  "wp (change_db f) R db = R (Returned (fst (f db))) (snd (f db))"
  by (simp_all add: wp_def get_db_def change_db_def split: prod.splits)

lemma wp_lift: "(\<And>r s. Q r (db\<lparr>db_exec := s\<rparr>)) \<Longrightarrow> wp (lift_exec m) Q db"
  by (simp add: wp_def lift_exec_def split: prod.splits)

lemma after_any: "(\<And>x. r = Returned x \<Longrightarrow> K x s) \<Longrightarrow> Q Raised s \<Longrightarrow> Q OutOfFuel s \<Longrightarrow> after K Q r s"
  by (cases r) auto

lemma saved_exec [simp]: "saved rt (db\<lparr>db_exec := s\<rparr>) = saved rt db" and db_ok_exec [simp]: "db_ok (db\<lparr>db_exec := s\<rparr>) = db_ok db"
  by (simp_all add: saved_def db_ok_def)

definition fee_codes :: "exec_result \<Rightarrow> bool" where
  "fee_codes r \<longleftrightarrow> xr_code r = Some 11001 \<or> xr_code r = Some 11002"

lemma collectFee_saved:
  assumes "saved rt db"
  shows "wp (collectFee env auth tx args r dry)
    (\<lambda>out db'. \<forall>r'. out = Returned r' \<longrightarrow> saved rt db' \<or> \<not> dry \<and> db_ok db' \<and> fee_codes r') db"
  unfolding collectFee_def chargeWhatIsLeft_def using assms restoreDb_saved [OF assms]
  by (auto simp: Let_def fee_codes_def set_code_def intro!: wp_lift after_any split: if_splits)

lemma feesAndReceipt_saved:
  assumes "saved rt db"
  shows "wp (feesAndReceipt env opts auth tx r)
    (\<lambda>out db'. \<forall>r'. out = Returned r' \<longrightarrow> saved rt db' \<or> \<not> to_isDryrun opts \<and> db_ok db' \<and> fee_codes r') db"
proof (cases "to_skipFees opts \<or> \<not> xe_enableGasFeeCollection env")
  case True
  then show ?thesis unfolding feesAndReceipt_def using assms by (auto intro!: wp_lift after_any)
next
  case False
  then show ?thesis unfolding feesAndReceipt_def
    by (auto intro!: wp_mono [OF collectFee_saved [OF assms]] wp_lift after_any)
qed

lemma settle_saved:
  assumes "saved rt db \<or> \<not> to_isDryrun opts \<and> db_ok db \<and> fee_codes r" "to_restoreIfFails opts \<or> to_isDryrun opts"
  shows "wp (settle opts r) (\<lambda>out db'. db_ok db' \<and>
    (to_isDryrun opts \<or> isFailedExecution r \<and> \<not> fee_codes r \<longrightarrow> db_root db' = rt)) db"
  unfolding settle_def using assms restoreDb_saved [of rt db] restoreDb_ok [of db] deleteBackup_saved [of rt db]
  by (auto simp: deleteBackupStateVersion_def db_ok_def)

definition atomic_outcome :: "tx_options \<Rightarrow> snode \<Rightarrow> exec_result outcome \<Rightarrow> db_state \<Rightarrow> bool" where
  "atomic_outcome opts rt out db' \<longleftrightarrow> (\<forall>r. out = Returned r \<longrightarrow> db_ok db' \<and>
    (to_isDryrun opts \<or> isFailedExecution r \<and> \<not> fee_codes r \<longrightarrow> db_root db' = rt))"

lemma fees_then_settle:
  assumes "saved rt db" "to_restoreIfFails opts \<or> to_isDryrun opts"
  shows "wp (andThen (feesAndReceipt env opts auth tx r) (\<lambda>r2. andThen (settle opts r2) (\<lambda>_. ret r2)))
    (atomic_outcome opts rt) db"
proof (subst wp_andThen, rule wp_mono [OF feesAndReceipt_saved [OF assms(1), of env opts auth tx r]], rule after_any)
  fix out db' r2
  assume "\<forall>r'. out = Returned r' \<longrightarrow> saved rt db' \<or> \<not> to_isDryrun opts \<and> db_ok db' \<and> fee_codes r'" "out = Returned r2"
  then have s: "saved rt db' \<or> \<not> to_isDryrun opts \<and> db_ok db' \<and> fee_codes r2" by blast
  show "wp (andThen (settle opts r2) (\<lambda>_. ret r2)) (atomic_outcome opts rt) db'"
    unfolding wp_andThen
    by (rule wp_mono [OF settle_saved [OF s assms(2)]], rule after_any) (auto simp: atomic_outcome_def)
qed (simp_all add: atomic_outcome_def)

lemma executeTransaction_atomic:
  assumes "db_ok db" "to_restoreIfFails opts \<or> to_isDryrun opts"
  shows "wp (executeTransaction env opts tx) (atomic_outcome opts (db_root db)) db"
proof (cases "precheckTransaction env (db_root db) tx (to_skipFees opts) (to_blockNumber opts)")
  case None
  note b = backupDb_ok [OF assms(1)]
  have "to_restoreIfFails opts \<or> to_isDryrun opts \<longleftrightarrow> True" using assms(2) by blast
  then show ?thesis unfolding executeTransaction_def using b(1,2) assms(2)
    by (auto simp: None Let_def atomic_outcome_def [of _ _ Raised] atomic_outcome_def [of _ _ OutOfFuel]
        simp del: wp_andThen intro!: wp_lift after_any fees_then_settle simp: wp_andThen [of "lift_exec _"] wp_andThen [of "change_db _"] wp_andThen [of get_db])
qed (use assms in \<open>simp add: executeTransaction_def atomic_outcome_def\<close>)

text \<open>
  C17. A transaction is all or nothing: when it is executed with restoring, a dry run and a failed
  transaction leave the state root exactly as it was before, whatever the operations, the functions
  they triggered, the fee and the receipt have written, and the database has its version and no backup
  left. The exceptions are the two codes of the fee collection, after which the fee is kept.
\<close>

theorem transaction_all_or_nothing:
  assumes "db_ok db" "to_restoreIfFails opts \<or> to_isDryrun opts" "executeTransaction env opts tx db = (Returned r, db')"
  shows "db_ok db' \<and> (to_isDryrun opts \<or> isFailedExecution r \<and> xr_code r \<notin> {Some 11001, Some 11002} \<longrightarrow> db_root db' = db_root db)"
  using executeTransaction_atomic [OF assms(1,2), of env tx] assms(3)
  by (simp add: wp_def atomic_outcome_def fee_codes_def)

theorem transaction_all_or_nothing_witness:
  "case executeTransaction sample_env (sample_tx_options False) (sample_tx (sample_set [sample_write, sample_bad])) sample_db of
     (out, db') \<Rightarrow> db_root db' = sample_root"
proof -
  let ?e = "executeTransaction sample_env (sample_tx_options False) (sample_tx (sample_set [sample_write, sample_bad])) sample_db"
  have c: "case fst ?e of Returned r \<Rightarrow> isFailedExecution r \<and> xr_code r = None | _ \<Rightarrow> False" by code_simp
  then obtain r where r: "fst ?e = Returned r" "isFailedExecution r" "xr_code r = None" by (cases "fst ?e") auto
  have e: "?e = (Returned r, snd ?e)" by (metis r(1) prod.collapse)
  have "db_ok sample_db" "to_restoreIfFails (sample_tx_options False) \<or> to_isDryrun (sample_tx_options False)"
    by (simp_all add: db_ok_def sample_db_def sample_tx_options_def)
  from transaction_all_or_nothing [OF this e] r(2,3) have "db_root (snd ?e) = sample_root"
    by (simp add: db_root_def sample_db_def sample_state_def)
  then show ?thesis by (simp add: case_prod_beta)
qed

end
