(* ===== verification/WriteProps.thy ===== *)
theory WriteProps
  imports VersionProps
begin

text \<open>
  What the writes of an operation may do: a value or a configuration is written only when every check
  passes, functions of the chain's owner cannot be configured by others, a list of operations stops at
  the first failure, and an operation that succeeds moves the account on.
\<close>

subsection \<open>Values\<close>

lemma wp_any: "(\<And>r s'. Q r s') \<Longrightarrow> wp m Q s"
  by (simp add: wp_def)

definition value_write_permitted :: "exec_env \<Rightarrow> snode \<Rightarrow> string \<Rightarrow> jsval \<Rightarrow> jsval \<Rightarrow> set_options \<Rightarrow> bool" where
  "value_write_permitted env stateRoot valuePath val auth opts \<longleftrightarrow>
     (let limit = getBlockchainParam env ''resource'' ''state_label_length_limit'' (eo_blockNumber opts) stateRoot in
      isValidPathForStates limit (parsePath valuePath) = Valid \<and> isValidJsObjectForStates limit [] val = Valid \<and>
      (case toLocal env (so_isGlobal opts) (parsePath valuePath) of
         None \<Rightarrow> False
       | Some localPath \<Rightarrow>
           fst (getPermissionForValue (xe_value env stateRoot) stateRoot localPath val auth (eval_options.truncate opts)) = 0 \<and>
           fst (isWritablePathWithSharding (getFullPath localPath ''values'') stateRoot)))"

lemma wp_validity: "wp (of_validity v) Q s =
   (case v of Valid \<Rightarrow> Q (Returned True) s | Invalid p \<Rightarrow> Q (Returned False) s | Throws \<Rightarrow> Q Raised s)"
  by (cases v) simp_all

lemma setValueBody_rejected:
  assumes "\<not> value_write_permitted env (es_root s) valuePath val auth opts"
  shows "wp (setValueBody env svAt fids valuePath val auth tx opts)
     (\<lambda>out s'. s' = s \<and> (out = Raised \<or> (\<exists>code gas. out = Returned (returnTxResult code gas [] [])))) s"
  using assms unfolding setValueBody_def value_write_permitted_def Let_def
  by (auto simp: wp_validity isFailedTxResultCode_def split: validity.splits option.splits prod.splits)

subsection \<open>Configurations\<close>

definition permittedConfigChange ::
  "exec_env \<Rightarrow> config_kind \<Rightarrow> string \<Rightarrow> jsval \<Rightarrow> jsval \<Rightarrow> set_options \<Rightarrow> snode \<Rightarrow> (string list \<times> jsval) option" where
  "permittedConfigChange env kind refPath config auth opts stateRoot =
     (let limit = getBlockchainParam env ''resource'' ''state_label_length_limit'' (eo_blockNumber opts) stateRoot;
          parsedPath = parsePath refPath
      in if isValidJsObjectForStates limit [] config = Valid \<and> isValidPathForStates limit parsedPath = Valid \<and>
            ck_isValidTree kind stateRoot parsedPath config = Valid \<and> ck_check kind stateRoot config = None
         then case toLocal env (so_isGlobal opts) parsedPath of
                None \<Rightarrow> None
              | Some path \<Rightarrow>
                  (case ck_applyChange kind (readFromStateRoot stateRoot (ck_rootLabel kind) (formatPath path)) config of
                     (isMerge, new) \<Rightarrow>
                       if fst (ck_getPermission kind stateRoot path auth isMerge) = 0 then Some (path, new) else None)
         else None)"

lemma setConfig_effect:
  "wp (setConfig env kind refPath config auth opts)
     (\<lambda>out s'. case permittedConfigChange env kind refPath config auth opts (es_root s) of
        None \<Rightarrow> s' = s
      | Some (path, new) \<Rightarrow>
          s' = s\<lparr>es_root := writeToStateRoot (es_root s) (getFullPath path (ck_rootLabel kind)) new\<rparr> \<and>
          (\<exists>gas. out = Returned (returnTxResult 0 gas [] []))) s"
  unfolding setConfig_def writeConfig_def permittedConfigChange_def Let_def
  by (auto simp: wp_validity isFailedTxResultCode_def split: validity.splits option.splits prod.splits)

definition config_written :: "exec_env \<Rightarrow> config_kind \<Rightarrow> string \<Rightarrow> jsval \<Rightarrow> jsval \<Rightarrow> set_options \<Rightarrow> exec_state \<Rightarrow> exec_state" where
  "config_written env kind refPath config auth opts s =
     (case permittedConfigChange env kind refPath config auth opts (es_root s) of
        None \<Rightarrow> s
      | Some (path, new) \<Rightarrow> s\<lparr>es_root := writeToStateRoot (es_root s) (getFullPath path (ck_rootLabel kind)) new\<rparr>)"

lemma setConfig_written: "snd (setConfig env kind refPath config auth opts s) = config_written env kind refPath config auth opts s"
  using setConfig_effect [of env kind refPath config auth opts s]
  by (auto simp: wp_def config_written_def split: option.splits prod.splits)

inductive configures :: "jsval \<Rightarrow> string \<Rightarrow> bool" where
  here: "(''.function'', childObj) \<in> set kvs \<Longrightarrow> fid \<in> set (keys_of childObj) \<Longrightarrow> configures (JObj kvs) fid"
| below: "(key, childObj) \<in> set kvs \<Longrightarrow> key \<noteq> ''.function'' \<Longrightarrow> configures childObj fid \<Longrightarrow> configures (JObj kvs) fid"

inductive_cases configures_cases: "configures (JObj kvs) fid"
inductive_simps configures_obj: "configures (JObj kvs) fid"

lemma owner_only_found:
  "hasOwnerOnlyFunction obj = Some fid \<Longrightarrow> configures obj fid \<and> fid \<in> set ownerOnlyFunctions"
  "ownerOnlyInEntries kvs = Some fid \<Longrightarrow> configures (JObj kvs) fid \<and> fid \<in> set ownerOnlyFunctions"
proof (induction obj and kvs rule: hasOwnerOnlyFunction_ownerOnlyInEntries.induct)
  case (4 key childObj kvs)
  then show ?case
    by (auto split: if_splits option.splits simp: find_Some_iff configures_obj) 
qed auto

lemma owner_only_complete:
  "configures obj fid \<Longrightarrow> fid \<in> set ownerOnlyFunctions \<Longrightarrow> hasOwnerOnlyFunction obj \<noteq> None"
proof (induction rule: configures.induct)
  case (here childObj kvs fid)
  then show ?case by (induction kvs) (auto split: option.splits simp: find_None_iff)
next
  case (below key childObj kvs fid)
  then show ?case by (induction kvs) (auto split: option.splits)
qed

definition rejected :: "tx_result outcome \<Rightarrow> bool" where
  "rejected out \<longleftrightarrow> out = Raised \<or> (\<exists>code gas. code \<noteq> 0 \<and> out = Returned (returnTxResult code gas [] []))"

lemma rejected_simps [simp]: "rejected Raised" "rejected (Returned (returnTxResult code gas [] [])) \<longleftrightarrow> code \<noteq> 0"
  by (auto simp: rejected_def returnTxResult_def)

lemma owner_only_rejected:
  assumes "configures func fid" "fid \<in> set ownerOnlyFunctions"
    "\<not> truthy auth \<or> \<not> isConsensusAppAdmin env (es_root s) (prop_get auth ''addr'')"
  shows "wp (setFunction env path func auth opts) (\<lambda>out s'. s' = s \<and> rejected out) s"
  unfolding setFunction_def setConfig_def functionKind_def Let_def
  using owner_only_complete [OF assms(1,2)] assms(3)
  by (auto simp: wp_validity split: validity.splits)

subsection \<open>Lists of operations\<close>

definition yields_single :: "tx_result exec \<Rightarrow> bool" where
  "yields_single m \<longleftrightarrow> (\<forall>s r. fst (m s) = Returned r \<longrightarrow> tr_list r = None)"

lemma yields_single_basic:
  "tr_list r = None \<Longrightarrow> yields_single (ret r)" "yields_single raise" "yields_single out_of_fuel"
  by (simp_all add: yields_single_def ret_def raise_def out_of_fuel_def)

lemma yields_single_andThen: "(\<And>x. yields_single (k x)) \<Longrightarrow> yields_single (andThen m k)"
  by (auto simp: yields_single_def andThen_def split: prod.splits outcome.splits)

lemma yields_single_split:
  "(b \<Longrightarrow> yields_single m) \<Longrightarrow> (\<not> b \<Longrightarrow> yields_single n) \<Longrightarrow> yields_single (if b then m else n)"
  "(\<And>x. yields_single (f x)) \<Longrightarrow> yields_single m' \<Longrightarrow> yields_single (case opt of None \<Rightarrow> m' | Some x \<Rightarrow> f x)"
  "(\<And>x y. yields_single (g x y)) \<Longrightarrow> yields_single (case p of (x, y) \<Rightarrow> g x y)"
  by (auto split: option.splits prod.splits)

lemmas single_intros = yields_single_basic yields_single_andThen yields_single_split

lemma returnTxResult_single [simp]: "tr_list (returnTxResult code gas funcs subtree) = None"
  by (simp add: returnTxResult_def)

lemma setValueAt_single: "yields_single (setValueAt n env fids valuePath val auth tx opts)"
proof (cases n)
  case 0
  then show ?thesis by (simp add: yields_single_basic)
next
  case (Suc m)
  have f: "yields_single (finishSetValue env opts auth stateRule path val prev copy (returnTxResult c g fs ss))"
    for stateRule path prev copy c g fs ss
    unfolding finishSetValue_def Let_def by (auto intro!: single_intros)
  show ?thesis unfolding Suc setValueAt.simps setValueBody_def applyValue_def Let_def
    by (auto intro!: single_intros f)
qed

lemma setConfig_single: "yields_single (setConfig env kind p config auth opts)"
  unfolding setConfig_def writeConfig_def Let_def by (auto intro!: single_intros)

lemma changeNumber_single:
  "(\<And>v. yields_single (sv p v auth tx opts)) \<Longrightarrow> yields_single (changeNumber f code env sv p d auth tx opts)"
  unfolding changeNumber_def Let_def by (auto intro!: single_intros)

lemma executeSingleSetOperation_single: "yields_single (executeSingleSetOperation env p auth args tx)"
  unfolding executeSingleSetOperation_def incValue_def decValue_def setFunction_def setRule_def setOwner_def setValue_def Let_def
  by (auto intro!: single_intros setConfig_single changeNumber_single setValueAt_single)

lemma isFailedTx_single: "tr_list r = None \<Longrightarrow> isFailedResultList [(i, r)] = isFailedTx (Some r)"
  by (cases r) auto

lemma isFailedResultList_append: "isFailedResultList (xs @ ys) = (isFailedResultList xs \<or> isFailedResultList ys)"
proof (induction xs)
  case (Cons x xs)
  then show ?case by (cases x; cases "snd x") auto
qed simp

definition stops_at_failure :: "(nat \<times> tx_result) list \<Rightarrow> bool" where
  "stops_at_failure rs \<longleftrightarrow> (\<forall>r\<in>set (butlast rs). \<not> isFailedTx (Some (snd r)))"

lemma executeOpList_prefix:
  "wp (executeOpList env i ops auth args tx) (\<lambda>out s'. \<forall>rs. out = Returned rs \<longrightarrow>
     map fst rs = [i..<i + length rs] \<and> length rs \<le> length ops \<and> stops_at_failure rs \<and>
     (length rs < length ops \<longrightarrow> rs \<noteq> [] \<and> isFailedTx (Some (snd (last rs)))) \<and>
     (isFailedResultList rs \<longleftrightarrow> rs \<noteq> [] \<and> isFailedTx (Some (snd (last rs))))) s"
proof (induction ops arbitrary: i s)
  case Nil
  then show ?case by (simp add: stops_at_failure_def)
next
  case (Cons p ops i s)
  let ?Q = "\<lambda>i ops rs. map fst rs = [i..<i + length rs] \<and> length rs \<le> length ops \<and> stops_at_failure rs \<and>
     (length rs < length ops \<longrightarrow> rs \<noteq> [] \<and> isFailedTx (Some (snd (last rs)))) \<and>
     (isFailedResultList rs \<longleftrightarrow> rs \<noteq> [] \<and> isFailedTx (Some (snd (last rs))))"
  have one: "?Q i (p # ops) [(i, result)]" if "isFailedTx (Some result)" "tr_list result = None" for result
    using that by (simp add: stops_at_failure_def isFailedTx_single)
  have more: "?Q i (p # ops) ((i, result) # rest)"
    if "\<not> isFailedTx (Some result)" "tr_list result = None" "?Q (i + 1) ops rest" for result rest
    using that isFailedResultList_append [of "[(i, result)]" rest] isFailedTx_single [of result i]
    by (auto simp: stops_at_failure_def upt_conv_Cons simp del: isFailedResultList.simps upt_Suc)
  have first: "wp (executeSingleSetOperation env p auth args tx) (\<lambda>out s'. \<forall>r. out = Returned r \<longrightarrow> tr_list r = None) s"
    using executeSingleSetOperation_single [of env p auth args tx] by (simp add: wp_def yields_single_def)
  show ?case
    unfolding executeOpList.simps
  proof (subst wp_andThen, rule wp_mono [OF first], rule after_any)
    fix out s' result
    assume "\<forall>r. out = Returned r \<longrightarrow> tr_list r = None" "out = Returned result"
    then have r: "tr_list result = None" by blast
    show "wp (if isFailedTx (Some result) then ret [(i, result)]
              else andThen (executeOpList env (i + 1) ops auth args tx) (\<lambda>rest. ret ((i, result) # rest)))
            (\<lambda>out s'. \<forall>rs. out = Returned rs \<longrightarrow> ?Q i (p # ops) rs) s'"
    proof (cases "isFailedTx (Some result)")
      case True
      show ?thesis using one [OF True r] by (simp add: True)
    next
      case False
      show ?thesis unfolding if_not_P [OF False]
        by (subst wp_andThen, rule wp_mono [OF Cons.IH], rule after_any) (use more [OF False r] in simp_all)
    qed
  qed simp_all
qed

subsection \<open>Nonces\<close>

lemma account_after_update:
  assumes "path_label a"
  shows "n \<ge> 0 \<Longrightarrow> fst (getAccountNonceAndTimestampFromStateRoot (updateAccountNonceAndTimestampToStateRoot rt a n t) a) = JNum (n + 1)"
    "n = -2 \<Longrightarrow> snd (getAccountNonceAndTimestampFromStateRoot (updateAccountNonceAndTimestampToStateRoot rt a n t) a) = or_zero (JNum t)"
proof -
  have p: "parsePath (getAccountNoncePath a) \<parallel> parsePath (getAccountTimestampPath a)"
    "parsePath (getAccountTimestampPath a) \<parallel> parsePath (getAccountNoncePath a)"
    by (simp_all add: account_paths [OF assms] parallel_Cons)
  show "n \<ge> 0 \<Longrightarrow> fst (getAccountNonceAndTimestampFromStateRoot (updateAccountNonceAndTimestampToStateRoot rt a n t) a) = JNum (n + 1)"
    "n = -2 \<Longrightarrow> snd (getAccountNonceAndTimestampFromStateRoot (updateAccountNonceAndTimestampToStateRoot rt a n t) a) = or_zero (JNum t)"
    by (simp_all add: getAccountNonceAndTimestampFromStateRoot_def or_zero_def
        updateAccountNonceAndTimestampToStateRoot_def getValue_write getValue_write_other p)
qed

definition nonce_moved :: "exec_env \<Rightarrow> jsval \<Rightarrow> transaction \<Rightarrow> exec_result outcome \<Rightarrow> exec_state \<Rightarrow> bool" where
  "nonce_moved env auth tx out s' \<longleftrightarrow> (\<forall>r. out = Returned r \<longrightarrow> isFailedExecution r \<or> (\<exists>c. xr_code r = Some c \<and> c \<noteq> 0) \<or>
     (\<exists>rt. es_root s' = updateAccountNonceAndTimestampToStateRoot rt (js_string (xe_dstr env) (prop_get auth ''addr''))
             (numberOrZero (prop_get (tx_body tx) ''nonce'')) (numberOrZero (prop_get (tx_body tx) ''timestamp''))))"

lemma nonce_moved_simps [simp]:
  "nonce_moved env auth tx Raised s" "nonce_moved env auth tx OutOfFuel s"
  "c \<noteq> 0 \<Longrightarrow> nonce_moved env auth tx (Returned (set_code c r)) s"
  "isFailedExecution r \<Longrightarrow> nonce_moved env auth tx (Returned r) s"
  by (simp_all add: nonce_moved_def set_code_def)

lemma finishOperation_moves_nonce:
  assumes "truthy auth \<and> truthy (prop_get auth ''addr'') \<and> \<not> truthy (prop_get auth ''fid'')"
  shows "wp (finishOperation env p auth args tx rootBefore r) (nonce_moved env auth tx) s"
  unfolding finishOperation_def using assms
  by (auto simp: Let_def isFailedTxResultCode_def nonce_moved_def [of _ _ _ "Returned (updateStateGasAmount _ _ _ _ _ _)"])

lemma nonce_moved_last: "(\<And>x s'. wp (k x) (nonce_moved env auth tx) s') \<Longrightarrow> wp (andThen m k) (nonce_moved env auth tx) s"
  unfolding wp_andThen by (rule wp_any, rule after_any) simp_all

lemma executeOperation_moves_nonce:
  assumes "truthy auth \<and> truthy (prop_get auth ''addr'') \<and> \<not> truthy (prop_get auth ''fid'')"
  shows "wp (executeOperation env p auth args tx) (nonce_moved env auth tx) s"
proof -
  have f: "isFailedExecution (newResult (returnTxResult 10708 g [] []) zero_gas)" for g
    by (simp add: isFailedExecution_def newResult_def returnTxResult_def isFailedTxResultCode_def)
  show ?thesis
    unfolding executeOperation_def Let_def
    by (intro nonce_moved_last) (auto simp: f simp del: wp_andThen intro!: nonce_moved_last finishOperation_moves_nonce assms split: sum.splits)
qed

subsection \<open>Properties\<close>

text \<open>
  C19. A value is written only when its path and its value are valid, the path is one of this chain,
  the write rule and the state rules permit the write in the present state and no shard lies at the
  path. Any other call changes nothing at all and ends with a result without function results or with
  an exception.
\<close>

theorem rejected_value_write_changes_nothing:
  "value_write_permitted env (es_root s) valuePath val auth opts \<or>
   snd (setValue env valuePath val auth tx opts s) = s \<and>
   (fst (setValue env valuePath val auth tx opts s) = Raised \<or>
    (\<exists>code gas. fst (setValue env valuePath val auth tx opts s) = Returned (returnTxResult code gas [] [])))"
proof -
  have e: "setValue env = setValueBody env (setValueAt 22 env) []"
    by (simp add: setValue_def call_fuel_def eval_nat_numeral)
  show ?thesis using setValueBody_rejected [of env s valuePath val auth opts "setValueAt 22 env" "[]" tx]
    unfolding e wp_def by blast
qed


text \<open>
  C21. Native functions that only the owner of the chain may use, such as \<open>_transfer\<close>, cannot be
  configured by anyone else: a tree of function configurations that names one at any depth is rejected
  for every account that is not an administrator of the consensus app, and nothing changes.
\<close>

theorem owner_only_functions_guarded:
  assumes "configures func fid" "fid \<in> set ownerOnlyFunctions"
    "\<not> truthy auth \<or> \<not> isConsensusAppAdmin env (es_root s) (prop_get auth ''addr'')"
  shows "snd (setFunction env path func auth opts s) = s \<and> rejected (fst (setFunction env path func auth opts s))"
  using owner_only_rejected [OF assms, of path opts] by (simp add: wp_def)

theorem owner_only_functions_guarded_witness:
  "snd (setFunction sample_env ''/x'' (JObj [(''y'', JObj [(''.function'', JObj [(''_transfer'', JNull)])])]) sample_auth sample_options
     sample_state) = sample_state"
proof -
  let ?f = "JObj [(''y'', JObj [(''.function'', JObj [(''_transfer'', JNull)])])]"
  have "configures ?f ''_transfer''" by (auto simp: configures_obj)
  moreover have "''_transfer'' \<in> set ownerOnlyFunctions" by code_simp
  moreover have "\<not> isConsensusAppAdmin sample_env (es_root sample_state) (prop_get sample_auth ''addr'')" by code_simp
  ultimately show ?thesis using owner_only_functions_guarded [of ?f "''_transfer''" sample_auth sample_env sample_state] by blast
qed

text \<open>
  The operations of a list are executed in order until the first that fails: the results are
  numbered from 0, none but the last is a failure, operations are left out only after a failure, and
  the transaction counts as failed exactly when the last executed operation failed.
\<close>

theorem op_list_stops_at_first_failure:
  assumes "executeOpList env 0 ops auth args tx s = (Returned rs, s')"
  shows "map fst rs = [0..<length rs] \<and> length rs \<le> length ops \<and>
    (\<forall>r\<in>set (butlast rs). \<not> isFailedTx (Some (snd r))) \<and>
    (length rs < length ops \<longrightarrow> rs \<noteq> [] \<and> isFailedTx (Some (snd (last rs)))) \<and>
    (isFailedTx (Some (TxResult 0 0 [] [] (Some rs))) \<longleftrightarrow> rs \<noteq> [] \<and> isFailedTx (Some (snd (last rs))))"
  using executeOpList_prefix [of env 0 ops auth args tx s] assms by (simp add: wp_def stops_at_failure_def)

theorem op_list_stops_at_first_failure_witness:
  "length (the (case fst (executeOpList sample_env 0 [sample_bad, sample_write] sample_auth sample_args (sample_tx JNull) sample_state) of
     Returned rs \<Rightarrow> Some rs | _ \<Rightarrow> None)) = 1"
proof -
  let ?e = "executeOpList sample_env 0 [sample_bad, sample_write] sample_auth sample_args (sample_tx JNull) sample_state"
  have c: "case fst ?e of Returned rs \<Rightarrow> rs \<noteq> [] \<and> isFailedTx (Some (snd (hd rs))) | _ \<Rightarrow> False" by code_simp
  then obtain rs where r: "fst ?e = Returned rs" "rs \<noteq> []" "isFailedTx (Some (snd (hd rs)))" by (cases "fst ?e") auto
  then have e: "?e = (Returned rs, snd ?e)" by (metis prod.collapse)
  note p = op_list_stops_at_first_failure [OF e]
  have "butlast rs = []"
  proof (rule ccontr)
    assume "butlast rs \<noteq> []"
    then have "hd rs \<in> set (butlast rs)" using r(2) by (cases rs) (auto split: if_splits)
    then show False using p r(3) by blast
  qed
  then have "length rs = 1" using r(2) by (cases rs rule: rev_cases) auto
  then show ?thesis using r(1) by simp
qed

text \<open>
  C18. An executed transaction cannot be executed again: when its operation succeeds, the nonce of the
  account has moved to the successor of the transaction's nonce, or for ordered transactions the
  timestamp of the account to the transaction's, and the check of nonce and timestamp then rejects the
  same transaction.
\<close>

theorem executed_transaction_not_replayable:
  assumes "executeOperation env p (JObj [(''addr'', JStr a)]) args tx s = (Returned r, s')" "\<not> isFailedExecution r"
    "xr_code r = None \<or> xr_code r = Some 0" "a \<noteq> [] \<and> CHR ''/'' \<notin> set a"
    "prop_get (tx_body tx) ''nonce'' = JNum n" "n \<ge> 0 \<or> n = -2" "prop_get (tx_body tx) ''timestamp'' = JNum t"
  shows "precheckNonceAndTimestamp (es_root s') (JNum n) (JNum t) a = Some (if n \<ge> 0 then 10712 else 10713)"
proof -
  let ?auth = "JObj [(''addr'', JStr a)]"
  have "truthy ?auth \<and> truthy (prop_get ?auth ''addr'') \<and> \<not> truthy (prop_get ?auth ''fid'')" using assms(4) by simp
  from executeOperation_moves_nonce [OF this, of env p args tx s] assms obtain rt
    where rt: "es_root s' = updateAccountNonceAndTimestampToStateRoot rt a n t"
    by (auto simp: wp_def nonce_moved_def)
  have "path_label a" using assms(4) by (simp add: path_label_def)
  note u = account_after_update [OF this, of n rt t]
  show ?thesis using u assms(6) by (auto simp: precheckNonceAndTimestamp_def rt or_zero_def case_prod_beta split: if_splits)
qed

theorem executed_transaction_not_replayable_witness:
  "precheckNonceAndTimestamp
     (es_root (snd (executeOperation sample_env sample_write sample_auth sample_args (sample_tx sample_write) sample_state)))
     (JNum 0) (JNum 5) ''a'' = Some 10712"
proof -
  let ?e = "executeOperation sample_env sample_write (JObj [(''addr'', JStr ''a'')]) sample_args (sample_tx sample_write) sample_state"
  have c: "case fst ?e of Returned r \<Rightarrow> \<not> isFailedExecution r \<and> xr_code r = Some 0 | _ \<Rightarrow> False" by code_simp
  then obtain r where r: "fst ?e = Returned r" "\<not> isFailedExecution r" "xr_code r = Some 0" by (cases "fst ?e") auto
  then have e: "?e = (Returned r, snd ?e)" by (metis prod.collapse)
  from executed_transaction_not_replayable [OF e, of 0 5] r show ?thesis
    by (simp add: sample_auth_def sample_tx_def)
qed

end
