(* ===== verification/Chain.thy ===== *)
theory Chain
  imports Block RuleUtil StateManager
begin

text \<open>
  \<open>blockchain/index.js\<close> and the block files of \<open>common/file-util.js\<close>: the finalized chain. The
  last blocks are kept in memory, every written block has a file found by its number and a file that
  maps its hash to its number. The file system is the list of its files; directories, compression
  and the JSON text of a block are not modelled, and a block is its JSON value, so that copying it is
  the identity. \<^const>\<open>None\<close> stands for \<open>null\<close> and \<open>undefined\<close>; a function that may throw says so.
\<close>

datatype store_file = BlockFile block | TextFile string

type_synonym file_store = "(string \<times> store_file) list"

record chain_config =
  cc_CHAINS_N2B_MAX_NUM_FILES :: rat
  cc_CHAINS_H2N_HASH_PREFIX_LENGTH :: nat
  cc_ON_MEMORY_CHAIN_LENGTH :: nat
  cc_MAX_FINALIZED_BLOCK_INFO_ON_MEM :: int
  cc_CHAIN_SEGMENT_LENGTH :: int
  cc_OLD_CHAIN_SEGMENT_LENGTH :: int
  cc_block_env :: block_env
  cc_numText :: "rat \<Rightarrow> string"

record blockchain =
  bc_chain :: "block list"
  bc_path :: string
  bc_genesisBlock :: block
  bc_genesisBlockHash :: string
  bc_numberToBlockInfo :: "(int \<times> rat) list"
  bc_files :: file_store

subsection \<open>Blocks read back\<close>

text \<open>\<open>Block.parse\<close> of a plain object that has every field: its hashes and size are computed again.\<close>

definition parseBlock :: "block_env \<Rightarrow> block \<Rightarrow> block" where
  "parseBlock env b =
     newBlock env (b_last_hash b) (b_last_votes b) (b_evidence b) (b_transactions b) (b_receipts b)
       (b_number b) (b_epoch b) (b_timestamp b) (b_state_proof_hash b) (b_proposer b) (b_validators b)
       (b_gas_amount_total b) (b_gas_cost_total b)"

subsection \<open>Block files\<close>

definition path_join :: "string list \<Rightarrow> string" where
  "path_join parts = join_with ''/'' parts"

definition getBlockDirPath :: "chain_config \<Rightarrow> string \<Rightarrow> rat \<Rightarrow> string" where
  "getBlockDirPath cfg chainPath blockNumber =
     (let n2bPrefix = num_string (cc_numText cfg) (of_int \<lfloor>blockNumber / cc_CHAINS_N2B_MAX_NUM_FILES cfg\<rfloor>)
      in path_join [chainPath, ''n2b'', n2bPrefix])"

definition getBlockFilenameByNumber :: "chain_config \<Rightarrow> rat \<Rightarrow> string" where
  "getBlockFilenameByNumber cfg blockNumber = num_string (cc_numText cfg) blockNumber @ ''.json.gz''"

definition getBlockPath :: "chain_config \<Rightarrow> string \<Rightarrow> rat \<Rightarrow> string option" where
  "getBlockPath cfg chainPath blockNumber =
     (if blockNumber < 0 then None
      else Some (path_join [getBlockDirPath cfg chainPath blockNumber, getBlockFilenameByNumber cfg blockNumber]))"

definition getH2nDirPath :: "chain_config \<Rightarrow> string \<Rightarrow> string \<Rightarrow> string" where
  "getH2nDirPath cfg chainPath hsh =
     (let h2nPrefix = take (cc_CHAINS_H2N_HASH_PREFIX_LENGTH cfg) hsh
      in path_join [chainPath, ''h2n'', h2nPrefix])"

definition getH2nPath :: "chain_config \<Rightarrow> string \<Rightarrow> string \<Rightarrow> string" where
  "getH2nPath cfg chainPath hsh = path_join [getH2nDirPath cfg chainPath hsh, hsh]"

definition fileExists :: "file_store \<Rightarrow> string option \<Rightarrow> bool" where
  "fileExists fs p = (case p of None \<Rightarrow> False | Some s \<Rightarrow> map_of fs s \<noteq> None)"

text \<open>A missing file, or one that holds no block, is read as \<open>null\<close>.\<close>

definition readCompressedJsonSync :: "file_store \<Rightarrow> string option \<Rightarrow> block option" where
  "readCompressedJsonSync fs p =
     (case p of None \<Rightarrow> None
      | Some s \<Rightarrow> (case map_of fs s of Some (BlockFile b) \<Rightarrow> Some b | _ \<Rightarrow> None))"

definition readBlockByNumber :: "chain_config \<Rightarrow> file_store \<Rightarrow> string \<Rightarrow> rat \<Rightarrow> block option" where
  "readBlockByNumber cfg fs chainPath blockNumber =
     readCompressedJsonSync fs (getBlockPath cfg chainPath blockNumber)"

text \<open>\<^const>\<open>None\<close> when writing throws, which it does for a negative number: its path is \<open>null\<close>.\<close>

definition writeBlockFile :: "chain_config \<Rightarrow> string \<Rightarrow> block \<Rightarrow> file_store \<Rightarrow> file_store option" where
  "writeBlockFile cfg chainPath b fs =
     (case getBlockPath cfg chainPath (of_int (b_number b)) of
        None \<Rightarrow> None
      | Some blockPath \<Rightarrow> Some (AList.update blockPath (BlockFile b) fs))"

definition deleteBlockFile :: "chain_config \<Rightarrow> string \<Rightarrow> rat \<Rightarrow> file_store \<Rightarrow> file_store" where
  "deleteBlockFile cfg chainPath blockNumber fs =
     (case getBlockPath cfg chainPath blockNumber of
        None \<Rightarrow> fs
      | Some blockPath \<Rightarrow> if fileExists fs (Some blockPath) then AList.delete blockPath fs else fs)"

definition hasBlockFile :: "chain_config \<Rightarrow> string \<Rightarrow> rat \<Rightarrow> file_store \<Rightarrow> bool" where
  "hasBlockFile cfg chainPath blockNumber fs = fileExists fs (getBlockPath cfg chainPath blockNumber)"

definition hasH2nFile :: "chain_config \<Rightarrow> string \<Rightarrow> string \<Rightarrow> file_store \<Rightarrow> bool" where
  "hasH2nFile cfg chainPath hsh fs = fileExists fs (Some (getH2nPath cfg chainPath hsh))"

text \<open>An existing file keeps its number.\<close>

definition writeH2nFile :: "chain_config \<Rightarrow> string \<Rightarrow> string \<Rightarrow> rat \<Rightarrow> file_store \<Rightarrow> file_store" where
  "writeH2nFile cfg chainPath hsh blockNumber fs =
     (if hsh = [] \<or> blockNumber < 0 then fs
      else
        let h2nPath = getH2nPath cfg chainPath hsh
        in if \<not> fileExists fs (Some h2nPath)
           then AList.update h2nPath (TextFile (num_string (cc_numText cfg) blockNumber)) fs
           else fs)"

definition deleteH2nFile :: "chain_config \<Rightarrow> string \<Rightarrow> string \<Rightarrow> file_store \<Rightarrow> file_store" where
  "deleteH2nFile cfg chainPath hsh fs =
     (let h2nPath = getH2nPath cfg chainPath hsh
      in if fileExists fs (Some h2nPath) then AList.delete h2nPath fs else fs)"

definition readH2nFile :: "chain_config \<Rightarrow> string \<Rightarrow> string \<Rightarrow> file_store \<Rightarrow> jsval" where
  "readH2nFile cfg chainPath hsh fs =
     (case map_of fs (getH2nPath cfg chainPath hsh) of
        Some (TextFile s) \<Rightarrow> to_number (JStr s)
      | _ \<Rightarrow> JNum (-1))"

text \<open>The loop stops at the first missing file, or after \<open>n\<close> numbers.\<close>

fun blockPathsUp :: "chain_config \<Rightarrow> string \<Rightarrow> file_store \<Rightarrow> int \<Rightarrow> nat \<Rightarrow> string option list" where
  "blockPathsUp cfg chainPath fs number 0 = []"
| "blockPathsUp cfg chainPath fs number (Suc n) =
     (let blockFile = getBlockPath cfg chainPath (of_int number)
      in if fileExists fs blockFile then blockFile # blockPathsUp cfg chainPath fs (number + 1) n else [])"

definition getBlockPathList :: "chain_config \<Rightarrow> string \<Rightarrow> file_store \<Rightarrow> int \<Rightarrow> int \<Rightarrow> string option list" where
  "getBlockPathList cfg chainPath fs from sz = (if sz \<le> 0 then [] else blockPathsUp cfg chainPath fs from (nat sz))"

fun blockPathsDown :: "chain_config \<Rightarrow> string \<Rightarrow> file_store \<Rightarrow> int \<Rightarrow> nat \<Rightarrow> string option list" where
  "blockPathsDown cfg chainPath fs number 0 = []"
| "blockPathsDown cfg chainPath fs number (Suc n) =
     (if number < 0 then []
      else
        let blockFile = getBlockPath cfg chainPath (of_int number)
        in if fileExists fs blockFile then blockFile # blockPathsDown cfg chainPath fs (number - 1) n else [])"

definition getOldBlockPathList :: "chain_config \<Rightarrow> string \<Rightarrow> file_store \<Rightarrow> int \<Rightarrow> int \<Rightarrow> string option list" where
  "getOldBlockPathList cfg chainPath fs from sz =
     (if sz \<le> 0 then [] else blockPathsDown cfg chainPath fs from (nat sz))"

subsection \<open>The chain\<close>

datatype genesis_error = MissingGenesisBlock | InvalidGenesisBlock

definition setGenesisBlock :: "chain_config \<Rightarrow> block option \<Rightarrow> blockchain \<Rightarrow> genesis_error + blockchain" where
  "setGenesisBlock cfg genesisFile bc =
     (case map_option (parseBlock (cc_block_env cfg)) genesisFile of
        None \<Rightarrow> Inl MissingGenesisBlock
      | Some b \<Rightarrow>
          if b_number b \<noteq> 0 then Inl InvalidGenesisBlock
          else Inr (bc\<lparr>bc_genesisBlock := b, bc_genesisBlockHash := b_hash b\<rparr>))"

definition oldestBlock :: "blockchain \<Rightarrow> block option" where
  "oldestBlock bc = (case bc_chain bc of [] \<Rightarrow> None | b # bs \<Rightarrow> Some b)"

definition oldestBlockNumber :: "blockchain \<Rightarrow> int" where
  "oldestBlockNumber bc = (case oldestBlock bc of Some b \<Rightarrow> b_number b | None \<Rightarrow> -1)"

definition lastBlock :: "blockchain \<Rightarrow> block option" where
  "lastBlock bc = (if bc_chain bc = [] then None else Some (last (bc_chain bc)))"

definition lastBlockNumber :: "blockchain \<Rightarrow> int" where
  "lastBlockNumber bc = (case lastBlock bc of Some b \<Rightarrow> b_number b | None \<Rightarrow> -1)"

definition lastBlockEpoch :: "blockchain \<Rightarrow> int" where
  "lastBlockEpoch bc = (case lastBlock bc of None \<Rightarrow> -1 | Some b \<Rightarrow> b_epoch b)"

definition lastBlockTimestamp :: "blockchain \<Rightarrow> rat" where
  "lastBlockTimestamp bc = (case lastBlock bc of None \<Rightarrow> -1 | Some b \<Rightarrow> b_timestamp b)"

text \<open>The file of the number that a hash is mapped to, or the chain when the number has no path.\<close>

definition getBlockByHash :: "chain_config \<Rightarrow> blockchain \<Rightarrow> string \<Rightarrow> block option" where
  "getBlockByHash cfg bc h =
     (if h = [] then None
      else
        (case readH2nFile cfg (bc_path bc) h (bc_files bc) of
           JNum n \<Rightarrow>
             (case getBlockPath cfg (bc_path bc) n of
                None \<Rightarrow> find (\<lambda>b. b_hash b = h) (bc_chain bc)
              | Some blockPath \<Rightarrow>
                  map_option (parseBlock (cc_block_env cfg)) (readCompressedJsonSync (bc_files bc) (Some blockPath)))
         | _ \<Rightarrow> None))"

definition getBlockByNumber :: "chain_config \<Rightarrow> blockchain \<Rightarrow> jsval \<Rightarrow> block option" where
  "getBlockByNumber cfg bc number =
     (if number = JUndef \<or> number = JNull then None
      else
        (case toNumberOrNaN number of
           JNum blockNumber \<Rightarrow>
             if blockNumber = 0 then Some (bc_genesisBlock bc)
             else
               let blockPath = getBlockPath cfg (bc_path bc) blockNumber
               in if blockPath = None \<or>
                     blockNumber > of_int (lastBlockNumber bc - int (cc_ON_MEMORY_CHAIN_LENGTH cfg))
                  then find (\<lambda>b. of_int (b_number b) = blockNumber) (bc_chain bc)
                  else map_option (parseBlock (cc_block_env cfg)) (readCompressedJsonSync (bc_files bc) blockPath)
         | _ \<Rightarrow> None))"

definition getBlockInfoByNumber :: "blockchain \<Rightarrow> jsval \<Rightarrow> rat option" where
  "getBlockInfoByNumber bc number =
     (if number = JUndef \<or> number = JNull then None
      else
        (case toNumberOrNaN number of
           JNum blockNumber \<Rightarrow>
             if of_int \<lfloor>blockNumber\<rfloor> = blockNumber then map_of (bc_numberToBlockInfo bc) \<lfloor>blockNumber\<rfloor> else None
         | _ \<Rightarrow> None))"

text \<open>\<open>push\<close>, then \<open>shift\<close> while the chain in memory is too long.\<close>

definition addBlockToChain :: "chain_config \<Rightarrow> block \<Rightarrow> blockchain \<Rightarrow> blockchain" where
  "addBlockToChain cfg b bc =
     (let chain = bc_chain bc @ [b]
      in bc\<lparr>bc_chain := drop (length chain - cc_ON_MEMORY_CHAIN_LENGTH cfg) chain\<rparr>)"

definition updateNumberToBlockInfo :: "chain_config \<Rightarrow> rat \<Rightarrow> block \<Rightarrow> blockchain \<Rightarrow> blockchain" where
  "updateNumberToBlockInfo cfg now b bc =
     (let info = AList.update (b_number b) now (bc_numberToBlockInfo bc)
      in bc\<lparr>bc_numberToBlockInfo :=
               if b_number b \<ge> cc_MAX_FINALIZED_BLOCK_INFO_ON_MEM cfg
               then AList.delete (b_number b - cc_MAX_FINALIZED_BLOCK_INFO_ON_MEM cfg) info else info\<rparr>)"

text \<open>\<^const>\<open>None\<close> when writing throws.\<close>

definition writeBlock :: "chain_config \<Rightarrow> block \<Rightarrow> blockchain \<Rightarrow> blockchain option" where
  "writeBlock cfg b bc =
     (case writeBlockFile cfg (bc_path bc) b (bc_files bc) of
        None \<Rightarrow> None
      | Some fs \<Rightarrow> Some (bc\<lparr>bc_files := writeH2nFile cfg (bc_path bc) (b_hash b) (of_int (b_number b)) fs\<rparr>))"

definition deleteBlock :: "chain_config \<Rightarrow> block \<Rightarrow> blockchain \<Rightarrow> blockchain" where
  "deleteBlock cfg b bc =
     bc\<lparr>bc_files := deleteH2nFile cfg (bc_path bc) (b_hash b)
          (deleteBlockFile cfg (bc_path bc) (of_int (b_number b)) (bc_files bc))\<rparr>"

text \<open>The block is a plain object when \<open>isBlock\<close> is false, and then parsed first.\<close>

definition addBlockToChainAndWriteToDisk ::
  "chain_config \<Rightarrow> rat \<Rightarrow> bool \<Rightarrow> block \<Rightarrow> bool \<Rightarrow> blockchain \<Rightarrow> (bool \<times> blockchain) option" where
  "addBlockToChainAndWriteToDisk cfg now isBlock b0 writeToDisk bc =
     (let b = (if isBlock then b0 else parseBlock (cc_block_env cfg) b0)
      in if b_number b \<noteq> lastBlockNumber bc + 1 then Some (False, bc)
         else
           let bc1 = updateNumberToBlockInfo cfg now b (addBlockToChain cfg b bc)
           in if writeToDisk then map_option (Pair True) (writeBlock cfg b bc1) else Some (True, bc1))"

definition validateBlock :: "chain_config \<Rightarrow> block \<Rightarrow> int option \<Rightarrow> string option \<Rightarrow> bool" where
  "validateBlock cfg b prevBlockNumber prevBlockHash =
     (if (case prevBlockNumber of None \<Rightarrow> False | Some n \<Rightarrow> b_number b \<noteq> n + 1) then False
      else if (case prevBlockHash of None \<Rightarrow> False | Some h \<Rightarrow> b_last_hash b \<noteq> h) then False
      else if \<not> validateHashes (cc_block_env cfg) b then False
      else if \<not> validateValidators (cc_block_env cfg) (JObj (b_validators b)) then False
      else True)"

text \<open>An empty segment has no first block; reading its fields throws, which is \<^const>\<open>None\<close>.\<close>

definition getValidBlocksInChainSegment :: "chain_config \<Rightarrow> blockchain \<Rightarrow> block list \<Rightarrow> block list option" where
  "getValidBlocksInChainSegment cfg bc chainSegment =
     (let newer = filter (\<lambda>b. \<not> b_number b \<le> lastBlockNumber bc) chainSegment in
      case (if lastBlockNumber bc \<ge> 0 then lastBlock bc else None) of
        Some lastB \<Rightarrow>
          if b_hash lastB = [] then
            (case chainSegment of [] \<Rightarrow> None
             | b # bs \<Rightarrow> if b_number b = 0 \<and> b_last_hash b \<noteq> [] then Some [] else Some newer)
          else
            (case filter (\<lambda>b. b_number b = lastBlockNumber bc) chainSegment of
               overlappingBlock # os \<Rightarrow> if b_hash overlappingBlock \<noteq> b_hash lastB then Some [] else Some newer
             | [] \<Rightarrow> Some newer)
      | None \<Rightarrow>
          (case chainSegment of [] \<Rightarrow> None
           | b # bs \<Rightarrow> if b_number b = 0 \<and> b_last_hash b \<noteq> [] then Some [] else Some newer))"

definition loadBlock :: "chain_config \<Rightarrow> blockchain \<Rightarrow> rat \<Rightarrow> block option" where
  "loadBlock cfg bc blockNumber =
     (let blockPath = getBlockPath cfg (bc_path bc) blockNumber
      in if \<not> fileExists (bc_files bc) blockPath then None
         else map_option (parseBlock (cc_block_env cfg)) (readCompressedJsonSync (bc_files bc) blockPath))"

text \<open>\<open>Number.isInteger(v) && v >= 0\<close>, else the default.\<close>

definition natural_or :: "jsval \<Rightarrow> int \<Rightarrow> int" where
  "natural_or v dflt = (if \<not> isInteger v \<or> numberOrZero v < 0 then dflt else \<lfloor>numberOrZero v\<rfloor>)"

definition parseAll :: "chain_config \<Rightarrow> blockchain \<Rightarrow> string option list \<Rightarrow> block option list" where
  "parseAll cfg bc = map (\<lambda>blockPath.
     map_option (parseBlock (cc_block_env cfg)) (readCompressedJsonSync (bc_files bc) blockPath))"

definition getBlockList :: "chain_config \<Rightarrow> blockchain \<Rightarrow> jsval \<Rightarrow> jsval \<Rightarrow> block option list" where
  "getBlockList cfg bc from0 to0 =
     (case lastBlock bc of
        None \<Rightarrow> []
      | Some lastB \<Rightarrow>
          if from0 = JNum (of_int (b_number lastB + 1)) then [Some lastB]
          else
            let from = natural_or from0 0;
                to1 = natural_or to0 (lastBlockNumber bc + 1);
                to = (if to1 - from > cc_CHAIN_SEGMENT_LENGTH cfg then from + cc_CHAIN_SEGMENT_LENGTH cfg else to1)
            in parseAll cfg bc (getBlockPathList cfg (bc_path bc) (bc_files bc) from (to - from)))"

definition getOldBlockList :: "chain_config \<Rightarrow> blockchain \<Rightarrow> int \<Rightarrow> block option list option" where
  "getOldBlockList cfg bc from =
     (case lastBlock bc of
        None \<Rightarrow> None
      | Some lastB \<Rightarrow>
          if from > b_number lastB then None
          else Some (parseAll cfg bc
                 (getOldBlockPathList cfg (bc_path bc) (bc_files bc) from (cc_OLD_CHAIN_SEGMENT_LENGTH cfg))))"

end
