(* ===== verification/ConsensusUtil.thy ===== *)
theory ConsensusUtil
  imports Block RuleUtil
begin

text \<open>
  \<open>consensus/consensus-util.js\<close> and the error codes of \<open>common/result-code.js\<close> that make a validator
  vote against a block: reading proposals and votes, which are transactions on
  \<open>/consensus/number\<close>. The reference of an operation is a string, as \<open>sanitizeTxBody\<close> leaves it, or
  missing. Values that are no numbers may reach a sum, so sums are the \<open>+\<close> of JavaScript.
\<close>

subsection \<open>Parts of a consensus transaction\<close>

text \<open>The element \<open>0\<close> of a list, or the property of that name.\<close>

definition at_zero :: "jsval \<Rightarrow> jsval" where
  "at_zero v = (case v of JArr (x # xs) \<Rightarrow> x | JObj ps \<Rightarrow> prop_get v ''0'' | _ \<Rightarrow> JUndef)"

definition operation_of :: "transaction \<Rightarrow> jsval" where
  "operation_of tx = prop_get (tx_body tx) ''operation''"

definition first_op :: "transaction \<Rightarrow> jsval" where
  "first_op tx = at_zero (prop_get (operation_of tx) ''op_list'')"

text \<open>\<open>op.ref.startsWith(prefix)\<close>; reading \<open>startsWith\<close> of a missing reference throws.\<close>

definition ref_starts_with :: "jsval \<Rightarrow> string \<Rightarrow> js_error + bool" where
  "ref_starts_with oper pre =
     (case prop_get oper ''ref'' of JStr s \<Rightarrow> Inr (prefix pre s) | _ \<Rightarrow> Inl TypeError)"

text \<open>
  The \<open>return false\<close> inside \<open>opList.forEach\<close> only leaves the callback, so the references of a
  proposal are read but not checked.
\<close>

definition isValidConsensusTx :: "tx_env \<Rightarrow> bool \<Rightarrow> rat \<Rightarrow> jsval \<Rightarrow> bool \<Rightarrow> transaction \<Rightarrow> js_error + bool" where
  "isValidConsensusTx env lightweight now chainId isInstance tx =
     (case toExecutable env now isInstance tx chainId of
        Inl e \<Rightarrow> Inl e
      | Inr None \<Rightarrow> Inr False
      | Inr (Some executableTx) \<Rightarrow>
          (case (if lightweight then Inr True else verifyTransaction env (Some executableTx) chainId) of
             Inl e \<Rightarrow> Inl e
           | Inr False \<Rightarrow> Inr False
           | Inr True \<Rightarrow>
               let op = operation_of tx; consensusTxPrefix = formatPath [''consensus'', ''number'']
               in if prop_get (tx_body tx) ''nonce'' \<noteq> JNum (-1) then Inr False
                  else if \<not> truthy op then Inr False
                  else if prop_get op ''type'' = JStr ''SET_VALUE'' then ref_starts_with op consensusTxPrefix
                  else if prop_get op ''type'' = JStr ''SET'' then
                    (case prop_get op ''op_list'' of
                       JArr opList \<Rightarrow>
                         if length opList > 2 then Inr False
                         else (case map_err (\<lambda>innerOp. ref_starts_with innerOp consensusTxPrefix) opList of
                                 Inl e \<Rightarrow> Inl e
                               | Inr _ \<Rightarrow> Inr True)
                     | _ \<Rightarrow> Inr False)
                  else Inr False))"

definition isProposalTx :: "transaction \<Rightarrow> bool" where
  "isProposalTx tx =
     (let op = operation_of tx
      in if \<not> truthy op \<or> prop_get op ''type'' \<noteq> JStr ''SET'' then False
         else suffix ''propose'' (stringOrEmpty (prop_get (first_op tx) ''ref'')))"

definition filterProposalFromVotes :: "transaction list \<Rightarrow> transaction option" where
  "filterProposalFromVotes votes =
     (case filter isProposalTx votes of [] \<Rightarrow> None | tx # txs \<Rightarrow> Some tx)"

definition getBlockHashFromConsensusTx :: "transaction \<Rightarrow> jsval" where
  "getBlockHashFromConsensusTx tx =
     (let op = operation_of tx
      in if \<not> truthy op then JNull
         else if prop_get op ''type'' = JStr ''SET_VALUE'' then js_get op [Key ''value'', Key ''block_hash''] JUndef
         else if prop_get op ''type'' = JStr ''SET'' then js_get (first_op tx) [Key ''value'', Key ''block_hash''] JUndef
         else JNull)"

definition label_at :: "nat \<Rightarrow> string list \<Rightarrow> jsval" where
  "label_at i labels = (if i < length labels then JStr (labels ! i) else JUndef)"

definition getBlockNumberFromConsensusTx :: "transaction \<Rightarrow> jsval" where
  "getBlockNumberFromConsensusTx tx =
     (let op = operation_of tx
      in if \<not> truthy op then JNull
         else if prop_get op ''type'' = JStr ''SET_VALUE'' then label_at 2 (parsePath (stringOrEmpty (prop_get op ''ref'')))
         else if prop_get op ''type'' = JStr ''SET'' then label_at 2 (parsePath (stringOrEmpty (prop_get (first_op tx) ''ref'')))
         else JNull)"

definition getStakeFromVoteTx :: "transaction \<Rightarrow> jsval" where
  "getStakeFromVoteTx tx = js_get (tx_body tx) [Key ''operation'', Key ''value'', Key ''stake''] (JNum 0)"

definition getOffenseTypeFromVoteTx :: "transaction \<Rightarrow> jsval" where
  "getOffenseTypeFromVoteTx tx = js_get (tx_body tx) [Key ''operation'', Key ''value'', Key ''offense_type''] JUndef"

definition getTimestampFromVoteTx :: "transaction \<Rightarrow> jsval" where
  "getTimestampFromVoteTx tx = js_get (tx_body tx) [Key ''timestamp''] JUndef"

definition isAgainstVoteTx :: "transaction \<Rightarrow> bool" where
  "isAgainstVoteTx tx =
     (js_get (tx_body tx) [Key ''operation'', Key ''value'', Key ''is_against''] JUndef = JBool True)"

definition getOffensesFromProposalTx :: "transaction \<Rightarrow> jsval" where
  "getOffensesFromProposalTx tx =
     (if \<not> isProposalTx tx then JObj [] else js_get (first_op tx) [Key ''value'', Key ''offenses''] (JObj []))"

definition getTotalAtStake :: "(rat \<Rightarrow> string) \<Rightarrow> (string \<times> jsval) list \<Rightarrow> jsval" where
  "getTotalAtStake dstr validators =
     foldl (\<lambda>acc cur. js_add dstr acc (js_get cur [Key ''stake''] (JNum 0))) (JNum 0) (map snd validators)"

definition ConsensusErrorCodeSetToVoteAgainst :: "int set" where
  "ConsensusErrorCodeSetToVoteAgainst =
     {90400, 90303, 90308, 90306, 90307, 90305, 90104, 90105, 90106, 90304, 90300, 90309, 90310, 90311, 90312,
      90313, 90314, 90315, 90316, 90317, 90100, 90319, 90320, 90318}"

definition isVoteAgainstBlockError :: "int \<Rightarrow> bool" where
  "isVoteAgainstBlockError errorCode = (errorCode \<in> ConsensusErrorCodeSetToVoteAgainst)"

definition getInvalidBlockHashesFromBlock :: "block \<Rightarrow> jsval list" where
  "getInvalidBlockHashesFromBlock b =
     concat (map (\<lambda>(offender, evidenceList).
       map (\<lambda>evidenceForOffense. js_get (ev_block evidenceForOffense) [Key ''hash''] JUndef) evidenceList) (b_evidence b))"

subsection \<open>Stakes that are numbers\<close>

definition stake_of :: "jsval \<Rightarrow> rat" where
  "stake_of info = numberOrZero (prop_get info ''stake'')"

definition numeric_stakes :: "(string \<times> jsval) list \<Rightarrow> bool" where
  "numeric_stakes validators = list_all (\<lambda>(addr, info). isNumber (prop_get info ''stake'')) validators"

lemma js_get_stake:
  "isNumber (prop_get info ''stake'') \<Longrightarrow> js_get info [Key ''stake''] (JNum 0) = JNum (stake_of info)"
  by (cases "prop_get info ''stake''"; cases info) (auto simp: js_get_def stake_of_def)

lemma getTotalAtStake_sum:
  "numeric_stakes validators \<Longrightarrow>
   getTotalAtStake dstr validators = JNum (\<Sum>(addr, info)\<leftarrow>validators. stake_of info)"
proof -
  have "foldl (\<lambda>acc cur. js_add dstr acc (js_get cur [Key ''stake''] (JNum 0))) (JNum q) (map snd vs) =
      JNum (q + (\<Sum>(addr, info)\<leftarrow>vs. stake_of info))" if "numeric_stakes vs" for q vs
    using that by (induction vs arbitrary: q) (auto simp: numeric_stakes_def js_get_stake)
  then show "numeric_stakes validators \<Longrightarrow> ?thesis" by (simp add: getTotalAtStake_def)
qed

end
