(* ===== verification/BlockPool.thy ===== *)
theory BlockPool
  imports Chain ConsensusUtil TxPool
begin

text \<open>
  \<open>block-pool/index.js\<close>: the proposed blocks that are not finalized yet, the votes for and against
  them, and the search for the longest notarized and for finalizable chains. Maps keep the order of
  insertion; the key of a block info is what a vote gave as block hash, so it may be any value. The
  chain, the transaction pool and the execution of a transaction on a database are arguments, as they
  are reached through \<open>this.node\<close>. The searches follow the links of the pool recursively: they are
  given one unit of fuel per block info and two more, and return \<^const>\<open>None\<close> when it runs out, which
  happens only when the links form a cycle.
\<close>

record block_info =
  bi_block :: "block option"
  bi_proposal :: "transaction option"
  bi_votes :: "transaction list option"
  bi_tallied :: "jsval option"
  bi_notarized :: bool

record 'db block_pool =
  bp_longestNotarizedChainTips :: "string list"
  bp_hashToBlockInfo :: "(jsval \<times> block_info) list"
  bp_hashToInvalidBlockInfo :: "(jsval \<times> block_info) list"
  bp_hashToDb :: "(string \<times> 'db) list"
  bp_hashToNextBlockSet :: "(string \<times> string list) list"
  bp_epochToBlock :: "(int \<times> string) list"
  bp_numberToBlockSet :: "(jsval \<times> jsval list) list"
  bp_heighestSeenBlockNumber :: int

definition emptyInfo :: block_info where
  "emptyInfo = \<lparr>bi_block = None, bi_proposal = None, bi_votes = None, bi_tallied = None, bi_notarized = False\<rparr>"

definition newBlockPool :: "blockchain \<Rightarrow> 'db block_pool" where
  "newBlockPool bc =
     \<lparr>bp_longestNotarizedChainTips = (case lastBlock bc of Some b \<Rightarrow> [b_hash b] | None \<Rightarrow> []),
      bp_hashToBlockInfo = [], bp_hashToInvalidBlockInfo = [], bp_hashToDb = [], bp_hashToNextBlockSet = [],
      bp_epochToBlock = [], bp_numberToBlockSet = [], bp_heighestSeenBlockNumber = -1\<rparr>"

definition infoOf :: "'db block_pool \<Rightarrow> jsval \<Rightarrow> block_info option" where
  "infoOf bp h = map_of (bp_hashToBlockInfo bp) h"

definition blockOf :: "'db block_pool \<Rightarrow> jsval \<Rightarrow> block option" where
  "blockOf bp h = (case infoOf bp h of Some info \<Rightarrow> bi_block info | None \<Rightarrow> None)"

definition putInfo :: "jsval \<Rightarrow> block_info \<Rightarrow> 'db block_pool \<Rightarrow> 'db block_pool" where
  "putInfo h info bp = bp\<lparr>bp_hashToBlockInfo := AList.update h info (bp_hashToBlockInfo bp)\<rparr>"

definition getLongestNotarizedChainHeight :: "blockchain \<Rightarrow> 'db block_pool \<Rightarrow> int" where
  "getLongestNotarizedChainHeight bc bp =
     (case bp_longestNotarizedChainTips bp of
        [] \<Rightarrow> lastBlockNumber bc
      | tip # tips \<Rightarrow> (case blockOf bp (JStr tip) of None \<Rightarrow> lastBlockNumber bc | Some b \<Rightarrow> b_number b))"

definition updateHighestSeenBlockNumber :: "int \<Rightarrow> 'db block_pool \<Rightarrow> 'db block_pool" where
  "updateHighestSeenBlockNumber blockNumber bp =
     (if blockNumber > bp_heighestSeenBlockNumber bp then bp\<lparr>bp_heighestSeenBlockNumber := blockNumber\<rparr> else bp)"

subsection \<open>Notarized chains\<close>

definition nextBlocks :: "'db block_pool \<Rightarrow> string \<Rightarrow> string list" where
  "nextBlocks bp h = (case map_of (bp_hashToNextBlockSet bp) h of None \<Rightarrow> [] | Some hs \<Rightarrow> hs)"

definition searchFuel :: "'db block_pool \<Rightarrow> nat" where
  "searchFuel bp = length (bp_hashToBlockInfo bp) + 2"

text \<open>\<open>currentNode && currentNode.notarized && currentNode.block\<close>\<close>

definition notarizedBlock :: "block_info option \<Rightarrow> block option" where
  "notarizedBlock node = (case node of Some info \<Rightarrow> if bi_notarized info then bi_block info else None | None \<Rightarrow> None)"

text \<open>No caller passes \<open>withInfo\<close>. Pushing and popping the current chain is passing it down.\<close>

definition considerChain :: "block list \<Rightarrow> block list list \<Rightarrow> block list list" where
  "considerChain currentChain chainList =
     (let blockNumber = b_number (last currentChain);
          longestNumber = (case chainList of [] \<Rightarrow> 0 | c # cs \<Rightarrow> b_number (last c))
      in if blockNumber > longestNumber then [currentChain]
         else if blockNumber = longestNumber then chainList @ [currentChain]
         else chainList)"

fun dfsLongest ::
  "nat \<Rightarrow> 'db block_pool \<Rightarrow> block_info option \<Rightarrow> block list \<Rightarrow> block list list \<Rightarrow> block list list option" where
  "dfsLongest 0 bp currentNode currentChain chainList = None"
| "dfsLongest (Suc n) bp currentNode currentChain chainList =
     (case notarizedBlock currentNode of
        None \<Rightarrow> Some chainList
      | Some b \<Rightarrow>
          let chain = currentChain @ [b]
          in fold_opt (\<lambda>val cl. dfsLongest n bp (infoOf bp (JStr val)) chain cl)
               (nextBlocks bp (b_hash b)) (considerChain chain chainList))"

definition lastFinalizedInfo :: "blockchain \<Rightarrow> 'db block_pool \<Rightarrow> block_info option" where
  "lastFinalizedInfo bc bp =
     (if lastBlockNumber bc < 1 then Some (emptyInfo\<lparr>bi_block := lastBlock bc, bi_notarized := True\<rparr>)
      else (case lastBlock bc of Some b \<Rightarrow> infoOf bp (JStr (b_hash b)) | None \<Rightarrow> None))"

definition getLongestNotarizedChainList :: "blockchain \<Rightarrow> 'db block_pool \<Rightarrow> block list list option" where
  "getLongestNotarizedChainList bc bp = dfsLongest (searchFuel bp) bp (lastFinalizedInfo bc bp) [] []"

definition updateLongestNotarizedChains :: "blockchain \<Rightarrow> 'db block_pool \<Rightarrow> 'db block_pool option" where
  "updateLongestNotarizedChains bc bp =
     (if (case bp_longestNotarizedChainTips bp of [] \<Rightarrow> False | tip # tips \<Rightarrow> blockOf bp (JStr tip) = None)
      then Some bp
      else map_option
        (\<lambda>longestChains. bp\<lparr>bp_longestNotarizedChainTips := map (\<lambda>c. b_hash (last c)) longestChains\<rparr>)
        (getLongestNotarizedChainList bc bp))"

text \<open>
  The blocks from the one after the finalized block up to the given hash, oldest first, and the
  invalid blocks they record as evidence. The loop gets fuel for every block info.
\<close>

fun walkBack :: "nat \<Rightarrow> 'db block_pool \<Rightarrow> int \<Rightarrow> jsval \<Rightarrow> block_info list \<Rightarrow> jsval list
   \<Rightarrow> (block_info list \<times> jsval list \<times> block_info option) option" where
  "walkBack 0 bp finalizedNumber h chain recorded = None"
| "walkBack (Suc n) bp finalizedNumber h chain recorded =
     (case infoOf bp h of
        None \<Rightarrow> Some (chain, recorded, None)
      | Some info \<Rightarrow>
          (case bi_block info of
             None \<Rightarrow> Some (chain, recorded, Some info)
           | Some b \<Rightarrow>
               if b_number b > finalizedNumber
               then walkBack n bp finalizedNumber (JStr (b_last_hash b)) (info # chain)
                      (foldl (\<lambda>s v. set_add v s) recorded (getInvalidBlockHashesFromBlock b))
               else Some (chain, recorded, Some info)))"

datatype extending = Extending "block_info list" "jsval list" | MissingChain | NoFinalizedBlock

text \<open>\<^const>\<open>MissingChain\<close> is the empty array; without a finalized block, reading its number throws.\<close>

definition getExtendingChain :: "blockchain \<Rightarrow> 'db block_pool \<Rightarrow> jsval \<Rightarrow> extending option" where
  "getExtendingChain bc bp h =
     (case blockOf bp h of
        None \<Rightarrow> Some (Extending [] [])
      | Some b \<Rightarrow>
          (case lastBlock bc of
             None \<Rightarrow> Some NoFinalizedBlock
           | Some finalizedBlock \<Rightarrow>
               if b_number b \<le> b_number finalizedBlock then Some (Extending [] [])
               else
                 (case walkBack (searchFuel bp) bp (b_number finalizedBlock) h [] [] of
                    None \<Rightarrow> None
                  | Some (chain, recorded, reached) \<Rightarrow>
                      Some (case reached of
                          None \<Rightarrow> MissingChain
                        | Some info \<Rightarrow>
                            (case bi_block info of
                               None \<Rightarrow> MissingChain
                             | Some cb \<Rightarrow>
                                 if b_hash cb \<noteq> b_hash finalizedBlock then MissingChain
                                 else Extending chain recorded)))))"

definition endsWithThreeConsecutiveEpochs :: "block list \<Rightarrow> bool" where
  "endsWithThreeConsecutiveEpochs chain =
     (let len = length chain
      in if len < 3 then False
         else b_epoch (chain ! (len - 3)) + 1 = b_epoch (chain ! (len - 2)) \<and>
              b_epoch (chain ! (len - 2)) + 1 = b_epoch (chain ! (len - 1)))"

definition finalizable_or_empty :: "block list \<Rightarrow> block list" where
  "finalizable_or_empty chain = (if endsWithThreeConsecutiveEpochs chain then chain else [])"

text \<open>Without next blocks, a chain that is not finalizable gives back the chain of its parent.\<close>

definition longerFinalizable :: "block list \<Rightarrow> block list \<Rightarrow> block list" where
  "longerFinalizable res longest =
     (if endsWithThreeConsecutiveEpochs res \<and> length res > length longest then res else longest)"

fun dfsFinalizable :: "nat \<Rightarrow> 'db block_pool \<Rightarrow> block_info option \<Rightarrow> block list \<Rightarrow> block list option" where
  "dfsFinalizable 0 bp currentNode currentChain = None"
| "dfsFinalizable (Suc n) bp currentNode currentChain =
     (case notarizedBlock currentNode of
        None \<Rightarrow> Some (finalizable_or_empty currentChain)
      | Some b \<Rightarrow>
          let chain = currentChain @ [b]; nextBlockSet = nextBlocks bp (b_hash b)
          in if nextBlockSet = []
             then Some (if endsWithThreeConsecutiveEpochs chain then chain else currentChain)
             else fold_opt
               (\<lambda>h longest. map_option (\<lambda>res. longerFinalizable res longest)
                  (dfsFinalizable n bp (infoOf bp (JStr h)) chain))
               nextBlockSet (finalizable_or_empty chain))"

text \<open>The genesis block is in the pool as an info whose block may still be missing.\<close>

definition getFinalizableChain :: "blockchain \<Rightarrow> 'db block_pool \<Rightarrow> bool \<Rightarrow> block option list option" where
  "getFinalizableChain bc bp isGenesisStart =
     (let genesisBlockInfo = infoOf bp (JStr (bc_genesisBlockHash bc));
          chainWithGenesisBlock = (case genesisBlockInfo of Some info \<Rightarrow> [bi_block info] | None \<Rightarrow> [])
      in if isGenesisStart then Some chainWithGenesisBlock
         else
           let lastFinalized = emptyInfo\<lparr>bi_block := lastBlock bc, bi_notarized := True\<rparr>
           in map_option
                (\<lambda>chain. if chain = [] \<and> lastBlockNumber bc < 0 \<and> genesisBlockInfo \<noteq> None
                         then chainWithGenesisBlock else map Some chain)
                (dfsFinalizable (searchFuel bp) bp (Some lastFinalized) []))"

definition getNotarizedBlockListByNumber :: "'db block_pool \<Rightarrow> int \<Rightarrow> block_info list" where
  "getNotarizedBlockListByNumber bp number =
     filter (\<lambda>info. (case bi_block info of Some b \<Rightarrow> b_number b = number | None \<Rightarrow> False) \<and>
        bi_proposal info \<noteq> None \<and> bi_notarized info) (map snd (bp_hashToBlockInfo bp))"

definition getNotarizedBlockByHash :: "'db block_pool \<Rightarrow> jsval \<Rightarrow> block option" where
  "getNotarizedBlockByHash bp h = notarizedBlock (infoOf bp h)"

definition hasSeenBlock :: "'db block_pool \<Rightarrow> string \<Rightarrow> bool" where
  "hasSeenBlock bp h =
     (case infoOf bp (JStr h) of
        Some info \<Rightarrow> bi_block info \<noteq> None
      | None \<Rightarrow> (case map_of (bp_hashToInvalidBlockInfo bp) (JStr h) of
                   Some info \<Rightarrow> bi_block info \<noteq> None
                 | None \<Rightarrow> False))"

subsection \<open>Notarization\<close>

definition MAJORITY :: rat where
  "MAJORITY = 2 / 3"

text \<open>The block before: the last finalized one when the numbers fit, else by hash.\<close>

definition prevBlockOf :: "chain_config \<Rightarrow> blockchain \<Rightarrow> 'db block_pool \<Rightarrow> block \<Rightarrow> block option" where
  "prevBlockOf cfg bc bp b =
     (let byHash = (case blockOf bp (JStr (b_last_hash b)) of
                      Some pb \<Rightarrow> Some pb
                    | None \<Rightarrow> getBlockByHash cfg bc (b_last_hash b))
      in case lastBlock bc of
           Some lb \<Rightarrow> if b_number lb = b_number b - 1 then Some lb else byHash
         | None \<Rightarrow> byHash)"

definition hasMajority :: "chain_config \<Rightarrow> block \<Rightarrow> jsval option \<Rightarrow> bool" where
  "hasMajority cfg prevBlock tallied =
     (case tallied of
        None \<Rightarrow> False
      | Some t \<Rightarrow> truthy t \<and>
          js_le (js_mul (getTotalAtStake (cc_numText cfg) (b_validators prevBlock)) (JNum MAJORITY)) t)"

definition markNotarized :: "blockchain \<Rightarrow> jsval \<Rightarrow> block_info \<Rightarrow> 'db block_pool \<Rightarrow> 'db block_pool option" where
  "markNotarized bc h info bp = updateLongestNotarizedChains bc (putInfo h (info\<lparr>bi_notarized := True\<rparr>) bp)"

definition tryUpdateNotarized ::
  "chain_config \<Rightarrow> blockchain \<Rightarrow> jsval \<Rightarrow> bool \<Rightarrow> 'db block_pool \<Rightarrow> 'db block_pool option" where
  "tryUpdateNotarized cfg bc h isFromSnapshot bp =
     (case infoOf bp h of
        None \<Rightarrow> Some bp
      | Some info \<Rightarrow>
          (case bi_block info of
             None \<Rightarrow> Some bp
           | Some b \<Rightarrow>
               if bi_notarized info then Some bp
               else if b_number b = 0 \<or> isFromSnapshot then markNotarized bc h info bp
               else
                 (case prevBlockOf cfg bc bp b of
                    None \<Rightarrow> Some bp
                  | Some prevBlock \<Rightarrow>
                      if hasMajority cfg prevBlock (bi_tallied info) then markNotarized bc h info bp else Some bp)))"

subsection \<open>Adding blocks\<close>

definition checkEpochToBlockMap :: "'db block_pool \<Rightarrow> block \<Rightarrow> bool" where
  "checkEpochToBlockMap bp b =
     (case map_of (bp_epochToBlock bp) (b_epoch b) of
        None \<Rightarrow> True
      | Some h \<Rightarrow>
          if h \<noteq> b_hash b
          then (case infoOf bp (JStr h) of None \<Rightarrow> True | Some conflict \<Rightarrow> \<not> bi_notarized conflict)
          else True)"

text \<open>
  The votes that came before the block: a vote counts with the stake it declares itself when its sender is a
  validator of the block.
\<close>

definition tallyEarlyVotes :: "chain_config \<Rightarrow> block \<Rightarrow> transaction list \<Rightarrow> jsval" where
  "tallyEarlyVotes cfg b votes =
     foldl (\<lambda>tallied vote.
        if truthy (prop_get (JObj (b_validators b)) (tx_address vote))
        then js_add (cc_numText cfg) tallied
               (js_get (tx_body vote) [Key ''operation'', Key ''value'', Key ''stake''] JUndef)
        else tallied) (JNum 0) votes"

definition infoOrNew :: "'db block_pool \<Rightarrow> jsval \<Rightarrow> block_info" where
  "infoOrNew bp h = (case infoOf bp h of Some info \<Rightarrow> info | None \<Rightarrow> emptyInfo)"

text \<open>The block is new to the info and votes for it came before, none of them counted.\<close>

definition hasEarlyVotes :: "block_info \<Rightarrow> bool" where
  "hasEarlyVotes info =
     (bi_block info = None \<and> bi_votes info \<noteq> None \<and>
      \<not> (case bi_tallied info of None \<Rightarrow> False | Some t \<Rightarrow> truthy t))"

definition votesOf :: "block_info option \<Rightarrow> transaction list" where
  "votesOf info = (case info of None \<Rightarrow> [] | Some i \<Rightarrow> (case bi_votes i of None \<Rightarrow> [] | Some vs \<Rightarrow> vs))"

definition storedInfo :: "chain_config \<Rightarrow> block \<Rightarrow> transaction option \<Rightarrow> block_info \<Rightarrow> block_info" where
  "storedInfo cfg b proposalTx info =
     (if bi_block info = None then
        let info1 = info\<lparr>bi_block := Some b, bi_proposal := proposalTx\<rparr>
        in if hasEarlyVotes info
           then info1\<lparr>bi_tallied := Some (tallyEarlyVotes cfg b (votesOf (Some info)))\<rparr> else info1
      else info)"

definition addToHashBlockInfoMap ::
  "chain_config \<Rightarrow> blockchain \<Rightarrow> block \<Rightarrow> transaction option \<Rightarrow> 'db block_pool \<Rightarrow> 'db block_pool option" where
  "addToHashBlockInfoMap cfg bc b proposalTx bp =
     (let h = JStr (b_hash b);
          info = infoOrNew bp h;
          bp1 = putInfo h (storedInfo cfg b proposalTx info) bp
      in if hasEarlyVotes info then tryUpdateNotarized cfg bc h False bp1 else Some bp1)"

definition addToInvalidBlockInfoMap :: "block \<Rightarrow> transaction option \<Rightarrow> 'db block_pool \<Rightarrow> 'db block_pool" where
  "addToInvalidBlockInfoMap b proposalTx bp =
     (let h = JStr (b_hash b);
          info = (case map_of (bp_hashToInvalidBlockInfo bp) h of Some info \<Rightarrow> info | None \<Rightarrow> emptyInfo);
          info1 = (if bi_block info = None then info\<lparr>bi_block := Some b, bi_proposal := proposalTx\<rparr> else info)
      in bp\<lparr>bp_hashToInvalidBlockInfo := AList.update h info1 (bp_hashToInvalidBlockInfo bp)\<rparr>)"

definition addToNumberToBlockSet :: "jsval \<Rightarrow> jsval \<Rightarrow> 'db block_pool \<Rightarrow> 'db block_pool" where
  "addToNumberToBlockSet number h bp =
     (let hs = (case map_of (bp_numberToBlockSet bp) number of Some hs \<Rightarrow> hs | None \<Rightarrow> [])
      in bp\<lparr>bp_numberToBlockSet := AList.update number (set_add h hs) (bp_numberToBlockSet bp)\<rparr>)"

definition addToNextBlockSet :: "block \<Rightarrow> 'db block_pool \<Rightarrow> 'db block_pool" where
  "addToNextBlockSet b bp =
     bp\<lparr>bp_hashToNextBlockSet :=
          AList.update (b_last_hash b) (set_add (b_hash b) (nextBlocks bp (b_last_hash b))) (bp_hashToNextBlockSet bp)\<rparr>"

definition addToHashToDbMap :: "string \<Rightarrow> 'db \<Rightarrow> 'db block_pool \<Rightarrow> 'db block_pool" where
  "addToHashToDbMap h db bp = bp\<lparr>bp_hashToDb := AList.update h db (bp_hashToDb bp)\<rparr>"

definition addSeenBlock ::
  "chain_config \<Rightarrow> blockchain \<Rightarrow> block \<Rightarrow> transaction option \<Rightarrow> bool \<Rightarrow> bool \<Rightarrow> 'db block_pool
   \<Rightarrow> (bool \<times> 'db block_pool) option" where
  "addSeenBlock cfg bc b proposalTx isValid isFromSnapshot bp =
     (let number = JNum (of_int (b_number b)); h = JStr (b_hash b) in
      if isValid then
        if \<not> checkEpochToBlockMap bp b then Some (False, bp)
        else
          (case addToHashBlockInfoMap cfg bc b proposalTx bp of
             None \<Rightarrow> None
           | Some bp1 \<Rightarrow>
               let bp2 = addToNumberToBlockSet number h bp1;
                   bp3 = bp2\<lparr>bp_epochToBlock := AList.update (b_epoch b) (b_hash b) (bp_epochToBlock bp2)\<rparr>;
                   bp4 = addToNextBlockSet b bp3
               in (case tryUpdateNotarized cfg bc h isFromSnapshot bp4 of
                     None \<Rightarrow> None
                   | Some bp5 \<Rightarrow>
                       map_option (\<lambda>bp6. (True, updateHighestSeenBlockNumber (b_number b) bp6))
                         (fold_opt (\<lambda>val. tryUpdateNotarized cfg bc (JStr val) False)
                            (nextBlocks bp5 (b_hash b)) bp5)))
      else
        Some (True, updateHighestSeenBlockNumber (b_number b)
          (addToNumberToBlockSet number h (addToInvalidBlockInfoMap b proposalTx bp))))"

subsection \<open>Adding votes and proposals\<close>

definition hasVote :: "transaction \<Rightarrow> jsval \<Rightarrow> bool \<Rightarrow> 'db block_pool \<Rightarrow> bool" where
  "hasVote voteTx h isAgainstVote bp =
     (if isAgainstVote
      then \<exists>v\<in>set (votesOf (map_of (bp_hashToInvalidBlockInfo bp) h)). tx_hash v = tx_hash voteTx
      else \<exists>v\<in>set (votesOf (infoOf bp h)). tx_hash v = tx_hash voteTx)"

text \<open>
  Only counts if the voter was actually included as a validator in the block, with the stake it declares.
\<close>

definition voteCounts :: "block_info \<Rightarrow> transaction \<Rightarrow> jsval \<Rightarrow> bool" where
  "voteCounts info voteTx stake =
     (case bi_block info of
        None \<Rightarrow> False
      | Some b \<Rightarrow> js_lt (JNum 0) stake \<and>
          js_get (JObj (b_validators b)) [Key (tx_address voteTx), Key ''stake''] JUndef = stake)"

definition votedInfo :: "chain_config \<Rightarrow> transaction \<Rightarrow> jsval \<Rightarrow> block_info \<Rightarrow> block_info" where
  "votedInfo cfg voteTx stake info =
     (let tallied = (case bi_tallied info of None \<Rightarrow> JNum 0 | Some t \<Rightarrow> t)
      in info\<lparr>bi_votes := Some (votesOf (Some info) @ [voteTx]),
               bi_tallied := Some (if voteCounts info voteTx stake then js_add (cc_numText cfg) tallied stake else tallied)\<rparr>)"

definition addVoteFor ::
  "chain_config \<Rightarrow> blockchain \<Rightarrow> transaction \<Rightarrow> jsval \<Rightarrow> jsval \<Rightarrow> 'db block_pool \<Rightarrow> 'db block_pool option" where
  "addVoteFor cfg bc voteTx h stake bp =
     (let info = infoOrNew bp h in
      if hasVote voteTx h False bp then Some (putInfo h (info\<lparr>bi_votes := Some (votesOf (Some info))\<rparr>) bp)
      else
        let bp1 = putInfo h (votedInfo cfg voteTx stake info) bp
        in if voteCounts info voteTx stake then tryUpdateNotarized cfg bc h False bp1 else Some bp1)"

definition addVoteAgainst :: "transaction \<Rightarrow> jsval \<Rightarrow> 'db block_pool \<Rightarrow> 'db block_pool" where
  "addVoteAgainst voteTx h bp =
     (let info0 = (case map_of (bp_hashToInvalidBlockInfo bp) h of Some info \<Rightarrow> info | None \<Rightarrow> emptyInfo);
          votes = votesOf (Some info0);
          votes1 = (if hasVote voteTx h True bp then votes else votes @ [voteTx])
      in bp\<lparr>bp_hashToInvalidBlockInfo :=
               AList.update h (info0\<lparr>bi_votes := Some votes1\<rparr>) (bp_hashToInvalidBlockInfo bp)\<rparr>)"

definition addProposal :: "transaction \<Rightarrow> jsval \<Rightarrow> 'db block_pool \<Rightarrow> 'db block_pool" where
  "addProposal proposalTx h bp =
     (let info = infoOrNew bp h
      in if bi_proposal info \<noteq> None then bp else putInfo h (info\<lparr>bi_proposal := Some proposalTx\<rparr>) bp)"

definition addSeenVote :: "chain_config \<Rightarrow> blockchain \<Rightarrow> transaction \<Rightarrow> 'db block_pool \<Rightarrow> 'db block_pool option" where
  "addSeenVote cfg bc voteTx bp =
     (let h = getBlockHashFromConsensusTx voteTx;
          blockNumber = getBlockNumberFromConsensusTx voteTx;
          stake = getStakeFromVoteTx voteTx;
          bp1 = addToNumberToBlockSet blockNumber h bp
      in if isProposalTx voteTx then Some (addProposal voteTx h bp1)
         else if isAgainstVoteTx voteTx then Some (addVoteAgainst voteTx h bp1)
         else addVoteFor cfg bc voteTx h stake bp1)"

subsection \<open>Cleaning up\<close>

text \<open>The databases that are destroyed are returned, the block pool and the transaction pool changed.\<close>

type_synonym 'db cleaned = "'db block_pool \<times> tx_pool \<times> 'db list"

definition consensusTxsOf :: "block_info option \<Rightarrow> transaction list" where
  "consensusTxsOf info =
     votesOf info @ (case info of None \<Rightarrow> [] | Some i \<Rightarrow> (case bi_proposal i of None \<Rightarrow> [] | Some p \<Rightarrow> [p]))"

definition cleanUpForBlockHash :: "jsval \<Rightarrow> 'db cleaned \<Rightarrow> 'db cleaned" where
  "cleanUpForBlockHash h st =
     (case st of (bp, tp, destroyed) \<Rightarrow>
        let info = infoOf bp h; invalidInfo = map_of (bp_hashToInvalidBlockInfo bp) h;
            tp1 = cleanUpConsensusTxs (case info of None \<Rightarrow> None | Some i \<Rightarrow> bi_block i) (consensusTxsOf info) tp;
            tp2 = cleanUpConsensusTxs (case invalidInfo of None \<Rightarrow> None | Some i \<Rightarrow> bi_block i)
                    (consensusTxsOf invalidInfo) tp1;
            key = stringOrEmpty h;
            db = (if isString h then map_of (bp_hashToDb bp) key else None);
            bp1 = bp\<lparr>bp_hashToBlockInfo := AList.delete h (bp_hashToBlockInfo bp),
                     bp_hashToInvalidBlockInfo := AList.delete h (bp_hashToInvalidBlockInfo bp),
                     bp_hashToNextBlockSet :=
                       (if isString h then AList.delete key (bp_hashToNextBlockSet bp) else bp_hashToNextBlockSet bp)\<rparr>
        in (case db of
              None \<Rightarrow> (bp1, tp2, destroyed)
            | Some d \<Rightarrow> (bp1\<lparr>bp_hashToDb := AList.delete key (bp_hashToDb bp1)\<rparr>, tp2, destroyed @ [d])))"

text \<open>One entry of \<open>numberToBlockSet\<close>; the result is the set of hashes that stay.\<close>

definition cleanUpHashes ::
  "rat \<Rightarrow> rat \<Rightarrow> jsval \<Rightarrow> jsval list \<Rightarrow> jsval list \<Rightarrow> 'db cleaned \<Rightarrow> jsval list \<times> 'db cleaned" where
  "cleanUpHashes number targetNumber maxInvalidBlocksOnMem recordedInvalidBlocks hs st =
     foldl (\<lambda>(kept, st) h.
        if map_of (bp_hashToInvalidBlockInfo (fst st)) h \<noteq> None then
          if h \<in> set recordedInvalidBlocks \<or> js_lt (JNum number) (js_sub (JNum targetNumber) maxInvalidBlocksOnMem)
          then (kept, cleanUpForBlockHash h st)
          else (kept @ [h], st)
        else (kept, cleanUpForBlockHash h st)) ([], st) hs"

definition cleanUpNumber ::
  "rat \<Rightarrow> jsval \<Rightarrow> jsval list \<Rightarrow> (jsval \<times> jsval list) \<Rightarrow> 'db cleaned \<Rightarrow> 'db cleaned" where
  "cleanUpNumber targetNumber maxInvalidBlocksOnMem recordedInvalidBlocks entry st =
     (case entry of (blockNumber, hs) \<Rightarrow>
        (case to_number blockNumber of
           JNum number \<Rightarrow>
             if number < targetNumber then
               (case cleanUpHashes number targetNumber maxInvalidBlocksOnMem recordedInvalidBlocks hs st of
                  (kept, bp1, rest) \<Rightarrow>
                    (bp1\<lparr>bp_numberToBlockSet :=
                       (if kept = [] then AList.delete blockNumber (bp_numberToBlockSet bp1)
                        else AList.update blockNumber kept (bp_numberToBlockSet bp1))\<rparr>, rest))
             else st
         | _ \<Rightarrow> st))"

definition cleanUpEpoch :: "int \<Rightarrow> (int \<times> string) \<Rightarrow> 'db cleaned \<Rightarrow> 'db cleaned" where
  "cleanUpEpoch lastEpoch entry st =
     (case entry of (epoch, h) \<Rightarrow>
        if epoch < lastEpoch then
          (case cleanUpForBlockHash (JStr h) st of
             (bp1, rest) \<Rightarrow> (bp1\<lparr>bp_epochToBlock := AList.delete epoch (bp_epochToBlock bp1)\<rparr>, rest))
        else st)"

definition cleanUpAfterFinalization ::
  "blockchain \<Rightarrow> jsval \<Rightarrow> block \<Rightarrow> jsval list \<Rightarrow> 'db block_pool \<Rightarrow> tx_pool \<Rightarrow> 'db cleaned option" where
  "cleanUpAfterFinalization bc maxInvalidBlocksOnMem lastB recordedInvalidBlocks bp tp =
     (let st1 = foldl (\<lambda>st entry. cleanUpNumber (of_int (b_number lastB)) maxInvalidBlocksOnMem recordedInvalidBlocks entry st)
                  (bp, tp, []) (bp_numberToBlockSet bp);
          st2 = foldl (\<lambda>st entry. cleanUpEpoch (b_epoch lastB) entry st) st1 (bp_epochToBlock (fst st1))
      in (case st2 of (bp2, rest) \<Rightarrow> map_option (\<lambda>bp3. (bp3, rest)) (updateLongestNotarizedChains bc bp2)))"

subsection \<open>Votes and evidence for a new block\<close>

text \<open>
  Executing a transaction on a database gives whether it failed and the database after. The database
  is destroyed before the error of too few votes is thrown.
\<close>

datatype votes_error = NoLastBlockInfo | NotEnoughVotes

definition executeVotes ::
  "('d \<Rightarrow> transaction \<Rightarrow> bool \<times> 'd) \<Rightarrow> chain_config \<Rightarrow> (string \<times> jsval) list \<Rightarrow> transaction list \<Rightarrow> 'd
   \<Rightarrow> jsval \<times> transaction list \<times> 'd" where
  "executeVotes exec cfg validators votes db =
     foldl (\<lambda>(tallied, validLastVotes, d) vote.
        case exec d vote of (failed, d') \<Rightarrow>
          if failed then (tallied, validLastVotes, d')
          else (js_add (cc_numText cfg) tallied
                  (js_get (JObj validators) [Key (tx_address vote), Key ''stake''] (JNum 0)), validLastVotes @ [vote], d'))
       (JNum 0, [], db) votes"

definition getValidLastVotes ::
  "('d \<Rightarrow> transaction \<Rightarrow> bool \<times> 'd) \<Rightarrow> chain_config \<Rightarrow> block \<Rightarrow> int \<Rightarrow> 'd \<Rightarrow> 'db block_pool
   \<Rightarrow> votes_error + (transaction list \<times> 'd)" where
  "getValidLastVotes exec cfg lastB blockNumber tempDb bp =
     (case infoOf bp (JStr (b_hash lastB)) of
        None \<Rightarrow> if blockNumber > 1 then Inl NoLastBlockInfo else Inr ([], tempDb)
      | Some lastBlockInfo \<Rightarrow>
          let votes = (if blockNumber > 1 then votesOf (Some lastBlockInfo) else []);
              lastVotes = (case bi_proposal lastBlockInfo of None \<Rightarrow> votes | Some p \<Rightarrow> p # votes);
              majority = js_mul (getTotalAtStake (cc_numText cfg) (b_validators lastB)) (JNum MAJORITY);
              (tallied, validLastVotes, db) = executeVotes exec cfg (b_validators lastB) lastVotes tempDb
          in if blockNumber \<le> 1 \<or> js_le majority tallied then Inr (validLastVotes, db) else Inl NotEnoughVotes)"

text \<open>
  The votes against one invalid block by validators of the new block. A temporary database on a version
  is a copy of its state, so \<open>backupDb\<close> is the state that \<open>baseDb\<close> is reset to.
\<close>

definition tallyAgainst ::
  "('d \<Rightarrow> transaction \<Rightarrow> bool \<times> 'd) \<Rightarrow> chain_config \<Rightarrow> (string \<times> jsval) list \<Rightarrow> transaction list \<Rightarrow> 'd
   \<Rightarrow> jsval \<times> transaction list \<times> 'd" where
  "tallyAgainst exec cfg validators votes db =
     foldl (\<lambda>(talliedAgainst, talliedVotes, d) vote.
        let stake = js_get (JObj validators) [Key (tx_address vote), Key ''stake''] (JNum 0) in
        if js_lt (JNum 0) stake then
          (case exec d vote of (failed, d') \<Rightarrow>
             if failed then (talliedAgainst, talliedVotes, d')
             else (js_add (cc_numText cfg) talliedAgainst stake, talliedVotes @ [vote], d'))
        else (talliedAgainst, talliedVotes, d)) (JNum 0, [], db) votes"

definition block_js :: "block \<Rightarrow> jsval" where
  "block_js b =
     JObj (dict_of (block_body b) @ dict_of (block_header b) @
       [(''hash'', JStr (b_hash b)), (''size'', JNum (of_nat (b_size b)))])"

definition addEvidence ::
  "string \<Rightarrow> evidence \<Rightarrow> (string \<times> evidence list) list \<Rightarrow> (string \<times> evidence list) list" where
  "addEvidence offender e ev =
     AList.update offender ((case map_of ev offender of None \<Rightarrow> [] | Some es \<Rightarrow> es) @ [e]) ev"

definition addOffense :: "string \<Rightarrow> (string \<times> nat) list \<Rightarrow> (string \<times> nat) list" where
  "addOffense offender offenses =
     AList.update offender (Suc (case map_of offenses offender of None \<Rightarrow> 0 | Some n \<Rightarrow> n)) offenses"

text \<open>\<open>offenses\<close> counts the invalid proposals, the only type of offense, of each offender.\<close>

definition getOffensesAndEvidence ::
  "('d \<Rightarrow> transaction \<Rightarrow> bool \<times> 'd) \<Rightarrow> chain_config \<Rightarrow> (string \<times> jsval) list \<Rightarrow> jsval list \<Rightarrow> 'd \<Rightarrow> 'db block_pool
   \<Rightarrow> (string \<times> nat) list \<times> (string \<times> evidence list) list \<times> 'd" where
  "getOffensesAndEvidence exec cfg validators recordedInvalidBlockHashSet baseDb bp =
     (let majority = js_mul (getTotalAtStake (cc_numText cfg) validators) (JNum MAJORITY);
          (offenses, ev, db, backupDb) =
            foldl (\<lambda>(offenses, ev, db, backupDb) (h, info).
              let candidate = infoOf bp h;
                  blk = (case bi_block info of Some b \<Rightarrow> Some b | None \<Rightarrow> (case candidate of Some i \<Rightarrow> bi_block i | None \<Rightarrow> None));
                  proposal = (case bi_proposal info of Some p \<Rightarrow> Some p | None \<Rightarrow> (case candidate of Some i \<Rightarrow> bi_proposal i | None \<Rightarrow> None))
              in if h \<in> set recordedInvalidBlockHashSet \<or> votesOf (Some info) = [] then (offenses, ev, db, backupDb)
                 else (case (blk, proposal) of
                     (Some b, Some p) \<Rightarrow>
                       (case tallyAgainst exec cfg validators (votesOf (Some info)) db of
                          (talliedAgainst, talliedVotes, db') \<Rightarrow>
                            if js_le majority talliedAgainst
                            then (addOffense (b_proposer b) offenses,
                                  addEvidence (b_proposer b)
                                    \<lparr>ev_transactions = [p], ev_votes = talliedVotes, ev_block = block_js b,
                                     ev_offense_type = ''INVALID_PROPOSAL''\<rparr> ev, db', backupDb)
                            else (offenses, ev, backupDb, backupDb))
                   | _ \<Rightarrow> (offenses, ev, db, backupDb)))
              ([], [], baseDb, baseDb) (bp_hashToInvalidBlockInfo bp)
      in (offenses, ev, db))"

end
