(* ===== verification/NodeState.thy ===== *)
theory NodeState
  imports Execution BlockPool TxSelection
begin

text \<open>
  The state of \<open>node/index.js\<close> and the operations on the versions of its state: the chain, the block
  pool and the transaction pool, the state manager that all databases of the node share, and the front
  database. A database is used with the manager of the node, which is brought up to date afterwards.
  The clock stands still during a call. The event handler of a database collects the value changes in
  its \<^const>\<open>db_exec\<close>. A call of the consensus returns, is rejected with the code of a
  \<open>ConsensusError\<close>, throws another exception, or does not return: then the fuel of an execution or of
  a search in the block pool ran out, which is shown not to happen.
\<close>

subsection \<open>Calls that may be rejected\<close>

datatype 'a verdict = Accepted 'a | Rejected int | Thrown | NoReturn

type_synonym ('s, 'a) call = "'s \<Rightarrow> 'a verdict \<times> 's"

definition yields :: "'a \<Rightarrow> ('s, 'a) call" where
  "yields x s = (Accepted x, s)"

definition rejects :: "int \<Rightarrow> ('s, 'a) call" where
  "rejects code s = (Rejected code, s)"

definition throws :: "('s, 'a) call" where
  "throws s = (Thrown, s)"

definition no_return :: "('s, 'a) call" where
  "no_return s = (NoReturn, s)"

definition followed_by :: "('s, 'a) call \<Rightarrow> ('a \<Rightarrow> ('s, 'b) call) \<Rightarrow> ('s, 'b) call" where
  "followed_by m k s =
     (case m s of
        (Accepted x, s') \<Rightarrow> k x s'
      | (Rejected code, s') \<Rightarrow> (Rejected code, s')
      | (Thrown, s') \<Rightarrow> (Thrown, s')
      | (NoReturn, s') \<Rightarrow> (NoReturn, s'))"

definition state_of :: "('s, 's) call" where
  "state_of s = (Accepted s, s)"

definition require :: "bool \<Rightarrow> int \<Rightarrow> ('s, unit) call" where
  "require cond code = (if cond then yields () else rejects code)"

lemma followed_by_Accepted:
  "followed_by m k s = (Accepted y, s') \<longleftrightarrow> (\<exists>x s1. m s = (Accepted x, s1) \<and> k x s1 = (Accepted y, s'))"
  by (auto simp: followed_by_def split: prod.splits verdict.splits)

lemma call_Accepted [simp]:
  "yields x s = (Accepted y, s') \<longleftrightarrow> x = y \<and> s' = s"
  "\<not> rejects code s = (Accepted y, s')" "\<not> throws s = (Accepted y, s')" "\<not> no_return s = (Accepted y, s')"
  "state_of s = (Accepted t, s') \<longleftrightarrow> t = s \<and> s' = s"
  "require cond code s = (Accepted u, s') \<longleftrightarrow> cond \<and> s' = s"
  by (auto simp: yields_def rejects_def throws_def no_return_def state_of_def require_def)

subsection \<open>The node\<close>

datatype node_status = STARTING | STATE_LOADING | STATE_SYNCING | READY_TO_START | CHAIN_SYNCING | SERVING | STOPPED

record node_env =
  ne_exec :: exec_env
  ne_tx :: tx_env
  ne_chain :: chain_config
  ne_pool :: pool_config
  ne_LIGHTWEIGHT :: bool
  ne_ENABLE_EARLY_TX_SIG_VERIF :: bool
  ne_UPDATE_NEW_FINAL_FRONT_DB_WITH_TX_POOL :: bool
  ne_ENABLE_TX_BANDWIDTH_CHECK_PER_BLOCK :: bool
  ne_bandages :: "int \<Rightarrow> (string list \<times> jsval) list"
  ne_sort :: tx_sorter
  ne_random :: "string \<Rightarrow> rat"
  ne_sign :: "jsval \<Rightarrow> jsval \<Rightarrow> jsval option"
  ne_resultJs :: "exec_result \<Rightarrow> jsval"
  ne_protocolVersion :: string
  ne_validVersion :: "string \<Rightarrow> bool"
  ne_majorVersion :: "string \<Rightarrow> nat"
  ne_now :: rat

record node_state =
  nd_bc :: blockchain
  nd_bp :: "db_state block_pool"
  nd_tp :: tx_pool
  nd_manager :: state_manager
  nd_db :: db_state
  nd_status :: node_status
  nd_address :: "string option"

definition int_text :: "int \<Rightarrow> string" where
  "int_text n = num_string (\<lambda>q. []) (of_int n)"

definition versionText :: "string \<Rightarrow> int list \<Rightarrow> string" where
  "versionText name numbers = join_with '':'' (name # map int_text numbers)"

text \<open>A database with the manager of the node, and the node after it.\<close>

definition attach :: "node_state \<Rightarrow> db_state \<Rightarrow> db_state" where
  "attach nd db = db\<lparr>db_manager := nd_manager nd\<rparr>"

definition release :: "db_state \<Rightarrow> node_state \<Rightarrow> node_state" where
  "release db nd = nd\<lparr>nd_manager := syncedManager db\<rparr>"

text \<open>
  \<open>getBlockchainParam\<close> of the node; a version is \<^const>\<open>None\<close> when it is \<open>null\<close>, and what is read from
  a missing root is \<open>null\<close>.
\<close>

definition paramFrom :: "node_env \<Rightarrow> string \<Rightarrow> string \<Rightarrow> int \<Rightarrow> snode option \<Rightarrow> jsval" where
  "paramFrom env category name blockNumber stateRoot =
     getBlockchainParam (ne_exec env) category name (JNum (of_int blockNumber))
       (case stateRoot of None \<Rightarrow> emptySNode | Some rt \<Rightarrow> rt)"

definition nodeParamAt :: "node_env \<Rightarrow> node_state \<Rightarrow> string \<Rightarrow> string \<Rightarrow> int \<Rightarrow> string option \<Rightarrow> jsval" where
  "nodeParamAt env nd category name blockNumber stateVersion =
     paramFrom env category name blockNumber
       (case stateVersion of None \<Rightarrow> getFinalRoot (nd_manager nd) | Some v \<Rightarrow> getRoot (nd_manager nd) v)"

definition nodeParam :: "node_env \<Rightarrow> node_state \<Rightarrow> string \<Rightarrow> string \<Rightarrow> jsval" where
  "nodeParam env nd category name = nodeParamAt env nd category name (lastBlockNumber (nd_bc nd)) None"

definition createTempDb :: "node_env \<Rightarrow> string option \<Rightarrow> string \<Rightarrow> int \<Rightarrow> node_state \<Rightarrow> db_state option \<times> node_state" where
  "createTempDb env baseVersion versionPrefix blockNumberSnapshot nd =
     (case cloneToTempVersion baseVersion versionPrefix (ne_now env) (nd_manager nd) of
        (None, m) \<Rightarrow> (None, nd\<lparr>nd_manager := m\<rparr>)
      | (Some (tempVersion, tempRoot), m) \<Rightarrow>
          (Some \<lparr>db_exec = \<lparr>es_root = tempRoot, es_opResults = [], es_events = []\<rparr>, db_stateVersion = Some tempVersion,
                 db_backup = None, db_manager = m, db_lastBlockNumber = of_int blockNumberSnapshot, db_now = ne_now env\<rparr>,
           nd\<lparr>nd_manager := m\<rparr>))"

definition destroyNodeDb :: "db_state \<Rightarrow> node_state \<Rightarrow> node_state" where
  "destroyNodeDb db nd = nd\<lparr>nd_manager := db_manager (destroyDb (attach nd db))\<rparr>"

text \<open>
  Without a clone the root of the front database becomes \<open>null\<close>, which is read like the empty tree
  given here.
\<close>

definition syncDbAndNonce :: "string \<Rightarrow> node_state \<Rightarrow> bool \<times> node_state" where
  "syncDbAndNonce newVersion nd =
     (if db_stateVersion (nd_db nd) = Some newVersion then (False, nd)
      else
        let (clonedRoot, m) = (case cloneFinalVersion newVersion (nd_manager nd) of
                                 Some (rt, m) \<Rightarrow> (rt, m) | None \<Rightarrow> (emptySNode, nd_manager nd));
            db = snd (setStateVersion newVersion clonedRoot ((nd_db nd)\<lparr>db_manager := m\<rparr>))
        in (True, release db (nd\<lparr>nd_db := db\<rparr>)))"

text \<open>The transfer of the state tree is a change of the shared nodes; the snapshot files are left out.\<close>

definition cloneAndFinalizeVersion :: "string option \<Rightarrow> int \<Rightarrow> node_state \<Rightarrow> node_state" where
  "cloneAndFinalizeVersion version blockNumber nd =
     (let oldFinalVersion = sm_finalVersion (nd_manager nd);
          newFinalVersion = versionText ''FINAL'' [blockNumber]
      in case cloneVersion version newFinalVersion (nd_manager nd) of
           None \<Rightarrow> nd
         | Some (clonedRoot, m) \<Rightarrow>
             let m1 = snd (finalizeVersion newFinalVersion m);
                 m2 = (if oldFinalVersion \<noteq> None then snd (deleteVersion oldFinalVersion m1) else m1)
             in snd (syncDbAndNonce (versionText ''NODE'' [blockNumber]) (nd\<lparr>nd_manager := m2\<rparr>)))"

subsection \<open>Reading\<close>

definition accountOf :: "bool \<Rightarrow> node_state \<Rightarrow> string \<Rightarrow> jsval \<times> jsval" where
  "accountOf fromPending nd address =
     getAccountNonceAndTimestampFromStateRoot
       (if fromPending then db_root (nd_db nd)
        else (case getFinalRoot (nd_manager nd) of None \<Rightarrow> emptySNode | Some rt \<Rightarrow> rt)) address"

definition getNonceForAddr :: "node_env \<Rightarrow> node_state \<Rightarrow> jsval \<Rightarrow> bool \<Rightarrow> jsval" where
  "getNonceForAddr env nd address fromPending =
     (let re = va_rule_env (xe_valid (ne_exec env)) in
      if \<not> isValAddr re address then JNum (-1)
      else fst (accountOf fromPending nd (re_toChecksumAddress re (stringOrEmpty address))))"

definition getTimestampForAddr :: "node_env \<Rightarrow> node_state \<Rightarrow> jsval \<Rightarrow> bool \<Rightarrow> jsval" where
  "getTimestampForAddr env nd address fromPending =
     (let re = va_rule_env (xe_valid (ne_exec env)) in
      if \<not> isValAddr re address then JNum (-1)
      else snd (accountOf fromPending nd (re_toChecksumAddress re (stringOrEmpty address))))"

definition getNonce :: "node_env \<Rightarrow> node_state \<Rightarrow> bool \<Rightarrow> jsval" where
  "getNonce env nd fromPending =
     (case nd_address nd of None \<Rightarrow> JNull | Some addr \<Rightarrow> getNonceForAddr env nd (JStr addr) fromPending)"

text \<open>
  A tracked info is completed in place, so the tracker keeps what is found. The transactions of a block
  are plain objects, those of the pool instances with their extra fields.
\<close>

definition pooled_tx_js :: "transaction \<Rightarrow> jsval" where
  "pooled_tx_js tx = JObj (dict_of (toJsObject tx) @ [(''extra'', JObj (tx_extra tx))])"

definition nth_js :: "jsval list \<Rightarrow> jsval \<Rightarrow> jsval" where
  "nth_js xs index =
     (case index of
        JNum q \<Rightarrow> if 0 \<le> q \<and> of_int \<lfloor>q\<rfloor> = q \<and> nat \<lfloor>q\<rfloor> < length xs then xs ! nat \<lfloor>q\<rfloor> else JUndef
      | _ \<Rightarrow> JUndef)"

definition find_js :: "string \<Rightarrow> (transaction \<Rightarrow> jsval) \<Rightarrow> transaction list \<Rightarrow> jsval" where
  "find_js hsh f txs = (case find (\<lambda>tx. tx_hash tx = hsh) txs of None \<Rightarrow> JNull | Some tx \<Rightarrow> f tx)"

definition completedInfo :: "node_env \<Rightarrow> node_state \<Rightarrow> string \<Rightarrow> tracked \<Rightarrow> tracked" where
  "completedInfo env nd hsh info =
     (let state = prop_get (JObj info) ''state''; index = prop_get (JObj info) ''index'' in
      if isTxInBlock state then
        (case getBlockByNumber (ne_chain env) (nd_bc nd) (prop_get (JObj info) ''number'') of
           None \<Rightarrow> info
         | Some b \<Rightarrow>
             if js_le (JNum 0) index
             then assign info [(''transaction'', nth_js (map toJsObject (b_transactions b)) index),
                               (''receipt'', nth_js (b_receipts b) index)]
             else assign info [(''transaction'', find_js hsh toJsObject (b_last_votes b))])
      else if state \<in> {JStr ''EXECUTED'', JStr ''PENDING''} then
        assign info [(''transaction'', find_js hsh pooled_tx_js
          (case map_of (tp_transactions (nd_tp nd)) (stringOrEmpty (prop_get (JObj info) ''address'')) of
             None \<Rightarrow> [] | Some txs \<Rightarrow> txs))]
      else info)"

definition getTransactionByHash :: "node_env \<Rightarrow> string \<Rightarrow> node_state \<Rightarrow> tracked option \<times> node_state" where
  "getTransactionByHash env hsh nd =
     (case tracked_of (nd_tp nd) hsh of
        None \<Rightarrow> (None, nd)
      | Some info \<Rightarrow>
          let completed = completedInfo env nd hsh info
          in (Some completed, nd\<lparr>nd_tp := (nd_tp nd)\<lparr>tp_tracker := AList.update hsh completed (tp_tracker (nd_tp nd))\<rparr>\<rparr>))"

record pool_utilization =
  pu_limit :: nat
  pu_used :: int
  pu_free_limit :: int
  pu_free_used :: int

definition getTxPoolSizeUtilization :: "pool_config \<Rightarrow> tx_pool \<Rightarrow> string option \<Rightarrow> pool_utilization" where
  "getTxPoolSizeUtilization cfg tp address =
     (case address of
        Some addr \<Rightarrow>
          \<lparr>pu_limit = pc_TX_POOL_SIZE_LIMIT_PER_ACCOUNT cfg, pu_used = int (getPerAccountPoolSize tp addr),
           pu_free_limit = \<lfloor>of_nat (pc_TX_POOL_SIZE_LIMIT_PER_ACCOUNT cfg) * pc_FREE_TX_POOL_SIZE_LIMIT_RATIO_PER_ACCOUNT cfg\<rfloor>,
           pu_free_used = getPerAccountFreePoolSize tp addr\<rparr>
      | None \<Rightarrow>
          \<lparr>pu_limit = pc_TX_POOL_SIZE_LIMIT cfg, pu_used = getPoolSize tp,
           pu_free_limit = \<lfloor>of_nat (pc_TX_POOL_SIZE_LIMIT cfg) * pc_FREE_TX_POOL_SIZE_LIMIT_RATIO cfg\<rfloor>,
           pu_free_used = getFreePoolSize tp\<rparr>)"

subsection \<open>Unstaking\<close>

definition calcUnstakeableAmount :: "rat \<Rightarrow> rat \<Rightarrow> rat \<Rightarrow> rat \<Rightarrow> rat \<Rightarrow> rat \<Rightarrow> rat" where
  "calcUnstakeableAmount stateBudget freeStateBudget appUsage freeTierUsage appStake totalStake =
     (if totalStake = 0 then appStake
      else if appStake = 0 \<or> stateBudget \<le> appUsage then 0
      else
        let unstakeable = (stateBudget * appStake - appUsage * totalStake) / (stateBudget - appUsage)
        in if unstakeable < 0 then 0
           else if unstakeable \<ge> appStake then
             (if appUsage + freeTierUsage > freeStateBudget then max (appStake - 1) 0 else appStake)
           else unstakeable)"

text \<open>With the remaining share at least the usage, staking less keeps it so exactly up to the bound.\<close>

lemma share_after_unstaking:
  fixes u :: rat
  assumes "u < B"
  shows "x \<le> (B * a - u * T) / (B - u) \<longleftrightarrow> u * (T - x) \<le> (a - x) * B"
  using assms by (simp add: pos_le_divide_eq algebra_simps)

lemma whole_stake_unstakeable:
  fixes u :: rat
  assumes "u < B" "0 \<le> u" "a \<le> T" "a \<le> (B * a - u * T) / (B - u)" "x \<le> a"
  shows "u = 0 \<or> T = a" "u * (T - x) \<le> (a - x) * B"
proof -
  have "u * (T - a) \<le> 0" using share_after_unstaking [OF assms(1), of a a T] assms(4) by simp
  moreover have "0 \<le> u * (T - a)" using assms(2,3) by simp
  ultimately have "u * (T - a) = 0" by (rule antisym)
  then show t: "u = 0 \<or> T = a" by auto
  show "u * (T - x) \<le> (a - x) * B"
  proof (cases "u = 0")
    case True
    then show ?thesis using assms(1,5) by simp
  next
    case False
    then have "T = a" using t by simp
    then show ?thesis using mult_right_mono [of u B "a - x"] assms(1,5) by (simp add: mult.commute)
  qed
qed

text \<open>
  C31. What an app is told it may unstake is safe and exact: an app that is within its share of the
  state budget stays within it, or within the free tier, after it unstakes at most this amount; and when
  other apps have stakes and the app uses state, unstaking any more breaks its share.
\<close>

theorem unstakeable_amount_safe:
  assumes "0 \<le> appStake" "appStake \<le> totalStake" "0 \<le> appUsage" "appUsage * totalStake \<le> appStake * stateBudget"
    and "r = calcUnstakeableAmount stateBudget freeStateBudget appUsage freeTierUsage appStake totalStake" "0 \<le> x"
  shows "0 \<le> r \<and> r \<le> appStake \<and>
    (x \<le> r \<longrightarrow> appUsage * (totalStake - x) \<le> (appStake - x) * stateBudget) \<and>
    (r = appStake \<and> 0 < appStake \<and> appUsage < stateBudget \<longrightarrow> appUsage + freeTierUsage \<le> freeStateBudget) \<and>
    (0 < appUsage \<and> appUsage < stateBudget \<and> appStake < totalStake \<and> r < x \<longrightarrow>
       appUsage * (totalStake - x) > (appStake - x) * stateBudget)"
proof -
  let ?w = "(stateBudget * appStake - appUsage * totalStake) / (stateBudget - appUsage)"
  consider (zero) "totalStake = 0" | (none) "totalStake \<noteq> 0" "appStake = 0 \<or> stateBudget \<le> appUsage"
    | (some) "totalStake \<noteq> 0" "appStake \<noteq> 0" "appUsage < stateBudget" by linarith
  then show ?thesis
  proof cases
    case zero
    then have "appStake = 0" "r = 0" using assms by (auto simp: calcUnstakeableAmount_def)
    then show ?thesis using assms zero by auto
  next
    case none
    then have r: "r = 0" using assms(5) by (simp add: calcUnstakeableAmount_def)
    have "appUsage * (totalStake - x) > (appStake - x) * stateBudget"
      if "0 < appUsage" "appUsage < stateBudget" "appStake < totalStake" "0 < x"
    proof -
      have "appStake = 0" using none that by auto
      moreover have "x * appUsage < x * stateBudget" "0 < appUsage * totalStake" using that assms(1) by auto
      ultimately show ?thesis by (simp add: algebra_simps)
    qed
    then show ?thesis using r none assms by auto
  next
    case some
    note share = share_after_unstaking [OF some(3), of _ appStake totalStake]
    have w: "0 \<le> ?w" using share [of 0] assms(4) by simp
    show ?thesis
    proof (cases "appStake \<le> ?w")
      case True
      note whole = whole_stake_unstakeable [OF some(3) assms(3,2) True]
      have r: "r = (if appUsage + freeTierUsage > freeStateBudget then max (appStake - 1) 0 else appStake)"
        using assms(5) some w True by (simp add: calcUnstakeableAmount_def Let_def)
      then have "r \<le> appStake" "0 \<le> r" using assms(1) by auto
      then show ?thesis using whole [of x] whole(1) [of appStake] r some(2) assms(1) by auto
    next
      case False
      then have "r = ?w" using assms(5) some w by (simp add: calcUnstakeableAmount_def Let_def not_less)
      then show ?thesis using False w share [of x] by auto
    qed
  qed
qed

theorem unstakeable_amount_safe_witness:
  "calcUnstakeableAmount 100 10 20 0 50 100 = 37.5 \<and> (20::rat) * (100 - 30) \<le> (50 - 30) * 100 \<and> (20::rat) * (100 - 40) > (50 - 40) * 100"
proof -
  have r: "37.5 = calcUnstakeableAmount 100 10 20 0 50 100" by (simp add: calcUnstakeableAmount_def Let_def)
  show ?thesis
    using unstakeable_amount_safe [OF _ _ _ _ r, of 30] unstakeable_amount_safe [OF _ _ _ _ r, of 40] r by simp
qed

end
