(* ===== verification/ProposalCheck.thy ===== *)
theory ProposalCheck
  imports NodeState
begin

text \<open>
  \<open>consensus/index.js\<close>, the choice of the proposer of an epoch and the checks of a proposal that
  execute nothing. The pseudo random number that \<open>seedrandom\<close> derives from the seed is the parameter
  \<^const>\<open>ne_random\<close>, documented to be in \<open>[0, 1)\<close>. Numbers are exact.
\<close>

subsection \<open>Sorting\<close>

text \<open>The stable sort of JavaScript for a strict order.\<close>

fun insert_by :: "('a \<Rightarrow> 'a \<Rightarrow> bool) \<Rightarrow> 'a \<Rightarrow> 'a list \<Rightarrow> 'a list" where
  "insert_by prec x [] = [x]"
| "insert_by prec x (y # ys) = (if prec y x then y # insert_by prec x ys else x # y # ys)"

fun sort_by :: "('a \<Rightarrow> 'a \<Rightarrow> bool) \<Rightarrow> 'a list \<Rightarrow> 'a list" where
  "sort_by prec [] = []"
| "sort_by prec (x # xs) = insert_by prec x (sort_by prec xs)"

lemma mset_insert_by [simp]: "mset (insert_by prec x ys) = add_mset x (mset ys)"
  by (induction ys) auto

lemma mset_sort_by [simp]: "mset (sort_by prec xs) = mset xs"
  by (induction xs) auto

lemma set_sort_by [simp]: "set (sort_by prec xs) = set xs"
  using mset_sort_by [of prec xs] by (rule mset_eq_setD)

lemma length_sort_by [simp]: "length (sort_by prec xs) = length xs"
  using mset_sort_by [of prec xs] by (rule mset_eq_length)

definition sorts :: "('a \<Rightarrow> 'a \<Rightarrow> bool) \<Rightarrow> bool" where
  "sorts prec \<longleftrightarrow> (\<forall>x y. prec x y \<longrightarrow> \<not> prec y x) \<and> (\<forall>x y z. prec x z \<longrightarrow> prec x y \<or> prec y z)"

lemma sorted_insert_by:
  assumes "sorts prec" "sorted_wrt (\<lambda>x y. \<not> prec y x) ys"
  shows "sorted_wrt (\<lambda>x y. \<not> prec y x) (insert_by prec x ys)"
  using assms(2)
proof (induction ys)
  case (Cons y ys)
  show ?case
  proof (cases "prec y x")
    case True
    have "set (insert_by prec x ys) = insert x (set ys)"
      by (metis mset_insert_by set_mset_add_mset_insert set_mset_mset)
    then show ?thesis using Cons True assms(1) unfolding sorts_def by auto
  next
    case False
    have "\<not> prec z y" if "z \<in> set ys" for z using Cons.prems that by simp
    then have "\<not> prec z x" if "z \<in> set ys" for z using False that assms(1) unfolding sorts_def by blast
    then show ?thesis using Cons.prems False by auto
  qed
qed simp

lemma sorted_sort_by: "sorts prec \<Longrightarrow> sorted_wrt (\<lambda>x y. \<not> prec y x) (sort_by prec xs)"
  by (induction xs) (auto intro: sorted_insert_by)

text \<open>The order of strings by their code units.\<close>

lemma string_less_asym: "string_less s t \<Longrightarrow> \<not> string_less t s"
  by (induction s t rule: string_less.induct) auto

lemma string_less_linear: "string_less s t \<or> s = t \<or> string_less t s"
proof (induction s t rule: string_less.induct)
  case (1 s)
  then show ?case by (cases s) auto
next
  case (3 b s c t)
  then show ?case using of_char_eq_iff [of b c, where ?'a = nat] by fastforce
qed simp

lemma string_less_trans: "string_less s t \<Longrightarrow> string_less t u \<Longrightarrow> string_less s u"
proof (induction s t arbitrary: u rule: string_less.induct)
  case (2 c t)
  then show ?case by (cases u) auto
next
  case (3 b s c t)
  then show ?case by (cases u) auto
qed simp

lemma sorts_by_text: "sorts (\<lambda>v w. string_less (f v) (f w))"
  unfolding sorts_def using string_less_asym string_less_linear string_less_trans by metis

subsection \<open>The proposer\<close>

definition hasProposalRight :: "jsval \<Rightarrow> bool" where
  "hasProposalRight info = (js_get info [Key ''proposal_right''] JUndef = JBool True)"

definition orderedProducers :: "(string \<times> jsval) list \<Rightarrow> (string \<times> jsval) list" where
  "orderedProducers validators =
     sort_by (\<lambda>v w. string_less (fst v) (fst w)) (filter (\<lambda>(addr, info). hasProposalRight info) validators)"

fun producerAt :: "(rat \<Rightarrow> string) \<Rightarrow> jsval \<Rightarrow> jsval \<Rightarrow> (string \<times> jsval) list \<Rightarrow> string option" where
  "producerAt dstr targetValue cumulative [] = None"
| "producerAt dstr targetValue cumulative ((addr, info) # rest) =
     (let cumulative' = js_add dstr cumulative (prop_get info ''stake'')
      in if js_lt targetValue cumulative' then Some addr else producerAt dstr targetValue cumulative' rest)"

definition selectProposer :: "(rat \<Rightarrow> string) \<Rightarrow> (string \<Rightarrow> rat) \<Rightarrow> string \<Rightarrow> (string \<times> jsval) list \<Rightarrow> string option" where
  "selectProposer dstr random seed validators =
     (let totalAtStake = getTotalAtStake dstr (filter (\<lambda>(addr, info). hasProposalRight info) validators);
          targetValue = js_mul (JNum (random seed)) totalAtStake
      in producerAt dstr targetValue (JNum 0) (orderedProducers validators))"

text \<open>The seed of an epoch: the hash of the last votes of the previous block and the epoch.\<close>

definition proposerSeed :: "string option \<Rightarrow> int \<Rightarrow> string" where
  "proposerSeed lastVotesHash epoch = template lastVotesHash @ int_text epoch"

definition nodeProposer :: "node_env \<Rightarrow> string \<Rightarrow> (string \<times> jsval) list \<Rightarrow> string option" where
  "nodeProposer env seed validators =
     selectProposer (cc_numText (ne_chain env)) (ne_random env) seed validators"

subsection \<open>Checks of the proposal\<close>

definition chainId :: "node_env \<Rightarrow> jsval" where
  "chainId env = xe_BlockchainParams (ne_exec env) ''genesis'' ''chain_id''"

text \<open>The proposal is a plain object. Sums are compared with \<open>!==\<close>, so \<open>NaN\<close> differs from itself.\<close>

definition validateProposalValue ::
  "node_env \<Rightarrow> jsval \<Rightarrow> (string \<times> jsval) list \<Rightarrow> string \<Rightarrow> ('s, unit) call" where
  "validateProposalValue env proposalValue validators hsh =
     (let stakeSum = getTotalAtStake (cc_numText (ne_chain env)) validators in
      if nullish proposalValue then throws
      else if prop_get proposalValue ''block_hash'' \<noteq> JStr hsh then rejects 90104
      else if \<not> js_equal (prop_get proposalValue ''validators'') (JObj validators) then rejects 90105
      else if prop_get proposalValue ''total_at_stake'' \<noteq> stakeSum \<or> stakeSum = JNaN then rejects 90106
      else yields ())"

definition validateProposalTx ::
  "node_env \<Rightarrow> transaction option \<Rightarrow> string \<Rightarrow> (string \<times> jsval) list \<Rightarrow> string \<Rightarrow> ('s, unit) call" where
  "validateProposalTx env proposalTx proposer validators hsh =
     (case proposalTx of
        None \<Rightarrow> yields ()
      | Some tx \<Rightarrow>
          (case isValidConsensusTx (ne_tx env) (ne_LIGHTWEIGHT env) (ne_now env) (chainId env) False tx of
             Inl e \<Rightarrow> throws
           | Inr False \<Rightarrow> rejects 90100
           | Inr True \<Rightarrow>
               if tx_address tx \<noteq> proposer then rejects 90103
               else validateProposalValue env (js_get (first_op tx) [Key ''value''] (JObj [])) validators hsh))"

text \<open>The block before, \<^const>\<open>None\<close> for the genesis block.\<close>

definition getPrevBlockInfo :: "int \<Rightarrow> string \<Rightarrow> block option \<Rightarrow> 'db block_pool \<Rightarrow> ('s, block option) call" where
  "getPrevBlockInfo number lastHash lastFinalizedBlock bp =
     (if number = 0 then yields None
      else
        case (case lastFinalizedBlock of
                Some fin \<Rightarrow> if number = b_number fin + 1 then Some fin else blockOf bp (JStr lastHash)
              | None \<Rightarrow> blockOf bp (JStr lastHash)) of
          None \<Rightarrow> rejects 90200
        | Some b \<Rightarrow> yields (Some b))"

definition getBaseStateVersion ::
  "block option \<Rightarrow> string \<Rightarrow> int \<Rightarrow> string option \<Rightarrow> db_state block_pool \<Rightarrow> ('s, string option) call" where
  "getBaseStateVersion prevBlock lastHash lastFinalizedNumber finalVersion bp =
     (case prevBlock of
        None \<Rightarrow> yields finalVersion
      | Some pb \<Rightarrow>
          if b_number pb = lastFinalizedNumber then yields finalVersion
          else (case map_of (bp_hashToDb bp) lastHash of
                  Some db \<Rightarrow> yields (db_stateVersion db)
                | None \<Rightarrow> rejects 90201))"

text \<open>
  These checks run only in the lightweight mode, and there the comparison of the epochs refers to a
  variable that does not exist.
\<close>

definition validateBlockNumberAndHashes :: "node_env \<Rightarrow> block \<Rightarrow> string \<Rightarrow> ('s, unit) call" where
  "validateBlockNumberAndHashes env b genesisBlockHash =
     (if \<not> ne_LIGHTWEIGHT env then yields ()
      else if \<not> validateBlock (ne_chain env) b None None then rejects 90300
      else if b_number b = 0 then
        (if b_hash b \<noteq> genesisBlockHash then rejects 90301 else yields ())
      else if b_number b = 1 \<and> b_last_hash b \<noteq> genesisBlockHash then rejects 90302
      else throws)"

definition validateValidatorSet ::
  "node_env \<Rightarrow> node_state \<Rightarrow> (string \<times> jsval) list \<Rightarrow> int \<Rightarrow> string option \<Rightarrow> ('s, unit) call" where
  "validateValidatorSet env nd validators number baseVersion =
     (let n = JNum (of_nat (length validators));
          minNumValidators = nodeParamAt env nd ''consensus'' ''min_num_validators'' number baseVersion;
          maxNumValidators = nodeParamAt env nd ''consensus'' ''max_num_validators'' number baseVersion
      in if js_lt n minNumValidators \<or> js_lt maxNumValidators n then rejects 90304 else yields ())"

definition validateProposer ::
  "node_env \<Rightarrow> int \<Rightarrow> string option \<Rightarrow> int \<Rightarrow> (string \<times> jsval) list \<Rightarrow> string \<Rightarrow> ('s, unit) call" where
  "validateProposer env number prevBlockLastVotesHash epoch validators proposer =
     (if number = 0 then yields ()
      else if nodeProposer env (proposerSeed prevBlockLastVotesHash epoch) validators \<noteq> Some proposer then rejects 90305
      else yields ())"

subsection \<open>Every stake has its share of the seeds\<close>

definition stakeBefore :: "(string \<times> jsval) list \<Rightarrow> nat \<Rightarrow> rat" where
  "stakeBefore vs i = (\<Sum>(addr, info)\<leftarrow>take i vs. stake_of info)"

definition stakes_ok :: "(string \<times> jsval) list \<Rightarrow> bool" where
  "stakes_ok vs \<longleftrightarrow> numeric_stakes vs \<and> (\<forall>(addr, info)\<in>set vs. 0 \<le> stake_of info) \<and> distinct (map fst vs)"

lemma stakeBefore_simps [simp]:
  "stakeBefore vs 0 = 0" "stakeBefore ((addr, info) # vs) (Suc i) = stake_of info + stakeBefore vs i"
  by (simp_all add: stakeBefore_def)

lemma stakeBefore_nonneg: "stakes_ok vs \<Longrightarrow> 0 \<le> stakeBefore vs i"
  unfolding stakeBefore_def stakes_ok_def by (intro sum_list_nonneg) (auto dest: in_set_takeD)

lemma stakes_ok_Cons:
  "stakes_ok ((addr, info) # vs) \<longleftrightarrow>
     isNumber (prop_get info ''stake'') \<and> 0 \<le> stake_of info \<and> addr \<notin> fst ` set vs \<and> stakes_ok vs"
  by (auto simp: stakes_ok_def numeric_stakes_def)

lemma number_stake: "isNumber (prop_get info ''stake'') \<Longrightarrow> prop_get info ''stake'' = JNum (stake_of info)"
  by (cases "prop_get info ''stake''") (simp_all add: stake_of_def)

lemma producerAt_mem: "producerAt dstr t c vs = Some a \<Longrightarrow> a \<in> fst ` set vs"
proof (induction vs arbitrary: c)
  case (Cons v vs)
  obtain addr info where "v = (addr, info)" by fastforce
  then show ?case using Cons.IH Cons.prems by (auto simp: Let_def split: if_splits)
qed simp

lemma js_lt_num [simp]: "js_lt (JNum x) (JNum y) = (x < y)"
  by (simp add: js_lt_def num_less_def)

lemma producerAt_iff:
  assumes "stakes_ok vs" "c \<le> t" "j < length vs"
  shows "producerAt dstr (JNum t) (JNum c) vs = Some (fst (vs ! j)) \<longleftrightarrow>
    c + stakeBefore vs j \<le> t \<and> t < c + stakeBefore vs (Suc j)"
  using assms
proof (induction vs arbitrary: c j)
  case (Cons v vs)
  obtain addr info where v: "v = (addr, info)" by fastforce
  have ok: "stakes_ok vs" "addr \<notin> fst ` set vs" "0 \<le> stake_of info"
    and n: "prop_get info ''stake'' = JNum (stake_of info)"
    using Cons.prems(1) number_stake by (auto simp: v stakes_ok_Cons)
  show ?case
  proof (cases j)
    case 0
    then show ?thesis using Cons.prems(2) producerAt_mem [of dstr "JNum t" "JNum (c + stake_of info)" vs addr] ok(2)
      by (auto simp: v n)
  next
    case (Suc k)
    then have k: "k < length vs" "fst (vs ! k) \<noteq> addr" using Cons.prems(3) ok(2) by (auto simp: image_iff)
    show ?thesis
    proof (cases "t < c + stake_of info")
      case True
      then show ?thesis using stakeBefore_nonneg [OF ok(1), of k] k by (simp add: v n Suc)
    next
      case False
      then show ?thesis using Cons.IH [OF ok(1) _ k(1), of "c + stake_of info"] by (simp add: v n Suc add.assoc)
    qed
  qed
qed simp

lemma producerAt_ex:
  assumes "stakes_ok vs" "c \<le> t" "t < c + stakeBefore vs (length vs)"
  shows "\<exists>addr. producerAt dstr (JNum t) (JNum c) vs = Some addr"
  using assms
proof (induction vs arbitrary: c)
  case (Cons v vs)
  then show ?case by (cases v) (auto simp: stakes_ok_Cons number_stake add.assoc not_less)
qed simp

lemma orderedProducers_sub: "set (orderedProducers validators) = {v \<in> set validators. hasProposalRight (snd v)}"
  by (auto simp: orderedProducers_def)

lemma orderedProducers_ok: "stakes_ok validators \<Longrightarrow> stakes_ok (orderedProducers validators)"
proof -
  assume ok: "stakes_ok validators"
  let ?f = "filter (\<lambda>(addr, info). hasProposalRight info) validators"
  have "distinct (map fst ?f)" using ok by (simp add: stakes_ok_def distinct_map_filter)
  moreover have "mset (map fst (orderedProducers validators)) = mset (map fst ?f)"
    by (simp add: orderedProducers_def)
  ultimately have "distinct (map fst (orderedProducers validators))" by (metis mset_eq_imp_distinct_iff)
  then show ?thesis using ok orderedProducers_sub [of validators]
    by (auto simp: stakes_ok_def numeric_stakes_def list_all_iff)
qed

lemma total_ordered:
  assumes "stakes_ok validators"
  shows "getTotalAtStake dstr (filter (\<lambda>(addr, info). hasProposalRight info) validators) =
    JNum (stakeBefore (orderedProducers validators) (length (orderedProducers validators)))"
proof -
  let ?f = "filter (\<lambda>(addr, info). hasProposalRight info) validators"
  have "numeric_stakes ?f" using assms by (auto simp: stakes_ok_def numeric_stakes_def list_all_iff)
  moreover have "(\<Sum>(addr, info)\<leftarrow>orderedProducers validators. stake_of info) = (\<Sum>(addr, info)\<leftarrow>?f. stake_of info)"
    using arg_cong [of _ _ sum_mset, OF arg_cong [of _ _ "image_mset (\<lambda>(addr, info). stake_of info)", OF mset_sort_by]]
    by (simp add: orderedProducers_def flip: sum_mset_sum_list)
  ultimately show ?thesis by (simp add: getTotalAtStake_sum stakeBefore_def)
qed

text \<open>
  C32. Proposers are chosen in proportion to their stake: with some stake among the validators that may
  propose, a proposer is found for every random number in \<open>[0, 1)\<close>, and it is a validator that may
  propose; a validator is chosen exactly for the numbers of an interval whose length is its share of
  the stake, the intervals of the validators following each other in the order of their addresses.
\<close>

theorem proposer_in_proportion_to_stake:
  assumes "stakes_ok validators" "0 \<le> random seed" "random seed < 1"
    and "producers = orderedProducers validators" "allStake = stakeBefore producers (length producers)" "0 < allStake"
  shows "(\<exists>addr info. selectProposer dstr random seed validators = Some addr \<and> (addr, info) \<in> set validators \<and>
      hasProposalRight info) \<and>
    (\<forall>j < length producers. selectProposer dstr random seed validators = Some (fst (producers ! j)) \<longleftrightarrow>
      stakeBefore producers j / allStake \<le> random seed \<and>
      random seed < stakeBefore producers j / allStake + stake_of (snd (producers ! j)) / allStake) \<and>
    sorted_wrt (\<lambda>v w. \<not> string_less (fst w) (fst v)) producers"
proof (intro conjI allI impI)
  have ok: "stakes_ok producers" using orderedProducers_ok [OF assms(1)] assms(4) by simp
  let ?t = "random seed * allStake"
  have sel: "selectProposer dstr random seed validators = producerAt dstr (JNum ?t) (JNum 0) producers"
    using total_ordered [OF assms(1), of dstr] assms(4,5) by (simp add: selectProposer_def js_mul_def)
  have t: "0 \<le> ?t" "?t < allStake" using assms by simp_all
  obtain addr where a: "producerAt dstr (JNum ?t) (JNum 0) producers = Some addr"
    using producerAt_ex [OF ok t(1), of dstr] t(2) assms(5) by auto
  then have "addr \<in> fst ` {v \<in> set validators. hasProposalRight (snd v)}"
    using producerAt_mem [OF a] assms(4) by (simp only: orderedProducers_sub)
  then show "\<exists>addr info. selectProposer dstr random seed validators = Some addr \<and> (addr, info) \<in> set validators \<and>
      hasProposalRight info" using a sel by auto
  fix j
  assume j: "j < length producers"
  then have "stakeBefore producers (Suc j) = stakeBefore producers j + stake_of (snd (producers ! j))"
    by (simp add: stakeBefore_def take_Suc_conv_app_nth case_prod_beta)
  then show "selectProposer dstr random seed validators = Some (fst (producers ! j)) \<longleftrightarrow>
      stakeBefore producers j / allStake \<le> random seed \<and>
      random seed < stakeBefore producers j / allStake + stake_of (snd (producers ! j)) / allStake"
    using producerAt_iff [OF ok t(1) j, of dstr] sel assms(6)
    by (simp add: pos_divide_le_eq pos_less_divide_eq flip: add_divide_distrib)
next
  show "sorted_wrt (\<lambda>v w. \<not> string_less (fst w) (fst v)) producers"
    unfolding assms(4) orderedProducers_def by (rule sorted_sort_by [OF sorts_by_text])
qed

definition sample_validators :: "(string \<times> jsval) list" where
  "sample_validators =
     [(''b'', JObj [(''stake'', JNum 3), (''proposal_right'', JBool True)]),
      (''a'', JObj [(''stake'', JNum 1), (''proposal_right'', JBool True)]),
      (''c'', JObj [(''stake'', JNum 5), (''proposal_right'', JBool False)])]"

theorem proposer_in_proportion_to_stake_witness:
  "selectProposer (\<lambda>q. []) (\<lambda>seed. 1/2) ''s1'' sample_validators = Some ''b'' \<and>
   selectProposer (\<lambda>q. []) (\<lambda>seed. 1/8) ''s1'' sample_validators = Some ''a''"
proof -
  let ?p = "orderedProducers sample_validators"
  have p: "?p = [(''a'', JObj [(''stake'', JNum 1), (''proposal_right'', JBool True)]),
                 (''b'', JObj [(''stake'', JNum 3), (''proposal_right'', JBool True)])]" by code_simp
  have ok: "stakes_ok sample_validators"
    by (simp add: stakes_ok_def numeric_stakes_def sample_validators_def stake_of_def)
  have t: "stakeBefore ?p (length ?p) = 4" "0 < (4::rat)" unfolding p by (simp_all add: stake_of_def)
  have "\<forall>j < length ?p. selectProposer (\<lambda>q. []) (\<lambda>seed. r) ''s1'' sample_validators = Some (fst (?p ! j)) \<longleftrightarrow>
      stakeBefore ?p j / 4 \<le> r \<and> r < stakeBefore ?p j / 4 + stake_of (snd (?p ! j)) / 4"
    if "0 \<le> r" "r < 1" for r
    using proposer_in_proportion_to_stake [of sample_validators "\<lambda>seed. r" "''s1''", OF ok that refl t(1)[symmetric] t(2)] by blast
  from this [of "1/2"] this [of "1/8"] show ?thesis unfolding p by (auto simp: stake_of_def dest: spec [of _ 0] spec [of _ 1])
qed

end
