(* ===== verification/BlockCheck.thy ===== *)
theory BlockCheck
  imports ProposalCheck
begin

text \<open>
  \<open>consensus/index.js\<close>, the validation and execution of a block on a new database: the last votes, the
  evidence of offenses, the transactions, the state proof hash and the proposal transaction, and the
  block entering the block pool. A check works on the node and the database of the block. The
  transactions in a block and the proposal are plain objects. The snapshot written for debugging after
  a mismatch of the state proof hash is left out.
\<close>

subsection \<open>The node and the database of the block\<close>

type_synonym check_state = "node_state \<times> db_state"

definition on_db :: "'a dbx \<Rightarrow> (check_state, 'a) call" where
  "on_db m st =
     (case st of (nd, db) \<Rightarrow>
        (case m (attach nd db) of (out, db') \<Rightarrow>
           (case out of Returned x \<Rightarrow> Accepted x | Raised \<Rightarrow> Thrown | OutOfFuel \<Rightarrow> NoReturn, (release db' nd, db'))))"

definition on_node :: "(node_state, 'a) call \<Rightarrow> (check_state, 'a) call" where
  "on_node m st = (case st of (nd, db) \<Rightarrow> (case m nd of (v, nd') \<Rightarrow> (v, (nd', db))))"

definition on_pool :: "(blockchain \<Rightarrow> db_state block_pool \<Rightarrow> ('a \<times> db_state block_pool) option) \<Rightarrow> (node_state, 'a) call" where
  "on_pool f nd =
     (case f (nd_bc nd) (nd_bp nd) of None \<Rightarrow> (NoReturn, nd) | Some (x, bp) \<Rightarrow> (Accepted x, nd\<lparr>nd_bp := bp\<rparr>))"

definition blockOptions :: "bool \<Rightarrow> bool \<Rightarrow> int \<Rightarrow> rat \<Rightarrow> jsval \<Rightarrow> tx_options" where
  "blockOptions skipFees restoreIfFails number blockTime eventSource =
     \<lparr>to_skipFees = skipFees, to_restoreIfFails = restoreIfFails, to_blockNumber = JNum (of_int number),
      to_blockTime = JNum blockTime, to_eventSource = eventSource, to_isDryrun = False\<rparr>"

definition executeOnBlockDb ::
  "node_env \<Rightarrow> tx_options \<Rightarrow> transaction list \<Rightarrow> int \<Rightarrow> (check_state, exec_result list) call" where
  "executeOnBlockDb env opts txs code =
     followed_by (on_db (executeTransactionList (ne_tx env) (ne_exec env) opts False txs)) (\<lambda>res.
       case res of None \<Rightarrow> rejects code | Some txsRes \<Rightarrow> yields txsRes)"

definition getNewDbForProposal :: "node_env \<Rightarrow> int \<Rightarrow> string option \<Rightarrow> string \<Rightarrow> (node_state, db_state) call" where
  "getNewDbForProposal env number baseVersion stateVersionPrefix nd =
     (case createTempDb env baseVersion (versionText stateVersionPrefix [number - 1, number]) number nd of
        (None, nd') \<Rightarrow> (Rejected 90003, nd')
      | (Some db, nd') \<Rightarrow> (Accepted db, nd'))"

subsection \<open>The last votes\<close>

definition checkNotarized :: "int \<Rightarrow> string \<Rightarrow> transaction list \<Rightarrow> (node_state, unit) call" where
  "checkNotarized number lastHash lastVotes =
     followed_by state_of (\<lambda>nd.
       case infoOf (nd_bp nd) (JStr lastHash) of
         None \<Rightarrow> rejects 90307
       | Some lastBlockInfo \<Rightarrow>
           if \<not> bi_notarized lastBlockInfo then rejects 90307
           else if number > 1 \<and> (filterProposalFromVotes lastVotes = None \<or> bi_proposal lastBlockInfo = None)
           then rejects 90308
           else yields ())"

definition validateAndExecuteLastVotes ::
  "node_env \<Rightarrow> transaction list \<Rightarrow> string \<Rightarrow> int \<Rightarrow> rat \<Rightarrow> (check_state, exec_result list) call" where
  "validateAndExecuteLastVotes env lastVotes lastHash number blockTime =
     (if number = 0 then yields []
      else
        followed_by (executeOnBlockDb env (blockOptions True False number blockTime (JStr ''BLOCK'')) lastVotes 90306) (\<lambda>txsRes.
          followed_by (on_node (on_pool (\<lambda>bc bp. map_option (Pair ())
              (fold_opt (addSeenVote (ne_chain env) bc) lastVotes bp)))) (\<lambda>_.
            followed_by (on_node (checkNotarized number lastHash lastVotes)) (\<lambda>_. yields txsRes))))"

subsection \<open>Offenses and evidence\<close>

definition talliedStakes :: "node_env \<Rightarrow> (string \<times> jsval) list \<Rightarrow> transaction list \<Rightarrow> jsval" where
  "talliedStakes env validators votes =
     foldl (\<lambda>acc vote. js_add (cc_numText (ne_chain env)) acc
       (js_get (JObj validators) [Key (tx_address vote), Key ''stake''] (JNum 0))) (JNum 0) votes"

fun checkEvidenceList ::
  "node_env \<Rightarrow> (string \<times> jsval) list \<Rightarrow> jsval \<Rightarrow> tx_options \<Rightarrow> evidence list \<Rightarrow> (string \<times> nat) list
   \<Rightarrow> (check_state, (string \<times> nat) list) call" where
  "checkEvidenceList env validators prevBlockMajority opts [] tempOffenses = yields tempOffenses"
| "checkEvidenceList env validators prevBlockMajority opts (e # es) tempOffenses =
     (if \<not> isValidatorOffenseType (JStr (ev_offense_type e)) then rejects 90310
      else if prevBlockMajority \<noteq> JNum (-1) \<and> js_lt (talliedStakes env validators (ev_votes e)) prevBlockMajority
      then rejects 90311
      else followed_by (executeOnBlockDb env opts (ev_votes e) 90312) (\<lambda>_.
             checkEvidenceList env validators prevBlockMajority opts es (addOffense (ev_offense_type e) tempOffenses)))"

definition sameCounts :: "jsval \<Rightarrow> (string \<times> nat) list \<Rightarrow> bool" where
  "sameCounts offensesOfOffender tempOffenses =
     js_equal offensesOfOffender (JObj (map (\<lambda>(offense, n). (offense, JNum (of_nat n))) tempOffenses))"

fun checkOffenders ::
  "node_env \<Rightarrow> (string \<times> jsval) list \<Rightarrow> jsval \<Rightarrow> tx_options \<Rightarrow> jsval option \<Rightarrow> (string \<times> evidence list) list
   \<Rightarrow> (check_state, unit) call" where
  "checkOffenders env validators prevBlockMajority opts offenses [] = yields ()"
| "checkOffenders env validators prevBlockMajority opts offenses ((offender, evidenceList) # rest) =
     followed_by (checkEvidenceList env validators prevBlockMajority opts evidenceList []) (\<lambda>tempOffenses.
       if (case offenses of None \<Rightarrow> False | Some off \<Rightarrow> \<not> sameCounts (prop_get off offender) tempOffenses)
       then rejects 90313
       else checkOffenders env validators prevBlockMajority opts offenses rest)"

definition validateAndExecuteOffensesAndEvidence ::
  "node_env \<Rightarrow> (string \<times> evidence list) list \<Rightarrow> (string \<times> jsval) list \<Rightarrow> jsval \<Rightarrow> int \<Rightarrow> rat \<Rightarrow> transaction option
   \<Rightarrow> (check_state, unit) call" where
  "validateAndExecuteOffensesAndEvidence env ev validators prevBlockMajority number blockTime proposalTx =
     (let offenses = map_option getOffensesFromProposalTx proposalTx in
      if (case offenses of None \<Rightarrow> False | Some off \<Rightarrow> isEmpty off \<noteq> (ev = [])) then rejects 90309
      else checkOffenders env validators prevBlockMajority (blockOptions True False number blockTime (JStr ''BLOCK''))
             offenses ev)"

subsection \<open>Transactions, state and proposal\<close>

definition validateAndExecuteTransactions ::
  "node_env \<Rightarrow> transaction list \<Rightarrow> jsval list \<Rightarrow> int \<Rightarrow> rat \<Rightarrow> rat \<Rightarrow> rat \<Rightarrow> (check_state, exec_result list) call" where
  "validateAndExecuteTransactions env transactions receipts number blockTime expectedGasAmountTotal expectedGasCostTotal =
     followed_by (executeOnBlockDb env (blockOptions (number = 0) True number blockTime (JStr ''BLOCK'')) transactions 90314)
       (\<lambda>txsRes. followed_by state_of (\<lambda>(nd, db).
          let gasPriceUnit = numberOrZero (nodeParamAt env nd ''resource'' ''gas_price_unit'' number (db_stateVersion db));
              enableGasCostFlooring =
                flagEnabled (ne_exec env) ''allow_up_to_6_decimal_transfer_value_only'' (JNum (of_int number));
              (gasAmountTotal, gasCostTotal) =
                getServiceGasCostTotalFromTxList transactions (map xr_gasAmountCharged txsRes) gasPriceUnit enableGasCostFlooring
          in if \<not> js_equal (JArr receipts) (JArr (map trimExecutionResult txsRes)) then rejects 90315
             else if gasAmountTotal \<noteq> expectedGasAmountTotal then rejects 90316
             else if gasCostTotal \<noteq> expectedGasCostTotal then rejects 90317
             else yields txsRes))"

definition applyBandagesForBlockNumber :: "node_env \<Rightarrow> int \<Rightarrow> unit dbx" where
  "applyBandagesForBlockNumber env blockNumber =
     lift_exec (change_root (\<lambda>rt. foldl (\<lambda>r (path, value). writeToStateRoot r path value) rt (ne_bandages env blockNumber)))"

definition validateStateProofHash :: "node_env \<Rightarrow> string \<Rightarrow> (check_state, unit) call" where
  "validateStateProofHash env expectedStateProofHash =
     (if ne_LIGHTWEIGHT env then yields ()
      else followed_by state_of (\<lambda>(nd, db).
             if xe_proofHash (ne_exec env) (db_root db) \<noteq> expectedStateProofHash then rejects 90318 else yields ()))"

text \<open>An executed transaction carries the time and the gas of its execution.\<close>

definition app_gas_js :: "(string \<times> jsval) list \<Rightarrow> (string \<times> jsval) list" where
  "app_gas_js apps = (if apps = [] then [] else [(''app'', JObj apps)])"

definition gasJs :: "exec_result \<Rightarrow> jsval" where
  "gasJs r =
     JObj [(''bandwidth'', JObj ((''service'', JNum (g_service (xr_bandwidth r))) #
              app_gas_js (map (\<lambda>(a, v). (a, JNum v)) (g_app (xr_bandwidth r))))),
           (''state'', JObj ((''service'', xr_stateService r) # app_gas_js (xr_stateApp r)))]"

definition withExecution :: "node_env \<Rightarrow> exec_result \<Rightarrow> transaction \<Rightarrow> transaction" where
  "withExecution env r tx = setExtraField ''gas'' (gasJs r) (setExtraField ''executed_at'' (JNum (ne_now env)) tx)"

text \<open>The proposal is tried on a copy of the state, which is destroyed.\<close>

definition tryProposal :: "node_env \<Rightarrow> transaction \<Rightarrow> int \<Rightarrow> rat \<Rightarrow> db_state \<Rightarrow> (node_state, exec_result) call" where
  "tryProposal env executableTx number blockTime tempDb nd =
     (case executeTransaction (ne_exec env) (blockOptions True False number blockTime JNull) executableTx (attach nd tempDb) of
        (Returned r, tempDb') \<Rightarrow>
          let nd' = nd\<lparr>nd_manager := db_manager (destroyDb tempDb')\<rparr>
          in if isFailedExecution r then (Rejected 90320, nd')
             else (Accepted r, nd'\<lparr>nd_tp := addTransaction (withExecution env r executableTx) JNull False (nd_tp nd')\<rparr>)
      | (Raised, tempDb') \<Rightarrow> (Thrown, release tempDb' nd)
      | (OutOfFuel, tempDb') \<Rightarrow> (NoReturn, release tempDb' nd))"

definition executeProposalTx ::
  "node_env \<Rightarrow> transaction option \<Rightarrow> int \<Rightarrow> rat \<Rightarrow> string option \<Rightarrow> (node_state, exec_result option) call" where
  "executeProposalTx env proposalTx number blockTime dbVersion nd =
     (case proposalTx of
        None \<Rightarrow> (Accepted None, nd)
      | Some tx \<Rightarrow>
          (case toExecutable (ne_tx env) (ne_now env) False tx (nodeParam env nd ''genesis'' ''chain_id'') of
             Inl e \<Rightarrow> (Thrown, nd)
           | Inr None \<Rightarrow> (Rejected 90319, nd)
           | Inr (Some executableTx) \<Rightarrow>
               (case createTempDb env dbVersion (versionText ''CONSENSUS_PROPOSE'' [number - 1, number]) (number - 2) nd of
                  (None, nd') \<Rightarrow> (Rejected 90003, nd')
                | (Some tempDb, nd') \<Rightarrow>
                    followed_by (tryProposal env executableTx number blockTime tempDb) (\<lambda>r. yields (Some r)) nd')))"

definition addBlockToBlockPool :: "node_env \<Rightarrow> block \<Rightarrow> transaction option \<Rightarrow> db_state \<Rightarrow> (node_state, unit) call" where
  "addBlockToBlockPool env b proposalTx db =
     followed_by (on_pool (\<lambda>bc bp. addSeenBlock (ne_chain env) bc b proposalTx True False bp)) (\<lambda>added.
       if \<not> added then rejects 90400
       else on_pool (\<lambda>bc bp. Some ((), addToHashToDbMap (b_hash b) db bp)))"

text \<open>
  What the tracker records of a vote, a proposal or a transaction of the block. Every transaction has a
  result by then; only the genesis block has no results of votes, and it has no votes.
\<close>

definition markInBlock :: "node_env \<Rightarrow> string \<Rightarrow> exec_result \<Rightarrow> transaction \<Rightarrow> tx_pool \<Rightarrow> tx_pool" where
  "markInBlock env txState result tx tp =
     emitTxStateChanged (tx_hash tx) (before_state tp (tx_hash tx)) txState
       (updateTransactionInfo (tx_hash tx)
          [(''state'', JStr txState), (''exec_result'', ne_resultJs env result), (''tracked_at'', JNum (ne_now env))] tp)"

definition updateTransactionInfoForBlock ::
  "node_env \<Rightarrow> (transaction \<times> exec_result) list \<Rightarrow> (transaction \<times> exec_result) option \<Rightarrow> (transaction \<times> exec_result) list
   \<Rightarrow> tx_pool \<Rightarrow> tx_pool" where
  "updateTransactionInfoForBlock env votes proposal transactions tp =
     (let tp1 = foldl (\<lambda>p (tx, res). markInBlock env ''IN_BLOCK'' res tx p) tp votes;
          tp2 = (case proposal of None \<Rightarrow> tp1 | Some (tx, res) \<Rightarrow> markInBlock env ''IN_BLOCK'' res tx tp1)
      in foldl (\<lambda>p (tx, res). markInBlock env (if isFailedExecution res then ''REVERTED'' else ''IN_BLOCK'') res tx p)
           tp2 transactions)"

subsection \<open>The block\<close>

record block_results =
  br_votes :: "exec_result list"
  br_proposal :: "exec_result option"
  br_txs :: "exec_result list"

text \<open>The checks in the \<open>try\<close>, and the database destroyed when one of them throws.\<close>

definition checksOnDb ::
  "node_env \<Rightarrow> block \<Rightarrow> transaction option \<Rightarrow> block option \<Rightarrow> string option \<Rightarrow> (check_state, block_results) call" where
  "checksOnDb env b proposalTx prevBlock baseVersion =
     (let number = b_number b; blockTime = b_timestamp b;
          prevBlockMajority = (case prevBlock of
            None \<Rightarrow> JNum (-1)
          | Some pb \<Rightarrow> js_mul (getTotalAtStake (cc_numText (ne_chain env)) (b_validators pb)) (JNum MAJORITY))
      in
      followed_by state_of (\<lambda>(nd, db).
      followed_by (validateBlockNumberAndHashes env b (bc_genesisBlockHash (nd_bc nd))) (\<lambda>_.
      followed_by (validateValidatorSet env nd (b_validators b) number baseVersion) (\<lambda>_.
      followed_by (validateProposer env number (map_option b_last_votes_hash prevBlock) (b_epoch b) (b_validators b) (b_proposer b)) (\<lambda>_.
      followed_by (validateAndExecuteLastVotes env (b_last_votes b) (b_last_hash b) number blockTime) (\<lambda>voteTxsRes.
      followed_by (validateAndExecuteOffensesAndEvidence env (b_evidence b) (b_validators b) prevBlockMajority number blockTime proposalTx) (\<lambda>_.
      followed_by (validateAndExecuteTransactions env (b_transactions b) (b_receipts b) number blockTime
                     (b_gas_amount_total b) (b_gas_cost_total b)) (\<lambda>txsRes.
      followed_by (on_db (applyBandagesForBlockNumber env number)) (\<lambda>_.
      followed_by (validateStateProofHash env (b_state_proof_hash b)) (\<lambda>_.
      followed_by state_of (\<lambda>(nd, db).
      followed_by (on_node (executeProposalTx env proposalTx number blockTime (db_stateVersion db))) (\<lambda>proposalTxRes.
      followed_by (on_node (addBlockToBlockPool env b proposalTx db)) (\<lambda>_.
        yields \<lparr>br_votes = voteTxsRes, br_proposal = proposalTxRes, br_txs = txsRes\<rparr>)))))))))))))"

definition withBlockDb :: "(check_state, 'a) call \<Rightarrow> db_state \<Rightarrow> (node_state, 'a) call" where
  "withBlockDb m db nd =
     (case m (nd, db) of
        (Accepted x, (nd', db')) \<Rightarrow> (Accepted x, nd')
      | (v, (nd', db')) \<Rightarrow> (v, destroyNodeDb db' nd'))"

definition proposalResult :: "transaction option \<Rightarrow> block_results \<Rightarrow> (transaction \<times> exec_result) option" where
  "proposalResult proposalTx res =
     (case (proposalTx, br_proposal res) of (Some tx, Some r) \<Rightarrow> Some (tx, r) | _ \<Rightarrow> None)"

definition executeNewBlock ::
  "node_env \<Rightarrow> block \<Rightarrow> string \<Rightarrow> transaction option \<Rightarrow> (node_state, block_results) call" where
  "executeNewBlock env b stateVersionPrefix proposalTx =
     followed_by (validateProposalTx env proposalTx (b_proposer b) (b_validators b) (b_hash b)) (\<lambda>_.
     followed_by state_of (\<lambda>nd.
     followed_by (getPrevBlockInfo (b_number b) (b_last_hash b) (lastBlock (nd_bc nd)) (nd_bp nd)) (\<lambda>prevBlock.
     followed_by (getBaseStateVersion prevBlock (b_last_hash b) (lastBlockNumber (nd_bc nd))
                    (sm_finalVersion (nd_manager nd)) (nd_bp nd)) (\<lambda>baseVersion.
     followed_by (getNewDbForProposal env (b_number b) baseVersion stateVersionPrefix) (\<lambda>db.
       withBlockDb (checksOnDb env b proposalTx prevBlock baseVersion) db)))))"

text \<open>\<^const>\<open>None\<close> is a block that lacks a field; a block seen before is not executed again.\<close>

definition validateAndExecuteBlockOnDb ::
  "node_env \<Rightarrow> bool \<Rightarrow> block option \<Rightarrow> string \<Rightarrow> transaction option \<Rightarrow> bool \<Rightarrow> (node_state, unit) call" where
  "validateAndExecuteBlockOnDb env isBlock rawBlock stateVersionPrefix proposalTx updateTxInfo =
     (case rawBlock of
        None \<Rightarrow> rejects 90001
      | Some b0 \<Rightarrow>
          let b = (if isBlock then b0 else parseBlock (cc_block_env (ne_chain env)) b0) in
          followed_by state_of (\<lambda>nd.
            if hasSeenBlock (nd_bp nd) (b_hash b) then yields ()
            else followed_by (executeNewBlock env b stateVersionPrefix proposalTx) (\<lambda>res nd'.
                   (Accepted (), if updateTxInfo
                                 then nd'\<lparr>nd_tp := updateTransactionInfoForBlock env (zip (b_last_votes b) (br_votes res))
                                        (proposalResult proposalTx res) (zip (b_transactions b) (br_txs res)) (nd_tp nd')\<rparr>
                                 else nd'))))"

end
