(* ===== verification/BlockFrame.thy ===== *)
theory BlockFrame
  imports BlockCheck VersionProps
begin

text \<open>
  Executing a block does not touch what other blocks and the node use: every computation on a database
  keeps the versions of the state that were there before (\<open>frame\<close>), because the versions that the
  database makes and deletes have new names (\<open>own_versions\<close>). \<open>keeps I m\<close> says that \<open>m\<close> keeps \<open>I\<close>
  whether it returns, is rejected or throws.
\<close>

subsection \<open>Computations that keep an invariant\<close>

definition keeps :: "('s \<Rightarrow> bool) \<Rightarrow> ('s \<Rightarrow> 'r \<times> 's) \<Rightarrow> bool" where
  "keeps I m \<longleftrightarrow> (\<forall>s. I s \<longrightarrow> I (snd (m s)))"

named_theorems keep_intros "computations that keep an invariant"

lemma holdsD: "keeps I m \<Longrightarrow> I s \<Longrightarrow> I (snd (m s))"
  by (simp add: keeps_def)

lemma keeps_effects [keep_intros]:
  "keeps I (ret x)" "keeps I raise" "keeps I out_of_fuel"
  "keeps I (yields x)" "keeps I (rejects code)" "keeps I throws" "keeps I state_of" "keeps I (require c code)"
  by (simp_all add: keeps_def ret_def raise_def out_of_fuel_def yields_def rejects_def throws_def state_of_def require_def)

lemma keeps_get_db [keep_intros]: "keeps I get_db"
  by (simp add: keeps_def get_db_def)

lemma keeps_andThen [keep_intros]:
  "keeps I m \<Longrightarrow> (\<And>x. keeps I (k x)) \<Longrightarrow> keeps I (andThen m k)"
  unfolding keeps_def andThen_def by (auto split: prod.splits outcome.splits)

lemma keeps_followed_by [keep_intros]:
  "keeps I m \<Longrightarrow> (\<And>x. keeps I (k x)) \<Longrightarrow> keeps I (followed_by m k)"
  unfolding keeps_def followed_by_def by (auto split: prod.splits verdict.splits)

lemma keeps_split [keep_intros]:
  "(b \<Longrightarrow> keeps I m) \<Longrightarrow> (\<not> b \<Longrightarrow> keeps I n) \<Longrightarrow> keeps I (if b then m else n)"
  "(\<And>x. keeps I (f x)) \<Longrightarrow> keeps I m \<Longrightarrow> keeps I (case opt of None \<Rightarrow> m | Some x \<Rightarrow> f x)"
  "(\<And>x y. keeps I (g x y)) \<Longrightarrow> keeps I (case p of (x, y) \<Rightarrow> g x y)"
  "(\<And>x. keeps I (f x)) \<Longrightarrow> keeps I (let x = e in f x)"
  "(\<And>x. keeps I (f x)) \<Longrightarrow> (\<And>y. keeps I (f' y)) \<Longrightarrow> keeps I (case s of Inl x \<Rightarrow> f x | Inr y \<Rightarrow> f' y)"
  by (auto split: option.splits prod.splits sum.splits)

lemma keeps_change_db: "(\<And>db. I db \<Longrightarrow> I (snd (f db))) \<Longrightarrow> keeps I (change_db f)"
  by (auto simp: keeps_def change_db_def split: prod.splits) (metis snd_conv)

lemma keeps_lift_exec: "(\<And>db s. I (db\<lparr>db_exec := s\<rparr>) = I db) \<Longrightarrow> keeps I (lift_exec m)"
  by (simp add: keeps_def lift_exec_def split: prod.splits)

subsection \<open>Versions\<close>

definition frame :: "state_manager \<Rightarrow> state_manager \<Rightarrow> bool" where
  "frame m0 m \<longleftrightarrow> sm_finalVersion m = sm_finalVersion m0 \<and>
     (\<forall>v. hasVersion m0 (Some v) \<longrightarrow> getRoot m v = getRoot m0 v)"

definition own_versions :: "state_manager \<Rightarrow> db_state \<Rightarrow> bool" where
  "own_versions m0 db \<longleftrightarrow> (\<exists>v. db_stateVersion db = Some v \<and> \<not> hasVersion m0 (Some v)) \<and>
     (\<forall>b r. db_backup db = Some (b, r) \<longrightarrow> \<not> hasVersion m0 (Some b))"

definition isolated :: "state_manager \<Rightarrow> db_state \<Rightarrow> bool" where
  "isolated m0 db \<longleftrightarrow> frame m0 (db_manager db) \<and> own_versions m0 db"

definition final_there :: "state_manager \<Rightarrow> bool" where
  "final_there m0 \<longleftrightarrow> (case sm_finalVersion m0 of None \<Rightarrow> True | Some f \<Rightarrow> hasVersion m0 (Some f))"

lemma frame_has: "frame m0 m \<Longrightarrow> hasVersion m0 (Some v) \<Longrightarrow> hasVersion m (Some v)"
  by (auto simp: frame_def hasVersion_def)

lemma frame_fresh: "frame m0 m \<Longrightarrow> \<not> hasVersion m (Some v) \<Longrightarrow> \<not> hasVersion m0 (Some v)"
  using frame_has by blast

lemma frame_setRoot: "frame m0 m \<Longrightarrow> \<not> hasVersion m0 (Some v) \<Longrightarrow> frame m0 (setRoot v rt m)"
  by (auto simp: frame_def) (simp add: setRoot_def)

lemma finalVersion_delete [simp]: "sm_finalVersion (snd (deleteVersion v m)) = sm_finalVersion m"
  by (simp add: deleteVersion_def deleteRoot_def)

lemma frame_delete: "frame m0 m \<Longrightarrow> \<not> hasVersion m0 (Some v) \<Longrightarrow> frame m0 (snd (deleteVersion (Some v) m))"
  unfolding frame_def by (metis finalVersion_delete getRoot_deleteVersion)

lemma isolated_exec [simp]: "isolated m0 (db\<lparr>db_exec := s\<rparr>) = isolated m0 db"
  by (simp add: isolated_def own_versions_def)

lemma frame_synced: "isolated m0 db \<Longrightarrow> frame m0 (syncedManager db)"
  by (auto simp: isolated_def own_versions_def syncedManager_def intro: frame_setRoot)

lemma isolated_not_final: "isolated m0 db \<Longrightarrow> final_there m0 \<Longrightarrow> \<not> isFinalVersion (db_manager db) (db_stateVersion db)"
  by (auto simp: isolated_def own_versions_def final_there_def isFinalVersion_def frame_def split: option.splits)

lemma isolated_fresh: "isolated m0 db \<Longrightarrow> \<not> hasVersion m0 (Some (versionName label db))"
  unfolding isolated_def using frame_fresh versionName_fresh by blast

lemma frame_deleteState: "isolated m0 db \<Longrightarrow> frame m0 (db_manager (snd (deleteStateVersion db)))"
  using frame_synced [of m0 db] by (auto simp: deleteStateVersion_def isolated_def own_versions_def intro: frame_delete)

lemma frame_deleteBackup:
  "frame m0 (db_manager db) \<Longrightarrow> (\<And>b r. db_backup db = Some (b, r) \<Longrightarrow> \<not> hasVersion m0 (Some b)) \<Longrightarrow>
   frame m0 (db_manager (snd (deleteBackupStateVersion db)))"
  by (auto simp: deleteBackupStateVersion_def intro: frame_delete split: option.splits)

lemma isolated_deleteBackup: "isolated m0 db \<Longrightarrow> isolated m0 (snd (deleteBackupStateVersion db))"
  using frame_deleteBackup [of m0 db]
  by (auto simp: isolated_def own_versions_def deleteBackupStateVersion_def split: option.splits)

lemma isolated_backup:
  assumes "isolated m0 db"
  shows "isolated m0 (snd (backupDb db))"
proof -
  let ?b = "versionName ''BACKUP'' db"
  have f: "\<not> hasVersion m0 (Some ?b)" by (rule isolated_fresh [OF assms])
  have i: "isolated m0 (db\<lparr>db_manager := setRoot ?b rt (syncedManager db)\<rparr>)" for rt
    using assms frame_setRoot [OF frame_synced [OF assms] f] by (simp add: isolated_def own_versions_def)
  from isolated_deleteBackup [OF i] f assms i show ?thesis
    by (auto simp: backupDb_def cloneVersion_def setBackupStateVersion_def Let_def isolated_def own_versions_def
        split: option.splits)
qed

lemma isolated_restore:
  assumes "isolated m0 db" "final_there m0"
  shows "isolated m0 (snd (restoreDb db))"
proof -
  let ?r = "versionName ''NODE'' db"
  have f: "\<not> hasVersion m0 (Some ?r)" by (rule isolated_fresh [OF assms(1)])
  have n: "\<not> isFinalVersion (setRoot ?r rt (syncedManager db)) (db_stateVersion db)" for rt
    using isolated_not_final [OF assms] by simp
  have i: "isolated m0 (db\<lparr>db_manager := setRoot ?r rt (syncedManager db)\<rparr>)" for rt
    using assms frame_setRoot [OF frame_synced [OF assms(1)] f] by (simp add: isolated_def own_versions_def)
  have s: "isolated m0 (snd (setStateVersion ?r rt (db\<lparr>db_manager := setRoot ?r rt (syncedManager db)\<rparr>)))" for rt
    using frame_deleteState [OF i] i [of rt] n [of rt] f
    by (auto simp: setStateVersion_def Let_def isolated_def own_versions_def deleteStateVersion_def split: option.splits)
  show ?thesis using assms isolated_deleteBackup [OF s] n
    by (auto simp: restoreDb_def cloneVersion_def Let_def split: option.splits)
qed

lemma frame_destroy: "isolated m0 db \<Longrightarrow> frame m0 (db_manager (destroyDb db))"
  using frame_deleteState [of m0 db]
  by (auto simp: destroyDb_def deleteStateVersion_def isolated_def own_versions_def intro!: frame_deleteBackup split: option.splits)

subsection \<open>Transactions\<close>

lemma executeTransaction_isolated [keep_intros]:
  assumes "final_there m0"
  shows "keeps (isolated m0) (executeTransaction env opts tx)"
  unfolding executeTransaction_def feesAndReceipt_def collectFee_def chargeWhatIsLeft_def settle_def Let_def
  using assms
  by (intro keep_intros keeps_change_db keeps_lift_exec isolated_backup isolated_restore isolated_deleteBackup isolated_exec) auto

lemma executeTransactionList_isolated [keep_intros]:
  assumes "final_there m0"
  shows "keeps (isolated m0) (executeTransactionList txe env opts isInstance txs)"
  by (induction txs) (auto simp: executeExecutable_def intro!: keep_intros assms split: sum.splits option.splits)

subsection \<open>Blocks\<close>

text \<open>The node with the database of the block; the chain and the front database do not change.\<close>

definition node_isolated :: "node_state \<Rightarrow> node_state \<Rightarrow> bool" where
  "node_isolated nd0 nd \<longleftrightarrow> frame (nd_manager nd0) (nd_manager nd) \<and> nd_bc nd = nd_bc nd0 \<and> nd_db nd = nd_db nd0"

definition block_isolated :: "node_state \<Rightarrow> check_state \<Rightarrow> bool" where
  "block_isolated nd0 st \<longleftrightarrow> node_isolated nd0 (fst st) \<and> own_versions (nd_manager nd0) (snd st)"

lemma attach_isolated: "block_isolated nd0 (nd, db) \<Longrightarrow> isolated (nd_manager nd0) (attach nd db)"
  by (simp add: block_isolated_def node_isolated_def isolated_def own_versions_def attach_def)

lemma release_isolated:
  "node_isolated nd0 nd \<Longrightarrow> isolated (nd_manager nd0) db \<Longrightarrow> block_isolated nd0 (release db nd, db)"
  using frame_synced by (auto simp: block_isolated_def node_isolated_def release_def isolated_def)

lemma on_db_isolated [keep_intros]:
  "keeps (isolated (nd_manager nd0)) m \<Longrightarrow> keeps (block_isolated nd0) (on_db m)"
proof (unfold keeps_def, intro allI impI)
  fix st
  assume m: "\<forall>s. isolated (nd_manager nd0) s \<longrightarrow> isolated (nd_manager nd0) (snd (m s))" and st: "block_isolated nd0 st"
  obtain nd db where e: "st = (nd, db)" by (cases st)
  obtain out db' where r: "m (attach nd db) = (out, db')" by fastforce
  have "isolated (nd_manager nd0) db'" using m attach_isolated [of nd0 nd db] st r e by (metis snd_conv)
  moreover have "node_isolated nd0 nd" using st e by (simp add: block_isolated_def)
  ultimately show "block_isolated nd0 (snd (on_db m st))"
    using release_isolated by (simp add: on_db_def e r)
qed

lemma on_node_isolated [keep_intros]:
  "keeps (node_isolated nd0) m \<Longrightarrow> keeps (block_isolated nd0) (on_node m)"
  unfolding keeps_def on_node_def by (auto simp: block_isolated_def split: prod.splits)

lemma on_pool_isolated [keep_intros]: "keeps (node_isolated nd0) (on_pool f)"
  by (auto simp: keeps_def on_pool_def node_isolated_def split: option.splits prod.splits)

lemma createTempDb_isolated:
  assumes "createTempDb env base pre n nd = (opt, nd')" "node_isolated nd0 nd"
  shows "node_isolated nd0 nd'" "opt = Some db \<Longrightarrow> block_isolated nd0 (nd', db)"
proof -
  let ?m = "nd_manager nd"
  obtain v where v: "createUniqueVersionName pre (ne_now env) ?m = Some v" "\<not> hasVersion ?m (Some v)"
    by (rule createUniqueVersionName_ex)
  have f: "frame (nd_manager nd0) ?m" using assms(2) by (simp add: node_isolated_def)
  have n: "\<not> hasVersion (nd_manager nd0) (Some v)" by (rule frame_fresh [OF f v(2)])
  show "node_isolated nd0 nd'" "opt = Some db \<Longrightarrow> block_isolated nd0 (nd', db)"
    using assms v n frame_setRoot [OF f n]
    by (auto simp: createTempDb_def cloneToTempVersion_def cloneVersion_def node_isolated_def block_isolated_def own_versions_def
        split: option.splits if_splits)
qed

lemma getNewDb_isolated [keep_intros]: "keeps (node_isolated nd0) (getNewDbForProposal env n base pre)"
  unfolding keeps_def getNewDbForProposal_def
  by (auto split: prod.splits option.splits dest: createTempDb_isolated(1))

lemma executeOnBlockDb_isolated [keep_intros]:
  "final_there (nd_manager nd0) \<Longrightarrow> keeps (block_isolated nd0) (executeOnBlockDb env opts txs code)"
  unfolding executeOnBlockDb_def by (intro keep_intros) auto

lemma lastVotes_isolated [keep_intros]:
  "final_there (nd_manager nd0) \<Longrightarrow> keeps (block_isolated nd0) (validateAndExecuteLastVotes env votes h n t)"
  unfolding validateAndExecuteLastVotes_def checkNotarized_def by (intro keep_intros) auto

lemma evidenceList_isolated [keep_intros]:
  "final_there (nd_manager nd0) \<Longrightarrow> keeps (block_isolated nd0) (checkEvidenceList env validators maj opts es temp)"
  by (induction es arbitrary: temp) (auto intro!: keep_intros)

lemma offenders_isolated [keep_intros]:
  "final_there (nd_manager nd0) \<Longrightarrow> keeps (block_isolated nd0) (checkOffenders env validators maj opts off ev)"
  by (induction ev) (auto intro!: keep_intros)

lemma transactions_isolated [keep_intros]:
  "final_there (nd_manager nd0) \<Longrightarrow> keeps (block_isolated nd0) (validateAndExecuteTransactions env txs rs n t ga gc)"
  unfolding validateAndExecuteTransactions_def by (intro keep_intros) auto

lemma tryProposal_isolated:
  assumes "final_there (nd_manager nd0)" "block_isolated nd0 (nd, tempDb)"
  shows "node_isolated nd0 (snd (tryProposal env tx n t tempDb nd))"
proof -
  obtain out db' where r: "executeTransaction (ne_exec env) (blockOptions True False n t JNull) tx (attach nd tempDb) = (out, db')"
    by fastforce
  have "isolated (nd_manager nd0) db'"
    using holdsD [OF executeTransaction_isolated [OF assms(1)] attach_isolated [OF assms(2)]] r by (metis snd_conv)
  then show ?thesis using assms(2) frame_destroy [of "nd_manager nd0" db'] frame_synced [of "nd_manager nd0" db']
    by (auto simp: tryProposal_def r Let_def node_isolated_def block_isolated_def release_def split: outcome.splits)
qed

lemma executeProposalTx_isolated [keep_intros]:
  assumes "final_there (nd_manager nd0)"
  shows "keeps (node_isolated nd0) (executeProposalTx env proposalTx n t v)"
proof (unfold keeps_def, intro allI impI)
  fix nd
  assume nd: "node_isolated nd0 nd"
  have y: "keeps (node_isolated nd0) (yields (Some r))" for r :: exec_result by (rule keep_intros)
  have "node_isolated nd0 (snd (followed_by (tryProposal env tx n t db) (\<lambda>r. yields (Some r)) nd'))"
    if "createTempDb env v pre k nd = (Some db, nd')" for tx db nd' pre k
  proof -
    have "node_isolated nd0 (snd (tryProposal env tx n t db nd'))"
      by (rule tryProposal_isolated [OF assms createTempDb_isolated(2) [OF that nd refl]])
    then show ?thesis
      by (auto simp: followed_by_def yields_def split: prod.splits verdict.splits)
  qed
  then show "node_isolated nd0 (snd (executeProposalTx env proposalTx n t v nd))"
    using nd createTempDb_isolated(1) [OF _ nd]
    by (auto simp: executeProposalTx_def split: option.splits sum.splits prod.splits)
qed

lemma checksOnDb_isolated [keep_intros]:
  assumes "final_there (nd_manager nd0)"
  shows "keeps (block_isolated nd0) (checksOnDb env b proposalTx prev base)"
  unfolding checksOnDb_def validateBlockNumberAndHashes_def validateValidatorSet_def validateProposer_def
    validateAndExecuteOffensesAndEvidence_def applyBandagesForBlockNumber_def validateStateProofHash_def addBlockToBlockPool_def
  using assms by (intro keep_intros keeps_lift_exec isolated_exec) auto

lemma withBlockDb_isolated:
  assumes "final_there (nd_manager nd0)" "block_isolated nd0 (nd, db)" "keeps (block_isolated nd0) m"
  shows "node_isolated nd0 (snd (withBlockDb m db nd))"
proof -
  obtain v nd' db' where r: "m (nd, db) = (v, (nd', db'))" by (cases "m (nd, db)") auto
  then have i: "block_isolated nd0 (nd', db')" using holdsD [OF assms(3,2)] by simp
  then have n: "node_isolated nd0 nd'" by (simp add: block_isolated_def)
  moreover have "node_isolated nd0 (destroyNodeDb db' nd')"
    using n frame_destroy [OF attach_isolated [OF i]] by (simp add: node_isolated_def destroyNodeDb_def)
  ultimately show ?thesis by (cases v) (simp_all add: withBlockDb_def r)
qed

lemma executeNewBlock_isolated [keep_intros]:
  assumes "final_there (nd_manager nd0)"
  shows "keeps (node_isolated nd0) (executeNewBlock env b pre proposalTx)"
proof -
  have n: "keeps (node_isolated nd0) (followed_by (getNewDbForProposal env k base pre)
      (withBlockDb (checksOnDb env b proposalTx prev base)))" for k base prev
  proof (unfold keeps_def, intro allI impI)
    fix nd
    assume nd: "node_isolated nd0 nd"
    obtain opt nd' where c: "createTempDb env base (versionText pre [k - 1, k]) k nd = (opt, nd')" by fastforce
    show "node_isolated nd0 (snd (followed_by (getNewDbForProposal env k base pre)
        (withBlockDb (checksOnDb env b proposalTx prev base)) nd))"
    proof (cases opt)
      case None
      then show ?thesis using createTempDb_isolated(1) [OF c nd] by (simp add: followed_by_def getNewDbForProposal_def c)
    next
      case (Some db)
      then show ?thesis
        using withBlockDb_isolated [OF assms createTempDb_isolated(2) [OF c nd] checksOnDb_isolated [OF assms]]
        by (simp add: followed_by_def getNewDbForProposal_def c)
    qed
  qed
  show ?thesis
    unfolding executeNewBlock_def validateProposalTx_def validateProposalValue_def Let_def getPrevBlockInfo_def getBaseStateVersion_def
    by (intro keep_intros n) (auto split: bool.splits intro!: keep_intros)
qed

lemma validateBlock_isolated:
  assumes "final_there (nd_manager nd0)"
  shows "keeps (node_isolated nd0) (validateAndExecuteBlockOnDb env isBlock rawBlock pre proposalTx upd)"
proof -
  have u: "keeps (node_isolated nd0) (\<lambda>nd. (Accepted (), if upd then nd\<lparr>nd_tp := f (nd_tp nd)\<rparr> else nd))" for f
    by (simp add: keeps_def node_isolated_def)
  show ?thesis
    unfolding validateAndExecuteBlockOnDb_def Let_def using assms by (intro keep_intros u) auto
qed

text \<open>
  C33. Executing a block is isolated: whatever block arrives, valid or not, and whether it is accepted,
  rejected or throws, every version of the state that was there before keeps its state, the final
  version stays the same, and neither the chain nor the front database of the node changes. So a block
  cannot affect the blocks that compete with it or the finalized state.
\<close>

theorem block_execution_isolated:
  assumes "final_there (nd_manager nd)"
    and "validateAndExecuteBlockOnDb env isBlock rawBlock stateVersionPrefix proposalTx updateTxInfo nd = (v, nd')"
  shows "(\<forall>w. hasVersion (nd_manager nd) (Some w) \<longrightarrow> getRoot (nd_manager nd') w = getRoot (nd_manager nd) w) \<and>
    sm_finalVersion (nd_manager nd') = sm_finalVersion (nd_manager nd) \<and> nd_bc nd' = nd_bc nd \<and> nd_db nd' = nd_db nd"
proof -
  have "node_isolated nd nd" by (simp add: node_isolated_def frame_def)
  from holdsD [OF validateBlock_isolated [OF assms(1)] this] have "node_isolated nd nd'" using assms(2) by (metis snd_conv)
  then show ?thesis by (auto simp: node_isolated_def frame_def)
qed

end
