(* ===== verification/PoolSearch.thy ===== *)
theory PoolSearch
  imports BlockPool
begin

text \<open>
  The searches of the block pool against what they are meant to find: the notarized paths from the
  finalized block. The depth-first search enumerates exactly these paths and stops when the links of
  the pool have no cycle; the longest chains are the paths with the greatest last number, and the
  finalizable chain is a longest path that ends with three consecutive epochs.
\<close>

subsection \<open>Paths\<close>

inductive notarized_path :: "'db block_pool \<Rightarrow> block_info option \<Rightarrow> block list \<Rightarrow> bool"
  for bp :: "'db block_pool" where
  one: "notarizedBlock node = Some b \<Longrightarrow> notarized_path bp node [b]"
| more: "notarizedBlock node = Some b \<Longrightarrow> v \<in> set (nextBlocks bp (b_hash b)) \<Longrightarrow>
    notarized_path bp (infoOf bp (JStr v)) p \<Longrightarrow> notarized_path bp node (b # p)"

inductive_cases notarized_pathE: "notarized_path bp node p"
inductive_simps notarized_path_Nil [simp]: "notarized_path bp node []"

lemma no_path [simp]: "notarizedBlock node = None \<Longrightarrow> \<not> notarized_path bp node p"
  by (auto elim: notarized_pathE)

lemma notarized_path_unfold:
  "notarized_path bp node p \<longleftrightarrow>
     (\<exists>b. notarizedBlock node = Some b \<and>
        (p = [b] \<or> (\<exists>v q. v \<in> set (nextBlocks bp (b_hash b)) \<and> notarized_path bp (infoOf bp (JStr v)) q \<and> p = b # q)))"
  by (rule iffI, erule notarized_pathE) (auto intro: notarized_path.intros)

fun pathList :: "nat \<Rightarrow> 'db block_pool \<Rightarrow> block_info option \<Rightarrow> block list list" where
  "pathList 0 bp node = []"
| "pathList (Suc n) bp node =
     (case notarizedBlock node of
        None \<Rightarrow> []
      | Some b \<Rightarrow> [b] # map ((#) b) (concat (map (\<lambda>v. pathList n bp (infoOf bp (JStr v))) (nextBlocks bp (b_hash b)))))"

text \<open>The fuel reaches the end of every path.\<close>

fun enough :: "nat \<Rightarrow> 'db block_pool \<Rightarrow> block_info option \<Rightarrow> bool" where
  "enough 0 bp node = False"
| "enough (Suc n) bp node =
     (case notarizedBlock node of
        None \<Rightarrow> True
      | Some b \<Rightarrow> list_all (\<lambda>v. enough n bp (infoOf bp (JStr v))) (nextBlocks bp (b_hash b)))"

lemma set_pathList: "enough n bp node \<Longrightarrow> set (pathList n bp node) = {p. notarized_path bp node p}"
proof (induction n arbitrary: node)
  case 0
  then show ?case by simp
next
  case (Suc n)
  show ?case
  proof (cases "notarizedBlock node")
    case None
    then show ?thesis by simp
  next
    case (Some b)
    have IH: "set (pathList n bp (infoOf bp (JStr v))) = {p. notarized_path bp (infoOf bp (JStr v)) p}"
      if "v \<in> set (nextBlocks bp (b_hash b))" for v
      using Suc that Some by (simp add: list_all_iff)
    have "p \<in> set (pathList (Suc n) bp node) \<longleftrightarrow> notarized_path bp node p" for p
      using Some IH by (subst notarized_path_unfold) (auto simp: image_iff)
    then show ?thesis by blast
  qed
qed

subsection \<open>The longest notarized chains\<close>

lemma fold_opt_concat:
  assumes "\<And>v s. v \<in> set vs \<Longrightarrow> f v s = Some (foldl g s (h v))"
  shows "fold_opt f vs s = Some (foldl g s (concat (map h vs)))"
  using assms by (induction vs arbitrary: s) simp_all

lemma dfsLongest_fold:
  "enough n bp node \<Longrightarrow>
   dfsLongest n bp node cc cl = Some (foldl (\<lambda>cl p. considerChain (cc @ p) cl) cl (pathList n bp node))"
proof (induction n arbitrary: node cc cl)
  case 0
  then show ?case by simp
next
  case (Suc n)
  show ?case
  proof (cases "notarizedBlock node")
    case None
    then show ?thesis by simp
  next
    case (Some b)
    have "fold_opt (\<lambda>val cl. dfsLongest n bp (infoOf bp (JStr val)) (cc @ [b]) cl) (nextBlocks bp (b_hash b)) s =
        Some (foldl (\<lambda>cl p. considerChain ((cc @ [b]) @ p) cl) s
          (concat (map (\<lambda>v. pathList n bp (infoOf bp (JStr v))) (nextBlocks bp (b_hash b)))))" for s
      using Suc Some by (intro fold_opt_concat) (simp add: list_all_iff)
    then show ?thesis using Some by (simp add: Let_def foldl_map)
  qed
qed

text \<open>The chains of greatest last number, in the order they were found.\<close>

definition chainNumber :: "block list \<Rightarrow> int" where
  "chainNumber c = b_number (last c)"

definition longestOf :: "block list list \<Rightarrow> block list list" where
  "longestOf cs = filter (\<lambda>c. \<forall>d\<in>set cs. chainNumber d \<le> chainNumber c) cs"

lemma considerChain_snoc:
  assumes "\<And>c. c \<in> set (cs @ [x]) \<Longrightarrow> 0 \<le> chainNumber c"
  shows "considerChain x (longestOf cs) = longestOf (cs @ [x])"
proof (cases "cs = []")
  case True
  then show ?thesis using assms by (auto simp: considerChain_def longestOf_def Let_def chainNumber_def)
next
  case False
  define m where "m = Max (chainNumber ` set cs)"
  have m: "m \<in> chainNumber ` set cs" "\<And>c. c \<in> set cs \<Longrightarrow> chainNumber c \<le> m"
    unfolding m_def using False by (auto intro!: Max_in)
  have lo: "longestOf cs = filter (\<lambda>c. chainNumber c = m) cs"
    unfolding longestOf_def using m by (intro filter_cong) (auto intro: antisym)
  obtain c ds where cd: "longestOf cs = c # ds"
    using m(1) lo by (metis (mono_tags, lifting) filter_empty_conv imageE neq_Nil_conv)
  then have c: "chainNumber c = m" using lo by (metis (mono_tags, lifting) Cons_eq_filterD)
  have e: "longestOf (cs @ [x]) =
      filter (\<lambda>c. chainNumber c = m \<and> chainNumber x \<le> chainNumber c) cs @ (if m \<le> chainNumber x then [x] else [])"
  proof -
    have all: "(\<forall>d\<in>set cs. chainNumber d \<le> k) \<longleftrightarrow> m \<le> k" for k using m by (metis image_iff order_trans)
    have "filter (\<lambda>c. m \<le> chainNumber c \<and> chainNumber x \<le> chainNumber c) cs =
        filter (\<lambda>c. chainNumber c = m \<and> chainNumber x \<le> chainNumber c) cs"
      using m(2) by (intro filter_cong) (auto intro: antisym)
    then show ?thesis by (simp add: longestOf_def ball_Un all conj_commute)
  qed
  consider "chainNumber x > m" | "chainNumber x = m" | "chainNumber x < m" by linarith
  then show ?thesis
  proof cases
    case 1
    then have "filter (\<lambda>c. chainNumber c = m \<and> chainNumber x \<le> chainNumber c) cs = []" by (auto simp: filter_empty_conv)
    then show ?thesis using 1 c by (simp add: e cd considerChain_def Let_def chainNumber_def [symmetric])
  next
    case 2
    then have "filter (\<lambda>c. chainNumber c = m \<and> chainNumber x \<le> chainNumber c) cs = longestOf cs"
      unfolding lo by (intro filter_cong) auto
    then show ?thesis using 2 c by (simp add: e cd considerChain_def Let_def chainNumber_def [symmetric])
  next
    case 3
    then have "filter (\<lambda>c. chainNumber c = m \<and> chainNumber x \<le> chainNumber c) cs = longestOf cs"
      unfolding lo by (intro filter_cong) auto
    then show ?thesis using 3 c by (simp add: e cd considerChain_def Let_def chainNumber_def [symmetric])
  qed
qed

lemma foldl_considerChain:
  assumes "\<And>c. c \<in> set cs \<Longrightarrow> 0 \<le> chainNumber c"
  shows "foldl (\<lambda>cl p. considerChain p cl) [] cs = longestOf cs"
  using assms
proof (induction cs rule: rev_induct)
  case Nil
  then show ?case by (simp add: longestOf_def)
next
  case (snoc x cs)
  then show ?case using considerChain_snoc [of cs x] by simp
qed

lemma dfsLongest_longest:
  assumes "enough n bp node" and "\<And>p. notarized_path bp node p \<Longrightarrow> 0 \<le> chainNumber p"
  shows "\<exists>cl. dfsLongest n bp node [] [] = Some cl \<and>
    set cl = {p. notarized_path bp node p \<and> (\<forall>q. notarized_path bp node q \<longrightarrow> chainNumber q \<le> chainNumber p)}"
proof -
  have s: "set (pathList n bp node) = {p. notarized_path bp node p}" by (rule set_pathList [OF assms(1)])
  have "dfsLongest n bp node [] [] = Some (longestOf (pathList n bp node))"
    using dfsLongest_fold [OF assms(1), of "[]" "[]"] foldl_considerChain [of "pathList n bp node"] assms(2) s by simp
  moreover have "set (longestOf (pathList n bp node)) =
      {p. notarized_path bp node p \<and> (\<forall>q. notarized_path bp node q \<longrightarrow> chainNumber q \<le> chainNumber p)}"
    using s by (auto simp: longestOf_def)
  ultimately show ?thesis by blast
qed

subsection \<open>The finalizable chain\<close>

abbreviation finalizable :: "block list \<Rightarrow> bool" where
  "finalizable \<equiv> endsWithThreeConsecutiveEpochs"

definition bestOf :: "block list set \<Rightarrow> block list \<Rightarrow> bool" where
  "bestOf S r = (if \<exists>p\<in>S. finalizable p
     then r \<in> S \<and> finalizable r \<and> (\<forall>p\<in>S. finalizable p \<longrightarrow> length p \<le> length r) else r = [])"

text \<open>What a search below \<open>cc\<close> may return: the best chain, or nothing better than \<open>cc\<close>.\<close>

definition searchResult :: "block list set \<Rightarrow> block list \<Rightarrow> block list \<Rightarrow> bool" where
  "searchResult S cc r = (if \<exists>p\<in>S. finalizable p then bestOf S r else r = [] \<or> r = cc)"

lemma finalizable_length: "finalizable c \<Longrightarrow> 3 \<le> length c"
  by (auto simp: endsWithThreeConsecutiveEpochs_def Let_def split: if_splits)

lemma not_finalizable_Nil [simp]: "\<not> finalizable []"
  using finalizable_length [of "[]"] by auto

lemma bestOf_searchResult: "bestOf S r \<Longrightarrow> searchResult S cc r"
  by (auto simp: searchResult_def bestOf_def)

lemma longerFinalizable_best:
  assumes "bestOf S longest" and "searchResult T cc res" and "cc \<in> S"
  shows "bestOf (S \<union> T) (longerFinalizable res longest)"
proof (cases "\<exists>p\<in>T. finalizable p")
  case True
  then have res: "res \<in> T" "finalizable res" "\<And>p. p \<in> T \<Longrightarrow> finalizable p \<Longrightarrow> length p \<le> length res"
    using assms(2) by (auto simp: searchResult_def bestOf_def split: if_splits)
  note three = finalizable_length [OF res(2)]
  show ?thesis
  proof (cases "\<exists>p\<in>S. finalizable p")
    case t: True
    then have l: "longest \<in> S" "finalizable longest" "\<And>p. p \<in> S \<Longrightarrow> finalizable p \<Longrightarrow> length p \<le> length longest"
      using assms(1) by (auto simp: bestOf_def)
    show ?thesis
    proof (cases "length res > length longest")
      case True
      then have "longerFinalizable res longest = res" using res(2) by (simp add: longerFinalizable_def)
      moreover have "length p \<le> length res" if "p \<in> S \<union> T" "finalizable p" for p
        using that True l(3) res(3) by fastforce
      ultimately show ?thesis using res(1,2) by (auto simp: bestOf_def)
    next
      case False
      then have "longerFinalizable res longest = longest" by (simp add: longerFinalizable_def)
      moreover have "length p \<le> length longest" if "p \<in> S \<union> T" "finalizable p" for p
        using that False l(3) res(3) by fastforce
      ultimately show ?thesis using l(1,2) by (auto simp: bestOf_def)
    qed
  next
    case f: False
    then have "longest = []" using assms(1) by (simp add: bestOf_def)
    then have "longerFinalizable res longest = res" using res(2) three by (auto simp: longerFinalizable_def)
    then show ?thesis using res f by (auto simp: bestOf_def)
  qed
next
  case f: False
  then have "res = [] \<or> res = cc" using assms(2) by (simp add: searchResult_def)
  then have "longerFinalizable res longest = longest"
    using assms(1,3) by (auto simp: longerFinalizable_def bestOf_def split: if_splits)
  then show ?thesis using assms(1) f unfolding bestOf_def by (auto split: if_splits)
qed

lemma dfsFinalizable_best:
  "enough n bp node \<Longrightarrow>
   \<exists>r. dfsFinalizable n bp node cc = Some r \<and> searchResult ((@) cc ` {p. notarized_path bp node p}) cc r"
proof (induction n arbitrary: node cc)
  case 0
  then show ?case by simp
next
  case (Suc n)
  show ?case
  proof (cases "notarizedBlock node")
    case None
    then show ?thesis by (auto simp: searchResult_def finalizable_or_empty_def)
  next
    case (Some b)
    let ?cc = "cc @ [b]" and ?vs = "nextBlocks bp (b_hash b)"
    let ?T = "\<lambda>v. (@) ?cc ` {p. notarized_path bp (infoOf bp (JStr v)) p}"
    have paths: "(@) cc ` {p. notarized_path bp node p} = {?cc} \<union> (\<Union>v\<in>set ?vs. ?T v)"
      using Some by (subst notarized_path_unfold) (auto simp: image_iff)
    have step: "\<exists>r. fold_opt (\<lambda>h longest. map_option (\<lambda>res. longerFinalizable res longest)
          (dfsFinalizable n bp (infoOf bp (JStr h)) ?cc)) vs longest = Some r \<and> bestOf (S \<union> (\<Union>v\<in>set vs. ?T v)) r"
      if "set vs \<subseteq> set ?vs" "bestOf S longest" "?cc \<in> S" for vs S longest
      using that
    proof (induction vs arbitrary: S longest)
      case Nil
      then show ?case by simp
    next
      case (Cons v vs)
      have "enough n bp (infoOf bp (JStr v))" using Suc.prems Some Cons.prems(1) by (simp add: list_all_iff)
      from Suc.IH [OF this, of ?cc] obtain res where res: "dfsFinalizable n bp (infoOf bp (JStr v)) ?cc = Some res"
        "searchResult (?T v) ?cc res" by blast
      have "bestOf (S \<union> ?T v) (longerFinalizable res longest)"
        by (rule longerFinalizable_best [OF Cons.prems(2) res(2) Cons.prems(3)])
      with Cons.IH [of "S \<union> ?T v" "longerFinalizable res longest"] Cons.prems res(1)
      show ?case by (simp add: Un_assoc)
    qed
    have init: "bestOf {?cc} (finalizable_or_empty ?cc)" by (simp add: bestOf_def finalizable_or_empty_def)
    show ?thesis
    proof (cases "?vs = []")
      case True
      then show ?thesis using Some paths by (cases "finalizable ?cc") (auto simp: searchResult_def bestOf_def)
    next
      case False
      from step [OF subset_refl init] obtain r where
        "dfsFinalizable (Suc n) bp node cc = Some r" "bestOf ({?cc} \<union> (\<Union>v\<in>set ?vs. ?T v)) r"
        using Some False by (auto simp: Let_def)
      then show ?thesis unfolding paths using bestOf_searchResult by blast
    qed
  qed
qed

subsection \<open>Fuel\<close>

text \<open>
  A rank of the hashes that grows along the links. It exists when no block is its own ancestor, which
  holds for hashes that commit to the previous hash.
\<close>

definition ranked :: "(string \<Rightarrow> nat) \<Rightarrow> 'db block_pool \<Rightarrow> bool" where
  "ranked rank bp = (\<forall>k b v. blockOf bp (JStr k) = Some b \<longrightarrow> v \<in> set (nextBlocks bp (b_hash b)) \<longrightarrow>
     blockOf bp (JStr v) \<noteq> None \<longrightarrow> rank k < rank v)"

definition poolKeys :: "'db block_pool \<Rightarrow> string set" where
  "poolKeys bp = {k. blockOf bp (JStr k) \<noteq> None}"

lemma poolKeys_finite: "finite (poolKeys bp)" and poolKeys_card: "card (poolKeys bp) \<le> length (bp_hashToBlockInfo bp)"
proof -
  have sub: "JStr ` poolKeys bp \<subseteq> fst ` set (bp_hashToBlockInfo bp)"
    by (fastforce simp: poolKeys_def blockOf_def infoOf_def dest: map_of_SomeD intro: rev_image_eqI split: option.splits)
  have inj: "inj_on JStr (poolKeys bp)" by (simp add: inj_on_def)
  show "finite (poolKeys bp)" using finite_subset [OF sub] finite_imageD [OF _ inj] by simp
  have "card (poolKeys bp) = card (JStr ` poolKeys bp)" by (simp add: card_image inj)
  also have "\<dots> \<le> card (fst ` set (bp_hashToBlockInfo bp))" by (rule card_mono [OF _ sub]) simp
  also have "\<dots> \<le> length (bp_hashToBlockInfo bp)" by (metis card_image_le card_length le_trans List.finite_set)
  finally show "card (poolKeys bp) \<le> length (bp_hashToBlockInfo bp)" .
qed

lemma notarizedBlock_blockOf: "notarizedBlock (infoOf bp h) = Some b \<Longrightarrow> blockOf bp h = Some b"
  by (auto simp: notarizedBlock_def blockOf_def split: option.splits if_splits)

lemma no_block_not_notarized: "blockOf bp h = None \<Longrightarrow> notarizedBlock (infoOf bp h) = None"
  using notarizedBlock_blockOf by (metis not_Some_eq)

lemma ranked_enough:
  assumes "ranked rank bp" and "card {j \<in> poolKeys bp. rank k < rank j} + 1 < n"
  shows "enough n bp (infoOf bp (JStr k))"
  using assms(2)
proof (induction n arbitrary: k)
  case 0
  then show ?case by simp
next
  case (Suc n)
  show ?case
  proof (cases "notarizedBlock (infoOf bp (JStr k))")
    case None
    then show ?thesis by simp
  next
    case (Some b)
    have "enough n bp (infoOf bp (JStr v))" if v: "v \<in> set (nextBlocks bp (b_hash b))" for v
    proof (cases "v \<in> poolKeys bp")
      case True
      have r: "rank k < rank v" using assms(1) notarizedBlock_blockOf [OF Some] v True by (auto simp: ranked_def poolKeys_def)
      have "{j \<in> poolKeys bp. rank v < rank j} \<subset> {j \<in> poolKeys bp. rank k < rank j}"
        using True r by auto
      from psubset_card_mono [OF _ this] have "card {j \<in> poolKeys bp. rank v < rank j} < card {j \<in> poolKeys bp. rank k < rank j}"
        using poolKeys_finite [of bp] by simp
      then show ?thesis using Suc by simp
    next
      case False
      then have "notarizedBlock (infoOf bp (JStr v)) = None"
        by (simp add: no_block_not_notarized poolKeys_def)
      then show ?thesis using Suc.prems by (cases n) simp_all
    qed
    then show ?thesis using Some by (simp add: list_all_iff)
  qed
qed

lemma search_enough:
  assumes "ranked rank bp"
  shows "enough (searchFuel bp) bp node"
proof -
  have "enough (length (bp_hashToBlockInfo bp) + 1) bp (infoOf bp (JStr v))" for v
  proof (cases "v \<in> poolKeys bp")
    case True
    then have "{j \<in> poolKeys bp. rank v < rank j} \<subset> poolKeys bp" by auto
    from psubset_card_mono [OF poolKeys_finite this] show ?thesis
      using poolKeys_card [of bp] by (intro ranked_enough [OF assms]) linarith
  next
    case False
    then have "notarizedBlock (infoOf bp (JStr v)) = None"
      by (simp add: no_block_not_notarized poolKeys_def)
    then show ?thesis by simp
  qed
  then show ?thesis by (auto simp: searchFuel_def list_all_iff split: option.splits)
qed

subsection \<open>What the searches of the pool find\<close>

text \<open>
  C25. Updating the longest notarized chains returns, whatever the shape of the pool, when no block is
  its own ancestor, and the tips are then exactly the hashes of the last blocks of the notarized paths
  from the last finalized block whose last number is the greatest.
\<close>

theorem longest_tips:
  assumes "ranked rank bp" and "\<forall>tip\<in>set (bp_longestNotarizedChainTips bp). blockOf bp (JStr tip) \<noteq> None"
    and "\<forall>p. notarized_path bp (lastFinalizedInfo bc bp) p \<longrightarrow> 0 \<le> chainNumber p"
  shows "\<exists>bp'. updateLongestNotarizedChains bc bp = Some bp' \<and>
    set (bp_longestNotarizedChainTips bp') =
      {b_hash (last p) | p. notarized_path bp (lastFinalizedInfo bc bp) p \<and>
         (\<forall>q. notarized_path bp (lastFinalizedInfo bc bp) q \<longrightarrow> chainNumber q \<le> chainNumber p)}"
proof -
  obtain cl where cl: "dfsLongest (searchFuel bp) bp (lastFinalizedInfo bc bp) [] [] = Some cl"
    "set cl = {p. notarized_path bp (lastFinalizedInfo bc bp) p \<and>
       (\<forall>q. notarized_path bp (lastFinalizedInfo bc bp) q \<longrightarrow> chainNumber q \<le> chainNumber p)}"
    using dfsLongest_longest [OF search_enough [OF assms(1)]] assms(3) by meson
  have "\<not> (case bp_longestNotarizedChainTips bp of [] \<Rightarrow> False | tip # tips \<Rightarrow> blockOf bp (JStr tip) = None)"
    using assms(2) by (simp split: list.splits)
  then show ?thesis using cl by (auto simp: updateLongestNotarizedChains_def getLongestNotarizedChainList_def)
qed

text \<open>
  C26. The finalizable chain is the longest of the notarized paths from the last finalized block that end
  with three blocks of consecutive epochs, and it is empty when there is none; the search always
  returns when no block is its own ancestor.
\<close>

theorem finalizable_chain:
  assumes "ranked rank bp" and "0 \<le> lastBlockNumber bc"
  shows "\<exists>chain. getFinalizableChain bc bp False = Some (map Some chain) \<and>
    (if \<exists>p. notarized_path bp (Some (emptyInfo\<lparr>bi_block := lastBlock bc, bi_notarized := True\<rparr>)) p \<and> finalizable p
     then notarized_path bp (Some (emptyInfo\<lparr>bi_block := lastBlock bc, bi_notarized := True\<rparr>)) chain \<and> finalizable chain \<and>
       (\<forall>p. notarized_path bp (Some (emptyInfo\<lparr>bi_block := lastBlock bc, bi_notarized := True\<rparr>)) p \<and> finalizable p
          \<longrightarrow> length p \<le> length chain)
     else chain = [])"
proof -
  let ?n = "Some (emptyInfo\<lparr>bi_block := lastBlock bc, bi_notarized := True\<rparr>)"
  obtain r where r: "dfsFinalizable (searchFuel bp) bp ?n [] = Some r"
    "searchResult ((@) [] ` {p. notarized_path bp ?n p}) [] r"
    using dfsFinalizable_best [OF search_enough [OF assms(1)], of ?n "[]"] by blast
  then show ?thesis using assms(2)
    by (intro exI [of _ r]) (auto simp: getFinalizableChain_def Let_def searchResult_def bestOf_def image_def split: if_splits)
qed

end
