(* ===== verification/PoolInv.thy ===== *)
theory PoolInv
  imports PoolSearch
begin

text \<open>
  The block pool as a state machine: its steps are the calls of the node (a block or a vote is seen,
  the pool is cleaned up after a finalization). In every reachable pool the links follow the previous
  hashes, so that no call loops, and a block becomes notarized only with two thirds of the stake of the
  block before.
\<close>

subsection \<open>What notarizing changes\<close>

text \<open>Why an info may be marked: genesis, a snapshot, or a majority of the previous block.\<close>

definition justified :: "chain_config \<Rightarrow> blockchain \<Rightarrow> bool \<Rightarrow> 'db block_pool \<Rightarrow> block_info \<Rightarrow> bool" where
  "justified cfg bc isFromSnapshot bp info =
     (case bi_block info of
        None \<Rightarrow> False
      | Some b \<Rightarrow> b_number b = 0 \<or> isFromSnapshot \<or>
          (case prevBlockOf cfg bc bp b of None \<Rightarrow> False | Some pb \<Rightarrow> hasMajority cfg pb (bi_tallied info)))"

definition marks :: "chain_config \<Rightarrow> blockchain \<Rightarrow> bool \<Rightarrow> 'db block_pool \<Rightarrow> 'db block_pool \<Rightarrow> bool" where
  "marks cfg bc s bp bp' =
     (nextBlocks bp' = nextBlocks bp \<and>
      (\<forall>k. infoOf bp' k = infoOf bp k \<or>
         (\<exists>info. infoOf bp k = Some info \<and> justified cfg bc s bp info \<and> infoOf bp' k = Some (info\<lparr>bi_notarized := True\<rparr>))))"

lemma infoOf_put [simp]: "infoOf (putInfo h info bp) k = (if k = h then Some info else infoOf bp k)"
  by (simp add: infoOf_def putInfo_def update_conv')

lemma put_frame [simp]:
  "nextBlocks (putInfo h info bp) = nextBlocks bp"
  "nextBlocks (bp\<lparr>bp_longestNotarizedChainTips := ts\<rparr>) = nextBlocks bp"
  "infoOf (bp\<lparr>bp_longestNotarizedChainTips := ts\<rparr>) = infoOf bp"
  by (auto simp: nextBlocks_def putInfo_def infoOf_def fun_eq_iff)

lemma marks_refl: "marks cfg bc s bp bp"
  by (simp add: marks_def)

lemma marks_infoD:
  "marks cfg bc s bp bp' \<Longrightarrow> infoOf bp k = Some i \<Longrightarrow> infoOf bp' k = Some i \<or> infoOf bp' k = Some (i\<lparr>bi_notarized := True\<rparr>)"
  unfolding marks_def by (metis option.inject)

lemma marks_blockOf: "marks cfg bc s bp bp' \<Longrightarrow> blockOf bp' = blockOf bp"
proof
  fix k assume m: "marks cfg bc s bp bp'"
  then consider "infoOf bp' k = infoOf bp k"
    | info where "infoOf bp k = Some info" "infoOf bp' k = Some (info\<lparr>bi_notarized := True\<rparr>)"
    unfolding marks_def by blast
  then show "blockOf bp' k = blockOf bp k" by cases (auto simp: blockOf_def)
qed

lemma marks_nextBlocks: "marks cfg bc s bp bp' \<Longrightarrow> nextBlocks bp' = nextBlocks bp"
  by (simp add: marks_def)

lemma justified_cong: "blockOf bp' = blockOf bp \<Longrightarrow> justified cfg bc s bp' info = justified cfg bc s bp info"
  by (simp add: justified_def prevBlockOf_def Let_def cong: option.case_cong)

lemma justified_mono: "justified cfg bc False bp info \<Longrightarrow> justified cfg bc s bp info"
  by (auto simp: justified_def split: option.splits)

lemma marks_mono: "marks cfg bc False bp bp' \<Longrightarrow> marks cfg bc s bp bp'"
  unfolding marks_def using justified_mono by metis

lemma marks_trans:
  assumes "marks cfg bc s bp bp1" and "marks cfg bc s bp1 bp2"
  shows "marks cfg bc s bp bp2"
proof -
  have b: "blockOf bp1 = blockOf bp" by (rule marks_blockOf [OF assms(1)])
  have "infoOf bp2 k = infoOf bp k \<or>
      (\<exists>info. infoOf bp k = Some info \<and> justified cfg bc s bp info \<and> infoOf bp2 k = Some (info\<lparr>bi_notarized := True\<rparr>))" for k
  proof -
    from assms(2) consider "infoOf bp2 k = infoOf bp1 k"
      | i where "infoOf bp1 k = Some i" "justified cfg bc s bp1 i" "infoOf bp2 k = Some (i\<lparr>bi_notarized := True\<rparr>)"
      unfolding marks_def by blast
    then show ?thesis
    proof cases
      case 1
      then show ?thesis using assms(1) unfolding marks_def by metis
    next
      case (2 i)
      from assms(1) consider "infoOf bp1 k = infoOf bp k"
        | j where "infoOf bp k = Some j" "justified cfg bc s bp j" "infoOf bp1 k = Some (j\<lparr>bi_notarized := True\<rparr>)"
        unfolding marks_def by blast
      then show ?thesis using 2 justified_cong [OF b, of cfg bc s i] by cases auto
    qed
  qed
  then show ?thesis using assms by (simp add: marks_def)
qed

lemma updateLongest_frame:
  "updateLongestNotarizedChains bc bp = Some bp' \<Longrightarrow> \<exists>ts. bp' = bp\<lparr>bp_longestNotarizedChainTips := ts\<rparr>"
  by (auto simp: updateLongestNotarizedChains_def split: if_splits
      intro: exI [of _ "bp_longestNotarizedChainTips bp"])

lemma tryUpdate_marks:
  assumes "tryUpdateNotarized cfg bc h s bp = Some bp'"
  shows "marks cfg bc s bp bp'"
proof (cases "bp' = bp")
  case True
  then show ?thesis by (simp add: marks_refl)
next
  case False
  then obtain info where i: "infoOf bp h = Some info" "justified cfg bc s bp info" "markNotarized bc h info bp = Some bp'"
    using assms by (auto simp: tryUpdateNotarized_def justified_def split: option.splits if_splits)
  then obtain ts where "bp' = (putInfo h (info\<lparr>bi_notarized := True\<rparr>) bp)\<lparr>bp_longestNotarizedChainTips := ts\<rparr>"
    using updateLongest_frame unfolding markNotarized_def by blast
  then show ?thesis using i by (simp add: marks_def)
qed

lemma fold_tryUpdate_marks:
  assumes "fold_opt (\<lambda>val. tryUpdateNotarized cfg bc (JStr val) False) vs bp = Some bp'"
  shows "marks cfg bc False bp bp'"
  using assms
proof (induction vs arbitrary: bp)
  case Nil
  then show ?case by (simp add: marks_refl)
next
  case (Cons v vs)
  then obtain bp1 where "tryUpdateNotarized cfg bc (JStr v) False bp = Some bp1"
    "fold_opt (\<lambda>val. tryUpdateNotarized cfg bc (JStr val) False) vs bp1 = Some bp'"
    by (auto split: option.splits)
  then show ?case using Cons.IH tryUpdate_marks marks_trans by blast
qed

subsection \<open>Links follow the previous hashes\<close>

text \<open>\<open>parent\<close> gives the previous hash that a hash commits to.\<close>

definition links_ok :: "(string \<Rightarrow> string) \<Rightarrow> 'db block_pool \<Rightarrow> bool" where
  "links_ok parent bp =
     ((\<forall>k b. blockOf bp k = Some b \<longrightarrow> k = JStr (b_hash b) \<and> parent (b_hash b) = b_last_hash b) \<and>
      (\<forall>h v. v \<in> set (nextBlocks bp h) \<longrightarrow> parent v = h))"

lemma links_ok_cong:
  "blockOf bp' = blockOf bp \<Longrightarrow> nextBlocks bp' = nextBlocks bp \<Longrightarrow> links_ok parent bp' = links_ok parent bp"
  by (simp add: links_ok_def)

lemma links_ranked:
  assumes "links_ok parent bp" and "\<And>k b. blockOf bp k = Some b \<Longrightarrow> rank (parent (b_hash b)) < rank (b_hash b)"
  shows "ranked rank bp"
  unfolding ranked_def
proof (intro allI impI)
  fix k b v assume a: "blockOf bp (JStr k) = Some b" "v \<in> set (nextBlocks bp (b_hash b))" "blockOf bp (JStr v) \<noteq> None"
  then obtain c where c: "blockOf bp (JStr v) = Some c" by blast
  then have "v = b_hash c" using assms(1) by (auto simp: links_ok_def)
  moreover have "parent v = k" using a(1,2) assms(1) by (auto simp: links_ok_def)
  ultimately show "rank k < rank v" using assms(2) [OF c] by simp
qed

lemma links_marks: "marks cfg bc s bp bp' \<Longrightarrow> links_ok parent bp' = links_ok parent bp"
  by (rule links_ok_cong) (auto dest: marks_blockOf marks_nextBlocks)

lemma blockOf_put: "blockOf (putInfo h info bp) = (blockOf bp)(h := bi_block info)"
  by (auto simp: blockOf_def fun_eq_iff)

lemma links_put_same:
  "bi_block info = blockOf bp h \<Longrightarrow> links_ok parent (putInfo h info bp) = links_ok parent bp"
  by (rule links_ok_cong) (simp_all add: blockOf_put)

text \<open>The parts of the pool that no search reads.\<close>

lemma other_fields [simp]:
  "infoOf (addToNumberToBlockSet n h bp) = infoOf bp" "nextBlocks (addToNumberToBlockSet n h bp) = nextBlocks bp"
  "infoOf (bp\<lparr>bp_epochToBlock := es\<rparr>) = infoOf bp" "nextBlocks (bp\<lparr>bp_epochToBlock := es\<rparr>) = nextBlocks bp"
  "infoOf (updateHighestSeenBlockNumber m bp) = infoOf bp" "nextBlocks (updateHighestSeenBlockNumber m bp) = nextBlocks bp"
  "infoOf (bp\<lparr>bp_hashToInvalidBlockInfo := is\<rparr>) = infoOf bp" "nextBlocks (bp\<lparr>bp_hashToInvalidBlockInfo := is\<rparr>) = nextBlocks bp"
  "infoOf (bp\<lparr>bp_hashToDb := ds\<rparr>) = infoOf bp" "nextBlocks (bp\<lparr>bp_hashToDb := ds\<rparr>) = nextBlocks bp"
  "infoOf (bp\<lparr>bp_numberToBlockSet := ns\<rparr>) = infoOf bp" "nextBlocks (bp\<lparr>bp_numberToBlockSet := ns\<rparr>) = nextBlocks bp"
  "infoOf (addToNextBlockSet b bp) = infoOf bp"
  by (auto simp: infoOf_def nextBlocks_def addToNumberToBlockSet_def updateHighestSeenBlockNumber_def
      addToNextBlockSet_def Let_def fun_eq_iff)

lemma blockOf_infoOf: "infoOf bp' = infoOf bp \<Longrightarrow> blockOf bp' = blockOf bp"
  by (simp add: blockOf_def fun_eq_iff)

lemma links_same: "infoOf bp' = infoOf bp \<Longrightarrow> nextBlocks bp' = nextBlocks bp \<Longrightarrow> links_ok parent bp' = links_ok parent bp"
  by (metis links_ok_cong blockOf_infoOf)

lemma links_next:
  assumes "links_ok parent bp" and "parent (b_hash b) = b_last_hash b"
  shows "links_ok parent (addToNextBlockSet b bp)"
proof -
  have n: "nextBlocks (addToNextBlockSet b bp) = (nextBlocks bp)(b_last_hash b := set_add (b_hash b) (nextBlocks bp (b_last_hash b)))"
    by (auto simp: nextBlocks_def addToNextBlockSet_def update_conv' fun_eq_iff)
  have "blockOf (addToNextBlockSet b bp) = blockOf bp" by (rule blockOf_infoOf) simp
  then have "\<forall>k c. blockOf (addToNextBlockSet b bp) k = Some c \<longrightarrow> k = JStr (b_hash c) \<and> parent (b_hash c) = b_last_hash c"
    using assms(1) by (simp add: links_ok_def)
  moreover have "parent v = h" if "v \<in> set (nextBlocks (addToNextBlockSet b bp) h)" for h v
  proof (cases "h = b_last_hash b \<and> v = b_hash b")
    case False
    then have "v \<in> set (nextBlocks bp h)" using that by (auto simp: n split: if_splits)
    then show ?thesis using assms(1) by (simp add: links_ok_def)
  qed (simp add: assms(2))
  ultimately show ?thesis unfolding links_ok_def by blast
qed

subsection \<open>Steps\<close>

lemma infoOrNew_facts:
  "bi_block (infoOrNew bp h) = blockOf bp h"
  "bi_notarized (infoOrNew bp h) = (case infoOf bp h of Some i \<Rightarrow> bi_notarized i | None \<Rightarrow> False)"
  by (auto simp: infoOrNew_def blockOf_def emptyInfo_def split: option.splits)

lemma storedInfo_facts:
  "bi_block (storedInfo cfg b p info) = Some (case bi_block info of Some c \<Rightarrow> c | None \<Rightarrow> b)"
  "bi_notarized (storedInfo cfg b p info) = bi_notarized info"
  by (auto simp: storedInfo_def Let_def split: option.splits)

lemma votedInfo_facts [simp]:
  "bi_block (votedInfo cfg v stake info) = bi_block info" "bi_notarized (votedInfo cfg v stake info) = bi_notarized info"
  by (simp_all add: votedInfo_def Let_def)

lemma addToHash_marks:
  assumes "addToHashBlockInfoMap cfg bc b p bp = Some bp'"
  shows "marks cfg bc False (putInfo (JStr (b_hash b)) (storedInfo cfg b p (infoOrNew bp (JStr (b_hash b)))) bp) bp'"
  using assms by (auto simp: addToHashBlockInfoMap_def Let_def marks_refl tryUpdate_marks split: if_splits)

lemma links_stored:
  assumes "links_ok parent bp" and "parent (b_hash b) = b_last_hash b"
  shows "links_ok parent (putInfo (JStr (b_hash b)) (storedInfo cfg b p (infoOrNew bp (JStr (b_hash b)))) bp)"
  using assms by (auto simp: links_ok_def blockOf_put storedInfo_facts infoOrNew_facts split: option.splits)

text \<open>A valid block that is accepted: what is stored, linked and then notarized.\<close>

definition linked :: "chain_config \<Rightarrow> block \<Rightarrow> transaction option \<Rightarrow> 'db block_pool \<Rightarrow> 'db block_pool" where
  "linked cfg b p bp = addToNextBlockSet b (putInfo (JStr (b_hash b)) (storedInfo cfg b p (infoOrNew bp (JStr (b_hash b)))) bp)"

lemma addSeenBlock_valid:
  assumes "addSeenBlock cfg bc b p True s bp = Some (True, bp')"
  shows "marks cfg bc s (linked cfg b p bp) bp'"
proof -
  let ?h = "JStr (b_hash b)"
  let ?n = "\<lambda>q. addToNumberToBlockSet (JNum (of_int (b_number b))) ?h q"
  let ?e = "\<lambda>q. q\<lparr>bp_epochToBlock := AList.update (b_epoch b) (b_hash b) (bp_epochToBlock q)\<rparr>"
  obtain bp1 bp5 bp6 where s: "addToHashBlockInfoMap cfg bc b p bp = Some bp1"
    "tryUpdateNotarized cfg bc ?h s (addToNextBlockSet b (?e (?n bp1))) = Some bp5"
    "fold_opt (\<lambda>val. tryUpdateNotarized cfg bc (JStr val) False) (nextBlocks bp5 (b_hash b)) bp5 = Some bp6"
    "bp' = updateHighestSeenBlockNumber (b_number b) bp6"
    using assms by (auto simp: addSeenBlock_def Let_def split: if_splits option.splits)
  let ?bp0 = "putInfo ?h (storedInfo cfg b p (infoOrNew bp (JStr (b_hash b)))) bp"
  have m1: "marks cfg bc s ?bp0 bp1" by (rule marks_mono [OF addToHash_marks [OF s(1)]])
  let ?bp4 = "addToNextBlockSet b (?e (?n bp1))"
  have nx: "nextBlocks (addToNextBlockSet b q) = (nextBlocks q)(b_last_hash b := set_add (b_hash b) (nextBlocks q (b_last_hash b)))"
    for q :: "'a block_pool"
    by (auto simp: nextBlocks_def addToNextBlockSet_def update_conv' fun_eq_iff)
  have b: "blockOf (addToNextBlockSet b ?bp0) = blockOf ?bp0" by (rule blockOf_infoOf) simp
  have "marks cfg bc s (linked cfg b p bp) ?bp4"
    using m1 unfolding marks_def linked_def nx justified_cong [OF b] by simp
  moreover have "marks cfg bc s ?bp4 bp5" by (rule tryUpdate_marks [OF s(2)])
  moreover have "marks cfg bc s bp5 bp6" by (rule marks_mono [OF fold_tryUpdate_marks [OF s(3)]])
  moreover have "marks cfg bc s bp6 bp'" by (simp add: marks_def s(4))
  ultimately show ?thesis using marks_trans by blast
qed

lemma links_linked:
  "links_ok parent bp \<Longrightarrow> parent (b_hash b) = b_last_hash b \<Longrightarrow> links_ok parent (linked cfg b p bp)"
  unfolding linked_def by (intro links_next links_stored)

lemma addSeenBlock_links:
  assumes "addSeenBlock cfg bc b p v s bp = Some (r, bp')" and "links_ok parent bp" and "parent (b_hash b) = b_last_hash b"
  shows "links_ok parent bp'"
proof (cases "v \<and> r")
  case True
  then have "marks cfg bc s (linked cfg b p bp) bp'" using assms(1) by (auto intro: addSeenBlock_valid)
  then show ?thesis using links_marks links_linked [OF assms(2,3)] by blast
next
  case False
  then have "infoOf bp' = infoOf bp \<and> nextBlocks bp' = nextBlocks bp"
    using assms(1) by (auto simp: addSeenBlock_def addToInvalidBlockInfoMap_def Let_def split: if_splits option.splits)
  then show ?thesis using assms(2) links_same by blast
qed

lemma addVoteFor_shape:
  assumes "addVoteFor cfg bc v h stake bp = Some bp'"
  shows "\<exists>info. bi_block info = blockOf bp h \<and> bi_notarized info = bi_notarized (infoOrNew bp h) \<and>
    marks cfg bc False (putInfo h info bp) bp'"
proof -
  let ?i = "infoOrNew bp h"
  let ?j = "if hasVote v h False bp then ?i\<lparr>bi_votes := Some (votesOf (Some ?i))\<rparr> else votedInfo cfg v stake ?i"
  have "bp' = putInfo h ?j bp \<or> tryUpdateNotarized cfg bc h False (putInfo h ?j bp) = Some bp'"
    using assms by (auto simp: addVoteFor_def Let_def split: if_splits)
  then have "marks cfg bc False (putInfo h ?j bp) bp'" using tryUpdate_marks marks_refl by blast
  moreover have "bi_block ?j = blockOf bp h" "bi_notarized ?j = bi_notarized ?i" by (auto simp: infoOrNew_facts)
  ultimately show ?thesis by blast
qed

lemma addSeenVote_shape:
  assumes "addSeenVote cfg bc v bp = Some bp'"
  shows "(infoOf bp' = infoOf bp \<and> nextBlocks bp' = nextBlocks bp) \<or>
    (\<exists>h info bp1. infoOf bp1 = infoOf bp \<and> nextBlocks bp1 = nextBlocks bp \<and> bi_block info = blockOf bp h \<and>
       bi_notarized info = bi_notarized (infoOrNew bp h) \<and>
       marks cfg bc False (putInfo h info bp1) bp')"
proof -
  let ?h = "getBlockHashFromConsensusTx v"
  let ?bp1 = "addToNumberToBlockSet (getBlockNumberFromConsensusTx v) ?h bp"
  have b: "blockOf ?bp1 = blockOf bp" by (rule blockOf_infoOf) simp
  consider (proposal) "isProposalTx v" "bp' = addProposal v ?h ?bp1"
    | (against) "bp' = addVoteAgainst v ?h ?bp1"
    | (votefor) "addVoteFor cfg bc v ?h (getStakeFromVoteTx v) ?bp1 = Some bp'"
    using assms unfolding addSeenVote_def Let_def by (metis option.inject)
  then show ?thesis
  proof cases
    case proposal
    let ?i = "(infoOrNew bp ?h)\<lparr>bi_proposal := Some v\<rparr>"
    have "infoOrNew ?bp1 ?h = infoOrNew bp ?h" by (simp add: infoOrNew_def)
    then have "bp' = ?bp1 \<or> bp' = putInfo ?h ?i ?bp1" using proposal(2) by (auto simp: addProposal_def Let_def)
    moreover have "bi_block ?i = blockOf bp ?h" "bi_notarized ?i = bi_notarized (infoOrNew bp ?h)"
      by (auto simp: infoOrNew_facts)
    moreover have "infoOf ?bp1 = infoOf bp" "nextBlocks ?bp1 = nextBlocks bp" by simp_all
    ultimately show ?thesis using marks_refl by metis
  next
    case against
    then show ?thesis by (simp add: addVoteAgainst_def Let_def)
  next
    case votefor
    have "infoOf ?bp1 = infoOf bp" "nextBlocks ?bp1 = nextBlocks bp" by simp_all
    moreover from this have "infoOrNew ?bp1 ?h = infoOrNew bp ?h" by (simp add: infoOrNew_def)
    ultimately show ?thesis using addVoteFor_shape [OF votefor] b by metis
  qed
qed

lemma addSeenVote_links:
  assumes "addSeenVote cfg bc v bp = Some bp'" and "links_ok parent bp"
  shows "links_ok parent bp'"
proof -
  from addSeenVote_shape [OF assms(1)] consider
    "infoOf bp' = infoOf bp" "nextBlocks bp' = nextBlocks bp"
    | h info bp1 where "infoOf bp1 = infoOf bp" "nextBlocks bp1 = nextBlocks bp" "bi_block info = blockOf bp h"
        "marks cfg bc False (putInfo h info bp1) bp'"
    by blast
  then show ?thesis
  proof cases
    case 1
    then show ?thesis using assms(2) links_same by blast
  next
    case 2
    then have "blockOf bp1 = blockOf bp" using blockOf_infoOf by blast
    then show ?thesis using 2 assms(2) links_marks links_put_same links_same by metis
  qed
qed

text \<open>Cleaning up only removes.\<close>

definition shrinks :: "'db block_pool \<Rightarrow> 'db block_pool \<Rightarrow> bool" where
  "shrinks bp bp' =
     ((\<forall>k. infoOf bp' k = None \<or> infoOf bp' k = infoOf bp k) \<and>
      (\<forall>h. nextBlocks bp' h = [] \<or> nextBlocks bp' h = nextBlocks bp h))"

lemma shrinks_trans: "shrinks bp bp1 \<Longrightarrow> shrinks bp1 bp2 \<Longrightarrow> shrinks bp bp2"
  unfolding shrinks_def by metis

lemma shrinks_same: "infoOf bp' = infoOf bp \<Longrightarrow> nextBlocks bp' = nextBlocks bp \<Longrightarrow> shrinks bp bp'"
  by (simp add: shrinks_def)

lemma shrinks_links: "shrinks bp bp' \<Longrightarrow> links_ok parent bp \<Longrightarrow> links_ok parent bp'"
  unfolding links_ok_def shrinks_def blockOf_def by (auto split: option.splits) (metis empty_iff empty_set option.distinct(1) option.inject)+

lemma shrinks_foldl:
  assumes "\<And>st x. shrinks (fst st) (fst (f st x))"
  shows "shrinks (fst st) (fst (foldl f st xs))"
proof (induction xs arbitrary: st)
  case Nil
  then show ?case by (simp add: shrinks_same)
next
  case (Cons x xs)
  show ?case using shrinks_trans [OF assms [of st x] Cons.IH [of "f st x"]] by simp
qed

lemma cleanUpForBlockHash_shrinks: "shrinks (fst st) (fst (cleanUpForBlockHash h st))"
  by (cases st)
    (auto simp: cleanUpForBlockHash_def Let_def shrinks_def infoOf_def nextBlocks_def delete_conv' split: option.splits)

lemma cleanUpHashes_shrinks: "shrinks (fst st) (fst (snd (cleanUpHashes n t m rec hs st)))"
proof -
  have "shrinks (fst st) (fst (snd (foldl (\<lambda>(kept, st) h.
        if map_of (bp_hashToInvalidBlockInfo (fst st)) h \<noteq> None then
          if h \<in> set rec \<or> js_lt (JNum n) (js_sub (JNum t) m) then (kept, cleanUpForBlockHash h st) else (kept @ [h], st)
        else (kept, cleanUpForBlockHash h st)) (kept, st) hs)))" for kept st
  proof (induction hs arbitrary: kept st)
    case Nil
    then show ?case by (simp add: shrinks_same)
  next
    case (Cons h hs)
    show ?case using Cons.IH shrinks_trans [OF cleanUpForBlockHash_shrinks [of st h]] by simp
  qed
  then show ?thesis by (simp add: cleanUpHashes_def)
qed

lemma beforeUpdate_shrinks:
  "shrinks bp (fst (let st1 = foldl (\<lambda>st entry. cleanUpNumber (of_int (b_number lb)) m rec entry st) (bp, tp, []) (bp_numberToBlockSet bp)
     in foldl (\<lambda>st entry. cleanUpEpoch (b_epoch lb) entry st) st1 (bp_epochToBlock (fst st1))))"
proof -
  have n: "shrinks (fst st) (fst (cleanUpNumber t m rec e st))" for t e and st :: "'a cleaned"
  proof (cases st)
    case (fields q q1 q2)
    obtain n hs where e: "e = (n, hs)" by (cases e)
    show ?thesis
    proof (cases "to_number n")
      case (JNum x)
      obtain kept bp1 r1 where k: "cleanUpHashes x t m rec hs st = (kept, bp1, r1)" by (cases "cleanUpHashes x t m rec hs st") auto
      have "shrinks (fst st) bp1" using cleanUpHashes_shrinks [of st x t m rec hs] k by simp
      then show ?thesis using JNum k by (auto simp: e cleanUpNumber_def shrinks_def)
    qed (simp_all add: e cleanUpNumber_def shrinks_def)
  qed
  have ep: "shrinks (fst st) (fst (cleanUpEpoch l e st))" for l e and st :: "'a cleaned"
  proof -
    obtain k h where e: "e = (k, h)" by (cases e)
    obtain bp1 r1 where c: "cleanUpForBlockHash (JStr h) st = (bp1, r1)" by (cases "cleanUpForBlockHash (JStr h) st")
    then have "shrinks (fst st) bp1" using cleanUpForBlockHash_shrinks [of st "JStr h"] by simp
    then show ?thesis using c by (auto simp: e cleanUpEpoch_def shrinks_def)
  qed
  define st1 where "st1 = foldl (\<lambda>st entry. cleanUpNumber (of_int (b_number lb)) m rec entry st) (bp, tp, []) (bp_numberToBlockSet bp)"
  define st2 where "st2 = foldl (\<lambda>st entry. cleanUpEpoch (b_epoch lb) entry st) st1 (bp_epochToBlock (fst st1))"
  have 1: "shrinks bp (fst st1)" using shrinks_foldl [of "\<lambda>st entry. cleanUpNumber (of_int (b_number lb)) m rec entry st", OF n, of "(bp, tp, [])"]
    by (simp add: st1_def)
  have 2: "shrinks (fst st1) (fst st2)" unfolding st2_def by (rule shrinks_foldl [OF ep])
  show ?thesis using shrinks_trans [OF 1 2] by (simp add: st1_def st2_def Let_def)
qed

lemma cleanUp_shrinks:
  assumes "cleanUpAfterFinalization bc m lb rec bp tp = Some (bp', rest)"
  shows "shrinks bp bp'"
proof -
  define st2 where "st2 = (let st1 = foldl (\<lambda>st entry. cleanUpNumber (of_int (b_number lb)) m rec entry st) (bp, tp, []) (bp_numberToBlockSet bp)
    in foldl (\<lambda>st entry. cleanUpEpoch (b_epoch lb) entry st) st1 (bp_epochToBlock (fst st1)))"
  obtain bp2 r2 where st2: "st2 = (bp2, r2)" by (cases st2)
  then obtain bp3 where bp3: "updateLongestNotarizedChains bc bp2 = Some bp3" "bp' = bp3"
    using assms by (auto simp: cleanUpAfterFinalization_def st2_def Let_def)
  have "shrinks bp bp2" using beforeUpdate_shrinks [of bp lb m rec tp] st2 by (simp add: st2_def Let_def)
  moreover have "shrinks bp2 bp'" using updateLongest_frame [OF bp3(1)] bp3(2) by (auto simp: shrinks_def)
  ultimately show ?thesis by (rule shrinks_trans)
qed

subsection \<open>Reachable pools\<close>

text \<open>What the node does with the pool; the chain may have grown between two steps.\<close>

inductive pool_step :: "(string \<Rightarrow> string) \<Rightarrow> chain_config \<Rightarrow> blockchain \<Rightarrow> 'db block_pool \<Rightarrow> 'db block_pool \<Rightarrow> bool"
  for parent :: "string \<Rightarrow> string" and cfg :: chain_config and bc :: blockchain where
  seen_block: "addSeenBlock cfg bc b p v s bp = Some (r, bp') \<Longrightarrow> parent (b_hash b) = b_last_hash b \<Longrightarrow>
    pool_step parent cfg bc bp bp'"
| seen_vote: "addSeenVote cfg bc v bp = Some bp' \<Longrightarrow> pool_step parent cfg bc bp bp'"
| keep_db: "pool_step parent cfg bc bp (addToHashToDbMap h db bp)"
| finalized: "cleanUpAfterFinalization bc m lb rec bp tp = Some (bp', rest) \<Longrightarrow> pool_step parent cfg bc bp bp'"

inductive pool_reachable :: "(string \<Rightarrow> string) \<Rightarrow> chain_config \<Rightarrow> 'db block_pool \<Rightarrow> bool"
  for parent :: "string \<Rightarrow> string" and cfg :: chain_config where
  start: "pool_reachable parent cfg (newBlockPool bc)"
| move: "pool_reachable parent cfg bp \<Longrightarrow> pool_step parent cfg bc bp bp' \<Longrightarrow> pool_reachable parent cfg bp'"

inductive_cases pool_stepE: "pool_step parent cfg bc bp bp'"

lemma step_links: "pool_step parent cfg bc bp bp' \<Longrightarrow> links_ok parent bp \<Longrightarrow> links_ok parent bp'"
proof (induction rule: pool_step.induct)
  case (keep_db bp h db)
  then show ?case by (simp add: addToHashToDbMap_def links_ok_def blockOf_def)
qed (blast intro: addSeenBlock_links addSeenVote_links shrinks_links [OF cleanUp_shrinks])+

lemma reachable_links: "pool_reachable parent cfg bp \<Longrightarrow> links_ok parent bp"
proof (induction rule: pool_reachable.induct)
  case (start bc)
  then show ?case by (simp add: newBlockPool_def links_ok_def blockOf_def infoOf_def nextBlocks_def)
next
  case (move bp bc bp')
  then show ?case using step_links by blast
qed

subsection \<open>No call loops\<close>

definition ancestry :: "(string \<Rightarrow> string) \<Rightarrow> (string \<Rightarrow> nat) \<Rightarrow> (jsval \<Rightarrow> block option) \<Rightarrow> bool" where
  "ancestry parent rank blocks = (\<forall>k b. blocks k = Some b \<longrightarrow> rank (parent (b_hash b)) < rank (b_hash b))"

lemma updateLongest_returns:
  assumes "links_ok parent bp" and "ancestry parent rank (blockOf bp)"
  shows "updateLongestNotarizedChains bc bp \<noteq> None"
proof -
  have "ranked rank bp" using links_ranked [OF assms(1)] assms(2) by (simp add: ancestry_def)
  from dfsLongest_fold [OF search_enough [OF this]] show ?thesis
    by (simp add: updateLongestNotarizedChains_def getLongestNotarizedChainList_def)
qed

lemma tryUpdate_returns:
  assumes "links_ok parent bp" and "ancestry parent rank (blockOf bp)"
  shows "tryUpdateNotarized cfg bc h s bp \<noteq> None"
proof -
  have "markNotarized bc h info bp \<noteq> None" if "infoOf bp h = Some info" for info
  proof -
    let ?bp = "putInfo h (info\<lparr>bi_notarized := True\<rparr>) bp"
    have "blockOf ?bp = blockOf bp" using that by (simp add: blockOf_put fun_eq_iff) (simp add: blockOf_def)
    then show ?thesis unfolding markNotarized_def
      using updateLongest_returns [of parent ?bp rank bc] links_put_same [of "info\<lparr>bi_notarized := True\<rparr>" bp h parent] assms that
      by (simp add: blockOf_def)
  qed
  then show ?thesis by (auto simp: tryUpdateNotarized_def split: option.splits)
qed

lemma marks_ancestry: "marks cfg bc s bp bp' \<Longrightarrow> ancestry parent rank (blockOf bp) \<Longrightarrow> ancestry parent rank (blockOf bp')"
  using marks_blockOf by metis

lemma fold_tryUpdate_returns:
  assumes "links_ok parent bp" and "ancestry parent rank (blockOf bp)"
  shows "fold_opt (\<lambda>val. tryUpdateNotarized cfg bc (JStr val) False) vs bp \<noteq> None"
  using assms
proof (induction vs arbitrary: bp)
  case Nil
  then show ?case by simp
next
  case (Cons v vs)
  obtain bp1 where bp1: "tryUpdateNotarized cfg bc (JStr v) False bp = Some bp1"
    using tryUpdate_returns [OF Cons.prems] by blast
  note m = tryUpdate_marks [OF bp1]
  show ?case using bp1 Cons.IH [of bp1] links_marks [OF m] marks_ancestry [OF m] Cons.prems by simp
qed

lemma addSeenBlock_returns:
  assumes "links_ok parent bp" and "ancestry parent rank (blockOf bp)" and "parent (b_hash b) = b_last_hash b"
    and "rank (b_last_hash b) < rank (b_hash b)"
  shows "addSeenBlock cfg bc b p v s bp \<noteq> None"
proof -
  let ?h = "JStr (b_hash b)"
  let ?bp0 = "putInfo ?h (storedInfo cfg b p (infoOrNew bp ?h)) bp"
  have anc: "ancestry parent rank (blockOf ?bp0)"
    using assms(2-4) by (auto simp: ancestry_def blockOf_put storedInfo_facts infoOrNew_facts split: option.splits)
  have l0: "links_ok parent ?bp0" by (rule links_stored [OF assms(1,3)])
  have "addToHashBlockInfoMap cfg bc b p bp \<noteq> None"
    using tryUpdate_returns [OF l0 anc] by (simp add: addToHashBlockInfoMap_def Let_def)
  moreover have "(case tryUpdateNotarized cfg bc ?h s (addToNextBlockSet b
        ((addToNumberToBlockSet (JNum (of_int (b_number b))) ?h bp1)\<lparr>bp_epochToBlock := es\<rparr>)) of
      None \<Rightarrow> None
    | Some bp5 \<Rightarrow> map_option (\<lambda>bp6. (True, updateHighestSeenBlockNumber (b_number b) bp6))
        (fold_opt (\<lambda>val. tryUpdateNotarized cfg bc (JStr val) False) (nextBlocks bp5 (b_hash b)) bp5)) \<noteq> None"
    if "addToHashBlockInfoMap cfg bc b p bp = Some bp1" for bp1 es
  proof -
    let ?q = "(addToNumberToBlockSet (JNum (of_int (b_number b))) ?h bp1)\<lparr>bp_epochToBlock := es\<rparr>"
    note m = addToHash_marks [OF that]
    have l1: "links_ok parent bp1" "ancestry parent rank (blockOf bp1)"
      using links_marks [OF m] l0 marks_ancestry [OF m anc] by auto
    have "links_ok parent ?q" using l1(1) by (simp add: links_ok_def blockOf_def)
    then have l4: "links_ok parent (addToNextBlockSet b ?q)" by (rule links_next) (rule assms(3))
    have a4: "ancestry parent rank (blockOf (addToNextBlockSet b ?q))" using l1(2) by (simp add: ancestry_def blockOf_def)
    obtain bp5 where bp5: "tryUpdateNotarized cfg bc ?h s (addToNextBlockSet b ?q) = Some bp5"
      using tryUpdate_returns [OF l4 a4] by blast
    note m5 = tryUpdate_marks [OF bp5]
    show ?thesis using bp5 fold_tryUpdate_returns [of parent bp5 rank] links_marks [OF m5] l4 marks_ancestry [OF m5 a4] by auto
  qed
  ultimately show ?thesis by (auto simp: addSeenBlock_def Let_def)
qed

lemma addSeenVote_returns:
  assumes "links_ok parent bp" and "ancestry parent rank (blockOf bp)"
  shows "addSeenVote cfg bc v bp \<noteq> None"
proof -
  let ?h = "getBlockHashFromConsensusTx v"
  let ?bp1 = "addToNumberToBlockSet (getBlockNumberFromConsensusTx v) ?h bp"
  have "tryUpdateNotarized cfg bc ?h False (putInfo ?h info ?bp1) \<noteq> None" if "bi_block info = blockOf ?bp1 ?h" for info
  proof (rule tryUpdate_returns)
    have b: "blockOf ?bp1 = blockOf bp" by (rule blockOf_infoOf) simp
    have "links_ok parent ?bp1" using assms(1) by (simp add: links_ok_def b)
    then show "links_ok parent (putInfo ?h info ?bp1)" using links_put_same [OF that] by simp
    have "blockOf (putInfo ?h info ?bp1) = blockOf ?bp1" using that by (simp add: blockOf_put)
    then show "ancestry parent rank (blockOf (putInfo ?h info ?bp1))" using assms(2) b by simp
  qed
  then have "addVoteFor cfg bc v ?h s ?bp1 \<noteq> None" for s
    by (simp add: addVoteFor_def Let_def infoOrNew_facts)
  then show ?thesis by (simp add: addSeenVote_def Let_def)
qed

lemma shrinks_ancestry:
  "shrinks bp bp' \<Longrightarrow> ancestry parent rank (blockOf bp) \<Longrightarrow> ancestry parent rank (blockOf bp')"
proof -
  assume s: "shrinks bp bp'" and a: "ancestry parent rank (blockOf bp)"
  have "blockOf bp' k = None \<or> blockOf bp' k = blockOf bp k" for k
    using s by (auto simp: shrinks_def blockOf_def) (metis option.case_eq_if)
  then show ?thesis using a unfolding ancestry_def by (metis option.distinct(1))
qed

lemma cleanUp_returns:
  assumes "links_ok parent bp" and "ancestry parent rank (blockOf bp)"
  shows "cleanUpAfterFinalization bc m lb rec bp tp \<noteq> None"
proof -
  define st2 where "st2 = (let st1 = foldl (\<lambda>st entry. cleanUpNumber (of_int (b_number lb)) m rec entry st) (bp, tp, []) (bp_numberToBlockSet bp)
    in foldl (\<lambda>st entry. cleanUpEpoch (b_epoch lb) entry st) st1 (bp_epochToBlock (fst st1)))"
  obtain bp2 r2 where st2: "st2 = (bp2, r2)" by (cases st2)
  have s: "shrinks bp bp2" using beforeUpdate_shrinks [of bp lb m rec tp] st2 by (simp add: st2_def Let_def)
  have "updateLongestNotarizedChains bc bp2 \<noteq> None"
    by (rule updateLongest_returns [OF shrinks_links [OF s assms(1)] shrinks_ancestry [OF s assms(2)]])
  then show ?thesis using st2 by (simp add: cleanUpAfterFinalization_def st2_def Let_def)
qed

text \<open>
  C27. The block pool never loops. In every pool that the node can reach, whose hashes commit to the
  previous hash and where no block is its own ancestor, seeing a block or a vote and cleaning up after a
  finalization return; the searches do not run out of the fuel of one unit per block info and two more.
\<close>

theorem pool_calls_return:
  assumes "pool_reachable parent cfg bp" and "ancestry parent rank (blockOf bp)"
    and "parent (b_hash b) = b_last_hash b" and "rank (b_last_hash b) < rank (b_hash b)"
  shows "addSeenBlock cfg bc b p v s bp \<noteq> None \<and> addSeenVote cfg bc vote bp \<noteq> None \<and>
    cleanUpAfterFinalization bc m lb rec bp tp \<noteq> None"
proof -
  have l: "links_ok parent bp" by (rule reachable_links [OF assms(1)])
  show ?thesis using addSeenBlock_returns [OF l assms(2,3,4)] addSeenVote_returns [OF l assms(2)] cleanUp_returns [OF l assms(2)]
    by blast
qed

subsection \<open>Notarized only with a majority\<close>

definition newly_notarized :: "'db block_pool \<Rightarrow> 'db block_pool \<Rightarrow> jsval \<Rightarrow> block_info \<Rightarrow> bool" where
  "newly_notarized bp bp' k info =
     (infoOf bp' k = Some info \<and> bi_notarized info \<and> (case infoOf bp k of Some i \<Rightarrow> \<not> bi_notarized i | None \<Rightarrow> True))"

lemma marks_newly:
  assumes "marks cfg bc s bp bp'" and "newly_notarized bp bp' k info"
  shows "justified cfg bc s bp' info"
proof -
  have "infoOf bp' k \<noteq> infoOf bp k" using assms(2) by (auto simp: newly_notarized_def split: option.splits)
  then obtain i where i: "infoOf bp k = Some i" "justified cfg bc s bp i" "infoOf bp' k = Some (i\<lparr>bi_notarized := True\<rparr>)"
    using assms(1) unfolding marks_def by metis
  then have "info = i\<lparr>bi_notarized := True\<rparr>" using assms(2) by (simp add: newly_notarized_def)
  moreover have "justified cfg bc s bp' (i\<lparr>bi_notarized := True\<rparr>) = justified cfg bc s bp i"
    using marks_blockOf [OF assms(1)] by (simp add: justified_def prevBlockOf_def Let_def cong: option.case_cong)
  ultimately show ?thesis using i(2) by simp
qed


end
