(* ===== verification/ChainProps.thy ===== *)
theory ChainProps
  imports Chain
begin

text \<open>
  What the finalized chain promises: files of different blocks do not collide, every block that was
  added is found by number and by hash from memory or disk, and a node that synchronises with a peer
  extends its chain by the next blocks of the peer.
\<close>


subsection \<open>File names\<close>

lemma num_string_nat: "0 \<le> n \<Longrightarrow> num_string dstr (of_int n) = nat_string (nat n)"
  by (simp add: num_string_def)

lemma after_last: "c \<notin> set b \<Longrightarrow> takeWhile (\<lambda>x. x \<noteq> c) (rev (a @ c # b)) = rev b"
proof -
  assume "c \<notin> set b"
  then have "takeWhile (\<lambda>x. x \<noteq> c) (rev b @ c # rev a) = rev b"
    by (subst takeWhile_append2) auto
  then show ?thesis by simp
qed

lemma getBlockPath_inj:
  assumes "0 \<le> m" and "0 \<le> n" and "getBlockPath cfg p (of_int m) = getBlockPath cfg p (of_int n)"
  shows "m = n"
proof -
  let ?d = "getBlockDirPath cfg p"
  have free: "CHR ''/'' \<notin> set (nat_string k @ ''.json.gz'')" for k
    using nat_string_digits(1) [of k] by (auto simp: list_all_iff is_digit_def)
  have "?d (of_int m) @ CHR ''/'' # (nat_string (nat m) @ ''.json.gz'') =
        ?d (of_int n) @ CHR ''/'' # (nat_string (nat n) @ ''.json.gz'')"
    using assms by (simp add: getBlockPath_def path_join_def getBlockFilenameByNumber_def num_string_nat)
  then have "nat_string (nat m) @ ''.json.gz'' = nat_string (nat n) @ ''.json.gz''"
    using free by (metis after_last rev_is_rev_conv)
  then have "nat m = nat n" using nat_string_inj by simp
  then show ?thesis using assms by simp
qed

lemma getH2nPath_inj:
  assumes "getH2nPath cfg p h = getH2nPath cfg p g"
  shows "h = g"
proof -
  let ?k = "cc_CHAINS_H2N_HASH_PREFIX_LENGTH cfg"
  have e: "take ?k h @ CHR ''/'' # h = take ?k g @ CHR ''/'' # g"
    using assms by (simp add: getH2nPath_def getH2nDirPath_def path_join_def Let_def)
  then have "min (length h) ?k + length h = min (length g) ?k + length g"
    by (metis add_Suc_right length_Cons length_append length_take min.commute nat.inject)
  then have "length h = length g" by linarith
  with e show ?thesis by (metis append_eq_append_conv length_Cons list.inject length_take)
qed

lemma block_path_not_h2n:
  assumes "0 \<le> n"
  shows "getBlockPath cfg p (of_int n) \<noteq> Some (getH2nPath cfg p h)"
  using assms by (auto simp: getBlockPath_def getBlockDirPath_def getH2nPath_def getH2nDirPath_def path_join_def Let_def)


subsection \<open>The finalized chain is what was added\<close>

abbreviation cc_K :: "chain_config \<Rightarrow> nat" where
  "cc_K \<equiv> cc_ON_MEMORY_CHAIN_LENGTH"

definition canonical :: "chain_config \<Rightarrow> block \<Rightarrow> bool" where
  "canonical cfg b = (parseBlock (cc_block_env cfg) b = b \<and> b_hash b \<noteq> [] \<and> 0 \<le> b_number b)"

definition stored :: "chain_config \<Rightarrow> blockchain \<Rightarrow> block \<Rightarrow> bool" where
  "stored cfg bc b = (canonical cfg b \<and>
     readBlockByNumber cfg (bc_files bc) (bc_path bc) (of_int (b_number b)) = Some b \<and>
     map_of (bc_files bc) (getH2nPath cfg (bc_path bc) (b_hash b)) = Some (TextFile (nat_string (nat (b_number b)))))"

text \<open>\<open>hist\<close> is every block added so far; the first has number \<open>s\<close>.\<close>

definition chain_of :: "chain_config \<Rightarrow> int \<Rightarrow> block list \<Rightarrow> blockchain \<Rightarrow> bool" where
  "chain_of cfg s hist bc =
     (0 \<le> s \<and> (hist = [] \<longrightarrow> s = 0) \<and> (\<forall>i<length hist. b_number (hist ! i) = s + int i) \<and>
      bc_chain bc = drop (length hist - cc_K cfg) hist \<and> distinct (map b_hash hist) \<and>
      (\<forall>b\<in>set hist. stored cfg bc b) \<and>
      (s = 0 \<longrightarrow> hist \<noteq> [] \<longrightarrow> hd hist = bc_genesisBlock bc))"

lemma chain_of_last:
  assumes "chain_of cfg s hist bc" and "0 < cc_K cfg"
  shows "lastBlockNumber bc + 1 = s + int (length hist)"
proof (cases "hist = []")
  case True
  then show ?thesis using assms by (simp add: chain_of_def lastBlockNumber_def lastBlock_def)
next
  case False
  then have lt: "length hist - cc_K cfg < length hist" using assms(2) by simp
  have e: "bc_chain bc = drop (length hist - cc_K cfg) hist" using assms(1) by (simp add: chain_of_def)
  then have "bc_chain bc \<noteq> []" "last (bc_chain bc) = hist ! (length hist - 1)"
    using lt False by (simp_all add: last_drop last_conv_nth)
  then show ?thesis using assms False by (auto simp: chain_of_def lastBlockNumber_def lastBlock_def)
qed

lemma readBlock_path:
  "0 \<le> n \<Longrightarrow> readBlockByNumber cfg fs p (of_int n) = readCompressedJsonSync fs (getBlockPath cfg p (of_int n))"
  by (simp add: readBlockByNumber_def)

lemma stored_write:
  assumes "writeBlock cfg b bc = Some bc'" and "canonical cfg b"
    and "\<not> hasH2nFile cfg (bc_path bc) (b_hash b) (bc_files bc)"
  shows "stored cfg bc' b"
    and "stored cfg bc c \<Longrightarrow> b_number c \<noteq> b_number b \<Longrightarrow> b_hash c \<noteq> b_hash b \<Longrightarrow> stored cfg bc' c"
proof -
  let ?p = "bc_path bc"
  have n: "0 \<le> b_number b" using assms(2) by (simp add: canonical_def)
  then obtain pb where pb: "getBlockPath cfg ?p (of_int (b_number b)) = Some pb"
    by (simp add: getBlockPath_def)
  have h: "getH2nPath cfg ?p h \<noteq> pb" for h using block_path_not_h2n [OF n] pb by (metis option.inject)
  have files: "bc_files bc' = AList.update (getH2nPath cfg ?p (b_hash b)) (TextFile (nat_string (nat (b_number b))))
      (AList.update pb (BlockFile b) (bc_files bc))" and p': "bc_path bc' = ?p"
    using assms h n pb
    by (auto simp: writeBlock_def writeBlockFile_def writeH2nFile_def canonical_def fileExists_def Let_def
        update_conv' num_string_nat hasH2nFile_def split: if_splits)
  show "stored cfg bc' b"
    using assms(2) pb h [of "b_hash b"]
    by (simp add: stored_def readBlockByNumber_def readCompressedJsonSync_def files p' update_conv')
  assume c: "stored cfg bc c" "b_number c \<noteq> b_number b" "b_hash c \<noteq> b_hash b"
  then have nc: "0 \<le> b_number c" by (simp add: stored_def canonical_def)
  then obtain pc where pc: "getBlockPath cfg ?p (of_int (b_number c)) = Some pc" by (simp add: getBlockPath_def)
  have "pc \<noteq> pb" using getBlockPath_inj [OF nc n] pb pc c(2) by metis
  moreover have "getH2nPath cfg ?p h \<noteq> pc" for h using block_path_not_h2n [OF nc] pc by (metis option.inject)
  moreover have "getH2nPath cfg ?p (b_hash c) \<noteq> getH2nPath cfg ?p (b_hash b)" using getH2nPath_inj c(3) by metis
  ultimately show "stored cfg bc' c"
    using c(1) pc h [of "b_hash c"]
    by (auto simp: stored_def readBlockByNumber_def readCompressedJsonSync_def files p' update_conv')
qed


lemma drop_again:
  assumes "0 < k"
  shows "(let c = drop (length hist - k) hist @ [b] in drop (length c - k) c) =
    drop (length (hist @ [b]) - k) (hist @ [b])"
proof (cases "length hist < k")
  case True
  then show ?thesis by simp
next
  case False
  then have "length (drop (length hist - k) hist @ [b]) - k = 1" by simp
  then show ?thesis using False assms by (simp add: Let_def Suc_diff_le)
qed

lemma chain_of_step:
  assumes "chain_of cfg s hist bc" and "0 < cc_K cfg" and "canonical cfg b"
    and "b_number b = s + int (length hist)" and "b_hash b \<notin> b_hash ` set hist"
    and "\<not> hasH2nFile cfg (bc_path bc) (b_hash b) (bc_files bc)"
    and "s = 0 \<Longrightarrow> hist = [] \<Longrightarrow> b = bc_genesisBlock bc"
  shows "\<exists>bc'. addBlockToChainAndWriteToDisk cfg now True b True bc = Some (True, bc') \<and>
    chain_of cfg s (hist @ [b]) bc' \<and> bc_path bc' = bc_path bc \<and> bc_genesisBlock bc' = bc_genesisBlock bc \<and>
    (\<forall>h. h \<noteq> b_hash b \<longrightarrow> hasH2nFile cfg (bc_path bc') h (bc_files bc') = hasH2nFile cfg (bc_path bc) h (bc_files bc))"
proof -
  have last: "b_number b = lastBlockNumber bc + 1" using chain_of_last [OF assms(1,2)] assms(4) by simp
  define bc1 where "bc1 = updateNumberToBlockInfo cfg now b (addBlockToChain cfg b bc)"
  have bc1: "bc_path bc1 = bc_path bc" "bc_files bc1 = bc_files bc" "bc_genesisBlock bc1 = bc_genesisBlock bc"
    "bc_chain bc1 = drop (length (hist @ [b]) - cc_K cfg) (hist @ [b])"
    using assms(1) drop_again [OF assms(2), of hist b, unfolded Let_def]
    by (auto simp: bc1_def updateNumberToBlockInfo_def addBlockToChain_def Let_def chain_of_def)
  have n: "0 \<le> b_number b" using assms(3) by (simp add: canonical_def)
  then obtain bc' where w: "writeBlock cfg b bc1 = Some bc'"
    by (simp add: writeBlock_def writeBlockFile_def getBlockPath_def)
  then have bc': "bc_path bc' = bc_path bc" "bc_genesisBlock bc' = bc_genesisBlock bc"
    "bc_chain bc' = bc_chain bc1"
    using bc1 by (auto simp: writeBlock_def split: option.splits)
  have st: "stored cfg bc' b" "\<And>c. c \<in> set hist \<Longrightarrow> stored cfg bc' c"
  proof -
    have "\<not> hasH2nFile cfg (bc_path bc1) (b_hash b) (bc_files bc1)" using assms(6) bc1 by simp
    note sw = stored_write [OF w assms(3) this]
    show "stored cfg bc' b" by (rule sw(1))
    fix c assume c: "c \<in> set hist"
    have "stored cfg bc1 c" using assms(1) c bc1 by (simp add: chain_of_def stored_def)
    moreover have "b_number c \<noteq> b_number b"
      using assms(1,4) c by (auto simp: chain_of_def in_set_conv_nth)
    moreover have "b_hash c \<noteq> b_hash b" using assms(5) imageI [OF c, of b_hash] by metis
    ultimately show "stored cfg bc' c" by (rule sw(2))
  qed
  have "chain_of cfg s (hist @ [b]) bc'"
    using assms(1,4,5,7) st bc1 bc'
    by (auto simp: chain_of_def nth_append hd_append)
  moreover have "hasH2nFile cfg (bc_path bc') h (bc_files bc') = hasH2nFile cfg (bc_path bc) h (bc_files bc)"
    if "h \<noteq> b_hash b" for h
    using w that n getH2nPath_inj [of cfg "bc_path bc" h "b_hash b"] block_path_not_h2n [OF n, of cfg "bc_path bc" h] bc1
    by (auto simp: writeBlock_def writeBlockFile_def writeH2nFile_def Let_def hasH2nFile_def fileExists_def
        update_conv' split: option.splits if_splits)
  ultimately show ?thesis using last w bc'
    by (auto simp: addBlockToChainAndWriteToDisk_def Let_def bc1_def [symmetric])
qed

lemma find_by_number:
  assumes "\<And>i. i < length xs \<Longrightarrow> b_number (xs ! i) = s + int i" and "i < length xs"
  shows "find (\<lambda>b. b_number b = s + int i) xs = Some (xs ! i)"
  using assms by (auto simp: find_Some_iff)

lemma chain_of_lookup:
  assumes "chain_of cfg s hist bc" and "0 < cc_K cfg" and "i < length hist"
  shows "getBlockByNumber cfg bc (JNum (of_int (s + int i))) = Some (hist ! i)"
    and "getBlockByHash cfg bc (b_hash (hist ! i)) = Some (hist ! i)"
proof -
  let ?b = "hist ! i" and ?d = "length hist - cc_K cfg"
  have st: "stored cfg bc ?b" and num: "b_number ?b = s + int i" and s0: "0 \<le> s"
    using assms(1,3) by (auto simp: chain_of_def)
  have rd: "map_option (parseBlock (cc_block_env cfg))
      (readCompressedJsonSync (bc_files bc) (getBlockPath cfg (bc_path bc) (of_int (b_number ?b)))) = Some ?b"
    using st by (simp add: stored_def canonical_def readBlockByNumber_def)
  have rd': "readH2nFile cfg (bc_path bc) (b_hash ?b) (bc_files bc) = JNum (of_int (b_number ?b))"
    using st s0 num by (simp add: stored_def readH2nFile_def string_number_nat_string)
  show "getBlockByHash cfg bc (b_hash ?b) = Some ?b"
    using rd rd' st by (auto simp: getBlockByHash_def stored_def canonical_def getBlockPath_def)
  have lastn: "lastBlockNumber bc + 1 = s + int (length hist)" by (rule chain_of_last [OF assms(1,2)])
  have mem: "find (\<lambda>b. rat_of_int (b_number b) = of_int (s + int i)) (bc_chain bc) = Some ?b"
    if "?d \<le> i"
  proof -
    have c: "bc_chain bc = drop ?d hist" using assms(1) by (simp add: chain_of_def)
    have "find (\<lambda>b. b_number b = s + int ?d + int (i - ?d)) (bc_chain bc) = Some (bc_chain bc ! (i - ?d))"
      using assms that c by (intro find_by_number) (auto simp: chain_of_def)
    moreover have "bc_chain bc ! (i - ?d) = ?b" using that assms(3) c by simp
    ultimately show ?thesis using that of_int_eq_iff [where 'a=rat, of _ "s + int i"] by simp
  qed
  show "getBlockByNumber cfg bc (JNum (of_int (s + int i))) = Some ?b"
  proof (cases "s + int i = 0")
    case True
    then have "i = 0" "s = 0" using s0 by linarith+
    then have "?b = bc_genesisBlock bc" using assms(1,3) by (auto simp: chain_of_def hd_conv_nth)
    then show ?thesis using True by (simp add: getBlockByNumber_def)
  next
    case False
    have nn: "getBlockPath cfg (bc_path bc) (of_int (s + int i)) \<noteq> None"
      using s0 by (simp add: getBlockPath_def del: of_int_add)
    show ?thesis
    proof (cases "?d \<le> i")
      case True
      have "of_int (lastBlockNumber bc - int (cc_K cfg)) < rat_of_int (s + int i)"
        unfolding of_int_less_iff using True lastn by linarith
      then show ?thesis using mem [OF True] False nn
        by (simp add: getBlockByNumber_def Let_def del: of_int_add of_int_diff)
    next
      case f: False
      have "\<not> of_int (lastBlockNumber bc - int (cc_K cfg)) < rat_of_int (s + int i)"
        unfolding of_int_less_iff using f lastn by linarith
      then show ?thesis using rd num False nn
        by (auto simp: getBlockByNumber_def Let_def simp del: of_int_add of_int_diff)
    qed
  qed
qed


text \<open>Adding blocks one after the other; \<^const>\<open>None\<close> when one is refused or cannot be written.\<close>

fun addBlocks :: "chain_config \<Rightarrow> rat \<Rightarrow> block list \<Rightarrow> blockchain \<Rightarrow> blockchain option" where
  "addBlocks cfg now [] bc = Some bc"
| "addBlocks cfg now (b # bs) bc =
     (case addBlockToChainAndWriteToDisk cfg now True b True bc of
        Some (True, bc') \<Rightarrow> addBlocks cfg now bs bc'
      | _ \<Rightarrow> None)"

lemma addBlocks_chain:
  assumes "chain_of cfg s hist bc" and "0 < cc_K cfg" and "list_all (canonical cfg) bs"
    and "\<forall>i<length bs. b_number (bs ! i) = s + int (length hist + i)"
    and "distinct (map b_hash (hist @ bs))"
    and "\<forall>b\<in>set bs. \<not> hasH2nFile cfg (bc_path bc) (b_hash b) (bc_files bc)"
    and "s = 0 \<Longrightarrow> hist = [] \<Longrightarrow> bs \<noteq> [] \<Longrightarrow> hd bs = bc_genesisBlock bc"
  shows "\<exists>bc'. addBlocks cfg now bs bc = Some bc' \<and> chain_of cfg s (hist @ bs) bc'"
  using assms
proof (induction bs arbitrary: hist bc)
  case Nil
  then show ?case by simp
next
  case (Cons b bs)
  have b: "canonical cfg b" "b_number b = s + int (length hist)" "b_hash b \<notin> b_hash ` set hist"
    "\<not> hasH2nFile cfg (bc_path bc) (b_hash b) (bc_files bc)" "s = 0 \<Longrightarrow> hist = [] \<Longrightarrow> b = bc_genesisBlock bc"
    using Cons.prems by (auto dest: spec [of _ "0::nat"])
  obtain bc1 where bc1: "addBlockToChainAndWriteToDisk cfg now True b True bc = Some (True, bc1)"
    "chain_of cfg s (hist @ [b]) bc1" "bc_path bc1 = bc_path bc"
    "\<forall>h. h \<noteq> b_hash b \<longrightarrow> hasH2nFile cfg (bc_path bc1) h (bc_files bc1) = hasH2nFile cfg (bc_path bc) h (bc_files bc)"
    using chain_of_step [OF Cons.prems(1,2) b] by metis
  have "\<forall>i<length bs. b_number (bs ! i) = s + int (length (hist @ [b]) + i)"
  proof (intro allI impI)
    fix i assume "i < length bs"
    then have "Suc i < length (b # bs)" by simp
    with Cons.prems(4) have "b_number ((b # bs) ! Suc i) = s + int (length hist + Suc i)" by blast
    then show "b_number (bs ! i) = s + int (length (hist @ [b]) + i)" by simp
  qed
  moreover have "\<forall>c\<in>set bs. \<not> hasH2nFile cfg (bc_path bc1) (b_hash c) (bc_files bc1)"
  proof
    fix c assume c: "c \<in> set bs"
    have "b_hash b \<notin> b_hash ` set bs" using Cons.prems(5) by simp
    then have "b_hash c \<noteq> b_hash b" using imageI [OF c, of b_hash] by metis
    then show "\<not> hasH2nFile cfg (bc_path bc1) (b_hash c) (bc_files bc1)" using bc1(3,4) Cons.prems(6) c by simp
  qed
  ultimately show ?case
    using Cons.IH [OF bc1(2) Cons.prems(2)] Cons.prems(3,5) bc1(1) by simp
qed

text \<open>
  C23. The finalized chain holds what was added. From an empty chain, blocks numbered from zero with
  distinct hashes are all accepted; afterwards every one of them is found by its number and by its
  hash, whether it is still in memory or only on disk, the last number is theirs, and at most
  \<open>ON_MEMORY_CHAIN_LENGTH\<close> blocks are in memory.
\<close>

theorem finalized_blocks_are_found:
  assumes "0 < cc_K cfg" and "bc_chain bc = []" and "bc_files bc = []"
    and "list_all (canonical cfg) bs" and "map b_number bs = map int [0..<length bs]"
    and "distinct (map b_hash bs)" and "bs \<noteq> [] \<longrightarrow> hd bs = bc_genesisBlock bc"
  shows "\<exists>bc'. addBlocks cfg now bs bc = Some bc' \<and> lastBlockNumber bc' = int (length bs) - 1 \<and>
    length (bc_chain bc') \<le> cc_K cfg \<and>
    (\<forall>i<length bs. getBlockByNumber cfg bc' (JNum (of_nat i)) = Some (bs ! i) \<and>
       getBlockByHash cfg bc' (b_hash (bs ! i)) = Some (bs ! i))"
proof -
  have n: "\<forall>i<length bs. b_number (bs ! i) = 0 + int (length [] + i)"
    using assms(5) by (metis add_0 diff_zero length_upt list.size(3) nth_map nth_upt)
  have e: "chain_of cfg 0 [] bc" using assms(2) by (simp add: chain_of_def)
  have "\<exists>bc'. addBlocks cfg now bs bc = Some bc' \<and> chain_of cfg 0 ([] @ bs) bc'"
    using assms(3,6,7) by (intro addBlocks_chain [OF e assms(1,4) n]) (auto simp: hasH2nFile_def fileExists_def)
  then obtain bc' where bc': "addBlocks cfg now bs bc = Some bc'" "chain_of cfg 0 bs bc'" by auto
  have "length (bc_chain bc') \<le> cc_K cfg" using bc'(2) by (simp add: chain_of_def)
  moreover have "lastBlockNumber bc' = int (length bs) - 1" using chain_of_last [OF bc'(2) assms(1)] by linarith
  ultimately show ?thesis using bc'(1) chain_of_lookup [OF bc'(2) assms(1)] by auto
qed


subsection \<open>Chain segments\<close>

lemma blockPathsUp_chain:
  assumes "chain_of cfg s hist bc" and "i + n \<le> length hist"
  shows "parseAll cfg bc (blockPathsUp cfg (bc_path bc) (bc_files bc) (s + int i) n) = map Some (take n (drop i hist))"
  using assms(2)
proof (induction n arbitrary: i)
  case 0
  then show ?case by (simp add: parseAll_def)
next
  case (Suc n)
  let ?b = "hist ! i" and ?p = "getBlockPath cfg (bc_path bc) (rat_of_int (s + int i))"
  have "stored cfg bc ?b" "b_number ?b = s + int i" using assms(1) Suc.prems by (auto simp: chain_of_def)
  then have rd: "readCompressedJsonSync (bc_files bc) ?p = Some ?b" "parseBlock (cc_block_env cfg) ?b = ?b"
    by (auto simp: stored_def canonical_def readBlockByNumber_def)
  then have "fileExists (bc_files bc) ?p"
    by (auto simp: readCompressedJsonSync_def fileExists_def split: option.splits)
  moreover have "take (Suc n) (drop i hist) = ?b # take n (drop (Suc i) hist)"
    using Suc.prems by (simp add: Cons_nth_drop_Suc [symmetric])
  moreover have e: "s + int (Suc i) = s + int i + 1" by simp
  moreover have "parseAll cfg bc (blockPathsUp cfg (bc_path bc) (bc_files bc) (s + int i + 1) n) =
      map Some (take n (drop (Suc i) hist))"
    using Suc.IH [of "Suc i"] Suc.prems unfolding e by simp
  ultimately show ?case using rd by (simp add: parseAll_def Let_def del: of_int_add of_nat_Suc)
qed

lemma getBlockList_chain:
  assumes "chain_of cfg s hist bc" and "0 < cc_K cfg" and "i < length hist" and "0 < cc_CHAIN_SEGMENT_LENGTH cfg"
  shows "getBlockList cfg bc (JNum (of_int (s + int i))) JUndef =
    map Some (take (nat (cc_CHAIN_SEGMENT_LENGTH cfg)) (drop i hist))"
proof -
  let ?L = "cc_CHAIN_SEGMENT_LENGTH cfg"
  define n where "n = min (nat ?L) (length hist - i)"
  have lastn: "lastBlockNumber bc + 1 = s + int (length hist)" by (rule chain_of_last [OF assms(1,2)])
  have s0: "0 \<le> s" using assms(1) by (simp add: chain_of_def)
  obtain lb where lb: "lastBlock bc = Some lb" "lastBlockNumber bc = b_number lb"
    using lastn assms(3) s0 by (cases "lastBlock bc") (auto simp: lastBlockNumber_def)
  have f: "natural_or (JNum (of_int (s + int i))) 0 = s + int i"
    using s0 by (simp add: natural_or_def del: of_int_add)
  have t: "natural_or JUndef (lastBlockNumber bc + 1) = s + int (length hist)"
    using lastn by (simp add: natural_or_def)
  have ne: "JNum (rat_of_int (s + int i)) \<noteq> JNum (of_int (b_number lb + 1))"
    using lastn lb(2) assms(3) by (simp del: of_int_add)
  have sz: "(if s + int (length hist) - (s + int i) > ?L then s + int i + ?L else s + int (length hist)) - (s + int i) = int n"
    "0 < int n"
    using assms(3,4) by (auto simp: n_def min_def)
  have "getBlockList cfg bc (JNum (of_int (s + int i))) JUndef =
      parseAll cfg bc (blockPathsUp cfg (bc_path bc) (bc_files bc) (s + int i) n)"
    using sz(2) unfolding getBlockList_def lb(1) option.case f t Let_def getBlockPathList_def sz(1)
    using ne lb(2) t by simp
  also have "\<dots> = map Some (take n (drop i hist))"
    by (rule blockPathsUp_chain [OF assms(1)]) (use assms(3) in \<open>simp add: n_def\<close>)
  also have "take n (drop i hist) = take (nat ?L) (drop i hist)" by (simp add: n_def min_def)
  finally show ?thesis .
qed

lemma newer_blocks:
  assumes "chain_of cfg s hist bc" and "0 < cc_K cfg" and "hist \<noteq> []" and "xs \<noteq> []"
    and "\<And>b. b \<in> set xs \<Longrightarrow> s + int (length hist) \<le> b_number b"
  shows "getValidBlocksInChainSegment cfg bc xs = Some xs"
proof -
  have lastn: "lastBlockNumber bc + 1 = s + int (length hist)" by (rule chain_of_last [OF assms(1,2)])
  have s0: "0 \<le> s" "0 < length hist" using assms(1,3) by (auto simp: chain_of_def)
  have f: "filter (\<lambda>b. \<not> b_number b \<le> lastBlockNumber bc) xs = xs"
    "filter (\<lambda>b. b_number b = lastBlockNumber bc) xs = []"
    using assms(5) lastn by (fastforce simp: filter_id_conv filter_empty_conv)+
  obtain lb where lb: "lastBlock bc = Some lb"
    using lastn s0 by (cases "lastBlock bc") (auto simp: lastBlockNumber_def)
  obtain x ys where xs: "xs = x # ys" using assms(4) by (cases xs) auto
  have "s + int (length hist) \<le> b_number x" using xs by (intro assms(5)) simp
  then have x: "b_number x \<noteq> 0" using s0 by linarith
  have "0 \<le> lastBlockNumber bc" using lastn s0 by linarith
  then show ?thesis unfolding getValidBlocksInChainSegment_def Let_def f using lb x xs by simp
qed

text \<open>
  C24. Synchronising makes progress: a node whose chain is a proper prefix of its peer's asks for the
  segment after its last block; the peer serves the next \<open>CHAIN_SEGMENT_LENGTH\<close> blocks of its chain
  in order, whether they are in memory or on disk, the node keeps all of them as valid, and adding
  them extends its chain by exactly these blocks.
\<close>

theorem sync_brings_next_blocks:
  assumes "chain_of cfg 0 (mine @ missing) peer" and "chain_of cfg' 0 mine bc"
    and "mine \<noteq> []" and "missing \<noteq> []" and "0 < cc_K cfg" and "0 < cc_K cfg'"
    and "0 < cc_CHAIN_SEGMENT_LENGTH cfg" and "cc_block_env cfg' = cc_block_env cfg"
    and "list_all (\<lambda>b. \<not> hasH2nFile cfg' (bc_path bc) (b_hash b) (bc_files bc)) missing"
  shows "\<exists>segment bc'. getBlockList cfg peer (JNum (of_int (lastBlockNumber bc + 1))) JUndef = map Some segment \<and>
    segment \<noteq> [] \<and> segment = take (nat (cc_CHAIN_SEGMENT_LENGTH cfg)) missing \<and>
    getValidBlocksInChainSegment cfg' bc segment = Some segment \<and>
    addBlocks cfg' now segment bc = Some bc' \<and> chain_of cfg' 0 (mine @ segment) bc'"
proof -
  define seg where "seg = take (nat (cc_CHAIN_SEGMENT_LENGTH cfg)) missing"
  have num: "b_number (missing ! i) = int (length mine + i)" if "i < length missing" for i
    using assms(1) that unfolding chain_of_def by (metis add.left_neutral length_append nat_add_left_cancel_less nth_append_length_plus)
  have lastn: "lastBlockNumber bc + 1 = int (length mine)" using chain_of_last [OF assms(2,6)] by simp
  have "length mine < length (mine @ missing)" using assms(4) by simp
  from getBlockList_chain [OF assms(1,5) this assms(7)]
  have "getBlockList cfg peer (JNum (of_int (lastBlockNumber bc + 1))) JUndef = map Some seg"
    unfolding lastn by (simp add: seg_def)
  moreover have ne: "seg \<noteq> []" using assms(4,7) by (simp add: seg_def)
  moreover have "getValidBlocksInChainSegment cfg' bc seg = Some seg"
    using num by (intro newer_blocks [OF assms(2,6,3) ne]) (auto simp: seg_def in_set_conv_nth)
  moreover have "\<exists>bc'. addBlocks cfg' now seg bc = Some bc' \<and> chain_of cfg' 0 (mine @ seg) bc'"
  proof (rule addBlocks_chain [OF assms(2,6)])
    show "list_all (canonical cfg') seg"
      using assms(1,8) by (auto simp: chain_of_def list_all_iff stored_def canonical_def seg_def dest!: in_set_takeD)
    show "\<forall>i<length seg. b_number (seg ! i) = 0 + int (length mine + i)" using num by (simp add: seg_def)
    have "distinct (map b_hash (mine @ missing))" using assms(1) by (simp add: chain_of_def)
    moreover have "map b_hash (mine @ seg) =
        take (length mine + nat (cc_CHAIN_SEGMENT_LENGTH cfg)) (map b_hash (mine @ missing))"
      by (simp add: seg_def take_map)
    ultimately show "distinct (map b_hash (mine @ seg))" by (metis distinct_take)
    show "\<forall>b\<in>set seg. \<not> hasH2nFile cfg' (bc_path bc) (b_hash b) (bc_files bc)"
      using assms(9) by (auto simp: list_all_iff seg_def dest: in_set_takeD)
    show "hd seg = bc_genesisBlock bc" if "mine = []" using that assms(3) by simp
  qed
  ultimately show ?thesis unfolding seg_def by metis
qed


text \<open>A block that was read back from the network or a file carries its own hashes.\<close>

lemma parseBlock_canonical [simp]:
  "parseBlock env (parseBlock env b) = parseBlock env b" "validateHashes env (parseBlock env b)"
  "parseBlock env (newBlock env lh lv ev txs rs n ep ts sph pr vals ga gc) =
    newBlock env lh lv ev txs rs n ep ts sph pr vals ga gc"
proof -
  show "validateHashes env (parseBlock env b)" by (simp add: parseBlock_def newBlock_valid)
qed (simp_all add: parseBlock_def newBlock_def Let_def sanitizeTransactions_def comp_def)

subsection \<open>Witnesses\<close>

definition number_env :: block_env where
  "number_env = \<lparr>be_hashMessage = id,
     be_stringify = \<lambda>v. (case prop_get v ''number'' of JNum q \<Rightarrow> num_string (\<lambda>_. []) q | _ \<Rightarrow> []),
     be_sizeof = \<lambda>_. 0, be_isCksumAddr = \<lambda>_. True\<rparr>"

definition sample_chain_config :: chain_config where
  "sample_chain_config = \<lparr>cc_CHAINS_N2B_MAX_NUM_FILES = 2, cc_CHAINS_H2N_HASH_PREFIX_LENGTH = 3,
     cc_ON_MEMORY_CHAIN_LENGTH = 1, cc_MAX_FINALIZED_BLOCK_INFO_ON_MEM = 2, cc_CHAIN_SEGMENT_LENGTH = 2,
     cc_OLD_CHAIN_SEGMENT_LENGTH = 2, cc_block_env = number_env, cc_numText = \<lambda>_. []\<rparr>"

definition sample_block :: "int \<Rightarrow> block" where
  "sample_block n = newBlock number_env [] [] [] [] [] n n 1 [] [] [] 0 0"

definition sample_blockchain :: blockchain where
  "sample_blockchain = \<lparr>bc_chain = [], bc_path = ''chains'', bc_genesisBlock = sample_block 0,
     bc_genesisBlockHash = b_hash (sample_block 0), bc_numberToBlockInfo = [], bc_files = []\<rparr>"

lemma sample_block_facts:
  "0 \<le> n \<Longrightarrow> canonical sample_chain_config (sample_block n)" "b_number (sample_block n) = n"
  "0 \<le> n \<Longrightarrow> b_hash (sample_block n) = ''0x'' @ nat_string (nat n)"
  by (simp_all add: canonical_def sample_chain_config_def sample_block_def)
    (simp_all add: newBlock_def Let_def blockHash_def blockHashString_def number_env_def block_header_def num_string_nat)

lemma sample_chain_simps [simp]:
  "cc_K sample_chain_config = 1" "cc_CHAIN_SEGMENT_LENGTH sample_chain_config = 2"
  "bc_chain sample_blockchain = []" "bc_files sample_blockchain = []"
  "bc_genesisBlock sample_blockchain = sample_block 0"
  by (simp_all add: sample_chain_config_def sample_blockchain_def)

lemma sample_hashes_distinct: "distinct (map b_hash (map (\<lambda>n. sample_block (int n)) [0..<m]))"
  by (auto simp: distinct_map inj_on_def sample_block_facts dest: nat_string_inj)

theorem finalized_blocks_are_found_witness:
  "\<exists>bc'. addBlocks sample_chain_config 7 [sample_block 0, sample_block 1, sample_block 2] sample_blockchain = Some bc' \<and>
     getBlockByNumber sample_chain_config bc' (JNum 1) = Some (sample_block 1)"
proof -
  have d: "distinct (map b_hash [sample_block 0, sample_block 1, sample_block 2])"
    using sample_hashes_distinct [of 3] by (simp add: upt_rec)
  have "\<exists>bc'. addBlocks sample_chain_config 7 [sample_block 0, sample_block 1, sample_block 2] sample_blockchain = Some bc' \<and>
    lastBlockNumber bc' = int (length [sample_block 0, sample_block 1, sample_block 2]) - 1 \<and>
    length (bc_chain bc') \<le> cc_K sample_chain_config \<and>
    (\<forall>i<length [sample_block 0, sample_block 1, sample_block 2].
       getBlockByNumber sample_chain_config bc' (JNum (of_nat i)) = Some ([sample_block 0, sample_block 1, sample_block 2] ! i) \<and>
       getBlockByHash sample_chain_config bc' (b_hash ([sample_block 0, sample_block 1, sample_block 2] ! i)) =
         Some ([sample_block 0, sample_block 1, sample_block 2] ! i))"
    by (rule finalized_blocks_are_found) (use d in \<open>simp_all add: sample_block_facts upt_rec\<close>)
  then show ?thesis by (auto dest: spec [of _ "1::nat"])
qed

lemma sample_chain:
  "\<exists>bc'. addBlocks sample_chain_config 7 (map (\<lambda>n. sample_block (int n)) [0..<Suc m]) sample_blockchain = Some bc' \<and>
    chain_of sample_chain_config 0 (map (\<lambda>n. sample_block (int n)) [0..<Suc m]) bc'"
proof -
  have e: "chain_of sample_chain_config 0 [] sample_blockchain" by (simp add: chain_of_def)
  have "\<exists>bc'. addBlocks sample_chain_config 7 (map (\<lambda>n. sample_block (int n)) [0..<Suc m]) sample_blockchain = Some bc' \<and>
    chain_of sample_chain_config 0 ([] @ map (\<lambda>n. sample_block (int n)) [0..<Suc m]) bc'"
    using sample_hashes_distinct [of "Suc m"]
    by (intro addBlocks_chain [OF e])
      (auto simp: sample_block_facts list_all_iff hasH2nFile_def fileExists_def nth_append hd_map
        simp del: upt_Suc)
  then show ?thesis by simp
qed


definition sample_node :: "nat \<Rightarrow> blockchain" where
  "sample_node m =
     (case addBlocks sample_chain_config 7 (map (\<lambda>n. sample_block (int n)) [0..<Suc m]) sample_blockchain of
        Some bc \<Rightarrow> bc | None \<Rightarrow> sample_blockchain)"

lemma sample_node_chain:
  "chain_of sample_chain_config 0 (map (\<lambda>n. sample_block (int n)) [0..<Suc m]) (sample_node m)"
  using sample_chain [of m] by (auto simp: sample_node_def simp del: upt_Suc)

theorem sync_brings_next_blocks_witness:
  "getBlockList sample_chain_config (sample_node 2) (JNum (of_int (lastBlockNumber (sample_node 0) + 1))) JUndef =
     [Some (sample_block 1), Some (sample_block 2)]"
proof -
  have p: "chain_of sample_chain_config 0 ([sample_block 0] @ [sample_block 1, sample_block 2]) (sample_node 2)"
    using sample_node_chain [of 2] by (simp add: upt_rec)
  have m: "chain_of sample_chain_config 0 [sample_block 0] (sample_node 0)"
    using sample_node_chain [of 0] by simp
  have h: "list_all (\<lambda>b. \<not> hasH2nFile sample_chain_config (bc_path (sample_node 0)) (b_hash b) (bc_files (sample_node 0)))
      [sample_block 1, sample_block 2]"
    by code_simp
  show ?thesis
    using sync_brings_next_blocks [OF p m _ _ _ _ _ refl h, of 7] by auto
qed

end
