(* ===== verification/PoolVotes.thy ===== *)
theory PoolVotes
  imports PoolInv ChainProps
begin

text \<open>
  What a majority of votes means. Two quorums of the same validators share a third of the stake, which
  is what keeps two conflicting blocks from both being notarized unless that much stake votes twice;
  but a vote is told apart from another one by its transaction hash only, so the votes of one validator
  can be counted more than once.
\<close>

subsection \<open>Quorums by stake\<close>

locale stake_quorum =
  fixes stake :: "'v \<Rightarrow> rat" and validators :: "'v set"
  assumes finite_validators: "finite validators" and stake_nonneg: "0 \<le> stake v"
begin

definition weight :: "'v set \<Rightarrow> rat" where
  "weight S = (\<Sum>v\<in>S. stake v)"

definition quorum :: "'v set \<Rightarrow> bool" where
  "quorum S = (S \<subseteq> validators \<and> weight validators * (2 / 3) \<le> weight S)"

lemma weight_mono: "S \<subseteq> T \<Longrightarrow> T \<subseteq> validators \<Longrightarrow> weight S \<le> weight T"
  unfolding weight_def by (rule sum_mono2) (auto intro: stake_nonneg finite_subset [OF _ finite_validators])

lemma quorums_intersect:
  assumes "quorum S" and "quorum T"
  shows "weight validators / 3 \<le> weight (S \<inter> T)"
proof -
  have fin: "finite S" "finite T" using assms finite_validators finite_subset by (auto simp: quorum_def)
  have "weight S + weight T = weight (S \<union> T) + weight (S \<inter> T)"
    unfolding weight_def by (rule sum.union_inter [symmetric]) (use fin in auto)
  moreover have "weight (S \<union> T) \<le> weight validators"
    using assms by (intro weight_mono) (auto simp: quorum_def)
  moreover have "weight validators * (2 / 3) \<le> weight S" "weight validators * (2 / 3) \<le> weight T"
    using assms by (simp_all add: quorum_def)
  ultimately show ?thesis by linarith
qed

lemma honest_voter_in_both:
  assumes "quorum S" and "quorum T" and "F \<subseteq> validators" and "weight F < weight validators / 3"
  shows "\<exists>v\<in>S \<inter> T. v \<notin> F"
proof (rule ccontr)
  assume "\<not> ?thesis"
  then have "weight (S \<inter> T) \<le> weight F" using assms by (intro weight_mono) auto
  then show False using quorums_intersect [OF assms(1,2)] assms(4) by linarith
qed

end

text \<open>The stake a vote is counted with: only positive stakes count.\<close>

definition countedStake :: "(string \<times> jsval) list \<Rightarrow> string \<Rightarrow> rat" where
  "countedStake validators addr =
     (case map_of validators addr of None \<Rightarrow> 0 | Some info \<Rightarrow> max 0 (stake_of info))"

definition validatorSet :: "(string \<times> jsval) list \<Rightarrow> string set" where
  "validatorSet validators = fst ` set validators"

interpretation block_quorum: stake_quorum "countedStake validators" "validatorSet validators" for validators
  by unfold_locales (auto simp: countedStake_def validatorSet_def split: option.splits)

definition positive_stakes :: "(string \<times> jsval) list \<Rightarrow> bool" where
  "positive_stakes validators = (numeric_stakes validators \<and> distinct (map fst validators) \<and>
     list_all (\<lambda>(addr, info). 0 \<le> stake_of info) validators)"

lemma total_is_weight:
  "positive_stakes validators \<Longrightarrow>
   getTotalAtStake dstr validators = JNum (block_quorum.weight validators (validatorSet validators))"
proof -
  assume p: "positive_stakes validators"
  have s: "(\<Sum>(addr, info)\<leftarrow>vs. stake_of info) = (\<Sum>v\<in>fst ` set vs. countedStake validators v)"
    if "distinct (map fst vs)" "set vs \<subseteq> set validators" for vs
    using that
  proof (induction vs)
    case Nil
    then show ?case by simp
  next
    case (Cons x vs)
    obtain a i where x: "x = (a, i)" by (cases x)
    then have "map_of validators a = Some i" "0 \<le> stake_of i"
      using Cons.prems p by (auto simp: positive_stakes_def list_all_iff)
    then have "countedStake validators a = stake_of i" by (simp add: countedStake_def)
    then show ?case using Cons x by simp
  qed
  show ?thesis using p s [of validators]
    by (simp add: getTotalAtStake_sum positive_stakes_def block_quorum.weight_def validatorSet_def)
qed

lemma majority_is_quorum:
  assumes "positive_stakes (b_validators pb)" and "V \<subseteq> validatorSet (b_validators pb)"
    and "hasMajority cfg pb (Some (JNum (\<Sum>v\<in>V. countedStake (b_validators pb) v)))"
  shows "block_quorum.quorum (b_validators pb) V"
  using assms by (auto simp: hasMajority_def block_quorum.quorum_def total_is_weight block_quorum.weight_def MAJORITY_def)

text \<open>
  C29. Two conflicting blocks share voters. When the votes of two sets of validators, each counted once,
  reach the majority for two blocks after the same block, then validators with a third of its stake are
  in both sets; so if the validators that vote for both hold less than a third, there is one that voted
  for both and is not among them: a contradiction.
\<close>

theorem conflicting_majorities_share_voters:
  assumes "positive_stakes (b_validators pb)"
    and "V \<subseteq> validatorSet (b_validators pb)" and "W \<subseteq> validatorSet (b_validators pb)"
    and "hasMajority cfg pb (Some (JNum (\<Sum>v\<in>V. countedStake (b_validators pb) v)))"
    and "hasMajority cfg pb (Some (JNum (\<Sum>v\<in>W. countedStake (b_validators pb) v)))"
  shows "(\<Sum>v\<in>V \<inter> W. countedStake (b_validators pb) v) \<ge>
    (\<Sum>v\<in>validatorSet (b_validators pb). countedStake (b_validators pb) v) / 3"
  using block_quorum.quorums_intersect [OF majority_is_quorum [OF assms(1,2,4)] majority_is_quorum [OF assms(1,3,5)]]
  by (simp add: block_quorum.weight_def)

text \<open>
  C30. A validator is counted once per vote transaction, not once: two votes of the same validator for a
  block in the pool that differ in their hash both add its stake to the tally.
\<close>

theorem validator_counted_twice:
  assumes "infoOf bp h = Some info" and "bi_block info = Some b" and "bi_tallied info = Some (JNum t)"
    and "tx_address v1 = tx_address v2" and "tx_hash v1 \<noteq> tx_hash v2"
    and "\<not> hasVote v1 h False bp" and "\<not> hasVote v2 h False bp"
    and "js_get (JObj (b_validators b)) [Key (tx_address v1), Key ''stake''] JUndef = JNum q" and "0 < q"
    and "addVoteFor cfg bc v1 h (JNum q) bp = Some bp1" and "addVoteFor cfg bc v2 h (JNum q) bp1 = Some bp2"
  shows "\<exists>info2. infoOf bp2 h = Some info2 \<and> bi_tallied info2 = Some (JNum (t + q + q))"
proof -
  have c: "voteCounts i v (JNum q)" if "bi_block i = Some b" "tx_address v = tx_address v1" for i v
    using that assms(4,8,9) by (simp add: voteCounts_def)
  have step: "\<exists>i'. infoOf p' h = Some i' \<and> bi_block i' = Some b \<and> bi_tallied i' = Some (JNum (u + q)) \<and>
      votesOf (Some i') = votesOf (Some i) @ [v]"
    if "infoOf p h = Some i" "bi_block i = Some b" "bi_tallied i = Some (JNum u)" "tx_address v = tx_address v1"
      "\<not> hasVote v h False p" "addVoteFor cfg bc v h (JNum q) p = Some p'" for p p' :: "'a block_pool" and i u v
  proof -
    let ?i = "votedInfo cfg v (JNum q) i"
    have "tryUpdateNotarized cfg bc h False (putInfo h ?i p) = Some p'"
      using that c by (simp add: addVoteFor_def Let_def infoOrNew_def)
    from tryUpdate_marks [OF this] have "infoOf p' h = Some ?i \<or> infoOf p' h = Some (?i\<lparr>bi_notarized := True\<rparr>)"
      by (rule marks_infoD) simp
    moreover have "bi_tallied ?i = Some (JNum (u + q))" "votesOf (Some ?i) = votesOf (Some i) @ [v]"
      using that c [OF that(2,4)] by (simp_all add: votedInfo_def Let_def votesOf_def)
    ultimately show ?thesis using that(2) by (auto simp: votesOf_def)
  qed
  obtain i1 where i1: "infoOf bp1 h = Some i1" "bi_block i1 = Some b" "bi_tallied i1 = Some (JNum (t + q))"
    "votesOf (Some i1) = votesOf (Some info) @ [v1]"
    using step [OF assms(1,2,3) refl assms(6,10)] by blast
  have "\<not> hasVote v2 h False bp1" using i1 assms(1,5,7) by (auto simp: hasVote_def)
  then show ?thesis using step [OF i1(1,2,3) assms(4) [symmetric] _ assms(11)] by blast
qed

subsection \<open>Witnesses\<close>

definition pool_validators :: "(string \<times> jsval) list" where
  "pool_validators = map (\<lambda>a. (a, JObj [(''stake'', JNum 1), (''proposal_right'', JBool True)])) [''a'', ''b'', ''c'']"

definition block_name :: "nat \<Rightarrow> string" where
  "block_name n = ''0x'' @ nat_string n"

definition pool_block :: "nat \<Rightarrow> block" where
  "pool_block n = newBlock number_env (if n = 0 then [] else block_name (n - 1)) [] [] [] [] (int n) (int n) 1 [] ''a''
     pool_validators 0 0"

definition pool_vote :: "string \<Rightarrow> nat \<Rightarrow> string \<Rightarrow> transaction" where
  "pool_vote voter n hsh =
     \<lparr>tx_body = JObj [(''operation'', JObj [(''type'', JStr ''SET_VALUE''),
        (''ref'', JStr (''/consensus/number/'' @ nat_string n @ ''/'' @ block_name n @ ''/vote/'' @ voter)),
        (''value'', JObj [(''block_hash'', JStr (block_name n)), (''stake'', JNum 1), (''is_against'', JBool False)])])],
      tx_signature = JStr [], tx_hash = hsh, tx_address = voter, tx_extra = []\<rparr>"

definition pool_chain :: blockchain where
  "pool_chain = sample_blockchain\<lparr>bc_chain := [pool_block 0], bc_genesisBlock := pool_block 0,
     bc_genesisBlockHash := block_name 0\<rparr>"

definition addBlock :: "nat \<Rightarrow> unit block_pool \<Rightarrow> unit block_pool" where
  "addBlock n bp =
     (case addSeenBlock sample_chain_config pool_chain (pool_block n) None True False bp of
        Some (r, bp') \<Rightarrow> bp' | None \<Rightarrow> bp)"

definition addVote :: "transaction \<Rightarrow> unit block_pool \<Rightarrow> unit block_pool" where
  "addVote v bp = (case addSeenVote sample_chain_config pool_chain v bp of Some bp' \<Rightarrow> bp' | None \<Rightarrow> bp)"

text \<open>The genesis block and the blocks \<open>1, ..., n\<close>, each of these with the votes of two of the three validators.\<close>

fun sample_pool :: "nat \<Rightarrow> unit block_pool" where
  "sample_pool 0 = addBlock 0 (newBlockPool sample_blockchain)"
| "sample_pool (Suc n) =
     addVote (pool_vote ''b'' (Suc n) (''b'' @ nat_string n)) (addVote (pool_vote ''a'' (Suc n) (''a'' @ nat_string n))
       (addBlock (Suc n) (sample_pool n)))"

definition sample_rank :: "string \<Rightarrow> nat" where
  "sample_rank h = (if h = [] then 0 else Suc (digits_value (drop 2 h)))"

definition sample_parent :: "string \<Rightarrow> string" where
  "sample_parent h = (if sample_rank h \<le> 1 then [] else block_name (sample_rank h - 2))"

lemma pool_block_facts:
  "b_number (pool_block n) = int n" "b_hash (pool_block n) = block_name n"
  "b_last_hash (pool_block n) = (if n = 0 then [] else block_name (n - 1))" "b_validators (pool_block n) = pool_validators"
  by (simp_all add: pool_block_def newBlock_def Let_def blockHash_def blockHashString_def number_env_def
      block_header_def num_string_nat [of "int n", simplified] block_name_def)

lemma sample_rank_name [simp]: "sample_rank (block_name n) = Suc n"
  by (simp add: sample_rank_def block_name_def digits_value_nat_string)

lemma sample_parent_block: "sample_parent (b_hash (pool_block n)) = b_last_hash (pool_block n)"
  by (simp add: pool_block_facts sample_parent_def)

lemma reachable_samples:
  assumes "pool_reachable sample_parent sample_chain_config bp"
  shows "pool_reachable sample_parent sample_chain_config (addVote v bp)"
    and "pool_reachable sample_parent sample_chain_config (addBlock n bp)"
  using assms sample_parent_block
  by (auto simp: addVote_def addBlock_def split: option.splits
      intro: pool_reachable.move pool_step.seen_vote pool_step.seen_block)

lemma sample_pool_reachable: "pool_reachable sample_parent sample_chain_config (sample_pool n)"
  by (induction n) (auto intro!: reachable_samples pool_reachable.start)

lemma ancestry_check:
  "list_all (\<lambda>(k, i). case bi_block i of None \<Rightarrow> True | Some b \<Rightarrow> rank (parent (b_hash b)) < rank (b_hash b)) (bp_hashToBlockInfo bp)
   \<Longrightarrow> ancestry parent rank (blockOf bp)"
  by (fastforce simp: ancestry_def blockOf_def infoOf_def list_all_iff dest: map_of_SomeD split: option.splits)

lemma sample_pool_ancestry: "ancestry sample_parent sample_rank (blockOf (sample_pool 3))"
  by (rule ancestry_check) code_simp

lemma sample_pool_ranked: "ranked sample_rank (sample_pool 3)"
  using links_ranked [OF reachable_links [OF sample_pool_reachable]] sample_pool_ancestry by (simp add: ancestry_def)

theorem pool_calls_return_witness:
  "addSeenBlock sample_chain_config pool_chain (pool_block 4) None True False (sample_pool 3) \<noteq> None"
  using pool_calls_return [OF sample_pool_reachable sample_pool_ancestry sample_parent_block, of 4]
  by (simp add: pool_block_facts)


lemma path_number:
  assumes "notarized_path bp node p" and "\<And>b. notarizedBlock node = Some b \<Longrightarrow> 0 \<le> b_number b"
    and "\<And>k b. blockOf bp k = Some b \<Longrightarrow> 0 \<le> b_number b"
  shows "0 \<le> chainNumber p"
  using assms(1,2)
proof (induction rule: notarized_path.induct)
  case (one node b)
  then show ?case by (simp add: chainNumber_def)
next
  case (more node b v p)
  have "p \<noteq> []" using more.hyps(3) by auto
  moreover have "0 \<le> chainNumber p" using more.IH assms(3) notarizedBlock_blockOf by metis
  ultimately show ?case by (simp add: chainNumber_def)
qed

lemma numbers_check:
  "list_all (\<lambda>(k, i). case bi_block i of None \<Rightarrow> True | Some b \<Rightarrow> 0 \<le> b_number b) (bp_hashToBlockInfo bp)
   \<Longrightarrow> blockOf bp k = Some b \<Longrightarrow> 0 \<le> b_number b"
  by (fastforce simp: blockOf_def infoOf_def list_all_iff dest: map_of_SomeD split: option.splits)

theorem longest_tips_witness:
  "\<exists>p. notarized_path (sample_pool 3) (lastFinalizedInfo pool_chain (sample_pool 3)) p \<and> b_hash (last p) = block_name 3"
proof -
  have tips: "\<forall>tip\<in>set (bp_longestNotarizedChainTips (sample_pool 3)). blockOf (sample_pool 3) (JStr tip) \<noteq> None"
    by code_simp
  have num: "0 \<le> b_number b" if "blockOf (sample_pool 3) k = Some b" for k b
    by (rule numbers_check [OF _ that]) code_simp
  have root: "0 \<le> b_number b" if "notarizedBlock (lastFinalizedInfo pool_chain (sample_pool 3)) = Some b" for b
    using that by (auto simp: lastFinalizedInfo_def lastBlockNumber_def lastBlock_def pool_chain_def
        sample_blockchain_def pool_block_facts notarizedBlock_def)
  have e: "\<exists>bp'. updateLongestNotarizedChains pool_chain (sample_pool 3) = Some bp' \<and>
    set (bp_longestNotarizedChainTips bp') =
      {b_hash (last p) | p. notarized_path (sample_pool 3) (lastFinalizedInfo pool_chain (sample_pool 3)) p \<and>
         (\<forall>q. notarized_path (sample_pool 3) (lastFinalizedInfo pool_chain (sample_pool 3)) q \<longrightarrow> chainNumber q \<le> chainNumber p)}"
    by (rule longest_tips [OF sample_pool_ranked tips]) (blast intro: path_number root num)
  have u: "updateLongestNotarizedChains pool_chain (sample_pool 3) =
      Some ((sample_pool 3)\<lparr>bp_longestNotarizedChainTips := [block_name 3]\<rparr>)"
    by code_simp
  from e obtain bp' where bp': "updateLongestNotarizedChains pool_chain (sample_pool 3) = Some bp'"
    "set (bp_longestNotarizedChainTips bp') =
      {b_hash (last p) | p. notarized_path (sample_pool 3) (lastFinalizedInfo pool_chain (sample_pool 3)) p \<and>
         (\<forall>q. notarized_path (sample_pool 3) (lastFinalizedInfo pool_chain (sample_pool 3)) q \<longrightarrow> chainNumber q \<le> chainNumber p)}"
    by (elim exE conjE)
  have "bp' = (sample_pool 3)\<lparr>bp_longestNotarizedChainTips := [block_name 3]\<rparr>" using bp'(1) u by (metis option.inject)
  then have "block_name 3 \<in> set (bp_longestNotarizedChainTips bp')" by (simp del: sample_pool.simps)
  then show ?thesis unfolding bp'(2) by (elim CollectE exE conjE) (intro exI conjI, assumption, simp)
qed

theorem finalizable_chain_witness:
  "getFinalizableChain pool_chain (sample_pool 3) False = Some (map Some (map pool_block [0, 1, 2, 3]))"
proof -
  have "\<exists>chain. getFinalizableChain pool_chain (sample_pool 3) False = Some (map Some chain)"
    using finalizable_chain [OF sample_pool_ranked, of pool_chain]
    by (auto simp: lastBlockNumber_def lastBlock_def pool_chain_def sample_blockchain_def pool_block_facts)
  moreover have "getFinalizableChain pool_chain (sample_pool 3) False = Some (map Some (map pool_block [0, 1, 2, 3]))"
    by code_simp
  ultimately show ?thesis by blast
qed


theorem conflicting_majorities_share_voters_witness:
  "(\<Sum>v\<in>{''a'', ''b''} \<inter> {''b'', ''c''}. countedStake (b_validators (pool_block 1)) v) \<ge>
    (\<Sum>v\<in>validatorSet (b_validators (pool_block 1)). countedStake (b_validators (pool_block 1)) v) / 3"
proof -
  have p: "positive_stakes (b_validators (pool_block 1))" by code_simp
  have s: "{''a'', ''b''} \<subseteq> validatorSet (b_validators (pool_block 1))" "{''b'', ''c''} \<subseteq> validatorSet (b_validators (pool_block 1))"
    by (simp_all add: pool_block_facts pool_validators_def validatorSet_def)
  have m: "hasMajority sample_chain_config (pool_block 1) (Some (JNum 2))" by code_simp
  have "(\<Sum>v\<in>{''a'', ''b''}. countedStake (b_validators (pool_block 1)) v) = 2"
    "(\<Sum>v\<in>{''b'', ''c''}. countedStake (b_validators (pool_block 1)) v) = 2"
    by (simp_all add: pool_block_facts pool_validators_def countedStake_def stake_of_def)
  then show ?thesis using conflicting_majorities_share_voters [OF p s, of sample_chain_config] m by simp
qed

text \<open>The second and third vote of validator \<open>a\<close> make block \<open>1\<close> notarized without any other voter.\<close>

theorem validator_counted_twice_witness:
  "\<exists>info2. infoOf (addVote (pool_vote ''a'' 1 ''a2'') (addVote (pool_vote ''a'' 1 ''a1'')
       (addVote (pool_vote ''a'' 1 ''a0'') (addBlock 1 (newBlockPool pool_chain))))) (JStr (block_name 1)) = Some info2 \<and>
     bi_tallied info2 = Some (JNum 3)"
proof -
  let ?p = "addVote (pool_vote ''a'' 1 ''a0'') (addBlock 1 (newBlockPool pool_chain))"
  let ?h = "JStr (block_name 1)" and ?v1 = "pool_vote ''a'' 1 ''a1''" and ?v2 = "pool_vote ''a'' 1 ''a2''"
  let ?add = "\<lambda>v p. addVoteFor sample_chain_config pool_chain v ?h (JNum 1) p"
  have 1: "(case infoOf ?p ?h of None \<Rightarrow> False | Some i \<Rightarrow> bi_block i = Some (pool_block 1) \<and> bi_tallied i = Some (JNum 1))"
    by code_simp
  have 2: "\<not> hasVote ?v1 ?h False ?p" "\<not> hasVote ?v2 ?h False ?p" by code_simp+
  have 3: "(case ?add ?v1 ?p of None \<Rightarrow> False | Some q1 \<Rightarrow> (case ?add ?v2 q1 of None \<Rightarrow> False
      | Some q2 \<Rightarrow> infoOf q2 ?h = infoOf (addVote ?v2 (addVote ?v1 ?p)) ?h))"
    by code_simp
  obtain i where i: "infoOf ?p ?h = Some i" "bi_block i = Some (pool_block 1)" "bi_tallied i = Some (JNum 1)"
    using 1 by (auto split: option.splits)
  obtain q1 q2 where q: "?add ?v1 ?p = Some q1" "?add ?v2 q1 = Some q2"
    "infoOf q2 ?h = infoOf (addVote ?v2 (addVote ?v1 ?p)) ?h"
    using 3 by (auto split: option.splits)
  have v: "js_get (JObj (b_validators (pool_block 1))) [Key (tx_address ?v1), Key ''stake''] JUndef = JNum 1"
    "tx_address ?v1 = tx_address ?v2" "tx_hash ?v1 \<noteq> tx_hash ?v2"
    by (simp_all add: pool_vote_def pool_block_facts pool_validators_def js_get_def)
  show ?thesis
    using validator_counted_twice [OF i v(2,3) 2 v(1) _ q(1,2)] q(3) by simp
qed

end
