(* ===== verification/BlockProps.thy ===== *)
theory BlockProps
  imports BlockFrame PoolVotes
begin

text \<open>
  What holds of a block that was accepted: its proposer is the one its validators and the block before
  determine, the block before is notarized, the receipts, the gas totals and the state proof hash are
  those of its execution, and the block is in the pool with the database it was executed on.
\<close>

subsection \<open>Execution does not change the block pool\<close>

definition same_pool :: "db_state block_pool \<Rightarrow> check_state \<Rightarrow> bool" where
  "same_pool bp st \<longleftrightarrow> nd_bp (fst st) = bp"

lemma on_db_pool [keep_intros]: "keeps (same_pool bp) (on_db m)"
  by (auto simp: keeps_def same_pool_def on_db_def release_def split: prod.splits)

lemma execute_pool [keep_intros]: "keeps (same_pool bp) (executeOnBlockDb env opts txs code)"
  unfolding executeOnBlockDb_def by (intro keep_intros)

lemma evidence_pool [keep_intros]: "keeps (same_pool bp) (checkEvidenceList env validators maj opts es temp)"
  by (induction es arbitrary: temp) (auto intro!: keep_intros)

lemma offenders_pool [keep_intros]: "keeps (same_pool bp) (checkOffenders env validators maj opts off ev)"
  by (induction ev) (auto intro!: keep_intros)

lemma offenses_pool: "keeps (same_pool bp) (validateAndExecuteOffensesAndEvidence env ev vs maj n t ptx)"
  unfolding validateAndExecuteOffensesAndEvidence_def by (intro keep_intros)

lemma transactions_pool: "keeps (same_pool bp) (validateAndExecuteTransactions env txs rs n t ga gc)"
  unfolding validateAndExecuteTransactions_def by (intro keep_intros)

lemma same_poolD: "(\<And>bp. keeps (same_pool bp) m) \<Longrightarrow> m st = (v, st') \<Longrightarrow> nd_bp (fst st') = nd_bp (fst st)"
  unfolding keeps_def same_pool_def by (metis snd_conv)

lemma createTempDb_pool: "createTempDb env base pre n nd = (opt, nd') \<Longrightarrow> nd_bp nd' = nd_bp nd"
  by (auto simp: createTempDb_def split: prod.splits option.splits)

lemma tryProposal_pool: "nd_bp (snd (tryProposal env tx n t db nd)) = nd_bp nd"
  by (auto simp: tryProposal_def Let_def release_def split: prod.splits outcome.splits)

lemma executeProposalTx_pool: "nd_bp (snd (executeProposalTx env ptx n t v nd)) = nd_bp nd"
  using tryProposal_pool
  by (auto simp: executeProposalTx_def followed_by_def yields_def split: option.splits sum.splits prod.splits verdict.splits
      dest!: createTempDb_pool) (metis snd_conv)+

subsection \<open>The steps of an accepted block\<close>

lemma on_node_Accepted: "on_node m (nd, db) = (Accepted x, st) \<longleftrightarrow> (\<exists>nd'. m nd = (Accepted x, nd') \<and> st = (nd', db))"
  by (auto simp: on_node_def split: prod.splits)

lemma on_db_Accepted:
  "on_db m (nd, db) = (Accepted x, st) \<longleftrightarrow> (\<exists>db'. m (attach nd db) = (Returned x, db') \<and> st = (release db' nd, db'))"
  by (auto simp: on_db_def split: prod.splits outcome.splits)

lemma followed_byE:
  "followed_by m k s = (Accepted y, s') \<Longrightarrow> (\<And>x s1. m s = (Accepted x, s1) \<Longrightarrow> k x s1 = (Accepted y, s') \<Longrightarrow> P) \<Longrightarrow> P"
  by (auto simp: followed_by_Accepted)

lemma state_then: "followed_by state_of k s = k s s"
  by (simp add: followed_by_def state_of_def)

lemma on_node_fst:
  "on_node m st = (Accepted x, st') \<Longrightarrow> m (fst st) = (Accepted x, fst st') \<and> snd st' = snd st"
  by (auto simp: on_node_def split: prod.splits)

lemma on_pool_Accepted:
  "on_pool f nd = (Accepted x, nd') \<longleftrightarrow> (\<exists>bp. f (nd_bc nd) (nd_bp nd) = Some (x, bp) \<and> nd' = nd\<lparr>nd_bp := bp\<rparr>)"
  by (auto simp: on_pool_def split: option.splits prod.splits)

lemma case_call_Accepted:
  "(case p of (x, y) \<Rightarrow> f x y) s = (Accepted r, s') \<longleftrightarrow> f (fst p) (snd p) s = (Accepted r, s')"
  "(case opt of None \<Rightarrow> m | Some x \<Rightarrow> g x) t = (Accepted q, t') \<longleftrightarrow>
     (opt = None \<and> m t = (Accepted q, t') \<or> (\<exists>x. opt = Some x \<and> g x t = (Accepted q, t')))"
  "(if c then m1 else m2) u = (Accepted w, u') \<longleftrightarrow> (c \<and> m1 u = (Accepted w, u') \<or> \<not> c \<and> m2 u = (Accepted w, u'))"
  by (auto split: prod.splits option.splits)

lemmas accepted_simps = followed_by_Accepted on_node_Accepted on_db_Accepted on_pool_Accepted case_call_Accepted

lemma addSeenVote_blockOf:
  assumes "addSeenVote cfg bc v bp = Some bp'"
  shows "blockOf bp' = blockOf bp"
  using addSeenVote_shape [OF assms]
proof (elim disjE exE conjE)
  fix h info bp1
  assume a: "infoOf bp1 = infoOf bp" "bi_block info = blockOf bp h" "marks cfg bc False (putInfo h info bp1) bp'"
  then show ?thesis using blockOf_infoOf [OF a(1)] by (simp add: marks_blockOf [OF a(3)] blockOf_put fun_upd_idem)
qed (rule blockOf_infoOf)

lemma addSeenVotes_blockOf:
  "fold_opt (addSeenVote cfg bc) vs bp = Some bp' \<Longrightarrow> blockOf bp' = blockOf bp"
  by (induction vs arbitrary: bp) (auto split: option.splits dest: addSeenVote_blockOf)

lemma checkNotarized_accepted:
  "checkNotarized n h votes nd = (Accepted (), nd') \<Longrightarrow>
     nd' = nd \<and> (\<exists>info. infoOf (nd_bp nd) (JStr h) = Some info \<and> bi_notarized info)"
  unfolding checkNotarized_def by (auto simp: accepted_simps)

lemma lastVotes_accepted:
  assumes "validateAndExecuteLastVotes env votes h n t (nd, db) = (Accepted rs, st)" "n \<noteq> 0"
  shows "\<exists>info. infoOf (nd_bp (fst st)) (JStr h) = Some info \<and> bi_notarized info"
    "blockOf (nd_bp (fst st)) = blockOf (nd_bp nd)"
  using assms unfolding validateAndExecuteLastVotes_def
  by (auto simp: accepted_simps dest!: checkNotarized_accepted addSeenVotes_blockOf same_poolD [OF execute_pool])

lemma executeList_length:
  "executeTransactionList txe env opts inst txs db = (Returned (Some rs), db') \<Longrightarrow> length rs = length txs"
  by (induction txs arbitrary: db rs db')
    (auto simp: ret_def andThen_def split: prod.splits outcome.splits if_splits option.splits)

lemma execute_accepted:
  "executeOnBlockDb env opts txs code (nd, db) = (Accepted rs, st) \<Longrightarrow> length rs = length txs"
  unfolding executeOnBlockDb_def by (auto simp: accepted_simps dest: executeList_length)

lemma transactions_accepted:
  assumes "validateAndExecuteTransactions env txs receipts n t ga gc cst = (Accepted rs, st)"
  shows "length rs = length txs" "js_equal (JArr receipts) (JArr (map trimExecutionResult rs))"
    "\<exists>unit flooring. getServiceGasCostTotalFromTxList txs (map xr_gasAmountCharged rs) unit flooring = (ga, gc)"
proof -
  have "length rs = length txs \<and> js_equal (JArr receipts) (JArr (map trimExecutionResult rs)) \<and>
    (\<exists>unit flooring. fst (getServiceGasCostTotalFromTxList txs (map xr_gasAmountCharged rs) unit flooring) = ga \<and>
       snd (getServiceGasCostTotalFromTxList txs (map xr_gasAmountCharged rs) unit flooring) = gc)"
    using assms unfolding validateAndExecuteTransactions_def Let_def
    by (cases cst) (auto simp: accepted_simps dest: execute_accepted)
  then show "length rs = length txs" "js_equal (JArr receipts) (JArr (map trimExecutionResult rs))"
    "\<exists>unit flooring. getServiceGasCostTotalFromTxList txs (map xr_gasAmountCharged rs) unit flooring = (ga, gc)"
    by (auto simp: prod_eq_iff)
qed

lemma addBlock_accepted:
  assumes "addBlockToBlockPool env b ptx db nd = (Accepted (), nd')" "blockOf (nd_bp nd) (JStr (b_hash b)) = None"
  shows "map_of (bp_hashToDb (nd_bp nd')) (b_hash b) = Some db" "blockOf (nd_bp nd') (JStr (b_hash b)) = Some b"
    "infoOf (nd_bp nd) k = Some info \<Longrightarrow> bi_notarized info \<Longrightarrow>
       \<exists>info'. infoOf (nd_bp nd') k = Some info' \<and> bi_notarized info'"
proof -
  let ?bp = "nd_bp nd" and ?l = "linked (ne_chain env) b ptx (nd_bp nd)"
  obtain bp1 where a: "addSeenBlock (ne_chain env) (nd_bc nd) b ptx True False ?bp = Some (True, bp1)"
    "nd' = nd\<lparr>nd_bp := addToHashToDbMap (b_hash b) db bp1\<rparr>"
    using assms(1) by (auto simp: addBlockToBlockPool_def accepted_simps)
  note m = addSeenBlock_valid [OF a(1)]
  note new = assms(2)
  have i: "infoOf (nd_bp nd') = infoOf bp1" by (simp add: a(2) addToHashToDbMap_def infoOf_def fun_eq_iff)
  show "map_of (bp_hashToDb (nd_bp nd')) (b_hash b) = Some db" by (simp add: a(2) addToHashToDbMap_def update_conv')
  have "blockOf ?l (JStr (b_hash b)) = Some b"
    using new by (simp add: linked_def blockOf_infoOf [OF other_fields(1)] blockOf_def storedInfo_facts infoOrNew_facts)
  then show "blockOf (nd_bp nd') (JStr (b_hash b)) = Some b"
    using marks_blockOf [OF m] blockOf_infoOf [OF i] by simp
  assume k: "infoOf ?bp k = Some info" "bi_notarized info"
  then have "\<exists>info'. infoOf ?l k = Some info' \<and> bi_notarized info'"
    by (auto simp: linked_def storedInfo_facts infoOrNew_facts)
  then show "\<exists>info'. infoOf (nd_bp nd') k = Some info' \<and> bi_notarized info'"
    using marks_infoD [OF m] i by fastforce
qed

lemma proposal_accepted:
  assumes "validateProposalTx env ptx proposer vs h nd = (Accepted (), nd')"
  shows "nd' = nd" "\<And>tx. ptx = Some tx \<Longrightarrow> tx_address tx = proposer \<and>
    prop_get (js_get (first_op tx) [Key ''value''] (JObj [])) ''block_hash'' = JStr h"
  using assms unfolding validateProposalTx_def validateProposalValue_def Let_def
  by (auto split: option.splits sum.splits bool.splits if_splits)

lemma prev_accepted:
  "getPrevBlockInfo n h lb bp nd = (Accepted prev, nd') \<Longrightarrow> nd' = nd \<and> (n \<noteq> 0 \<longrightarrow> (\<exists>pb. prev = Some pb))"
  unfolding getPrevBlockInfo_def by (auto simp: accepted_simps)

lemma base_accepted: "getBaseStateVersion prev h n f bp nd = (Accepted base, nd') \<Longrightarrow> nd' = nd"
  unfolding getBaseStateVersion_def by (auto simp: accepted_simps)

lemma newDb_accepted: "getNewDbForProposal env n base pre nd = (Accepted db, nd') \<Longrightarrow> nd_bp nd' = nd_bp nd"
  by (auto simp: getNewDbForProposal_def split: prod.splits option.splits dest: createTempDb_pool)

lemma withBlockDb_accepted:
  "withBlockDb m db nd = (Accepted r, nd') \<Longrightarrow> \<exists>db'. m (nd, db) = (Accepted r, (nd', db'))"
  by (auto simp: withBlockDb_def split: prod.splits verdict.splits)

lemma pure_checks_accepted:
  "validateBlockNumberAndHashes env b g st = (Accepted u, st') \<Longrightarrow> st' = st"
  "validateValidatorSet env nd vs n base st = (Accepted u, st') \<Longrightarrow> st' = st"
  "validateProposer env n h e vs pr st = (Accepted u, st') \<Longrightarrow>
     st' = st \<and> (n \<noteq> 0 \<longrightarrow> nodeProposer env (proposerSeed h e) vs = Some pr)"
  "validateStateProofHash env ph cst = (Accepted u, cst') \<Longrightarrow>
     cst' = cst \<and> (\<not> ne_LIGHTWEIGHT env \<longrightarrow> xe_proofHash (ne_exec env) (db_root (snd cst)) = ph)"
  unfolding validateBlockNumberAndHashes_def validateValidatorSet_def validateProposer_def validateStateProofHash_def Let_def
  by (auto simp: state_then split_beta split: if_splits)

definition executed_as :: "node_env \<Rightarrow> block \<Rightarrow> db_state block_pool \<Rightarrow> bool" where
  "executed_as env b bp \<longleftrightarrow>
     (\<exists>results db. length results = length (b_transactions b) \<and>
       js_equal (JArr (b_receipts b)) (JArr (map trimExecutionResult results)) \<and>
       (\<exists>unit flooring. getServiceGasCostTotalFromTxList (b_transactions b) (map xr_gasAmountCharged results) unit flooring =
          (b_gas_amount_total b, b_gas_cost_total b)) \<and>
       xe_proofHash (ne_exec env) (db_root db) = b_state_proof_hash b \<and>
       map_of (bp_hashToDb bp) (b_hash b) = Some db)"

lemma checks_accepted:
  assumes "checksOnDb env b ptx (Some prev) base (nd, db) = (Accepted res, (nd', db'))"
    and "b_number b \<noteq> 0" "\<not> ne_LIGHTWEIGHT env" "blockOf (nd_bp nd) (JStr (b_hash b)) = None"
  shows "nodeProposer env (proposerSeed (Some (b_last_votes_hash prev)) (b_epoch b)) (b_validators b) = Some (b_proposer b)"
    "\<exists>info. infoOf (nd_bp nd') (JStr (b_last_hash b)) = Some info \<and> bi_notarized info"
    "executed_as env b (nd_bp nd')" "blockOf (nd_bp nd') (JStr (b_hash b)) = Some b"
proof -
  obtain maj votes txsRes st1 st2 st3 st4 st5 pr where
    pro: "nodeProposer env (proposerSeed (Some (b_last_votes_hash prev)) (b_epoch b)) (b_validators b) = Some (b_proposer b)" and
    vo: "validateAndExecuteLastVotes env (b_last_votes b) (b_last_hash b) (b_number b) (b_timestamp b) (nd, db) = (Accepted votes, st1)" and
    off: "validateAndExecuteOffensesAndEvidence env (b_evidence b) (b_validators b) maj (b_number b) (b_timestamp b) ptx st1
      = (Accepted (), st2)" and
    tx: "validateAndExecuteTransactions env (b_transactions b) (b_receipts b) (b_number b) (b_timestamp b)
      (b_gas_amount_total b) (b_gas_cost_total b) st2 = (Accepted txsRes, st3)" and
    ba: "on_db (applyBandagesForBlockNumber env (b_number b)) st3 = (Accepted (), st4)" and
    ph: "xe_proofHash (ne_exec env) (db_root (snd st4)) = b_state_proof_hash b" and
    ex: "on_node (executeProposalTx env ptx (b_number b) (b_timestamp b) (db_stateVersion (snd st4))) st4 = (Accepted pr, st5)" and
    ad: "on_node (addBlockToBlockPool env b ptx (snd st4)) st5 = (Accepted (), (nd', db'))"
    using assms(1) unfolding checksOnDb_def Let_def state_then case_prod_conv split_beta call_Accepted
    apply (elim followed_byE)
    apply (drule pure_checks_accepted)+
    by (clarsimp simp: assms(2,3))
  have same: "nd_bp (fst st5) = nd_bp (fst st1)"
    using same_poolD [OF offenses_pool off] same_poolD [OF transactions_pool tx] same_poolD [OF on_db_pool ba]
      executeProposalTx_pool [of env ptx "b_number b" "b_timestamp b" "db_stateVersion (snd st4)" "fst st4"] on_node_fst [OF ex] by simp
  note ad = conjunct1 [OF on_node_fst [OF ad], unfolded fst_conv]
  note last = lastVotes_accepted [OF vo assms(2)]
  have new: "blockOf (nd_bp (fst st5)) (JStr (b_hash b)) = None" using last(2) assms(4) same by simp
  note added = addBlock_accepted [OF ad new]
  show "nodeProposer env (proposerSeed (Some (b_last_votes_hash prev)) (b_epoch b)) (b_validators b) = Some (b_proposer b)" by (rule pro)
  show "\<exists>info. infoOf (nd_bp nd') (JStr (b_last_hash b)) = Some info \<and> bi_notarized info"
    using added(3) last(1) same by auto
  show "executed_as env b (nd_bp nd')"
    unfolding executed_as_def using transactions_accepted [OF tx] ph added(1) by blast
  show "blockOf (nd_bp nd') (JStr (b_hash b)) = Some b" by (rule added(2))
qed

lemma executeNewBlock_accepted:
  assumes "executeNewBlock env b pre ptx nd = (Accepted res, nd3)" "b_number b \<noteq> 0"
  shows "\<exists>prev base db nd2 db3.
    validateProposalTx env ptx (b_proposer b) (b_validators b) (b_hash b) nd = (Accepted (), nd) \<and>
    getPrevBlockInfo (b_number b) (b_last_hash b) (lastBlock (nd_bc nd)) (nd_bp nd) nd = (Accepted (Some prev), nd) \<and>
    getNewDbForProposal env (b_number b) base pre nd = (Accepted db, nd2) \<and>
    checksOnDb env b ptx (Some prev) base (nd2, db) = (Accepted res, (nd3, db3))"
proof -
  obtain prev base db nd2 where
    v: "validateProposalTx env ptx (b_proposer b) (b_validators b) (b_hash b) nd = (Accepted (), nd)" and
    p: "getPrevBlockInfo (b_number b) (b_last_hash b) (lastBlock (nd_bc nd)) (nd_bp nd) nd = (Accepted prev, nd)" and
    n: "getNewDbForProposal env (b_number b) base pre nd = (Accepted db, nd2)" and
    c: "withBlockDb (checksOnDb env b ptx prev base) db nd2 = (Accepted res, nd3)"
    using assms(1) unfolding executeNewBlock_def state_then
    by (elim followed_byE) (metis prev_accepted base_accepted proposal_accepted(1) old.unit.exhaust)
  show ?thesis using v p n withBlockDb_accepted [OF c] prev_accepted [OF p] assms(2) by blast
qed


end
