(* ===== verification/NodeSamples.thy ===== *)
theory NodeSamples
  imports BlockProps Samples
begin

text \<open>
  A small node to apply the theorems to: the genesis block is finalized and in the block pool, the
  chain parameters are in the final state, and one validator has all the stake. Its transactions are
  signed by \<open>a\<close>, whatever the signature is, and hashes are numbers of blocks.
\<close>

definition sample_tx_env :: tx_env where
  "sample_tx_env =
     \<lparr>te_ENABLE_GAS_FEE_WORKAROUND = True, te_ENABLE_TX_SIG_VERIF_WORKAROUND = False, te_toNumber = (\<lambda>_. None),
      te_hashSignature = (\<lambda>_. ''0xs''), te_hashTxBody = (\<lambda>_. ''0xb''), te_getAddressFromSignature = (\<lambda>_ _ _. ''a''),
      te_ecVerifySig = (\<lambda>_ _ _ _. Some True)\<rparr>"

definition sample_node_env :: node_env where
  "sample_node_env =
     \<lparr>ne_exec = sample_env, ne_tx = sample_tx_env, ne_chain = sample_chain_config, ne_pool = poolConfig1,
      ne_LIGHTWEIGHT = False, ne_ENABLE_EARLY_TX_SIG_VERIF = False, ne_UPDATE_NEW_FINAL_FRONT_DB_WITH_TX_POOL = True,
      ne_ENABLE_TX_BANDWIDTH_CHECK_PER_BLOCK = False, ne_bandages = (\<lambda>_. []), ne_sort = (\<lambda>cmp xs. xs),
      ne_random = (\<lambda>_. 1/2), ne_sign = (\<lambda>_ _. Some (JStr ''sig'')), ne_resultJs = trimExecutionResult,
      ne_protocolVersion = ''1.0.0'', ne_validVersion = (\<lambda>_. True), ne_majorVersion = (\<lambda>_. 1), ne_now = 7\<rparr>"

definition sample_params :: snode where
  "sample_params =
     SNode [(''consensus'', SNode [(''min_num_validators'', SLeaf (JNum 1)), (''max_num_validators'', SLeaf (JNum 5)),
              (''min_stake_for_proposer'', SLeaf (JNum 1)), (''max_stake_for_proposer'', SLeaf (JNum 100))]),
            (''resource'', SNode (map (\<lambda>name. (name, SLeaf (JNum 100)))
              [''state_tree_height_limit'', ''state_tree_bytes_limit'', ''service_state_budget_ratio'', ''apps_state_budget_ratio'',
               ''free_state_budget_ratio'', ''unit_write_gas_amount'', ''state_gas_coefficient'', ''gas_price_unit'',
               ''state_label_length_limit'', ''set_op_list_size_limit'']))]"

definition sample_final_root :: snode where
  "sample_final_root =
     SNode [(''rules'', SNode [(''.rule'', SNode [(''write'', SLeaf (JBool True))])]),
            (''owners'', SNode [(''.owner'', SNode [(''owners'', SNode [(''*'', full_permissions)])])]),
            (''values'', SNode [(''accounts'', SNode [(''a'', SNode [(''balance'', SLeaf (JNum 10))])]),
                                (''apps'', SNode [(''app'', SLeaf (JNum 1))]),
                                (''blockchain_params'', sample_params)])]"

definition sample_node_manager :: state_manager where
  "sample_node_manager =
     (setRoot ''FINAL:0'' sample_final_root (setRoot ''NODE:0'' sample_final_root newStateManager))
       \<lparr>sm_finalVersion := Some ''FINAL:0''\<rparr>"

definition single_validator :: "(string \<times> jsval) list" where
  "single_validator = [(''a'', JObj [(''stake'', JNum 3), (''proposal_right'', JBool True)])]"

definition first_block :: "nat \<Rightarrow> transaction list \<Rightarrow> jsval list \<Rightarrow> rat \<Rightarrow> block" where
  "first_block n txs receipts gas =
     newBlock number_env (if n = 0 then [] else block_name (n - 1)) [] [] txs receipts (int n) (int n) 1 [] ''a'' single_validator gas 0"

definition sample_state_node :: node_state where
  "sample_state_node =
     \<lparr>nd_bc = sample_blockchain\<lparr>bc_chain := [first_block 0 [] [] 0]\<rparr>,
      nd_bp = (case addSeenBlock sample_chain_config (sample_blockchain\<lparr>bc_chain := [first_block 0 [] [] 0]\<rparr>)
                      (first_block 0 [] [] 0) None True False (newBlockPool sample_blockchain) of
                 Some (r, bp) \<Rightarrow> bp | None \<Rightarrow> newBlockPool sample_blockchain),
      nd_tp = newTransactionPool False, nd_manager = sample_node_manager,
      nd_db = \<lparr>db_exec = \<lparr>es_root = sample_final_root, es_opResults = [], es_events = []\<rparr>, db_stateVersion = Some ''NODE:0'',
               db_backup = None, db_manager = sample_node_manager, db_lastBlockNumber = 0, db_now = 7\<rparr>,
      nd_status = SERVING, nd_address = Some ''a''\<rparr>"

definition sample_block_tx :: transaction where
  "sample_block_tx =
     \<lparr>tx_body = JObj [(''operation'', JObj [(''type'', JStr ''SET_VALUE''), (''ref'', JStr ''/x''), (''value'', JNum 1)]),
                     (''gas_price'', JNum 0), (''nonce'', JNum 0), (''timestamp'', JNum 5)],
      tx_signature = JStr ''sig'', tx_hash = ''0xs'', tx_address = ''a'', tx_extra = []\<rparr>"


definition sample_receipt :: jsval where
  "sample_receipt = JObj [(''code'', JNum 0), (''gas_amount_charged'', JNum 100), (''gas_cost_total'', JNum 0)]"

text \<open>A block with one transaction on the genesis block; its gas totals are those of the execution.\<close>

definition sample_next_block :: block where
  "sample_next_block = first_block 1 [sample_block_tx] [sample_receipt] 100"

definition sample_acceptance :: "unit verdict \<times> node_state" where
  "sample_acceptance = validateAndExecuteBlockOnDb sample_node_env True (Some sample_next_block) ''POOL'' None True sample_state_node"

lemma sample_node_facts:
  "final_there (nd_manager sample_state_node)" "hasVersion (nd_manager sample_state_node) (Some ''FINAL:0'')"
  "getRoot (nd_manager sample_state_node) ''FINAL:0'' = Some sample_final_root"
  by (simp_all add: final_there_def sample_state_node_def sample_node_manager_def hasVersion_def getRoot_def setRoot_def update_conv')

theorem block_execution_isolated_witness:
  "getRoot (nd_manager (snd sample_acceptance)) ''FINAL:0'' = Some sample_final_root"
  using block_execution_isolated [OF sample_node_facts(1), of sample_node_env True "Some sample_next_block" "''POOL''" None True
      "fst sample_acceptance" "snd sample_acceptance"] sample_node_facts(2,3)
  by (simp add: sample_acceptance_def)


end
