(* ===== verification/NodeChain.thy ===== *)
theory NodeChain
  imports BlockCheck
begin

text \<open>
  \<open>node/index.js\<close>, the transactions and the chain of the node: creating and receiving transactions,
  choosing and executing those of a new block, finalizing the chain that the block pool found,
  merging a segment of the chain of a peer and replaying the chain on disk. Traffic statistics, block
  events and snapshot files are left out.
\<close>

subsection \<open>Creating transactions\<close>

text \<open>Signing with the key of the node is the parameter \<^const>\<open>ne_sign\<close>, \<^const>\<open>None\<close> when it gives no signature.\<close>

definition fromTxBody :: "node_env \<Rightarrow> jsval \<Rightarrow> jsval \<Rightarrow> js_error + transaction option" where
  "fromTxBody env txBody chain_id =
     (case isValidTxBody (ne_tx env) txBody of
        Inl e \<Rightarrow> Inl e
      | Inr False \<Rightarrow> Inr None
      | Inr True \<Rightarrow>
          if truthy (prop_get txBody ''address'') then create (ne_tx env) (ne_now env) txBody (JStr []) chain_id
          else (case ne_sign env txBody chain_id of
                  None \<Rightarrow> Inr None
                | Some sig \<Rightarrow> if \<not> truthy sig then Inr None else create (ne_tx env) (ne_now env) txBody sig chain_id))"

definition default_prop :: "string \<Rightarrow> jsval \<Rightarrow> jsval \<Rightarrow> jsval" where
  "default_prop k v body = (if prop_get body k = JUndef then set_prop k v body else body)"

definition createSingleTransaction :: "node_env \<Rightarrow> node_state \<Rightarrow> jsval \<Rightarrow> js_error + transaction option" where
  "createSingleTransaction env nd txBody =
     (if nd_address nd = None then Inr None
      else fromTxBody env
        (default_prop ''gas_price'' (JNum 0) (default_prop ''timestamp'' (JNum (ne_now env))
           (default_prop ''nonce'' (getNonce env nd True) txBody)))
        (nodeParam env nd ''genesis'' ''chain_id''))"

datatype created = SingleTx "transaction option" | BatchTx "transaction list"

definition createTransaction :: "node_env \<Rightarrow> node_state \<Rightarrow> jsval \<Rightarrow> js_error + created" where
  "createTransaction env nd txBody =
     (if isBatchTxBody txBody then
        (case prop_get txBody ''tx_body_list'' of
           JArr bodies \<Rightarrow>
             (case map_err (createSingleTransaction env nd) bodies of
                Inl e \<Rightarrow> Inl e
              | Inr txs \<Rightarrow> Inr (BatchTx (List.map_filter (\<lambda>t. t) txs)))
         | _ \<Rightarrow> Inr (BatchTx []))
      else (case createSingleTransaction env nd txBody of Inl e \<Rightarrow> Inl e | Inr t \<Rightarrow> Inr (SingleTx t)))"

subsection \<open>Receiving a transaction\<close>

text \<open>The checks before the execution: the code of the failure.\<close>

definition roomFailure :: "node_env \<Rightarrow> node_state \<Rightarrow> transaction \<Rightarrow> int option" where
  "roomFailure env nd tx =
     (if \<not> hasRoom (ne_pool env) (nd_tp nd) then Some 10704
      else if isFreeTransaction tx \<and> \<not> hasFreeRoom (ne_pool env) (nd_tp nd) then Some 10715
      else if isNotEligibleTransaction (nd_tp nd) tx then Some 10701
      else if nd_status nd \<noteq> SERVING then Some 18001
      else None)"

definition accountRoomFailure :: "node_env \<Rightarrow> node_state \<Rightarrow> bool \<Rightarrow> transaction \<Rightarrow> int option" where
  "accountRoomFailure env nd isFreeTx executableTx =
     (if \<not> hasPerAccountRoom (ne_pool env) (nd_tp nd) (tx_address executableTx) then Some 10705
      else if isFreeTx \<and> \<not> hasPerAccountFreeRoom (ne_pool env) (nd_tp nd) (tx_address executableTx) then Some 10716
      else None)"

definition userOptions :: "node_state \<Rightarrow> bool \<Rightarrow> tx_options" where
  "userOptions nd isDryrun =
     \<lparr>to_skipFees = False, to_restoreIfFails = True, to_blockNumber = JNum (of_int (lastBlockNumber (nd_bc nd) + 1)),
      to_blockTime = JNum (lastBlockTimestamp (nd_bc nd)),
      to_eventSource = (if isDryrun then JNull else JStr ''USER''), to_isDryrun = isDryrun\<rparr>"

definition pooledIfIncluded :: "node_env \<Rightarrow> bool \<Rightarrow> exec_result \<Rightarrow> transaction \<Rightarrow> tx_pool \<Rightarrow> tx_pool" where
  "pooledIfIncluded env isDryrun r executableTx tp =
     (let tx = withExecution env r executableTx in
      if isDryrun then tp
      else if isFailedExecution r then
        (if txPrecheckFailed r then tp else addTransaction tx (ne_resultJs env r) False tp)
      else addTransaction tx (ne_resultJs env r) True tp)"

definition executeForPool :: "node_env \<Rightarrow> transaction \<Rightarrow> bool \<Rightarrow> (node_state, exec_result) call" where
  "executeForPool env executableTx isDryrun nd =
     (case executeTransaction (ne_exec env) (userOptions nd isDryrun) executableTx (attach nd (nd_db nd)) of
        (Returned r, db) \<Rightarrow>
          (Accepted r, release db (nd\<lparr>nd_db := db, nd_tp := pooledIfIncluded env isDryrun r executableTx (nd_tp nd)\<rparr>))
      | (Raised, db) \<Rightarrow> (Thrown, release db (nd\<lparr>nd_db := db\<rparr>))
      | (OutOfFuel, db) \<Rightarrow> (NoReturn, release db (nd\<lparr>nd_db := db\<rparr>)))"

definition executeTransactionAndAddToPool ::
  "node_env \<Rightarrow> bool \<Rightarrow> transaction \<Rightarrow> bool \<Rightarrow> (node_state, exec_result) call" where
  "executeTransactionAndAddToPool env isInstance tx isDryrun =
     followed_by state_of (\<lambda>nd.
       let isFreeTx = isFreeTransaction tx; chain_id = nodeParam env nd ''genesis'' ''chain_id'' in
       case roomFailure env nd tx of
         Some code \<Rightarrow> yields (checkFailed code)
       | None \<Rightarrow>
           (case toExecutable (ne_tx env) (ne_now env) isInstance tx chain_id of
              Inl e \<Rightarrow> throws
            | Inr None \<Rightarrow> yields (checkFailed 10702)
            | Inr (Some executableTx) \<Rightarrow>
                (case (if ne_LIGHTWEIGHT env \<or> ne_ENABLE_EARLY_TX_SIG_VERIF env then Inr True
                       else verifyTransaction (ne_tx env) (Some executableTx) chain_id) of
                   Inl e \<Rightarrow> throws
                 | Inr False \<Rightarrow> yields (checkFailed 10703)
                 | Inr True \<Rightarrow>
                     (case accountRoomFailure env nd isFreeTx executableTx of
                        Some code \<Rightarrow> yields (checkFailed code)
                      | None \<Rightarrow> executeForPool env executableTx isDryrun))))"

subsection \<open>Transactions of a new block\<close>

record valid_txs =
  vt_transactions :: "transaction list"
  vt_receipts :: "jsval list"
  vt_gasAmountTotal :: rat
  vt_gasCostTotal :: rat

definition budgetsOf :: "node_env \<Rightarrow> node_state \<Rightarrow> string option \<Rightarrow> bandwidth_budgets" where
  "budgetsOf env nd stateVersion =
     (let param = (\<lambda>name. numberOrZero (nodeParamAt env nd ''resource'' name (lastBlockNumber (nd_bc nd)) stateVersion))
      in getBandwidthBudgets (param ''bandwidth_budget_per_block'') (param ''service_bandwidth_budget_ratio'')
           (param ''apps_bandwidth_budget_ratio'') (param ''free_bandwidth_budget_ratio''))"

text \<open>
  The candidates are clones of the transactions of the pool, so executing them does not change the
  pool. The temporary database they are selected on is made and destroyed; without a state of the
  version the list is \<open>null\<close> and the loop over it throws.
\<close>

definition candidatesFor :: "node_env \<Rightarrow> block list \<Rightarrow> (check_state, transaction list) call" where
  "candidatesFor env excludeBlockList =
     followed_by state_of (\<lambda>(nd, db).
       if \<not> hasVersion (nd_manager nd) (db_stateVersion db) then throws
       else yields (getValidTransactions (ne_sort env) (xe_proofHash (ne_exec env)) (ne_ENABLE_TX_BANDWIDTH_CHECK_PER_BLOCK env)
              (budgetsOf env nd (db_stateVersion db)) excludeBlockList (db_root db) (nd_tp nd)))"

fun executeCandidates ::
  "node_env \<Rightarrow> tx_options \<Rightarrow> transaction list
   \<Rightarrow> (check_state, (transaction \<times> exec_result) list \<times> transaction list) call" where
  "executeCandidates env opts [] = yields ([], [])"
| "executeCandidates env opts (tx # txs) =
     followed_by (on_db (executeTransaction (ne_exec env) opts tx)) (\<lambda>res.
       followed_by (executeCandidates env opts txs) (\<lambda>(valid, invalid).
         if txPrecheckFailed res then yields (valid, tx # invalid) else yields ((tx, res) # valid, invalid)))"

definition changeTxPool :: "(tx_pool \<Rightarrow> tx_pool) \<Rightarrow> (check_state, unit) call" where
  "changeTxPool f st = (case st of (nd, db) \<Rightarrow> (Accepted (), (nd\<lparr>nd_tp := f (nd_tp nd)\<rparr>, db)))"

definition executeAndGetValidTransactions ::
  "node_env \<Rightarrow> block list \<Rightarrow> int \<Rightarrow> rat \<Rightarrow> (check_state, valid_txs) call" where
  "executeAndGetValidTransactions env longestNotarizedChain blockNumber blockTime =
     followed_by (candidatesFor env longestNotarizedChain) (\<lambda>candidates.
     followed_by (executeCandidates env (blockOptions False True blockNumber blockTime JNull) candidates) (\<lambda>(valid, invalid).
     followed_by (changeTxPool (removeInvalidTxsFromPool invalid)) (\<lambda>_.
     followed_by state_of (\<lambda>(nd, db).
       let gasPriceUnit = numberOrZero (nodeParamAt env nd ''resource'' ''gas_price_unit'' blockNumber (db_stateVersion db));
           flooring = flagEnabled (ne_exec env) ''allow_up_to_6_decimal_transfer_value_only'' (JNum (of_int blockNumber));
           (gasAmountTotal, gasCostTotal) =
             getServiceGasCostTotalFromTxList (map fst valid) (map (xr_gasAmountCharged \<circ> snd) valid) gasPriceUnit flooring
       in yields \<lparr>vt_transactions = map fst valid, vt_receipts = map (trimExecutionResult \<circ> snd) valid,
                  vt_gasAmountTotal = gasAmountTotal, vt_gasCostTotal = gasCostTotal\<rparr>))))"

subsection \<open>Finalization\<close>

text \<open>A receipt read as a result: only its code and the codes of its list matter for \<open>isFailedTx\<close>.\<close>

definition code_of :: "jsval \<Rightarrow> int" where
  "code_of v = (case prop_get v ''code'' of JNum q \<Rightarrow> \<lfloor>q\<rfloor> | _ \<Rightarrow> -1)"

definition receiptResult :: "jsval \<Rightarrow> tx_result option" where
  "receiptResult receipt =
     (case receipt of
        JObj ps \<Rightarrow>
          Some (TxResult (code_of receipt) 0 [] []
            (case prop_get receipt ''result_list'' of
               JObj rs \<Rightarrow> Some (enumerate 0 (map (\<lambda>(i, r). TxResult (code_of r) 0 [] [] None) rs))
             | _ \<Rightarrow> None))
      | _ \<Rightarrow> None)"

definition invalidBlocksRecorded :: "block \<Rightarrow> jsval list" where
  "invalidBlocksRecorded b =
     concat (map (\<lambda>(offender, evidenceList).
       map (\<lambda>e. prop_get (ev_block e) ''hash'') (filter (\<lambda>e. ev_offense_type e = ''INVALID_PROPOSAL'') evidenceList)) (b_evidence b))"

record finalizing =
  fi_recorded :: "jsval list"
  fi_lastFinalized :: "block option"
  fi_stopped :: bool

definition finalizeBlock :: "node_env \<Rightarrow> bool \<Rightarrow> block \<Rightarrow> finalizing \<Rightarrow> (node_state, finalizing) call" where
  "finalizeBlock env writeToDisk b st nd =
     (if b_number b \<le> lastBlockNumber (nd_bc nd) then (Accepted st, nd)
      else
        (case addBlockToChainAndWriteToDisk (ne_chain env) (ne_now env) True b writeToDisk (nd_bc nd) of
           None \<Rightarrow> (Thrown, nd)
         | Some (False, bc) \<Rightarrow> (Accepted (st\<lparr>fi_stopped := True\<rparr>), nd)
         | Some (True, bc) \<Rightarrow>
             let tp = cleanUpForFinalizedBlock (ne_pool env) (ne_now env) (map receiptResult (b_receipts b)) b (nd_tp nd);
                 nd1 = nd\<lparr>nd_bc := bc, nd_tp := tp\<rparr>
             in (case map_of (bp_hashToDb (nd_bp nd)) (b_hash b) of
                   None \<Rightarrow> (Thrown, nd1)
                 | Some db \<Rightarrow>
                     (Accepted \<lparr>fi_recorded = fi_recorded st @ invalidBlocksRecorded b, fi_lastFinalized = Some b, fi_stopped = False\<rparr>,
                      cloneAndFinalizeVersion (db_stateVersion db) (b_number b) nd1))))"

text \<open>The number of a missing block is read, which throws.\<close>

fun finalizeBlocks :: "node_env \<Rightarrow> bool \<Rightarrow> block option list \<Rightarrow> finalizing \<Rightarrow> (node_state, finalizing) call" where
  "finalizeBlocks env writeToDisk [] st = yields st"
| "finalizeBlocks env writeToDisk (None # blocks) st = throws"
| "finalizeBlocks env writeToDisk (Some b # blocks) st =
     followed_by (finalizeBlock env writeToDisk b st) (\<lambda>st'.
       if fi_stopped st' then yields st' else finalizeBlocks env writeToDisk blocks st')"

text \<open>The front database with the transactions of the pool; the result is not used.\<close>

definition updateFrontDb :: "node_env \<Rightarrow> block \<Rightarrow> (node_state, unit) call" where
  "updateFrontDb env lastFinalizedBlock nd =
     (case executeAndGetValidTransactions env [] (b_number lastFinalizedBlock) (b_timestamp lastFinalizedBlock) (nd, nd_db nd) of
        (Accepted _, (nd', db)) \<Rightarrow> (Accepted (), nd'\<lparr>nd_db := db\<rparr>)
      | (Rejected code, (nd', db)) \<Rightarrow> (Rejected code, nd'\<lparr>nd_db := db\<rparr>)
      | (Thrown, (nd', db)) \<Rightarrow> (Thrown, nd'\<lparr>nd_db := db\<rparr>)
      | (NoReturn, (nd', db)) \<Rightarrow> (NoReturn, nd'\<lparr>nd_db := db\<rparr>))"

definition cleanUpBlockPool :: "node_env \<Rightarrow> jsval list \<Rightarrow> (node_state, unit) call" where
  "cleanUpBlockPool env recordedInvalidBlocks nd =
     (case lastBlock (nd_bc nd) of
        None \<Rightarrow> (Thrown, nd)
      | Some lastB \<Rightarrow>
          (case cleanUpAfterFinalization (nd_bc nd) (nodeParam env nd ''consensus'' ''max_invalid_blocks_on_mem'') lastB
                  recordedInvalidBlocks (nd_bp nd) (nd_tp nd) of
             None \<Rightarrow> (NoReturn, nd)
           | Some (bp, tp, destroyed) \<Rightarrow> (Accepted (), foldr destroyNodeDb (rev destroyed) (nd\<lparr>nd_bp := bp, nd_tp := tp\<rparr>))))"

text \<open>All blocks but the last one are finalized; a single block only when it is the genesis block.\<close>

definition blocksToFinalize :: "block option list \<Rightarrow> block option list option" where
  "blocksToFinalize chain =
     (case chain of
        [None] \<Rightarrow> None
      | [Some b] \<Rightarrow> Some (if b_number b \<noteq> 0 then [] else [Some b])
      | _ \<Rightarrow> Some (butlast chain))"

definition tryFinalizeChain :: "node_env \<Rightarrow> bool \<Rightarrow> bool \<Rightarrow> (node_state, unit) call" where
  "tryFinalizeChain env isGenesisStart writeToDisk =
     followed_by state_of (\<lambda>nd.
       case getFinalizableChain (nd_bc nd) (nd_bp nd) isGenesisStart of
         None \<Rightarrow> no_return
       | Some [] \<Rightarrow> yields ()
       | Some finalizableChain \<Rightarrow>
           (case blocksToFinalize finalizableChain of
              None \<Rightarrow> throws
            | Some blocks \<Rightarrow>
                followed_by (finalizeBlocks env writeToDisk blocks \<lparr>fi_recorded = [], fi_lastFinalized = None, fi_stopped = False\<rparr>) (\<lambda>st.
                  if fi_stopped st then yields ()
                  else (case fi_lastFinalized st of
                          None \<Rightarrow> yields ()
                        | Some b \<Rightarrow>
                            followed_by (if ne_UPDATE_NEW_FINAL_FRONT_DB_WITH_TX_POOL env then updateFrontDb env b else yields ()) (\<lambda>_.
                              cleanUpBlockPool env (fi_recorded st))))))"

subsection \<open>Blocks of peers and of the disk\<close>

definition proposalOfNext :: "block list \<Rightarrow> transaction option" where
  "proposalOfNext blocks = (case blocks of [] \<Rightarrow> None | b # bs \<Rightarrow> filterProposalFromVotes (b_last_votes b))"

text \<open>Whether all blocks were merged: the first one that fails ends the loop, its error is caught.\<close>

fun mergeBlocks :: "node_env \<Rightarrow> block list \<Rightarrow> (node_state, bool) call" where
  "mergeBlocks env [] = yields True"
| "mergeBlocks env (b # bs) =
     followed_by state_of (\<lambda>nd.
       if hasSeenBlock (nd_bp nd) (b_hash b) then mergeBlocks env bs
       else (\<lambda>nd. case followed_by (validateAndExecuteBlockOnDb env False (Some b) ''SEGMENT'' (proposalOfNext bs) True)
                         (\<lambda>_. tryFinalizeChain env False True) nd of
                    (Accepted _, nd') \<Rightarrow> mergeBlocks env bs nd'
                  | (NoReturn, nd') \<Rightarrow> (NoReturn, nd')
                  | (_, nd') \<Rightarrow> (Accepted False, nd')))"

definition mergeChainSegment :: "node_env \<Rightarrow> block list \<Rightarrow> (node_state, int) call" where
  "mergeChainSegment env chainSegment =
     followed_by state_of (\<lambda>nd.
       if chainSegment = [] then (\<lambda>nd. (Accepted 1, nd\<lparr>nd_status := SERVING\<rparr>))
       else if b_number (last chainSegment) < lastBlockNumber (nd_bc nd) then yields 1
       else (case getValidBlocksInChainSegment (ne_chain env) (nd_bc nd) chainSegment of
               None \<Rightarrow> throws
             | Some [] \<Rightarrow> yields (-1)
             | Some validBlocks \<Rightarrow> followed_by (mergeBlocks env validBlocks) (\<lambda>merged. yields (if merged then 0 else -1))))"

definition loadFromSnapshot ::
  "node_env \<Rightarrow> int \<Rightarrow> block \<Rightarrow> transaction option \<Rightarrow> string option \<Rightarrow> (node_state, bool) call" where
  "loadFromSnapshot env number b proposalTx latestSnapshotStateVersion =
     followed_by (on_pool (\<lambda>bc bp. addSeenBlock (ne_chain env) bc b proposalTx True True bp)) (\<lambda>added.
       if \<not> added then yields False
       else (\<lambda>nd. case createTempDb env latestSnapshotStateVersion (versionText ''LOAD'' [number]) number nd of
                    (None, nd') \<Rightarrow> (Thrown, nd')
                  | (Some db, nd') \<Rightarrow> (Accepted True, nd'\<lparr>nd_bp := addToHashToDbMap (b_hash b) db (nd_bp nd')\<rparr>)))"

definition loadAndExecute :: "node_env \<Rightarrow> int \<Rightarrow> block \<Rightarrow> transaction option \<Rightarrow> bool \<Rightarrow> (node_state, bool) call" where
  "loadAndExecute env number b proposalTx isGenesisStart =
     followed_by (validateAndExecuteBlockOnDb env True (Some b) ''LOAD'' proposalTx True) (\<lambda>_.
       if number = 0 then
         (\<lambda>nd. case addBlockToChainAndWriteToDisk (ne_chain env) (ne_now env) True b False (nd_bc nd) of
                 None \<Rightarrow> (Thrown, nd)
               | Some (added, bc) \<Rightarrow>
                   (case map_of (bp_hashToDb (nd_bp nd)) (b_hash b) of
                      None \<Rightarrow> (Thrown, nd\<lparr>nd_bc := bc\<rparr>)
                    | Some db \<Rightarrow> (Accepted True, cloneAndFinalizeVersion (db_stateVersion db) 0 (nd\<lparr>nd_bc := bc\<rparr>))))
       else followed_by (tryFinalizeChain env isGenesisStart False) (\<lambda>_. yields True))"

text \<open>
  The loop over the numbers of the blocks on disk; the number of the latest one is given, \<open>startsFromSnapshot\<close>
  is the fast or the peer mode. An exception ends the loop with \<open>false\<close>; when a snapshot has no clone
  the missing database would be kept, here the loop ends.
\<close>

fun loadBlocks ::
  "node_env \<Rightarrow> bool \<Rightarrow> int \<Rightarrow> string option \<Rightarrow> bool \<Rightarrow> nat \<Rightarrow> int \<Rightarrow> (node_state, bool) call" where
  "loadBlocks env startsFromSnapshot snapshotNumber snapshotVersion isGenesisStart 0 number = yields True"
| "loadBlocks env startsFromSnapshot snapshotNumber snapshotVersion isGenesisStart (Suc n) number =
     followed_by state_of (\<lambda>nd.
       let proposalTx = (case loadBlock (ne_chain env) (nd_bc nd) (of_int (number + 1)) of
                           None \<Rightarrow> None | Some nextBlock \<Rightarrow> filterProposalFromVotes (b_last_votes nextBlock))
       in case loadBlock (ne_chain env) (nd_bc nd) (of_int number) of
            None \<Rightarrow> yields False
          | Some b \<Rightarrow>
              (\<lambda>nd. case (if snapshotNumber = number \<and> startsFromSnapshot
                          then loadFromSnapshot env number b proposalTx snapshotVersion
                          else loadAndExecute env number b proposalTx isGenesisStart) nd of
                      (Accepted True, nd') \<Rightarrow>
                        loadBlocks env startsFromSnapshot snapshotNumber snapshotVersion isGenesisStart n (number + 1) nd'
                    | (NoReturn, nd') \<Rightarrow> (NoReturn, nd')
                    | (_, nd') \<Rightarrow> (Accepted False, nd')))"

definition loadAndExecuteChainOnDb ::
  "node_env \<Rightarrow> int \<Rightarrow> bool \<Rightarrow> int \<Rightarrow> string option \<Rightarrow> bool \<Rightarrow> (node_state, bool) call" where
  "loadAndExecuteChainOnDb env latestBlockNumber startsFromSnapshot snapshotNumber snapshotVersion isGenesisStart =
     (if latestBlockNumber < 0 then yields False
      else
        let fromBlockNumber = (if startsFromSnapshot then max snapshotNumber 0 else 0)
        in loadBlocks env startsFromSnapshot snapshotNumber snapshotVersion isGenesisStart
             (nat (latestBlockNumber + 1 - fromBlockNumber)) fromBlockNumber)"

end
