(* ===== verification/ConsensusState.thy ===== *)
theory ConsensusState
  imports NodeChain
begin

text \<open>
  The state of \<open>consensus/index.js\<close> and what it reads from the node: the last notarized block and the
  chain to extend, the databases of blocks, the validators of the next block and the votes the node has
  already given. A node that runs the consensus has its account. What the consensus sends to peers is
  collected in a list.
\<close>

subsection \<open>The state\<close>

datatype consensus_status = ConsensusStarting | ConsensusRunning | ConsensusStopped

text \<open>
  The content of a message: a proposal of a block with its transaction, either of which may be missing, a
  vote, or a message of another type or without a value. A block in a message has its required fields.
\<close>

datatype consensus_content =
  ProposeContent "block option" "transaction option" | VoteContent transaction | OtherContent

record consensus_message =
  cm_content :: consensus_content
  cm_consensusProtoVer :: "string option"

datatype sent = Broadcast consensus_message | RequestChainSegment

record consensus_state =
  cs_node :: node_state
  cs_state :: consensus_status
  cs_stateChangedBlockNumber :: int
  cs_epoch :: int
  cs_proposer :: "string option"
  cs_validators :: "(string \<times> jsval) list"
  cs_cache :: "(int \<times> string) list"
  cs_startingTime :: rat
  cs_timeAdjustment :: rat
  cs_epochMs :: rat
  cs_healthThresholdEpoch :: jsval
  cs_lastEpochTransitionRenewed :: rat
  cs_sent :: "sent list"

definition on_chain_node :: "(node_state, 'a) call \<Rightarrow> (consensus_state, 'a) call" where
  "on_chain_node m cs = (case m (cs_node cs) of (v, nd) \<Rightarrow> (v, cs\<lparr>cs_node := nd\<rparr>))"

definition sends :: "sent \<Rightarrow> (consensus_state, unit) call" where
  "sends msg cs = (Accepted (), cs\<lparr>cs_sent := cs_sent cs @ [msg]\<rparr>)"

text \<open>The result of a call inside \<open>try\<close>.\<close>

definition attempt :: "('s, 'a) call \<Rightarrow> ('s, 'a verdict) call" where
  "attempt m s = (case m s of (NoReturn, s') \<Rightarrow> (NoReturn, s') | (v, s') \<Rightarrow> (Accepted v, s'))"

definition from_option :: "'a option \<Rightarrow> ('s, 'a) call" where
  "from_option x = (case x of None \<Rightarrow> throws | Some y \<Rightarrow> yields y)"

definition setConsensusState :: "consensus_status \<Rightarrow> consensus_state \<Rightarrow> consensus_state" where
  "setConsensusState state cs =
     cs\<lparr>cs_state := state, cs_stateChangedBlockNumber := lastBlockNumber (nd_bc (cs_node cs))\<rparr>"

definition isRunning :: "consensus_state \<Rightarrow> bool" where
  "isRunning cs = (cs_state cs = ConsensusRunning)"

subsection \<open>Notarized blocks\<close>

text \<open>The candidate is compared with the block of every tip; without a finalized block that throws.\<close>

fun latestTip :: "'db block_pool \<Rightarrow> string list \<Rightarrow> block option \<Rightarrow> block option option" where
  "latestTip bp [] candidate = Some candidate"
| "latestTip bp (chainTip # tips) candidate =
     (case blockOf bp (JStr chainTip) of
        None \<Rightarrow> latestTip bp tips candidate
      | Some b \<Rightarrow>
          (case candidate of
             None \<Rightarrow> None
           | Some c \<Rightarrow> latestTip bp tips (if b_epoch b > b_epoch c then Some b else Some c)))"

definition getLastNotarizedBlock :: "(node_state, block option) call" where
  "getLastNotarizedBlock =
     followed_by state_of (\<lambda>nd. from_option (latestTip (nd_bp nd) (bp_longestNotarizedChainTips (nd_bp nd)) (lastBlock (nd_bc nd))))"

text \<open>The blocks and the recorded invalid blocks, \<^const>\<open>None\<close> when the search gave the empty array.\<close>

definition getLongestNotarizedChain :: "(node_state, (block list \<times> jsval list) option) call" where
  "getLongestNotarizedChain =
     followed_by getLastNotarizedBlock (\<lambda>lastNotarizedBlock.
       case lastNotarizedBlock of
         None \<Rightarrow> throws
       | Some b \<Rightarrow>
           followed_by state_of (\<lambda>nd.
             case getExtendingChain (nd_bc nd) (nd_bp nd) (JStr (b_hash b)) of
               None \<Rightarrow> no_return
             | Some NoFinalizedBlock \<Rightarrow> throws
             | Some MissingChain \<Rightarrow> yields None
             | Some (Extending chain recordedSet) \<Rightarrow> yields (Some (List.map_filter bi_block chain, recordedSet))))"

text \<open>The infos of the blocks of all longest chains, each block once.\<close>

definition info_hash :: "block_info \<Rightarrow> string option" where
  "info_hash info = map_option b_hash (bi_block info)"

definition unionWithHash :: "block_info list \<Rightarrow> block_info list \<Rightarrow> block_info list" where
  "unionWithHash res chain =
     foldl (\<lambda>acc info. if info_hash info \<in> set (map info_hash acc) then acc else acc @ [info]) [] (res @ chain)"

fun catchUpFrom :: "node_state \<Rightarrow> string list \<Rightarrow> block_info list \<Rightarrow> (node_state, block_info list) call" where
  "catchUpFrom nd [] res = yields res"
| "catchUpFrom nd (chainTip # tips) res =
     (case getExtendingChain (nd_bc nd) (nd_bp nd) (JStr chainTip) of
        None \<Rightarrow> no_return
      | Some NoFinalizedBlock \<Rightarrow> throws
      | Some MissingChain \<Rightarrow> catchUpFrom nd tips (unionWithHash res [])
      | Some (Extending chain recordedSet) \<Rightarrow> catchUpFrom nd tips (unionWithHash res chain))"

definition getCatchUpInfo :: "(node_state, block_info list) call" where
  "getCatchUpInfo = followed_by state_of (\<lambda>nd. catchUpFrom nd (bp_longestNotarizedChainTips (nd_bp nd)) [])"

subsection \<open>The database of a block\<close>

text \<open>
  The loop goes back to a block with a database; \<^const>\<open>None\<close> is a loop that does not end. When the previous
  block is not in the pool, the block of the current hash is looked up, which is the block itself.
\<close>

partial_function (option) snapChain ::
  "chain_config \<Rightarrow> blockchain \<Rightarrow> db_state block_pool \<Rightarrow> block option \<Rightarrow> string \<Rightarrow> block list \<Rightarrow> (block option \<times> string \<times> block list) option" where
  "snapChain cfg bc bp currBlock hsh chain =
     (case currBlock of
        None \<Rightarrow> Some (currBlock, hsh, chain)
      | Some b \<Rightarrow>
          if hsh = [] \<or> Some hsh = map_option b_hash (lastBlock bc) \<or> map_of (bp_hashToDb bp) hsh \<noteq> None
          then Some (currBlock, hsh, chain)
          else
            let prev = (case blockOf bp (JStr (b_last_hash b)) of
                          Some p \<Rightarrow> Some p | None \<Rightarrow> getBlockByHash cfg bc hsh)
            in snapChain cfg bc bp prev (case prev of None \<Rightarrow> [] | Some p \<Rightarrow> b_hash p) (b # chain))"

declare snapChain.simps [code]

text \<open>Executing the blocks of the chain: the first one that fails ends the search.\<close>

fun applyChain :: "node_env \<Rightarrow> block list \<Rightarrow> (node_state, bool) call" where
  "applyChain env [] = yields True"
| "applyChain env (b # bs) =
     (\<lambda>nd. case validateAndExecuteBlockOnDb env False (Some b) ''SNAP'' (proposalOfNext bs) False nd of
             (Accepted _, nd') \<Rightarrow> applyChain env bs nd'
           | (NoReturn, nd') \<Rightarrow> (NoReturn, nd')
           | (_, nd') \<Rightarrow> (Accepted False, nd'))"

definition getSnapDb :: "node_env \<Rightarrow> block \<Rightarrow> (node_state, db_state option) call" where
  "getSnapDb env latestBlock =
     followed_by state_of (\<lambda>nd.
       case snapChain (ne_chain env) (nd_bc nd) (nd_bp nd) (Some latestBlock) (b_hash latestBlock) [] of
         None \<Rightarrow> no_return
       | Some (currBlock, hsh, chain) \<Rightarrow>
           if currBlock = None \<or> hsh = [] then yields None
           else followed_by (applyChain env chain) (\<lambda>applied.
                  if \<not> applied then yields None
                  else followed_by state_of (\<lambda>nd'. yields (map_of (bp_hashToDb (nd_bp nd')) (b_hash latestBlock)))))"

subsection \<open>Validators\<close>

definition rootOf :: "node_state \<Rightarrow> string option \<Rightarrow> snode" where
  "rootOf nd stateVersion =
     (case stateVersion of
        None \<Rightarrow> emptySNode
      | Some v \<Rightarrow> (case getRoot (nd_manager nd) v of None \<Rightarrow> emptySNode | Some rt \<Rightarrow> rt))"

definition getProposerWhitelist :: "node_state \<Rightarrow> string option \<Rightarrow> jsval" where
  "getProposerWhitelist nd stateVersion =
     js_or (getValueFromStateRoot (rootOf nd stateVersion) getConsensusProposerWhitelistPath) (JObj [])"

definition getValidatorWhitelist :: "node_state \<Rightarrow> string option \<Rightarrow> jsval" where
  "getValidatorWhitelist nd stateVersion =
     js_or (getValueFromStateRoot (rootOf nd stateVersion) getConsensusValidatorWhitelistPath) (JObj [])"

definition getConsensusStakeFromAddr :: "node_state \<Rightarrow> string option \<Rightarrow> string \<Rightarrow> jsval" where
  "getConsensusStakeFromAddr nd stateVersion address =
     js_or (getValueFromStateRoot (rootOf nd stateVersion) (getConsensusStakingAccountBalancePath address)) (JNum 0)"

record candidate =
  cd_address :: string
  cd_stake :: jsval
  cd_expireAt :: jsval
  cd_proposal_right :: bool

definition candidateFor ::
  "(string \<Rightarrow> jsval) \<Rightarrow> jsval \<Rightarrow> jsval \<Rightarrow> jsval \<Rightarrow> jsval \<Rightarrow> string \<times> jsval \<Rightarrow> candidate option" where
  "candidateFor stakeOf proposerWhitelist validatorWhitelist minStakeForProposer maxStakeForProposer entry =
     (case entry of (address, stakeInfo) \<Rightarrow>
        let stake = stakeOf address;
            c = \<lparr>cd_address = address, cd_stake = stake,
                 cd_expireAt = js_get stakeInfo [Key ''0'', Key ''expire_at''] (JNum 0), cd_proposal_right = True\<rparr>
        in if \<not> truthy stake then None
           else if prop_get proposerWhitelist address = JBool True then
             (if js_le minStakeForProposer stake \<and> js_le stake maxStakeForProposer then Some c else None)
           else if prop_get validatorWhitelist address = JBool True then Some (c\<lparr>cd_proposal_right := False\<rparr>)
           else None)"

text \<open>With a proposal right first, then by stake and by expiration, the greater first, then by address.\<close>

definition ranksBefore :: "candidate \<Rightarrow> candidate \<Rightarrow> bool" where
  "ranksBefore c d =
     (if cd_proposal_right c \<noteq> cd_proposal_right d then cd_proposal_right c
      else if js_lt (cd_stake d) (cd_stake c) then True
      else if js_lt (cd_stake c) (cd_stake d) then False
      else if js_lt (cd_expireAt d) (cd_expireAt c) then True
      else if js_lt (cd_expireAt c) (cd_expireAt d) then False
      else string_less (cd_address c) (cd_address d))"

fun firstValidators :: "jsval \<Rightarrow> candidate list \<Rightarrow> (string \<times> jsval) list \<Rightarrow> (string \<times> jsval) list" where
  "firstValidators maxNumValidators [] validators = validators"
| "firstValidators maxNumValidators (c # cs) validators =
     (if js_lt (JNum (of_nat (length validators))) maxNumValidators
      then firstValidators maxNumValidators cs
             (AList.update (cd_address c)
                (JObj [(''stake'', cd_stake c), (''proposal_right'', JBool (cd_proposal_right c))]) validators)
      else validators)"

text \<open>The version of the state of the block; it throws without one.\<close>

definition versionOfBlock :: "node_state \<Rightarrow> string \<Rightarrow> string option" where
  "versionOfBlock nd hsh =
     (case lastBlock (nd_bc nd) of
        None \<Rightarrow> None
      | Some b \<Rightarrow>
          (case (if b_hash b = hsh then sm_finalVersion (nd_manager nd)
                 else (case map_of (bp_hashToDb (nd_bp nd)) hsh of Some db \<Rightarrow> db_stateVersion db | None \<Rightarrow> None)) of
             Some v \<Rightarrow> if v = [] then None else Some v
           | None \<Rightarrow> None))"

definition validatorCandidates :: "node_env \<Rightarrow> node_state \<Rightarrow> int \<Rightarrow> string option \<Rightarrow> string option \<Rightarrow> candidate list" where
  "validatorCandidates env nd blockNumber paramVersion stateVersion =
     List.map_filter
       (candidateFor (getConsensusStakeFromAddr nd stateVersion)
          (getProposerWhitelist nd stateVersion) (getValidatorWhitelist nd stateVersion)
          (nodeParamAt env nd ''consensus'' ''min_stake_for_proposer'' blockNumber paramVersion)
          (nodeParamAt env nd ''consensus'' ''max_stake_for_proposer'' blockNumber paramVersion))
       (dict_of (js_or (getValueFromStateRoot (rootOf nd stateVersion) (getStakingServicePath ''consensus'')) (JObj [])))"

definition getValidators :: "node_env \<Rightarrow> node_state \<Rightarrow> string \<Rightarrow> int \<Rightarrow> string option \<Rightarrow> (string \<times> jsval) list option" where
  "getValidators env nd hsh blockNumber paramVersion =
     (case versionOfBlock nd hsh of
        None \<Rightarrow> None
      | Some stateVersion \<Rightarrow>
          Some (firstValidators (nodeParamAt env nd ''consensus'' ''max_num_validators'' blockNumber paramVersion)
                  (sort_by ranksBefore (validatorCandidates env nd blockNumber paramVersion (Some stateVersion))) []))"

subsection \<open>Votes of the node and of others\<close>

definition getValidatorsVotedFor :: "node_state \<Rightarrow> string \<Rightarrow> (string \<times> jsval) list option" where
  "getValidatorsVotedFor nd hsh =
     (case votesOf (infoOf (nd_bp nd) (JStr hsh)) of
        [] \<Rightarrow> None
      | votes \<Rightarrow>
          Some (foldl (\<lambda>validators voteTx.
            AList.update (tx_address voteTx) (js_get (tx_body voteTx) [Key ''operation'', Key ''value'', Key ''stake''] JUndef)
              validators) [] votes))"

definition votedIn :: "node_state \<Rightarrow> block_info option \<Rightarrow> bool" where
  "votedIn nd info = (\<exists>vote \<in> set (votesOf info). Some (tx_address vote) = nd_address nd)"

definition votedForEpoch :: "node_state \<Rightarrow> int \<Rightarrow> bool" where
  "votedForEpoch nd epoch =
     (case map_of (bp_epochToBlock (nd_bp nd)) epoch of
        None \<Rightarrow> False
      | Some hsh \<Rightarrow> if hsh = [] then False else votedIn nd (infoOf (nd_bp nd) (JStr hsh)))"

definition seenInfo :: "'db block_pool \<Rightarrow> jsval \<Rightarrow> block_info option" where
  "seenInfo bp hsh =
     (case infoOf bp hsh of Some info \<Rightarrow> Some info | None \<Rightarrow> map_of (bp_hashToInvalidBlockInfo bp) hsh)"

definition votedForBlock :: "node_state \<Rightarrow> string \<Rightarrow> bool" where
  "votedForBlock nd hsh = votedIn nd (seenInfo (nd_bp nd) (JStr hsh))"

subsection \<open>Health\<close>

definition timestampExceedsThreshold :: "rat \<Rightarrow> rat \<Rightarrow> jsval \<Rightarrow> bool" where
  "timestampExceedsThreshold now timestamp threshold =
     (if timestamp = 0 then True else js_lt threshold (JNum (now - timestamp)))"

definition isConsensusHealthy :: "node_env \<Rightarrow> consensus_state \<Rightarrow> block option \<Rightarrow> bool" where
  "isConsensusHealthy env cs lastFinalizedBlock =
     (case lastFinalizedBlock of
        None \<Rightarrow> False
      | Some b \<Rightarrow>
          js_lt (JNum (of_int (cs_epoch cs - b_epoch b))) (nodeParam env (cs_node cs) ''consensus'' ''health_threshold_epoch''))"

definition staking_tx_body :: "string \<Rightarrow> string \<Rightarrow> rat \<Rightarrow> jsval \<Rightarrow> jsval" where
  "staking_tx_body address recordId amount gasPrice =
     JObj [(''operation'', JObj [(''type'', JStr ''SET_VALUE''),
              (''ref'', JStr (getStakingStakeRecordValuePath ''consensus'' address ''0'' recordId)), (''value'', JNum amount)]),
           (''nonce'', JNum (-1)), (''gas_price'', gasPrice)]"

text \<open>The id of the record is generated by \<open>PushId\<close>.\<close>

definition stakingTransaction :: "node_env \<Rightarrow> node_state \<Rightarrow> string \<Rightarrow> rat \<Rightarrow> js_error + created option" where
  "stakingTransaction env nd recordId amount =
     (if amount \<le> 0 then Inr None
      else
        case createTransaction env nd
               (staking_tx_body (case nd_address nd of Some a \<Rightarrow> a | None \<Rightarrow> []) recordId amount
                  (nodeParam env nd ''resource'' ''min_gas_price'')) of
          Inl e \<Rightarrow> Inl e
        | Inr t \<Rightarrow> Inr (Some t))"

end
