(* ===== verification/ValidatorProps.thy ===== *)
theory ValidatorProps
  imports ConsensusState
begin

text \<open>
  The validators of the next block are the best candidates: what a candidate is, the order of the
  candidates, and how many of them are taken.
\<close>

subsection \<open>The order of candidates\<close>

definition numeric_candidate :: "candidate \<Rightarrow> bool" where
  "numeric_candidate c \<longleftrightarrow> (\<exists>s e. cd_stake c = JNum s \<and> cd_expireAt c = JNum e)"

text \<open>The rank of a candidate with numbers: rights, stake and expiration negated, then the address.\<close>

definition rank_key :: "candidate \<Rightarrow> rat list" where
  "rank_key c = [if cd_proposal_right c then 0 else 1, - numberOrZero (cd_stake c), - numberOrZero (cd_expireAt c)]"

fun key_less :: "rat list \<Rightarrow> rat list \<Rightarrow> bool" where
  "key_less (x # xs) (y # ys) = (x < y \<or> x = y \<and> key_less xs ys)"
| "key_less _ _ = False"

lemma ranksBefore_key:
  assumes "numeric_candidate c" "numeric_candidate d"
  shows "ranksBefore c d \<longleftrightarrow>
    key_less (rank_key c) (rank_key d) \<or> rank_key c = rank_key d \<and> string_less (cd_address c) (cd_address d)"
  using assms by (auto simp: numeric_candidate_def ranksBefore_def rank_key_def)

lemma key_less_asym: "key_less x y \<Longrightarrow> \<not> key_less y x"
  by (induction x y rule: key_less.induct) auto

lemma key_less_trans: "key_less x y \<Longrightarrow> key_less y z \<Longrightarrow> key_less x z"
  by (induction x y arbitrary: z rule: key_less.induct) (auto elim: key_less.elims)

lemma key_less_linear: "length x = length y \<Longrightarrow> key_less x y \<or> x = y \<or> key_less y x"
  by (induction x y rule: list_induct2) auto

lemma ranks_asym:
  "numeric_candidate c \<Longrightarrow> numeric_candidate d \<Longrightarrow> ranksBefore c d \<Longrightarrow> \<not> ranksBefore d c"
  by (simp add: ranksBefore_key) (metis key_less_asym string_less_asym)

lemma ranks_trans:
  "numeric_candidate c \<Longrightarrow> numeric_candidate d \<Longrightarrow> numeric_candidate e \<Longrightarrow> ranksBefore c d \<Longrightarrow> ranksBefore d e \<Longrightarrow> ranksBefore c e"
  using key_less_trans string_less_trans by (auto simp: ranksBefore_key)

lemma ranks_linear:
  "numeric_candidate c \<Longrightarrow> numeric_candidate d \<Longrightarrow> cd_address c \<noteq> cd_address d \<Longrightarrow> ranksBefore c d \<or> ranksBefore d c"
  using key_less_linear [of "rank_key c" "rank_key d"] string_less_linear [of "cd_address c" "cd_address d"]
  by (auto simp: ranksBefore_key rank_key_def)

subsection \<open>Sorting candidates\<close>

lemma set_insert_by: "set (insert_by prec x ys) = insert x (set ys)"
  by (induction ys) auto

lemma sorted_candidates:
  assumes "\<forall>c \<in> set cs. numeric_candidate c" "distinct (map cd_address cs)"
  shows "sorted_wrt ranksBefore (sort_by ranksBefore cs)"
proof -
  have ins: "sorted_wrt ranksBefore (insert_by ranksBefore c ds)"
    if "sorted_wrt ranksBefore ds" "numeric_candidate c" "\<forall>d \<in> set ds. numeric_candidate d \<and> cd_address d \<noteq> cd_address c" for c ds
    using that
  proof (induction ds)
    case (Cons d ds)
    show ?case
    proof (cases "ranksBefore d c")
      case True
      then show ?thesis using Cons by (auto simp: set_insert_by)
    next
      case False
      then have "ranksBefore c d" using Cons.prems ranks_linear [of c d] by auto
      then show ?thesis using Cons.prems False ranks_trans [of c d] by auto
    qed
  qed simp
  show ?thesis using assms by (induction cs) (auto intro!: ins, metis imageI)
qed

subsection \<open>Taking the first ones\<close>

definition validatorEntry :: "candidate \<Rightarrow> string \<times> jsval" where
  "validatorEntry c = (cd_address c, JObj [(''stake'', cd_stake c), (''proposal_right'', JBool (cd_proposal_right c))])"

lemma firstValidators_take:
  assumes "distinct (map fst vs @ map cd_address cs)"
  shows "firstValidators (JNum (of_nat m)) cs vs = vs @ map validatorEntry (take (m - length vs) cs)"
  using assms
proof (induction cs arbitrary: vs)
  case (Cons c cs)
  show ?case
  proof (cases "length vs < m")
    case True
    have "AList.update (cd_address c) v vs = vs @ [(cd_address c, v)]" for v
      using Cons.prems by (induction vs) auto
    then show ?thesis
      using Cons.IH [of "vs @ [validatorEntry c]"] Cons.prems True
      by (simp add: validatorEntry_def Suc_diff_Suc [symmetric])
  qed simp
qed simp

lemma candidateFor_address: "candidateFor f p v lo hi e = Some c \<Longrightarrow> cd_address c = fst e"
  by (auto simp: candidateFor_def Let_def split: prod.splits if_splits)

lemma candidates_distinct:
  assumes "distinct (map fst entries)"
  shows "distinct (map cd_address (List.map_filter (candidateFor f p v lo hi) entries))"
proof -
  have s: "set (map cd_address (List.map_filter (candidateFor f p v lo hi) es)) \<subseteq> set (map fst es)" for es
    by (induction es) (auto simp: List.map_filter_simps dest: candidateFor_address split: option.splits)
  show ?thesis using assms
  proof (induction entries)
    case (Cons e es)
    show ?case
    proof (cases "candidateFor f p v lo hi e")
      case None
      then show ?thesis using Cons by (simp add: List.map_filter_simps)
    next
      case (Some c)
      then have "cd_address c \<notin> set (map cd_address (List.map_filter (candidateFor f p v lo hi) es))"
        using s [of es] Cons.prems candidateFor_address [OF Some] by auto
      then show ?thesis using Cons Some by (simp add: List.map_filter_simps)
    qed
  qed (simp add: List.map_filter_simps)
qed

text \<open>Who may be a validator, with the right to propose or without.\<close>

definition eligible :: "node_env \<Rightarrow> node_state \<Rightarrow> int \<Rightarrow> string option \<Rightarrow> string option \<Rightarrow> string \<Rightarrow> bool \<Rightarrow> bool" where
  "eligible env nd blockNumber paramVersion stateVersion address right =
     (let stk = getConsensusStakeFromAddr nd stateVersion address;
          proposer = prop_get (getProposerWhitelist nd stateVersion) address = JBool True
      in truthy stk \<and>
         (if right then proposer \<and>
            js_le (nodeParamAt env nd ''consensus'' ''min_stake_for_proposer'' blockNumber paramVersion) stk \<and>
            js_le stk (nodeParamAt env nd ''consensus'' ''max_stake_for_proposer'' blockNumber paramVersion)
          else \<not> proposer \<and> prop_get (getValidatorWhitelist nd stateVersion) address = JBool True))"

lemma candidate_eligible:
  assumes "c \<in> set (validatorCandidates env nd n pv sv)"
  shows "eligible env nd n pv sv (cd_address c) (cd_proposal_right c) \<and> cd_stake c = getConsensusStakeFromAddr nd sv (cd_address c)"
  using assms
  by (auto simp: validatorCandidates_def List.map_filter_def candidateFor_def eligible_def Let_def split: if_splits)


end
