(* ===== verification/ConsensusStep.thy ===== *)
theory ConsensusStep
  imports ConsensusState
begin

text \<open>
  The steps of \<open>consensus/index.js\<close>: checking votes and proposals of peers, voting, proposing a block,
  catching up with a peer and the transition of epochs. Logging and traffic statistics are left out.
\<close>

subsection \<open>Checking a vote\<close>

definition checkConsensusProtocolVersion :: "node_env \<Rightarrow> consensus_message \<Rightarrow> bool" where
  "checkConsensusProtocolVersion env msg =
     (case cm_consensusProtoVer msg of
        None \<Rightarrow> False
      | Some v \<Rightarrow> v \<noteq> [] \<and> ne_validVersion env v \<and> ne_majorVersion env (ne_protocolVersion env) = ne_majorVersion env v)"

text \<open>The block of the vote: in the pool, an invalid one, or the last finalized block.\<close>

definition blockVotedFor :: "node_state \<Rightarrow> jsval \<Rightarrow> block option" where
  "blockVotedFor nd hsh =
     (case (case seenInfo (nd_bp nd) hsh of Some info \<Rightarrow> bi_block info | None \<Rightarrow> None) of
        Some b \<Rightarrow> Some b
      | None \<Rightarrow>
          (case lastBlock (nd_bc nd) of
             Some b \<Rightarrow> if hsh = JStr (b_hash b) then Some b else None
           | None \<Rightarrow> None))"

definition snapshotDb :: "node_env \<Rightarrow> string option \<Rightarrow> int \<Rightarrow> node_state \<Rightarrow> db_state option \<times> node_state" where
  "snapshotDb env stateVersion number nd = createTempDb env stateVersion (versionText ''SNAP'' [number]) number nd"

text \<open>The temporary database to try the vote on, with the number and the time of the block before.\<close>

definition dbForVote :: "node_env \<Rightarrow> transaction \<Rightarrow> block \<Rightarrow> (node_state, (db_state \<times> int \<times> rat) option) call" where
  "dbForVote env voteTx b =
     (if isAgainstVoteTx voteTx then
        if \<not> isValidatorOffenseType (getOffenseTypeFromVoteTx voteTx) then yields None
        else (\<lambda>nd. case lastBlock (nd_bc nd) of
                     None \<Rightarrow> (Thrown, nd)
                   | Some finalized \<Rightarrow>
                       (case snapshotDb env (sm_finalVersion (nd_manager nd)) (b_number finalized) nd of
                          (db, nd') \<Rightarrow>
                            (Accepted (map_option (\<lambda>d. (d, lastBlockNumber (nd_bc nd), lastBlockTimestamp (nd_bc nd))) db), nd')))
      else
        followed_by (getSnapDb env b) (\<lambda>snapDb.
          case snapDb of
            None \<Rightarrow> yields None
          | Some snap \<Rightarrow>
              (\<lambda>nd. case snapshotDb env (db_stateVersion snap) (b_number b) nd of
                      (db, nd') \<Rightarrow> (Accepted (map_option (\<lambda>d. (d, b_number b, b_timestamp b)) db), nd'))))"

text \<open>The vote is executed as it is created anew; the pool gets the vote as it came.\<close>

definition tryVote :: "node_env \<Rightarrow> transaction \<Rightarrow> db_state \<times> int \<times> rat \<Rightarrow> (node_state, bool) call" where
  "tryVote env executableTx on =
     (case on of (tempDb, prevBlockNumber, prevBlockTime) \<Rightarrow>
        followed_by (attempt (tryProposal env executableTx (prevBlockNumber + 1) prevBlockTime tempDb)) (\<lambda>v.
          case v of Accepted _ \<Rightarrow> yields True | Rejected _ \<Rightarrow> yields False | Thrown \<Rightarrow> throws | NoReturn \<Rightarrow> no_return))"

definition verifyVote :: "node_env \<Rightarrow> transaction \<Rightarrow> (node_state, bool) call" where
  "verifyVote env voteTx =
     (case isValidConsensusTx (ne_tx env) (ne_LIGHTWEIGHT env) (ne_now env) (chainId env) False voteTx of
        Inl e \<Rightarrow> throws
      | Inr False \<Rightarrow> yields False
      | Inr True \<Rightarrow>
          followed_by state_of (\<lambda>nd.
            case blockVotedFor nd (getBlockHashFromConsensusTx voteTx) of
              None \<Rightarrow> yields False
            | Some b \<Rightarrow>
                if js_lt (getTimestampFromVoteTx voteTx) (JNum (b_timestamp b)) then yields False
                else
                  (case toExecutable (ne_tx env) (ne_now env) False voteTx (nodeParam env nd ''genesis'' ''chain_id'') of
                     Inl e \<Rightarrow> throws
                   | Inr None \<Rightarrow> yields False
                   | Inr (Some executableTx) \<Rightarrow>
                       followed_by (dbForVote env voteTx b) (\<lambda>on.
                         case on of None \<Rightarrow> yields False | Some d \<Rightarrow> tryVote env executableTx d))))"

definition checkVoteTx :: "node_env \<Rightarrow> transaction \<Rightarrow> (node_state, bool) call" where
  "checkVoteTx env voteTx =
     followed_by (verifyVote env voteTx) (\<lambda>ok.
       if \<not> ok then yields False
       else on_pool (\<lambda>bc bp. map_option (Pair True) (addSeenVote (ne_chain env) bc voteTx bp)))"

subsection \<open>Voting\<close>

definition admits :: "node_env \<Rightarrow> consensus_message \<Rightarrow> consensus_state \<Rightarrow> bool" where
  "admits env msg cs = (checkConsensusProtocolVersion env msg \<and> isRunning cs)"

definition handleVote :: "node_env \<Rightarrow> consensus_message \<Rightarrow> transaction \<Rightarrow> (consensus_state, unit) call" where
  "handleVote env msg voteTx =
     followed_by state_of (\<lambda>cs.
       let nd = cs_node cs in
       if tracked_of (nd_tp nd) (tx_hash voteTx) \<noteq> None then yields ()
       else if js_lt (JNum (of_int (bp_heighestSeenBlockNumber (nd_bp nd)))) (getBlockNumberFromConsensusTx voteTx)
       then sends RequestChainSegment
       else followed_by (on_chain_node (checkVoteTx env voteTx)) (\<lambda>ok. if ok then sends (Broadcast msg) else yields ()))"

definition encapsulateConsensusMessage :: "node_env \<Rightarrow> consensus_content \<Rightarrow> consensus_message" where
  "encapsulateConsensusMessage env content =
     \<lparr>cm_content = content, cm_consensusProtoVer = Some (ne_protocolVersion env)\<rparr>"

definition handleOwnVote :: "node_env \<Rightarrow> transaction \<Rightarrow> (consensus_state, unit) call" where
  "handleOwnVote env voteTx =
     (let msg = encapsulateConsensusMessage env (VoteContent voteTx)
      in followed_by state_of (\<lambda>cs. if admits env msg cs then handleVote env msg voteTx else yields ()))"

definition vote_tx_body :: "block \<Rightarrow> string \<Rightarrow> rat \<Rightarrow> (string \<times> jsval) list \<Rightarrow> jsval" where
  "vote_tx_body b myAddr timestamp value =
     JObj [(''operation'', JObj [(''type'', JStr ''SET_VALUE''),
              (''ref'', JStr (getConsensusVotePath (int_text (b_number b)) (b_hash b) myAddr)),
              (''value'', JObj ((''block_hash'', JStr (b_hash b)) # value @ [(''vote_nonce'', JNum timestamp)]))]),
           (''nonce'', JNum (-1)), (''gas_price'', JNum 0), (''timestamp'', JNum timestamp)]"

text \<open>The vote is a plain object; without a created transaction that throws.\<close>

definition castVote :: "node_env \<Rightarrow> block \<Rightarrow> string \<Rightarrow> (string \<times> jsval) list \<Rightarrow> (consensus_state, unit) call" where
  "castVote env b myAddr value =
     followed_by state_of (\<lambda>cs.
       case createTransaction env (cs_node cs) (vote_tx_body b myAddr (ne_now env) value) of
         Inr (SingleTx (Some voteTx)) \<Rightarrow> handleOwnVote env (voteTx\<lparr>tx_extra := []\<rparr>)
       | _ \<Rightarrow> throws)"

definition tryVoteForValidBlock :: "node_env \<Rightarrow> block \<Rightarrow> (consensus_state, unit) call" where
  "tryVoteForValidBlock env proposalBlock =
     followed_by state_of (\<lambda>cs.
       if votedForEpoch (cs_node cs) (b_epoch proposalBlock) then yields ()
       else
         (case nd_address (cs_node cs) of
            None \<Rightarrow> throws
          | Some myAddr \<Rightarrow>
              let validatorInfo = prop_get (JObj (b_validators proposalBlock)) myAddr
              in if \<not> truthy validatorInfo then yields ()
                 else castVote env proposalBlock myAddr
                        [(''stake'', prop_get validatorInfo ''stake''), (''is_against'', JBool False)]))"

definition tryVoteAgainstInvalidBlock :: "node_env \<Rightarrow> block \<Rightarrow> (consensus_state, unit) call" where
  "tryVoteAgainstInvalidBlock env proposalBlock =
     followed_by state_of (\<lambda>cs.
       if votedForBlock (cs_node cs) (b_hash proposalBlock) then yields ()
       else
         (case nd_address (cs_node cs) of
            None \<Rightarrow> throws
          | Some myAddr \<Rightarrow>
              followed_by (on_chain_node getLastNotarizedBlock) (\<lambda>lastNotarizedBlock.
                case lastNotarizedBlock of
                  None \<Rightarrow> throws
                | Some lnb \<Rightarrow>
                    let validatorInfo = prop_get (JObj (b_validators lnb)) myAddr
                    in if \<not> truthy validatorInfo then yields ()
                       else castVote env proposalBlock myAddr
                              [(''stake'', prop_get validatorInfo ''stake''), (''is_against'', JBool True),
                               (''offense_type'', JStr ''INVALID_PROPOSAL'')])))"

subsection \<open>Handling a proposal\<close>

definition checkProposalBlockAndTx :: "node_env \<Rightarrow> block \<Rightarrow> transaction \<Rightarrow> (node_state, unit) call" where
  "checkProposalBlockAndTx env proposalBlock proposalTx =
     followed_by (validateAndExecuteBlockOnDb env False (Some proposalBlock) ''POOL'' (Some proposalTx) True) (\<lambda>_.
       followed_by state_of (\<lambda>nd.
         if b_number proposalBlock > 1 \<and> b_last_hash proposalBlock \<notin> set (bp_longestNotarizedChainTips (nd_bp nd))
         then rejects 90002 else yields ()))"

text \<open>The block enters the pool as an invalid one, and the node votes against it.\<close>

definition opposeProposal :: "node_env \<Rightarrow> consensus_message \<Rightarrow> block \<Rightarrow> transaction \<Rightarrow> (consensus_state, unit) call" where
  "opposeProposal env msg proposalBlock proposalTx =
     followed_by (on_chain_node (on_pool (\<lambda>bc bp. addSeenBlock (ne_chain env) bc proposalBlock (Some proposalTx) False False bp))) (\<lambda>_.
     followed_by (sends (Broadcast msg)) (\<lambda>_. tryVoteAgainstInvalidBlock env proposalBlock))"

definition judgeProposal :: "node_env \<Rightarrow> consensus_message \<Rightarrow> block \<Rightarrow> transaction \<Rightarrow> (consensus_state, unit) call" where
  "judgeProposal env msg proposalBlock proposalTx =
     followed_by (attempt (on_chain_node (checkProposalBlockAndTx env proposalBlock proposalTx))) (\<lambda>verdict.
       case verdict of
         Accepted _ \<Rightarrow> followed_by (sends (Broadcast msg)) (\<lambda>_. tryVoteForValidBlock env proposalBlock)
       | Rejected code \<Rightarrow> if isVoteAgainstBlockError code then opposeProposal env msg proposalBlock proposalTx else yields ()
       | _ \<Rightarrow> yields ())"

definition handleProposal ::
  "node_env \<Rightarrow> consensus_message \<Rightarrow> block option \<Rightarrow> transaction option \<Rightarrow> (consensus_state, unit) call" where
  "handleProposal env msg block_opt tx_opt =
     followed_by (on_chain_node getLastNotarizedBlock) (\<lambda>lastNotarizedBlock.
     followed_by state_of (\<lambda>cs.
       case (block_opt, tx_opt) of
         (Some proposalBlock, Some proposalTx) \<Rightarrow>
           if tracked_of (nd_tp (cs_node cs)) (tx_hash proposalTx) \<noteq> None then yields ()
           else if hasSeenBlock (nd_bp (cs_node cs)) (b_hash proposalBlock) then yields ()
           else
             (case lastNotarizedBlock of
                None \<Rightarrow> throws
              | Some lnb \<Rightarrow>
                  if b_number proposalBlock > b_number lnb + 1 then sends RequestChainSegment
                  else judgeProposal env msg proposalBlock proposalTx)
       | _ \<Rightarrow> yields ()))"

definition handleConsensusMessage :: "node_env \<Rightarrow> consensus_message \<Rightarrow> (consensus_state, unit) call" where
  "handleConsensusMessage env msg =
     followed_by state_of (\<lambda>cs.
       if \<not> admits env msg cs then yields ()
       else
         (case cm_content msg of
            ProposeContent proposalBlock proposalTx \<Rightarrow> handleProposal env msg proposalBlock proposalTx
          | VoteContent voteTx \<Rightarrow> handleVote env msg voteTx
          | OtherContent \<Rightarrow> yields ()))"

subsection \<open>Proposing\<close>

text \<open>
  Executing a vote for \<open>getValidLastVotes\<close> and \<open>getOffensesAndEvidence\<close>: whether it failed. An exception is
  kept as the verdict, and no vote is executed after it.
\<close>

type_synonym vote_run = "check_state \<times> unit verdict"

definition executeVoteTx :: "node_env \<Rightarrow> int \<Rightarrow> vote_run \<Rightarrow> transaction \<Rightarrow> bool \<times> vote_run" where
  "executeVoteTx env blockNumber run vote =
     (case run of (st, v) \<Rightarrow>
        if v \<noteq> Accepted () then (True, run)
        else
          (case on_db (executeExecutable (ne_tx env) (ne_exec env) (blockOptions True True blockNumber (ne_now env) JNull) False vote) st of
             (Accepted r, st') \<Rightarrow> (isFailedExecution r, (st', Accepted ()))
           | (Rejected code, st') \<Rightarrow> (True, (st', Rejected code))
           | (Thrown, st') \<Rightarrow> (True, (st', Thrown))
           | (NoReturn, st') \<Rightarrow> (True, (st', NoReturn))))"

definition resume :: "vote_run \<Rightarrow> 'a \<Rightarrow> 'a verdict \<times> check_state" where
  "resume run x =
     (case run of (st, v) \<Rightarrow>
        (case v of Accepted _ \<Rightarrow> Accepted x | Rejected code \<Rightarrow> Rejected code | Thrown \<Rightarrow> Thrown | NoReturn \<Rightarrow> NoReturn, st))"

definition destroyed :: "(check_state, unit) call" where
  "destroyed st = (case st of (nd, db) \<Rightarrow> (Accepted (), (destroyNodeDb db nd, db)))"

definition lastVotesFor :: "node_env \<Rightarrow> block \<Rightarrow> int \<Rightarrow> (check_state, transaction list) call" where
  "lastVotesFor env lastB blockNumber st =
     (case getValidLastVotes (executeVoteTx env blockNumber) (ne_chain env) lastB blockNumber (st, Accepted ()) (nd_bp (fst st)) of
        Inl NoLastBlockInfo \<Rightarrow> (Thrown, st)
      | Inl NotEnoughVotes \<Rightarrow> followed_by destroyed (\<lambda>_. throws) st
      | Inr (lastVotes, run) \<Rightarrow> resume run lastVotes)"

text \<open>Without the set of recorded blocks, looking up an invalid block in it throws.\<close>

definition offensesFor ::
  "node_env \<Rightarrow> (string \<times> jsval) list \<Rightarrow> jsval list option \<Rightarrow> int
   \<Rightarrow> (check_state, (string \<times> nat) list \<times> (string \<times> evidence list) list) call" where
  "offensesFor env validators recordedSet blockNumber st =
     (case recordedSet of
        None \<Rightarrow> if bp_hashToInvalidBlockInfo (nd_bp (fst st)) \<noteq> [] then (Thrown, st) else (Accepted ([], []), st)
      | Some hs \<Rightarrow>
          (case getOffensesAndEvidence (executeVoteTx env blockNumber) (ne_chain env) validators hs (st, Accepted ()) (nd_bp (fst st)) of
             (offenses, ev, run) \<Rightarrow> resume run (offenses, ev)))"

definition proposal_value ::
  "int \<Rightarrow> int \<Rightarrow> (string \<times> jsval) list \<Rightarrow> jsval \<Rightarrow> string \<Rightarrow> rat \<Rightarrow> (string \<times> nat) list \<Rightarrow> block \<Rightarrow> jsval" where
  "proposal_value blockNumber epoch validators totalAtStake myAddr gasCostTotal offenses proposalBlock =
     JObj ([(''number'', JNum (of_int blockNumber)), (''epoch'', JNum (of_int epoch)), (''validators'', JObj validators),
            (''total_at_stake'', totalAtStake), (''proposer'', JStr myAddr), (''block_hash'', JStr (b_hash proposalBlock)),
            (''last_hash'', JStr (b_last_hash proposalBlock)), (''timestamp'', JNum (b_timestamp proposalBlock)),
            (''gas_cost_total'', JNum gasCostTotal)] @
           (if offenses = [] then []
            else [(''offenses'', JObj (map (\<lambda>(a, n). (a, JObj [(''INVALID_PROPOSAL'', JNum (of_nat n))])) offenses))]))"

definition getProposalTx ::
  "node_env \<Rightarrow> node_state \<Rightarrow> int \<Rightarrow> int \<Rightarrow> (string \<times> jsval) list \<Rightarrow> jsval \<Rightarrow> rat \<Rightarrow> (string \<times> nat) list \<Rightarrow> block
   \<Rightarrow> js_error + created" where
  "getProposalTx env nd blockNumber epoch validators totalAtStake gasCostTotal offenses proposalBlock =
     (let myAddr = (case nd_address nd of Some a \<Rightarrow> a | None \<Rightarrow> []) in
      createTransaction env nd
        (JObj [(''operation'', JObj [(''type'', JStr ''SET''),
                  (''op_list'', JArr [JObj [(''type'', JStr ''SET_VALUE''),
                     (''ref'', JStr (getConsensusProposePath (int_text blockNumber))),
                     (''value'', proposal_value blockNumber epoch validators totalAtStake myAddr gasCostTotal offenses proposalBlock)]])]),
               (''nonce'', JNum (-1)), (''gas_price'', JNum 0)]))"

definition enoughValidators :: "node_env \<Rightarrow> block \<Rightarrow> (check_state, (string \<times> jsval) list) call" where
  "enoughValidators env lastB =
     followed_by state_of (\<lambda>(nd, db).
       case getValidators env nd (b_hash lastB) (b_number lastB) (db_stateVersion db) of
         None \<Rightarrow> throws
       | Some validators \<Rightarrow>
           if validators = [] \<or>
              js_lt (JNum (of_nat (length validators)))
                (nodeParamAt env nd ''consensus'' ''min_num_validators'' (b_number lastB) (db_stateVersion db))
           then followed_by destroyed (\<lambda>_. throws)
           else yields validators)"

definition proposeOnDb ::
  "node_env \<Rightarrow> int \<Rightarrow> block \<Rightarrow> block list \<Rightarrow> jsval list option \<Rightarrow> (check_state, block \<times> transaction) call" where
  "proposeOnDb env epoch lastB longestNotarizedChain recordedSet =
     (let blockNumber = b_number lastB + 1; blockTime = ne_now env in
      followed_by (lastVotesFor env lastB blockNumber) (\<lambda>lastVotes.
      followed_by (enoughValidators env lastB) (\<lambda>validators.
      followed_by (offensesFor env validators recordedSet blockNumber) (\<lambda>(offenses, ev).
      followed_by (executeAndGetValidTransactions env longestNotarizedChain blockNumber blockTime) (\<lambda>valid.
      followed_by (on_db (applyBandagesForBlockNumber env blockNumber)) (\<lambda>_.
      followed_by state_of (\<lambda>(nd, db).
        let totalAtStake = getTotalAtStake (cc_numText (ne_chain env)) validators;
            myAddr = (case nd_address nd of Some a \<Rightarrow> a | None \<Rightarrow> []);
            stateProofHash = (if ne_LIGHTWEIGHT env then [] else xe_proofHash (ne_exec env) (db_root db));
            proposalBlock =
              createBlock (cc_block_env (ne_chain env)) (ne_now env) (b_hash lastB) lastVotes ev (vt_transactions valid)
                (vt_receipts valid) blockNumber epoch stateProofHash myAddr validators (vt_gasAmountTotal valid)
                (vt_gasCostTotal valid) (Some blockTime)
        in case getProposalTx env nd blockNumber epoch validators totalAtStake (vt_gasCostTotal valid) offenses proposalBlock of
             Inr (SingleTx (Some proposalTx)) \<Rightarrow>
               followed_by destroyed (\<lambda>_. yields (proposalBlock, proposalTx\<lparr>tx_extra := []\<rparr>))
           | _ \<Rightarrow> throws)))))))"

text \<open>The block to extend and the version of its state.\<close>

definition blockToExtend :: "block list \<Rightarrow> blockchain \<Rightarrow> block option" where
  "blockToExtend longestNotarizedChain bc = (if longestNotarizedChain = [] then lastBlock bc else Some (last longestNotarizedChain))"

definition baseVersionFor :: "node_state \<Rightarrow> block \<Rightarrow> string option option" where
  "baseVersionFor nd lastB =
     (if b_number lastB = lastBlockNumber (nd_bc nd) then Some (sm_finalVersion (nd_manager nd))
      else map_option db_stateVersion (map_of (bp_hashToDb (nd_bp nd)) (b_hash lastB)))"

definition proposeOn :: "node_env \<Rightarrow> int \<Rightarrow> block \<Rightarrow> block list \<Rightarrow> jsval list option \<Rightarrow> (node_state, block \<times> transaction) call" where
  "proposeOn env epoch lastB longestNotarizedChain recordedSet nd =
     (case baseVersionFor nd lastB of
        None \<Rightarrow> (Thrown, nd)
      | Some baseVersion \<Rightarrow>
          (case createTempDb env baseVersion (versionText ''CONSENSUS_CREATE'' [b_number lastB, b_number lastB + 1]) (b_number lastB - 1) nd of
             (None, nd') \<Rightarrow> (Thrown, nd')
           | (Some tempDb, nd') \<Rightarrow>
               (case proposeOnDb env epoch lastB longestNotarizedChain recordedSet (nd', tempDb) of (v, (nd2, db)) \<Rightarrow> (v, nd2))))"

definition cacheProposal :: "node_env \<Rightarrow> block \<Rightarrow> (consensus_state, unit) call" where
  "cacheProposal env proposalBlock cs =
     (Accepted (), if ne_LIGHTWEIGHT env
                   then cs\<lparr>cs_cache := AList.update (b_number proposalBlock) (b_hash proposalBlock) (cs_cache cs)\<rparr> else cs)"

definition createProposal :: "node_env \<Rightarrow> int \<Rightarrow> (consensus_state, block \<times> transaction) call" where
  "createProposal env epoch =
     followed_by (on_chain_node getLongestNotarizedChain) (\<lambda>found.
     followed_by state_of (\<lambda>cs.
       let (longestNotarizedChain, recordedSet) = (case found of None \<Rightarrow> ([], None) | Some (c, r) \<Rightarrow> (c, Some r))
       in case blockToExtend longestNotarizedChain (nd_bc (cs_node cs)) of
            None \<Rightarrow> throws
          | Some lastB \<Rightarrow>
              if ne_LIGHTWEIGHT env \<and> b_number lastB + 1 > 1 \<and>
                 (case map_of (cs_cache cs) (b_number lastB + 1) of None \<Rightarrow> False | Some h \<Rightarrow> h \<noteq> [])
              then throws
              else if b_epoch lastB \<ge> epoch then throws
              else followed_by (on_chain_node (proposeOn env epoch lastB longestNotarizedChain recordedSet)) (\<lambda>(proposalBlock, proposalTx).
                   followed_by (cacheProposal env proposalBlock) (\<lambda>_. yields (proposalBlock, proposalTx)))))"

text \<open>\<open>areSameAddresses\<close> of \<open>ain-util\<close> compares the checksummed addresses.\<close>

definition areSameAddrs :: "node_env \<Rightarrow> string \<Rightarrow> string \<Rightarrow> bool" where
  "areSameAddrs env addr1 addr2 =
     (let re = va_rule_env (xe_valid (ne_exec env)) in re_toChecksumAddress re addr1 = re_toChecksumAddress re addr2)"

definition tryPropose :: "node_env \<Rightarrow> (consensus_state, unit) call" where
  "tryPropose env =
     followed_by state_of (\<lambda>cs.
       if votedForEpoch (cs_node cs) (cs_epoch cs) then yields ()
       else
         (case (cs_proposer cs, nd_address (cs_node cs)) of
            (Some p, Some myAddr) \<Rightarrow>
              if areSameAddrs env p myAddr then
                followed_by (attempt
                  (followed_by (createProposal env (cs_epoch cs)) (\<lambda>(proposalBlock, proposalTx).
                     handleConsensusMessage env
                       (encapsulateConsensusMessage env (ProposeContent (Some proposalBlock) (Some proposalTx))))))
                  (\<lambda>_. yields ())
              else yields ()
          | _ \<Rightarrow> yields ()))"

subsection \<open>Epochs\<close>

definition updateProposer :: "node_env \<Rightarrow> (consensus_state, unit) call" where
  "updateProposer env =
     followed_by (on_chain_node getLastNotarizedBlock) (\<lambda>lastNotarizedBlock.
       case lastNotarizedBlock of
         None \<Rightarrow> yields ()
       | Some b \<Rightarrow>
           followed_by state_of (\<lambda>cs.
           followed_by (from_option (getValidators env (cs_node cs) (b_hash b) (b_number b) (sm_finalVersion (nd_manager (cs_node cs)))))
             (\<lambda>validators cs'.
               (Accepted (), cs'\<lparr>cs_validators := validators,
                  cs_proposer := nodeProposer env (proposerSeed (Some (b_last_votes_hash b)) (cs_epoch cs')) validators\<rparr>))))"

text \<open>
  The parameters of an interval are read when it is set; \<open>epoch_ms\<close> is a positive number.
\<close>

definition setEpochTransition :: "node_env \<Rightarrow> consensus_state \<Rightarrow> consensus_state" where
  "setEpochTransition env cs =
     cs\<lparr>cs_lastEpochTransitionRenewed := ne_now env,
        cs_epochMs := numberOrZero (nodeParam env (cs_node cs) ''genesis'' ''epoch_ms''),
        cs_healthThresholdEpoch := nodeParam env (cs_node cs) ''consensus'' ''health_threshold_epoch''\<rparr>"

definition startEpochTransition :: "node_env \<Rightarrow> consensus_state \<Rightarrow> consensus_state" where
  "startEpochTransition env cs =
     (let startingTime = b_timestamp (bc_genesisBlock (nd_bc (cs_node cs)));
          epochMs = numberOrZero (nodeParam env (cs_node cs) ''genesis'' ''epoch_ms'')
      in setEpochTransition env (cs\<lparr>cs_startingTime := startingTime, cs_epoch := \<lceil>(ne_now env - startingTime) / epochMs\<rceil>\<rparr>))"

text \<open>
  One tick of the interval; \<open>ntp\<close> is the adjustment read from a time server in it, \<^const>\<open>None\<close> without
  one. Ticks do not overlap. A node whose time is earlier than the genesis block is stopped.
\<close>

definition enterEpoch :: "node_env \<Rightarrow> rat option \<Rightarrow> (consensus_state, unit) call" where
  "enterEpoch env ntp =
     followed_by (on_chain_node (tryFinalizeChain env False True)) (\<lambda>_ cs0.
       let cs = (case ntp of None \<Rightarrow> cs0 | Some a \<Rightarrow> cs0\<lparr>cs_timeAdjustment := a\<rparr>);
           currentTime = ne_now env - cs_timeAdjustment cs
       in if currentTime < cs_startingTime cs then (Accepted (), setConsensusState ConsensusStopped cs)
          else
            let cs1 = cs\<lparr>cs_epoch := \<lfloor>(currentTime - cs_startingTime cs) / cs_epochMs cs\<rfloor>\<rparr>
            in if cs_epoch cs1 > 1 then followed_by (updateProposer env) (\<lambda>_. tryPropose env) cs1 else (Accepted (), cs1))"

definition epochTick :: "node_env \<Rightarrow> rat option \<Rightarrow> (consensus_state, unit) call" where
  "epochTick env ntp =
     followed_by state_of (\<lambda>cs.
       let nd = cs_node cs
       in if (case lastBlock (nd_bc nd) of None \<Rightarrow> False | Some b \<Rightarrow> b_number b > 0) \<and>
             \<not> isConsensusHealthy env cs (lastBlock (nd_bc nd)) \<and>
             timestampExceedsThreshold (ne_now env) (cs_lastEpochTransitionRenewed cs)
               (js_mul (cs_healthThresholdEpoch cs) (JNum (cs_epochMs cs)))
          then (\<lambda>cs'. (Accepted (), setEpochTransition env cs'))
          else followed_by (attempt (enterEpoch env ntp)) (\<lambda>_. yields ()))"

subsection \<open>Catching up\<close>

fun verifyCatchUp ::
  "node_env \<Rightarrow> block option \<Rightarrow> block_info list \<Rightarrow> (block_info \<times> block) option \<Rightarrow> (consensus_state, (block_info \<times> block) option) call" where
  "verifyCatchUp env lastNotarizedBlock [] lastVerified = yields lastVerified"
| "verifyCatchUp env lastNotarizedBlock (info # infos) lastVerified =
     (case (bi_block info, bi_proposal info) of
        (Some b, Some p) \<Rightarrow>
          if (case lastNotarizedBlock of None \<Rightarrow> False | Some lnb \<Rightarrow> b_number b < b_number lnb)
          then verifyCatchUp env lastNotarizedBlock infos lastVerified
          else followed_by (attempt (on_chain_node (checkProposalBlockAndTx env b p))) (\<lambda>verdict.
                 if verdict = Thrown then yields lastVerified
                 else verifyCatchUp env lastNotarizedBlock infos
                        (if (case lastVerified of None \<Rightarrow> True | Some (i, v) \<Rightarrow> b_epoch v < b_epoch b) then Some (info, b) else lastVerified))
      | _ \<Rightarrow> yields lastVerified)"

fun checkVotes :: "node_env \<Rightarrow> transaction list \<Rightarrow> (consensus_state, unit) call" where
  "checkVotes env [] = yields ()"
| "checkVotes env (vote # votes) = followed_by (on_chain_node (checkVoteTx env vote)) (\<lambda>_. checkVotes env votes)"

definition catchUp :: "node_env \<Rightarrow> block_info list \<Rightarrow> (consensus_state, unit) call" where
  "catchUp env catchUpList =
     (if catchUpList = [] then yields ()
      else
        followed_by (on_chain_node getLastNotarizedBlock) (\<lambda>lastNotarizedBlock.
        followed_by (verifyCatchUp env lastNotarizedBlock catchUpList None) (\<lambda>lastVerified.
        followed_by (on_chain_node (tryFinalizeChain env False True)) (\<lambda>_.
          case lastVerified of
            None \<Rightarrow> yields ()
          | Some (info, b) \<Rightarrow> followed_by (tryVoteForValidBlock env b) (\<lambda>_. checkVotes env (votesOf (Some info)))))))"

end
