(* ===== verification/VoteProps.thy ===== *)
theory VoteProps
  imports ConsensusStep BlockProps
begin

text \<open>
  What a vote is checked for and what it counts for, the one vote of a node in an epoch, and the search
  for the state a vote is tried on.
\<close>

subsection \<open>Votes count for who they claim to be from\<close>

lemma toExecutable_claims: "toExecutable env now False (t\<lparr>tx_hash := h, tx_address := a\<rparr>) c = toExecutable env now False t c"
  by (simp add: toExecutable_def)

lemma op_claims:
  "operation_of (t\<lparr>tx_hash := h, tx_address := a\<rparr>) = operation_of t"
  "first_op (t\<lparr>tx_hash := h, tx_address := a\<rparr>) = first_op t"
  "tx_body (t\<lparr>tx_hash := h, tx_address := a\<rparr>) = tx_body t"
  by (simp_all add: operation_of_def first_op_def)

lemma reading_claims:
  "getBlockHashFromConsensusTx (t\<lparr>tx_hash := h, tx_address := a\<rparr>) = getBlockHashFromConsensusTx t"
  "getTimestampFromVoteTx (t\<lparr>tx_hash := h, tx_address := a\<rparr>) = getTimestampFromVoteTx t"
  "isAgainstVoteTx (t\<lparr>tx_hash := h, tx_address := a\<rparr>) = isAgainstVoteTx t"
  "getOffenseTypeFromVoteTx (t\<lparr>tx_hash := h, tx_address := a\<rparr>) = getOffenseTypeFromVoteTx t"
  "getStakeFromVoteTx (t\<lparr>tx_hash := h, tx_address := a\<rparr>) = getStakeFromVoteTx t"
  "getBlockNumberFromConsensusTx (t\<lparr>tx_hash := h, tx_address := a\<rparr>) = getBlockNumberFromConsensusTx t"
  "isProposalTx (t\<lparr>tx_hash := h, tx_address := a\<rparr>) = isProposalTx t"
  "isValidConsensusTx txe lw now c False (t\<lparr>tx_hash := h, tx_address := a\<rparr>) = isValidConsensusTx txe lw now c False t"
  unfolding getBlockHashFromConsensusTx_def getTimestampFromVoteTx_def isAgainstVoteTx_def getOffenseTypeFromVoteTx_def
    getStakeFromVoteTx_def getBlockNumberFromConsensusTx_def isProposalTx_def isValidConsensusTx_def op_claims toExecutable_claims
  by simp_all

lemma verifyVote_claims: "verifyVote env (t\<lparr>tx_hash := h, tx_address := a\<rparr>) = verifyVote env t"
  unfolding verifyVote_def dbForVote_def reading_claims toExecutable_claims by (rule refl)

definition tallyOf :: "block_info \<Rightarrow> jsval" where
  "tallyOf info = (case bi_tallied info of None \<Rightarrow> JNum 0 | Some t \<Rightarrow> t)"

lemma counted_vote:
  assumes "addVoteFor cfg bc v h (JNum s) bp = Some bp'" "infoOf bp h = Some info" "bi_block info = Some b"
    "tallyOf info = JNum q" "0 < s" "js_get (JObj (b_validators b)) [Key (tx_address v), Key ''stake''] JUndef = JNum s"
    "\<not> hasVote v h False bp"
  shows "\<exists>i'. infoOf bp' h = Some i' \<and> tallyOf i' = JNum (q + s) \<and> v \<in> set (votesOf (Some i'))"
proof -
  let ?i = "votedInfo cfg v (JNum s) info"
  have c: "voteCounts info v (JNum s)" using assms(3,5,6) by (simp add: voteCounts_def)
  have "tryUpdateNotarized cfg bc h False (putInfo h ?i bp) = Some bp'"
    using assms(1,2,7) c by (simp add: addVoteFor_def Let_def infoOrNew_def)
  from tryUpdate_marks [OF this] have "infoOf bp' h = Some ?i \<or> infoOf bp' h = Some (?i\<lparr>bi_notarized := True\<rparr>)"
    by (rule marks_infoD) simp
  moreover have "tallyOf ?i = JNum (q + s)" "v \<in> set (votesOf (Some ?i))"
    using c assms(4) by (simp_all add: votedInfo_def Let_def votesOf_def tallyOf_def)
  ultimately show ?thesis by (auto simp: tallyOf_def votesOf_def)
qed

text \<open>
  C38. A vote is checked as the transaction created from its body and signature, but it counts for the
  sender and under the hash that it claims itself. When a vote by anybody passes the checks, then the
  same body and signature with the address of any validator of the block that has the stake in the
  body, and with a hash not used yet, pass them too, and add the stake of that validator to the tally.
\<close>

theorem forged_vote_counts:
  assumes "verifyVote env voteTx nd = (Accepted True, nd1)"
    and "\<not> isProposalTx voteTx" "\<not> isAgainstVoteTx voteTx"
    and "h = getBlockHashFromConsensusTx voteTx" "infoOf (nd_bp nd1) h = Some info" "bi_block info = Some b"
    and "tallyOf info = JNum q" "getStakeFromVoteTx voteTx = JNum s" "0 < s"
    and "js_get (JObj (b_validators b)) [Key validator, Key ''stake''] JUndef = JNum s"
    and "\<forall>v \<in> set (votesOf (Some info)). tx_hash v \<noteq> freshHash"
    and "forged = voteTx\<lparr>tx_hash := freshHash, tx_address := validator\<rparr>"
    and "checkVoteTx env forged nd = (verdict, nd')" "verdict \<noteq> NoReturn"
  shows "verdict = Accepted True \<and>
    (\<exists>i'. infoOf (nd_bp nd') h = Some i' \<and> tallyOf i' = JNum (q + s) \<and> forged \<in> set (votesOf (Some i')))"
proof -
  let ?bp1 = "addToNumberToBlockSet (getBlockNumberFromConsensusTx forged) h (nd_bp nd1)"
  have e: "checkVoteTx env forged nd =
      on_pool (\<lambda>bc bp. map_option (Pair True) (addSeenVote (ne_chain env) bc forged bp)) nd1"
    using assms(1) by (simp add: checkVoteTx_def followed_by_def assms(12) verifyVote_claims)
  obtain bp' where p: "addSeenVote (ne_chain env) (nd_bc nd1) forged (nd_bp nd1) = Some bp'" "verdict = Accepted True" "nd_bp nd' = bp'"
    using assms(13,14) unfolding e by (auto simp: on_pool_def split: option.splits)
  have a: "addVoteFor (ne_chain env) (nd_bc nd1) forged h (JNum s) ?bp1 = Some bp'"
    using p(1) assms(2,3,4,8) by (simp add: addSeenVote_def assms(12) reading_claims Let_def)
  have i: "infoOf ?bp1 h = Some info" using assms(5) by simp
  have n: "\<not> hasVote forged h False ?bp1" using i assms(11) by (auto simp: hasVote_def assms(12))
  have "js_get (JObj (b_validators b)) [Key (tx_address forged), Key ''stake''] JUndef = JNum s"
    using assms(10) by (simp add: assms(12))
  from counted_vote [OF a i assms(6,7,9) this n] show ?thesis using p by simp
qed

subsection \<open>One vote in an epoch\<close>

lemma tryUpdate_fields:
  assumes "tryUpdateNotarized cfg bc h s bp = Some bp'"
  shows "bp_epochToBlock bp' = bp_epochToBlock bp" "bp_hashToInvalidBlockInfo bp' = bp_hashToInvalidBlockInfo bp"
    "bp_hashToDb bp' = bp_hashToDb bp"
  using assms
  by (auto simp: tryUpdateNotarized_def markNotarized_def putInfo_def split: option.splits if_splits dest!: updateLongest_frame)

lemma fold_tryUpdate_fields:
  "fold_opt (\<lambda>val. tryUpdateNotarized cfg bc (JStr val) False) vs bp = Some bp' \<Longrightarrow>
   bp_epochToBlock bp' = bp_epochToBlock bp \<and> bp_hashToInvalidBlockInfo bp' = bp_hashToInvalidBlockInfo bp \<and>
   bp_hashToDb bp' = bp_hashToDb bp"
  by (induction vs arbitrary: bp) (auto split: option.splits dest: tryUpdate_fields)

lemma addSeenBlock_epoch:
  assumes "addSeenBlock cfg bc b p True s bp = Some (True, bp')"
  shows "map_of (bp_epochToBlock bp') (b_epoch b) = Some (b_hash b)"
proof -
  let ?n = "\<lambda>q. addToNumberToBlockSet (JNum (of_int (b_number b))) (JStr (b_hash b)) q"
  let ?e = "\<lambda>q. q\<lparr>bp_epochToBlock := AList.update (b_epoch b) (b_hash b) (bp_epochToBlock q)\<rparr>"
  obtain bp1 bp5 bp6 where s:
    "tryUpdateNotarized cfg bc (JStr (b_hash b)) s (addToNextBlockSet b (?e (?n bp1))) = Some bp5"
    "fold_opt (\<lambda>val. tryUpdateNotarized cfg bc (JStr val) False) (nextBlocks bp5 (b_hash b)) bp5 = Some bp6"
    "bp' = updateHighestSeenBlockNumber (b_number b) bp6"
    using assms by (auto simp: addSeenBlock_def Let_def split: if_splits option.splits)
  have "bp_epochToBlock bp' = bp_epochToBlock bp5"
    using fold_tryUpdate_fields [OF s(2)] s(3) by (simp add: updateHighestSeenBlockNumber_def)
  moreover have "map_of (bp_epochToBlock bp5) (b_epoch b) = Some (b_hash b)"
    using tryUpdate_fields(1) [OF s(1)] by (simp add: addToNextBlockSet_def update_conv')
  ultimately show ?thesis by simp
qed

lemma marks_votes:
  assumes "marks cfg bc s bp bp'"
  shows "votesOf (infoOf bp' k) = votesOf (infoOf bp k)"
proof -
  consider "infoOf bp' k = infoOf bp k"
    | info where "infoOf bp k = Some info" "infoOf bp' k = Some (info\<lparr>bi_notarized := True\<rparr>)"
    using assms unfolding marks_def by blast
  then show ?thesis by cases (simp_all add: votesOf_def)
qed

lemma linked_votes: "votesOf (infoOf (linked cfg b p bp) k) = votesOf (infoOf bp k)"
proof -
  have "infoOf (linked cfg b p bp) = infoOf (putInfo (JStr (b_hash b)) (storedInfo cfg b p (infoOrNew bp (JStr (b_hash b)))) bp)"
    by (simp add: linked_def)
  moreover have "votesOf (Some (storedInfo cfg b p i)) = votesOf (Some i)" for i
    by (simp add: storedInfo_def Let_def votesOf_def)
  ultimately show ?thesis by (simp add: infoOrNew_def votesOf_def emptyInfo_def split: option.splits)
qed

lemma addSeenBlock_votes:
  "addSeenBlock cfg bc b p True s bp = Some (True, bp') \<Longrightarrow> votesOf (infoOf bp' k) = votesOf (infoOf bp k)"
  using marks_votes [OF addSeenBlock_valid] linked_votes by metis

text \<open>
  C39. A node may vote twice in an epoch. The check before a vote looks only at the block seen last in the
  epoch: after the node has voted for a block, a second block of the same epoch enters the pool unless
  the first one is notarized already, and from then on the node counts as not having voted in the
  epoch. So it votes for the second block as well, when it is one of its validators.
\<close>

theorem second_vote_in_epoch:
  assumes "votedForEpoch (cs_node cs) e" "map_of (bp_epochToBlock (nd_bp (cs_node cs))) e = Some h1"
    and "infoOf (nd_bp (cs_node cs)) (JStr h1) = Some i1" "\<not> bi_notarized i1"
    and "b_epoch b2 = e" "b_hash b2 \<noteq> h1" "\<not> votedIn (cs_node cs) (infoOf (nd_bp (cs_node cs)) (JStr (b_hash b2)))"
    and "addSeenBlock cfg bc b2 p True False (nd_bp (cs_node cs)) = Some (added, bp')"
    and "cs' = cs\<lparr>cs_node := (cs_node cs)\<lparr>nd_bp := bp'\<rparr>\<rparr>"
    and "nd_address (cs_node cs) = Some me" "info = prop_get (JObj (b_validators b2)) me" "truthy info"
  shows "added \<and> votedForBlock (cs_node cs') h1 \<and> \<not> votedForEpoch (cs_node cs') e \<and>
    tryVoteForValidBlock env b2 cs' = castVote env b2 me [(''stake'', prop_get info ''stake''), (''is_against'', JBool False)] cs'"
proof -
  let ?bp = "nd_bp (cs_node cs)"
  have added using assms(2-6,8) by (auto simp: addSeenBlock_def checkEpochToBlockMap_def Let_def split: option.splits)
  then have a: "addSeenBlock cfg bc b2 p True False ?bp = Some (True, bp')" using assms(8) by simp
  note v = addSeenBlock_votes [OF a]
  have voted: "votedIn nd' (infoOf bp' k) = votedIn (cs_node cs) (infoOf ?bp k)" if "nd_address nd' = nd_address (cs_node cs)" for nd' k
    using v that by (simp add: votedIn_def)
  have "votedIn (cs_node cs) (Some i1)" "h1 \<noteq> []"
    using assms(1,2,3) by (auto simp: votedForEpoch_def split: if_splits)
  then have one: "votedIn (cs_node cs') (infoOf bp' (JStr h1))" using voted [of "cs_node cs'"] assms(3,9) by simp
  then obtain i where "infoOf bp' (JStr h1) = Some i"
    by (cases "infoOf bp' (JStr h1)") (simp_all add: votedIn_def votesOf_def)
  then have "votedForBlock (cs_node cs') h1" using one assms(9) by (simp add: votedForBlock_def seenInfo_def)
  moreover have no: "\<not> votedForEpoch (cs_node cs') e"
    using addSeenBlock_epoch [OF a] voted [of "cs_node cs'"] assms(5,7,9) by (simp add: votedForEpoch_def)
  moreover have "tryVoteForValidBlock env b2 cs' = castVote env b2 me [(''stake'', prop_get info ''stake''), (''is_against'', JBool False)] cs'"
    using no assms(5,9-12) by (simp add: tryVoteForValidBlock_def followed_by_def state_of_def)
  ultimately show ?thesis using \<open>added\<close> by blast
qed

subsection \<open>The search for the state of a block\<close>

lemma snapChain_diverges:
  assumes "map_of (bp_hashToDb bp) (b_hash b) = None" "b_hash b \<noteq> []" "Some (b_hash b) \<noteq> map_option b_hash (lastBlock bc)"
    and "blockOf bp (JStr (b_last_hash b)) = None" "getBlockByHash cfg bc (b_hash b) = Some b"
  shows "snapChain cfg bc bp (Some b) (b_hash b) chain = None"
proof (rule ccontr)
  assume "snapChain cfg bc bp (Some b) (b_hash b) chain \<noteq> None"
  then obtain r where r: "snapChain cfg bc bp (Some b) (b_hash b) chain = Some r" by blast
  let ?P = "\<lambda>cfg' bc' bp' cur h chain r. \<not> (cfg' = cfg \<and> bc' = bc \<and> bp' = bp \<and> cur = Some b \<and> h = b_hash b)"
  have "?P cfg bc bp (Some b) (b_hash b) chain r"
    by (rule snapChain.raw_induct [where P = ?P, OF _ r]) (use assms in \<open>fastforce split: option.splits if_splits\<close>)
  then show False by simp
qed

text \<open>
  C40. A vote for a finalized block that was cleaned up and then marked as invalid makes the node hang: its
  state is searched from the block back, the block before is no more in the pool, and instead of it the
  same block is looked up again, forever. This needs any valid consensus transaction that names the
  block, from anybody.
\<close>

theorem vote_for_old_block_hangs:
  assumes "isValidConsensusTx (ne_tx env) (ne_LIGHTWEIGHT env) (ne_now env) (chainId env) False voteTx = Inr True"
    and "toExecutable (ne_tx env) (ne_now env) False voteTx (nodeParam env nd ''genesis'' ''chain_id'') = Inr (Some tx)"
    and "\<not> isAgainstVoteTx voteTx" "blockVotedFor nd (getBlockHashFromConsensusTx voteTx) = Some b"
    and "\<not> js_lt (getTimestampFromVoteTx voteTx) (JNum (b_timestamp b))"
    and "map_of (bp_hashToDb (nd_bp nd)) (b_hash b) = None" "b_hash b \<noteq> []"
    and "Some (b_hash b) \<noteq> map_option b_hash (lastBlock (nd_bc nd))"
    and "blockOf (nd_bp nd) (JStr (b_last_hash b)) = None" "getBlockByHash (ne_chain env) (nd_bc nd) (b_hash b) = Some b"
  shows "checkVoteTx env voteTx nd = (NoReturn, nd)"
  using snapChain_diverges [OF assms(6-10), of "[]"] assms(1-5)
  by (simp add: checkVoteTx_def verifyVote_def dbForVote_def getSnapDb_def followed_by_def state_of_def no_return_def)

end
