(* ===== verification/ProposalProps.thy ===== *)
theory ProposalProps
  imports VoteProps
begin

text \<open>
  What a node does with a proposal of a peer: the votes it gives itself, and what a forged proposal does
  to a block.
\<close>

subsection \<open>The votes of the node\<close>

lemma vote_body_simps:
  "prop_get (vote_tx_body b me now value) ''nonce'' = JNum (-1)"
  "prop_get (vote_tx_body b me now value) ''gas_price'' = JNum 0"
  "prop_get (vote_tx_body b me now value) ''timestamp'' = JNum now"
  by (simp_all add: vote_tx_body_def)

lemma create_body: "create txe now body sig c = Inr (Some t) \<Longrightarrow> tx_body t = json_norm body"
  by (auto simp: create_def newTransaction_def Let_def split: sum.splits bool.splits if_splits)

lemma fromTxBody_body: "fromTxBody env body c = Inr (Some t) \<Longrightarrow> tx_body t = json_norm body"
  by (auto simp: fromTxBody_def split: sum.splits bool.splits if_splits option.splits dest: create_body)

lemma createTransaction_single:
  "createTransaction env nd body = Inr (SingleTx (Some t)) \<Longrightarrow> createSingleTransaction env nd body = Inr (Some t)"
  by (auto simp: createTransaction_def split: if_splits jsval.splits sum.splits)

lemma created_vote:
  assumes "createTransaction env nd (vote_tx_body b me now value) = Inr (SingleTx (Some t))"
  shows "tx_body t = json_norm (vote_tx_body b me now value)"
proof -
  have "default_prop ''gas_price'' x (default_prop ''timestamp'' y (default_prop ''nonce'' z (vote_tx_body b me now value)))
    = vote_tx_body b me now value" for x y z
    unfolding default_prop_def vote_body_simps by (simp add: vote_body_simps)
  then have "createSingleTransaction env nd (vote_tx_body b me now value) =
      (if nd_address nd = None then Inr None
       else fromTxBody env (vote_tx_body b me now value) (nodeParam env nd ''genesis'' ''chain_id''))"
    by (simp only: createSingleTransaction_def)
  with createTransaction_single [OF assms] show ?thesis by (auto split: if_splits dest: fromTxBody_body)
qed

lemma created_vote_reads:
  assumes "createTransaction env nd (vote_tx_body b me now ((''stake'', s) # (''is_against'', JBool a) # rest)) = Inr (SingleTx (Some t))"
  shows "isAgainstVoteTx (t\<lparr>tx_extra := []\<rparr>) = a" "\<not> isProposalTx (t\<lparr>tx_extra := []\<rparr>)"
    "getBlockHashFromConsensusTx (t\<lparr>tx_extra := []\<rparr>) = JStr (b_hash b)"
  using created_vote [OF assms]
  by (auto simp: isAgainstVoteTx_def isProposalTx_def getBlockHashFromConsensusTx_def operation_of_def vote_tx_body_def js_get_def Let_def)

subsection \<open>What is sent\<close>

definition sends_only :: "(sent \<Rightarrow> bool) \<Rightarrow> (consensus_state, 'a) call \<Rightarrow> bool" where
  "sends_only P m \<longleftrightarrow> (\<forall>cs. \<exists>out. cs_sent (snd (m cs)) = cs_sent cs @ out \<and> list_all P out)"

named_theorems sends_intros "computations that send only some messages"

lemma sends_onlyD: "sends_only P m \<Longrightarrow> m cs = (v, cs') \<Longrightarrow> \<exists>out. cs_sent cs' = cs_sent cs @ out \<and> list_all P out"
  unfolding sends_only_def by (metis snd_conv)

lemma sends_only_basic [sends_intros]:
  "sends_only P (yields x)" "sends_only P throws" "sends_only P no_return" "sends_only P (rejects c)" "sends_only P state_of"
  "sends_only P (on_chain_node n)" "P msg \<Longrightarrow> sends_only P (sends msg)"
  by (simp_all add: sends_only_def yields_def throws_def no_return_def rejects_def state_of_def on_chain_node_def sends_def split: prod.splits)

lemma sends_only_followed_by [sends_intros]:
  assumes "sends_only P m" "\<And>x. sends_only P (k x)"
  shows "sends_only P (followed_by m k)"
proof (unfold sends_only_def, intro allI)
  fix cs
  obtain v cs1 where m: "m cs = (v, cs1)" by fastforce
  obtain o1 where o1: "cs_sent cs1 = cs_sent cs @ o1" "list_all P o1" using sends_onlyD [OF assms(1) m] by blast
  have "\<exists>o2. cs_sent (snd (k x cs1)) = cs_sent cs1 @ o2 \<and> list_all P o2" for x using assms(2) by (simp add: sends_only_def)
  then show "\<exists>out. cs_sent (snd (followed_by m k cs)) = cs_sent cs @ out \<and> list_all P out"
    using o1 by (cases v) (auto simp: followed_by_def m, metis list_all_append)
qed

lemma sends_only_split [sends_intros]:
  "(b \<Longrightarrow> sends_only P m) \<Longrightarrow> (\<not> b \<Longrightarrow> sends_only P n) \<Longrightarrow> sends_only P (if b then m else n)"
  "sends_only P m \<Longrightarrow> (\<And>x. opt = Some x \<Longrightarrow> sends_only P (f x)) \<Longrightarrow> sends_only P (case opt of None \<Rightarrow> m | Some x \<Rightarrow> f x)"
  "(\<And>x. sends_only P (f x)) \<Longrightarrow> sends_only P (let x = e in f x)"
  by (auto split: option.splits)

text \<open>A vote of the node for or against a block.\<close>

definition own_vote :: "node_env \<Rightarrow> block \<Rightarrow> bool \<Rightarrow> sent \<Rightarrow> bool" where
  "own_vote env b against msg \<longleftrightarrow> msg = RequestChainSegment \<or>
     (\<exists>t. msg = Broadcast (encapsulateConsensusMessage env (VoteContent t)) \<and> isAgainstVoteTx t = against \<and>
        getBlockHashFromConsensusTx t = JStr (b_hash b))"

lemma handleVote_sends [sends_intros]:
  "P RequestChainSegment \<Longrightarrow> P (Broadcast msg) \<Longrightarrow> sends_only P (handleVote env msg t)"
  unfolding handleVote_def by (intro sends_intros)

lemma handleOwnVote_sends [sends_intros]:
  "isAgainstVoteTx t = a \<Longrightarrow> getBlockHashFromConsensusTx t = JStr (b_hash b) \<Longrightarrow> sends_only (own_vote env b a) (handleOwnVote env t)"
  unfolding handleOwnVote_def Let_def by (intro sends_intros) (auto simp: own_vote_def)

lemma castVote_sends [sends_intros]:
  "sends_only (own_vote env b a) (castVote env b me ((''stake'', s) # (''is_against'', JBool a) # rest))"
proof -
  have "sends_only (own_vote env b a)
      (case createTransaction env nd (vote_tx_body b me now ((''stake'', s) # (''is_against'', JBool a) # rest)) of
         Inr (SingleTx (Some t)) \<Rightarrow> handleOwnVote env (t\<lparr>tx_extra := []\<rparr>) | _ \<Rightarrow> throws)" for nd now
    using created_vote_reads [of env nd b me now s a rest]
    by (auto intro!: sends_intros split: sum.splits created.splits option.splits)
  then show ?thesis unfolding castVote_def by (intro sends_intros)
qed

lemma tryVoteFor_sends: "sends_only (own_vote env b False) (tryVoteForValidBlock env b)"
  unfolding tryVoteForValidBlock_def Let_def by (intro sends_intros)

lemma tryVoteAgainst_sends: "sends_only (own_vote env b True) (tryVoteAgainstInvalidBlock env b)"
  unfolding tryVoteAgainstInvalidBlock_def Let_def by (intro sends_intros)

lemma tryVoteFor_voted: "votedForEpoch (cs_node cs) (b_epoch b) \<Longrightarrow> tryVoteForValidBlock env b cs = (Accepted (), cs)"
  by (simp add: tryVoteForValidBlock_def state_then yields_def)

lemma sends_only_mono: "sends_only P m \<Longrightarrow> (\<And>x. P x \<Longrightarrow> Q x) \<Longrightarrow> sends_only Q m"
  unfolding sends_only_def by (metis list.pred_mono_strong)

text \<open>Judging a proposal: a vote for the block only when it was accepted and the node has no vote in its epoch.\<close>

definition may_vote_for :: "node_env \<Rightarrow> block \<Rightarrow> transaction \<Rightarrow> node_state \<Rightarrow> bool" where
  "may_vote_for env b tx nd0 \<longleftrightarrow>
     (\<exists>nd. checkProposalBlockAndTx env b tx nd0 = (Accepted (), nd) \<and> \<not> votedForEpoch nd (b_epoch b))"

definition answer :: "node_env \<Rightarrow> consensus_message \<Rightarrow> block \<Rightarrow> bool \<Rightarrow> sent \<Rightarrow> bool" where
  "answer env msg b mayVote m \<longleftrightarrow> m = Broadcast msg \<or> own_vote env b True m \<or> own_vote env b False m \<and> mayVote"

lemma judgeProposal_sends:
  assumes "judgeProposal env msg b tx cs = (v, cs')"
  shows "\<exists>out. cs_sent cs' = cs_sent cs @ out \<and> list_all (answer env msg b (may_vote_for env b tx (cs_node cs))) out"
proof -
  obtain w nd where c: "checkProposalBlockAndTx env b tx (cs_node cs) = (w, nd)" by fastforce
  let ?cs1 = "cs\<lparr>cs_node := nd\<rparr>"
  have k: "on_chain_node (checkProposalBlockAndTx env b tx) cs = (w, ?cs1)" by (simp add: on_chain_node_def c)
  show ?thesis
  proof (cases w)
    case (Accepted u)
    let ?cs2 = "?cs1\<lparr>cs_sent := cs_sent cs @ [Broadcast msg]\<rparr>"
    have j: "tryVoteForValidBlock env b ?cs2 = (v, cs')"
      using assms by (simp add: judgeProposal_def followed_by_def attempt_def k Accepted sends_def)
    show ?thesis
    proof (cases "votedForEpoch nd (b_epoch b)")
      case True
      then have "cs_sent cs' = cs_sent cs @ [Broadcast msg]" using j tryVoteFor_voted [of ?cs2 b env] by auto
      then show ?thesis by (auto simp: answer_def)
    next
      case False
      obtain out where "cs_sent cs' = cs_sent ?cs2 @ out" "list_all (own_vote env b False) out"
        using sends_onlyD [OF tryVoteFor_sends j] by blast
      then have "cs_sent cs' = cs_sent cs @ (Broadcast msg # out)" by simp
      moreover have "may_vote_for env b tx (cs_node cs)" using c Accepted False by (auto simp: may_vote_for_def)
      then have "list_all (answer env msg b (may_vote_for env b tx (cs_node cs))) (Broadcast msg # out)"
        using \<open>list_all (own_vote env b False) out\<close> by (simp add: answer_def list_all_iff)
      ultimately show ?thesis by blast
    qed
  next
    case (Rejected code)
    have o: "sends_only (\<lambda>m. m = Broadcast msg \<or> own_vote env b True m) (opposeProposal env msg b tx)"
      unfolding opposeProposal_def by (intro sends_intros sends_only_mono [OF tryVoteAgainst_sends]) auto
    have j: "(if isVoteAgainstBlockError code then opposeProposal env msg b tx else yields ()) ?cs1 = (v, cs')"
      using assms by (simp add: judgeProposal_def followed_by_def attempt_def k Rejected)
    have "sends_only (\<lambda>m. m = Broadcast msg \<or> own_vote env b True m)
        (if isVoteAgainstBlockError code then opposeProposal env msg b tx else yields ())"
      by (intro sends_intros o)
    from sends_onlyD [OF this j] obtain out
      where "cs_sent cs' = cs_sent ?cs1 @ out" "list_all (\<lambda>m. m = Broadcast msg \<or> own_vote env b True m) out" by blast
    then show ?thesis by (auto simp: list_all_iff answer_def)
  next
    case Thrown
    then have "cs_sent cs' = cs_sent cs" using assms by (auto simp: judgeProposal_def followed_by_def attempt_def k yields_def)
    then show ?thesis by simp
  next
    case NoReturn
    then have "cs_sent cs' = cs_sent cs" using assms by (auto simp: judgeProposal_def followed_by_def attempt_def k)
    then show ?thesis by simp
  qed
qed

lemma getLastNotarized_state: "getLastNotarizedBlock nd = (v, nd') \<Longrightarrow> nd' = nd"
  by (auto simp: getLastNotarizedBlock_def state_then from_option_def throws_def yields_def split: option.splits)

lemma checkProposal_accepted:
  assumes "checkProposalBlockAndTx env b tx nd = (Accepted (), nd')"
  shows "validateAndExecuteBlockOnDb env False (Some b) ''POOL'' (Some tx) True nd = (Accepted (), nd')"
    "b_number b > 1 \<longrightarrow> b_last_hash b \<in> set (bp_longestNotarizedChainTips (nd_bp nd'))"
  using assms unfolding checkProposalBlockAndTx_def by (auto simp: accepted_simps split: if_splits)

lemma handleMessage_sends:
  assumes "handleConsensusMessage env msg cs = (v, cs')"
  shows "\<exists>out. cs_sent cs' = cs_sent cs @ out \<and>
    (list_all (\<lambda>m. m = RequestChainSegment \<or> m = Broadcast msg) out \<or>
     (\<exists>b tx. cm_content msg = ProposeContent (Some b) (Some tx) \<and> list_all (answer env msg b (may_vote_for env b tx (cs_node cs))) out))"
proof -
  let ?R = "\<lambda>m. m = RequestChainSegment \<or> m = Broadcast msg"
  have quiet: ?thesis if "cs_sent cs' = cs_sent cs" using that by simp
  have only: ?thesis if "sends_only ?R (k :: (consensus_state, unit) call)" "k cs = (v, cs')" for k
    using sends_onlyD [OF that] by blast
  show ?thesis
  proof (cases "admits env msg cs")
    case False
    then show ?thesis using assms quiet by (simp add: handleConsensusMessage_def state_then yields_def)
  next
    case admitted: True
    show ?thesis
    proof (cases "cm_content msg")
      case (VoteContent t)
      have "sends_only ?R (handleVote env msg t)" by (intro sends_intros) simp_all
      then show ?thesis using assms admitted VoteContent only by (simp add: handleConsensusMessage_def state_then)
    next
      case OtherContent
      then show ?thesis using assms admitted quiet by (simp add: handleConsensusMessage_def state_then yields_def)
    next
      case (ProposeContent bo to)
      have h: "handleProposal env msg bo to cs = (v, cs')"
        using assms admitted ProposeContent by (simp add: handleConsensusMessage_def state_then)
      obtain w nd where l: "getLastNotarizedBlock (cs_node cs) = (w, nd)" by fastforce
      have nd: "nd = cs_node cs" by (rule getLastNotarized_state [OF l])
      have l': "on_chain_node getLastNotarizedBlock cs = (w, cs)" by (simp add: on_chain_node_def l nd)
      show ?thesis
      proof (cases "\<exists>b tx. bo = Some b \<and> to = Some tx \<and> judgeProposal env msg b tx cs = (v, cs')")
        case True
        then show ?thesis using judgeProposal_sends ProposeContent by blast
      next
        case False
        then have "cs_sent cs' = cs_sent cs \<or> sends RequestChainSegment cs = (v, cs')"
          using h unfolding handleProposal_def
          by (auto simp: followed_by_def l' state_of_def throws_def yields_def
              split: verdict.splits option.splits if_splits)
        then show ?thesis using quiet only [OF sends_only_basic(7)] by blast
      qed
    qed
  qed
qed


subsection \<open>Forged proposals\<close>

definition marked_invalid :: "block \<Rightarrow> node_state \<Rightarrow> bool" where
  "marked_invalid b nd \<longleftrightarrow> infoOf (nd_bp nd) (JStr (b_hash b)) = None \<and>
     (\<exists>info. map_of (bp_hashToInvalidBlockInfo (nd_bp nd)) (JStr (b_hash b)) = Some info \<and> bi_block info = Some b)"

lemma marked_pool: "nd_bp nd' = nd_bp nd \<Longrightarrow> marked_invalid b nd' = marked_invalid b nd"
  by (simp add: marked_invalid_def)

lemma dbForVote_pool: "isAgainstVoteTx t \<Longrightarrow> nd_bp (snd (dbForVote env t c nd)) = nd_bp nd"
  by (auto simp: dbForVote_def snapshotDb_def yields_def split: option.splits prod.splits dest: createTempDb_pool)

lemma tryVote_pool: "nd_bp (snd (tryVote env tx d nd)) = nd_bp nd"
proof -
  obtain db n t where d: "d = (db, n, t)" by (cases d)
  obtain v nd' where r: "tryProposal env tx (n + 1) t db nd = (v, nd')" by fastforce
  have "nd_bp nd' = nd_bp nd" using tryProposal_pool [of env tx "n + 1" t db nd] r by simp
  then show ?thesis
    by (cases v) (simp_all add: tryVote_def d attempt_def r followed_by_def yields_def throws_def no_return_def)
qed

lemma verifyVote_pool:
  assumes "isAgainstVoteTx t"
  shows "nd_bp (snd (verifyVote env t nd)) = nd_bp nd"
proof -
  have "nd_bp (snd (followed_by (dbForVote env t c) (\<lambda>on. case on of None \<Rightarrow> yields False | Some d \<Rightarrow> tryVote env tx d) nd)) = nd_bp nd" for c tx
    using dbForVote_pool [OF assms, of env c nd] tryVote_pool
    by (auto simp: followed_by_def yields_def split: prod.splits verdict.splits option.splits)
  then show ?thesis
    by (auto simp: verifyVote_def state_then throws_def yields_def split: sum.splits bool.splits option.splits)
qed

lemma vote_against_marked:
  assumes "isAgainstVoteTx t" "\<not> isProposalTx t" "marked_invalid b nd"
  shows "marked_invalid b (snd (checkVoteTx env t nd))"
proof -
  obtain v nd1 where r: "verifyVote env t nd = (v, nd1)" by fastforce
  have "nd_bp nd1 = nd_bp nd" using verifyVote_pool [OF assms(1), of env nd] r by simp
  then have m: "marked_invalid b nd1" using marked_pool assms(3) by blast
  have "marked_invalid b (nd1\<lparr>nd_bp := addVoteAgainst t k (addToNumberToBlockSet n k (nd_bp nd1))\<rparr>)" for k n
    using m by (auto simp: marked_invalid_def addVoteAgainst_def addToNumberToBlockSet_def Let_def update_conv' infoOf_def)
  then show ?thesis using m assms(1,2)
    by (cases v) (auto simp: checkVoteTx_def followed_by_def r yields_def on_pool_def addSeenVote_def Let_def)
qed

definition marked :: "block \<Rightarrow> consensus_state \<Rightarrow> bool" where
  "marked b cs \<longleftrightarrow> marked_invalid b (cs_node cs)"

lemma keeps_chain_node: "keeps (marked_invalid b) m \<Longrightarrow> keeps (marked b) (on_chain_node m)"
  unfolding keeps_def on_chain_node_def marked_def by (auto split: prod.splits)

lemma keeps_sends: "keeps (marked b) (sends msg)"
  by (simp add: keeps_def sends_def marked_def)

lemma handleOwnVote_marked:
  assumes "isAgainstVoteTx t" "\<not> isProposalTx t"
  shows "keeps (marked b) (handleOwnVote env t)"
proof -
  have "keeps (marked_invalid b) (checkVoteTx env t)" using vote_against_marked [OF assms] by (simp add: keeps_def)
  then show ?thesis unfolding handleOwnVote_def handleVote_def Let_def by (intro keep_intros keeps_chain_node keeps_sends)
qed

lemma tryVoteAgainst_marked: "keeps (marked b) (tryVoteAgainstInvalidBlock env c)"
proof -
  have v: "keeps (marked b) (case createTransaction env nd (vote_tx_body c me now ((''stake'', s) # (''is_against'', JBool True) # rest)) of
      Inr (SingleTx (Some t)) \<Rightarrow> handleOwnVote env (t\<lparr>tx_extra := []\<rparr>) | _ \<Rightarrow> throws)" for nd me now s rest
    using created_vote_reads(1,2) [of env nd c me now s True rest] handleOwnVote_marked keeps_effects(6)
    by (auto split: sum.splits created.splits option.splits)
  have "keeps (marked_invalid b) getLastNotarizedBlock"
    using getLastNotarized_state by (auto simp: keeps_def) (metis prod.collapse)
  then show ?thesis unfolding tryVoteAgainstInvalidBlock_def castVote_def Let_def
    by (intro keep_intros keeps_chain_node v)
qed


end
