(* ===== verification/ConsensusSamples.thy ===== *)
theory ConsensusSamples
  imports ProposalProps ValidatorProps NodeSamples
begin

text \<open>
  The theorems about the consensus applied to small nodes: the node of \<open>NodeSamples\<close> with a running
  consensus, a node with several stakes, and one whose chain has three blocks.
\<close>


subsection \<open>Validators\<close>

text \<open>Two whitelisted proposers with the same stake, another validator, and an account without rights.\<close>

definition sample_stakes_root :: snode where
  "sample_stakes_root =
     SNode [(''values'', SNode
       [(''consensus'', SNode [(''proposer_whitelist'', SNode [(''a'', SLeaf (JBool True)), (''b'', SLeaf (JBool True))]),
                               (''validator_whitelist'', SNode [(''c'', SLeaf (JBool True))])]),
        (''staking'', SNode [(''consensus'', SNode (map (\<lambda>(a, t). (a, SNode [(''0'', SNode [(''expire_at'', SLeaf (JNum t))])]))
           [(''c'', 9), (''a'', 1), (''d'', 8), (''b'', 2)]))]),
        (''service_accounts'', SNode [(''staking'', SNode [(''consensus'', SNode
           (map (\<lambda>(a, s). (a, SNode [(''balance'', SLeaf (JNum s))])) [(''a|0'', 3), (''b|0'', 3), (''c|0'', 5), (''d|0'', 7)]))])])])]"

definition sample_stakes_node :: node_state where
  "sample_stakes_node = sample_state_node\<lparr>nd_manager :=
     (setRoot ''FINAL:0'' sample_stakes_root newStateManager)\<lparr>sm_finalVersion := Some ''FINAL:0''\<rparr>\<rparr>"

definition sample_stakes_env :: node_env where
  "sample_stakes_env = sample_node_env\<lparr>ne_exec := sample_env\<lparr>xe_BlockchainParams := \<lambda>category name.
     if name = ''max_num_validators'' then JNum 2 else if name = ''min_stake_for_proposer'' then JNum 1 else JNum 100\<rparr>\<rparr>"


lemma sample_candidates:
  "validatorCandidates sample_stakes_env sample_stakes_node 0 None (Some ''FINAL:0'') =
   [\<lparr>cd_address = ''c'', cd_stake = JNum 5, cd_expireAt = JNum 9, cd_proposal_right = False\<rparr>,
    \<lparr>cd_address = ''a'', cd_stake = JNum 3, cd_expireAt = JNum 1, cd_proposal_right = True\<rparr>,
    \<lparr>cd_address = ''b'', cd_stake = JNum 3, cd_expireAt = JNum 2, cd_proposal_right = True\<rparr>]"
  by code_simp

lemma sample_stakes_facts:
  "getValidators sample_stakes_env sample_stakes_node (block_name 0) 0 None =
     Some (map (\<lambda>a. (a, JObj [(''stake'', JNum 3), (''proposal_right'', JBool True)])) [''b'', ''a''])"
  "versionOfBlock sample_stakes_node (block_name 0) = Some ''FINAL:0''"
  "nodeParamAt sample_stakes_env sample_stakes_node ''consensus'' ''max_num_validators'' 0 None = JNum 2"
  "distinct (map fst (dict_of (js_or (getValueFromStateRoot (rootOf sample_stakes_node (Some ''FINAL:0''))
     (getStakingServicePath ''consensus'')) (JObj []))))"
  by code_simp+



subsection \<open>Votes\<close>

definition sample_vote :: "string \<Rightarrow> block \<Rightarrow> rat \<Rightarrow> transaction" where
  "sample_vote voter b stk =
     \<lparr>tx_body = vote_tx_body b voter 7 [(''stake'', JNum stk), (''is_against'', JBool False)],
      tx_signature = JStr ''sig'', tx_hash = ''0xs'', tx_address = voter, tx_extra = []\<rparr>"

text \<open>Everything is signed by \<open>x\<close>, who is no validator.\<close>

definition sample_stranger_env :: node_env where
  "sample_stranger_env = sample_node_env\<lparr>ne_tx := sample_tx_env\<lparr>te_getAddressFromSignature := \<lambda>_ _ _. ''x''\<rparr>\<rparr>"

text \<open>
  A small node with a block on the genesis block in its pool, whose database is a copy of the final state.
\<close>

definition lean_root :: snode where
  "lean_root =
     SNode [(''rules'', SNode [(''.rule'', SNode [(''write'', SLeaf (JBool True))])]),
            (''owners'', SNode [(''.owner'', SNode [(''owners'', SNode [(''*'', full_permissions)])])]),
            (''values'', SNode [(''accounts'', SNode [(''a'', SNode [(''balance'', SLeaf (JNum 1))])]), (''blockchain_params'', sample_params)])]"

definition lean_manager :: state_manager where
  "lean_manager = (setRoot ''F'' lean_root newStateManager)\<lparr>sm_finalVersion := Some ''F''\<rparr>"

definition lean_db :: db_state where
  "lean_db = \<lparr>db_exec = \<lparr>es_root = emptySNode, es_opResults = [], es_events = []\<rparr>, db_stateVersion = Some ''F'',
     db_backup = None, db_manager = newStateManager, db_lastBlockNumber = 0, db_now = 7\<rparr>"

definition lean_block :: "nat \<Rightarrow> block" where
  "lean_block n = first_block n [] [] 0"

definition lean_pool :: "block list \<Rightarrow> db_state block_pool" where
  "lean_pool bs =
     foldl (\<lambda>bp b. case addSeenBlock sample_chain_config (sample_blockchain\<lparr>bc_chain := [lean_block 0]\<rparr>) b None True False bp of
              Some (r, bp') \<Rightarrow> bp' | None \<Rightarrow> bp) (newBlockPool sample_blockchain) bs"

definition lean_node :: "block list \<Rightarrow> block list \<Rightarrow> node_state" where
  "lean_node chain bs =
     \<lparr>nd_bc = sample_blockchain\<lparr>bc_chain := chain\<rparr>,
      nd_bp = addToHashToDbMap (b_hash (last chain)) lean_db (lean_pool bs),
      nd_tp = newTransactionPool False, nd_manager = lean_manager, nd_db = lean_db, nd_status = SERVING, nd_address = Some ''a''\<rparr>"

definition stranger_vote :: transaction where
  "stranger_vote = sample_vote ''x'' (lean_block 0) 3"


text \<open>A vote for a block whose database the node has, in its steps.\<close>

definition returns :: "'a verdict \<Rightarrow> bool" where
  "returns v = (case v of Accepted _ \<Rightarrow> True | _ \<Rightarrow> False)"

definition vote_copy :: "node_env \<Rightarrow> block \<Rightarrow> node_state \<Rightarrow> db_state option \<times> node_state" where
  "vote_copy env b nd =
     (case map_of (bp_hashToDb (nd_bp nd)) (b_hash b) of
        None \<Rightarrow> (None, nd) | Some snap \<Rightarrow> snapshotDb env (db_stateVersion snap) (b_number b) nd)"

definition vote_try :: "node_env \<Rightarrow> transaction \<Rightarrow> block \<Rightarrow> node_state \<Rightarrow> bool" where
  "vote_try env tx b nd =
     (case vote_copy env b nd of
        (None, nd1) \<Rightarrow> False
      | (Some db, nd1) \<Rightarrow> returns (fst (tryProposal env tx (b_number b + 1) (b_timestamp b) db nd1)))"

lemma vote_for_known_block:
  assumes "isValidConsensusTx (ne_tx env) (ne_LIGHTWEIGHT env) (ne_now env) (chainId env) False t = Inr True"
    and "blockVotedFor nd (getBlockHashFromConsensusTx t) = Some b" "\<not> js_lt (getTimestampFromVoteTx t) (JNum (b_timestamp b))"
    and "toExecutable (ne_tx env) (ne_now env) False t (nodeParam env nd ''genesis'' ''chain_id'') = Inr (Some tx)"
    and "\<not> isAgainstVoteTx t" "b_hash b \<noteq> []" "vote_try env tx b nd"
  shows "\<exists>nd'. verifyVote env t nd = (Accepted True, nd') \<and> nd_bp nd' = nd_bp nd \<and> nd_bc nd' = nd_bc nd"
proof -
  obtain snap db nd1 where s: "map_of (bp_hashToDb (nd_bp nd)) (b_hash b) = Some snap"
    "snapshotDb env (db_stateVersion snap) (b_number b) nd = (Some db, nd1)"
    "returns (fst (tryProposal env tx (b_number b + 1) (b_timestamp b) db nd1))"
    using assms(7) by (auto simp: vote_try_def vote_copy_def split: option.splits prod.splits)
  then obtain r nd2 where t: "tryProposal env tx (b_number b + 1) (b_timestamp b) db nd1 = (Accepted r, nd2)"
    by (cases "tryProposal env tx (b_number b + 1) (b_timestamp b) db nd1") (auto simp: returns_def split: verdict.splits)
  have "nd_bp nd1 = nd_bp nd \<and> nd_bc nd1 = nd_bc nd"
    using s(2) by (auto simp: snapshotDb_def createTempDb_def split: prod.splits option.splits)
  moreover have "nd_bp nd2 = nd_bp nd1 \<and> nd_bc nd2 = nd_bc nd1"
    using t by (auto simp: tryProposal_def Let_def split: prod.splits outcome.splits if_splits)
  moreover have c: "snapChain (ne_chain env) (nd_bc nd) (nd_bp nd) (Some b) (b_hash b) [] = Some (Some b, b_hash b, [])"
    using s(1) by (subst snapChain.simps) simp
  have "dbForVote env t b nd = (Accepted (Some (db, b_number b, b_timestamp b)), nd1)"
    using s assms(5,6) c
    by (simp add: dbForVote_def getSnapDb_def followed_by_def state_of_def yields_def)
  then have "verifyVote env t nd = (Accepted True, nd2)" using assms(1-4) t
    by (simp add: verifyVote_def followed_by_def state_of_def tryVote_def attempt_def yields_def)
  ultimately show ?thesis by simp
qed

definition tx_of :: "js_error + transaction option \<Rightarrow> transaction" where
  "tx_of r = (case r of Inr (Some t) \<Rightarrow> t | _ \<Rightarrow> sample_block_tx)"

definition genesis_node :: node_state where
  "genesis_node = lean_node [lean_block 0] [lean_block 0]"

definition stranger_tx :: transaction where
  "stranger_tx = tx_of (toExecutable (ne_tx sample_stranger_env) 7 False stranger_vote
     (nodeParam sample_stranger_env genesis_node ''genesis'' ''chain_id''))"

definition forged_vote :: transaction where
  "forged_vote = stranger_vote\<lparr>tx_hash := ''0xf'', tx_address := ''a''\<rparr>"

definition genesis_info :: block_info where
  "genesis_info = (case infoOf (nd_bp genesis_node) (JStr ''0x0'') of Some i \<Rightarrow> i | None \<Rightarrow> emptyInfo)"

lemma stranger_checks:
  "isValidConsensusTx (ne_tx sample_stranger_env) (ne_LIGHTWEIGHT sample_stranger_env) (ne_now sample_stranger_env)
     (chainId sample_stranger_env) False stranger_vote = Inr True"
  "blockVotedFor genesis_node (getBlockHashFromConsensusTx stranger_vote) = Some (lean_block 0)"
  "\<not> js_lt (getTimestampFromVoteTx stranger_vote) (JNum (b_timestamp (lean_block 0)))"
  "toExecutable (ne_tx sample_stranger_env) (ne_now sample_stranger_env) False stranger_vote
     (nodeParam sample_stranger_env genesis_node ''genesis'' ''chain_id'') = Inr (Some stranger_tx)"
  "\<not> isAgainstVoteTx stranger_vote" "b_hash (lean_block 0) \<noteq> []"
  by code_simp+

lemma stranger_runs: "vote_try sample_stranger_env stranger_tx (lean_block 0) genesis_node"
  by code_simp

lemma stranger_facts:
  "\<not> isProposalTx stranger_vote" "getBlockHashFromConsensusTx stranger_vote = JStr ''0x0''"
  "infoOf (nd_bp genesis_node) (JStr ''0x0'') = Some genesis_info" "bi_block genesis_info = Some (lean_block 0)"
  "tallyOf genesis_info = JNum 0" "getStakeFromVoteTx stranger_vote = JNum 3"
  "js_get (JObj (b_validators (lean_block 0))) [Key ''a'', Key ''stake''] JUndef = JNum 3"
  "\<forall>v \<in> set (votesOf (Some genesis_info)). tx_hash v \<noteq> ''0xf''"
  "addSeenVote sample_chain_config (nd_bc genesis_node) forged_vote
     (addToNumberToBlockSet (getBlockNumberFromConsensusTx forged_vote) (JStr ''0x0'') (nd_bp genesis_node)) \<noteq> None"
  "addSeenVote sample_chain_config (nd_bc genesis_node) forged_vote (nd_bp genesis_node) \<noteq> None"
  by code_simp+

theorem forged_vote_counts_witness:
  "\<exists>nd'. checkVoteTx sample_stranger_env forged_vote genesis_node = (Accepted True, nd') \<and>
     (\<exists>i. infoOf (nd_bp nd') (JStr ''0x0'') = Some i \<and> tallyOf i = JNum (0 + 3) \<and> forged_vote \<in> set (votesOf (Some i)))"
proof -
  obtain nd1 where nd1: "verifyVote sample_stranger_env stranger_vote genesis_node = (Accepted True, nd1)"
    "nd_bp nd1 = nd_bp genesis_node" "nd_bc nd1 = nd_bc genesis_node"
    using vote_for_known_block [OF stranger_checks stranger_runs] by blast
  obtain verdict nd' where r: "checkVoteTx sample_stranger_env forged_vote genesis_node = (verdict, nd')" by fastforce
  have c: "ne_chain sample_stranger_env = sample_chain_config" by (simp add: sample_stranger_env_def sample_node_env_def)
  have "verdict \<noteq> NoReturn"
    using r nd1 stranger_facts(10)
    by (auto simp: checkVoteTx_def followed_by_def forged_vote_def verifyVote_claims on_pool_def c)
  then have "verdict = Accepted True \<and>
    (\<exists>i. infoOf (nd_bp nd') (JStr ''0x0'') = Some i \<and> tallyOf i = JNum (0 + 3) \<and> forged_vote \<in> set (votesOf (Some i)))"
    by (rule forged_vote_counts [OF nd1(1) stranger_facts(1) stranger_checks(5) stranger_facts(2) [symmetric] _ stranger_facts(4-6) _
          stranger_facts(7,8) forged_vote_def r, rotated 2]) (simp_all add: nd1(2) stranger_facts(3))
  then show ?thesis using r by blast
qed

subsection \<open>Two votes in an epoch\<close>

definition sample_consensus :: "node_state \<Rightarrow> consensus_state" where
  "sample_consensus nd =
     \<lparr>cs_node = nd, cs_state = ConsensusRunning, cs_stateChangedBlockNumber = 0, cs_epoch = 1, cs_proposer = Some ''a'',
      cs_validators = [], cs_cache = [], cs_startingTime = 0, cs_timeAdjustment = 0, cs_epochMs = 3000,
      cs_healthThresholdEpoch = JNum 10, cs_lastEpochTransitionRenewed = 0, cs_sent = []\<rparr>"

text \<open>A node that has voted for the first of two blocks of an epoch, whose stake is a third of all.\<close>

definition voted_node :: node_state where
  "voted_node =
     genesis_node\<lparr>nd_bp :=
       (case addSeenBlock sample_chain_config (nd_bc genesis_node) (pool_block 1) None True False (nd_bp genesis_node) of
          Some (r, bp) \<Rightarrow>
            (case addSeenVote sample_chain_config (nd_bc genesis_node) (pool_vote ''a'' 1 ''0xv'') bp of Some bp' \<Rightarrow> bp' | None \<Rightarrow> bp)
        | None \<Rightarrow> nd_bp genesis_node)\<rparr>"

definition other_block :: block where
  "other_block = (pool_block 1)\<lparr>b_hash := ''other''\<rparr>"

definition voted_info :: block_info where
  "voted_info = (case infoOf (nd_bp voted_node) (JStr ''0x1'') of Some i \<Rightarrow> i | None \<Rightarrow> emptyInfo)"

definition other_seen :: "bool \<times> db_state block_pool" where
  "other_seen =
     (case addSeenBlock sample_chain_config (nd_bc genesis_node) other_block None True False (nd_bp voted_node) of
        Some r \<Rightarrow> r | None \<Rightarrow> (False, nd_bp voted_node))"

lemma voted_facts:
  "votedForEpoch voted_node 1" "map_of (bp_epochToBlock (nd_bp voted_node)) 1 = Some ''0x1''"
  "infoOf (nd_bp voted_node) (JStr ''0x1'') = Some voted_info" "\<not> bi_notarized voted_info"
  "b_epoch other_block = 1" "b_hash other_block \<noteq> ''0x1''" "\<not> votedIn voted_node (infoOf (nd_bp voted_node) (JStr (b_hash other_block)))"
  "addSeenBlock sample_chain_config (nd_bc genesis_node) other_block None True False (nd_bp voted_node) = Some (fst other_seen, snd other_seen)"
  "nd_address voted_node = Some ''a''" "truthy (prop_get (JObj (b_validators other_block)) ''a'')"
  by code_simp+

lemma consensus_node [simp]: "cs_node (sample_consensus nd) = nd"
  by (simp add: sample_consensus_def)

theorem second_vote_in_epoch_witness:
  "fst other_seen \<and> votedForBlock (voted_node\<lparr>nd_bp := snd other_seen\<rparr>) ''0x1'' \<and>
   \<not> votedForEpoch (voted_node\<lparr>nd_bp := snd other_seen\<rparr>) 1"
proof -
  let ?cs = "sample_consensus voted_node"
  let ?cs' = "?cs\<lparr>cs_node := (cs_node ?cs)\<lparr>nd_bp := snd other_seen\<rparr>\<rparr>"
  have "fst other_seen \<and> votedForBlock (cs_node ?cs') ''0x1'' \<and> \<not> votedForEpoch (cs_node ?cs') 1 \<and>
    tryVoteForValidBlock sample_node_env other_block ?cs' =
      castVote sample_node_env other_block ''a''
        [(''stake'', prop_get (prop_get (JObj (b_validators other_block)) ''a'') ''stake''), (''is_against'', JBool False)] ?cs'"
    by (rule second_vote_in_epoch [where cs = ?cs and cfg = sample_chain_config and bc = "nd_bc genesis_node" and p = None,
          OF _ _ _ voted_facts(4,5,6) _ _ refl _ refl voted_facts(10)])
       (simp_all add: voted_facts(1-3,7,9) voted_facts(8) [simplified])
  then show ?thesis by simp
qed

subsection \<open>A vote for an old block\<close>

definition old_block_node :: node_state where
  "old_block_node =
     (lean_node [lean_block 0, lean_block 1, lean_block 2] [])
       \<lparr>nd_bp := addToInvalidBlockInfoMap (lean_block 1) None (newBlockPool sample_blockchain)\<rparr>"

definition old_block_vote :: transaction where
  "old_block_vote = sample_vote ''x'' (lean_block 1) 3"

definition old_block_tx :: transaction where
  "old_block_tx = tx_of (toExecutable (ne_tx sample_stranger_env) 7 False old_block_vote
     (nodeParam sample_stranger_env old_block_node ''genesis'' ''chain_id''))"

lemma old_block_facts:
  "isValidConsensusTx (ne_tx sample_stranger_env) (ne_LIGHTWEIGHT sample_stranger_env) (ne_now sample_stranger_env)
     (chainId sample_stranger_env) False old_block_vote = Inr True"
  "toExecutable (ne_tx sample_stranger_env) (ne_now sample_stranger_env) False old_block_vote
     (nodeParam sample_stranger_env old_block_node ''genesis'' ''chain_id'') = Inr (Some old_block_tx)"
  "\<not> isAgainstVoteTx old_block_vote"
  "blockVotedFor old_block_node (getBlockHashFromConsensusTx old_block_vote) = Some (lean_block 1)"
  "\<not> js_lt (getTimestampFromVoteTx old_block_vote) (JNum (b_timestamp (lean_block 1)))"
  "map_of (bp_hashToDb (nd_bp old_block_node)) (b_hash (lean_block 1)) = None"
  "b_hash (lean_block 1) \<noteq> []"
  "Some (b_hash (lean_block 1)) \<noteq> map_option b_hash (lastBlock (nd_bc old_block_node))"
  "blockOf (nd_bp old_block_node) (JStr (b_last_hash (lean_block 1))) = None"
  "getBlockByHash (ne_chain sample_stranger_env) (nd_bc old_block_node) (b_hash (lean_block 1)) = Some (lean_block 1)"
  by code_simp+

theorem vote_for_old_block_hangs_witness:
  "checkVoteTx sample_stranger_env old_block_vote old_block_node = (NoReturn, old_block_node)"
  by (rule vote_for_old_block_hangs [OF old_block_facts])

subsection \<open>A forged proposal\<close>

definition junk_tx :: transaction where
  "junk_tx = \<lparr>tx_body = JObj [], tx_signature = JStr [], tx_hash = ''0xj'', tx_address = [], tx_extra = []\<rparr>"

definition propose_message :: "block \<Rightarrow> transaction \<Rightarrow> consensus_message" where
  "propose_message b tx = \<lparr>cm_content = ProposeContent (Some b) (Some tx), cm_consensusProtoVer = Some ''1.0.0''\<rparr>"

lemma cm_content_propose: "cm_content (propose_message b tx) = ProposeContent (Some b) (Some tx)"
  by (simp add: propose_message_def)

definition junk_run :: "unit verdict \<times> consensus_state" where
  "junk_run = handleConsensusMessage sample_node_env (propose_message (lean_block 1) junk_tx) (sample_consensus genesis_node)"

lemma junk_facts:
  "admits sample_node_env (propose_message (lean_block 1) junk_tx) (sample_consensus genesis_node)"
  "latestTip (nd_bp genesis_node) (bp_longestNotarizedChainTips (nd_bp genesis_node)) (lastBlock (nd_bc genesis_node)) = Some (Some (lean_block 0))"
  "b_number (lean_block 1) \<le> b_number (lean_block 0) + 1" "tracked_of (nd_tp genesis_node) (tx_hash junk_tx) = None"
  "infoOf (nd_bp genesis_node) (JStr (b_hash (lean_block 1))) = None"
  "map_of (bp_hashToInvalidBlockInfo (nd_bp genesis_node)) (JStr (b_hash (lean_block 1))) = None"
  "\<not> hasSeenBlock (nd_bp genesis_node) (b_hash (parseBlock (cc_block_env (ne_chain sample_node_env)) (lean_block 1)))"
  "isValidConsensusTx (ne_tx sample_node_env) (ne_LIGHTWEIGHT sample_node_env) (ne_now sample_node_env) (chainId sample_node_env) False junk_tx
     = Inr False"
  by code_simp+


subsection \<open>A vote of the node\<close>

text \<open>
  The last finalized block has another hash than the genesis block in the pool, and its database is
  there. A proposal gives its hash to the genesis block, which the node knows: it votes for the hash.
\<close>

definition final_block :: block where
  "final_block = (lean_block 1)\<lparr>b_hash := ''z''\<rparr>"

definition known_block :: block where
  "known_block = (lean_block 0)\<lparr>b_hash := ''z''\<rparr>"

definition voting_node :: node_state where
  "voting_node = lean_node [lean_block 0, final_block] [lean_block 0]"

definition ballot_of :: "js_error + created \<Rightarrow> transaction" where
  "ballot_of r = (case r of Inr (SingleTx (Some t)) \<Rightarrow> t | _ \<Rightarrow> sample_block_tx)"

definition created_ballot :: transaction where
  "created_ballot = ballot_of (createTransaction sample_node_env voting_node
     (vote_tx_body known_block ''a'' 7 [(''stake'', JNum 3), (''is_against'', JBool False)]))"

definition ballot :: transaction where
  "ballot = created_ballot\<lparr>tx_extra := []\<rparr>"

definition ballot_tx :: transaction where
  "ballot_tx = tx_of (toExecutable (ne_tx sample_node_env) 7 False ballot (nodeParam sample_node_env voting_node ''genesis'' ''chain_id''))"

definition ballot_message :: consensus_message where
  "ballot_message = encapsulateConsensusMessage sample_node_env (VoteContent ballot)"

lemma ballot_checks:
  "isValidConsensusTx (ne_tx sample_node_env) (ne_LIGHTWEIGHT sample_node_env) (ne_now sample_node_env) (chainId sample_node_env) False ballot = Inr True"
  "blockVotedFor voting_node (getBlockHashFromConsensusTx ballot) = Some final_block"
  "\<not> js_lt (getTimestampFromVoteTx ballot) (JNum (b_timestamp final_block))"
  "toExecutable (ne_tx sample_node_env) (ne_now sample_node_env) False ballot
     (nodeParam sample_node_env voting_node ''genesis'' ''chain_id'') = Inr (Some ballot_tx)"
  "\<not> isAgainstVoteTx ballot" "b_hash final_block \<noteq> []"
  by code_simp+

lemma ballot_runs: "vote_try sample_node_env ballot_tx final_block voting_node"
  by code_simp

lemma ballot_facts:
  "createTransaction sample_node_env voting_node
     (vote_tx_body known_block ''a'' (ne_now sample_node_env) [(''stake'', JNum 3), (''is_against'', JBool False)]) = Inr (SingleTx (Some created_ballot))"
  "prop_get (JObj (b_validators known_block)) ''a'' = JObj [(''stake'', JNum 3), (''proposal_right'', JBool True)]"
  "\<not> votedForEpoch voting_node (b_epoch known_block)" "nd_address voting_node = Some ''a''"
  "tracked_of (nd_tp voting_node) (tx_hash ballot) = None"
  "\<not> js_lt (JNum (of_int (bp_heighestSeenBlockNumber (nd_bp voting_node)))) (getBlockNumberFromConsensusTx ballot)"
  "addSeenVote sample_chain_config (nd_bc voting_node) ballot (nd_bp voting_node) \<noteq> None"
  "admits sample_node_env ballot_message (sample_consensus voting_node)"
  by code_simp+

lemma known_facts:
  "admits sample_node_env (propose_message known_block junk_tx) (sample_consensus voting_node)"
  "latestTip (nd_bp voting_node) (bp_longestNotarizedChainTips (nd_bp voting_node)) (lastBlock (nd_bc voting_node)) = Some (Some final_block)"
  "b_number known_block \<le> b_number final_block + 1" "tracked_of (nd_tp voting_node) (tx_hash junk_tx) = None"
  "\<not> hasSeenBlock (nd_bp voting_node) (b_hash known_block)"
  "hasSeenBlock (nd_bp voting_node) (b_hash (parseBlock (cc_block_env (ne_chain sample_node_env)) known_block))"
  "\<not> b_number known_block > 1"
  by code_simp+

lemma admits_sent: "admits env msg (cs\<lparr>cs_node := nd, cs_sent := out\<rparr>) = admits env msg cs" "admits env msg (cs\<lparr>cs_sent := out\<rparr>) = admits env msg cs"
  by (simp_all add: admits_def isRunning_def)

lemma ballot_cast:
  "\<exists>nd'. castVote sample_node_env known_block ''a'' [(''stake'', JNum 3), (''is_against'', JBool False)]
     ((sample_consensus voting_node)\<lparr>cs_sent := out\<rparr>)
   = (Accepted (), (sample_consensus voting_node)\<lparr>cs_node := nd', cs_sent := out @ [Broadcast ballot_message]\<rparr>)"
proof -
  obtain nd1 where nd1: "verifyVote sample_node_env ballot voting_node = (Accepted True, nd1)"
    "nd_bp nd1 = nd_bp voting_node" "nd_bc nd1 = nd_bc voting_node"
    using vote_for_known_block [OF ballot_checks ballot_runs] by blast
  obtain bp where bp: "addSeenVote sample_chain_config (nd_bc voting_node) ballot (nd_bp voting_node) = Some bp"
    using ballot_facts(7) by blast
  have c: "ne_chain sample_node_env = sample_chain_config" by (simp add: sample_node_env_def)
  have "checkVoteTx sample_node_env ballot voting_node = (Accepted True, nd1\<lparr>nd_bp := bp\<rparr>)"
    by (simp add: checkVoteTx_def followed_by_def nd1 on_pool_def c bp)
  then show ?thesis
    using ballot_facts
    by (intro exI [of _ "nd1\<lparr>nd_bp := bp\<rparr>"]) (simp add: castVote_def followed_by_def state_of_def ballot_def [symmetric] handleOwnVote_def Let_def
        ballot_message_def [symmetric] admits_sent handleVote_def on_chain_node_def sends_def)
qed

definition known_run :: "unit verdict \<times> consensus_state" where
  "known_run = handleConsensusMessage sample_node_env (propose_message known_block junk_tx) (sample_consensus voting_node)"

lemma known_run_sent: "cs_sent (snd known_run) = [] @ [Broadcast (propose_message known_block junk_tx), Broadcast ballot_message]"
proof -
  let ?cs = "sample_consensus voting_node" and ?msg = "propose_message known_block junk_tx"
  have l: "getLastNotarizedBlock voting_node = (Accepted (Some final_block), voting_node)"
    by (simp add: getLastNotarizedBlock_def followed_by_def state_of_def from_option_def yields_def known_facts(2))
  have check: "checkProposalBlockAndTx sample_node_env known_block junk_tx voting_node = (Accepted (), voting_node)"
    using known_facts(6,7)
    by (simp add: checkProposalBlockAndTx_def validateAndExecuteBlockOnDb_def Let_def followed_by_def state_of_def yields_def)
  have s: "?cs\<lparr>cs_node := voting_node\<rparr> = ?cs" "?cs\<lparr>cs_node := voting_node, cs_sent := out\<rparr> = ?cs\<lparr>cs_sent := out\<rparr>"
      "cs_sent ?cs = []" for out by (simp_all add: sample_consensus_def)
  obtain nd' where "tryVoteForValidBlock sample_node_env known_block (?cs\<lparr>cs_sent := [Broadcast ?msg]\<rparr>)
      = (Accepted (), ?cs\<lparr>cs_node := nd', cs_sent := [Broadcast ?msg] @ [Broadcast ballot_message]\<rparr>)"
    using ballot_cast [of "[Broadcast ?msg]"] ballot_facts(2-4)
    by (auto simp: tryVoteForValidBlock_def followed_by_def state_of_def)
  then show ?thesis
    using known_facts(1-5) l check
    by (simp add: s known_run_def handleConsensusMessage_def followed_by_def state_of_def handleProposal_def cm_content_propose
        on_chain_node_def judgeProposal_def attempt_def sends_def)
qed


end
