(* ===== verification/Spec2Isabelle.thy ===== *)
theory Spec2Isabelle
  imports RadixMerkle PathUtil TxSelection MatchProps ConfigProps RuleUtil WriteProps NodeSamples ValidatorProps ProposalProps ConsensusSamples
begin

text \<open>
  A verification development for the AIN blockchain node (header to be completed).
\<close>

end
